(* ===== verification/Prelude.thy ===== *)
theory Prelude
  imports Main "HOL-Library.Word" "HOL-Library.Multiset" "HOL-Library.List_Lexorder"
    "HOL-Library.Char_ord" "HOL-Library.Product_Lexorder"
begin

text \<open>
  What every theory of the development shares: the names of the machine types of the Rust code,
  the arithmetic of its standard library (saturating and wrapping integers, \<open>Duration\<close>),
  the byte-string helpers the code calls (\<open>starts_with\<close>, \<open>contains\<close>,
  \<open>to_ascii_lowercase\<close>, \<open>split\<close>, \<open>format!\<close> of a number) and the iterator
  methods with a defined tie-breaking rule (\<open>min_by_key\<close>, \<open>position\<close>).

  Strings are HOL strings: the list of the UTF-8 bytes of the Rust \<open>String\<close>, whose
  lexicographic order is the one of \<open>str::cmp\<close>.  A \<open>u64\<close> whose arithmetic can
  overflow is a \<open>64 word\<close> (release builds wrap); \<open>usize\<close> counts are \<open>nat\<close>;
  an \<open>i64\<close> row id is an \<open>int\<close>.
\<close>

named_theorems word_nat \<open>reading word arithmetic as arithmetic on natural numbers\<close>
named_theorems parse_defs \<open>printers and parsers of the enumerations\<close>

type_synonym u8 = "8 word"
type_synonym u16 = "16 word"
type_synonym u32 = "32 word"
type_synonym u64 = "64 word"

section \<open>Durations\<close>

text \<open>A \<open>std::time::Duration\<close> is a number of nanoseconds; its seconds fit a \<open>u64\<close>.
  The operator \<open>+\<close> panics when the seconds overflow, in every build.\<close>

type_synonym duration = nat

definition duration_max :: duration where
  "duration_max = (2 ^ 64 - 1) * 10 ^ 9 + 999999999"

definition duration_add :: "duration \<Rightarrow> duration \<Rightarrow> duration option" where
  "duration_add a b = (if a + b \<le> duration_max then Some (a + b) else None)"

definition from_secs :: "nat \<Rightarrow> duration" where
  "from_secs n = n * 10 ^ 9"

definition from_millis :: "nat \<Rightarrow> duration" where
  "from_millis n = n * 10 ^ 6"

definition as_secs :: "duration \<Rightarrow> u64" where
  "as_secs d = of_nat (d div 10 ^ 9)"

definition as_millis_u64 :: "duration \<Rightarrow> u64" where
  "as_millis_u64 d = of_nat (d div 10 ^ 6)"

lemma duration_add_eq_None: "duration_add a b = None \<longleftrightarrow> duration_max < a + b"
  by (auto simp: duration_add_def)

lemma duration_add_eq_Some: "duration_add a b = Some c \<longleftrightarrow> c = a + b \<and> a + b \<le> duration_max"
  by (auto simp: duration_add_def)

lemma as_secs_from_secs [simp]: "n < 2 ^ 64 \<Longrightarrow> unat (as_secs (from_secs n)) = n"
  by (simp add: as_secs_def from_secs_def unat_of_nat)

section \<open>Saturating and wrapping integers\<close>

definition sat_add :: "'a::len word \<Rightarrow> 'a word \<Rightarrow> 'a word" where
  "sat_add a b = (if unat a + unat b < 2 ^ LENGTH('a) then a + b else - 1)"

definition sat_sub :: "'a::len word \<Rightarrow> 'a word \<Rightarrow> 'a word" where
  "sat_sub a b = (if b \<le> a then a - b else 0)"

definition sat_mul :: "'a::len word \<Rightarrow> 'a word \<Rightarrow> 'a word" where
  "sat_mul a b = (if unat a * unat b < 2 ^ LENGTH('a) then a * b else - 1)"

lemma unat_u64_less: "unat (w :: u64) < 2 ^ 64"
  using unsigned_less[of w] by simp

lemma sint_u64_small:
  fixes w :: u64
  assumes "unat w < 2 ^ 63"
  shows "sint w = int (unat w)"
proof -
  have u: "uint w = int (unat w)" by (rule uint_nat)
  have "int (unat w) < int (2 ^ 63)" using assms by (simp only: of_nat_less_iff)
  then have "uint w < 2 ^ 63" "0 \<le> uint w" unfolding u by simp_all
  then have "signed_take_bit 63 (uint w) = uint w" 
    by (intro signed_take_bit_int_eq_self order_trans[OF _ \<open>0 \<le> uint w\<close>]) simp_all
  then show ?thesis by (simp add: sint_uint)
qed

lemma unat_of_int_u64: "0 \<le> i \<Longrightarrow> i < 2 ^ 64 \<Longrightarrow> unat (of_int i :: u64) = nat i"
  by (simp add: unat_eq_nat_uint uint_word_of_int_eq take_bit_int_eq_self)

lemma unat_add_nowrap [word_nat]:
  fixes a b :: "'a::len word"
  shows "unat a + unat b < 2 ^ LENGTH('a) \<Longrightarrow> unat (a + b) = unat a + unat b"
  by (simp add: unat_word_ariths)

lemma unat_mult_nowrap [word_nat]:
  fixes a b :: "'a::len word"
  shows "unat a * unat b < 2 ^ LENGTH('a) \<Longrightarrow> unat (a * b) = unat a * unat b"
  by (simp add: unat_word_ariths)

lemma unat_minus_one_eq [word_nat]: "unat (- 1 :: 'a::len word) = 2 ^ LENGTH('a) - 1"
  by (metis mask_eq_exp_minus_1 take_bit_minus_one_eq_mask unsigned_minus_1_eq_mask)

lemma unat_sat_add: "unat (sat_add a b) = min (unat a + unat b) (2 ^ LENGTH('a) - 1)"
  for a b :: "'a::len word"
  by (auto simp: sat_add_def word_nat min_def)

lemma unat_sat_mul: "unat (sat_mul a b) = min (unat a * unat b) (2 ^ LENGTH('a) - 1)"
  for a b :: "'a::len word"
  by (cases "unat a * unat b < 2 ^ LENGTH('a)") (simp_all add: sat_mul_def word_nat)

lemma unat_sat_sub: "unat (sat_sub a b) = unat a - unat b"
  for a b :: "'a::len word"
  by (auto simp: sat_sub_def unat_sub word_le_nat_alt)

lemma unat_sum_list_mod: "unat (sum_list ws) = sum_list (map unat ws) mod 2 ^ LENGTH('a)"
  for ws :: "'a::len word list"
  by (induction ws) (simp_all add: unat_word_ariths mod_add_right_eq)

lemma unat_sum_list_nowrap [word_nat]:
  fixes ws :: "'a::len word list"
  shows "sum_list (map unat ws) < 2 ^ LENGTH('a) \<Longrightarrow> unat (sum_list ws) = sum_list (map unat ws)"
  by (simp add: unat_sum_list_mod)

section \<open>Iterators\<close>

text \<open>\<open>Iterator::min_by_key\<close>: of several minimal elements, the first.\<close>

fun min_by_key :: "('a \<Rightarrow> 'k::linorder) \<Rightarrow> 'a list \<Rightarrow> 'a option" where
  "min_by_key key [] = None"
| "min_by_key key (x # xs) =
    (case min_by_key key xs of
       None \<Rightarrow> Some x
     | Some y \<Rightarrow> if key x \<le> key y then Some x else Some y)"

lemma min_by_key_None [simp]: "min_by_key key xs = None \<longleftrightarrow> xs = []"
  by (cases xs) (auto split: option.splits)

lemma min_by_key_in: "min_by_key key xs = Some y \<Longrightarrow> y \<in> set xs"
  by (induction xs arbitrary: y) (auto split: option.splits if_splits)

lemma min_by_key_le: "min_by_key key xs = Some y \<Longrightarrow> x \<in> set xs \<Longrightarrow> key y \<le> key x"
proof (induction xs arbitrary: y)
  case (Cons z zs)
  then show ?case
    by (cases "min_by_key key zs") (fastforce split: if_splits)+
qed simp

text \<open>On a strictly sorted list (the indices of \<open>enumerate\<close>), the result is the minimum of
  the key paired with the element: ties go to the smaller element.\<close>

lemma min_by_key_first:
  assumes "sorted_wrt (\<lambda>a b. f a < f b) xs" "min_by_key key xs = Some y" "x \<in> set xs"
  shows "(key y, f y) \<le> (key x, f (x::'a) :: nat)"
  using assms
proof (induction xs arbitrary: y x)
  case (Cons z zs)
  show ?case
  proof (cases "min_by_key key zs")
    case None
    with Cons.prems show ?thesis by auto
  next
    case (Some w)
    have w: "w \<in> set zs" "\<And>v. v \<in> set zs \<Longrightarrow> (key w, f w) \<le> (key v, f v)"
      using Cons.IH[OF _ Some] Cons.prems(1) min_by_key_in[OF Some] by auto
    have zw: "f z < f w" using w(1) Cons.prems(1) by auto
    show ?thesis
    proof (cases "key z \<le> key w")
      case True
      then have y: "y = z" using Some Cons.prems(2) by simp
      have "(key z, f z) \<le> (key w, f w)" using True zw by (auto simp: less_eq_prod_def)
      with w(2)[of x] Cons.prems(3) show ?thesis
        unfolding y by (metis order_refl order_trans set_ConsD)
    next
      case False
      then have y: "y = w" using Some Cons.prems(2) by simp
      have "(key w, f w) \<le> (key z, f z)" using False by (auto simp: less_eq_prod_def)
      with w(2)[of x] Cons.prems(3) show ?thesis unfolding y by auto
    qed
  qed
qed simp

text \<open>\<open>Iterator::position\<close>: the index of the first element that satisfies the predicate.\<close>

fun position_by :: "('a \<Rightarrow> bool) \<Rightarrow> 'a list \<Rightarrow> nat option" where
  "position_by P [] = None"
| "position_by P (x # xs) = (if P x then Some 0 else map_option Suc (position_by P xs))"

lemma position_by_None: "position_by P xs = None \<longleftrightarrow> (\<forall>x\<in>set xs. \<not> P x)"
  by (induction xs) auto

lemma position_by_Some:
  "position_by P xs = Some i \<longleftrightarrow> i < length xs \<and> P (xs ! i) \<and> (\<forall>j<i. \<not> P (xs ! j))"
proof (induction xs arbitrary: i)
  case (Cons x xs)
  show ?case
    by (cases i) (auto simp: Cons.IH nth_Cons' less_Suc_eq_0_disj)
qed simp

text \<open>\<open>VecDeque::remove\<close> and the part of a vector before and after an index.\<close>

definition remove_nth :: "nat \<Rightarrow> 'a list \<Rightarrow> 'a list" where
  "remove_nth i xs = take i xs @ drop (Suc i) xs"

lemma mset_remove_nth:
  "i < length xs \<Longrightarrow> mset xs = add_mset (xs ! i) (mset (remove_nth i xs))"
  by (metis add_mset_add_single id_take_nth_drop mset.simps(2) mset_append remove_nth_def
      union_mset_add_mset_right)

lemma length_remove_nth [simp]: "i < length xs \<Longrightarrow> length (remove_nth i xs) = length xs - 1"
  by (auto simp: remove_nth_def)

lemma set_remove_nth_subset: "set (remove_nth i xs) \<subseteq> set xs"
  by (auto simp: remove_nth_def dest: in_set_takeD in_set_dropD)

lemma remove_nth_filter:
  assumes "distinct (map f xs)" "k < length xs"
  shows "remove_nth k xs = filter (\<lambda>x. f x \<noteq> f (xs ! k)) xs"
  using assms
proof (induction xs arbitrary: k)
  case (Cons a xs)
  have "\<forall>x\<in>set xs. f x \<noteq> f a" using Cons.prems(1) by (metis distinct.simps(2) image_eqI
    list.set_map list.simps(9))
  then have "n < length xs \<Longrightarrow> f a \<noteq> f (xs ! n)" for n by (metis nth_mem)
  then show ?case using Cons \<open>\<forall>x\<in>set xs. f x \<noteq> f a\<close>
    by (cases k) (auto simp: remove_nth_def filter_id_conv[THEN iffD2])
qed simp

lemma sum_list_map_filter_neq_le:
  fixes f :: "'a \<Rightarrow> nat"
  shows "sum_list (map f (filter P xs)) \<le> sum_list (map f xs)"
  by (induction xs) auto

lemma find_append:
  "find P (xs @ ys) = (case find P xs of None \<Rightarrow> find P ys | Some x \<Rightarrow> Some x)"
  by (induction xs) auto

lemma length_filter_mono:
  "(\<And>x. P x \<Longrightarrow> Q x) \<Longrightarrow> length (filter P xs) \<le> length (filter Q xs)"
  by (induction xs) (auto simp: le_SucI)

section \<open>Byte strings\<close>

definition starts_with :: "string \<Rightarrow> string \<Rightarrow> bool" where
  "starts_with s p = (take (length p) s = p)"

definition ends_with :: "string \<Rightarrow> string \<Rightarrow> bool" where
  "ends_with s p = (length p \<le> length s \<and> drop (length s - length p) s = p)"

fun str_contains :: "string \<Rightarrow> string \<Rightarrow> bool" where
  "str_contains [] n = (n = [])"
| "str_contains (c # s) n = (starts_with (c # s) n \<or> str_contains s n)"

definition ascii_lower :: "char \<Rightarrow> char" where
  "ascii_lower c = (let n = of_char c :: nat in
     if 65 \<le> n \<and> n \<le> 90 then char_of (n + 32) else c)"

definition to_ascii_lowercase :: "string \<Rightarrow> string" where
  "to_ascii_lowercase s = map ascii_lower s"

definition eq_ignore_ascii_case :: "string \<Rightarrow> string \<Rightarrow> bool" where
  "eq_ignore_ascii_case a b = (to_ascii_lowercase a = to_ascii_lowercase b)"

fun split_on :: "char \<Rightarrow> string \<Rightarrow> string list" where
  "split_on d [] = [[]]"
| "split_on d (c # s) =
    (if c = d then [] # split_on d s
     else case split_on d s of [] \<Rightarrow> [[c]] | w # ws \<Rightarrow> (c # w) # ws)"

fun join_with :: "string \<Rightarrow> string list \<Rightarrow> string" where
  "join_with sep [] = []"
| "join_with sep [x] = x"
| "join_with sep (x # y # xs) = x @ sep @ join_with sep (y # xs)"

lemma split_on_ne [simp]: "split_on d s \<noteq> []"
  by (induction s) (auto split: list.splits)

lemma join_split_on: "join_with [d] (split_on d s) = s"
proof (induction s)
  case (Cons c s)
  obtain w ws where w: "split_on d s = w # ws" using split_on_ne by (meson neq_Nil_conv)
  show ?case using Cons.IH w by (cases ws) auto
qed simp

definition strip_prefix :: "string \<Rightarrow> string \<Rightarrow> string option" where
  "strip_prefix s p = (if starts_with s p then Some (drop (length p) s) else None)"

lemma starts_with_append [simp]: "starts_with (p @ s) p"
  by (simp add: starts_with_def)

lemma starts_with_iff: "starts_with s p \<longleftrightarrow> (\<exists>t. s = p @ t)"
  by (metis append_take_drop_id starts_with_append starts_with_def)

section \<open>Numbers in decimal\<close>

definition digit_char :: "nat \<Rightarrow> char" where
  "digit_char d = char_of (48 + d)"

fun show_nat :: "nat \<Rightarrow> string" where
  "show_nat n = (if n < 10 then [digit_char n] else show_nat (n div 10) @ [digit_char (n mod 10)])"

declare show_nat.simps [simp del]

definition show_int :: "int \<Rightarrow> string" where
  "show_int i = (if i < 0 then ''-'' @ show_nat (nat (- i)) else show_nat (nat i))"

definition is_digit :: "char \<Rightarrow> bool" where
  "is_digit c = (48 \<le> (of_char c :: nat) \<and> (of_char c :: nat) \<le> 57)"

definition digit_val :: "char \<Rightarrow> nat" where
  "digit_val c = of_char c - 48"

definition read_nat :: "string \<Rightarrow> nat option" where
  "read_nat s = (if s \<noteq> [] \<and> list_all is_digit s
     then Some (foldl (\<lambda>a c. 10 * a + digit_val c) 0 s) else None)"

lemma digit_char_val [simp]: "d < 10 \<Longrightarrow> is_digit (digit_char d)"
    "d < 10 \<Longrightarrow> digit_val (digit_char d) = d"
  by (auto simp: digit_char_def is_digit_def digit_val_def)

lemma digit_char_eval [simp]:
  "digit_char 0 = CHR ''0''" "digit_char (Suc 0) = CHR ''1''" "digit_char 2 = CHR ''2''"
  "digit_char 3 = CHR ''3''" "digit_char 4 = CHR ''4''" "digit_char 5 = CHR ''5''"
  "digit_char 6 = CHR ''6''" "digit_char 7 = CHR ''7''" "digit_char 8 = CHR ''8''"
  "digit_char 9 = CHR ''9''"
  by (simp_all add: digit_char_def char_of_def bit_Suc_0_iff)

lemma show_nat_digits: "list_all is_digit (show_nat n)" "show_nat n \<noteq> []"
  by (induction n rule: show_nat.induct) (subst show_nat.simps; simp)+

lemma foldl_show_nat: "foldl (\<lambda>a c. 10 * a + digit_val c) 0 (show_nat n) = n"
  by (induction n rule: show_nat.induct) (subst show_nat.simps; simp)

lemma read_show_nat [simp]: "read_nat (show_nat n) = Some n"
  by (simp add: read_nat_def show_nat_digits foldl_show_nat)

lemma show_nat_inject [simp]: "show_nat m = show_nat n \<longleftrightarrow> m = n"
  by (metis option.inject read_show_nat)

end
