(* ===== verification/Proc_Model.thy ===== *)
theory Proc_Model
  imports Prelude
begin

text \<open>
  The observed machine (\<open>src/model/boot.rs\<close>, \<open>process.rs\<close>,
  \<open>port.rs\<close>, \<open>session.rs\<close>, \<open>runtime.rs\<close>,
  \<open>docker.rs\<close>): boot and process identities, agent sessions with their FNV-1a ids,
  runtime items with their verdicts, Docker resources.

  The CPU percentages (\<open>f32\<close>, display only) are not modelled.  The bytes of a
  \<open>u128\<close>/\<open>u64\<close>/\<open>u32\<close> are written out little-endian.
\<close>

section \<open>Bytes and hexadecimal\<close>

definition le_bytes :: "nat \<Rightarrow> nat \<Rightarrow> u8 list" where
  "le_bytes k n = map (\<lambda>i. of_nat (n div 256 ^ i)) [0..<k]"

fun of_le_bytes :: "u8 list \<Rightarrow> nat" where
  "of_le_bytes [] = 0"
| "of_le_bytes (b # bs) = unat b + 256 * of_le_bytes bs"

definition str_bytes :: "string \<Rightarrow> u8 list" where
  "str_bytes s = map (\<lambda>c. of_nat (of_char c)) s"

lemma le_bytes_Suc: "le_bytes (Suc k) n = of_nat n # le_bytes k (n div 256)"
proof -
  have "[0..<Suc k] = 0 # map Suc [0..<k]" by (simp add: upt_conv_Cons map_Suc_upt del: upt_Suc)
  then show ?thesis by (simp add: le_bytes_def o_def div_mult2_eq del: upt_Suc)
qed

lemma of_le_bytes_le_bytes [simp]: "n < 256 ^ k \<Longrightarrow> of_le_bytes (le_bytes k n) = n"
proof (induction k arbitrary: n)
  case 0
  then show ?case by (simp add: le_bytes_def)
next
  case (Suc k)
  have "n div 256 < 256 ^ k" using Suc.prems by (simp add: less_mult_imp_div_less mult.commute)
  then show ?case using Suc.IH by (simp add: le_bytes_Suc unat_of_nat)
qed

lemma length_le_bytes [simp]: "length (le_bytes k n) = k"
  by (simp add: le_bytes_def)

lemma str_bytes_inject [simp]: "str_bytes a = str_bytes b \<longleftrightarrow> a = b"
proof -
  have "inj (\<lambda>c :: char. of_nat (of_char c) :: u8)"
  proof (rule injI)
    fix x y :: char
    assume "(of_nat (of_char x) :: u8) = of_nat (of_char y)"
    then have "unat (of_nat (of_char x) :: u8) = unat (of_nat (of_char y) :: u8)" by simp
    then have "(of_char x :: nat) mod 256 = of_char y mod 256" by (simp add: unat_of_nat)
    then show "x = y" by simp
  qed
  then show ?thesis by (simp add: str_bytes_def inj_map_eq_map)
qed

definition hex_char :: "nat \<Rightarrow> char" where
  "hex_char d = (if d < 10 then char_of (48 + d) else char_of (87 + d))"

fun hex_digits :: "nat \<Rightarrow> nat \<Rightarrow> string" where
  "hex_digits 0 n = []"
| "hex_digits (Suc k) n = hex_digits k (n div 16) @ [hex_char (n mod 16)]"

definition hex_val :: "char \<Rightarrow> nat option" where
  "hex_val c = (let n = of_char c :: nat in
     if 48 \<le> n \<and> n \<le> 57 then Some (n - 48)
     else if 97 \<le> n \<and> n \<le> 102 then Some (n - 87)
     else if 65 \<le> n \<and> n \<le> 70 then Some (n - 55) else None)"

text \<open>\<open>u64::from_str_radix(s, 16)\<close>: an optional sign, at least one digit, and an error as
  soon as the value leaves the type.\<close>

fun radix16 :: "nat \<Rightarrow> string \<Rightarrow> nat option" where
  "radix16 acc [] = Some acc"
| "radix16 acc (c # s) =
    (case hex_val c of
       None \<Rightarrow> None
     | Some d \<Rightarrow> if 16 * acc + d < 2 ^ 64 then radix16 (16 * acc + d) s else None)"

definition u64_from_hex :: "string \<Rightarrow> u64 option" where
  "u64_from_hex s =
    (let ds = (if starts_with s ''+'' then drop 1 s else s) in
     if ds = [] then None else map_option of_nat (radix16 0 ds))"

lemma hex_val_hex_char [simp]: "d < 16 \<Longrightarrow> hex_val (hex_char d) = Some d"
  by (auto simp: hex_val_def hex_char_def Let_def)

lemma radix16_append:
  "radix16 acc (s @ t) = (case radix16 acc s of None \<Rightarrow> None | Some a \<Rightarrow> radix16 a t)"
  by (induction s arbitrary: acc) (auto split: option.splits)

lemma radix16_hex_digits:
  "n < 16 ^ k \<Longrightarrow> n < 2 ^ 64 \<Longrightarrow> radix16 0 (hex_digits k n) = Some n"
proof (induction k arbitrary: n)
  case (Suc k)
  have "n div 16 < 16 ^ k" "n div 16 < 2 ^ 64"
    using Suc.prems by (simp_all add: less_mult_imp_div_less mult.commute)
  then show ?case using Suc.IH Suc.prems by (simp add: radix16_append)
qed simp

lemma length_hex_digits [simp]: "length (hex_digits k n) = k"
  by (induction k arbitrary: n) auto

lemma hex_digits_hd: "0 < k \<Longrightarrow> \<exists>d<16. \<exists>t. hex_digits k n = hex_char d # t"
proof (induction k arbitrary: n)
  case (Suc k)
  show ?case
  proof (cases k)
    case 0
    then show ?thesis by (intro exI[of _ "n mod 16"]) simp
  next
    case (Suc m)
    then obtain d t where "d < 16" "hex_digits k (n div 16) = hex_char d # t"
      using Suc.IH[of "n div 16"] by auto
    then show ?thesis by auto
  qed
qed simp

section \<open>Boot identity\<close>

datatype boot_id = BootId "128 word"

definition boot_from_le_bytes :: "u8 list \<Rightarrow> boot_id" where
  "boot_from_le_bytes b = BootId (of_nat (of_le_bytes b))"

definition boot_to_le_bytes :: "boot_id \<Rightarrow> u8 list" where
  "boot_to_le_bytes b = (case b of BootId w \<Rightarrow> le_bytes 16 (unat w))"

definition show_boot_id :: "boot_id \<Rightarrow> string" where
  "show_boot_id b = (case b of BootId w \<Rightarrow> hex_digits 32 (unat w))"

datatype boot_epoch = Linux "128 word" | MacosUuid "128 word" | Macos "64 word" "32 word"

definition to_boot_id ::
  "boot_epoch \<Rightarrow> (boot_epoch \<Rightarrow> 'e + boot_id) \<Rightarrow> 'e + boot_id" where
  "to_boot_id e resolve =
    (case e of
       Linux i \<Rightarrow> Inr (BootId i)
     | MacosUuid i \<Rightarrow> Inr (BootId i)
     | Macos _ _ \<Rightarrow> resolve e)"

definition epoch_to_bytes :: "boot_epoch \<Rightarrow> u8 list" where
  "epoch_to_bytes e =
    (case e of
       Linux i \<Rightarrow> 0 # le_bytes 16 (unat i)
     | MacosUuid i \<Rightarrow> 0 # le_bytes 16 (unat i)
     | Macos sec usec \<Rightarrow> 1 # le_bytes 8 (unat sec) @ le_bytes 4 (unat usec))"

section \<open>Processes\<close>

type_synonym pid = u32

record process_info =
  p_pid :: pid
  p_parent :: "pid option"
  p_name :: string
  p_command :: "string list"
  p_executable :: "string option"
  p_cwd :: "string option"
  p_memory :: u64
  p_start_time :: u64
  p_tty :: "string option"

text \<open>\<open>Path::file_name\<close>: the last component, after empty and \<open>.\<close> components
  are dropped; \<open>None\<close> when there is none or it is \<open>..\<close>.\<close>

definition path_components :: "string \<Rightarrow> string list" where
  "path_components p = filter (\<lambda>c. c \<noteq> [] \<and> c \<noteq> ''.'') (split_on (CHR ''/'') p)"

definition file_name :: "string \<Rightarrow> string option" where
  "file_name p = (case rev (path_components p) of
     [] \<Rightarrow> None | c # _ \<Rightarrow> if c = ''..'' then None else Some c)"

definition proc_label :: "process_info \<Rightarrow> string" where
  "proc_label p =
    (if p_name p \<noteq> [] then p_name p
     else case p_command p of
       (c # cs) \<Rightarrow> if c \<noteq> [] then c
                  else (case p_executable p of None \<Rightarrow> ''?''
                        | Some e \<Rightarrow> (case file_name e of None \<Rightarrow> ''?'' | Some f \<Rightarrow> f))
     | [] \<Rightarrow> (case p_executable p of None \<Rightarrow> ''?''
                        | Some e \<Rightarrow> (case file_name e of None \<Rightarrow> ''?'' | Some f \<Rightarrow> f)))"

definition proc_hay :: "process_info \<Rightarrow> string" where
  "proc_hay p =
    to_ascii_lowercase (p_name p) @ '' '' @
    to_ascii_lowercase (join_with '' '' (p_command p)) @ '' '' @
    (case p_executable p of None \<Rightarrow> [] | Some e \<Rightarrow> to_ascii_lowercase e)"

record process_identity =
  i_boot :: boot_id
  i_pid :: pid
  i_start :: u64

definition from_process :: "boot_id \<Rightarrow> process_info \<Rightarrow> process_identity option" where
  "from_process b p =
    (if p_start_time p \<noteq> 0
     then Some \<lparr>i_boot = b, i_pid = p_pid p, i_start = p_start_time p\<rparr> else None)"

lemma from_process_Some:
  "from_process b p = Some i \<longleftrightarrow>
    p_start_time p \<noteq> 0 \<and> i = \<lparr>i_boot = b, i_pid = p_pid p, i_start = p_start_time p\<rparr>"
  by (auto simp: from_process_def)

section \<open>Sessions\<close>

definition fnv1a :: "u8 list list \<Rightarrow> u64" where
  "fnv1a parts =
    foldl (\<lambda>h b. xor h (ucast b) * 0x100000001b3) 0xcbf29ce484222325 (concat parts)"

datatype session_id = SessionId u64

definition session_new_id :: "boot_id \<Rightarrow> process_identity \<Rightarrow> string \<Rightarrow> session_id" where
  "session_new_id b root agent =
    SessionId (fnv1a [boot_to_le_bytes b, le_bytes 4 (unat (i_pid root)),
                      le_bytes 8 (unat (i_start root)), str_bytes agent])"

definition sid_u64 :: "session_id \<Rightarrow> u64" where
  "sid_u64 s = (case s of SessionId v \<Rightarrow> v)"

definition show_session_id :: "session_id \<Rightarrow> string" where
  "show_session_id s = hex_digits 16 (unat (sid_u64 s))"

lemma sid_u64_inject [simp]: "sid_u64 a = sid_u64 b \<longleftrightarrow> a = b"
  by (cases a; cases b) (simp add: sid_u64_def)

lemma SessionId_sid_u64 [simp]: "SessionId (sid_u64 s) = s"
  by (cases s) (simp add: sid_u64_def)

lemma u64_from_hex_show [simp]: "u64_from_hex (show_session_id s) = Some (sid_u64 s)"
proof -
  obtain d t where d: "d < 16" "hex_digits 16 (unat (sid_u64 s)) = hex_char d # t"
    using hex_digits_hd[of 16 "unat (sid_u64 s)"] by auto
  have "hex_val (CHR ''+'') = None" by (simp add: hex_val_def)
  then have "hex_char d \<noteq> CHR ''+''" using d(1) hex_val_hex_char by fastforce
  then have "\<not> starts_with (show_session_id s) ''+''"
    by (simp add: show_session_id_def d starts_with_def)
  moreover have "show_session_id s \<noteq> []" by (simp add: show_session_id_def d)
  moreover have "radix16 0 (show_session_id s) = Some (unat (sid_u64 s))"
    unfolding show_session_id_def using unat_u64_less[of "sid_u64 s"]
    by (intro radix16_hex_digits) simp_all
  ultimately show ?thesis by (simp add: u64_from_hex_def)
qed

lemma show_session_id_inject [simp]: "show_session_id a = show_session_id b \<longleftrightarrow> a = b"
  by (metis option.inject sid_u64_inject u64_from_hex_show)

record project =
  pr_root :: string
  pr_name :: string

record runtime_session =
  rs_id :: session_id
  rs_agent :: string
  rs_root :: process_identity
  rs_project :: "project option"
  rs_started :: u64
  rs_last_seen :: u64
  rs_ended :: "u64 option"

definition session_new ::
  "string \<Rightarrow> process_identity \<Rightarrow> project option \<Rightarrow> u64 \<Rightarrow> runtime_session" where
  "session_new agent root prj now =
    \<lparr>rs_id = session_new_id (i_boot root) root agent, rs_agent = agent, rs_root = root,
     rs_project = prj, rs_started = i_start root, rs_last_seen = now, rs_ended = None\<rparr>"

record session_info =
  si_id :: session_id
  si_agent :: string
  si_project :: "string option"
  si_active :: bool
  si_started :: u64

section \<open>Ports\<close>

datatype protocol = Tcp

definition protocol_as_str :: "protocol \<Rightarrow> string" where
  "protocol_as_str p = (case p of Tcp \<Rightarrow> ''tcp'')"

text \<open>An address is its bytes: 4 of them or 8 groups of 16 bits.\<close>

datatype ip_addr = V4 u8 u8 u8 u8 | V6 "u16 list"

record listening_port =
  lp_protocol :: protocol
  lp_address :: ip_addr
  lp_port :: u16
  lp_pid :: pid

definition port_label :: "listening_port \<Rightarrow> string" where
  "port_label p = '':'' @ show_nat (unat (lp_port p))"

definition is_local_addr :: "ip_addr \<Rightarrow> bool" where
  "is_local_addr a =
    (case a of
       V4 x y z w \<Rightarrow> (x = 0 \<and> y = 0 \<and> z = 0 \<and> w = 0) \<or> x = 127
     | V6 gs \<Rightarrow> gs = replicate 8 0 \<or> gs = replicate 7 0 @ [1])"

text \<open>The text of an IPv6 address is the standard library's; it is an argument.\<close>

definition port_url :: "(u16 list \<Rightarrow> string) \<Rightarrow> listening_port \<Rightarrow> string" where
  "port_url show_v6 p =
    (let host =
       (if is_local_addr (lp_address p) then ''127.0.0.1''
        else case lp_address p of
          V6 gs \<Rightarrow> ''['' @ show_v6 gs @ '']''
        | V4 a b c d \<Rightarrow>
            join_with ''.'' (map (\<lambda>x. show_nat (unat x)) [a, b, c, d]))
     in ''http://'' @ host @ '':'' @ show_nat (unat (lp_port p)))"

section \<open>Runtime items\<close>

datatype category = Agent | Mcp | Browser | DevServer | LanguageServer | Database | Worker
  | UnknownDev | DevService

definition category_label :: "category \<Rightarrow> string" where
  "category_label c =
    (case c of
       Agent \<Rightarrow> ''Agents'' | Mcp \<Rightarrow> ''MCP'' | Browser \<Rightarrow> ''Browsers''
     | DevServer \<Rightarrow> ''Dev servers'' | LanguageServer \<Rightarrow> ''Language servers''
     | Database \<Rightarrow> ''Databases'' | DevService \<Rightarrow> ''Dev services''
     | Worker \<Rightarrow> ''Workers'' | UnknownDev \<Rightarrow> ''Other'')"

datatype runtime_state = Active | Persistent | Suspicious

datatype suspicion_reason = ParentExited | OwningAgentMissing | McpOwnerMissing
  | HeadlessBrowserDetached | LongRunningDevServer | LongRunningWorker | SessionOwnerEnded

definition reason_as_str :: "suspicion_reason \<Rightarrow> string" where
  "reason_as_str r =
    (case r of
       ParentExited \<Rightarrow> ''parent exited / re-parented''
     | OwningAgentMissing \<Rightarrow> ''owning agent missing''
     | McpOwnerMissing \<Rightarrow> ''MCP without owner''
     | HeadlessBrowserDetached \<Rightarrow> ''detached headless browser''
     | LongRunningDevServer \<Rightarrow> ''dev server older than threshold''
     | LongRunningWorker \<Rightarrow> ''background worker older than threshold''
     | SessionOwnerEnded \<Rightarrow> ''owning session ended'')"

record suspicion =
  sus_score :: u8
  sus_reasons :: "suspicion_reason list"

datatype runtime_item = RuntimeItem
  (ri_category : category) (ri_display : string) (ri_root : "pid option")
  (ri_pids : "pid list") (ri_memory : u64) (ri_state : runtime_state)
  (ri_suspicion : "suspicion option") (ri_ports : "listening_port list")
  (ri_project : "project option") (ri_children : "runtime_item list")

text \<open>The multiplication sign of the title is two bytes of UTF-8.\<close>

definition item_title :: "runtime_item \<Rightarrow> string" where
  "item_title i =
    (if length (ri_pids i) > 1
     then ri_display i @ '' '' @ [char_of (0xc3 :: nat), char_of (0x97 :: nat)]
          @ show_nat (length (ri_pids i))
     else ri_display i)"

definition verdict :: "runtime_item \<Rightarrow> string" where
  "verdict i =
    (case ri_state i of
       Suspicious \<Rightarrow> ''leftover candidate''
     | Persistent \<Rightarrow> ''persistent''
     | Active \<Rightarrow> ''active'')"

section \<open>Docker\<close>

datatype docker_kind = Container | DanglingImage | Volume | BuildCache

definition docker_kind_label :: "docker_kind \<Rightarrow> string" where
  "docker_kind_label k =
    (case k of Container \<Rightarrow> ''container'' | DanglingImage \<Rightarrow> ''dangling image''
     | Volume \<Rightarrow> ''volume'' | BuildCache \<Rightarrow> ''build cache'')"

record docker_resource =
  d_kind :: docker_kind
  d_id :: string
  d_name :: string
  d_detail :: string
  d_ports :: "u16 list"
  d_size :: u64
  d_compose :: "string option"
  d_persistent :: bool
  d_anonymous :: bool
  d_created :: int

definition docker_running :: "docker_resource \<Rightarrow> bool" where
  "docker_running r = (d_kind r = Container \<and> d_detail r = ''running'')"

definition prunable :: "docker_resource \<Rightarrow> bool" where
  "prunable r = (d_kind r = Volume \<and> d_anonymous r \<and> d_detail r = ''unused'')"

record docker_snapshot =
  ds_ok :: bool
  ds_note :: string
  ds_disk :: u64
  ds_reclaimable :: u64
  ds_resources :: "docker_resource list"

definition docker_default :: docker_snapshot where
  "docker_default = \<lparr>ds_ok = False, ds_note = ''not running'', ds_disk = 0,
     ds_reclaimable = 0, ds_resources = []\<rparr>"

definition docker_down :: "string \<Rightarrow> docker_snapshot" where
  "docker_down note = docker_default\<lparr>ds_note := note\<rparr>"

definition prunable_ids :: "docker_snapshot \<Rightarrow> string list" where
  "prunable_ids s = map d_id (filter prunable (ds_resources s))"

definition prunable_stats :: "docker_snapshot \<Rightarrow> nat \<times> u64" where
  "prunable_stats s =
    (let ps = filter prunable (ds_resources s) in (length ps, sum_list (map d_size ps)))"

lemma prunable_not_running: "prunable r \<Longrightarrow> \<not> docker_running r"
  by (simp add: prunable_def docker_running_def)

end
