(* ===== verification/Run_Model.thy ===== *)
theory Run_Model
  imports Proc_Model
begin

text \<open>
  The managed-run contract (\<open>src/model/run.rs\<close>): the request (\<open>RunSpec\<close>) with
  the bytes its idempotency fingerprint hashes, the lifecycle and outcome enumerations with their
  stored names, the resource request and limits, the record read back from the store, and the
  capacity report.  The digest itself (blake3) is not part of the repository: it is the argument
  \<open>h\<close> of \<open>fingerprint\<close>.
\<close>

definition DEFAULT_TIMEOUT :: duration where "DEFAULT_TIMEOUT = from_secs 600"
definition DEFAULT_GRACE :: duration where "DEFAULT_GRACE = from_secs 3"
definition DEFAULT_RUN_LOG_LIMIT :: u64 where "DEFAULT_RUN_LOG_LIMIT = 10 * 1024 * 1024"
definition DEFAULT_TOTAL_LOG_LIMIT :: u64 where "DEFAULT_TOTAL_LOG_LIMIT = 250 * 1024 * 1024"
definition RUN_RETENTION :: duration where "RUN_RETENTION = from_secs (7 * 24 * 60 * 60)"
definition REQUEST_ID_WINDOW :: duration where "REQUEST_ID_WINDOW = from_secs (24 * 60 * 60)"
definition MAX_ENV_BYTES :: nat where "MAX_ENV_BYTES = 256 * 1024"
definition MAX_REQUEST_BYTES :: nat where "MAX_REQUEST_BYTES = 1024 * 1024"

section \<open>Identifiers\<close>

text \<open>\<open>RunId\<close> derives \<open>Ord\<close> from its row id.\<close>

datatype run_id = RunId (run_id_int: int)

instantiation run_id :: linorder
begin

definition less_eq_run_id :: "run_id \<Rightarrow> run_id \<Rightarrow> bool" where
  "less_eq_run_id a b = (run_id_int a \<le> run_id_int b)"

definition less_run_id :: "run_id \<Rightarrow> run_id \<Rightarrow> bool" where
  "less_run_id a b = (run_id_int a < run_id_int b)"

instance
  by standard (auto simp: less_eq_run_id_def less_run_id_def run_id.expand)

end

definition show_run_id :: "run_id \<Rightarrow> string" where
  "show_run_id r = show_int (run_id_int r)"

datatype session_origin = OriginNone | CallerReported

section \<open>Resources\<close>

datatype enforcement = EnfNone | Monitored | Hard

record resource_request =
  rr_memory :: "u64 option"
  rr_cpu :: "u32 option"
  rr_processes :: "u32 option"
  rr_enforcement :: enforcement
  rr_queue_timeout :: "duration option"

definition resource_default :: resource_request where
  "resource_default = \<lparr>rr_memory = None, rr_cpu = None, rr_processes = None,
     rr_enforcement = EnfNone, rr_queue_timeout = None\<rparr>"

record effective_limits =
  ef_memory :: "u64 option"
  ef_cpu :: "u32 option"
  ef_processes :: "u32 option"
  ef_enforcement :: enforcement
  ef_metric :: "string option"
  ef_backend :: string

definition effective_default :: effective_limits where
  "effective_default = \<lparr>ef_memory = None, ef_cpu = None, ef_processes = None,
     ef_enforcement = EnfNone, ef_metric = None, ef_backend = ''''\<rparr>"

section \<open>The request\<close>

record run_spec =
  request_id :: string
  argv :: "string list"
  cwd :: string
  project_root :: "string option"
  session_id :: "session_id option"
  session_origin :: session_origin
  timeout :: duration
  grace :: duration
  log_limit_bytes :: u64
  resources :: resource_request

definition spec_new :: "string \<Rightarrow> string list \<Rightarrow> string \<Rightarrow> run_spec" where
  "spec_new r a c = \<lparr>request_id = r, argv = a, cwd = c, project_root = None, session_id = None,
     session_origin = OriginNone, timeout = DEFAULT_TIMEOUT, grace = DEFAULT_GRACE,
     log_limit_bytes = DEFAULT_RUN_LOG_LIMIT, resources = resource_default\<rparr>"

text \<open>The byte sequence fed to the hasher, in the order of the \<open>update\<close> calls.\<close>

definition fingerprint_preimage :: "run_spec \<Rightarrow> u8 list" where
  "fingerprint_preimage s =
     str_bytes (request_id s)
     @ concat (map (\<lambda>a. 0 # str_bytes a) (argv s))
     @ str_bytes (cwd s)
     @ (case project_root s of None \<Rightarrow> [] | Some r \<Rightarrow> str_bytes r)
     @ (case session_id s of None \<Rightarrow> [] | Some i \<Rightarrow> le_bytes 8 (unat (sid_u64 i)))"

definition fingerprint :: "(u8 list \<Rightarrow> string) \<Rightarrow> run_spec \<Rightarrow> string" where
  "fingerprint h s = h (fingerprint_preimage s)"

text \<open>Two requests that differ only in what the digest leaves out are the same request.\<close>

definition same_request :: "run_spec \<Rightarrow> run_spec \<Rightarrow> bool" where
  "same_request a b \<longleftrightarrow> request_id a = request_id b \<and> argv a = argv b \<and> cwd a = cwd b
     \<and> project_root a = project_root b \<and> session_id a = session_id b"

lemma fingerprint_same: "same_request a b \<Longrightarrow> fingerprint h a = fingerprint h b"
  by (simp add: fingerprint_def fingerprint_preimage_def same_request_def)

section \<open>Lifecycle\<close>

datatype run_state = Queued | Starting | Running | Stopping | Finished

definition state_as_str :: "run_state \<Rightarrow> string" where
  "state_as_str s =
    (case s of Queued \<Rightarrow> ''queued'' | Starting \<Rightarrow> ''starting'' | Running \<Rightarrow> ''running''
     | Stopping \<Rightarrow> ''stopping'' | Finished \<Rightarrow> ''finished'')"

definition state_parse :: "string \<Rightarrow> run_state option" where
  "state_parse s =
    (if s = ''queued'' then Some Queued
     else if s = ''starting'' then Some Starting
     else if s = ''running'' then Some Running
     else if s = ''stopping'' then Some Stopping
     else if s = ''finished'' then Some Finished
     else None)"

definition is_terminal :: "run_state \<Rightarrow> bool" where
  "is_terminal s = (s = Finished)"

datatype run_outcome = Exited | Signaled | TimedOut | Cancelled | SpawnFailed | SupervisorLost
  | ResourceLimit

definition outcome_as_str :: "run_outcome \<Rightarrow> string" where
  "outcome_as_str s =
    (case s of Exited \<Rightarrow> ''exited'' | Signaled \<Rightarrow> ''signaled'' | TimedOut \<Rightarrow> ''timed_out''
     | Cancelled \<Rightarrow> ''cancelled'' | SpawnFailed \<Rightarrow> ''spawn_failed''
     | SupervisorLost \<Rightarrow> ''supervisor_lost'' | ResourceLimit \<Rightarrow> ''resource_limit'')"

definition outcome_parse :: "string \<Rightarrow> run_outcome option" where
  "outcome_parse s =
    (if s = ''exited'' then Some Exited
     else if s = ''signaled'' then Some Signaled
     else if s = ''timed_out'' then Some TimedOut
     else if s = ''cancelled'' then Some Cancelled
     else if s = ''spawn_failed'' then Some SpawnFailed
     else if s = ''supervisor_lost'' then Some SupervisorLost
     else if s = ''resource_limit'' then Some ResourceLimit
     else None)"

datatype cleanup_state = Pending | Complete | Incomplete | Unknown

definition cleanup_as_str :: "cleanup_state \<Rightarrow> string" where
  "cleanup_as_str s =
    (case s of Pending \<Rightarrow> ''pending'' | Complete \<Rightarrow> ''complete''
     | Incomplete \<Rightarrow> ''incomplete'' | Unknown \<Rightarrow> ''unknown'')"

definition cleanup_parse :: "string \<Rightarrow> cleanup_state option" where
  "cleanup_parse s =
    (if s = ''pending'' then Some Pending
     else if s = ''complete'' then Some Complete
     else if s = ''incomplete'' then Some Incomplete
     else if s = ''unknown'' then Some Unknown
     else None)"

lemmas [parse_defs] =
  state_as_str_def state_parse_def outcome_as_str_def outcome_parse_def
  cleanup_as_str_def cleanup_parse_def

lemma state_round_trip [simp]: "state_parse (state_as_str s) = Some s"
  by (cases s) (simp_all add: parse_defs)

lemma state_parse_Some: "state_parse t = Some s \<Longrightarrow> t = state_as_str s"
  by (auto simp: parse_defs split: if_splits)

lemma outcome_round_trip [simp]: "outcome_parse (outcome_as_str s) = Some s"
  by (cases s) (simp_all add: parse_defs)

lemma outcome_parse_Some: "outcome_parse t = Some s \<Longrightarrow> t = outcome_as_str s"
  by (auto simp: parse_defs split: if_splits)

lemma cleanup_round_trip [simp]: "cleanup_parse (cleanup_as_str s) = Some s"
  by (cases s) (simp_all add: parse_defs)

lemma cleanup_parse_Some: "cleanup_parse t = Some s \<Longrightarrow> t = cleanup_as_str s"
  by (auto simp: parse_defs split: if_splits)

record run_result =
  outcome :: run_outcome
  exit_code :: "int option"
  signal :: "int option"
  started_at :: "u64 option"
  finished_at :: u64
  duration_ms :: u64
  cleanup :: cleanup_state
  detail :: "string option"

record log_state =
  stdout_bytes :: u64
  stderr_bytes :: u64
  stdout_truncated :: bool
  stderr_truncated :: bool

definition log_state_default :: log_state where
  "log_state_default = \<lparr>stdout_bytes = 0, stderr_bytes = 0, stdout_truncated = False,
     stderr_truncated = False\<rparr>"

section \<open>Capabilities\<close>

datatype capability = Available | CapMonitored string | Unavailable string

record backend_capabilities =
  cap_queue :: capability
  cap_group_cleanup :: capability
  cap_memory :: capability
  cap_cpu :: capability
  cap_processes :: capability
  cap_filesystem :: capability

definition memory_capability :: "bool \<Rightarrow> bool \<Rightarrow> capability" where
  "memory_capability macos cgroup =
    (if macos then CapMonitored
       ''sum of RSS over the run's process group, sampled every 200 ms: shared pages can be counted more than once and a brief peak can be missed''
     else if cgroup then Available
     else Unavailable
       ''no delegated cgroup v2 subtree; run wyd under a systemd unit with Delegate=yes or set WYD_CGROUP_ROOT'')"

definition backend_capabilities :: "bool \<Rightarrow> bool \<Rightarrow> backend_capabilities" where
  "backend_capabilities macos cgroup =
    (let no_cgroup =
       (if macos
        then ''macOS has no cgroup v2: a hard aggregate limit needs a VM backend, which is not implemented''
        else ''no delegated cgroup v2 subtree; run wyd under a systemd unit with Delegate=yes or set WYD_CGROUP_ROOT, then restart the supervisor'')
     in \<lparr>cap_queue = Available, cap_group_cleanup = Available,
         cap_memory = memory_capability macos cgroup,
         cap_cpu = (if cgroup then Available else Unavailable no_cgroup),
         cap_processes = (if cgroup then Available else Unavailable no_cgroup),
         cap_filesystem = Unavailable
           ''runs share the host filesystem; TMPDIR is a convenience, not a sandbox''\<rparr>)"

section \<open>Records and reports\<close>

record run_record =
  rec_id :: run_id
  rec_spec :: run_spec
  rec_state :: run_state
  rec_result :: "run_result option"
  rec_logs :: log_state
  rec_revision :: int
  rec_created_at :: u64
  rec_leader :: "process_identity option"
  rec_supervisor :: "string option"
  rec_effective :: effective_limits
  rec_queue_wait_ms :: u64
  rec_limit_event :: "string option"

definition EXIT_TIMED_OUT :: int where "EXIT_TIMED_OUT = 124"
definition EXIT_CANCELLED :: int where "EXIT_CANCELLED = 130"
definition EXIT_SPAWN_FAILED :: int where "EXIT_SPAWN_FAILED = 125"
definition EXIT_RESOURCE_LIMIT :: int where "EXIT_RESOURCE_LIMIT = 137"

record queue_info =
  qi_position :: "nat option"
  qi_waiting_ms :: u64
  qi_reason :: "string option"

record queue_entry =
  qe_run_id :: string
  qe_project :: string
  qe_position :: nat
  qe_waiting_ms :: u64
  qe_memory :: u64
  qe_reason :: string

record project_usage =
  pu_project :: string
  pu_running :: nat
  pu_reserved :: u64

record limit_summary =
  ls_max_parallel :: nat
  ls_max_parallel_per_project :: nat
  ls_max_queued :: nat
  ls_queue_timeout_secs :: u64
  ls_memory_budget :: u64
  ls_default_run_memory :: u64
  ls_starvation_after_secs :: u64
  ls_cpu_budget :: "u32 option"
  ls_pids_budget :: "u32 option"

record capacity =
  c_limits :: limit_summary
  c_running :: nat
  c_queued :: nat
  c_slots_free :: nat
  c_reserved :: u64
  c_projects :: "project_usage list"
  c_queue :: "queue_entry list"
  c_over_parallel :: bool
  c_aggregate_memory :: "u64 option"
  c_aggregate_cpu :: "u32 option"
  c_aggregate_pids :: "u32 option"
  c_reservation_note :: string
  c_capabilities :: backend_capabilities

section \<open>The wire form of durations and session ids\<close>

text \<open>\<open>duration_secs\<close>, \<open>opt_duration_secs\<close> and \<open>opt_session_hex\<close>:
  what a value becomes in JSON and what is read back.\<close>

definition secs_serialize :: "duration \<Rightarrow> u64" where
  "secs_serialize d = as_secs d"

definition secs_deserialize :: "u64 \<Rightarrow> duration" where
  "secs_deserialize n = from_secs (unat n)"

definition opt_secs_serialize :: "duration option \<Rightarrow> u64 option" where
  "opt_secs_serialize d = map_option as_secs d"

definition opt_secs_deserialize :: "u64 option \<Rightarrow> duration option" where
  "opt_secs_deserialize n = map_option (\<lambda>s. from_secs (unat s)) n"

definition session_hex_serialize :: "session_id option \<Rightarrow> string option" where
  "session_hex_serialize v = map_option show_session_id v"

definition session_hex_deserialize :: "string option \<Rightarrow> unit + session_id option" where
  "session_hex_deserialize v =
    (case v of
       None \<Rightarrow> Inr None
     | Some hex \<Rightarrow>
         if hex = '''' then Inr None
         else (case u64_from_hex hex of
                 None \<Rightarrow> Inl ()
               | Some n \<Rightarrow> Inr (Some (SessionId n))))"

lemma secs_round_trip:
  "d \<le> duration_max \<Longrightarrow> secs_deserialize (secs_serialize d) = d - d mod 10 ^ 9"
proof -
  assume "d \<le> duration_max"
  then have "d div 10 ^ 9 < 2 ^ 64" by (simp add: duration_max_def div_less_iff_less_mult)
  then show ?thesis
    by (simp add: secs_deserialize_def secs_serialize_def as_secs_def from_secs_def unat_of_nat
        minus_mod_eq_div_mult)
qed

lemma session_hex_round_trip [simp]:
  "session_hex_deserialize (session_hex_serialize v) = Inr v"
proof (cases v)
  case (Some s)
  have "show_session_id s \<noteq> ''''"
    by (metis length_0_conv length_hex_digits show_session_id_def zero_neq_numeral)
  then show ?thesis using Some
    by (simp add: session_hex_deserialize_def session_hex_serialize_def)
qed (simp add: session_hex_deserialize_def session_hex_serialize_def)

end
