(* ===== verification/Scheduler.thy ===== *)
theory Scheduler
  imports Run_Model
begin

text \<open>
  Admission control (\<open>src/runner/scheduler.rs\<close>): the slots, memory reservations and
  bounded queue of one supervisor.  The state is the \<open>Scheduler\<close> struct; the operations
  are its methods, on a logical time the caller passes.  \<open>submit\<close> returns \<open>None\<close>
  where the Rust code panics (\<open>now + timeout\<close> past \<open>Duration::MAX\<close>).  Byte counts
  are \<open>u64\<close>: their sums wrap, as in the release build.
\<close>

section \<open>State\<close>

record limits =
  max_parallel :: nat
  max_parallel_per_project :: nat
  max_queued :: nat
  queue_timeout :: duration
  memory_budget_bytes :: u64
  default_run_memory_bytes :: u64
  starvation_after :: duration
  cpu_budget_millicores :: "u32 option"
  pids_budget :: "u32 option"

definition limits_default :: limits where
  "limits_default = \<lparr>max_parallel = 4, max_parallel_per_project = 2, max_queued = 32,
     queue_timeout = from_secs 600, memory_budget_bytes = 8 * 1024 * 1024 * 1024,
     default_run_memory_bytes = 512 * 1024 * 1024, starvation_after = from_secs 60,
     cpu_budget_millicores = None, pids_budget = None\<rparr>"

definition limits_summary :: "limits \<Rightarrow> limit_summary" where
  "limits_summary l = \<lparr>ls_max_parallel = max_parallel l,
     ls_max_parallel_per_project = max_parallel_per_project l, ls_max_queued = max_queued l,
     ls_queue_timeout_secs = as_secs (queue_timeout l),
     ls_memory_budget = memory_budget_bytes l,
     ls_default_run_memory = default_run_memory_bytes l,
     ls_starvation_after_secs = as_secs (starvation_after l),
     ls_cpu_budget = cpu_budget_millicores l, ls_pids_budget = pids_budget l\<rparr>"

datatype reject_reason = Impossible (rj_requested: u64) (rj_budget: u64) | QueueFull nat

datatype admission = AStart u64 | AQueued nat | ARejected reject_reason

record queued =
  q_id :: run_id
  q_project :: string
  q_memory :: u64
  q_enqueued_at :: duration
  q_deadline :: duration

record running =
  r_id :: run_id
  r_project :: string
  r_memory :: u64

record scheduler =
  s_limits :: limits
  s_running :: "running list"
  s_queue :: "queued list"
  s_held :: "running list"

definition sched_new :: "limits \<Rightarrow> scheduler" where
  "sched_new l = \<lparr>s_limits = l, s_running = [], s_queue = [], s_held = []\<rparr>"

definition sched_set_limits :: "limits \<Rightarrow> scheduler \<Rightarrow> scheduler" where
  "sched_set_limits l s = s\<lparr>s_limits := l\<rparr>"

section \<open>Capacity\<close>

definition slots_free :: "scheduler \<Rightarrow> nat" where
  "slots_free s = max_parallel (s_limits s) - length (s_running s)"

definition reserved :: "scheduler \<Rightarrow> u64" where
  "reserved s = sum_list (map r_memory (s_running s @ s_held s))"

definition project_slots_free :: "scheduler \<Rightarrow> string \<Rightarrow> nat" where
  "project_slots_free s p =
     max_parallel_per_project (s_limits s) - length (filter (\<lambda>r. r_project r = p) (s_running s))"

definition can_admit :: "scheduler \<Rightarrow> string \<Rightarrow> u64 \<Rightarrow> bool" where
  "can_admit s p m \<longleftrightarrow> slots_free s > 0 \<and> project_slots_free s p > 0
     \<and> reserved s + m \<le> memory_budget_bytes (s_limits s)"

definition running_count :: "scheduler \<Rightarrow> nat" where
  "running_count s = length (s_running s)"

definition queued_count :: "scheduler \<Rightarrow> nat" where
  "queued_count s = length (s_queue s)"

definition held_reservations :: "scheduler \<Rightarrow> nat" where
  "held_reservations s = length (s_held s)"

section \<open>Picking the next request\<close>

definition fits :: "scheduler \<Rightarrow> queued \<Rightarrow> bool" where
  "fits s q \<longleftrightarrow> project_slots_free s (q_project q) > 0
     \<and> reserved s + q_memory q \<le> memory_budget_bytes (s_limits s)"

definition starved :: "scheduler \<Rightarrow> duration \<Rightarrow> queued \<Rightarrow> bool" where
  "starved s now q \<longleftrightarrow> now - q_enqueued_at q \<ge> starvation_after (s_limits s)"

definition idle_project :: "scheduler \<Rightarrow> queued \<Rightarrow> bool" where
  "idle_project s q \<longleftrightarrow>
     project_slots_free s (q_project q) = max_parallel_per_project (s_limits s)"

definition candidate_index :: "scheduler \<Rightarrow> duration \<Rightarrow> nat option" where
  "candidate_index s now =
    (if slots_free s = 0 then None
     else let items = enumerate 0 (s_queue s) in
       case find (\<lambda>(i, q). fits s q \<and> starved s now q) items of
         Some (i, _) \<Rightarrow> Some i
       | None \<Rightarrow>
           (case min_by_key (\<lambda>(i, q). q_enqueued_at q)
                   (filter (\<lambda>(i, q). fits s q \<and> idle_project s q) items) of
              Some (i, _) \<Rightarrow> Some i
            | None \<Rightarrow>
                map_option fst (min_by_key (\<lambda>(i, q). q_enqueued_at q)
                                  (filter (\<lambda>(i, q). fits s q) items))))"

definition to_running :: "queued \<Rightarrow> running" where
  "to_running q = \<lparr>r_id = q_id q, r_project = q_project q, r_memory = q_memory q\<rparr>"

definition pick_next :: "duration \<Rightarrow> scheduler \<Rightarrow> (run_id \<times> scheduler) option" where
  "pick_next now s =
    (case candidate_index s now of
       None \<Rightarrow> None
     | Some i \<Rightarrow>
         if i < length (s_queue s) then
           (let q = s_queue s ! i in
            Some (q_id q, s\<lparr>s_queue := remove_nth i (s_queue s),
                            s_running := s_running s @ [to_running q]\<rparr>))
         else None)"

lemma pick_next_shrinks:
  "pick_next now s = Some (i, s') \<Longrightarrow> length (s_queue s') < length (s_queue s)"
  by (auto simp: pick_next_def Let_def split: option.splits if_splits)

text \<open>The loop of \<open>release\<close>: pick until nothing fits.\<close>

function drain :: "duration \<Rightarrow> scheduler \<Rightarrow> run_id list \<times> scheduler" where
  "drain now s =
    (case pick_next now s of
       None \<Rightarrow> ([], s)
     | Some (i, s') \<Rightarrow> let (ids, s'') = drain now s' in (i # ids, s''))"
  by pat_completeness auto
termination
  by (relation "measure (\<lambda>(_, s). length (s_queue s))") (auto dest: pick_next_shrinks)

declare drain.simps [simp del]

section \<open>Operations\<close>

definition submit ::
  "run_id \<Rightarrow> string \<Rightarrow> u64 \<Rightarrow> duration option \<Rightarrow> duration \<Rightarrow> scheduler
     \<Rightarrow> (admission \<times> scheduler) option" where
  "submit i p m tmo now s =
    (if m > memory_budget_bytes (s_limits s)
     then Some (ARejected (Impossible m (memory_budget_bytes (s_limits s))), s)
     else if can_admit s p m
     then Some (AStart m,
            s\<lparr>s_running := s_running s @ [\<lparr>r_id = i, r_project = p, r_memory = m\<rparr>]\<rparr>)
     else if length (s_queue s) \<ge> max_queued (s_limits s)
     then Some (ARejected (QueueFull (max_queued (s_limits s))), s)
     else (case duration_add now
                  (case tmo of None \<Rightarrow> queue_timeout (s_limits s) | Some d \<Rightarrow> d) of
             None \<Rightarrow> None
           | Some dl \<Rightarrow>
               (let s' = s\<lparr>s_queue := s_queue s @ [\<lparr>q_id = i, q_project = p, q_memory = m,
                             q_enqueued_at = now, q_deadline = dl\<rparr>]\<rparr> in
                Some (AQueued (length (s_queue s')), s'))))"

definition release ::
  "run_id \<Rightarrow> bool \<Rightarrow> duration \<Rightarrow> scheduler \<Rightarrow> run_id list \<times> scheduler" where
  "release i hold now s =
    (let kept = (if hold then find (\<lambda>r. r_id r = i) (s_running s) else None);
         before = length (s_running s);
         s1 = s\<lparr>s_running := filter (\<lambda>r. r_id r \<noteq> i) (s_running s)\<rparr>;
         s2 = (case kept of None \<Rightarrow> s1 | Some r \<Rightarrow> s1\<lparr>s_held := s_held s1 @ [r]\<rparr>)
     in if length (s_running s2) = before then ([], s2) else drain now s2)"

definition cancel_queued :: "run_id \<Rightarrow> scheduler \<Rightarrow> bool \<times> scheduler" where
  "cancel_queued i s =
    (let s' = s\<lparr>s_queue := filter (\<lambda>q. q_id q \<noteq> i) (s_queue s)\<rparr>
     in (length (s_queue s') \<noteq> length (s_queue s), s'))"

definition expire :: "duration \<Rightarrow> scheduler \<Rightarrow> run_id list \<times> scheduler" where
  "expire now s =
    (map q_id (filter (\<lambda>q. now \<ge> q_deadline q) (s_queue s)),
     s\<lparr>s_queue := filter (\<lambda>q. \<not> now \<ge> q_deadline q) (s_queue s)\<rparr>)"

definition position :: "run_id \<Rightarrow> scheduler \<Rightarrow> nat option" where
  "position i s = map_option Suc (position_by (\<lambda>q. q_id q = i) (s_queue s))"

section \<open>Reports\<close>

fun add_usage :: "running \<Rightarrow> project_usage list \<Rightarrow> project_usage list" where
  "add_usage r [] = [\<lparr>pu_project = r_project r, pu_running = 1, pu_reserved = r_memory r\<rparr>]"
| "add_usage r (u # us) =
    (if pu_project u = r_project r
     then u\<lparr>pu_running := pu_running u + 1, pu_reserved := pu_reserved u + r_memory r\<rparr> # us
     else u # add_usage r us)"

definition projects :: "scheduler \<Rightarrow> project_usage list" where
  "projects s = sort_key pu_project (foldl (\<lambda>out r. add_usage r out) [] (s_running s))"

definition queue_reason :: "scheduler \<Rightarrow> queued \<Rightarrow> string" where
  "queue_reason s q =
    (if project_slots_free s (q_project q) = 0
     then ''project '' @ q_project q @ '' is at its ''
          @ show_nat (max_parallel_per_project (s_limits s)) @ ''-run limit''
     else if slots_free s = 0
     then ''all '' @ show_nat (max_parallel (s_limits s)) @ '' slots are busy''
     else ''waiting for a memory reservation'')"

definition queue_entries :: "duration \<Rightarrow> scheduler \<Rightarrow> queue_entry list" where
  "queue_entries now s =
    map (\<lambda>(i, q). \<lparr>qe_run_id = show_run_id (q_id q), qe_project = q_project q,
           qe_position = i + 1, qe_waiting_ms = as_millis_u64 (now - q_enqueued_at q),
           qe_memory = q_memory q, qe_reason = queue_reason s q\<rparr>)
        (enumerate 0 (s_queue s))"

end
