(* ===== verification/Pool.thy ===== *)
theory Pool
  imports Main
begin

text \<open>
  The interface between the supervisor and admission control: a pool of ids, each active, waiting
  or unknown.  The supervisor relies on these laws only, not on how the scheduler picks.
\<close>

datatype verdict_kind = VStarted | VQueued | VRefused

locale slot_pool =
  fixes active :: "'s \<Rightarrow> 'i set"
    and waiting :: "'s \<Rightarrow> 'i set"
    and ok :: "'s \<Rightarrow> bool"
    and kind :: "'a \<Rightarrow> verdict_kind"
    and ask :: "'i \<Rightarrow> 'r \<Rightarrow> 's \<Rightarrow> ('a \<times> 's) option"
    and rel :: "'i \<Rightarrow> bool \<Rightarrow> nat \<Rightarrow> 's \<Rightarrow> 'i list \<times> 's"
    and withdraw :: "'i \<Rightarrow> 's \<Rightarrow> bool \<times> 's"
    and overdue :: "nat \<Rightarrow> 's \<Rightarrow> 'i list \<times> 's"
  assumes disjoint: "ok s \<Longrightarrow> active s \<inter> waiting s = {}"
    and ask_law: "ok s \<Longrightarrow> i \<notin> active s \<union> waiting s \<Longrightarrow> ask i r s = Some (a, s') \<Longrightarrow>
      ok s' \<and> active s' = (if kind a = VStarted then insert i (active s) else active s)
            \<and> waiting s' = (if kind a = VQueued then insert i (waiting s) else waiting s)"
    and rel_law: "ok s \<Longrightarrow> rel i hold t s = (ids, s') \<Longrightarrow>
      ok s' \<and> set ids \<subseteq> waiting s \<and> active s' = (active s - {i}) \<union> set ids
            \<and> waiting s' = waiting s - set ids \<and> (i \<notin> active s \<longrightarrow> ids = [])"
    and withdraw_law: "ok s \<Longrightarrow> withdraw i s = (b, s') \<Longrightarrow>
      ok s' \<and> (b \<longleftrightarrow> i \<in> waiting s) \<and> active s' = active s \<and> waiting s' = waiting s - {i}"
    and overdue_law: "ok s \<Longrightarrow> overdue t s = (ids, s') \<Longrightarrow>
      ok s' \<and> set ids \<subseteq> waiting s \<and> active s' = active s \<and> waiting s' = waiting s - set ids"
begin

text \<open>A client whose books say who is active and who waits.\<close>

definition tracks :: "('i \<Rightarrow> bool) \<Rightarrow> ('i \<Rightarrow> bool) \<Rightarrow> 's \<Rightarrow> bool" where
  "tracks A W s \<longleftrightarrow> ok s \<and> (\<forall>j. A j \<longleftrightarrow> j \<in> active s) \<and> (\<forall>j. W j \<longleftrightarrow> j \<in> waiting s)"

lemma tracks_not_both: "tracks A W s \<Longrightarrow> A i \<Longrightarrow> \<not> W i"
  using disjoint by (auto simp: tracks_def)

lemma tracks_ask:
  assumes "tracks A W s" "\<not> A i" "\<not> W i" "ask i r s = Some (a, s')"
  shows "tracks (\<lambda>j. A j \<or> kind a = VStarted \<and> j = i) (\<lambda>j. W j \<or> kind a = VQueued \<and> j = i) s'"
  using ask_law[of s i r a s'] assms by (auto simp: tracks_def)

lemma tracks_rel:
  assumes "tracks A W s" "rel i hold t s = (ids, s')"
  shows "tracks (\<lambda>j. A j \<and> j \<noteq> i \<or> j \<in> set ids) (\<lambda>j. W j \<and> j \<notin> set ids) s'"
    and "\<forall>j\<in>set ids. W j" and "\<not> A i \<Longrightarrow> ids = []"
  using rel_law[of s i hold t ids s'] assms by (auto simp: tracks_def)

lemma tracks_withdraw:
  assumes "tracks A W s" "withdraw i s = (b, s')"
  shows "tracks A (\<lambda>j. W j \<and> j \<noteq> i) s'" and "b \<longleftrightarrow> W i"
  using withdraw_law[of s i b s'] assms by (auto simp: tracks_def)

lemma tracks_overdue:
  assumes "tracks A W s" "overdue t s = (ids, s')"
  shows "tracks A (\<lambda>j. W j \<and> j \<notin> set ids) s'" and "\<forall>j\<in>set ids. W j"
  using overdue_law[of s t ids s'] assms by (auto simp: tracks_def)

end

end
