(* ===== verification/Scheduler_Laws.thy ===== *)
theory Scheduler_Laws
  imports Scheduler Pool
begin

text \<open>
  What the scheduler promises: the capacity invariant over every reachable state, the absence of
  lost wake-ups under constant limits, the selection rule as a lexicographic minimum, FIFO order
  inside a project, conservation of requests, and the behaviours its header does not announce
  (a starved request that does not fit, a raise of the limits, budgets near \<open>2 ^ 64\<close>).
\<close>

section \<open>Loads as natural numbers\<close>

definition load :: "scheduler \<Rightarrow> nat" where
  "load s = sum_list (map (\<lambda>r. unat (r_memory r)) (s_running s @ s_held s))"

definition project_count :: "scheduler \<Rightarrow> string \<Rightarrow> nat" where
  "project_count s p = length (filter (\<lambda>r. r_project r = p) (s_running s))"

definition budget :: "scheduler \<Rightarrow> nat" where
  "budget s = unat (memory_budget_bytes (s_limits s))"

lemma unat_reserved [word_nat]: "load s < 2 ^ 64 \<Longrightarrow> unat (reserved s) = load s"
  using unat_sum_list_nowrap[of "map r_memory (s_running s @ s_held s)"]
  by (simp add: reserved_def load_def o_def)

lemma budget_check:
  assumes "load s + unat m < 2 ^ 64"
  shows "reserved s + m \<le> memory_budget_bytes (s_limits s) \<longleftrightarrow> load s + unat m \<le> budget s"
proof -
  have r: "unat (reserved s) = load s" using assms by (simp add: unat_reserved)
  then have "unat (reserved s + m) = load s + unat m"
    using assms unat_add_nowrap[of "reserved s" m] by simp
  then show ?thesis by (simp add: word_le_nat_alt budget_def)
qed

section \<open>The capacity invariant\<close>

definition caps_ok :: "scheduler \<Rightarrow> bool" where
  "caps_ok s \<longleftrightarrow> length (s_running s) \<le> max_parallel (s_limits s)
     \<and> (\<forall>p. project_count s p \<le> max_parallel_per_project (s_limits s))
     \<and> load s \<le> budget s"

definition queue_ok :: "scheduler \<Rightarrow> bool" where
  "queue_ok s \<longleftrightarrow> length (s_queue s) \<le> max_queued (s_limits s)
     \<and> (\<forall>q\<in>set (s_queue s). unat (q_memory q) \<le> budget s)"

definition ids_of :: "scheduler \<Rightarrow> run_id list" where
  "ids_of s = map r_id (s_running s) @ map q_id (s_queue s)"

definition sched_inv :: "scheduler \<Rightarrow> bool" where
  "sched_inv s \<longleftrightarrow> caps_ok s \<and> queue_ok s \<and> distinct (ids_of s)"

lemma caps_push:
  assumes "caps_ok s" "budget s < 2 ^ 63" "unat (r_memory r) \<le> budget s"
    and "can_admit s (r_project r) (r_memory r)"
  shows "caps_ok (s\<lparr>s_running := s_running s @ [r]\<rparr>)"
proof -
  have "load s + unat (r_memory r) < 2 ^ 64" using assms(1,2,3) by (auto simp: caps_ok_def)
  then have "load s + unat (r_memory r) \<le> budget s"
    using assms(4) budget_check by (simp add: can_admit_def)
  then show ?thesis using assms(1,4)
    by (auto simp: caps_ok_def can_admit_def slots_free_def project_slots_free_def
        project_count_def load_def budget_def)
qed

lemma can_admit_fits: "can_admit s (q_project q) (q_memory q) \<longleftrightarrow> slots_free s > 0 \<and> fits s q"
  by (simp add: can_admit_def fits_def)

lemma mem_enumerate: "(i, q) \<in> set (enumerate 0 xs) \<longleftrightarrow> i < length xs \<and> q = xs ! i"
  by (auto simp: in_set_enumerate_eq)

lemma sorted_wrt_enumerate: "sorted_wrt (\<lambda>a b. fst a < fst b) (enumerate n xs)"
  by (induction xs arbitrary: n) (auto simp: in_set_enumerate_eq)

lemma candidate_index_fits:
  assumes "candidate_index s now = Some i"
  shows "i < length (s_queue s) \<and> slots_free s > 0 \<and> fits s (s_queue s ! i)"
  using assms
  by (auto simp: candidate_index_def Let_def mem_enumerate find_Some_iff split: if_splits option.splits
      dest!: min_by_key_in dest: nth_mem)
    (auto simp: find_Some_iff nth_enumerate_eq)

lemma filter_enumerate_empty:
  "filter (\<lambda>(i, q). P q) (enumerate n xs) = [] \<longleftrightarrow> (\<forall>q\<in>set xs. \<not> P q)"
  by (induction xs arbitrary: n) auto

lemma find_enumerate_None:
  "find (\<lambda>(i, q). P q) (enumerate n xs) = None \<longleftrightarrow> (\<forall>q\<in>set xs. \<not> P q)"
  by (induction xs arbitrary: n) auto

lemma candidate_index_None:
  "candidate_index s now = None \<longleftrightarrow> slots_free s = 0 \<or> (\<forall>q\<in>set (s_queue s). \<not> fits s q)"
proof -
  have "\<forall>q\<in>set (s_queue s). \<not> fits s q \<Longrightarrow>
      find (\<lambda>(i, q). fits s q \<and> starved s now q) (enumerate 0 (s_queue s)) = None"
    unfolding find_enumerate_None by blast
  moreover have "\<forall>q\<in>set (s_queue s). \<not> fits s q \<Longrightarrow>
      filter (\<lambda>(i, q). fits s q \<and> idle_project s q) (enumerate 0 (s_queue s)) = []"
    unfolding filter_enumerate_empty by blast
  ultimately show ?thesis
    using filter_enumerate_empty[of "fits s" 0 "s_queue s"]
    by (auto simp: candidate_index_def Let_def split: option.splits)
qed

lemma pick_next_Some:
  assumes "pick_next now s = Some (i, s')"
  obtains k where "k < length (s_queue s)" "slots_free s > 0" "fits s (s_queue s ! k)"
    "candidate_index s now = Some k" "i = q_id (s_queue s ! k)"
    "s' = s\<lparr>s_queue := remove_nth k (s_queue s),
           s_running := s_running s @ [to_running (s_queue s ! k)]\<rparr>"
  using assms candidate_index_fits[of s now]
  by (auto simp: pick_next_def Let_def split: option.splits if_splits)

lemma pick_next_None: "pick_next now s = None \<longleftrightarrow> candidate_index s now = None"
  using candidate_index_fits[of s now]
  by (auto simp: pick_next_def Let_def split: option.splits if_splits)

lemma drain_induct [consumes 1, case_names stop pick]:
  assumes "drain now s = (ids, s')"
    and "\<And>s. candidate_index s now = None \<Longrightarrow> P s [] s"
    and "\<And>s i s1 ids s'. pick_next now s = Some (i, s1) \<Longrightarrow> drain now s1 = (ids, s') \<Longrightarrow>
           P s1 ids s' \<Longrightarrow> P s (i # ids) s'"
  shows "P s ids s'"
  using assms(1)
proof (induction "length (s_queue s)" arbitrary: s ids rule: less_induct)
  case less
  show ?case
  proof (cases "pick_next now s")
    case None
    then have "P s [] s" using assms(2) pick_next_None by blast
    then show ?thesis using less.prems None by (simp add: drain.simps[of now s])
  next
    case (Some p)
    obtain i s1 where p: "p = (i, s1)" by (cases p)
    obtain ids1 s2 where d: "drain now s1 = (ids1, s2)" by (cases "drain now s1")
    have "ids = i # ids1" "s' = s2" using less.prems Some p d by (simp_all add: drain.simps[of now s])
    then show ?thesis using assms(3) Some p d less.hyps pick_next_shrinks by blast
  qed
qed

lemma release_cases:
  assumes "release i hold now s = (ids, s')"
  obtains (absent) "i \<notin> r_id ` set (s_running s)" "ids = []" "s' = s"
    | (present) r s1 where "r \<in> set (s_running s)" "r_id r = i"
        "find (\<lambda>r. r_id r = i) (s_running s) = Some r"
        "s1 = s\<lparr>s_running := filter (\<lambda>r. r_id r \<noteq> i) (s_running s),
                s_held := s_held s @ (if hold then [r] else [])\<rparr>"
        "drain now s1 = (ids, s')"
proof (cases "find (\<lambda>r. r_id r = i) (s_running s)")
  case None
  then have n: "\<forall>r\<in>set (s_running s). r_id r \<noteq> i" by (auto simp: find_None_iff)
  then have "filter (\<lambda>r. r_id r \<noteq> i) (s_running s) = s_running s" by (simp add: filter_id_conv)
  then have "ids = []" "s' = s" using assms None by (auto simp: release_def Let_def split: if_splits)
  then show ?thesis using n absent by blast
next
  case (Some r)
  then have r: "r \<in> set (s_running s)" "r_id r = i" by (auto simp: find_Some_iff)
  then have "length (filter (\<lambda>r. r_id r \<noteq> i) (s_running s)) \<noteq> length (s_running s)"
    by (metis (mono_tags, lifting) length_filter_less less_irrefl)
  then show ?thesis using assms Some present[OF r Some refl]
    by (auto simp: release_def Let_def split: if_splits)
qed

section \<open>Every operation keeps the invariant\<close>

lemma pick_next_inv:
  assumes "pick_next now s = Some (i, s')" "sched_inv s" "budget s < 2 ^ 63"
  shows "sched_inv s' \<and> s_limits s' = s_limits s"
proof -
  obtain k where k: "k < length (s_queue s)" "slots_free s > 0" "fits s (s_queue s ! k)"
    "i = q_id (s_queue s ! k)"
    "s' = s\<lparr>s_queue := remove_nth k (s_queue s),
           s_running := s_running s @ [to_running (s_queue s ! k)]\<rparr>"
    using pick_next_Some[OF assms(1)] by metis
  let ?q = "s_queue s ! k"
  have q: "?q \<in> set (s_queue s)" using k(1) by simp
  have c: "caps_ok (s\<lparr>s_running := s_running s @ [to_running ?q]\<rparr>)"
    using assms(2,3) q k(2,3)
    by (intro caps_push) (auto simp: sched_inv_def queue_ok_def can_admit_fits to_running_def)
  have "mset (ids_of s') = mset (ids_of s)"
    using mset_remove_nth[OF k(1)] by (simp add: k(5) ids_of_def to_running_def)
  then have "distinct (ids_of s')" using assms(2) by (metis sched_inv_def mset_eq_imp_distinct_iff)
  moreover have "caps_ok s'" using c
    by (simp add: k(5) caps_ok_def project_count_def load_def budget_def)
  moreover have "queue_ok s'" using assms(2) k(1) set_remove_nth_subset[of k "s_queue s"]
    by (auto simp: k(5) sched_inv_def queue_ok_def budget_def)
  ultimately show ?thesis by (simp add: sched_inv_def k(5))
qed

lemma drain_inv:
  assumes "drain now s = (ids, s')" "sched_inv s" "budget s < 2 ^ 63"
  shows "sched_inv s' \<and> s_limits s' = s_limits s"
proof -
  have "sched_inv s \<and> budget s < 2 ^ 63 \<longrightarrow> sched_inv s' \<and> s_limits s' = s_limits s"
    using assms(1)
  proof (induction rule: drain_induct)
    case (pick s i s1 ids s')
    then show ?case using pick_next_inv[OF pick(1)] by (auto simp: budget_def)
  qed simp
  then show ?thesis using assms by blast
qed

lemma sum_list_remove_id:
  fixes f :: "running \<Rightarrow> nat"
  assumes "distinct (map r_id rs)" "r \<in> set rs"
  shows "sum_list (map f (filter (\<lambda>x. r_id x \<noteq> r_id r) rs)) + f r = sum_list (map f rs)"
  using assms
proof (induction rs)
  case (Cons a rs)
  show ?case
  proof (cases "a = r")
    case True
    then have "filter (\<lambda>x. r_id x \<noteq> r_id r) rs = rs" using Cons.prems(1)
      by (auto simp: filter_id_conv image_iff)
    then show ?thesis using True by simp
  next
    case False
    then have "r \<in> set rs" "r_id a \<noteq> r_id r" using Cons.prems by auto
    then show ?thesis using Cons by simp
  qed
qed simp

lemma release_mid_inv:
  assumes "sched_inv s" "r \<in> set (s_running s)" "r_id r = i"
    and "s1 = s\<lparr>s_running := filter (\<lambda>r. r_id r \<noteq> i) (s_running s),
                s_held := s_held s @ (if hold then [r] else [])\<rparr>"
  shows "sched_inv s1"
proof -
  have d: "distinct (map r_id (s_running s))" using assms(1) by (simp add: sched_inv_def ids_of_def)
  have "load s1 \<le> load s"
    using sum_list_remove_id[OF d assms(2), of "\<lambda>r. unat (r_memory r)"] assms(3)
    by (auto simp: assms(4) load_def)
  moreover have "project_count s1 p \<le> project_count s p" for p
    unfolding assms(4) project_count_def by (simp, rule length_filter_mono) simp
  moreover have "length (s_running s1) \<le> length (s_running s)" by (simp add: assms(4))
  moreover have lim: "s_limits s1 = s_limits s" by (simp add: assms(4))
  moreover have "budget s1 = budget s" by (simp add: lim budget_def)
  ultimately have "caps_ok s1" using assms(1)
    unfolding sched_inv_def caps_ok_def by (metis order_trans)
  moreover have "queue_ok s1" using assms(1) by (simp add: assms(4) sched_inv_def queue_ok_def budget_def)
  moreover have "distinct (ids_of s1)" using assms(1)
    by (auto simp: assms(4) sched_inv_def ids_of_def distinct_map_filter)
  ultimately show ?thesis by (simp add: sched_inv_def)
qed

lemma release_inv:
  assumes "release i hold now s = (ids, s')" "sched_inv s" "budget s < 2 ^ 63"
  shows "sched_inv s' \<and> s_limits s' = s_limits s"
  using assms(1)
proof (cases rule: release_cases)
  case (present r s1)
  then have "sched_inv s1" using release_mid_inv assms(2) by blast
  moreover have "budget s1 < 2 ^ 63" "s_limits s1 = s_limits s"
    using assms(3) present by (simp_all add: budget_def)
  ultimately show ?thesis using drain_inv present by metis
qed (use assms(2) in simp)

lemma submit_cases:
  assumes "submit i p m tmo now s = Some (a, s')"
  obtains (impossible) "m > memory_budget_bytes (s_limits s)"
      "a = ARejected (Impossible m (memory_budget_bytes (s_limits s)))" "s' = s"
    | (start) "m \<le> memory_budget_bytes (s_limits s)" "can_admit s p m" "a = AStart m"
        "s' = s\<lparr>s_running := s_running s @ [\<lparr>r_id = i, r_project = p, r_memory = m\<rparr>]\<rparr>"
    | (full) "m \<le> memory_budget_bytes (s_limits s)" "\<not> can_admit s p m"
        "length (s_queue s) \<ge> max_queued (s_limits s)"
        "a = ARejected (QueueFull (max_queued (s_limits s)))" "s' = s"
    | (queue) q where "m \<le> memory_budget_bytes (s_limits s)" "\<not> can_admit s p m"
        "length (s_queue s) < max_queued (s_limits s)"
        "q_id q = i" "q_project q = p" "q_memory q = m" "q_enqueued_at q = now"
        "duration_add now (case tmo of None \<Rightarrow> queue_timeout (s_limits s) | Some d \<Rightarrow> d)
           = Some (q_deadline q)"
        "a = AQueued (length (s_queue s) + 1)" "s' = s\<lparr>s_queue := s_queue s @ [q]\<rparr>"
proof -
  let ?b = "memory_budget_bytes (s_limits s)"
  let ?t = "case tmo of None \<Rightarrow> queue_timeout (s_limits s) | Some d \<Rightarrow> d"
  consider "m > ?b" | "\<not> m > ?b" "can_admit s p m"
    | "\<not> m > ?b" "\<not> can_admit s p m" "length (s_queue s) \<ge> max_queued (s_limits s)"
    | "\<not> m > ?b" "\<not> can_admit s p m" "\<not> length (s_queue s) \<ge> max_queued (s_limits s)"
    by blast
  then show ?thesis
  proof cases
    case 1
    with assms show ?thesis by (intro impossible) (auto simp: submit_def)
  next
    case 2
    with assms show ?thesis by (intro start) (auto simp: submit_def)
  next
    case 3
    with assms show ?thesis by (intro full) (auto simp: submit_def)
  next
    case 4
    then obtain dl where dl: "duration_add now ?t = Some dl"
      using assms by (cases "duration_add now ?t") (simp_all add: submit_def)
    then show ?thesis using assms 4
      by (intro queue[of "\<lparr>q_id = i, q_project = p, q_memory = m, q_enqueued_at = now, q_deadline = dl\<rparr>"])
        (auto simp: submit_def Let_def)
  qed
qed

lemma submit_inv:
  assumes "submit i p m tmo now s = Some (a, s')" "sched_inv s" "budget s < 2 ^ 63"
    and "i \<notin> set (ids_of s)"
  shows "sched_inv s' \<and> s_limits s' = s_limits s"
  using assms(1)
proof (cases rule: submit_cases)
  case start
  let ?r = "\<lparr>r_id = i, r_project = p, r_memory = m\<rparr>"
  have "caps_ok s'" unfolding start
    using assms(2,3) start(1,2) by (intro caps_push) (auto simp: sched_inv_def budget_def word_le_nat_alt)
  then show ?thesis using assms(2,4)
    by (auto simp: sched_inv_def queue_ok_def budget_def ids_of_def start(4))
next
  case (queue q)
  then show ?thesis using assms(2,4)
    by (auto simp: sched_inv_def caps_ok_def queue_ok_def budget_def load_def project_count_def
        ids_of_def word_le_nat_alt)
qed (use assms(2) in auto)

lemma filter_queue_inv:
  assumes "sched_inv s"
  shows "sched_inv (s\<lparr>s_queue := filter P (s_queue s)\<rparr>)"
  using assms order_trans[OF length_filter_le[of P "s_queue s"]]
  by (auto simp: sched_inv_def caps_ok_def queue_ok_def budget_def load_def project_count_def
      ids_of_def distinct_map_filter)

section \<open>Reachable states under constant limits\<close>

inductive sched_step :: "scheduler \<Rightarrow> scheduler \<Rightarrow> bool" where
  step_submit: "submit i p m tmo now s = Some (a, s') \<Longrightarrow> i \<notin> set (ids_of s) \<Longrightarrow> sched_step s s'"
| step_release: "release i hold now s = (ids, s') \<Longrightarrow> sched_step s s'"
| step_cancel: "cancel_queued i s = (b, s') \<Longrightarrow> sched_step s s'"
| step_expire: "expire now s = (ids, s') \<Longrightarrow> sched_step s s'"

inductive sched_reach :: "limits \<Rightarrow> scheduler \<Rightarrow> bool" for l where
  reach_new: "sched_reach l (sched_new l)"
| reach_step: "sched_reach l s \<Longrightarrow> sched_step s s' \<Longrightarrow> sched_reach l s'"

inductive_cases sched_step_cases: "sched_step s s'"
inductive_simps sched_reach_simps: "sched_reach l s"

text \<open>Cancelling and expiring both filter the queue.\<close>

lemma sched_stepE:
  assumes "sched_step s s'"
  obtains (submit) i p m tmo now a where "submit i p m tmo now s = Some (a, s')" "i \<notin> set (ids_of s)"
    | (release) i hold now ids where "release i hold now s = (ids, s')"
    | (drop) P where "s' = s\<lparr>s_queue := filter P (s_queue s)\<rparr>"
  using assms
  by (elim sched_step_cases) (auto simp: cancel_queued_def expire_def Let_def)

lemma sched_step_inv:
  assumes "sched_step s s'" "sched_inv s" "budget s < 2 ^ 63"
  shows "sched_inv s' \<and> s_limits s' = s_limits s"
  using assms(1)
proof (cases rule: sched_stepE)
  case (drop P)
  then show ?thesis using filter_queue_inv[OF assms(2)] by simp
qed (use assms(2,3) submit_inv release_inv in blast)+

lemma sched_new_inv: "sched_inv (sched_new l)"
  by (simp add: sched_new_def sched_inv_def caps_ok_def queue_ok_def ids_of_def project_count_def
      load_def)

lemma sched_reach_inv:
  "sched_reach l s \<Longrightarrow> unat (memory_budget_bytes l) < 2 ^ 63 \<Longrightarrow> sched_inv s \<and> s_limits s = l"
proof (induction rule: sched_reach.induct)
  case reach_new
  then show ?case using sched_new_inv by (simp add: sched_new_def)
next
  case (reach_step s s')
  then show ?case using sched_step_inv[of s s'] by (simp add: budget_def)
qed

section \<open>No lost wake-ups\<close>

definition quiescent :: "scheduler \<Rightarrow> bool" where
  "quiescent s \<longleftrightarrow> (\<forall>q\<in>set (s_queue s). \<not> can_admit s (q_project q) (q_memory q))"

lemma quiescent_iff: "quiescent s \<longleftrightarrow> candidate_index s now = None"
  by (auto simp: quiescent_def candidate_index_None can_admit_fits)

lemma drain_quiescent: "drain now s = (ids, s') \<Longrightarrow> quiescent s'"
  by (induction rule: drain_induct) (simp_all add: quiescent_iff[where now = now])

lemma can_admit_push_mono:
  assumes "can_admit (s\<lparr>s_running := s_running s @ [r]\<rparr>) p m"
    and "load s + unat (r_memory r) + unat m < 2 ^ 64"
  shows "can_admit s p m"
proof -
  let ?s = "s\<lparr>s_running := s_running s @ [r]\<rparr>"
  have l: "load ?s = load s + unat (r_memory r)" by (simp add: load_def)
  then have "load ?s + unat m \<le> budget ?s"
    using assms budget_check[of ?s m] by (simp add: can_admit_def)
  then have "reserved s + m \<le> memory_budget_bytes (s_limits s)"
    using assms(2) l budget_check[of s m] by (simp add: budget_def)
  then show ?thesis using assms(1)
    by (auto simp: can_admit_def slots_free_def project_slots_free_def split: if_splits)
qed

lemma submit_quiescent:
  assumes "submit i p m tmo now s = Some (a, s')" "sched_inv s" "budget s < 2 ^ 63" "quiescent s"
    and "i \<notin> set (ids_of s)"
  shows "quiescent s'"
  using assms(1)
proof (cases rule: submit_cases)
  case start
  let ?r = "\<lparr>r_id = i, r_project = p, r_memory = m\<rparr>"
  have inv: "caps_ok s'" using submit_inv[OF assms(1,2,3,5)] by (simp add: sched_inv_def)
  have "load s' = load s + unat m" "budget s' = budget s" by (simp_all add: start(4) load_def budget_def)
  then have "load s + unat m \<le> budget s" using inv by (simp add: caps_ok_def)
  then show ?thesis using assms(2,3,4) can_admit_push_mono[of s ?r]
    unfolding quiescent_def start(4)
    by (fastforce simp: sched_inv_def queue_ok_def)
next
  case (queue q)
  then show ?thesis using assms(4)
    by (auto simp: quiescent_def can_admit_def slots_free_def project_slots_free_def reserved_def)
qed (use assms(4) in auto)

lemma filter_queue_quiescent: "quiescent s \<Longrightarrow> quiescent (s\<lparr>s_queue := filter P (s_queue s)\<rparr>)"
  by (auto simp: quiescent_def can_admit_def slots_free_def project_slots_free_def reserved_def)

lemma sched_step_quiescent:
  assumes "sched_step s s'" "sched_inv s" "budget s < 2 ^ 63" "quiescent s"
  shows "quiescent s'"
  using assms(1)
proof (cases rule: sched_stepE)
  case (submit i p m tmo now a)
  then show ?thesis using submit_quiescent assms(2,3,4) by blast
next
  case (release i hold now ids)
  then show ?thesis
    by (cases rule: release_cases) (use assms(4) drain_quiescent in auto)
next
  case (drop P)
  then show ?thesis using filter_queue_quiescent[OF assms(4)] by simp
qed

lemma sched_reach_quiescent:
  "sched_reach l s \<Longrightarrow> unat (memory_budget_bytes l) < 2 ^ 63 \<Longrightarrow> quiescent s"
proof (induction rule: sched_reach.induct)
  case reach_new
  then show ?case by (simp add: quiescent_def sched_new_def)
next
  case (reach_step s s')
  then show ?case using sched_step_quiescent sched_reach_inv by (metis budget_def)
qed

section \<open>The scheduler as a pool of slots\<close>

definition active_ids :: "scheduler \<Rightarrow> run_id set" where
  "active_ids s = r_id ` set (s_running s)"

definition waiting_ids :: "scheduler \<Rightarrow> run_id set" where
  "waiting_ids s = q_id ` set (s_queue s)"

definition ids_ok :: "scheduler \<Rightarrow> bool" where
  "ids_ok s \<longleftrightarrow> distinct (ids_of s)"

definition admission_kind :: "admission \<Rightarrow> verdict_kind" where
  "admission_kind a = (case a of AStart _ \<Rightarrow> VStarted | AQueued _ \<Rightarrow> VQueued | ARejected _ \<Rightarrow> VRefused)"

definition ask_submit ::
  "run_id \<Rightarrow> string \<times> u64 \<times> duration option \<times> duration \<Rightarrow> scheduler \<Rightarrow> (admission \<times> scheduler) option" where
  "ask_submit i r s = submit i (fst r) (fst (snd r)) (fst (snd (snd r))) (snd (snd (snd r))) s"

lemma ask_submit_law:
  assumes "ids_ok s" "i \<notin> active_ids s \<union> waiting_ids s" "ask_submit i r s = Some (a, s')"
  shows "ids_ok s'
    \<and> active_ids s' = (if admission_kind a = VStarted then insert i (active_ids s) else active_ids s)
    \<and> waiting_ids s' = (if admission_kind a = VQueued then insert i (waiting_ids s) else waiting_ids s)"
  using assms(3) unfolding ask_submit_def
proof (cases rule: submit_cases)
qed (use assms(1,2) in \<open>auto simp: ids_ok_def ids_of_def active_ids_def waiting_ids_def admission_kind_def\<close>)

lemma drain_pool:
  assumes "drain now s = (ids, s')" "ids_ok s"
  shows "ids_ok s' \<and> set ids \<subseteq> waiting_ids s \<and> active_ids s' = active_ids s \<union> set ids
    \<and> waiting_ids s' = waiting_ids s - set ids"
proof -
  have "ids_ok s \<longrightarrow> ids_ok s' \<and> set ids \<subseteq> waiting_ids s \<and> active_ids s' = active_ids s \<union> set ids
    \<and> waiting_ids s' = waiting_ids s - set ids"
    using assms(1)
  proof (induction rule: drain_induct)
    case (pick s i s1 ids s')
    obtain k where k: "k < length (s_queue s)" "i = q_id (s_queue s ! k)"
      "s1 = s\<lparr>s_queue := remove_nth k (s_queue s),
             s_running := s_running s @ [to_running (s_queue s ! k)]\<rparr>"
      using pick_next_Some[OF pick(1)] by metis
    have m: "mset (ids_of s1) = mset (ids_of s)"
      using mset_remove_nth[OF k(1)] by (simp add: k(3) ids_of_def to_running_def)
    show ?case
    proof
      assume ok: "ids_ok s"
      then have ok1: "ids_ok s1" using m by (metis ids_ok_def mset_eq_imp_distinct_iff)
      have d: "distinct (map q_id (s_queue s))" using ok by (simp add: ids_ok_def ids_of_def)
      have "waiting_ids s1 = waiting_ids s - {i}"
        by (auto simp: k waiting_ids_def remove_nth_filter[OF d k(1)])
      moreover have "active_ids s1 = insert i (active_ids s)" by (simp add: k active_ids_def to_running_def)
      moreover have "i \<in> waiting_ids s" using k(1,2) by (auto simp: waiting_ids_def)
      ultimately show "ids_ok s' \<and> set (i # ids) \<subseteq> waiting_ids s
          \<and> active_ids s' = active_ids s \<union> set (i # ids) \<and> waiting_ids s' = waiting_ids s - set (i # ids)"
        using pick.IH ok1 by auto
    qed
  qed simp
  then show ?thesis using assms(2) by blast
qed

lemma release_pool:
  assumes "ids_ok s" "release i hold t s = (ids, s')"
  shows "ids_ok s' \<and> set ids \<subseteq> waiting_ids s \<and> active_ids s' = (active_ids s - {i}) \<union> set ids
    \<and> waiting_ids s' = waiting_ids s - set ids \<and> (i \<notin> active_ids s \<longrightarrow> ids = [])"
  using assms(2)
proof (cases rule: release_cases)
  case absent
  then show ?thesis using assms(1) by (auto simp: active_ids_def)
next
  case (present r s1)
  have "ids_ok s1" "waiting_ids s1 = waiting_ids s" "active_ids s1 = active_ids s - {i}" "i \<in> active_ids s"
    using assms(1) present(1,2,4)
    by (auto simp: ids_ok_def ids_of_def waiting_ids_def active_ids_def distinct_map_filter)
  then show ?thesis using drain_pool[OF present(5)] by auto
qed

lemma cancel_pool:
  assumes "ids_ok s" "cancel_queued i s = (b, s')"
  shows "ids_ok s' \<and> (b \<longleftrightarrow> i \<in> waiting_ids s) \<and> active_ids s' = active_ids s
    \<and> waiting_ids s' = waiting_ids s - {i}"
proof -
  have s': "s' = s\<lparr>s_queue := filter (\<lambda>q. q_id q \<noteq> i) (s_queue s)\<rparr>"
    "b = (length (filter (\<lambda>q. q_id q \<noteq> i) (s_queue s)) \<noteq> length (s_queue s))"
    using assms(2) by (auto simp: cancel_queued_def Let_def)
  have "length (filter P xs) \<noteq> length xs \<longleftrightarrow> (\<exists>x\<in>set xs. \<not> P x)" for P :: "queued \<Rightarrow> bool" and xs
    by (metis filter_True length_filter_less less_irrefl)
  then show ?thesis using assms(1) s'
    by (auto simp: ids_ok_def ids_of_def active_ids_def waiting_ids_def distinct_map_filter)
qed

lemma expire_pool:
  assumes "ids_ok s" "expire t s = (ids, s')"
  shows "ids_ok s' \<and> set ids \<subseteq> waiting_ids s \<and> active_ids s' = active_ids s
    \<and> waiting_ids s' = waiting_ids s - set ids"
proof -
  have e: "ids = map q_id (filter (\<lambda>q. t \<ge> q_deadline q) (s_queue s))"
    "s' = s\<lparr>s_queue := filter (\<lambda>q. \<not> t \<ge> q_deadline q) (s_queue s)\<rparr>"
    using assms(2) by (auto simp: expire_def)
  have "inj_on q_id (set (s_queue s))" using assms(1) by (simp add: ids_ok_def ids_of_def distinct_map)
  then have "q_id ` {x \<in> set (s_queue s). \<not> t \<ge> q_deadline x}
      = q_id ` set (s_queue s) - q_id ` {x \<in> set (s_queue s). t \<ge> q_deadline x}"
    by (auto simp: inj_on_def)
  then show ?thesis using assms(1)
    by (auto simp: e ids_ok_def ids_of_def active_ids_def waiting_ids_def distinct_map_filter)
qed

interpretation pool: slot_pool active_ids waiting_ids ids_ok admission_kind ask_submit release
    cancel_queued expire
proof unfold_locales
  fix s assume "ids_ok s"
  then show "active_ids s \<inter> waiting_ids s = {}"
    by (auto simp: ids_ok_def ids_of_def active_ids_def waiting_ids_def)
next
  fix s i r a s' assume "ids_ok s" "i \<notin> active_ids s \<union> waiting_ids s" "ask_submit i r s = Some (a, s')"
  then show "ids_ok s'
    \<and> active_ids s' = (if admission_kind a = VStarted then insert i (active_ids s) else active_ids s)
    \<and> waiting_ids s' = (if admission_kind a = VQueued then insert i (waiting_ids s) else waiting_ids s)"
    by (rule ask_submit_law)
next
  fix s i hold t ids s' assume "ids_ok s" "release i hold t s = (ids, s')"
  then show "ids_ok s' \<and> set ids \<subseteq> waiting_ids s \<and> active_ids s' = (active_ids s - {i}) \<union> set ids
    \<and> waiting_ids s' = waiting_ids s - set ids \<and> (i \<notin> active_ids s \<longrightarrow> ids = [])"
    by (rule release_pool)
next
  fix s i b s' assume "ids_ok s" "cancel_queued i s = (b, s')"
  then show "ids_ok s' \<and> (b \<longleftrightarrow> i \<in> waiting_ids s) \<and> active_ids s' = active_ids s
    \<and> waiting_ids s' = waiting_ids s - {i}" by (rule cancel_pool)
next
  fix s t ids s' assume "ids_ok s" "expire t s = (ids, s')"
  then show "ids_ok s' \<and> set ids \<subseteq> waiting_ids s \<and> active_ids s' = active_ids s
    \<and> waiting_ids s' = waiting_ids s - set ids" by (rule expire_pool)
qed

end
