(* ===== verification/Scheduler_Props.thy ===== *)
theory Scheduler_Props
  imports Scheduler_Laws
begin

text \<open>
  The properties of the scheduler, over the laws of the previous theory: safety and liveness of
  admission, the selection rule, FIFO order, conservation, deadlines, reports, and the three
  behaviours that surprise (bypass of a starved request that does not fit, stranded requests after
  a raise of the limits, over-admission when the reservation sum wraps).
\<close>

section \<open>The selection rule as a lexicographic minimum\<close>

definition cand_rank :: "scheduler \<Rightarrow> duration \<Rightarrow> nat \<Rightarrow> nat \<times> nat \<times> nat" where
  "cand_rank s now i =
    (let q = s_queue s ! i in
     if starved s now q then (0, 0, i)
     else if idle_project s q then (1, q_enqueued_at q, i)
     else (2, q_enqueued_at q, i))"

lemma find_enumerate_Some:
  assumes "find (\<lambda>(i, q). P q) (enumerate 0 xs) = Some (i, q)"
  shows "i < length xs \<and> q = xs ! i \<and> P q \<and> (\<forall>j<i. \<not> P (xs ! j))"
  using assms by (auto simp: find_Some_iff nth_enumerate_eq)

lemma min_enumerate_Some:
  assumes "min_by_key (\<lambda>(i, q). f q) (filter (\<lambda>(i, q). P q) (enumerate 0 xs)) = Some (i, q)"
  shows "i < length xs \<and> q = xs ! i \<and> P q"
    and "\<And>j. j < length xs \<Longrightarrow> P (xs ! j) \<Longrightarrow> (f (xs ! i), i) \<le> (f (xs ! j), j)"
proof -
  show i: "i < length xs \<and> q = xs ! i \<and> P q"
    using min_by_key_in[OF assms] by (auto simp: mem_enumerate)
  fix j assume "j < length xs" "P (xs ! j)"
  then have "(j, xs ! j) \<in> set (filter (\<lambda>(i, q). P q) (enumerate 0 xs))"
    by (simp add: mem_enumerate)
  moreover have "sorted_wrt (\<lambda>a b. fst a < fst b) (filter (\<lambda>(i, q). P q) (enumerate 0 xs))"
    by (intro sorted_wrt_filter sorted_wrt_enumerate)
  ultimately show "(f (xs ! i), i) \<le> (f (xs ! j), j)"
    using min_by_key_first[OF _ assms, where f = fst] i by fastforce
qed

lemma candidate_index_minimal:
  assumes "candidate_index s now = Some i" "j < length (s_queue s)" "fits s (s_queue s ! j)"
  shows "cand_rank s now i \<le> cand_rank s now j"
proof -
  let ?xs = "enumerate 0 (s_queue s)"
  let ?F = "find (\<lambda>(i, q). fits s q \<and> starved s now q) ?xs"
  let ?M = "min_by_key (\<lambda>(i, q). q_enqueued_at q)
              (filter (\<lambda>(i, q). fits s q \<and> idle_project s q) ?xs)"
  let ?N = "min_by_key (\<lambda>(i, q). q_enqueued_at q) (filter (\<lambda>(i, q). fits s q) ?xs)"
  have sf: "slots_free s > 0" using candidate_index_fits[OF assms(1)] by simp
  show ?thesis
  proof (cases ?F)
    case (Some p)
    then have f: "?F = Some (i, snd p)"
      using assms(1) sf by (cases p) (simp add: candidate_index_def Let_def)
    from find_enumerate_Some[OF f] have i: "starved s now (s_queue s ! i)"
        "\<forall>k<i. \<not> (fits s (s_queue s ! k) \<and> starved s now (s_queue s ! k))" by auto
    then have "starved s now (s_queue s ! j) \<Longrightarrow> i \<le> j" using assms(3) by (meson not_le)
    then show ?thesis using i(1) by (auto simp: cand_rank_def Let_def)
  next
    case None
    then have ns: "\<not> starved s now q" if "q \<in> set (s_queue s)" "fits s q" for q
      using that unfolding find_enumerate_None by blast
    have jn: "\<not> starved s now (s_queue s ! j)" using ns assms(2,3) by simp
    show ?thesis
    proof (cases ?M)
      case (Some p)
      then have m: "?M = Some (i, snd p)"
        using assms(1) sf None by (cases p) (simp add: candidate_index_def Let_def)
      note mi = min_enumerate_Some[OF m]
      show ?thesis
        using mi(1) mi(2)[of j] assms(2,3) jn ns[of "s_queue s ! i"]
        by (auto simp: cand_rank_def Let_def)
    next
      case None': None
      then have ni: "\<not> idle_project s q" if "q \<in> set (s_queue s)" "fits s q" for q
        using that unfolding min_by_key_None filter_enumerate_empty by blast
      have "map_option fst ?N = Some i"
        using assms(1) sf None None' by (simp add: candidate_index_def Let_def)
      then obtain q where n: "?N = Some (i, q)" by (auto simp: map_option_case split: option.splits)
      note nn = min_enumerate_Some[OF n]
      show ?thesis
        using nn(1) nn(2)[of j] assms(2,3) jn ns[of "s_queue s ! i"] ni[of "s_queue s ! i"]
          ni[of "s_queue s ! j"]
        by (auto simp: cand_rank_def Let_def)
    qed
  qed
qed

lemma cand_rank_inject: "cand_rank s now i = cand_rank s now j \<Longrightarrow> i = j"
  by (auto simp: cand_rank_def Let_def split: if_splits)

definition demo_limits :: limits where
  "demo_limits = limits_default\<lparr>max_parallel := 1\<rparr>"

definition demo_queue :: "queued list" where
  "demo_queue = [\<lparr>q_id = RunId 2, q_project = ''a'', q_memory = 5, q_enqueued_at = 1, q_deadline = 100\<rparr>,
     \<lparr>q_id = RunId 3, q_project = ''a'', q_memory = 5, q_enqueued_at = 2, q_deadline = 100\<rparr>]"

definition demo_sched :: scheduler where
  "demo_sched = \<lparr>s_limits = demo_limits, s_running = [], s_queue = demo_queue, s_held = []\<rparr>"

lemmas demo_defs = demo_limits_def demo_queue_def demo_sched_def limits_default_def

lemmas sched_eval = candidate_index_def slots_free_def project_slots_free_def reserved_def fits_def
  starved_def idle_project_def Let_def from_secs_def

text \<open>C4: the request picked next is, among the waiting requests that fit, the minimum of a
  lexicographic rank: the starved ones by queue order, then those of an idle project by age, then
  the others by age, ties by queue order; and one is picked exactly when a slot is free and
  something fits.\<close>

theorem candidate_is_minimum:
  "candidate_index s now = Some i \<longleftrightarrow>
     slots_free s > 0 \<and> i < length (s_queue s) \<and> fits s (s_queue s ! i)
     \<and> (\<forall>j. j < length (s_queue s) \<and> fits s (s_queue s ! j)
            \<longrightarrow> cand_rank s now i \<le> cand_rank s now j)"
  (is "?L = ?R")
proof
  assume ?L
  then show ?R using candidate_index_fits candidate_index_minimal by blast
next
  assume r: ?R
  then obtain k where k: "candidate_index s now = Some k"
    using candidate_index_None[of s now] by (cases "candidate_index s now") auto
  have "cand_rank s now k \<le> cand_rank s now i" using candidate_index_minimal[OF k] r by blast
  moreover have "cand_rank s now i \<le> cand_rank s now k"
    using candidate_index_fits[OF k] r by blast
  ultimately have "k = i" using cand_rank_inject by (metis order_antisym)
  then show ?L using k by simp
qed

lemma candidate_is_minimum_witness:
  "candidate_index demo_sched 3 = Some 0 \<and> cand_rank demo_sched 3 0 \<le> cand_rank demo_sched 3 1"
proof -
  have a: "candidate_index demo_sched 3 = Some 0" by (simp add: demo_defs sched_eval)
  have b: "1 < length (s_queue demo_sched) \<and> fits demo_sched (s_queue demo_sched ! 1)"
    by (simp add: demo_defs sched_eval)
  show ?thesis using a b candidate_is_minimum[of demo_sched 3 0] by blast
qed

text \<open>FIFO inside a project: while the queue is in order of arrival, a request is never
  picked over an earlier one of the same project that fits.\<close>

theorem fifo_inside_project:
  assumes "sorted (map q_enqueued_at (s_queue s))"
    and "candidate_index s now = Some i"
    and "j < length (s_queue s)" "fits s (s_queue s ! j)"
    and "q_project (s_queue s ! j) = q_project (s_queue s ! i)"
  shows "i \<le> j"
proof (rule ccontr)
  assume "\<not> i \<le> j"
  then have ji: "j < i" by simp
  have il: "i < length (s_queue s)" using candidate_index_fits[OF assms(2)] by simp
  have e: "q_enqueued_at (s_queue s ! j) \<le> q_enqueued_at (s_queue s ! i)"
    using sorted_nth_mono[OF assms(1), of j i] ji il by simp
  have "cand_rank s now i \<le> cand_rank s now j"
    using candidate_index_minimal[OF assms(2,3,4)] .
  moreover have "idle_project s (s_queue s ! j) = idle_project s (s_queue s ! i)"
    using assms(5) by (simp add: idle_project_def)
  moreover have "starved s now (s_queue s ! i) \<Longrightarrow> starved s now (s_queue s ! j)"
    using e by (simp add: starved_def)
  ultimately show False using e ji
    by (auto simp: cand_rank_def Let_def less_eq_prod_def split: if_splits)
qed

lemma fifo_inside_project_witness:
  "sorted (map q_enqueued_at (s_queue demo_sched)) \<and> candidate_index demo_sched 3 = Some 0
   \<and> (0::nat) \<le> 1"
proof -
  have a: "sorted (map q_enqueued_at (s_queue demo_sched))" by (simp add: demo_defs)
  have b: "candidate_index demo_sched 3 = Some 0" by (simp add: demo_defs sched_eval)
  have c: "fits demo_sched (s_queue demo_sched ! 1)" by (simp add: demo_defs sched_eval)
  have "(0::nat) \<le> 1" using fifo_inside_project[OF a b _ c] by (simp add: demo_defs)
  then show ?thesis using a b by simp
qed

section \<open>Safety and liveness of admission\<close>

text \<open>C5: under constant limits whose budget is below \<open>2 ^ 63\<close> bytes, in every reachable
  state the number of runs, the runs of each project, the reserved memory (held reservations
  included, as reported, without wrap-around) and the queue are within the limits, and no id
  occurs twice.\<close>

theorem reachable_within_limits:
  assumes "sched_reach l s" "unat (memory_budget_bytes l) < 2 ^ 63"
  shows "length (s_running s) \<le> max_parallel l
     \<and> (\<forall>p. project_count s p \<le> max_parallel_per_project l)
     \<and> unat (reserved s) = load s \<and> load s \<le> unat (memory_budget_bytes l)
     \<and> length (s_queue s) \<le> max_queued l
     \<and> distinct (map r_id (s_running s) @ map q_id (s_queue s))"
proof -
  have i: "sched_inv s" "s_limits s = l" using sched_reach_inv[OF assms] by auto
  then have "load s < 2 ^ 64" using assms(2) by (simp add: sched_inv_def caps_ok_def budget_def)
  then show ?thesis using i unat_reserved
    by (simp add: sched_inv_def caps_ok_def queue_ok_def budget_def ids_of_def)
qed

definition demo_one :: scheduler where
  "demo_one = \<lparr>s_limits = demo_limits,
     s_running = [\<lparr>r_id = RunId 1, r_project = ''a'', r_memory = 5\<rparr>],
     s_queue = [], s_held = []\<rparr>"

lemma demo_submit: "submit (RunId 1) ''a'' 5 None 0 (sched_new demo_limits) = Some (AStart 5, demo_one)"
  by (simp add: submit_def can_admit_def sched_new_def demo_one_def demo_defs sched_eval)

lemma demo_reach: "sched_reach demo_limits demo_one"
  by (rule reach_step[OF reach_new step_submit[OF demo_submit]]) (simp add: ids_of_def sched_new_def)

lemma reachable_within_limits_witness: "length (s_running demo_one) \<le> 1"
  using reachable_within_limits[OF demo_reach] by (simp add: demo_defs)

text \<open>C6: no lost wake-up: under constant limits, no reachable state leaves a queued request
  waiting while it could be admitted; so once nothing runs and no reservation is held, the queue is
  empty.\<close>

theorem no_lost_wakeup:
  assumes "sched_reach l s" "unat (memory_budget_bytes l) < 2 ^ 63"
  shows "(\<forall>q\<in>set (s_queue s). \<not> can_admit s (q_project q) (q_memory q))
    \<and> (s_running s = [] \<and> s_held s = [] \<and> 0 < max_parallel l \<and> 0 < max_parallel_per_project l
       \<longrightarrow> s_queue s = [])"
proof -
  have q: "\<forall>q\<in>set (s_queue s). \<not> can_admit s (q_project q) (q_memory q)"
    using sched_reach_quiescent[OF assms] by (simp add: quiescent_def)
  have i: "sched_inv s" "s_limits s = l" using sched_reach_inv[OF assms] by auto
  have "can_admit s (q_project x) (q_memory x)"
    if "s_running s = []" "s_held s = []" "0 < max_parallel l" "0 < max_parallel_per_project l"
      "x \<in> set (s_queue s)" for x
    using that i
    by (auto simp: can_admit_def slots_free_def project_slots_free_def reserved_def
        sched_inv_def queue_ok_def budget_def word_le_nat_alt)
  then show ?thesis using q by (metis last_in_set)
qed

definition demo_two :: scheduler where
  "demo_two = demo_one\<lparr>s_queue :=
     [\<lparr>q_id = RunId 2, q_project = ''a'', q_memory = 5, q_enqueued_at = 7, q_deadline = 17\<rparr>]\<rparr>"

lemma demo_reach_two: "sched_reach demo_limits demo_two"
proof -
  have "submit (RunId 2) ''a'' 5 (Some 10) 7 demo_one = Some (AQueued 1, demo_two)"
    by (simp add: submit_def can_admit_def demo_one_def demo_two_def demo_defs sched_eval duration_add_def
        duration_max_def)
  then show ?thesis
    by (rule reach_step[OF demo_reach step_submit]) (simp add: ids_of_def demo_one_def)
qed

lemma no_lost_wakeup_witness:
  "s_queue demo_two \<noteq> [] \<and> \<not> can_admit demo_two ''a'' 5"
  using no_lost_wakeup[OF demo_reach_two] by (simp add: demo_two_def demo_defs)

section \<open>Conservation\<close>

lemma pick_next_moves:
  assumes "pick_next now s = Some (i, s1)" "distinct (map q_id (s_queue s))"
  obtains q where "q \<in> set (s_queue s)" "q_id q = i" "can_admit s (q_project q) (q_memory q)"
    "s1 = s\<lparr>s_running := s_running s @ [to_running q],
            s_queue := filter (\<lambda>x. q_id x \<noteq> i) (s_queue s)\<rparr>"
proof -
  obtain k where k: "k < length (s_queue s)" "slots_free s > 0" "fits s (s_queue s ! k)"
    "i = q_id (s_queue s ! k)"
    "s1 = s\<lparr>s_queue := remove_nth k (s_queue s),
           s_running := s_running s @ [to_running (s_queue s ! k)]\<rparr>"
    using pick_next_Some[OF assms(1)] by metis
  have "remove_nth k (s_queue s) = filter (\<lambda>x. q_id x \<noteq> q_id (s_queue s ! k)) (s_queue s)"
    using remove_nth_filter[OF assms(2) k(1)] .
  then show ?thesis using that[of "s_queue s ! k"] k by (simp add: can_admit_fits)
qed

lemma drain_moves:
  assumes "drain now s = (ids, s')" "distinct (map q_id (s_queue s))"
  shows "\<exists>items. ids = map q_id items \<and> set items \<subseteq> set (s_queue s) \<and> distinct ids
     \<and> s' = s\<lparr>s_running := s_running s @ map to_running items,
             s_queue := filter (\<lambda>q. q_id q \<notin> set ids) (s_queue s)\<rparr>"
proof -
  have "distinct (map q_id (s_queue s)) \<longrightarrow> (\<exists>items. ids = map q_id items \<and>
     set items \<subseteq> set (s_queue s) \<and> distinct ids
     \<and> s' = s\<lparr>s_running := s_running s @ map to_running items,
             s_queue := filter (\<lambda>q. q_id q \<notin> set ids) (s_queue s)\<rparr>)"
    using assms(1)
  proof (induction rule: drain_induct)
    case (stop s)
    then show ?case by (auto intro!: exI[of _ "[]"])
  next
    case (pick s i s1 ids s')
    show ?case
    proof
      assume d: "distinct (map q_id (s_queue s))"
      obtain q where q: "q \<in> set (s_queue s)" "q_id q = i"
        "s1 = s\<lparr>s_running := s_running s @ [to_running q],
                s_queue := filter (\<lambda>x. q_id x \<noteq> i) (s_queue s)\<rparr>"
        using pick_next_moves[OF pick(1) d] by metis
      have "distinct (map q_id (s_queue s1))" using d by (simp add: q(3) distinct_map_filter)
      then obtain items where it: "ids = map q_id items" "set items \<subseteq> set (s_queue s1)" "distinct ids"
        "s' = s1\<lparr>s_running := s_running s1 @ map to_running items,
                s_queue := filter (\<lambda>q. q_id q \<notin> set ids) (s_queue s1)\<rparr>"
        using pick.IH by blast
      have "filter (\<lambda>x. q_id x \<notin> set ids \<and> q_id x \<noteq> i) (s_queue s)
          = filter (\<lambda>x. q_id x \<notin> set (i # ids)) (s_queue s)"
        by (rule filter_cong) auto
      then show "\<exists>items. i # ids = map q_id items \<and> set items \<subseteq> set (s_queue s) \<and> distinct (i # ids)
          \<and> s' = s\<lparr>s_running := s_running s @ map to_running items,
             s_queue := filter (\<lambda>q. q_id q \<notin> set (i # ids)) (s_queue s)\<rparr>"
        using it q by (intro exI[of _ "q # items"]) (auto simp: conj_commute)
    qed
  qed
  then show ?thesis using assms(2) by blast
qed

text \<open>Releasing a run frees exactly its slot (its reservation moves to the held ones when
  the cleanup was incomplete), and admits waiting requests only: the returned ids are the ones
  moved from the queue to the running list, in that order, the queue keeps the rest in order, and
  nothing that fits is left.\<close>

theorem release_conserves:
  assumes "distinct (ids_of s)" "r \<in> set (s_running s)"
    and "release (r_id r) hold now s = (ids, s')"
  shows "\<exists>items. ids = map q_id items \<and> set items \<subseteq> set (s_queue s)
     \<and> s_running s' = filter (\<lambda>x. r_id x \<noteq> r_id r) (s_running s) @ map to_running items
     \<and> s_queue s' = filter (\<lambda>q. q_id q \<notin> set ids) (s_queue s)
     \<and> s_held s' = s_held s @ (if hold then [r] else []) \<and> quiescent s'"
  using assms(3)
proof (cases rule: release_cases)
  case absent
  then show ?thesis using assms(2) by blast
next
  case (present r' s1)
  have dr: "distinct (map r_id (s_running s))" and dq: "distinct (map q_id (s_queue s))"
    using assms(1) by (simp_all add: ids_of_def)
  have "r' = r" using present(1,2) assms(2) dr by (metis distinct_map inj_onD)
  moreover have "distinct (map q_id (s_queue s1))" using dq by (simp add: present(4))
  note drain_moves[OF present(5) this] drain_quiescent[OF present(5)]
  ultimately show ?thesis by (auto simp: present(4))
qed

lemma release_conserves_witness:
  "\<exists>items. ([] :: run_id list) = map q_id items \<and> set items \<subseteq> set (s_queue demo_one)"
proof -
  obtain ids s' where r: "release (RunId 1) True 0 demo_one = (ids, s')"
    by (cases "release (RunId 1) True 0 demo_one")
  have "\<exists>items. ids = map q_id items \<and> set items \<subseteq> set (s_queue demo_one)"
    using release_conserves[of demo_one "\<lparr>r_id = RunId 1, r_project = ''a'', r_memory = 5\<rparr>" True 0 ids s'] r
    by (fastforce simp: demo_one_def ids_of_def)
  moreover from this have "ids = []" by (auto simp: demo_one_def)
  ultimately show ?thesis by blast
qed

section \<open>Deadlines\<close>

text \<open>A request panics the supervisor exactly when it would be queued and its deadline
  leaves \<open>Duration\<close>.\<close>

theorem submit_panics_iff:
  "submit i p m tmo now s = None \<longleftrightarrow>
     m \<le> memory_budget_bytes (s_limits s) \<and> \<not> can_admit s p m
     \<and> length (s_queue s) < max_queued (s_limits s)
     \<and> duration_max < now + (case tmo of None \<Rightarrow> queue_timeout (s_limits s) | Some d \<Rightarrow> d)"
  by (auto simp: submit_def Let_def duration_add_eq_None[symmetric] split: option.splits
      dest: leD)

text \<open>A queued request reports the last position, sits there with the text of its id, and is
  expired exactly from the time of its own timeout on.\<close>

theorem queued_until_deadline:
  assumes "submit i p m tmo t s = Some (AQueued n, s')" "i \<notin> set (ids_of s)"
  shows "position i s' = Some n \<and> n = length (s_queue s')
    \<and> map qe_run_id (queue_entries now s') ! (n - 1) = show_run_id i
    \<and> (i \<in> set (fst (expire now s')) \<longleftrightarrow>
         t + (case tmo of None \<Rightarrow> queue_timeout (s_limits s) | Some d \<Rightarrow> d) \<le> now)
    \<and> (position i (snd (expire now s')) = None \<longleftrightarrow> i \<in> set (fst (expire now s')))"
  using assms(1)
proof (cases rule: submit_cases)
  case (queue q)
  have f: "\<forall>x\<in>set (s_queue s). q_id x \<noteq> i" using assms(2) by (auto simp: ids_of_def)
  have "position_by (\<lambda>x. q_id x = i) (s_queue s @ [q]) = Some (length (s_queue s))"
    using f queue(4) by (auto simp: position_by_Some nth_append)
  moreover have "t + (case tmo of None \<Rightarrow> queue_timeout (s_limits s) | Some d \<Rightarrow> d) = q_deadline q"
    using queue(8) by (simp add: duration_add_eq_Some)
  ultimately show ?thesis using f queue(4,9,10)
    by (auto simp: position_def queue_entries_def expire_def position_by_None nth_enumerate_eq nth_append)
qed auto

lemma queued_until_deadline_witness:
  "RunId 2 \<in> set (fst (expire 17 (demo_one\<lparr>s_queue :=
     [\<lparr>q_id = RunId 2, q_project = ''a'', q_memory = 5, q_enqueued_at = 7, q_deadline = 17\<rparr>]\<rparr>)))"
proof -
  have "submit (RunId 2) ''a'' 5 (Some 10) 7 demo_one = Some (AQueued 1, demo_one\<lparr>s_queue :=
     [\<lparr>q_id = RunId 2, q_project = ''a'', q_memory = 5, q_enqueued_at = 7, q_deadline = 17\<rparr>]\<rparr>)"
    by (simp add: submit_def can_admit_def demo_one_def demo_defs sched_eval duration_add_def
        duration_max_def)
  from queued_until_deadline[OF this, of 17] show ?thesis by (simp add: ids_of_def demo_one_def)
qed

section \<open>Reports\<close>

lemma add_usage_props:
  assumes "distinct (map pu_project us)"
  shows "distinct (map pu_project (add_usage r us))
    \<and> set (map pu_project (add_usage r us)) = insert (r_project r) (set (map pu_project us))
    \<and> (\<forall>u\<in>set (add_usage r us). pu_project u \<noteq> r_project r \<longrightarrow> u \<in> set us)
    \<and> (\<forall>u\<in>set (add_usage r us). pu_project u = r_project r \<longrightarrow>
         (\<exists>v\<in>set us. pu_project v = r_project r \<and> pu_running u = pu_running v + 1
              \<and> pu_reserved u = pu_reserved v + r_memory r)
         \<or> r_project r \<notin> set (map pu_project us) \<and> pu_running u = 1 \<and> pu_reserved u = r_memory r)"
  using assms by (induction us) (auto simp: image_iff)

definition usage_of :: "running list \<Rightarrow> string \<Rightarrow> nat \<times> u64" where
  "usage_of rs p = (length (filter (\<lambda>r. r_project r = p) rs),
     sum_list (map r_memory (filter (\<lambda>r. r_project r = p) rs)))"

lemma usage_fold:
  "let us = foldl (\<lambda>out r. add_usage r out) [] rs in
     distinct (map pu_project us) \<and> set (map pu_project us) = r_project ` set rs
     \<and> (\<forall>u\<in>set us. (pu_running u, pu_reserved u) = usage_of rs (pu_project u))"
proof (induction rs rule: rev_induct)
  case (snoc r rs)
  define us where "us = foldl (\<lambda>out r. add_usage r out) [] rs"
  have d: "distinct (map pu_project us)" "set (map pu_project us) = r_project ` set rs"
    and u: "\<forall>u\<in>set us. (pu_running u, pu_reserved u) = usage_of rs (pu_project u)"
    using snoc by (simp_all add: us_def Let_def)
  note a = add_usage_props[OF d(1), of r]
  have "(pu_running v, pu_reserved v) = usage_of (rs @ [r]) (pu_project v)"
    if v: "v \<in> set (add_usage r us)" for v
  proof (cases "pu_project v = r_project r")
    case False
    then have "v \<in> set us" using a v by blast
    then show ?thesis using u False by (auto simp: usage_of_def)
  next
    case True
    consider w where "w \<in> set us" "pu_project w = r_project r" "pu_running v = pu_running w + 1"
        "pu_reserved v = pu_reserved w + r_memory r"
      | "r_project r \<notin> r_project ` set rs" "pu_running v = 1" "pu_reserved v = r_memory r"
      using a v True d(2) by auto
    then show ?thesis
    proof cases
      case 1
      then show ?thesis using u True by (force simp: usage_of_def)
    next
      case 2
      then have "filter (\<lambda>x. r_project x = r_project r) rs = []"
        by (auto simp: filter_empty_conv image_iff)
      then show ?thesis using 2 True by (simp add: usage_of_def)
    qed
  qed
  then show ?case using a d(2) by (auto simp: us_def Let_def)
qed simp

text \<open>The per-project report lists every project with a running run once, in order of name,
  with the number of its runs and the sum of their reservations.\<close>

theorem projects_report:
  "sorted (map pu_project (projects s)) \<and> distinct (map pu_project (projects s))
   \<and> set (map pu_project (projects s)) = r_project ` set (s_running s)
   \<and> (\<forall>u\<in>set (projects s). pu_running u = project_count s (pu_project u)
        \<and> pu_reserved u = sum_list (map r_memory
             (filter (\<lambda>r. r_project r = pu_project u) (s_running s))))"
proof -
  define us where "us = foldl (\<lambda>out r. add_usage r out) [] (s_running s)"
  have u: "distinct (map pu_project us)" "set (map pu_project us) = r_project ` set (s_running s)"
    "\<forall>u\<in>set us. (pu_running u, pu_reserved u) = usage_of (s_running s) (pu_project u)"
    using usage_fold[of "s_running s"] by (simp_all add: us_def Let_def)
  have "projects s = sort_key pu_project us" by (simp add: projects_def us_def)
  moreover have "distinct (map pu_project (sort_key pu_project us))"
    using u(1) by (metis distinct_map distinct_sort set_sort)
  ultimately show ?thesis using u by (auto simp: usage_of_def project_count_def)
qed

lemma projects_report_witness:
  "map pu_running (projects demo_one) = [1]"
proof -
  have p: "projects demo_one = [\<lparr>pu_project = ''a'', pu_running = 1, pu_reserved = 5\<rparr>]"
    by (simp add: projects_def demo_one_def)
  have "\<forall>u\<in>set (projects demo_one). pu_running u = project_count demo_one (pu_project u)"
    using projects_report[of demo_one] by blast
  then show ?thesis unfolding p by (simp add: demo_one_def project_count_def)
qed

text \<open>The reason shown for a waiting request of a reachable state is the true one: its project
  is at its limit, or all slots are busy, or else the budget really has no room for it.\<close>

theorem queue_reason_truthful:
  assumes "sched_reach l s" "unat (memory_budget_bytes l) < 2 ^ 63" "q \<in> set (s_queue s)"
  shows "queue_reason s q =
      (if project_count s (q_project q) \<ge> max_parallel_per_project l
       then ''project '' @ q_project q @ '' is at its ''
            @ show_nat (max_parallel_per_project l) @ ''-run limit''
       else if length (s_running s) \<ge> max_parallel l
       then ''all '' @ show_nat (max_parallel l) @ '' slots are busy''
       else ''waiting for a memory reservation'')
    \<and> (project_count s (q_project q) < max_parallel_per_project l \<and> length (s_running s) < max_parallel l
       \<longrightarrow> load s + unat (q_memory q) > unat (memory_budget_bytes l))"
proof -
  have i: "sched_inv s" "s_limits s = l" using sched_reach_inv[OF assms(1,2)] by auto
  have m: "unat (q_memory q) < 2 ^ 63" "load s < 2 ^ 63"
    using i assms(2,3) by (auto simp: sched_inv_def queue_ok_def caps_ok_def budget_def)
  have "\<not> can_admit s (q_project q) (q_memory q)" using no_lost_wakeup[OF assms(1,2)] assms(3) by blast
  then show ?thesis using m i(2) budget_check[of s "q_memory q"]
    by (auto simp: queue_reason_def project_slots_free_def project_count_def slots_free_def
        can_admit_def budget_def)
qed

lemma queue_reason_truthful_witness:
  "queue_reason demo_two (hd (s_queue demo_two)) = ''all 1 slots are busy''"
proof -
  have "hd (s_queue demo_two) \<in> set (s_queue demo_two)" by (simp add: demo_two_def)
  from queue_reason_truthful[OF demo_reach_two _ this] show ?thesis
    by (simp add: demo_two_def demo_one_def demo_defs project_count_def show_nat.simps)
qed

section \<open>Behaviours the header does not announce\<close>

text \<open>A starved request that does not fit is bypassed for ever: with the default limits, a
  waiting run of the whole budget stays in the queue however long it has waited and however many
  short runs of another project are submitted and released, each of which starts at once.\<close>

definition big_waiting :: "queued" where
  "big_waiting = \<lparr>q_id = RunId 0, q_project = ''big'', q_memory = 8 * 1024 * 1024 * 1024,
     q_enqueued_at = 0, q_deadline = duration_max\<rparr>"

definition small_running :: "int \<Rightarrow> scheduler" where
  "small_running k = \<lparr>s_limits = limits_default,
     s_running = [\<lparr>r_id = RunId k, r_project = ''small'', r_memory = 512 * 1024 * 1024\<rparr>],
     s_queue = [big_waiting], s_held = []\<rparr>"

definition short_run_round :: "int \<Rightarrow> duration \<Rightarrow> scheduler \<Rightarrow> (admission \<times> run_id list \<times> scheduler) option"
  where
  "short_run_round k t s =
    map_option (\<lambda>(a, s1). (a, release (RunId k) False t s1))
      (submit (RunId (k + 1)) ''small'' (512 * 1024 * 1024) None t s)"

theorem starved_request_bypassed:
  "starved (small_running k) (from_secs 60 + d) big_waiting
   \<and> short_run_round k (from_secs 60 + d) (small_running k)
     = Some (AStart (512 * 1024 * 1024), [], small_running (k + 1))"
proof -
  let ?t = "from_secs 60 + d"
  let ?r = "\<lambda>j. \<lparr>r_id = RunId j, r_project = ''small'', r_memory = 512 * 1024 * 1024\<rparr>"
  let ?s1 = "small_running k\<lparr>s_running := [?r k, ?r (k + 1)]\<rparr>"
  have sub: "submit (RunId (k + 1)) ''small'' (512 * 1024 * 1024) None ?t (small_running k)
      = Some (AStart (512 * 1024 * 1024), ?s1)"
    by (simp add: submit_def can_admit_def small_running_def limits_default_def slots_free_def
        project_slots_free_def reserved_def)
  have "candidate_index (small_running (k + 1)) ?t = None"
    by (simp add: candidate_index_None small_running_def fits_def big_waiting_def reserved_def
        limits_default_def)
  then have dr: "drain ?t (small_running (k + 1)) = ([], small_running (k + 1))"
    by (simp add: drain.simps[of ?t "small_running (k + 1)"] pick_next_def)
  have "release (RunId k) False ?t ?s1
      = drain ?t (?s1\<lparr>s_running := filter (\<lambda>r. r_id r \<noteq> RunId k) (s_running ?s1)\<rparr>)"
    by (simp add: release_def)
  also have "?s1\<lparr>s_running := filter (\<lambda>r. r_id r \<noteq> RunId k) (s_running ?s1)\<rparr> = small_running (k + 1)"
    by (simp add: small_running_def)
  finally have rel: "release (RunId k) False ?t ?s1 = ([], small_running (k + 1))"
    using dr by simp
  have "starved (small_running k) ?t big_waiting"
    by (simp add: starved_def small_running_def limits_default_def big_waiting_def)
  then show ?thesis using sub rel by (simp add: short_run_round_def)
qed

text \<open>New limits are not followed by an admission pass, and with nothing running no release,
  cancellation or expiry is one either: a queued request that fits stays queued until its deadline
  unless a new submission comes and goes.\<close>

theorem set_limits_strands_queue:
  "s_running (sched_set_limits l s) = s_running s \<and> s_queue (sched_set_limits l s) = s_queue s
   \<and> (s_running s \<noteq> [] \<or>
        release i hold now s = ([], s)
        \<and> s_running (snd (cancel_queued i s)) = [] \<and> s_running (snd (expire now s)) = [])"
proof -
  have "release i hold now s = ([], s)" if r: "s_running s = []"
  proof -
    obtain ids s' where "release i hold now s = (ids, s')" by (cases "release i hold now s")
    then show ?thesis by (cases rule: release_cases) (use \<open>release i hold now s = (ids, s')\<close> r in auto)
  qed
  then show ?thesis by (simp add: sched_set_limits_def cancel_queued_def expire_def Let_def)
qed

lemma set_limits_strands_queue_witness:
  "let big = \<lparr>q_id = RunId 2, q_project = ''a'', q_memory = 8, q_enqueued_at = 0, q_deadline = 90\<rparr>;
       s = \<lparr>s_limits = limits_default\<lparr>memory_budget_bytes := 8\<rparr>, s_running = [], s_queue = [big],
            s_held = []\<rparr>
   in sched_set_limits (limits_default\<lparr>memory_budget_bytes := 8\<rparr>)
        (snd (release (RunId 1) False 5
           (sched_set_limits (limits_default\<lparr>memory_budget_bytes := 4\<rparr>)
              \<lparr>s_limits = limits_default\<lparr>memory_budget_bytes := 8\<rparr>,
               s_running = [\<lparr>r_id = RunId 1, r_project = ''a'', r_memory = 4\<rparr>], s_queue = [big],
               s_held = []\<rparr>))) = s
      \<and> can_admit s ''a'' 8 \<and> release (RunId 1) False 5 s = ([], s)"
proof -
  let ?big = "\<lparr>q_id = RunId 2, q_project = ''a'', q_memory = 8, q_enqueued_at = 0, q_deadline = 90\<rparr>"
  let ?s = "\<lparr>s_limits = limits_default\<lparr>memory_budget_bytes := 8\<rparr>, s_running = [],
      s_queue = [?big], s_held = []\<rparr> :: scheduler"
  have 1: "release (RunId 1) False 5 ?s = ([], ?s)"
    using set_limits_strands_queue[of limits_default ?s "RunId 1" False 5] by simp
  show ?thesis
    using 1 by (simp add: sched_set_limits_def release_def drain.simps pick_next_def
        candidate_index_None[THEN iffD2] fits_def reserved_def limits_default_def can_admit_def
        slots_free_def project_slots_free_def)
qed

text \<open>The reservation sum wraps: with any budget from \<open>2 ^ 63\<close> bytes on (the
  configuration saturates to \<open>2 ^ 64 - 1\<close>), two runs of \<open>2 ^ 63\<close> bytes are both
  admitted at once, over the budget.\<close>

theorem reservation_sum_wraps:
  assumes "2 ^ 63 \<le> unat (memory_budget_bytes l)" "2 \<le> max_parallel l" "2 \<le> max_parallel_per_project l"
  shows "\<exists>s1 s2. submit i p (2 ^ 63) None t (sched_new l) = Some (AStart (2 ^ 63), s1)
     \<and> submit j p (2 ^ 63) None t s1 = Some (AStart (2 ^ 63), s2)
     \<and> load s2 = 2 ^ 64 \<and> load s2 > budget s2 \<and> reserved s2 = 0"
proof -
  define M where "M = (2 ^ 63 :: u64)"
  have M: "unat M = 2 ^ 63" "M + M = 0" "M \<le> memory_budget_bytes l"
    using assms(1) by (simp_all add: M_def word_le_nat_alt)
  have "unat (memory_budget_bytes l) < 2 ^ 64" by (rule unat_u64_less)
  then show ?thesis unfolding M_def[symmetric] using assms(2,3) M
    by (simp add: submit_def can_admit_def sched_new_def slots_free_def project_slots_free_def
        reserved_def load_def budget_def leD)
qed

lemma reservation_sum_wraps_witness:
  "\<exists>s1 s2. submit (RunId 1) ''p'' (2 ^ 63) None 0
       (sched_new (limits_default\<lparr>memory_budget_bytes := - 1\<rparr>)) = Some (AStart (2 ^ 63), s1)
     \<and> submit (RunId 2) ''p'' (2 ^ 63) None 0 s1 = Some (AStart (2 ^ 63), s2) \<and> load s2 > budget s2"
  using reservation_sum_wraps[of "limits_default\<lparr>memory_budget_bytes := - 1\<rparr>" "RunId 1" "''p''" 0 "RunId 2"]
  by (simp add: limits_default_def unat_minus_one_eq) blast

end
