(* ===== verification/Run_Store.thy ===== *)
theory Run_Store
  imports Run_Model
begin

text \<open>
  The run tables of the local store (\<open>src/store.rs\<close>, \<open>run_*\<close>): \<open>runs\<close>,
  \<open>run_processes\<close> and \<open>run_events\<close>, with one function per SQL operation.

  A row holds what the columns hold: the lifecycle columns are text, the integer columns are
  \<open>i64\<close> (a \<open>u64\<close> is stored as its two's complement), and a JSON column is the value
  serde reads back from it (a queue timeout in whole seconds).  Rows are listed in ascending
  \<open>run_id\<close>, which \<open>AUTOINCREMENT\<close> never reuses.  An SQL failure is not modelled
  here; the supervisor decides what it does with one.
\<close>

section \<open>Column values\<close>

definition as_i64 :: "u64 \<Rightarrow> int" where
  "as_i64 w = sint w"

definition as_u64 :: "int \<Rightarrow> u64" where
  "as_u64 i = of_int i"

lemma as_u64_i64 [simp]: "as_u64 (as_i64 w) = w"
  by (simp add: as_u64_def as_i64_def)

definition bytes_to_boot :: "u8 list \<Rightarrow> boot_id" where
  "bytes_to_boot b = boot_from_le_bytes (take 16 b @ replicate (16 - length b) 0)"

lemma bytes_to_boot_round_trip [simp]: "bytes_to_boot (boot_to_le_bytes b) = b"
proof (cases b)
  case (BootId w)
  have "unat w < 256 ^ 16" using unsigned_less[of w] by simp
  then show ?thesis
    by (simp add: BootId bytes_to_boot_def boot_to_le_bytes_def boot_from_le_bytes_def)
qed

definition origin_as_str :: "session_origin \<Rightarrow> string" where
  "origin_as_str o' = (case o' of OriginNone \<Rightarrow> ''none'' | CallerReported \<Rightarrow> ''caller_reported'')"

definition origin_parse :: "string \<Rightarrow> session_origin" where
  "origin_parse s = (if s = ''caller_reported'' then CallerReported else OriginNone)"

lemma origin_round_trip [simp]: "origin_parse (origin_as_str o') = o'"
  by (cases o') (simp_all add: origin_parse_def origin_as_str_def)

definition resources_wire :: "resource_request \<Rightarrow> resource_request" where
  "resources_wire r = r\<lparr>rr_queue_timeout := opt_secs_deserialize (opt_secs_serialize (rr_queue_timeout r))\<rparr>"

section \<open>Tables\<close>

record run_row =
  w_id :: int
  w_request_id :: string
  w_fingerprint :: string
  w_argv :: "string list"
  w_cwd :: string
  w_project_root :: "string option"
  w_session_id :: "int option"
  w_session_origin :: string
  w_timeout_secs :: int
  w_grace_secs :: int
  w_log_limit :: int
  w_state :: string
  w_outcome :: "string option"
  w_exit_code :: "int option"
  w_signal :: "int option"
  w_cleanup :: string
  w_started_at :: "int option"
  w_finished_at :: "int option"
  w_duration_ms :: "int option"
  w_detail :: "string option"
  w_revision :: int
  w_supervisor :: "string option"
  w_boot :: "u8 list"
  w_leader_boot :: "u8 list option"
  w_leader_pid :: "int option"
  w_leader_start :: "int option"
  w_created_at :: int
  w_stdout_bytes :: int
  w_stderr_bytes :: int
  w_stdout_truncated :: int
  w_stderr_truncated :: int
  w_resources :: "resource_request option"
  w_effective :: "effective_limits option"
  w_queue_wait_ms :: "int option"
  w_limit_event :: "string option"

record proc_row =
  pw_run :: int
  pw_boot :: "u8 list"
  pw_pid :: int
  pw_start :: int
  pw_role :: string
  pw_first_seen :: int
  pw_last_seen :: int

record event_row =
  ew_run :: int
  ew_revision :: int
  ew_at :: int
  ew_kind :: string
  ew_detail :: "string option"

record run_store =
  st_runs :: "run_row list"
  st_next_id :: int
  st_procs :: "proc_row list"
  st_events :: "event_row list"

definition store_empty :: run_store where
  "store_empty = \<lparr>st_runs = [], st_next_id = 1, st_procs = [], st_events = []\<rparr>"

record run_event =
  re_revision :: int
  re_at :: u64
  re_kind :: string
  re_detail :: "string option"

record run_step =
  rs_state :: run_state
  rs_cleanup :: cleanup_state
  rs_kind :: string
  rs_detail :: "string option"

record run_filter =
  rf_project :: "string option"
  rf_session :: "session_id option"
  rf_state :: "run_state option"
  rf_limit :: "nat option"

datatype run_insert = Created run_id | Existing run_id | Conflict run_id

section \<open>Events and processes\<close>

text \<open>\<open>INSERT OR REPLACE\<close> on the key \<open>(run_id, revision)\<close>.\<close>

definition run_event_insert ::
  "run_id \<Rightarrow> int \<Rightarrow> string \<Rightarrow> string option \<Rightarrow> u64 \<Rightarrow> run_store \<Rightarrow> run_store" where
  "run_event_insert i rv kind det now st =
    st\<lparr>st_events := filter (\<lambda>e. \<not> (ew_run e = run_id_int i \<and> ew_revision e = rv)) (st_events st)
       @ [\<lparr>ew_run = run_id_int i, ew_revision = rv, ew_at = as_i64 now, ew_kind = kind,
           ew_detail = det\<rparr>]\<rparr>"

definition run_events :: "run_id \<Rightarrow> int \<Rightarrow> run_store \<Rightarrow> run_event list" where
  "run_events i after st =
    map (\<lambda>e. \<lparr>re_revision = ew_revision e, re_at = as_u64 (ew_at e), re_kind = ew_kind e,
              re_detail = ew_detail e\<rparr>)
      (sort_key ew_revision
        (filter (\<lambda>e. ew_run e = run_id_int i \<and> ew_revision e > after) (st_events st)))"

fun upsert_proc :: "proc_row \<Rightarrow> proc_row list \<Rightarrow> proc_row list" where
  "upsert_proc p [] = [p]"
| "upsert_proc p (x # xs) =
    (if pw_run x = pw_run p \<and> pw_boot x = pw_boot p \<and> pw_pid x = pw_pid p \<and> pw_start x = pw_start p
     then x\<lparr>pw_last_seen := pw_last_seen p\<rparr> # xs
     else x # upsert_proc p xs)"

definition run_record_process ::
  "run_id \<Rightarrow> process_identity \<Rightarrow> string \<Rightarrow> u64 \<Rightarrow> run_store \<Rightarrow> run_store" where
  "run_record_process i who role now st =
    st\<lparr>st_procs := upsert_proc \<lparr>pw_run = run_id_int i, pw_boot = boot_to_le_bytes (i_boot who),
         pw_pid = int (unat (i_pid who)), pw_start = as_i64 (i_start who), pw_role = role,
         pw_first_seen = as_i64 now, pw_last_seen = as_i64 now\<rparr> (st_procs st)\<rparr>"

definition run_processes :: "run_id \<Rightarrow> run_store \<Rightarrow> (process_identity \<times> string) list" where
  "run_processes i st =
    map (\<lambda>p. (\<lparr>i_boot = bytes_to_boot (pw_boot p), i_pid = of_int (pw_pid p),
               i_start = as_u64 (pw_start p)\<rparr>, pw_role p))
      (sort_key pw_first_seen (filter (\<lambda>p. pw_run p = run_id_int i) (st_procs st)))"

section \<open>Insertion\<close>

definition new_row ::
  "(u8 list \<Rightarrow> string) \<Rightarrow> run_spec \<Rightarrow> string \<Rightarrow> boot_id \<Rightarrow> u64 \<Rightarrow> int \<Rightarrow> run_row" where
  "new_row h spec sv boot now i =
    \<lparr>w_id = i, w_request_id = request_id spec, w_fingerprint = fingerprint h spec,
     w_argv = argv spec, w_cwd = cwd spec, w_project_root = project_root spec,
     w_session_id = map_option (\<lambda>s. as_i64 (sid_u64 s)) (session_id spec),
     w_session_origin = origin_as_str (session_origin spec),
     w_timeout_secs = as_i64 (as_secs (timeout spec)),
     w_grace_secs = as_i64 (as_secs (grace spec)),
     w_log_limit = as_i64 (log_limit_bytes spec),
     w_state = state_as_str Queued, w_outcome = None, w_exit_code = None, w_signal = None,
     w_cleanup = cleanup_as_str Pending, w_started_at = None, w_finished_at = None,
     w_duration_ms = None, w_detail = None, w_revision = 0, w_supervisor = Some sv,
     w_boot = boot_to_le_bytes boot, w_leader_boot = None, w_leader_pid = None,
     w_leader_start = None, w_created_at = as_i64 now, w_stdout_bytes = 0, w_stderr_bytes = 0,
     w_stdout_truncated = 0, w_stderr_truncated = 0,
     w_resources = Some (resources_wire (resources spec)), w_effective = None,
     w_queue_wait_ms = None, w_limit_event = None\<rparr>"

definition window_start :: "u64 \<Rightarrow> int" where
  "window_start now = as_i64 (sat_sub now (as_secs REQUEST_ID_WINDOW))"

text \<open>The lookup takes the row with the largest id: the last one of the list.\<close>

definition run_insert ::
  "(u8 list \<Rightarrow> string) \<Rightarrow> run_spec \<Rightarrow> string \<Rightarrow> boot_id \<Rightarrow> u64 \<Rightarrow> run_store \<Rightarrow> run_insert \<times> run_store"
  where
  "run_insert h spec sv boot now st =
    (case find (\<lambda>w. w_request_id w = request_id spec \<and> w_created_at w \<ge> window_start now)
            (rev (st_runs st)) of
       Some w \<Rightarrow>
         (if w_fingerprint w = fingerprint h spec then Existing (RunId (w_id w))
          else Conflict (RunId (w_id w)), st)
     | None \<Rightarrow>
         (Created (RunId (st_next_id st)),
          st\<lparr>st_runs := st_runs st @ [new_row h spec sv boot now (st_next_id st)],
             st_next_id := st_next_id st + 1\<rparr>))"

section \<open>Updates\<close>

text \<open>\<open>UPDATE runs SET ... WHERE run_id = i AND P\<close>, and the number of rows changed.\<close>

definition update_rows ::
  "(run_row \<Rightarrow> bool) \<Rightarrow> (run_row \<Rightarrow> run_row) \<Rightarrow> run_store \<Rightarrow> nat \<times> run_store" where
  "update_rows P f st =
    (length (filter P (st_runs st)),
     st\<lparr>st_runs := map (\<lambda>w. if P w then f w else w) (st_runs st)\<rparr>)"

definition run_transition ::
  "run_id \<Rightarrow> int \<Rightarrow> run_step \<Rightarrow> u64 \<Rightarrow> run_store \<Rightarrow> bool \<times> run_store" where
  "run_transition i rv step now st =
    (let (changed, st') = update_rows (\<lambda>w. w_id w = run_id_int i \<and> w_revision w < rv)
           (\<lambda>w. w\<lparr>w_state := state_as_str (rs_state step),
                  w_cleanup := cleanup_as_str (rs_cleanup step), w_revision := rv\<rparr>) st
     in if changed = 0 then (False, st')
        else (True, run_event_insert i rv (rs_kind step) (rs_detail step) now st'))"

definition run_set_leader ::
  "run_id \<Rightarrow> process_identity \<Rightarrow> u64 \<Rightarrow> run_store \<Rightarrow> run_store" where
  "run_set_leader i who started st =
    snd (update_rows (\<lambda>w. w_id w = run_id_int i)
      (\<lambda>w. w\<lparr>w_leader_boot := Some (boot_to_le_bytes (i_boot who)),
             w_leader_pid := Some (int (unat (i_pid who))),
             w_leader_start := Some (as_i64 (i_start who)),
             w_started_at := Some (as_i64 started)\<rparr>) st)"

definition run_set_effective ::
  "run_id \<Rightarrow> effective_limits \<Rightarrow> u64 \<Rightarrow> run_store \<Rightarrow> run_store" where
  "run_set_effective i eff wait st =
    snd (update_rows (\<lambda>w. w_id w = run_id_int i)
      (\<lambda>w. w\<lparr>w_effective := Some eff, w_queue_wait_ms := Some (as_i64 wait)\<rparr>) st)"

definition run_set_limit_event :: "run_id \<Rightarrow> string \<Rightarrow> run_store \<Rightarrow> run_store" where
  "run_set_limit_event i ev st =
    snd (update_rows (\<lambda>w. w_id w = run_id_int i) (\<lambda>w. w\<lparr>w_limit_event := Some ev\<rparr>) st)"

definition bool_i64 :: "bool \<Rightarrow> int" where
  "bool_i64 b = (if b then 1 else 0)"

definition finish_row :: "int \<Rightarrow> run_result \<Rightarrow> log_state \<Rightarrow> run_row \<Rightarrow> run_row" where
  "finish_row rv res logs w =
    w\<lparr>w_state := ''finished'', w_outcome := Some (outcome_as_str (outcome res)),
      w_exit_code := exit_code res, w_signal := signal res,
      w_started_at := (case started_at res of Some v \<Rightarrow> Some (as_i64 v) | None \<Rightarrow> w_started_at w),
      w_finished_at := Some (as_i64 (finished_at res)),
      w_duration_ms := Some (as_i64 (duration_ms res)),
      w_cleanup := cleanup_as_str (cleanup res), w_detail := detail res, w_revision := rv,
      w_stdout_bytes := as_i64 (stdout_bytes logs), w_stderr_bytes := as_i64 (stderr_bytes logs),
      w_stdout_truncated := bool_i64 (stdout_truncated logs),
      w_stderr_truncated := bool_i64 (stderr_truncated logs)\<rparr>"

definition run_finish ::
  "run_id \<Rightarrow> int \<Rightarrow> run_result \<Rightarrow> log_state \<Rightarrow> run_store \<Rightarrow> bool \<times> run_store" where
  "run_finish i rv res logs st =
    (let (changed, st') = update_rows (\<lambda>w. w_id w = run_id_int i \<and> w_state w \<noteq> ''finished'')
           (finish_row rv res logs) st
     in if changed = 0 then (False, st')
        else (True, run_event_insert i rv ''finished'' (Some (outcome_as_str (outcome res)))
                      (finished_at res) st'))"

section \<open>Reads\<close>

datatype store_error = BadRunState | BadCleanupState

definition clamp_u64 :: "int \<Rightarrow> u64" where
  "clamp_u64 i = as_u64 (max i 0)"

definition row_spec :: "run_row \<Rightarrow> run_spec" where
  "row_spec w =
    \<lparr>request_id = w_request_id w, argv = w_argv w, cwd = w_cwd w,
     project_root = w_project_root w,
     session_id = map_option (\<lambda>s. SessionId (as_u64 s)) (w_session_id w),
     session_origin = origin_parse (w_session_origin w),
     timeout = from_secs (unat (as_u64 (w_timeout_secs w))),
     grace = from_secs (unat (as_u64 (w_grace_secs w))),
     log_limit_bytes = as_u64 (w_log_limit w),
     resources = (case w_resources w of None \<Rightarrow> resource_default | Some r \<Rightarrow> r)\<rparr>"

definition row_result :: "run_row \<Rightarrow> cleanup_state \<Rightarrow> run_result option" where
  "row_result w cl =
    (case (Option.bind (w_outcome w) outcome_parse, w_finished_at w) of
       (Some oc, Some fin) \<Rightarrow>
         Some \<lparr>outcome = oc, exit_code = w_exit_code w, signal = w_signal w,
               started_at = map_option as_u64 (w_started_at w), finished_at = as_u64 fin,
               duration_ms = clamp_u64 (case w_duration_ms w of None \<Rightarrow> 0 | Some d \<Rightarrow> d),
               cleanup = cl, detail = w_detail w\<rparr>
     | _ \<Rightarrow> None)"

definition row_leader :: "run_row \<Rightarrow> process_identity option" where
  "row_leader w =
    (case (w_leader_boot w, w_leader_pid w, w_leader_start w) of
       (Some b, Some p, Some t) \<Rightarrow>
         Some \<lparr>i_boot = bytes_to_boot b, i_pid = of_int p, i_start = as_u64 t\<rparr>
     | _ \<Rightarrow> None)"

definition record_from_row :: "run_row \<Rightarrow> store_error + run_record" where
  "record_from_row w =
    (case state_parse (w_state w) of
       None \<Rightarrow> Inl BadRunState
     | Some s \<Rightarrow>
         (case cleanup_parse (w_cleanup w) of
            None \<Rightarrow> Inl BadCleanupState
          | Some cl \<Rightarrow>
              Inr \<lparr>rec_id = RunId (w_id w), rec_spec = row_spec w, rec_state = s,
                   rec_result = row_result w cl,
                   rec_logs = \<lparr>stdout_bytes = clamp_u64 (w_stdout_bytes w),
                     stderr_bytes = clamp_u64 (w_stderr_bytes w),
                     stdout_truncated = (w_stdout_truncated w \<noteq> 0),
                     stderr_truncated = (w_stderr_truncated w \<noteq> 0)\<rparr>,
                   rec_revision = w_revision w, rec_created_at = as_u64 (w_created_at w),
                   rec_leader = row_leader w, rec_supervisor = w_supervisor w,
                   rec_effective = (case w_effective w of None \<Rightarrow> effective_default | Some e \<Rightarrow> e),
                   rec_queue_wait_ms =
                     clamp_u64 (case w_queue_wait_ms w of None \<Rightarrow> 0 | Some q \<Rightarrow> q),
                   rec_limit_event = w_limit_event w\<rparr>))"

fun collect_records :: "run_row list \<Rightarrow> store_error + run_record list" where
  "collect_records [] = Inr []"
| "collect_records (w # ws) =
    (case record_from_row w of
       Inl e \<Rightarrow> Inl e
     | Inr r \<Rightarrow> (case collect_records ws of Inl e \<Rightarrow> Inl e | Inr rs \<Rightarrow> Inr (r # rs)))"

definition run_get :: "run_id \<Rightarrow> run_store \<Rightarrow> store_error + run_record option" where
  "run_get i st =
    (case find (\<lambda>w. w_id w = run_id_int i) (st_runs st) of
       None \<Rightarrow> Inr None
     | Some w \<Rightarrow> (case record_from_row w of Inl e \<Rightarrow> Inl e | Inr r \<Rightarrow> Inr (Some r)))"

definition filter_match :: "run_filter \<Rightarrow> run_row \<Rightarrow> bool" where
  "filter_match f w \<longleftrightarrow>
     (case rf_project f of None \<Rightarrow> True | Some p \<Rightarrow> w_project_root w = Some p)
     \<and> (case rf_session f of None \<Rightarrow> True | Some s \<Rightarrow> w_session_id w = Some (as_i64 (sid_u64 s)))
     \<and> (case rf_state f of None \<Rightarrow> True | Some s \<Rightarrow> w_state w = state_as_str s)"

definition list_limit :: "nat option \<Rightarrow> nat" where
  "list_limit l = (let n = (case l of None \<Rightarrow> 200 | Some n \<Rightarrow> n) in min (max n 1) 1000)"

definition run_list :: "run_filter \<Rightarrow> run_store \<Rightarrow> store_error + run_record list" where
  "run_list f st =
    collect_records (take (list_limit (rf_limit f)) (filter (filter_match f) (rev (st_runs st))))"

definition run_unfinished :: "run_store \<Rightarrow> store_error + run_record list" where
  "run_unfinished st =
    collect_records (filter (\<lambda>w. w_state w \<noteq> ''finished'') (st_runs st))"

definition run_prune :: "u64 \<Rightarrow> run_store \<Rightarrow> run_id list \<times> run_store" where
  "run_prune before st =
    (let ids = map w_id (filter (\<lambda>w. w_state w = ''finished'' \<and> w_created_at w < as_i64 before) (st_runs st))
     in (map RunId ids,
         st\<lparr>st_runs := filter (\<lambda>w. w_id w \<notin> set ids) (st_runs st),
            st_procs := filter (\<lambda>p. pw_run p \<notin> set ids) (st_procs st),
            st_events := filter (\<lambda>e. ew_run e \<notin> set ids) (st_events st)\<rparr>))"

end
