(* ===== verification/Latch.thy ===== *)
theory Latch
  imports Main
begin

text \<open>
  The interface of a value written once: the stored result of a run, which a cancel racing with an
  exit must not overwrite, and the in-memory slot of the supervisor are its two providers.
\<close>

locale write_once =
  fixes ok :: "'s \<Rightarrow> bool"
    and settled :: "'s \<Rightarrow> bool"
    and put :: "'v \<Rightarrow> 's \<Rightarrow> bool \<times> 's"
    and stored :: "'s \<Rightarrow> 'v \<Rightarrow> bool"
  assumes first: "ok s \<Longrightarrow> \<not> settled s \<Longrightarrow> fst (put v s) \<and> settled (snd (put v s))
      \<and> stored (snd (put v s)) v"
    and later: "ok s \<Longrightarrow> settled s \<Longrightarrow> put v s = (False, s)"
    and keeps: "ok s \<Longrightarrow> ok (snd (put v s))"
begin

fun put_all :: "'v list \<Rightarrow> 's \<Rightarrow> bool list \<times> 's" where
  "put_all [] s = ([], s)"
| "put_all (v # vs) s =
    (let (b, s1) = put v s; (bs, s2) = put_all vs s1 in (b # bs, s2))"

lemma settled_all: "ok s \<Longrightarrow> settled s \<Longrightarrow> put_all vs s = (replicate (length vs) False, s)"
  by (induction vs) (simp_all add: later)

lemma first_wins:
  assumes "ok s" "\<not> settled s"
  shows "fst (put_all (v # vs) s) = True # replicate (length vs) False
    \<and> snd (put_all (v # vs) s) = snd (put v s) \<and> stored (snd (put_all (v # vs) s)) v"
proof -
  obtain b s1 where w: "put v s = (b, s1)" by (cases "put v s")
  then have "b" "settled s1" "stored s1 v" "ok s1"
    using first[OF assms, of v] keeps[OF assms(1), of v] by auto
  then show ?thesis using w settled_all by simp
qed

end

end
