(* ===== verification/Run_Store_Props.thy ===== *)
theory Run_Store_Props
  imports Run_Store Latch
begin

text \<open>
  What the run tables promise: a stored request reads back as sent (in whole seconds), a repeated
  key never creates a second run inside its window, the first result is the last one, stale
  transitions change nothing, pruning touches finished runs only.
\<close>

section \<open>Well-formed stores\<close>

definition row_ok :: "run_row \<Rightarrow> bool" where
  "row_ok w \<longleftrightarrow> state_parse (w_state w) \<noteq> None \<and> cleanup_parse (w_cleanup w) \<noteq> None"

definition store_ok :: "run_store \<Rightarrow> bool" where
  "store_ok st \<longleftrightarrow> sorted_wrt (<) (map w_id (st_runs st))
     \<and> (\<forall>w\<in>set (st_runs st). w_id w < st_next_id st \<and> row_ok w)
     \<and> distinct (map (\<lambda>e. (ew_run e, ew_revision e)) (st_events st))"

lemma store_empty_ok [simp]: "store_ok store_empty"
  by (simp add: store_ok_def store_empty_def)

lemma update_rows_ok:
  assumes "store_ok st" "\<And>w. w_id (f w) = w_id w" "\<And>w. row_ok w \<Longrightarrow> row_ok (f w)"
  shows "store_ok (snd (update_rows P f st))"
proof -
  let ?st = "snd (update_rows P f st)"
  have "map w_id (st_runs ?st) = map w_id (st_runs st)" "st_next_id ?st = st_next_id st"
    "st_events ?st = st_events st" using assms(2) by (simp_all add: update_rows_def)
  moreover have "\<forall>w\<in>set (st_runs ?st). w_id w < st_next_id st \<and> row_ok w"
    using assms by (auto simp: update_rows_def store_ok_def)
  ultimately show ?thesis using assms(1) unfolding store_ok_def by simp
qed

lemma event_insert_ok:
  assumes "store_ok st"
  shows "store_ok (run_event_insert i rv k d now st)"
  using assms by (auto simp: store_ok_def run_event_insert_def distinct_map_filter)

lemma run_transition_alt:
  "run_transition i rv step now st =
    (if \<exists>w\<in>set (st_runs st). w_id w = run_id_int i \<and> w_revision w < rv
     then (True, run_event_insert i rv (rs_kind step) (rs_detail step) now
        (snd (update_rows (\<lambda>w. w_id w = run_id_int i \<and> w_revision w < rv)
           (\<lambda>w. w\<lparr>w_state := state_as_str (rs_state step),
                  w_cleanup := cleanup_as_str (rs_cleanup step), w_revision := rv\<rparr>) st)))
     else (False, st))"
proof -
  have m: "map (\<lambda>w. if P w then f w else w) ws = ws" if "\<forall>w\<in>set ws. \<not> P w"
    for P :: "run_row \<Rightarrow> bool" and f ws
    using that by (auto intro: map_idI)
  show ?thesis
    by (auto simp: run_transition_def update_rows_def Let_def filter_empty_conv m split: prod.splits)
qed

lemma run_finish_alt:
  "run_finish i rv res logs st =
    (if \<exists>w\<in>set (st_runs st). w_id w = run_id_int i \<and> w_state w \<noteq> ''finished''
     then (True, run_event_insert i rv ''finished'' (Some (outcome_as_str (outcome res)))
        (finished_at res)
        (snd (update_rows (\<lambda>w. w_id w = run_id_int i \<and> w_state w \<noteq> ''finished'')
           (finish_row rv res logs) st)))
     else (False, st))"
proof -
  have m: "map (\<lambda>w. if P w then f w else w) ws = ws" if "\<forall>w\<in>set ws. \<not> P w"
    for P :: "run_row \<Rightarrow> bool" and f ws
    using that by (auto intro: map_idI)
  show ?thesis
    by (auto simp: run_finish_def update_rows_def Let_def filter_empty_conv m split: prod.splits)
qed

lemma finished_str: "''finished'' = state_as_str Finished"
  by (simp add: state_as_str_def)

lemma row_ok_simps [simp]:
  "row_ok (w\<lparr>w_state := state_as_str s, w_cleanup := cleanup_as_str c, w_revision := rv\<rparr>)"
  "row_ok (finish_row rv res logs w)"
  by (simp_all add: row_ok_def finish_row_def finished_str)

lemma run_transition_ok: "store_ok st \<Longrightarrow> store_ok (snd (run_transition i rv step now st))"
  by (auto simp: run_transition_alt intro!: event_insert_ok update_rows_ok)

lemma finish_row_id [simp]: "w_id (finish_row rv res logs w) = w_id w"
  by (simp add: finish_row_def)

lemma run_finish_ok: "store_ok st \<Longrightarrow> store_ok (snd (run_finish i rv res logs st))"
  by (auto simp: run_finish_alt intro!: event_insert_ok update_rows_ok)

lemma run_set_ok:
  "store_ok st \<Longrightarrow> store_ok (run_set_leader i who t st)"
  "store_ok st \<Longrightarrow> store_ok (run_set_effective i eff q st)"
  "store_ok st \<Longrightarrow> store_ok (run_set_limit_event i ev st)"
  "store_ok st \<Longrightarrow> store_ok (run_record_process i who role t st)"
proof -
  assume ok: "store_ok st"
  show "store_ok (run_set_leader i who t st)" "store_ok (run_set_effective i eff q st)"
    "store_ok (run_set_limit_event i ev st)"
    unfolding run_set_leader_def run_set_effective_def run_set_limit_event_def
    by (rule update_rows_ok[OF ok]; simp add: row_ok_def)+
  show "store_ok (run_record_process i who role t st)"
    using ok by (simp add: run_record_process_def store_ok_def)
qed

lemma run_insert_ok: "store_ok st \<Longrightarrow> store_ok (snd (run_insert h spec sv boot now st))"
  by (auto simp: run_insert_def store_ok_def row_ok_def new_row_def sorted_wrt_append
      split: option.splits)

lemma run_prune_ok: "store_ok st \<Longrightarrow> store_ok (snd (run_prune before st))"
  by (auto simp: run_prune_def store_ok_def Let_def sorted_wrt_map distinct_map_filter
      intro!: sorted_wrt_filter)

lemma store_ok_find:
  assumes "store_ok st" "w \<in> set (st_runs st)"
  shows "find (\<lambda>x. w_id x = w_id w) (st_runs st) = Some w"
proof -
  have d: "distinct (map w_id (st_runs st))"
    using assms(1) by (metis store_ok_def strict_sorted_iff)
  obtain x where x: "find (\<lambda>x. w_id x = w_id w) (st_runs st) = Some x"
    using assms(2) by (cases "find (\<lambda>x. w_id x = w_id w) (st_runs st)") (auto simp: find_None_iff)
  then have "x \<in> set (st_runs st)" "w_id x = w_id w" by (auto simp: find_Some_iff)
  then have "x = w" using d assms(2) by (metis distinct_map inj_onD)
  then show ?thesis using x by simp
qed

lemma record_total: "row_ok w \<Longrightarrow> \<exists>r. record_from_row w = Inr r \<and> rec_id r = RunId (w_id w)"
  by (auto simp: row_ok_def record_from_row_def)

lemma collect_total:
  "\<forall>w\<in>set ws. row_ok w \<Longrightarrow> \<exists>rs. collect_records ws = Inr rs \<and> map rec_id rs = map (RunId \<circ> w_id) ws"
  by (induction ws) (auto dest!: record_total split: sum.splits)

text \<open>In a well-formed store no read of a run fails, the listing is strictly newest first,
  bounded by the limit (1 to 1000) and contains matching runs only, and the recovery set is exactly
  the runs that have not finished.\<close>

theorem reads_never_fail:
  assumes "store_ok st"
  shows "(\<exists>r. run_get i st = Inr r)
    \<and> (\<exists>rs. run_list f st = Inr rs \<and> length rs \<le> list_limit (rf_limit f) \<and> 1 \<le> list_limit (rf_limit f)
        \<and> sorted_wrt (>) (map rec_id rs)
        \<and> set (map rec_id rs) \<subseteq> (RunId \<circ> w_id) ` {w \<in> set (st_runs st). filter_match f w})
    \<and> (\<exists>rs. run_unfinished st = Inr rs
        \<and> set (map rec_id rs) = (RunId \<circ> w_id) ` {w \<in> set (st_runs st). w_state w \<noteq> ''finished''})"
proof -
  have ok: "\<forall>w\<in>set (st_runs st). row_ok w" using assms by (simp add: store_ok_def)
  have 1: "\<exists>r. run_get i st = Inr r"
  proof (cases "find (\<lambda>w. w_id w = run_id_int i) (st_runs st)")
    case (Some w)
    then have "row_ok w" using ok by (auto simp: find_Some_iff)
    then show ?thesis using Some record_total[of w] by (auto simp: run_get_def)
  qed (simp add: run_get_def)
  let ?l = "take (list_limit (rf_limit f)) (filter (filter_match f) (rev (st_runs st)))"
  have "\<forall>w\<in>set ?l. row_ok w" using ok by (auto dest: in_set_takeD)
  then obtain rs where rs: "collect_records ?l = Inr rs" "map rec_id rs = map (RunId \<circ> w_id) ?l"
    using collect_total by blast
  have "sorted_wrt (>) (map w_id (rev (st_runs st)))"
    using assms by (simp add: store_ok_def rev_map[symmetric] sorted_wrt_rev)
  then have "sorted_wrt (>) (map w_id ?l)"
    by (simp add: sorted_wrt_map sorted_wrt_filter sorted_wrt_take)
  then have s: "sorted_wrt (>) (map rec_id rs)"
    by (simp add: rs(2) sorted_wrt_map less_run_id_def)
  have l: "length rs \<le> list_limit (rf_limit f)" using rs(2) by (metis length_map length_take min.cobounded2)
  have "set (map rec_id rs) \<subseteq> (RunId \<circ> w_id) ` {w \<in> set (st_runs st). filter_match f w}"
    unfolding rs(2) by (auto dest!: in_set_takeD)
  moreover have "1 \<le> list_limit (rf_limit f)" by (simp add: list_limit_def Let_def)
  moreover have "\<exists>rs. run_unfinished st = Inr rs
      \<and> set (map rec_id rs) = (RunId \<circ> w_id) ` {w \<in> set (st_runs st). w_state w \<noteq> ''finished''}"
  proof -
    let ?u = "filter (\<lambda>w. w_state w \<noteq> ''finished'') (st_runs st)"
    obtain rs where u: "collect_records ?u = Inr rs" "map rec_id rs = map (RunId \<circ> w_id) ?u"
      using collect_total[of ?u] ok by auto
    have "set (map rec_id rs) = (RunId \<circ> w_id) ` {w \<in> set (st_runs st). w_state w \<noteq> ''finished''}"
      unfolding u(2) by simp
    then show ?thesis using u(1) by (auto simp: run_unfinished_def)
  qed
  ultimately show ?thesis using 1 rs(1) s l unfolding run_list_def by blast
qed

lemma reads_never_fail_witness: "\<exists>rs. run_unfinished store_empty = Inr rs"
  using reads_never_fail[OF store_empty_ok] by blast

section \<open>Idempotency keys\<close>

definition spec_wire :: "run_spec \<Rightarrow> run_spec" where
  "spec_wire s = s\<lparr>timeout := secs_deserialize (secs_serialize (timeout s)),
     grace := secs_deserialize (secs_serialize (grace s)), resources := resources_wire (resources s)\<rparr>"

lemma row_spec_new [simp]: "row_spec (new_row h spec sv boot now i) = spec_wire spec"
  by (cases "session_id spec")
    (simp_all add: row_spec_def new_row_def spec_wire_def secs_deserialize_def secs_serialize_def)

lemma clamp_u64_0 [simp]: "clamp_u64 0 = 0"
  by (simp add: clamp_u64_def as_u64_def)

lemma record_new_row:
  "record_from_row (new_row h spec sv boot now i) =
    Inr \<lparr>rec_id = RunId i, rec_spec = spec_wire spec, rec_state = Queued, rec_result = None,
      rec_logs = log_state_default, rec_revision = 0, rec_created_at = now, rec_leader = None,
      rec_supervisor = Some sv, rec_effective = effective_default, rec_queue_wait_ms = 0,
      rec_limit_event = None\<rparr>"
  unfolding record_from_row_def row_spec_new
  by (simp add: new_row_def row_result_def row_leader_def log_state_default_def)

lemma run_insert_Created:
  assumes "run_insert h spec sv boot now st = (Created i, st')"
  shows "i = RunId (st_next_id st) \<and> st_next_id st' = st_next_id st + 1
    \<and> st_runs st' = st_runs st @ [new_row h spec sv boot now (st_next_id st)]
    \<and> st_procs st' = st_procs st \<and> st_events st' = st_events st"
  using assms by (auto simp: run_insert_def split: option.splits if_splits)

text \<open>C7: a created run reads back as the request that was sent, durations cut to whole seconds,
  queued, at revision 0, with nothing recorded yet.\<close>

theorem insert_reads_back:
  assumes "store_ok st" "run_insert h spec sv boot now st = (Created i, st')"
  shows "run_get i st' = Inr (Some \<lparr>rec_id = i, rec_spec = spec_wire spec, rec_state = Queued,
      rec_result = None, rec_logs = log_state_default, rec_revision = 0, rec_created_at = now,
      rec_leader = None, rec_supervisor = Some sv, rec_effective = effective_default,
      rec_queue_wait_ms = 0, rec_limit_event = None\<rparr>)
    \<and> run_get i st = Inr None"
proof -
  note c = run_insert_Created[OF assms(2)]
  have n: "find (\<lambda>w. w_id w = st_next_id st) (st_runs st) = None"
    using assms(1) by (auto simp: find_None_iff store_ok_def)
  have "find (\<lambda>w. w_id w = st_next_id st) (st_runs st') = Some (new_row h spec sv boot now (st_next_id st))"
    using c n by (simp add: find_append new_row_def)
  then show ?thesis using c n by (simp add: run_get_def record_new_row)
qed

definition demo_spec :: run_spec where
  "demo_spec = spec_new ''k'' [''ls''] ''/w''"

definition demo_hash :: "u8 list \<Rightarrow> string" where
  "demo_hash b = map (\<lambda>x. char_of (unat x)) b"

definition demo_store :: run_store where
  "demo_store = snd (run_insert demo_hash demo_spec ''s'' (BootId 7) 100 store_empty)"

lemma demo_created:
  "run_insert demo_hash demo_spec ''s'' (BootId 7) 100 store_empty = (Created (RunId 1), demo_store)"
  by (simp add: demo_store_def run_insert_def store_empty_def)

lemma demo_store_ok: "store_ok demo_store"
  using run_insert_ok[OF store_empty_ok] demo_created by (metis snd_conv)

lemma insert_reads_back_witness: "run_get (RunId 1) demo_store \<noteq> Inr None"
  using insert_reads_back[OF store_empty_ok demo_created] by simp

lemma window_start_mono_le: "unat now < 2 ^ 63 \<Longrightarrow> window_start now = int (unat now - 86400)"
proof -
  assume n: "unat now < 2 ^ 63"
  have "unat (sat_sub now (as_secs REQUEST_ID_WINDOW)) = unat now - 86400"
    by (simp add: unat_sat_sub REQUEST_ID_WINDOW_def as_secs_def from_secs_def)
  then show ?thesis using n by (simp add: window_start_def as_i64_def sint_u64_small)
qed

text \<open>What deduplication looks at: the id, key, digest and creation time of every row.\<close>

definition key_of :: "run_row \<Rightarrow> int \<times> string \<times> string \<times> int" where
  "key_of w = (w_id w, w_request_id w, w_fingerprint w, w_created_at w)"

definition keys :: "run_store \<Rightarrow> (int \<times> string \<times> string \<times> int) list" where
  "keys st = map key_of (st_runs st)"

lemma update_rows_keys: "(\<And>w. key_of (f w) = key_of w) \<Longrightarrow> keys (snd (update_rows P f st)) = keys st"
  by (simp add: keys_def update_rows_def)

lemma event_insert_keys [simp]: "keys (run_event_insert i rv k d now st) = keys st"
  by (simp add: keys_def run_event_insert_def)

lemma updates_keep_keys:
  "keys (snd (run_transition i rv step now st)) = keys st"
  "keys (snd (run_finish i rv res logs st)) = keys st"
  "keys (run_set_leader i who t st) = keys st"
  "keys (run_set_effective i eff q st) = keys st"
  "keys (run_set_limit_event i ev st) = keys st"
  "keys (run_record_process i who role t st) = keys st"
proof -
  show "keys (snd (run_transition i rv step now st)) = keys st"
    by (simp add: run_transition_alt update_rows_keys key_of_def)
  show "keys (snd (run_finish i rv res logs st)) = keys st"
    by (simp add: run_finish_alt update_rows_keys key_of_def finish_row_def)
  show "keys (run_set_leader i who t st) = keys st" "keys (run_set_effective i eff q st) = keys st"
    "keys (run_set_limit_event i ev st) = keys st"
    unfolding run_set_leader_def run_set_effective_def run_set_limit_event_def
    by (rule update_rows_keys; simp add: key_of_def)+
  show "keys (run_record_process i who role t st) = keys st"
    by (simp add: keys_def run_record_process_def)
qed

definition deduplicated :: "run_store \<Rightarrow> bool" where
  "deduplicated st \<longleftrightarrow>
     (\<forall>a\<in>set (keys st). \<forall>b\<in>set (keys st). fst a < fst b \<and> fst (snd a) = fst (snd b)
        \<longrightarrow> snd (snd (snd a)) < window_start (as_u64 (snd (snd (snd b)))))"

inductive store_step :: "(u8 list \<Rightarrow> string) \<Rightarrow> run_store \<Rightarrow> run_store \<Rightarrow> bool" for h where
  st_insert: "store_step h st (snd (run_insert h spec sv boot now st))"
| st_transition: "store_step h st (snd (run_transition i rv step now st))"
| st_finish: "store_step h st (snd (run_finish i rv res logs st))"
| st_leader: "store_step h st (run_set_leader i who now st)"
| st_effective: "store_step h st (run_set_effective i eff q st)"
| st_limit: "store_step h st (run_set_limit_event i ev st)"
| st_process: "store_step h st (run_record_process i who role now st)"
| st_event: "store_step h st (run_event_insert i rv k d now st)"
| st_prune: "store_step h st (snd (run_prune before st))"

inductive store_reach :: "(u8 list \<Rightarrow> string) \<Rightarrow> run_store \<Rightarrow> bool" for h where
  sr_empty: "store_reach h store_empty"
| sr_step: "store_reach h st \<Longrightarrow> store_step h st st' \<Longrightarrow> store_reach h st'"

lemma store_step_ok: "store_step h st st' \<Longrightarrow> store_ok st \<Longrightarrow> store_ok st'"
  by (induction rule: store_step.induct)
    (simp_all add: run_insert_ok run_transition_ok run_finish_ok run_set_ok run_prune_ok event_insert_ok)

lemma insert_dedup:
  assumes "store_ok st" "deduplicated st"
  shows "deduplicated (snd (run_insert h spec sv boot now st))"
proof (cases "find (\<lambda>w. w_request_id w = request_id spec \<and> w_created_at w \<ge> window_start now) (rev (st_runs st))")
  case None
  then have "\<forall>w\<in>set (st_runs st). w_request_id w = request_id spec \<longrightarrow> w_created_at w < window_start now"
    by (auto simp: find_None_iff not_le)
  moreover have "\<forall>w\<in>set (st_runs st). w_id w < st_next_id st" using assms(1) by (simp add: store_ok_def)
  ultimately show ?thesis using assms(2) None
    by (fastforce simp: deduplicated_def keys_def key_of_def run_insert_def new_row_def)
qed (use assms(2) in \<open>simp add: run_insert_def\<close>)

lemma store_step_dedup: "store_step h st st' \<Longrightarrow> store_ok st \<Longrightarrow> deduplicated st \<Longrightarrow> deduplicated st'"
proof (induction rule: store_step.induct)
  case (st_prune st before)
  have "set (keys (snd (run_prune before st))) \<subseteq> set (keys st)"
    by (auto simp: keys_def run_prune_def Let_def)
  then show ?case using st_prune unfolding deduplicated_def by blast
next
  case (st_insert st spec sv boot now)
  then show ?case by (intro insert_dedup)
qed (simp_all add: deduplicated_def updates_keep_keys)

lemma store_reach_inv: "store_reach h st \<Longrightarrow> store_ok st \<and> deduplicated st"
proof (induction rule: store_reach.induct)
  case sr_empty
  have "deduplicated store_empty" by (simp add: deduplicated_def keys_def store_empty_def)
  then show ?case by simp
qed (use store_step_ok store_step_dedup in blast)

text \<open>C8: over any history of the run tables, a request key never has two runs inside one
  24-hour window: the older one was created before the window of the newer one.\<close>

theorem one_run_per_key_and_window:
  assumes "store_reach h st" "a \<in> set (st_runs st)" "b \<in> set (st_runs st)" "w_id a < w_id b"
    and "w_request_id a = w_request_id b" "0 \<le> w_created_at b" "w_created_at b < 2 ^ 63"
  shows "w_created_at a < max 0 (w_created_at b - 86400)"
proof -
  have k: "key_of a \<in> set (keys st)" "key_of b \<in> set (keys st)" using assms(2,3) by (auto simp: keys_def)
  let ?n = "as_u64 (w_created_at b)"
  have "w_created_at a < window_start ?n"
    using store_reach_inv[OF assms(1)] k assms(4,5) unfolding deduplicated_def
    by (fastforce simp: key_of_def)
  moreover
  have n: "unat ?n = nat (w_created_at b)" using assms(6,7) by (simp add: as_u64_def unat_of_int_u64)
  have "int (m - 86400) = max 0 (int m - 86400)" for m :: nat by arith
  from this[of "nat (w_created_at b)"] have "window_start ?n = max 0 (w_created_at b - 86400)"
    using window_start_mono_le[of ?n] assms(6,7) by (simp add: n nat_less_iff)
  ultimately show ?thesis by simp
qed

lemma one_run_per_key_and_window_witness:
  "\<exists>a\<in>set (st_runs (snd (run_insert demo_hash demo_spec ''t'' (BootId 7) 100000 demo_store))).
     w_id a = 1 \<and> w_created_at a < max 0 (100000 - 86400)"
proof -
  let ?st = "snd (run_insert demo_hash demo_spec ''t'' (BootId 7) 100000 demo_store)"
  let ?a = "new_row demo_hash demo_spec ''s'' (BootId 7) 100 1"
  let ?b = "new_row demo_hash demo_spec ''t'' (BootId 7) 100000 2"
  have "store_reach demo_hash demo_store"
    unfolding demo_store_def by (rule sr_step[OF sr_empty st_insert])
  then have r: "store_reach demo_hash ?st" by (rule sr_step[OF _ st_insert])
  have s: "st_runs demo_store = [?a]" "st_next_id demo_store = 2"
    using run_insert_Created[OF demo_created] by (simp_all add: store_empty_def)
  have w: "window_start 100000 = 13600"
    by (simp add: window_start_def sat_sub_def REQUEST_ID_WINDOW_def as_secs_def from_secs_def as_i64_def)
  have "w_created_at ?a = 100" by (simp add: new_row_def as_i64_def)
  then have m: "st_runs ?st = [?a, ?b]" by (simp add: run_insert_def s w)
  have "w_created_at ?a < max 0 (w_created_at ?b - 86400)"
    by (rule one_run_per_key_and_window[OF r]) (simp_all add: m new_row_def as_i64_def)
  then show ?thesis unfolding m by (simp add: new_row_def as_i64_def)
qed

text \<open>Inside the window, the same key returns the existing run when the digest is the same
  and a conflict when it is not; nothing is written; and this survives every later update of the
  tables short of a newer run with the key or the pruning of this one.\<close>

theorem repeated_key_resolves:
  assumes "store_ok st" "run_insert h spec sv boot now st = (Created i, st1)"
    and "keys st2 = keys st1" "request_id spec2 = request_id spec"
    and "window_start now2 \<le> as_i64 now"
  shows "run_insert h spec2 sv2 boot2 now2 st2 =
    (if fingerprint h spec2 = fingerprint h spec then Existing i else Conflict i, st2)"
proof -
  note c = run_insert_Created[OF assms(2)]
  have "map key_of (st_runs st2) = map key_of (st_runs st) @ [key_of (new_row h spec sv boot now (st_next_id st))]"
    using assms(3) c by (simp add: keys_def)
  then obtain ws w where r: "st_runs st2 = ws @ [w]"
      "key_of w = key_of (new_row h spec sv boot now (st_next_id st))"
    by (force simp: map_eq_append_conv map_eq_Cons_conv)
  then have w: "w_id w = st_next_id st" "w_request_id w = request_id spec"
    "w_fingerprint w = fingerprint h spec" "w_created_at w = as_i64 now"
    by (simp_all add: key_of_def new_row_def)
  then show ?thesis using assms(4,5) c by (simp add: run_insert_def r(1))
qed

lemma repeated_key_resolves_witness:
  "run_insert demo_hash demo_spec ''t'' (BootId 8) 200 demo_store = (Existing (RunId 1), demo_store)"
proof -
  have "window_start 200 = 0"
    by (simp add: window_start_def sat_sub_def REQUEST_ID_WINDOW_def as_secs_def from_secs_def as_i64_def)
  moreover have "as_i64 100 = 100" by (simp add: as_i64_def)
  ultimately have "window_start 200 \<le> as_i64 100" by simp
  from repeated_key_resolves[OF store_empty_ok demo_created refl refl this] show ?thesis by simp
qed

text \<open>Two different commands can have one digest: the working directory follows the last
  argument without a separator, so an argument that ends in the start of the other's directory
  makes the second request pass for a repetition of the first.\<close>

theorem fingerprint_collision:
  "fingerprint h (spec_new r [x] (d @ e)) = fingerprint h (spec_new r [x @ d] e)
   \<and> (same_request (spec_new r [x] (d @ e)) (spec_new r [x @ d] e) \<longleftrightarrow> d = [])"
  by (auto simp: fingerprint_def fingerprint_preimage_def spec_new_def same_request_def str_bytes_def)

section \<open>Results are written once\<close>

definition has_run :: "run_id \<Rightarrow> run_store \<Rightarrow> bool" where
  "has_run i st \<longleftrightarrow> store_ok st \<and> (\<exists>w\<in>set (st_runs st). w_id w = run_id_int i)"

definition run_settled :: "run_id \<Rightarrow> run_store \<Rightarrow> bool" where
  "run_settled i st \<longleftrightarrow> (\<forall>w\<in>set (st_runs st). w_id w = run_id_int i \<longrightarrow> w_state w = ''finished'')"

definition finish_put :: "run_id \<Rightarrow> int \<times> run_result \<times> log_state \<Rightarrow> run_store \<Rightarrow> bool \<times> run_store" where
  "finish_put i v st = run_finish i (fst v) (fst (snd v)) (snd (snd v)) st"

text \<open>What is read back: the result as given, except that a missing start time keeps the one
  recorded with the leader; byte counts and durations are non-negative \<open>i64\<close> values.\<close>

definition reads_result :: "run_id \<Rightarrow> run_store \<Rightarrow> int \<times> run_result \<times> log_state \<Rightarrow> bool" where
  "reads_result i st v =
    (case v of (rv, res, logs) \<Rightarrow>
       unat (duration_ms res) < 2 ^ 63 \<and> unat (stdout_bytes logs) < 2 ^ 63
         \<and> unat (stderr_bytes logs) < 2 ^ 63 \<longrightarrow>
       (\<exists>r. run_get i st = Inr (Some r) \<and> rec_state r = Finished \<and> rec_revision r = rv
          \<and> rec_logs r = logs
          \<and> (\<exists>t. rec_result r = Some (res\<lparr>started_at := t\<rparr>)
                \<and> (started_at res \<noteq> None \<longrightarrow> t = started_at res))))"

lemma clamp_as_i64: "unat w < 2 ^ 63 \<Longrightarrow> clamp_u64 (as_i64 w) = w"
proof -
  assume "unat w < 2 ^ 63"
  then have "0 \<le> as_i64 w" by (simp add: as_i64_def sint_u64_small)
  then show ?thesis by (simp add: clamp_u64_def max_def)
qed

lemma record_finish_row:
  assumes "unat (duration_ms res) < 2 ^ 63" "unat (stdout_bytes logs) < 2 ^ 63"
    "unat (stderr_bytes logs) < 2 ^ 63"
  shows "\<exists>r. record_from_row (finish_row rv res logs w) = Inr r \<and> rec_state r = Finished
    \<and> rec_revision r = rv \<and> rec_logs r = logs \<and> (\<exists>t. rec_result r = Some (res\<lparr>started_at := t\<rparr>)
    \<and> (started_at res \<noteq> None \<longrightarrow> t = started_at res))"
proof -
  let ?w = "finish_row rv res logs w"
  have s: "state_parse (w_state ?w) = Some Finished" "cleanup_parse (w_cleanup ?w) = Some (cleanup res)"
    by (simp_all add: finish_row_def finished_str)
  have r: "row_result ?w (cleanup res) = Some (res\<lparr>started_at := map_option as_u64 (w_started_at ?w)\<rparr>)"
    by (simp add: row_result_def finish_row_def clamp_as_i64[OF assms(1)])
  have "started_at res \<noteq> None \<longrightarrow> map_option as_u64 (w_started_at ?w) = started_at res"
    by (auto simp: finish_row_def)
  moreover have "\<lparr>stdout_bytes = clamp_u64 (w_stdout_bytes ?w), stderr_bytes = clamp_u64 (w_stderr_bytes ?w),
      stdout_truncated = (w_stdout_truncated ?w \<noteq> 0), stderr_truncated = (w_stderr_truncated ?w \<noteq> 0)\<rparr> = logs"
    by (simp add: finish_row_def clamp_as_i64[OF assms(2)] clamp_as_i64[OF assms(3)] bool_i64_def)
  moreover have "w_revision ?w = rv" by (simp add: finish_row_def)
  ultimately show ?thesis unfolding record_from_row_def s option.case r by force
qed

lemma run_get_event [simp]: "run_get i (run_event_insert j rv k d now st) = run_get i st"
  by (simp add: run_get_def run_event_insert_def)

lemma run_finish_stored:
  assumes "has_run i st" "\<not> run_settled i st"
  shows "fst (finish_put i v st) \<and> run_settled i (snd (finish_put i v st))
    \<and> reads_result i (snd (finish_put i v st)) v"
proof -
  obtain rv res logs where v: "v = (rv, res, logs)" by (cases v)
  obtain w where w: "w \<in> set (st_runs st)" "w_id w = run_id_int i" "w_state w \<noteq> ''finished''"
    using assms(2) by (auto simp: run_settled_def)
  let ?P = "\<lambda>w. w_id w = run_id_int i \<and> w_state w \<noteq> ''finished''"
  let ?st = "snd (update_rows ?P (finish_row rv res logs) st)"
  have f: "finish_put i v st = (True, run_event_insert i rv ''finished''
      (Some (outcome_as_str (outcome res))) (finished_at res) ?st)"
    using w unfolding finish_put_def v run_finish_alt by auto
  have ok: "store_ok ?st" using assms(1) by (intro update_rows_ok) (simp_all add: has_run_def)
  have mem: "finish_row rv res logs w \<in> set (st_runs ?st)" using w by (force simp: update_rows_def)
  have "find (\<lambda>x. w_id x = run_id_int i) (st_runs ?st) = Some (finish_row rv res logs w)"
    using store_ok_find[OF ok mem] w(2) by simp
  then have g: "run_get i ?st = (case record_from_row (finish_row rv res logs w) of
      Inl e \<Rightarrow> Inl e | Inr r \<Rightarrow> Inr (Some r))" by (simp add: run_get_def)
  have "reads_result i ?st v"
    unfolding reads_result_def v prod.case
  proof
    assume "unat (duration_ms res) < 2 ^ 63 \<and> unat (stdout_bytes logs) < 2 ^ 63
         \<and> unat (stderr_bytes logs) < 2 ^ 63"
    then obtain r where "record_from_row (finish_row rv res logs w) = Inr r" "rec_state r = Finished"
      "rec_revision r = rv" "rec_logs r = logs" "\<exists>t. rec_result r = Some (res\<lparr>started_at := t\<rparr>)
          \<and> (started_at res \<noteq> None \<longrightarrow> t = started_at res)"
      using record_finish_row[of res logs rv w] by blast
    then show "\<exists>r. run_get i ?st = Inr (Some r) \<and> rec_state r = Finished \<and> rec_revision r = rv
        \<and> rec_logs r = logs \<and> (\<exists>t. rec_result r = Some (res\<lparr>started_at := t\<rparr>)
          \<and> (started_at res \<noteq> None \<longrightarrow> t = started_at res))"
      unfolding g by simp
  qed
  moreover have "run_settled i ?st" by (auto simp: run_settled_def update_rows_def finish_row_def)
  ultimately show ?thesis unfolding f
    by (simp add: reads_result_def run_settled_def run_event_insert_def run_get_def)
qed

lemma run_finish_settled: "run_settled i st \<Longrightarrow> finish_put i v st = (False, st)"
  by (auto simp: finish_put_def run_finish_alt run_settled_def)

lemma run_finish_has:
  assumes "has_run i st"
  shows "has_run i (snd (finish_put i v st))"
proof -
  have "map w_id (st_runs (snd (finish_put i v st))) = map w_id (st_runs st)"
    by (simp add: finish_put_def run_finish_alt update_rows_def run_event_insert_def)
  then have "w_id ` set (st_runs (snd (finish_put i v st))) = w_id ` set (st_runs st)"
    by (metis set_map)
  then show ?thesis using assms run_finish_ok
    unfolding has_run_def finish_put_def by (metis (no_types, lifting) image_iff)
qed

interpretation result_once: write_once "has_run i" "run_settled i" "finish_put i" "reads_result i"
  for i
  by unfold_locales (auto simp: run_finish_stored run_finish_settled run_finish_has)

text \<open>C9: of all the attempts to finish a run, in any order, exactly the first succeeds, and its
  result, logs and revision are what every later read returns.\<close>

theorem first_finish_wins:
  assumes "has_run i st" "\<not> run_settled i st"
  shows "fst (result_once.put_all i (v # vs) st) = True # replicate (length vs) False
    \<and> snd (result_once.put_all i (v # vs) st) = snd (run_finish i (fst v) (fst (snd v)) (snd (snd v)) st)
    \<and> reads_result i (snd (result_once.put_all i (v # vs) st)) v"
  using result_once.first_wins[OF assms, of v vs] unfolding finish_put_def by blast

definition demo_result :: run_result where
  "demo_result = \<lparr>outcome = Exited, exit_code = Some 0, signal = None, started_at = None,
     finished_at = 9, duration_ms = 1, cleanup = Complete, detail = None\<rparr>"

lemma first_finish_wins_witness:
  "fst (result_once.put_all (RunId 1) [(1, demo_result, log_state_default),
     (1, demo_result\<lparr>outcome := Cancelled\<rparr>, log_state_default)] demo_store) = [True, False]"
proof -
  have r: "st_runs demo_store = [new_row demo_hash demo_spec ''s'' (BootId 7) 100 1]"
    using run_insert_Created[OF demo_created] by (simp add: store_empty_def)
  have "has_run (RunId 1) demo_store" "\<not> run_settled (RunId 1) demo_store"
    using demo_store_ok by (simp_all add: has_run_def run_settled_def r new_row_def state_as_str_def)
  then show ?thesis
    by (subst first_finish_wins[OF \<open>has_run (RunId 1) demo_store\<close> \<open>\<not> run_settled (RunId 1) demo_store\<close>,
        THEN conjunct1]) simp
qed

section \<open>Transitions, events and pruning\<close>

text \<open>A transition with a revision that is not newer than the stored one changes nothing; a
  newer one moves state, cleanup and revision together and appends its event, and leaves every
  other run alone.\<close>

theorem stale_transition_ignored:
  assumes "store_ok st" "w \<in> set (st_runs st)" "w_id w = run_id_int i"
  shows "run_transition i rv step now st =
    (if w_revision w < rv
     then (True, run_event_insert i rv (rs_kind step) (rs_detail step) now
       (st\<lparr>st_runs := map (\<lambda>x. if x = w then w\<lparr>w_state := state_as_str (rs_state step),
          w_cleanup := cleanup_as_str (rs_cleanup step), w_revision := rv\<rparr> else x) (st_runs st)\<rparr>))
     else (False, st))"
proof -
  have d: "distinct (map w_id (st_runs st))" using assms(1) by (metis store_ok_def strict_sorted_iff)
  have u: "x \<in> set (st_runs st) \<Longrightarrow> w_id x = run_id_int i \<longleftrightarrow> x = w" for x
    using d assms(2,3) by (metis distinct_map inj_onD)
  let ?f = "\<lambda>w. w\<lparr>w_state := state_as_str (rs_state step),
          w_cleanup := cleanup_as_str (rs_cleanup step), w_revision := rv\<rparr>"
  have m: "map (\<lambda>x. if w_id x = run_id_int i \<and> w_revision x < rv then ?f x else x) (st_runs st)
      = map (\<lambda>x. if x = w then ?f w else x) (st_runs st)" if "w_revision w < rv"
    using u that by (intro map_cong) auto
  have e: "(\<exists>x\<in>set (st_runs st). w_id x = run_id_int i \<and> w_revision x < rv) \<longleftrightarrow> w_revision w < rv"
    using u assms(2,3) by auto
  show ?thesis unfolding run_transition_alt e by (simp add: update_rows_def m)
qed

lemma stale_transition_ignored_witness:
  "run_transition (RunId 1) 0 \<lparr>rs_state = Running, rs_cleanup = Pending, rs_kind = ''running'',
     rs_detail = None\<rparr> 0 demo_store = (False, demo_store)"
proof -
  have r: "st_runs demo_store = [new_row demo_hash demo_spec ''s'' (BootId 7) 100 1]"
    using run_insert_Created[OF demo_created] by (simp add: store_empty_def)
  have w: "hd (st_runs demo_store) \<in> set (st_runs demo_store)"
      "w_id (hd (st_runs demo_store)) = run_id_int (RunId 1)" by (simp_all add: r new_row_def)
  show ?thesis using stale_transition_ignored[OF demo_store_ok w] by (simp add: r new_row_def)
qed

text \<open>Nothing but the revision protects a finished run from a transition: with a newer
  revision its state leaves \<open>finished\<close>, and the run is again in the recovery set.\<close>

theorem newer_transition_resurrects:
  assumes "store_ok st" "w \<in> set (st_runs st)" "w_id w = run_id_int i" "w_state w = ''finished''"
    and "w_revision w < rv" "rs_state step \<noteq> Finished"
  shows "fst (run_transition i rv step now st)
    \<and> (\<exists>x\<in>set (st_runs (snd (run_transition i rv step now st))).
         w_id x = run_id_int i \<and> w_state x \<noteq> ''finished'' \<and> w_outcome x = w_outcome w)"
proof -
  have n: "state_as_str (rs_state step) \<noteq> ''finished''"
    using assms(6) by (cases "rs_state step") (simp_all add: state_as_str_def)
  show ?thesis
    unfolding stale_transition_ignored[OF assms(1,2,3)]
    using assms(2,3,5) n by (auto simp: run_event_insert_def intro!: bexI[of _ w])
qed

lemma newer_transition_resurrects_witness:
  "fst (run_transition (RunId 1) 5 \<lparr>rs_state = Running, rs_cleanup = Pending, rs_kind = ''running'',
      rs_detail = None\<rparr> 0 (snd (run_finish (RunId 1) 1 demo_result log_state_default demo_store)))"
proof -
  let ?st = "snd (run_finish (RunId 1) 1 demo_result log_state_default demo_store)"
  have r: "st_runs demo_store = [new_row demo_hash demo_spec ''s'' (BootId 7) 100 1]"
    using run_insert_Created[OF demo_created] by (simp add: store_empty_def)
  let ?w = "finish_row 1 demo_result log_state_default (new_row demo_hash demo_spec ''s'' (BootId 7) 100 1)"
  have m: "st_runs ?st = [?w]"
    by (simp add: run_finish_alt update_rows_def run_event_insert_def r)
      (simp add: new_row_def state_as_str_def)
  have ok: "store_ok ?st" by (rule run_finish_ok[OF demo_store_ok])
  show ?thesis
    by (rule newer_transition_resurrects[OF ok, of ?w, THEN conjunct1])
      (simp_all add: m finish_row_def new_row_def)
qed

text \<open>The event log keeps one event per revision, the last one written: a second event at the
  same revision (the \<open>queued\<close> event after \<open>created\<close>, both at revision 0) replaces
  the first.\<close>

theorem event_replaced:
  "filter (\<lambda>e. ew_run e = run_id_int i \<and> ew_revision e = rv)
     (st_events (run_event_insert i rv k2 d2 t2 (run_event_insert i rv k1 d1 t1 st)))
   = [\<lparr>ew_run = run_id_int i, ew_revision = rv, ew_at = as_i64 t2, ew_kind = k2, ew_detail = d2\<rparr>]"
  by (simp add: run_event_insert_def filter_empty_conv)

text \<open>A reader that asks for the events after its cursor gets them in strictly increasing
  order of revision, all of them newer than the cursor, each with what was last recorded.\<close>

theorem event_cursor:
  assumes "store_ok st"
  shows "sorted_wrt (<) (map re_revision (run_events i after st))
    \<and> (\<forall>e\<in>set (run_events i after st). after < re_revision e)
    \<and> set (map re_revision (run_events i after st))
        = ew_revision ` set (filter (\<lambda>e. ew_run e = run_id_int i \<and> after < ew_revision e) (st_events st))"
proof -
  let ?es = "filter (\<lambda>e. ew_run e = run_id_int i \<and> after < ew_revision e) (st_events st)"
  have d: "distinct (map ew_revision ?es)"
  proof -
    have "distinct (map (\<lambda>e. (ew_run e, ew_revision e)) ?es)"
      using assms by (simp add: store_ok_def distinct_map_filter)
    then show ?thesis unfolding distinct_map by (auto simp: inj_on_def)
  qed
  have m: "map re_revision (run_events i after st) = map ew_revision (sort_key ew_revision ?es)"
    by (simp add: run_events_def comp_def)
  have "distinct (map ew_revision (sort_key ew_revision ?es))"
    using d unfolding distinct_map by simp
  then have "sorted_wrt (<) (map ew_revision (sort_key ew_revision ?es))"
    by (simp add: strict_sorted_iff)
  moreover have "\<forall>e\<in>set (run_events i after st). after < re_revision e" by (auto simp: run_events_def)
  moreover have "set (map re_revision (run_events i after st))
      = ew_revision ` set (filter (\<lambda>e. ew_run e = run_id_int i \<and> after < ew_revision e) (st_events st))"
    unfolding m by auto
  ultimately show ?thesis unfolding m by blast
qed

lemma event_cursor_witness:
  "map re_revision (run_events (RunId 1) 0
     (run_event_insert (RunId 1) 2 ''b'' None 0 (run_event_insert (RunId 1) 1 ''a'' None 0 store_empty))) = [1, 2]"
  (is "map re_revision ?es = _")
proof -
  have ok: "store_ok (run_event_insert (RunId 1) 2 ''b'' None 0 (run_event_insert (RunId 1) 1 ''a'' None 0 store_empty))"
    by (simp add: event_insert_ok)
  have "set (map re_revision ?es) = {1, 2}" "sorted_wrt (<) (map re_revision ?es)"
    using event_cursor[OF ok, of "RunId 1" 0] by (auto simp: run_event_insert_def store_empty_def)
  then have "map re_revision ?es = sorted_list_of_set {1, 2}"
    by (metis List.finite_set sorted_list_of_set.idem_if_sorted_distinct strict_sorted_iff)
  then show ?thesis by simp
qed

text \<open>Pruning removes exactly the finished runs created before the cutoff, with their events
  and processes, and reports their ids; unfinished runs are never removed.\<close>

theorem prune_only_finished:
  "let (ids, st') = run_prune before st in
     st_runs st' = filter (\<lambda>w. w_id w \<notin> run_id_int ` set ids) (st_runs st)
     \<and> set ids = {RunId (w_id w) | w. w \<in> set (st_runs st) \<and> w_state w = ''finished''
          \<and> w_created_at w < as_i64 before}
     \<and> (\<forall>w\<in>set (st_runs st). store_ok st \<and> w_state w \<noteq> ''finished'' \<longrightarrow> w \<in> set (st_runs st'))
     \<and> (\<forall>e\<in>set (st_events st'). RunId (ew_run e) \<notin> set ids)
     \<and> (\<forall>p\<in>set (st_procs st'). RunId (pw_run p) \<notin> set ids)
     \<and> st_next_id st' = st_next_id st"
proof -
  have u: "x = y" if "store_ok st" "x \<in> set (st_runs st)" "y \<in> set (st_runs st)" "w_id x = w_id y" for x y
    using store_ok_find[OF that(1,2)] store_ok_find[OF that(1,3)] unfolding that(4) by simp
  show ?thesis
    by (auto simp: run_prune_def Let_def image_iff intro!: filter_cong dest: u)
qed

lemma prune_only_finished_witness: "fst (run_prune 1000 demo_store) = []"
proof -
  have r: "st_runs demo_store = [new_row demo_hash demo_spec ''s'' (BootId 7) 100 1]"
    using run_insert_Created[OF demo_created] by (simp add: store_empty_def)
  obtain ids st' where p: "run_prune 1000 demo_store = (ids, st')" by (cases "run_prune 1000 demo_store")
  have "set ids = {}"
    using prune_only_finished[of 1000 demo_store] unfolding p
    by (auto simp: r new_row_def state_as_str_def)
  then show ?thesis by (simp add: p)
qed

end
