(* ===== verification/Config.thy ===== *)
theory Config
  imports Scheduler
begin

text \<open>
  The configuration (\<open>src/config.rs\<close>): the tables with their defaults, the admission limits
  derived from \<open>[runs]\<close>, key bindings, user signatures and path expansion.  The TOML parser,
  the file system and the environment are arguments.
\<close>

text \<open>\<open>Path::join\<close>: an absolute argument replaces the base.\<close>

definition path_join :: "string \<Rightarrow> string \<Rightarrow> string" where
  "path_join base p =
    (if starts_with p ''/'' then p
     else if base = [] then p
     else if ends_with base ''/'' then base @ p
     else base @ ''/'' @ p)"

record runs_config =
  rc_max_parallel :: nat
  rc_max_parallel_per_project :: nat
  rc_max_queued :: nat
  rc_queue_timeout_secs :: u64
  rc_memory_budget_mb :: u64
  rc_default_run_memory_mb :: u64
  rc_starvation_after_secs :: u64
  rc_cpu_budget :: "u32 option"
  rc_pids_budget :: "u32 option"

definition runs_default :: runs_config where
  "runs_default = \<lparr>rc_max_parallel = 4, rc_max_parallel_per_project = 2, rc_max_queued = 32,
     rc_queue_timeout_secs = 600, rc_memory_budget_mb = 8192, rc_default_run_memory_mb = 512,
     rc_starvation_after_secs = 60, rc_cpu_budget = None, rc_pids_budget = None\<rparr>"

definition runs_limits :: "runs_config \<Rightarrow> limits" where
  "runs_limits c = \<lparr>max_parallel = max (rc_max_parallel c) 1,
     max_parallel_per_project = max (rc_max_parallel_per_project c) 1,
     max_queued = rc_max_queued c,
     queue_timeout = from_secs (unat (rc_queue_timeout_secs c)),
     memory_budget_bytes = sat_mul (rc_memory_budget_mb c) (1024 * 1024),
     default_run_memory_bytes = sat_mul (rc_default_run_memory_mb c) (1024 * 1024),
     starvation_after = from_secs (unat (rc_starvation_after_secs c)),
     cpu_budget_millicores = rc_cpu_budget c, pids_budget = rc_pids_budget c\<rparr>"

record keys_config =
  k_quit :: string
  k_kill :: string
  k_force_kill :: string
  k_clean :: string
  k_stop :: string
  k_prune :: string
  k_help :: string
  k_refresh :: string

definition keys_default :: keys_config where
  "keys_default = \<lparr>k_quit = ''q'', k_kill = ''x'', k_force_kill = ''K'', k_clean = ''c'',
     k_stop = ''s'', k_prune = ''P'', k_help = ''?'', k_refresh = ''r''\<rparr>"

text \<open>A Rust \<open>char\<close> is a Unicode scalar value; \<open>c as u8\<close> keeps its low byte.\<close>

definition key_hit :: "string \<Rightarrow> nat \<Rightarrow> bool" where
  "key_hit spec c \<longleftrightarrow> length spec = 1 \<and> (of_char (hd spec) :: nat) = c mod 256"

record signature_config =
  sc_category :: string
  sc_names :: "string list"
  sc_contains :: "string list"
  sc_display :: string

definition signature_category :: "signature_config \<Rightarrow> category option" where
  "signature_category s =
    (let c = to_ascii_lowercase (sc_category s) in
     if c = ''agent'' then Some Agent
     else if c = ''mcp'' then Some Mcp
     else if c = ''devserver'' \<or> c = ''dev-server'' then Some DevServer
     else if c = ''worker'' then Some Worker
     else None)"

record config =
  cf_server_age_hours :: u64
  cf_persistent_commands :: "string list"
  cf_project_roots :: "string list"
  cf_keys :: keys_config
  cf_signatures :: "signature_config list"
  cf_runs :: runs_config

definition config_default :: config where
  "config_default = \<lparr>cf_server_age_hours = 8, cf_persistent_commands = [],
     cf_project_roots = [], cf_keys = keys_default, cf_signatures = [], cf_runs = runs_default\<rparr>"

text \<open>\<open>read_file\<close> stands for the file system, \<open>parse_toml\<close> for the toml crate with
  the serde derives.\<close>

definition config_load_from ::
  "(string \<Rightarrow> string option) \<Rightarrow> (string \<Rightarrow> config option) \<Rightarrow> string \<Rightarrow> config" where
  "config_load_from read_file parse_toml path =
    (case read_file path of
       None \<Rightarrow> config_default
     | Some text \<Rightarrow> (case parse_toml text of None \<Rightarrow> config_default | Some c \<Rightarrow> c))"

definition config_path :: "(string \<Rightarrow> string option) \<Rightarrow> string option" where
  "config_path env =
    (case env ''XDG_CONFIG_HOME'' of
       Some dir \<Rightarrow> Some (path_join dir ''wyd/config.toml'')
     | None \<Rightarrow> map_option (\<lambda>h. path_join h ''.config/wyd/config.toml'') (env ''HOME''))"

definition config_load ::
  "(string \<Rightarrow> string option) \<Rightarrow> (string \<Rightarrow> string option) \<Rightarrow> (string \<Rightarrow> config option) \<Rightarrow> config" where
  "config_load env read_file parse_toml =
    (case config_path env of
       None \<Rightarrow> config_default
     | Some p \<Rightarrow> config_load_from read_file parse_toml p)"

definition expand_home :: "(string \<Rightarrow> string option) \<Rightarrow> string \<Rightarrow> string" where
  "expand_home env raw =
    (case strip_prefix raw ''~/'' of
       Some rest \<Rightarrow> (case env ''HOME'' of Some home \<Rightarrow> path_join home rest | None \<Rightarrow> raw)
     | None \<Rightarrow> raw)"

definition config_project_roots :: "(string \<Rightarrow> string option) \<Rightarrow> config \<Rightarrow> string list" where
  "config_project_roots env c = map (expand_home env) (cf_project_roots c)"

section \<open>Facts\<close>

lemma runs_limits_budget:
  "unat (memory_budget_bytes (runs_limits c))
     = min (unat (rc_memory_budget_mb c) * 2 ^ 20) (2 ^ 64 - 1)"
  by (simp add: runs_limits_def unat_sat_mul)

text \<open>Whatever the file says, at least one run and one run per project are allowed and
  the byte amounts are the megabyte amounts, saturated instead of wrapped; so a budget below
  \<open>2 ^ 43\<close> MiB is one the scheduler accounts for exactly.\<close>

theorem runs_limits_sane:
  "1 \<le> max_parallel (runs_limits c) \<and> 1 \<le> max_parallel_per_project (runs_limits c)
   \<and> unat (memory_budget_bytes (runs_limits c))
       = min (unat (rc_memory_budget_mb c) * 2 ^ 20) (2 ^ 64 - 1)
   \<and> unat (default_run_memory_bytes (runs_limits c))
       = min (unat (rc_default_run_memory_mb c) * 2 ^ 20) (2 ^ 64 - 1)
   \<and> (unat (memory_budget_bytes (runs_limits c)) < 2 ^ 63 \<longleftrightarrow> unat (rc_memory_budget_mb c) < 2 ^ 43)
   \<and> runs_limits runs_default = limits_default"
proof -
  have "runs_limits runs_default = limits_default"
    by (simp add: runs_limits_def runs_default_def limits_default_def sat_mul_def)
  moreover have "unat (default_run_memory_bytes (runs_limits c))
       = min (unat (rc_default_run_memory_mb c) * 2 ^ 20) (2 ^ 64 - 1)"
    by (simp add: runs_limits_def unat_sat_mul)
  moreover have "min (n * 2 ^ 20) (2 ^ 64 - 1) < (2 :: nat) ^ 63 \<longleftrightarrow> n < 2 ^ 43" for n
    unfolding min_less_iff_disj by simp
  ultimately show ?thesis unfolding runs_limits_budget by (simp add: runs_limits_def)
qed

text \<open>A key binding of one byte answers to every character whose code point ends in that
  byte, not only to the character itself.\<close>

theorem key_hit_low_byte:
  "key_hit [k] (of_char k + 256 * n) \<and> (key_hit [k] c \<and> c < 256 \<longleftrightarrow> c = of_char k)"
  by (auto simp: key_hit_def)

end
