(* ===== verification/Logs.thy ===== *)
theory Logs
  imports Config
begin

text \<open>
  Bounded run output (\<open>src/runner/logs.rs\<close>): the global byte budget, the append-only sink of
  one stream, chunked reads by cursor, and the private directory of a run.

  A file is the list of its bytes.  The write call of the operating system is an argument: success,
  or failure after some of the bytes.  Lossy UTF-8 decoding and path canonicalisation are arguments.
\<close>

section \<open>Streams and the global budget\<close>

datatype stream = Stdout | Stderr

definition stream_as_str :: "stream \<Rightarrow> string" where
  "stream_as_str s = (case s of Stdout \<Rightarrow> ''stdout'' | Stderr \<Rightarrow> ''stderr'')"

definition stream_parse :: "string \<Rightarrow> stream option" where
  "stream_parse s = (if s = ''stdout'' then Some Stdout else if s = ''stderr'' then Some Stderr else None)"

lemma stream_round_trip [simp]: "stream_parse (stream_as_str s) = Some s"
  by (cases s) (simp_all add: stream_parse_def stream_as_str_def)

record log_chunk =
  ck_data :: string
  ck_next_cursor :: u64
  ck_truncated :: bool
  ck_eof :: bool

record global_budget =
  gb_used :: u64
  gb_limit :: u64

definition budget_new :: "u64 \<Rightarrow> u64 \<Rightarrow> global_budget" where
  "budget_new limit used = \<lparr>gb_used = used, gb_limit = limit\<rparr>"

definition budget_take :: "u64 \<Rightarrow> global_budget \<Rightarrow> u64 \<times> global_budget" where
  "budget_take n b =
    (let granted = min n (sat_sub (gb_limit b) (gb_used b))
     in (granted, b\<lparr>gb_used := gb_used b + granted\<rparr>))"

definition budget_release :: "u64 \<Rightarrow> global_budget \<Rightarrow> global_budget" where
  "budget_release n b = b\<lparr>gb_used := sat_sub (gb_used b) n\<rparr>"

section \<open>The sink of one stream\<close>

record log_sink =
  lk_file :: "u8 list"
  lk_written :: u64
  lk_limit :: u64
  lk_truncated :: bool
  lk_stream :: stream

definition publish :: "log_sink \<Rightarrow> log_state \<Rightarrow> log_state" where
  "publish k st =
    (case lk_stream k of
       Stdout \<Rightarrow> st\<lparr>stdout_bytes := lk_written k, stdout_truncated := lk_truncated k\<rparr>
     | Stderr \<Rightarrow> st\<lparr>stderr_bytes := lk_written k, stderr_truncated := lk_truncated k\<rparr>)"

definition sink_open :: "u8 list \<Rightarrow> stream \<Rightarrow> u64 \<Rightarrow> log_state \<Rightarrow> log_sink \<times> log_state" where
  "sink_open file s limit st =
    (let w = of_nat (length file);
         k = \<lparr>lk_file = file, lk_written = w, lk_limit = limit, lk_truncated = (w \<ge> limit), lk_stream = s\<rparr>
     in (k, publish k st))"

text \<open>The outcome of \<open>write_all\<close>: \<open>None\<close> for success, \<open>Some n\<close> for an
  error after \<open>n\<close> bytes reached the file.\<close>

definition write_all_bounded ::
  "u8 list \<Rightarrow> nat option \<Rightarrow> log_sink \<times> global_budget \<times> log_state
     \<Rightarrow> bool \<times> log_sink \<times> global_budget \<times> log_state" where
  "write_all_bounded buf io x =
    (case x of (k, b, st) \<Rightarrow>
      let room = sat_sub (lk_limit k) (lk_written k);
          want = min (of_nat (length buf)) room
      in if want = 0 then
           (if buf \<noteq> [] then (let k' = k\<lparr>lk_truncated := True\<rparr> in (True, k', b, publish k' st))
            else (True, k, b, st))
         else
           (let (granted, b') = budget_take want b;
                k1 = (if granted < want then k\<lparr>lk_truncated := True\<rparr> else k);
                bytes = take (unat granted) buf
            in if granted > 0 \<and> io \<noteq> None
               then (False, k1\<lparr>lk_file := lk_file k @ take (the io) bytes\<rparr>, b', st)
               else
                 (let k2 = (if granted > 0
                            then k1\<lparr>lk_file := lk_file k @ bytes, lk_written := lk_written k + granted\<rparr>
                            else k1);
                      k3 = (if unat granted < length buf then k2\<lparr>lk_truncated := True\<rparr> else k2)
                  in (True, k3, b', publish k3 st))))"

section \<open>Reading\<close>

text \<open>\<open>dir_bytes\<close>: the entries of a directory as name, whether it is a file, and length
  (entries whose metadata cannot be read are left out).\<close>

definition dir_bytes :: "(string \<times> bool \<times> u64) list option \<Rightarrow> u64" where
  "dir_bytes entries =
    (case entries of
       None \<Rightarrow> 0
     | Some es \<Rightarrow> sum_list (map (\<lambda>(n, f, l). l) (filter (\<lambda>(n, f, l). n \<noteq> ''tmp'' \<and> f) es)))"

definition read_chunk :: "(u8 list \<Rightarrow> string) \<Rightarrow> u8 list option \<Rightarrow> u64 \<Rightarrow> nat \<Rightarrow> log_chunk" where
  "read_chunk lossy file cursor max_bytes =
    (case file of
       None \<Rightarrow> \<lparr>ck_data = '''', ck_next_cursor = 0, ck_truncated = False, ck_eof = True\<rparr>
     | Some bytes \<Rightarrow>
         (let len = of_nat (length bytes) :: u64;
              start = min cursor len;
              n = unat (min (len - start) (of_nat max_bytes));
              buf = take n (drop (unat start) bytes)
          in \<lparr>ck_data = lossy buf, ck_next_cursor = start + of_nat n, ck_truncated = False,
              ck_eof = (start + of_nat n \<ge> len)\<rparr>))"

section \<open>The directory of a run\<close>

definition run_dir :: "string \<Rightarrow> int \<Rightarrow> string" where
  "run_dir root i = path_join root (show_int i)"

definition stream_file :: "string \<Rightarrow> int \<Rightarrow> stream \<Rightarrow> string" where
  "stream_file root i s = path_join (run_dir root i) (stream_as_str s)"

definition run_tmp :: "string \<Rightarrow> int \<Rightarrow> string" where
  "run_tmp root i = path_join (run_dir root i) ''tmp''"

text \<open>\<open>Path::starts_with\<close> compares whole components.\<close>

definition path_starts_with :: "string \<Rightarrow> string \<Rightarrow> bool" where
  "path_starts_with p base \<longleftrightarrow>
     (starts_with p ''/'' \<longleftrightarrow> starts_with base ''/'')
     \<and> take (length (path_components base)) (path_components p) = path_components base"

definition path_eq :: "string \<Rightarrow> string \<Rightarrow> bool" where
  "path_eq p q \<longleftrightarrow> (starts_with p ''/'' \<longleftrightarrow> starts_with q ''/'') \<and> path_components p = path_components q"

text \<open>\<open>remove\<close>: \<open>canon\<close> is \<open>fs::canonicalize\<close>; the result is the
  directory handed to \<open>remove_dir_all\<close>, or \<open>None\<close> for the refusal.\<close>

definition run_remove :: "(string \<Rightarrow> string option) \<Rightarrow> string \<Rightarrow> int \<Rightarrow> string option" where
  "run_remove canon root i =
    (let dir = run_dir root i;
         root' = (case canon root of Some r \<Rightarrow> r | None \<Rightarrow> root);
         resolved = (case canon dir of Some d \<Rightarrow> d | None \<Rightarrow> dir)
     in if \<not> path_starts_with resolved root' \<or> path_eq resolved root' then None else Some dir)"

section \<open>Facts about the sink\<close>

definition sink_ok :: "log_sink \<Rightarrow> bool" where
  "sink_ok k \<longleftrightarrow> length (lk_file k) = unat (lk_written k)"

definition budget_ok :: "global_budget \<Rightarrow> bool" where
  "budget_ok b \<longleftrightarrow> gb_used b \<le> gb_limit b"

lemma unat_min_word: "unat (min a b) = min (unat a) (unat b)" for a b :: "'a::len word"
  by (simp add: min_def word_le_nat_alt)

lemma budget_take_props:
  assumes "budget_take n b = (g, b')"
  shows "unat g = min (unat n) (unat (gb_limit b) - unat (gb_used b))"
    and "budget_ok b \<Longrightarrow> budget_ok b' \<and> unat (gb_used b') = unat (gb_used b) + unat g"
    and "gb_limit b' = gb_limit b"
proof -
  have g: "g = min n (sat_sub (gb_limit b) (gb_used b))" "b' = b\<lparr>gb_used := gb_used b + g\<rparr>"
    using assms by (auto simp: budget_take_def Let_def)
  show u: "unat g = min (unat n) (unat (gb_limit b) - unat (gb_used b))"
    by (simp add: g(1) unat_min_word unat_sat_sub)
  show "gb_limit b' = gb_limit b" by (simp add: g(2))
  assume ok: "budget_ok b"
  then have "unat (gb_used b) + unat g \<le> unat (gb_limit b)"
    using u by (simp add: budget_ok_def word_le_nat_alt)
  moreover from this have "unat (gb_used b + g) = unat (gb_used b) + unat g"
    using unat_u64_less[of "gb_limit b"] by (intro unat_add_nowrap) simp
  ultimately show "budget_ok b' \<and> unat (gb_used b') = unat (gb_used b) + unat g"
    by (simp add: g(2) budget_ok_def word_le_nat_alt)
qed

text \<open>What one successful write does, with the room left and the bytes granted written out.\<close>

lemma write_ok_cases:
  assumes "write_all_bounded buf None (k, b, st) = (r, k', b', st')" "sink_ok k" "length buf < 2 ^ 64"
  defines "n \<equiv> min (min (length buf) (unat (lk_limit k) - unat (lk_written k)))
                 (unat (gb_limit b) - unat (gb_used b))"
  shows "r \<and> lk_file k' = lk_file k @ take n buf \<and> lk_limit k' = lk_limit k \<and> lk_stream k' = lk_stream k
    \<and> lk_truncated k' = (lk_truncated k \<or> n < length buf) \<and> sink_ok k'
    \<and> (budget_ok b \<longrightarrow> budget_ok b' \<and> unat (gb_used b') = unat (gb_used b) + n)
    \<and> gb_limit b' = gb_limit b"
proof -
  define want where "want = min (of_nat (length buf)) (sat_sub (lk_limit k) (lk_written k))"
  have w: "unat want = min (length buf) (unat (lk_limit k) - unat (lk_written k))"
    using assms(3) by (simp add: want_def unat_min_word unat_sat_sub unat_of_nat)
  show ?thesis
  proof (cases "want = 0")
    case True
    then have "min (length buf) (unat (lk_limit k) - unat (lk_written k)) = 0" using w by simp
    then have "n = 0" by (simp add: n_def)
    then show ?thesis using assms(1,2) True
      by (auto simp: write_all_bounded_def Let_def want_def[symmetric] sink_ok_def split: if_splits)
  next
    case False
    obtain g b1 where g: "budget_take want b = (g, b1)" by (cases "budget_take want b")
    note p = budget_take_props[OF g]
    have n: "unat g = n" using p(1) w by (simp add: n_def)
    have gw: "g < want \<longrightarrow> n < length buf" using n w by (simp add: word_less_nat_alt)
    have g0: "0 < g \<longleftrightarrow> 0 < n" using n by (simp add: word_less_nat_alt)
    have wr: "unat (lk_written k + g) = unat (lk_written k) + n"
    proof (cases "n = 0")
      case False
      moreover have "n \<le> unat (lk_limit k) - unat (lk_written k)" by (simp add: n_def)
      ultimately have "unat (lk_written k) + n \<le> unat (lk_limit k)" by linarith
      then show ?thesis using n unat_u64_less[of "lk_limit k"] unat_add_nowrap[of "lk_written k" g] by simp
    next
      case True
      then have "g = 0" using n by (simp add: unat_eq_zero)
      then show ?thesis using True by simp
    qed
    let ?K = "k\<lparr>lk_file := lk_file k @ take n buf, lk_written := lk_written k + g,
        lk_truncated := lk_truncated k \<or> n < length buf\<rparr>"
    have e: "write_all_bounded buf None (k, b, st) = (True, ?K, b1, publish ?K st)"
    proof (cases "n = 0")
      case True
      then have "g = 0" "buf \<noteq> []" using n False w by (auto simp: unat_eq_zero want_def)
      then show ?thesis using True False n
        unfolding write_all_bounded_def prod.case Let_def want_def[symmetric] g by (cases k) simp
    next
      case n0: False
      then have "0 < g" using g0 by simp
      then show ?thesis using False n gw
        unfolding write_all_bounded_def prod.case Let_def want_def[symmetric] g by (cases k) auto
    qed
    then have "k' = ?K" "b' = b1" "r" using assms(1) by simp_all
    moreover have "length (take n buf) = n" by (simp add: n_def)
    ultimately show ?thesis using assms(2) p(2,3) n wr by (simp add: sink_ok_def)
  qed
qed

fun write_bufs ::
  "u8 list list \<Rightarrow> log_sink \<times> global_budget \<times> log_state \<Rightarrow> log_sink \<times> global_budget \<times> log_state" where
  "write_bufs [] x = x"
| "write_bufs (buf # bufs) x = write_bufs bufs (snd (write_all_bounded buf None x))"

lemma write_bufs_used:
  assumes "sink_ok k" "budget_ok b" "write_bufs bufs (k, b, st) = (k', b', st')"
    and "\<forall>buf\<in>set bufs. length buf < 2 ^ 64"
  shows "unat (gb_used b) \<le> unat (gb_used b')"
  using assms
proof (induction bufs arbitrary: k b st)
  case (Cons buf bufs)
  obtain r k1 b1 st1 where w: "write_all_bounded buf None (k, b, st) = (r, k1, b1, st1)"
    by (cases "write_all_bounded buf None (k, b, st)")
  have l: "length buf < 2 ^ 64" using Cons.prems(4) by simp
  have "sink_ok k1" "budget_ok b1" "unat (gb_used b) \<le> unat (gb_used b1)"
    using write_ok_cases[OF w Cons.prems(1) l] Cons.prems(2) by auto
  moreover have "write_bufs bufs (k1, b1, st1) = (k', b', st')" using Cons.prems(3) w by simp
  ultimately show ?case using Cons.IH[of k1 b1 st1] Cons.prems(4) by simp
qed simp

text \<open>C10: whatever the sizes of the reads from the pipe, the retained file is the head of the
  output, cut at the smaller of the stream limit and the room in the global budget; the stream is
  marked truncated exactly when something was dropped, the global budget never goes over its limit
  and is charged for exactly the retained bytes.\<close>

theorem log_keeps_head:
  assumes "sink_ok k" "budget_ok b" "\<forall>buf\<in>set bufs. length buf < 2 ^ 64"
    and "write_bufs bufs (k, b, st) = (k', b', st')"
  shows "lk_file k' = lk_file k @ take (min (unat (lk_limit k) - unat (lk_written k))
                                   (unat (gb_limit b) - unat (gb_used b))) (concat bufs)
    \<and> (lk_truncated k' \<longleftrightarrow> lk_truncated k \<or>
         min (unat (lk_limit k) - unat (lk_written k)) (unat (gb_limit b) - unat (gb_used b))
           < length (concat bufs))
    \<and> sink_ok k' \<and> budget_ok b' \<and> gb_limit b' = gb_limit b
    \<and> unat (gb_used b') - unat (gb_used b) = length (lk_file k') - length (lk_file k)"
  using assms
proof (induction bufs arbitrary: k b st)
  case (Cons buf bufs)
  obtain r k1 b1 st1 where w: "write_all_bounded buf None (k, b, st) = (r, k1, b1, st1)"
    by (cases "write_all_bounded buf None (k, b, st)")
  define M where "M = min (unat (lk_limit k) - unat (lk_written k)) (unat (gb_limit b) - unat (gb_used b))"
  define N where "N = min (length buf) M"
  have n: "min (min (length buf) (unat (lk_limit k) - unat (lk_written k)))
      (unat (gb_limit b) - unat (gb_used b)) = N" by (simp only: min.assoc M_def N_def)
  have l: "length buf < 2 ^ 64" using Cons.prems(3) by simp
  note one = write_ok_cases[OF w Cons.prems(1) l, unfolded n]
  have file1: "lk_file k1 = lk_file k @ take N buf" and tr1: "lk_truncated k1 \<longleftrightarrow> lk_truncated k \<or> N < length buf"
    and ok1: "sink_ok k1" "budget_ok b1" and lim: "lk_limit k1 = lk_limit k" "gb_limit b1 = gb_limit b"
    and used: "unat (gb_used b1) = unat (gb_used b) + N"
    using one Cons.prems(2) by blast+
  have f1: "length (lk_file k1) = length (lk_file k) + N" by (simp add: file1 N_def)
  then have wr: "unat (lk_written k1) = unat (lk_written k) + N"
    using ok1(1) Cons.prems(1) by (simp add: sink_ok_def)
  have "min (x - (y + d)) (u - (v + d)) = min (x - y) (u - v) - d" for x y u v d :: nat by arith
  then have m1: "min (unat (lk_limit k1) - unat (lk_written k1)) (unat (gb_limit b1) - unat (gb_used b1)) = M - N"
    unfolding lim used wr M_def .
  have "write_bufs bufs (k1, b1, st1) = (k', b', st')" using Cons.prems(4) w by simp
  moreover have "\<forall>buf\<in>set bufs. length buf < 2 ^ 64" using Cons.prems(3) by simp
  ultimately have ih: "lk_file k' = lk_file k1 @ take (M - N) (concat bufs)"
    "lk_truncated k' \<longleftrightarrow> lk_truncated k1 \<or> M - N < length (concat bufs)" "sink_ok k'" "budget_ok b'"
    "gb_limit b' = gb_limit b1"
    "unat (gb_used b') - unat (gb_used b1) = length (lk_file k') - length (lk_file k1)"
    using Cons.IH[OF ok1] unfolding m1 by blast+
  have le: "unat (gb_used b1) \<le> unat (gb_used b')"
    using write_bufs_used[OF ok1 \<open>write_bufs bufs (k1, b1, st1) = (k', b', st')\<close>] Cons.prems(3) by simp
  have kept: "lk_file k' = lk_file k @ take M (concat (buf # bufs))"
    using ih(1) file1 by (cases "length buf \<le> M") (simp_all add: N_def)
  moreover have "lk_truncated k' \<longleftrightarrow> lk_truncated k \<or> M < length (concat (buf # bufs))"
    using ih(2) tr1 by (cases "length buf \<le> M") (auto simp: N_def)
  moreover have "unat (gb_used b') - unat (gb_used b) = length (lk_file k') - length (lk_file k)"
    using ih(1,6) f1 used le by simp
  moreover have "gb_limit b' = gb_limit b" using ih(5) lim(2) by simp
  ultimately show ?case using ih(3,4) unfolding M_def by blast
qed simp

definition demo_sink :: log_sink where
  "demo_sink = \<lparr>lk_file = [], lk_written = 0, lk_limit = 3, lk_truncated = False, lk_stream = Stdout\<rparr>"

lemma log_keeps_head_witness:
  "lk_file (fst (write_bufs [[1, 2], [3, 4]] (demo_sink, budget_new 9 0, log_state_default))) = [1, 2, 3]"
proof -
  obtain k' b' st' where w: "write_bufs [[1, 2], [3, 4]] (demo_sink, budget_new 9 0, log_state_default)
      = (k', b', st')" by (metis prod_cases3)
  have "sink_ok demo_sink" "budget_ok (budget_new 9 0)"
    by (simp_all add: sink_ok_def demo_sink_def budget_ok_def budget_new_def)
  from log_keeps_head[OF this _ w] show ?thesis unfolding w
    by (simp add: demo_sink_def budget_new_def)
qed

text \<open>A write that the file system refuses is charged to the global budget all the same: the
  bytes granted are taken from it although the sink does not count them as written.\<close>

theorem failed_write_charges_budget:
  assumes "buf \<noteq> []" "length buf < 2 ^ 64" "lk_written k < lk_limit k" "gb_used b < gb_limit b"
    and "write_all_bounded buf (Some m) (k, b, st) = (r, k', b', st')"
  shows "\<not> r \<and> lk_written k' = lk_written k \<and> gb_used b < gb_used b'"
proof -
  define want where "want = min (of_nat (length buf)) (sat_sub (lk_limit k) (lk_written k))"
  have "unat want = min (length buf) (unat (lk_limit k) - unat (lk_written k))"
    using assms(2) by (simp add: want_def unat_min_word unat_sat_sub unat_of_nat)
  then have w: "0 < unat want" using assms(1,3) by (simp add: word_less_nat_alt)
  obtain g b1 where g: "budget_take want b = (g, b1)" by (cases "budget_take want b")
  note p = budget_take_props[OF g]
  have g0: "0 < unat g" using p(1) w assms(4) by (simp add: word_less_nat_alt)
  have "budget_ok b" using assms(4) by (simp add: budget_ok_def)
  then have "unat (gb_used b) < unat (gb_used b1)" using p(2) g0 by simp
  then show ?thesis using assms(5) w g g0
    by (auto simp: write_all_bounded_def Let_def want_def[symmetric] word_less_nat_alt split: if_splits)
qed

lemma failed_write_charges_budget_witness:
  "gb_used (budget_new 9 0) <
     gb_used (fst (snd (snd (write_all_bounded [7] (Some 0) (demo_sink, budget_new 9 0, log_state_default)))))"
proof -
  obtain r k' b' st' where w: "write_all_bounded [7] (Some 0) (demo_sink, budget_new 9 0, log_state_default)
      = (r, k', b', st')" by (metis prod_cases4)
  show ?thesis using failed_write_charges_budget[OF _ _ _ _ w] unfolding w
    by (simp add: demo_sink_def budget_new_def)
qed

section \<open>Cursors\<close>

text \<open>A client that follows \<open>next_cursor\<close> until \<open>eof\<close>; fuel bounds the number of
  requests.\<close>

fun read_all :: "nat \<Rightarrow> (u8 list \<Rightarrow> string) \<Rightarrow> u8 list option \<Rightarrow> u64 \<Rightarrow> nat \<Rightarrow> string option" where
  "read_all 0 lossy file cursor m = None"
| "read_all (Suc n) lossy file cursor m =
    (let c = read_chunk lossy file cursor m in
     if ck_eof c then Some (ck_data c)
     else map_option ((@) (ck_data c)) (read_all n lossy file (ck_next_cursor c) m))"

lemma read_chunk_nat:
  assumes "length bytes < 2 ^ 64" "m < 2 ^ 64" "unat cursor \<le> length bytes"
  defines "n \<equiv> min (length bytes - unat cursor) m"
  shows "read_chunk lossy (Some bytes) cursor m =
    \<lparr>ck_data = lossy (take n (drop (unat cursor) bytes)), ck_next_cursor = of_nat (unat cursor + n),
     ck_truncated = False, ck_eof = (unat cursor + n \<ge> length bytes)\<rparr>"
proof -
  let ?len = "of_nat (length bytes) :: u64"
  have len: "unat ?len = length bytes" using assms(1) by (simp add: unat_of_nat)
  have le: "cursor \<le> ?len" using assms(3) len by (simp add: word_le_nat_alt)
  have "unat (?len - cursor) = length bytes - unat cursor" using le len by (simp add: unat_sub)
  then have n: "unat (min (?len - cursor) (of_nat m)) = n"
    using assms(2) by (simp add: unat_min_word unat_of_nat n_def)
  have c: "cursor + of_nat n = of_nat (unat cursor + n)" by simp
  have "unat cursor + n \<le> length bytes" using assms(3) by (auto simp: n_def)
  then have "unat (of_nat (unat cursor + n) :: u64) = unat cursor + n"
    using assms(1) by (simp add: unat_of_nat del: of_nat_add)
  then have e: "cursor + of_nat n \<ge> ?len \<longleftrightarrow> unat cursor + n \<ge> length bytes"
    unfolding c by (simp add: word_le_nat_alt len del: of_nat_add)
  have min: "min cursor ?len = cursor" using le by (simp add: min_def)
  show ?thesis unfolding read_chunk_def Let_def option.case min n using e by simp
qed

text \<open>A client that follows the cursor reads the whole retained file, byte for byte and in
  order, in at most \<open>length / max_bytes + 1\<close> requests (for a decoder that works piecewise,
  as on ASCII).\<close>

theorem cursor_reads_everything:
  assumes "length bytes < 2 ^ 64" "m < 2 ^ 64" "0 < m" "\<And>a b. lossy (a @ b) = lossy a @ lossy b"
    and "unat cursor \<le> length bytes" "length bytes - unat cursor \<le> n * m" "0 < n"
  shows "read_all n lossy (Some bytes) cursor m = Some (lossy (drop (unat cursor) bytes))"
  using assms(5-7)
proof (induction n arbitrary: cursor)
  case (Suc n)
  let ?k = "min (length bytes - unat cursor) m"
  note rc = read_chunk_nat[OF assms(1,2) Suc.prems(1), of lossy]
  show ?case
  proof (cases "length bytes - unat cursor \<le> m")
    case True
    then show ?thesis using rc Suc.prems(1) by simp
  next
    case False
    let ?c = "of_nat (unat cursor + m) :: u64"
    have c: "unat ?c = unat cursor + m" using False assms(1) by (simp add: unat_of_nat del: of_nat_add)
    have "length bytes - unat ?c \<le> n * m" unfolding c using Suc.prems(2) False by simp
    moreover from this False have "0 < n" by (cases n) (auto simp: c simp del: of_nat_add)
    ultimately have ih: "read_all n lossy (Some bytes) ?c m = Some (lossy (drop (unat ?c) bytes))"
      using Suc.IH[of ?c] False unfolding c by simp
    have "lossy (take m (drop (unat cursor) bytes)) @ lossy (drop (unat cursor + m) bytes)
        = lossy (drop (unat cursor) bytes)"
      by (simp add: assms(4)[symmetric] add.commute flip: drop_drop)
    then show ?thesis using rc ih c False by (simp add: Let_def del: of_nat_add)
  qed
qed simp

lemma cursor_reads_everything_witness:
  "read_all 2 (map (\<lambda>b. char_of (unat b))) (Some [97, 98, 99]) 0 2 = Some ''abc''"
proof -
  have "read_all 2 (map (\<lambda>b. char_of (unat b))) (Some [97, 98, 99]) 0 2
      = Some (map (\<lambda>b :: u8. char_of (unat b)) (drop (unat (0 :: u64)) [97, 98, 99]))"
    by (rule cursor_reads_everything) simp_all
  then show ?thesis by (simp add: char_of_def bit_Suc_0_iff)
qed

section \<open>Removal\<close>

text \<open>The directory removed for a run is its own directory, and what it resolves to through
  links lies strictly below the resolved run root, component by component; everything else is
  refused.\<close>

theorem remove_stays_inside:
  "run_remove canon root i \<in> {None, Some (run_dir root i)}
   \<and> (run_remove canon root i = Some (run_dir root i) \<longleftrightarrow>
      (let r = (case canon root of Some r \<Rightarrow> r | None \<Rightarrow> root);
           d = (case canon (run_dir root i) of Some d \<Rightarrow> d | None \<Rightarrow> run_dir root i)
       in (starts_with d ''/'' \<longleftrightarrow> starts_with r ''/'')
          \<and> (\<exists>rest. rest \<noteq> [] \<and> path_components d = path_components r @ rest)))"
proof -
  have "take (length r) d = r \<and> d \<noteq> r \<longleftrightarrow> (\<exists>rest. rest \<noteq> [] \<and> d = r @ rest)" for r d :: "string list"
    by (metis append_eq_conv_conj append_self_conv append_take_drop_id)
  then show ?thesis
    by (auto simp: run_remove_def Let_def path_starts_with_def path_eq_def)
qed

end
