(* ===== verification/Text.thy ===== *)
theory Text
  imports Proc_Model
begin

text \<open>
  String functions of the Rust standard library that several parts of the program use: splitting,
  trimming, and reading unsigned numbers of a given width.  A \<open>char\<close> is a byte, so white space is
  the ASCII white space.
\<close>

section \<open>White space\<close>

definition is_space :: "char \<Rightarrow> bool" where
  "is_space c = (let n = of_char c :: nat in n = 32 \<or> 9 \<le> n \<and> n \<le> 13)"

definition trim_start :: "string \<Rightarrow> string" where
  "trim_start s = dropWhile is_space s"

definition trim_end :: "string \<Rightarrow> string" where
  "trim_end s = rev (dropWhile is_space (rev s))"

definition trim :: "string \<Rightarrow> string" where
  "trim s = trim_end (trim_start s)"

text \<open>The pieces between the characters that satisfy a predicate, and the words of a line: the
  non-empty pieces between white space.\<close>

fun split_by :: "(char \<Rightarrow> bool) \<Rightarrow> string \<Rightarrow> string list" where
  "split_by P [] = [[]]"
| "split_by P (c # s) =
    (if P c then [] # split_by P s
     else case split_by P s of [] \<Rightarrow> [[c]] | w # ws \<Rightarrow> (c # w) # ws)"

definition split_whitespace :: "string \<Rightarrow> string list" where
  "split_whitespace s = filter (\<lambda>w. w \<noteq> []) (split_by is_space s)"

definition no_space :: "string \<Rightarrow> bool" where
  "no_space w = list_all (\<lambda>c. \<not> is_space c) w"

lemma no_space_simps [simp]:
  "no_space []" "no_space (c # w) \<longleftrightarrow> \<not> is_space c \<and> no_space w"
  by (simp_all add: no_space_def)

lemma split_by_pieces: "w \<in> set (split_by P s) \<Longrightarrow> list_all (\<lambda>c. \<not> P c) w"
  by (induction s arbitrary: w) (auto split: if_splits list.splits)

lemma split_whitespace_words: "w \<in> set (split_whitespace s) \<Longrightarrow> no_space w \<and> w \<noteq> []"
  using split_by_pieces by (auto simp: split_whitespace_def no_space_def)

lemma split_by_word: "list_all (\<lambda>c. \<not> P c) w \<Longrightarrow> P d \<Longrightarrow> split_by P (w @ d # s) = w # split_by P s"
  by (induction w) auto

lemma split_whitespace_word [simp]:
  "no_space w \<Longrightarrow> w \<noteq> [] \<Longrightarrow> split_whitespace (w @ CHR '' '' # s) = w # split_whitespace s"
  using split_by_word[of is_space w "CHR '' ''" s]
  by (simp add: split_whitespace_def no_space_def is_space_def)

lemma split_whitespace_one: "no_space w \<Longrightarrow> w \<noteq> [] \<Longrightarrow> split_whitespace w = [w]"
proof -
  have "list_all (\<lambda>c. \<not> P c) w \<Longrightarrow> split_by P w = [w]" for P by (induction w) auto
  then show "no_space w \<Longrightarrow> w \<noteq> [] \<Longrightarrow> split_whitespace w = [w]" by (simp add: split_whitespace_def no_space_def)
qed

lemma split_whitespace_space [simp]: "is_space c \<Longrightarrow> split_whitespace (c # s) = split_whitespace s"
  by (simp add: split_whitespace_def)

section \<open>Splitting at one character\<close>

text \<open>\<open>split_once\<close> and \<open>rsplit_once\<close>: before and after the first or the last
  occurrence.\<close>

fun split_once :: "char \<Rightarrow> string \<Rightarrow> (string \<times> string) option" where
  "split_once d [] = None"
| "split_once d (c # s) =
    (if c = d then Some ([], s)
     else case split_once d s of None \<Rightarrow> None | Some (a, b) \<Rightarrow> Some (c # a, b))"

definition rsplit_once :: "char \<Rightarrow> string \<Rightarrow> (string \<times> string) option" where
  "rsplit_once d s = (case split_once d (rev s) of None \<Rightarrow> None | Some (a, b) \<Rightarrow> Some (rev b, rev a))"

lemma split_once_Some: "split_once d s = Some (a, b) \<longleftrightarrow> s = a @ d # b \<and> d \<notin> set a"
proof (induction s arbitrary: a)
  case step: (Cons c s)
  show ?case
  proof (cases a)
    case (Cons x a')
    then show ?thesis using step.IH[of a'] by (auto split: option.splits)
  qed (auto split: option.splits)
qed simp

lemma split_once_None: "split_once d s = None \<longleftrightarrow> d \<notin> set s"
  by (induction s) (auto split: option.splits)

lemma rsplit_once_Some: "rsplit_once d s = Some (a, b) \<longleftrightarrow> s = a @ d # b \<and> d \<notin> set b"
proof -
  have "rsplit_once d s = Some (a, b) \<longleftrightarrow> split_once d (rev s) = Some (rev b, rev a)"
    by (auto simp: rsplit_once_def split: option.splits)
  then show ?thesis by (simp add: split_once_Some) (metis append.assoc append_Cons append_Nil rev.simps(2)
        rev_append rev_rev_ident)
qed

section \<open>Numbers\<close>

text \<open>\<open>parse::<uN>()\<close>: an optional plus sign, digits, no overflow.\<close>

definition parse_uint :: "nat \<Rightarrow> string \<Rightarrow> nat option" where
  "parse_uint w s =
    (let t = (case s of c # r \<Rightarrow> if c = CHR ''+'' then r else s | [] \<Rightarrow> s)
     in case read_nat t of
          Some n \<Rightarrow> if n < 2 ^ w then Some n else None
        | None \<Rightarrow> None)"

definition parse_u16 :: "string \<Rightarrow> u16 option" where
  "parse_u16 s = map_option of_nat (parse_uint 16 s)"

definition parse_u32 :: "string \<Rightarrow> u32 option" where
  "parse_u32 s = map_option of_nat (parse_uint 32 s)"

definition parse_u64 :: "string \<Rightarrow> u64 option" where
  "parse_u64 s = map_option of_nat (parse_uint 64 s)"

lemma show_nat_head: "show_nat n = c # s \<Longrightarrow> is_digit c"
  using show_nat_digits(1)[of n] by simp

lemma parse_show_uint [simp]: "n < 2 ^ w \<Longrightarrow> parse_uint w (show_nat n) = Some n"
proof -
  assume "n < 2 ^ w"
  moreover obtain c s where "show_nat n = c # s" using show_nat_digits(2) by (meson neq_Nil_conv)
  moreover from this have "c \<noteq> CHR ''+''" using show_nat_head by (force simp: is_digit_def)
  ultimately show ?thesis using read_show_nat[of n] by (simp add: parse_uint_def)
qed

lemma unat_u32_less: "unat (w :: u32) < 2 ^ 32"
  using unsigned_less[of w] by simp

lemma unat_u16_less: "unat (w :: u16) < 2 ^ 16"
  using unsigned_less[of w] by simp

lemma parse_show_u32 [simp]: "parse_u32 (show_nat (unat w)) = Some w"
  by (simp add: parse_u32_def parse_show_uint[OF unat_u32_less])

lemma parse_show_u16 [simp]: "parse_u16 (show_nat (unat w)) = Some w"
  by (simp add: parse_u16_def parse_show_uint[OF unat_u16_less])

lemma show_nat_no_space [simp]: "no_space (show_nat n)"
proof -
  have "list_all (\<lambda>c. \<not> is_space c) (show_nat n)"
    by (rule list.pred_mono_strong[OF show_nat_digits(1)]) (auto simp: is_digit_def is_space_def)
  then show ?thesis by (simp add: no_space_def)
qed

text \<open>\<open>parse::<i64>\<close>: an optional sign, digits, no overflow.\<close>

definition parse_i64 :: "string \<Rightarrow> int option" where
  "parse_i64 s =
    (case s of
       c # r \<Rightarrow>
         if c = CHR ''-'' then
           (case read_nat r of Some n \<Rightarrow> if n \<le> 2 ^ 63 then Some (- int n) else None | None \<Rightarrow> None)
         else
           (case read_nat (if c = CHR ''+'' then r else s) of
              Some n \<Rightarrow> if n < 2 ^ 63 then Some (int n) else None | None \<Rightarrow> None)
     | [] \<Rightarrow> None)"

section \<open>Padding and scalar values\<close>

definition pad2 :: "nat \<Rightarrow> string" where "pad2 n = (if n < 10 then ''0'' @ show_nat n else show_nat n)"

text \<open>The scalar values of UTF-8 text: a byte that does not continue another starts one.\<close>

definition is_cont :: "char \<Rightarrow> bool" where "is_cont c = (let n = of_char c :: nat in 128 \<le> n \<and> n < 192)"

definition char_count :: "string \<Rightarrow> nat" where "char_count s = length (filter (\<lambda>c. \<not> is_cont c) s)"

fun take_chars :: "nat \<Rightarrow> string \<Rightarrow> string" where
  "take_chars n [] = []"
| "take_chars n (c # s) =
    (if is_cont c then c # take_chars n s else case n of 0 \<Rightarrow> [] | Suc m \<Rightarrow> c # take_chars m s)"

end
