(* ===== verification/Pgroup.thy ===== *)
theory Pgroup
  imports Text
begin

text \<open>
  Process-group primitives (\<open>src/platform/pgroup.rs\<close>, the Linux variant): which group a
  process is in, the members of a group and their identities, and what a signal reaches.  The
  process table is an argument: the entries of \<open>/proc\<close>, the text of each \<open>stat\<close> file
  and what \<open>sysinfo\<close> reports of a pid.
\<close>

record proc_entry =
  pe_start :: u64
  pe_rss :: u64

record proc_table =
  pt_names :: "string list"
  pt_stat :: "pid \<Rightarrow> string option"
  pt_proc :: "pid \<Rightarrow> proc_entry option"

section \<open>Members\<close>

definition nth_word :: "nat \<Rightarrow> string list \<Rightarrow> string option" where
  "nth_word n ws = (if n < length ws then Some (ws ! n) else None)"

text \<open>The third field after the parenthesised command name, which may itself hold parentheses and
  spaces.\<close>

definition pgid_of :: "proc_table \<Rightarrow> pid \<Rightarrow> pid option" where
  "pgid_of t p =
    Option.bind (pt_stat t p) (\<lambda>stat.
      Option.bind (rsplit_once (CHR '')'') stat) (\<lambda>(_, after).
        Option.bind (nth_word 2 (split_whitespace after)) parse_u32))"

definition all_pids :: "proc_table \<Rightarrow> pid list" where
  "all_pids t = List.map_filter parse_u32 (pt_names t)"

definition members_of_group :: "proc_table \<Rightarrow> pid \<Rightarrow> pid list" where
  "members_of_group t g = filter (\<lambda>p. pgid_of t p = Some g) (all_pids t)"

definition identity_of_pid :: "proc_table \<Rightarrow> boot_id \<Rightarrow> pid \<Rightarrow> process_identity option" where
  "identity_of_pid t boot p =
    (case pt_proc t p of
       None \<Rightarrow> None
     | Some e \<Rightarrow> if pe_start e \<noteq> 0 then Some \<lparr>i_boot = boot, i_pid = p, i_start = pe_start e\<rparr> else None)"

definition group_identities :: "proc_table \<Rightarrow> boot_id \<Rightarrow> pid \<Rightarrow> process_identity list" where
  "group_identities t boot g = List.map_filter (identity_of_pid t boot) (members_of_group t g)"

record group_usage =
  gu_processes :: nat
  gu_memory :: u64

text \<open>The sum of the resident sizes wraps.\<close>

definition group_usage_of :: "proc_table \<Rightarrow> pid \<Rightarrow> group_usage" where
  "group_usage_of t g =
    foldl (\<lambda>u p. case pt_proc t p of
             None \<Rightarrow> u
           | Some e \<Rightarrow> \<lparr>gu_processes = gu_processes u + 1, gu_memory = gu_memory u + pe_rss e\<rparr>)
      \<lparr>gu_processes = 0, gu_memory = 0\<rparr> (members_of_group t g)"

definition identity_holds :: "proc_table \<Rightarrow> process_identity \<Rightarrow> bool" where
  "identity_holds t who = (identity_of_pid t (i_boot who) (i_pid who) = Some who)"

definition group_has_known_member :: "proc_table \<Rightarrow> boot_id \<Rightarrow> process_identity list \<Rightarrow> pid \<Rightarrow> bool" where
  "group_has_known_member t boot known g = (\<exists>live\<in>set (group_identities t boot g). live \<in> set known)"

section \<open>Signals\<close>

text \<open>What \<open>kill\<close> reaches for an argument, as POSIX has it.\<close>

datatype kill_target = EveryProcess | OwnGroup | Group int | OneProcess int

definition kill_target :: "int \<Rightarrow> kill_target" where
  "kill_target a =
    (if a = -1 then EveryProcess else if a = 0 then OwnGroup
     else if a < 0 then Group (- a) else OneProcess a)"

text \<open>\<open>-(pgid as pid_t)\<close> in 32 bits, where the negation of the least number wraps.\<close>

definition as_i32 :: "u32 \<Rightarrow> int" where
  "as_i32 w = (let n = int (unat w) in if n < 2 ^ 31 then n else n - 2 ^ 32)"

definition kill_arg :: "pid \<Rightarrow> int" where
  "kill_arg g = (if as_i32 g = - (2 ^ 31) then - (2 ^ 31) else - as_i32 g)"

text \<open>\<open>None\<close> is the refusal.\<close>

definition signal_group :: "pid \<Rightarrow> kill_target option" where
  "signal_group g = (if g = 0 then None else Some (kill_target (kill_arg g)))"

definition group_alive_target :: "pid \<Rightarrow> kill_target" where
  "group_alive_target g = kill_target (kill_arg g)"

section \<open>Facts\<close>

lemma identity_of_pid_Some:
  "identity_of_pid t boot p = Some who \<longleftrightarrow>
     (\<exists>e. pt_proc t p = Some e \<and> pe_start e \<noteq> 0 \<and> who = \<lparr>i_boot = boot, i_pid = p, i_start = pe_start e\<rparr>)"
  by (auto simp: identity_of_pid_def split: option.splits if_splits)

lemma in_map_filter: "y \<in> set (List.map_filter f xs) \<longleftrightarrow> (\<exists>x\<in>set xs. f x = Some y)"
  by (auto simp: List.map_filter_def) (force)+

lemma group_identities_in:
  "who \<in> set (group_identities t boot g) \<longleftrightarrow>
     i_boot who = boot \<and> i_pid who \<in> set (all_pids t) \<and> pgid_of t (i_pid who) = Some g
     \<and> (\<exists>e. pt_proc t (i_pid who) = Some e \<and> pe_start e \<noteq> 0 \<and> i_start who = pe_start e)"
  by (auto simp: group_identities_def in_map_filter members_of_group_def identity_of_pid_Some)

end
