(* ===== verification/Supervisor.thy ===== *)
theory Supervisor
  imports Run_Store Logs Scheduler Pgroup
begin

text \<open>
  The supervisor of managed runs (\<open>src/runner/mod.rs\<close>): the slots, the registry, the scheduler and the store under one
  state, and one function per operation.

  Each operation is one atomic step.  The worker thread of a run is split where other threads can
  act in between: begin (up to the spawn), spawn (up to the state \<open>running\<close>), stop (the stop
  algorithm) and end (reap and finish); \<open>sv_workers\<close> holds its program counter.  What the
  operating system answers (spawned pids, group members, exit statuses, whether a write to the
  database or the creation of a thread succeeds, the clocks) is an argument.  A step returns
  \<open>None\<close> where the code panics.
\<close>

section \<open>State\<close>

record run_slot =
  sl_spec :: run_spec
  sl_state :: run_state
  sl_cleanup :: cleanup_state
  sl_revision :: int
  sl_result :: "run_result option"
  sl_pgid :: "pid option"
  sl_detail :: "string option"
  sl_cancel :: bool
  sl_known :: "process_identity list"
  sl_logs :: log_state
  sl_env :: "(string \<times> string) list"
  sl_queued_at :: "duration option"
  sl_queue_wait :: u64
  sl_usage :: "group_usage option"
  sl_limit_event :: "string option"
  sl_effective_set :: bool

datatype phase = PSpawned | PBegun | PRunning | PStopped | PDone

record supervisor =
  sv_store :: run_store
  sv_slots :: "run_id \<Rightarrow> run_slot option"
  sv_registry :: "run_id list"
  sv_sched :: scheduler
  sv_workers :: "run_id \<Rightarrow> phase option"
  sv_budget :: global_budget
  sv_boot :: boot_id
  sv_identity :: string

text \<open>The world during one step: logical and wall clock, platform, and whether database writes
  and thread creation succeed.\<close>

record ctx =
  cx_clock :: duration
  cx_now :: u64
  cx_macos :: bool
  cx_cgroup :: bool
  cx_db :: bool
  cx_thread :: bool

datatype start_error =
    EmptyArgv
  | CwdNotAbsolute
  | EnvTooLarge
  | Unsupported string capability
  | KeyConflict run_id
  | DbError
  | StoreError store_error
  | Refused string

definition sv_new :: "limits \<Rightarrow> run_store \<Rightarrow> boot_id \<Rightarrow> string \<Rightarrow> u64 \<Rightarrow> supervisor" where
  "sv_new l st boot ident used =
    \<lparr>sv_store = st, sv_slots = (\<lambda>_. None), sv_registry = [], sv_sched = sched_new l,
     sv_workers = (\<lambda>_. None), sv_budget = budget_new DEFAULT_TOTAL_LOG_LIMIT used,
     sv_boot = boot, sv_identity = ident\<rparr>"

definition set_slot :: "run_id \<Rightarrow> run_slot \<Rightarrow> supervisor \<Rightarrow> supervisor" where
  "set_slot i sl sv = sv\<lparr>sv_slots := (sv_slots sv)(i := Some sl)\<rparr>"

definition set_phase :: "run_id \<Rightarrow> phase \<Rightarrow> supervisor \<Rightarrow> supervisor" where
  "set_phase i p sv = sv\<lparr>sv_workers := (sv_workers sv)(i := Some p)\<rparr>"

definition db_write :: "ctx \<Rightarrow> (run_store \<Rightarrow> run_store) \<Rightarrow> supervisor \<Rightarrow> supervisor" where
  "db_write cx f sv = (if cx_db cx then sv\<lparr>sv_store := f (sv_store sv)\<rparr> else sv)"

section \<open>Requests\<close>

definition project_key :: "run_spec \<Rightarrow> string" where
  "project_key spec = (case project_root spec of Some r \<Rightarrow> r | None \<Rightarrow> cwd spec)"

fun first_missing :: "(bool \<times> capability \<times> string) list \<Rightarrow> (string \<times> capability) option" where
  "first_missing [] = None"
| "first_missing ((requested, cap, what) # rest) =
    (if \<not> requested then first_missing rest
     else case cap of Available \<Rightarrow> first_missing rest | _ \<Rightarrow> Some (what, cap))"

definition check_capabilities :: "bool \<Rightarrow> bool \<Rightarrow> run_spec \<Rightarrow> (string \<times> capability) option" where
  "check_capabilities macos cgroup spec =
    (if rr_enforcement (resources spec) \<noteq> Hard then None
     else let caps = backend_capabilities macos cgroup in
       first_missing
         [(rr_memory (resources spec) \<noteq> None, cap_memory caps, ''memory''),
          (rr_cpu (resources spec) \<noteq> None, cap_cpu caps, ''cpu''),
          (rr_processes (resources spec) \<noteq> None, cap_processes caps, ''process count'')])"

definition env_bytes :: "(string \<times> string) list \<Rightarrow> nat" where
  "env_bytes env = sum_list (map (\<lambda>(k, v). length k + length v + 2) env)"

definition requested_limits :: "run_spec \<Rightarrow> effective_limits" where
  "requested_limits spec =
    (let memory = rr_memory (resources spec);
         enf = (case (rr_enforcement (resources spec), memory) of
                  (Monitored, Some _) \<Rightarrow> Monitored
                | (Hard, Some _) \<Rightarrow> Hard
                | _ \<Rightarrow> EnfNone)
     in \<lparr>ef_memory = memory, ef_cpu = rr_cpu (resources spec),
         ef_processes = rr_processes (resources spec), ef_enforcement = enf,
         ef_metric = (if enf = Monitored
           then Some ''sum of RSS over the run's process group, sampled every 200 ms'' else None),
         ef_backend = ''process_group''\<rparr>)"

definition slot_new :: "run_spec \<Rightarrow> (string \<times> string) list \<Rightarrow> run_slot" where
  "slot_new spec env =
    \<lparr>sl_spec = spec, sl_state = Queued, sl_cleanup = Pending, sl_revision = 0, sl_result = None,
     sl_pgid = None, sl_detail = None, sl_cancel = False, sl_known = [],
     sl_logs = log_state_default, sl_env = env, sl_queued_at = None, sl_queue_wait = 0,
     sl_usage = None, sl_limit_event = None, sl_effective_set = False\<rparr>"

definition slot_from_record :: "run_record \<Rightarrow> run_slot" where
  "slot_from_record r =
    \<lparr>sl_spec = rec_spec r, sl_state = rec_state r,
     sl_cleanup = (case rec_result r of Some x \<Rightarrow> cleanup x | None \<Rightarrow> Unknown),
     sl_revision = rec_revision r, sl_result = rec_result r, sl_pgid = None,
     sl_detail = (case rec_result r of Some x \<Rightarrow> detail x | None \<Rightarrow> None),
     sl_cancel = False, sl_known = [], sl_logs = rec_logs r, sl_env = [], sl_queued_at = None,
     sl_queue_wait = rec_queue_wait_ms r, sl_usage = None, sl_limit_event = rec_limit_event r,
     sl_effective_set = True\<rparr>"

definition queue_wait_ms :: "run_slot \<Rightarrow> duration \<Rightarrow> u64" where
  "queue_wait_ms sl now =
    (case sl_queued_at sl of Some q \<Rightarrow> as_millis_u64 (now - q) | None \<Rightarrow> sl_queue_wait sl)"

definition slot_or_load :: "run_id \<Rightarrow> supervisor \<Rightarrow> store_error + run_slot option" where
  "slot_or_load i sv =
    (if i \<in> set (sv_registry sv) then Inr (sv_slots sv i)
     else case run_get i (sv_store sv) of
       Inl e \<Rightarrow> Inl e
     | Inr None \<Rightarrow> Inr None
     | Inr (Some r) \<Rightarrow> Inr (Some (slot_from_record r)))"

section \<open>Transitions and the end of a run\<close>

definition transition ::
  "ctx \<Rightarrow> run_id \<Rightarrow> run_state \<Rightarrow> cleanup_state \<Rightarrow> string \<Rightarrow> string option \<Rightarrow> supervisor \<Rightarrow> bool \<times> supervisor"
  where
  "transition cx i st cl kind det sv =
    (case sv_slots sv i of
       None \<Rightarrow> (False, sv)
     | Some sl \<Rightarrow>
         if is_terminal (sl_state sl) then (False, sv)
         else
           (let rv = sl_revision sl + 1;
                sl' = sl\<lparr>sl_revision := rv, sl_state := st, sl_cleanup := cl,
                         sl_detail := (case det of Some d \<Rightarrow> Some d | None \<Rightarrow> sl_detail sl)\<rparr>;
                sv1 = set_slot i sl' sv;
                (b, store') = run_transition i rv
                   \<lparr>rs_state = st, rs_cleanup = cl, rs_kind = kind, rs_detail = det\<rparr> (cx_now cx) (sv_store sv)
            in if cx_db cx then (b, sv1\<lparr>sv_store := store'\<rparr>) else (False, sv1)))"

definition spawn_worker :: "ctx \<Rightarrow> run_id \<Rightarrow> supervisor \<Rightarrow> supervisor" where
  "spawn_worker cx i sv =
    (let sv1 = (case sv_slots sv i of None \<Rightarrow> sv | Some sl \<Rightarrow> set_slot i (sl\<lparr>sl_env := []\<rparr>) sv)
     in if cx_thread cx then set_phase i PSpawned sv1 else sv1)"

text \<open>The runs admitted by a release: detail cleared, worker started, if still registered.\<close>

definition start_admitted :: "ctx \<Rightarrow> run_id list \<Rightarrow> supervisor \<Rightarrow> supervisor" where
  "start_admitted cx ids sv =
    foldl (\<lambda>v j. if j \<in> set (sv_registry v)
                 then spawn_worker cx j
                        (case sv_slots v j of None \<Rightarrow> v
                         | Some sl \<Rightarrow> set_slot j (sl\<lparr>sl_detail := None\<rparr>) v)
                 else v) sv ids"

text \<open>\<open>timing\<close>: the start in seconds, the duration in milliseconds and the final log state.\<close>

type_synonym run_timing = "(u64 \<times> u64 \<times> log_state) option"

definition finish_result ::
  "ctx \<Rightarrow> run_slot \<Rightarrow> run_outcome \<Rightarrow> int option \<Rightarrow> int option \<Rightarrow> cleanup_state \<Rightarrow> string option
     \<Rightarrow> run_timing \<Rightarrow> run_result \<times> log_state" where
  "finish_result cx sl oc ec sg cl det timing =
    (let (st, dur, logs) = (case timing of Some (s, d, l) \<Rightarrow> (Some s, d, l) | None \<Rightarrow> (None, 0, sl_logs sl))
     in (\<lparr>outcome = oc, exit_code = ec, signal = sg, started_at = st, finished_at = cx_now cx,
          duration_ms = dur, cleanup = cl, detail = det\<rparr>, logs))"

definition finish_store :: "ctx \<Rightarrow> run_id \<Rightarrow> run_slot \<Rightarrow> run_result \<Rightarrow> log_state \<Rightarrow> run_store \<Rightarrow> run_store" where
  "finish_store cx i sl res logs st =
    (let st1 = (if \<not> sl_effective_set sl
                then run_set_effective i (requested_limits (sl_spec sl)) (queue_wait_ms sl (cx_clock cx)) st
                else st);
         st2 = (case sl_limit_event sl of Some ev \<Rightarrow> run_set_limit_event i ev st1 | None \<Rightarrow> st1)
     in snd (run_finish i (sl_revision sl) res logs st2))"

text \<open>\<open>finish\<close> on a slot value; the updated slot is returned beside the state.\<close>

definition finish_on ::
  "ctx \<Rightarrow> run_id \<Rightarrow> run_slot \<Rightarrow> run_outcome \<Rightarrow> int option \<Rightarrow> int option \<Rightarrow> cleanup_state \<Rightarrow> string option
     \<Rightarrow> run_timing \<Rightarrow> supervisor \<Rightarrow> run_slot \<times> supervisor" where
  "finish_on cx i sl oc ec sg cl det timing sv =
    (if is_terminal (sl_state sl) then (sl, sv)
     else
       (let (res, logs) = finish_result cx sl oc ec sg cl det timing;
            sl' = sl\<lparr>sl_revision := sl_revision sl + 1, sl_state := Finished, sl_cleanup := cl,
                     sl_result := Some res\<rparr>;
            (admitted, sched') = release i (cl \<noteq> Complete) (cx_clock cx) (sv_sched sv);
            sv1 = (db_write cx (finish_store cx i sl' res logs) sv)
                    \<lparr>sv_registry := filter (\<lambda>j. j \<noteq> i) (sv_registry sv), sv_sched := sched'\<rparr>
        in (sl', start_admitted cx admitted sv1)))"

definition finish ::
  "ctx \<Rightarrow> run_id \<Rightarrow> run_outcome \<Rightarrow> int option \<Rightarrow> int option \<Rightarrow> cleanup_state \<Rightarrow> string option
     \<Rightarrow> run_timing \<Rightarrow> supervisor \<Rightarrow> supervisor" where
  "finish cx i oc ec sg cl det timing sv =
    (case sv_slots sv i of
       None \<Rightarrow> sv
     | Some sl \<Rightarrow> (let (sl', sv') = finish_on cx i sl oc ec sg cl det timing sv in set_slot i sl' sv'))"

section \<open>Starting\<close>

definition reject_detail :: "reject_reason \<Rightarrow> string" where
  "reject_detail r =
    (case r of
       Impossible req bud \<Rightarrow> ''requested '' @ show_nat (unat req)
         @ '' bytes of memory but the budget is '' @ show_nat (unat bud)
     | QueueFull n \<Rightarrow> ''queue is full ('' @ show_nat n @ '' waiting)'')"

definition queued_detail :: "run_id \<Rightarrow> nat \<Rightarrow> duration \<Rightarrow> scheduler \<Rightarrow> string" where
  "queued_detail i p now s =
    ''queued at position '' @ show_nat p @ '': ''
    @ (case find (\<lambda>e. qe_run_id e = show_run_id i) (queue_entries now s) of
         Some e \<Rightarrow> qe_reason e | None \<Rightarrow> ''waiting for a slot'')"

definition admit :: "ctx \<Rightarrow> run_id \<Rightarrow> run_slot \<Rightarrow> supervisor \<Rightarrow> (start_error option \<times> supervisor) option"
  where
  "admit cx i sl sv =
    (let spec = sl_spec sl;
         memory = (case rr_memory (resources spec) of Some m \<Rightarrow> m
                   | None \<Rightarrow> default_run_memory_bytes (s_limits (sv_sched sv)))
     in case submit i (project_key spec) memory (rr_queue_timeout (resources spec)) (cx_clock cx) (sv_sched sv) of
          None \<Rightarrow> None
        | Some (AStart _, s') \<Rightarrow> Some (None, spawn_worker cx i (sv\<lparr>sv_sched := s'\<rparr>))
        | Some (AQueued p, s') \<Rightarrow>
            (let det = queued_detail i p (cx_clock cx) s';
                 sv1 = set_slot i (sl\<lparr>sl_queued_at := Some (cx_clock cx), sl_detail := Some det\<rparr>)
                         (sv\<lparr>sv_sched := s'\<rparr>)
             in Some (if cx_db cx then None else Some DbError,
                      db_write cx (run_event_insert i 0 ''queued'' (Some det) (cx_now cx)) sv1))
        | Some (ARejected r, s') \<Rightarrow>
            Some (Some (Refused (reject_detail r)),
                  finish cx i SpawnFailed None None Complete (Some (reject_detail r)) None
                    (sv\<lparr>sv_sched := s'\<rparr>)))"

definition start_checks :: "ctx \<Rightarrow> run_spec \<Rightarrow> (string \<times> string) list \<Rightarrow> start_error option" where
  "start_checks cx spec env =
    (if argv spec = [] then Some EmptyArgv
     else if \<not> starts_with (cwd spec) ''/'' then Some CwdNotAbsolute
     else if env_bytes env > MAX_ENV_BYTES then Some EnvTooLarge
     else case check_capabilities (cx_macos cx) (cx_cgroup cx) spec of
       Some (what, cap) \<Rightarrow> Some (Unsupported what cap) | None \<Rightarrow> None)"

definition start_run ::
  "(u8 list \<Rightarrow> string) \<Rightarrow> ctx \<Rightarrow> run_spec \<Rightarrow> (string \<times> string) list \<Rightarrow> supervisor
     \<Rightarrow> ((start_error + run_id \<times> bool) \<times> supervisor) option" where
  "start_run h cx spec env sv =
    (case start_checks cx spec env of
       Some e \<Rightarrow> Some (Inl e, sv)
     | None \<Rightarrow>
         if \<not> cx_db cx then Some (Inl DbError, sv)
         else
           (case run_insert h spec (sv_identity sv) (sv_boot sv) (cx_now cx) (sv_store sv) of
              (Existing i, st) \<Rightarrow>
                (case slot_or_load i sv of
                   Inl e \<Rightarrow> Some (Inl (StoreError e), sv)
                 | Inr _ \<Rightarrow> Some (Inr (i, False), sv))
            | (Conflict i, st) \<Rightarrow> Some (Inl (KeyConflict i), sv)
            | (Created i, st) \<Rightarrow>
                (let sl = slot_new spec env;
                     sv1 = (set_slot i sl (sv\<lparr>sv_store := st\<rparr>))\<lparr>sv_registry := sv_registry sv @ [i]\<rparr>;
                     sv2 = db_write cx (run_event_insert i 0 ''created'' None (cx_now cx)) sv1
                 in (case admit cx i sl sv2 of
                       None \<Rightarrow> None
                     | Some (Some e, sv3) \<Rightarrow> Some (Inl e, sv3)
                     | Some (None, sv3) \<Rightarrow> Some (Inr (i, True), sv3)))))"

section \<open>The queue tick and cancellation\<close>

definition queue_tick :: "ctx \<Rightarrow> supervisor \<Rightarrow> supervisor" where
  "queue_tick cx sv =
    (let (ids, s') = expire (cx_clock cx) (sv_sched sv)
     in foldl (\<lambda>v i. if i \<in> set (sv_registry v)
                     then finish cx i TimedOut None None Complete
                            (Some ''queue timeout: waited for a slot too long'') None v
                     else v) (sv\<lparr>sv_sched := s'\<rparr>) ids)"

definition cancel_registered :: "ctx \<Rightarrow> run_id \<Rightarrow> run_slot \<Rightarrow> supervisor \<Rightarrow> supervisor" where
  "cancel_registered cx i sl sv =
    (if is_terminal (sl_state sl) then sv
     else let (removed, s') = (if sl_state sl = Queued then cancel_queued i (sv_sched sv)
                               else (False, sv_sched sv))
          in if removed
             then finish cx i Cancelled None None Complete (Some ''cancelled while queued'') None
                    (sv\<lparr>sv_sched := s'\<rparr>)
             else set_slot i (sl\<lparr>sl_cancel := True\<rparr>) (sv\<lparr>sv_sched := s'\<rparr>))"

text \<open>A slot that is not registered is a copy loaded for this call: the flag set on it is lost.\<close>

definition cancel_loaded :: "ctx \<Rightarrow> run_id \<Rightarrow> run_slot \<Rightarrow> supervisor \<Rightarrow> supervisor" where
  "cancel_loaded cx i sl sv =
    (if is_terminal (sl_state sl) then sv
     else let (removed, s') = (if sl_state sl = Queued then cancel_queued i (sv_sched sv)
                               else (False, sv_sched sv))
          in if removed
             then snd (finish_on cx i sl Cancelled None None Complete
                         (Some ''cancelled while queued'') None (sv\<lparr>sv_sched := s'\<rparr>))
             else sv\<lparr>sv_sched := s'\<rparr>)"

text \<open>The boolean tells whether the run exists; the view the code returns is \<open>view\<close> on the
  new state.\<close>

definition cancel :: "ctx \<Rightarrow> run_id \<Rightarrow> supervisor \<Rightarrow> store_error + bool \<times> supervisor" where
  "cancel cx i sv =
    (case slot_or_load i sv of
       Inl e \<Rightarrow> Inl e
     | Inr None \<Rightarrow> Inr (False, sv)
     | Inr (Some sl) \<Rightarrow>
         Inr (True, if i \<in> set (sv_registry sv) then cancel_registered cx i sl sv
                    else cancel_loaded cx i sl sv))"

text \<open>The registry is a hash map: \<open>ids\<close> is the order in which it is walked.\<close>

definition cancel_all :: "ctx \<Rightarrow> run_id list \<Rightarrow> supervisor \<Rightarrow> supervisor" where
  "cancel_all cx ids sv =
    foldl (\<lambda>v i. case sv_slots v i of None \<Rightarrow> v | Some sl \<Rightarrow> cancel_registered cx i sl v) sv ids"

definition sv_set_limits :: "limits \<Rightarrow> supervisor \<Rightarrow> supervisor" where
  "sv_set_limits l sv = sv\<lparr>sv_sched := sched_set_limits l (sv_sched sv)\<rparr>"

definition active_runs :: "supervisor \<Rightarrow> nat" where
  "active_runs sv =
    length (filter (\<lambda>i. case sv_slots sv i of None \<Rightarrow> False | Some sl \<Rightarrow> \<not> is_terminal (sl_state sl))
              (sv_registry sv))"

end
