(* ===== verification/Worker.thy ===== *)
theory Worker
  imports Supervisor
begin

text \<open>
  The run worker (\<open>run_worker\<close>, \<open>sample_group\<close>, \<open>stop_group\<close> of
  \<open>src/runner/mod.rs\<close>), recovery and pruning at start-up.  The observations of the process
  table are arguments: lists of polls for the waiting loops, a list of ticks for the monitoring
  loop, which is \<open>None\<close> while it has not left.
\<close>

section \<open>Exit statuses\<close>

text \<open>What \<open>wait\<close> returned: a code, a signal, or an error.\<close>

datatype wait_status = WExit int | WSignal int | WError

definition exit_outcome :: "wait_status option \<Rightarrow> run_outcome" where
  "exit_outcome st = (case st of Some (WExit _) \<Rightarrow> Exited | _ \<Rightarrow> Signaled)"

definition status_codes :: "wait_status option \<Rightarrow> int option \<times> int option" where
  "status_codes st =
    (case st of Some (WExit c) \<Rightarrow> (Some c, None) | Some (WSignal s) \<Rightarrow> (None, Some s) | _ \<Rightarrow> (None, None))"

definition status_detail :: "wait_status option \<Rightarrow> string option" where
  "status_detail st =
    (case st of
       Some (WExit c) \<Rightarrow> Some (''exit code '' @ show_int c)
     | Some (WSignal s) \<Rightarrow> Some (''terminated by signal '' @ show_int s)
     | _ \<Rightarrow> None)"

section \<open>Begin\<close>

text \<open>Up to the spawn.  \<open>prep\<close> is the error of creating the run directory, if any; the result
  says whether the worker goes on.\<close>

definition worker_begin :: "ctx \<Rightarrow> run_id \<Rightarrow> string option \<Rightarrow> supervisor \<Rightarrow> supervisor" where
  "worker_begin cx i prep sv =
    (let (ok, sv1) = transition cx i Starting Pending ''starting'' None sv
     in if \<not> ok then set_phase i PDone sv1
        else if (case sv_slots sv1 i of Some sl \<Rightarrow> sl_cancel sl | None \<Rightarrow> False)
        then set_phase i PDone
               (finish cx i Cancelled None None Complete (Some ''cancelled before spawn'') None sv1)
        else (case prep of
                Some e \<Rightarrow> set_phase i PDone
                  (finish cx i SpawnFailed None None Complete (Some (''run directory: '' @ e)) None sv1)
              | None \<Rightarrow> set_phase i PBegun sv1))"

section \<open>Spawn\<close>

record cgroup_applied =
  ca_memory_max :: "u64 option"
  ca_cpu_max :: "(u64 \<times> u64) option"
  ca_pids_max :: "u64 option"

record spawn_world =
  sw_cgroup :: "string + bool \<times> cgroup_applied option"
  sw_spawn :: "string + pid"
  sw_leader :: "process_identity option"

definition effective_after :: "bool \<Rightarrow> cgroup_applied option \<Rightarrow> run_spec \<Rightarrow> effective_limits" where
  "effective_after active applied spec =
    (let e = requested_limits spec;
         e1 = (if active then e\<lparr>ef_backend := ''cgroup_v2''\<rparr> else e)
     in case applied of
          None \<Rightarrow> e1
        | Some a \<Rightarrow>
            e1\<lparr>ef_memory := ca_memory_max a,
               ef_cpu := map_option (\<lambda>(quota, period). ucast (sat_mul quota 1000 div max period 1))
                           (ca_cpu_max a),
               ef_processes := map_option ucast (ca_pids_max a)\<rparr>)"

definition monitored_memory :: "effective_limits \<Rightarrow> u64 option" where
  "monitored_memory e = (if ef_enforcement e = Monitored then ef_memory e else None)"

definition remember :: "process_identity \<Rightarrow> run_slot \<Rightarrow> run_slot" where
  "remember who sl = (if who \<in> set (sl_known sl) then sl else sl\<lparr>sl_known := sl_known sl @ [who]\<rparr>)"

definition record_leader :: "ctx \<Rightarrow> run_id \<Rightarrow> process_identity option \<Rightarrow> supervisor \<Rightarrow> supervisor" where
  "record_leader cx i leader sv =
    (case leader of
       None \<Rightarrow> sv
     | Some who \<Rightarrow>
         (case sv_slots sv i of
            None \<Rightarrow> sv
          | Some sl \<Rightarrow>
              db_write cx (\<lambda>st. run_set_leader i who (cx_now cx)
                                  (run_record_process i who ''leader'' (cx_now cx) st))
                (set_slot i (remember who sl) sv)))"

definition worker_spawn :: "ctx \<Rightarrow> run_id \<Rightarrow> spawn_world \<Rightarrow> supervisor \<Rightarrow> supervisor" where
  "worker_spawn cx i w sv =
    (case sv_slots sv i of
       None \<Rightarrow> sv
     | Some sl \<Rightarrow>
         let hard = (rr_enforcement (resources (sl_spec sl)) = Hard);
             fail = (\<lambda>det. set_phase i PDone
                       (finish cx i SpawnFailed None None Complete (Some det) None sv))
         in case (sw_cgroup w, hard) of
              (Inl e, True) \<Rightarrow> fail (''cgroup setup failed: '' @ e)
            | _ \<Rightarrow>
                (let (active, applied) = (case sw_cgroup w of Inr p \<Rightarrow> p | Inl _ \<Rightarrow> (False, None))
                 in case sw_spawn w of
                      Inl e \<Rightarrow> fail (''spawn failed: '' @ e)
                    | Inr p \<Rightarrow>
                        (let eff = effective_after active applied (sl_spec sl);
                             wait = queue_wait_ms sl (cx_clock cx);
                             sl1 = sl\<lparr>sl_queue_wait := wait, sl_effective_set := True, sl_pgid := Some p\<rparr>;
                             sv1 = db_write cx (run_set_effective i eff wait) (set_slot i sl1 sv);
                             sv2 = record_leader cx i (sw_leader w) sv1;
                             sv3 = snd (transition cx i Running Pending ''running'' None sv2)
                         in set_phase i PRunning sv3)))"

section \<open>Monitoring\<close>

text \<open>One turn of the loop: the leader's status if it has been reaped, a sample of the group if one
  is due, the cancel flag, and the time since the start.\<close>

record tick =
  tk_status :: "wait_status option"
  tk_sample :: "group_usage option"
  tk_cancel :: bool
  tk_elapsed :: duration

definition over_limit :: "u64 option \<Rightarrow> group_usage option \<Rightarrow> bool" where
  "over_limit limit sample =
    (case (limit, sample) of (Some l, Some u) \<Rightarrow> gu_memory u > l | _ \<Rightarrow> False)"

text \<open>The result: the reason to stop, if any, and the leader's status, if it was reaped.\<close>

fun monitor_loop ::
  "u64 option \<Rightarrow> duration \<Rightarrow> tick list \<Rightarrow> (run_outcome option \<times> wait_status option) option" where
  "monitor_loop limit tmo [] = None"
| "monitor_loop limit tmo (t # ts) =
    (if tk_status t \<noteq> None then Some (None, tk_status t)
     else if over_limit limit (tk_sample t) then Some (Some ResourceLimit, None)
     else if tk_cancel t then Some (Some Cancelled, None)
     else if tk_elapsed t \<ge> tmo then Some (Some TimedOut, None)
     else monitor_loop limit tmo ts)"

definition limit_event_text :: "u64 \<Rightarrow> group_usage \<Rightarrow> string" where
  "limit_event_text l u =
    ''observed '' @ show_nat (unat (gu_memory u)) @ '' bytes of RSS over ''
    @ show_nat (gu_processes u) @ '' process(es), above the monitored limit of '' @ show_nat (unat l)"

text \<open>A sample that is due updates the slot: usage, and the limit event when it crosses the
  threshold.\<close>

definition record_sample :: "run_id \<Rightarrow> u64 option \<Rightarrow> group_usage \<Rightarrow> supervisor \<Rightarrow> supervisor" where
  "record_sample i limit u sv =
    (case sv_slots sv i of
       None \<Rightarrow> sv
     | Some sl \<Rightarrow>
         set_slot i
           (case limit of
              Some l \<Rightarrow> if gu_memory u > l
                        then sl\<lparr>sl_usage := Some u, sl_limit_event := Some (limit_event_text l u),
                                sl_detail := Some (limit_event_text l u)\<rparr>
                        else sl\<lparr>sl_usage := Some u\<rparr>
            | None \<Rightarrow> sl\<lparr>sl_usage := Some u\<rparr>) sv)"

definition sample_one :: "ctx \<Rightarrow> run_id \<Rightarrow> pid \<Rightarrow> supervisor \<Rightarrow> process_identity \<Rightarrow> supervisor" where
  "sample_one cx i pgid sv who =
    (case sv_slots sv i of
       None \<Rightarrow> sv
     | Some sl \<Rightarrow>
         if who \<in> set (sl_known sl) then sv
         else db_write cx (run_record_process i who (if i_pid who = pgid then ''leader'' else ''member'')
                             (cx_now cx)) (set_slot i (remember who sl) sv))"

definition sample_group :: "ctx \<Rightarrow> run_id \<Rightarrow> pid \<Rightarrow> proc_table \<Rightarrow> supervisor \<Rightarrow> supervisor" where
  "sample_group cx i pgid t sv =
    foldl (sample_one cx i pgid) sv (group_identities t (sv_boot sv) pgid)"

section \<open>Stopping\<close>

text \<open>A poll: is the process group alive, is the cgroup populated.\<close>

type_synonym poll = "bool \<times> bool"

definition gone :: "poll list \<Rightarrow> bool" where
  "gone polls = (\<exists>p\<in>set polls. \<not> fst p \<and> \<not> snd p)"

datatype stop_action = SendTerm pid | SendKill pid | CgroupKill

text \<open>The process table when sampling, when deciding, and after the grace period.\<close>

record stop_world =
  so_sample :: proc_table
  so_check :: proc_table
  so_grace_polls :: "poll list"
  so_later :: proc_table
  so_kill_polls :: "poll list"

definition group_is_ours :: "proc_table \<Rightarrow> boot_id \<Rightarrow> process_identity list \<Rightarrow> pid \<Rightarrow> bool" where
  "group_is_ours t boot known pgid =
    (if known = [] then False else group_has_known_member t boot known pgid)"

text \<open>The algorithm after the sampling: the cleanup it reports and the signals it sends, in
  order.\<close>

definition stop_core ::
  "boot_id \<Rightarrow> process_identity list \<Rightarrow> bool \<Rightarrow> pid \<Rightarrow> stop_world \<Rightarrow> cleanup_state \<times> stop_action list" where
  "stop_core boot known active pgid w =
    (let ours = group_is_ours (so_check w) boot known pgid in
     if \<not> ours \<and> \<not> active then (Unknown, [])
     else
       let acts = (if ours then [SendTerm pgid] else []) in
       if gone (so_grace_polls w) then (Complete, acts)
       else
         let acts2 = acts @ (if active then [CgroupKill] else [])
                          @ (if group_is_ours (so_later w) boot known pgid then [SendKill pgid] else [])
         in (if gone (so_kill_polls w) then Complete else Incomplete, acts2))"

definition stop_group ::
  "ctx \<Rightarrow> run_id \<Rightarrow> pid \<Rightarrow> bool \<Rightarrow> bool \<Rightarrow> stop_world \<Rightarrow> supervisor
     \<Rightarrow> cleanup_state \<times> stop_action list \<times> supervisor" where
  "stop_group cx i pgid forced active w sv =
    (let sv1 = snd (transition cx i Stopping Pending (if forced then ''timeout'' else ''stop'') None sv);
         sv2 = sample_group cx i pgid (so_sample w) sv1;
         known = (case sv_slots sv2 i of Some sl \<Rightarrow> sl_known sl | None \<Rightarrow> []);
         (cl, acts) = stop_core (sv_boot sv2) known active pgid w
     in (cl, acts, sv2))"

definition worker_stop ::
  "ctx \<Rightarrow> run_id \<Rightarrow> run_outcome option \<Rightarrow> poll \<Rightarrow> bool \<Rightarrow> stop_world \<Rightarrow> supervisor
     \<Rightarrow> cleanup_state \<times> stop_action list \<times> supervisor" where
  "worker_stop cx i reason alive active w sv =
    (case Option.bind (sv_slots sv i) sl_pgid of
       None \<Rightarrow> (Complete, [], sv)
     | Some pgid \<Rightarrow>
         (let (cl, acts, sv') =
            (if reason \<noteq> None then stop_group cx i pgid (reason = Some TimedOut) active w sv
             else if fst alive \<or> snd alive then stop_group cx i pgid False active w sv
             else (Complete, [], sv))
          in (cl, acts, set_phase i PStopped sv')))"

section \<open>End\<close>

definition final_outcome :: "run_outcome option \<Rightarrow> wait_status option \<Rightarrow> nat \<Rightarrow> run_outcome" where
  "final_outcome reason st oom =
    (let oc = (case reason of Some r \<Rightarrow> r | None \<Rightarrow> exit_outcome st)
     in if oom > 0 \<and> (oc = Signaled \<or> oc = Exited) then ResourceLimit else oc)"

definition oom_event :: "nat \<Rightarrow> string" where
  "oom_event n = ''the kernel OOM-killed '' @ show_nat n @ '' process(es) in the run's cgroup''"

definition worker_end ::
  "ctx \<Rightarrow> run_id \<Rightarrow> run_outcome option \<Rightarrow> wait_status option \<Rightarrow> nat \<Rightarrow> cleanup_state
     \<Rightarrow> u64 \<times> u64 \<times> log_state \<Rightarrow> supervisor \<Rightarrow> supervisor" where
  "worker_end cx i reason st oom cl timing sv =
    (case sv_slots sv i of
       None \<Rightarrow> sv
     | Some sl \<Rightarrow>
         (let sl1 = (if oom > 0 then sl\<lparr>sl_limit_event := Some (oom_event oom)\<rparr> else sl);
              det = (case status_detail st of Some d \<Rightarrow> Some d | None \<Rightarrow> sl_detail sl1);
              (ec, sg) = status_codes st
          in set_phase i PDone
               (finish cx i (final_outcome reason st oom) ec sg cl det (Some timing) (set_slot i sl1 sv))))"

section \<open>Recovery and pruning\<close>

text \<open>The process table when recovery looks for the run's processes, and after the signals.\<close>

record recover_world =
  rw_before :: proc_table
  rw_after :: proc_table

definition recover_groups :: "boot_id \<Rightarrow> proc_table \<Rightarrow> process_identity list \<Rightarrow> pid list" where
  "recover_groups boot t known =
    remdups (filter (\<lambda>g. group_has_known_member t boot known g)
      (map (\<lambda>i. case pgid_of t (i_pid i) of Some g \<Rightarrow> g | None \<Rightarrow> i_pid i)
        (filter (identity_holds t) known)))"

definition recover_cleanup :: "bool \<Rightarrow> proc_table \<Rightarrow> process_identity list \<Rightarrow> cleanup_state" where
  "recover_cleanup same_boot t known =
    (if \<not> same_boot then Unknown
     else if length (filter (identity_holds t) known) = 0 then Complete else Incomplete)"

definition recover_detail :: "bool \<Rightarrow> nat \<Rightarrow> nat \<Rightarrow> string" where
  "recover_detail same_boot signaled survivors =
    (if same_boot
     then ''supervisor lost; reaped '' @ show_nat signaled @ '' orphaned group(s), ''
          @ show_nat survivors @ '' survivor(s)''
     else ''supervisor lost before the machine rebooted; processes cannot be attributed'')"

definition recover_one ::
  "boot_id \<Rightarrow> u64 \<Rightarrow> recover_world \<Rightarrow> run_record \<Rightarrow> run_store \<Rightarrow> stop_action list \<times> run_store" where
  "recover_one boot now w r st =
    (let same_boot = (case rec_leader r of Some l \<Rightarrow> i_boot l = boot | None \<Rightarrow> False);
         known = remdups (map fst (run_processes (rec_id r) st));
         groups = (if same_boot then recover_groups boot (rw_before w) known else []);
         survivors = length (filter (identity_holds (rw_after w)) known);
         res = \<lparr>outcome = SupervisorLost, exit_code = None, signal = None,
                started_at = Option.bind (rec_result r) started_at, finished_at = now,
                duration_ms = 0, cleanup = recover_cleanup same_boot (rw_after w) known,
                detail = Some (recover_detail same_boot (length groups) survivors)\<rparr>
     in (map SendTerm groups @ map SendKill groups,
         snd (run_finish (rec_id r) (rec_revision r + 1) res (rec_logs r) st)))"

definition recover_step ::
  "boot_id \<Rightarrow> u64 \<Rightarrow> (run_id \<Rightarrow> recover_world) \<Rightarrow> stop_action list \<times> run_store \<Rightarrow> run_record
     \<Rightarrow> stop_action list \<times> run_store" where
  "recover_step boot now w p r =
    (let (a, st') = recover_one boot now (w (rec_id r)) r (snd p) in (fst p @ a, st'))"

definition recover ::
  "u64 \<Rightarrow> (run_id \<Rightarrow> recover_world) \<Rightarrow> supervisor \<Rightarrow> store_error + stop_action list \<times> supervisor" where
  "recover now w sv =
    (case run_unfinished (sv_store sv) of
       Inl e \<Rightarrow> Inl e
     | Inr rs \<Rightarrow>
         (let (acts, st) = foldl (recover_step (sv_boot sv) now w) ([], sv_store sv) rs
          in Inr (acts, sv\<lparr>sv_store := st\<rparr>)))"

text \<open>\<open>freed i\<close> is what the directory of run \<open>i\<close> held and \<open>removed i\<close> whether its
  removal succeeded.\<close>

definition prune :: "u64 \<Rightarrow> (run_id \<Rightarrow> u64) \<Rightarrow> (run_id \<Rightarrow> bool) \<Rightarrow> supervisor \<Rightarrow> supervisor" where
  "prune now freed removed sv =
    (let (ids, st) = run_prune (sat_sub now (as_secs RUN_RETENTION)) (sv_store sv)
     in sv\<lparr>sv_store := st,
           sv_budget := foldl (\<lambda>b i. if removed i then budget_release (freed i) b else b) (sv_budget sv) ids\<rparr>)"

end
