(* ===== verification/Views.thy ===== *)
theory Views
  imports Worker
begin

text \<open>
  What clients see of runs and capacity (\<open>RunView\<close>, \<open>view\<close>, \<open>list\<close>,
  \<open>output\<close>, \<open>capacity\<close> of \<open>src/runner/mod.rs\<close>).  The long poll of
  \<open>get\<close> is the read after it: the wait itself is left out.
\<close>

record event_view =
  ev_revision :: int
  ev_at :: u64
  ev_kind :: string
  ev_detail :: "string option"

record run_view =
  v_run_id :: string
  v_request_id :: string
  v_argv :: "string list"
  v_cwd :: string
  v_project_root :: "string option"
  v_session_id :: "string option"
  v_state :: run_state
  v_outcome :: "run_outcome option"
  v_exit_code :: "int option"
  v_signal :: "int option"
  v_cleanup :: cleanup_state
  v_revision :: int
  v_created_at :: u64
  v_started_at :: "u64 option"
  v_finished_at :: "u64 option"
  v_duration_ms :: "u64 option"
  v_detail :: "string option"
  v_logs :: log_state
  v_requested :: resource_request
  v_effective :: effective_limits
  v_queue :: queue_info
  v_observed_memory :: "u64 option"
  v_observed_processes :: "nat option"
  v_limit_event :: "string option"
  v_supervisor :: "string option"
  v_capabilities :: backend_capabilities
  v_events :: "event_view list"

definition view_from_record :: "bool \<Rightarrow> bool \<Rightarrow> run_record \<Rightarrow> run_view" where
  "view_from_record macos cgroup r =
    (let res = rec_result r; spec = rec_spec r in
     \<lparr>v_run_id = show_run_id (rec_id r), v_request_id = request_id spec, v_argv = argv spec,
      v_cwd = cwd spec, v_project_root = project_root spec,
      v_session_id = map_option show_session_id (session_id spec), v_state = rec_state r,
      v_outcome = map_option outcome res, v_exit_code = Option.bind res exit_code,
      v_signal = Option.bind res signal,
      v_cleanup = (case res of Some x \<Rightarrow> cleanup x | None \<Rightarrow> Unknown),
      v_revision = rec_revision r, v_created_at = rec_created_at r,
      v_started_at = Option.bind res started_at, v_finished_at = map_option finished_at res,
      v_duration_ms = map_option duration_ms res, v_detail = Option.bind res detail,
      v_logs = rec_logs r, v_requested = resources spec, v_effective = rec_effective r,
      v_queue = \<lparr>qi_position = None, qi_waiting_ms = rec_queue_wait_ms r, qi_reason = None\<rparr>,
      v_observed_memory = None, v_observed_processes = None, v_limit_event = rec_limit_event r,
      v_supervisor = rec_supervisor r, v_capabilities = backend_capabilities macos cgroup,
      v_events = []\<rparr>)"

definition view_events :: "run_id \<Rightarrow> int option \<Rightarrow> supervisor \<Rightarrow> event_view list" where
  "view_events i after sv =
    (case after of
       None \<Rightarrow> []
     | Some a \<Rightarrow> map (\<lambda>e. \<lparr>ev_revision = re_revision e, ev_at = re_at e, ev_kind = re_kind e,
                           ev_detail = re_detail e\<rparr>) (run_events i a (sv_store sv)))"

definition view_slot ::
  "ctx \<Rightarrow> run_id \<Rightarrow> run_slot \<Rightarrow> run_record option \<Rightarrow> event_view list \<Rightarrow> supervisor \<Rightarrow> run_view" where
  "view_slot cx i sl r evs sv =
    (let res = sl_result sl; spec = sl_spec sl in
     \<lparr>v_run_id = show_run_id i, v_request_id = request_id spec, v_argv = argv spec,
      v_cwd = cwd spec, v_project_root = project_root spec,
      v_session_id = map_option show_session_id (session_id spec), v_state = sl_state sl,
      v_outcome = map_option outcome res, v_exit_code = Option.bind res exit_code,
      v_signal = Option.bind res signal, v_cleanup = sl_cleanup sl, v_revision = sl_revision sl,
      v_created_at = (case r of Some x \<Rightarrow> rec_created_at x | None \<Rightarrow> 0),
      v_started_at = Option.bind res started_at, v_finished_at = map_option finished_at res,
      v_duration_ms = map_option duration_ms res,
      v_detail = (case Option.bind res detail of Some d \<Rightarrow> Some d | None \<Rightarrow> sl_detail sl),
      v_logs = sl_logs sl, v_requested = resources spec, v_effective = requested_limits spec,
      v_queue = \<lparr>qi_position = position i (sv_sched sv),
                 qi_waiting_ms = queue_wait_ms sl (cx_clock cx), qi_reason = sl_detail sl\<rparr>,
      v_observed_memory = map_option gu_memory (sl_usage sl),
      v_observed_processes = map_option gu_processes (sl_usage sl),
      v_limit_event = sl_limit_event sl,
      v_supervisor = Option.bind r rec_supervisor,
      v_capabilities = backend_capabilities (cx_macos cx) (cx_cgroup cx), v_events = evs\<rparr>)"

definition view :: "ctx \<Rightarrow> run_id \<Rightarrow> run_slot option \<Rightarrow> int option \<Rightarrow> supervisor \<Rightarrow> store_error + run_view option"
  where
  "view cx i slot after sv =
    (case run_get i (sv_store sv) of
       Inl e \<Rightarrow> Inl e
     | Inr r \<Rightarrow>
         (case slot of
            Some sl \<Rightarrow> Inr (Some (view_slot cx i sl r (view_events i after sv) sv))
          | None \<Rightarrow> Inr (map_option (view_from_record (cx_macos cx) (cx_cgroup cx)) r)))"

definition get_now :: "ctx \<Rightarrow> run_id \<Rightarrow> int option \<Rightarrow> supervisor \<Rightarrow> store_error + run_view option" where
  "get_now cx i after sv =
    (case slot_or_load i sv of Inl e \<Rightarrow> Inl e | Inr slot \<Rightarrow> view cx i slot after sv)"

definition merge_live :: "ctx \<Rightarrow> supervisor \<Rightarrow> run_record \<Rightarrow> run_view" where
  "merge_live cx sv r =
    (let v = view_from_record (cx_macos cx) (cx_cgroup cx) r in
     if rec_id r \<in> set (sv_registry sv) then
       (case sv_slots sv (rec_id r) of
          None \<Rightarrow> v
        | Some sl \<Rightarrow>
            v\<lparr>v_queue := \<lparr>qi_position = position (rec_id r) (sv_sched sv),
                          qi_waiting_ms = queue_wait_ms sl (cx_clock cx), qi_reason = sl_detail sl\<rparr>,
              v_observed_memory := map_option gu_memory (sl_usage sl),
              v_observed_processes := map_option gu_processes (sl_usage sl),
              v_limit_event := sl_limit_event sl\<rparr>)
     else v)"

definition list_runs :: "ctx \<Rightarrow> run_filter \<Rightarrow> supervisor \<Rightarrow> store_error + run_view list" where
  "list_runs cx f sv =
    (case run_list f (sv_store sv) of Inl e \<Rightarrow> Inl e | Inr rs \<Rightarrow> Inr (map (merge_live cx sv) rs))"

text \<open>\<open>file\<close> is the retained file of the stream.\<close>

definition output_chunk ::
  "(u8 list \<Rightarrow> string) \<Rightarrow> run_id \<Rightarrow> stream \<Rightarrow> u8 list option \<Rightarrow> u64 \<Rightarrow> nat \<Rightarrow> supervisor
     \<Rightarrow> store_error + log_chunk option" where
  "output_chunk lossy i s file cursor m sv =
    (case run_get i (sv_store sv) of
       Inl e \<Rightarrow> Inl e
     | Inr None \<Rightarrow> Inr None
     | Inr (Some r) \<Rightarrow>
         (case slot_or_load i sv of
            Inl e \<Rightarrow> Inl e
          | Inr slot \<Rightarrow>
              (let logs = (case slot of Some sl \<Rightarrow> sl_logs sl | None \<Rightarrow> rec_logs r)
               in Inr (Some ((read_chunk lossy file cursor m)
                    \<lparr>ck_truncated := (case s of Stdout \<Rightarrow> stdout_truncated logs
                                      | Stderr \<Rightarrow> stderr_truncated logs)\<rparr>)))))"

text \<open>The caps of the aggregate cgroup, when there is one.\<close>

record aggregate_caps =
  ag_memory :: "u64 option"
  ag_cpu :: "u32 option"
  ag_pids :: "u32 option"

definition reservation_note :: "aggregate_caps \<Rightarrow> scheduler \<Rightarrow> string" where
  "reservation_note a s =
    ''reserved_memory_bytes is a budget held by '' @ show_nat (running_count s)
    @ '' running run(s) plus '' @ show_nat (held_reservations s)
    @ (case ag_memory a of
         Some cap \<Rightarrow>
           '' held for incomplete cleanup; it is not measured RAM. The kernel also caps all runs together at ''
           @ show_nat (unat cap) @ '' bytes (parent cgroup memory.max)''
           @ (case ag_cpu a of Some m \<Rightarrow> '', '' @ show_nat (unat m) @ '' millicores of CPU'' | None \<Rightarrow> '''')
           @ (case ag_pids a of Some p \<Rightarrow> '' and '' @ show_nat (unat p) @ '' processes'' | None \<Rightarrow> '''')
       | None \<Rightarrow>
           '' held for incomplete cleanup; it is not measured RAM, and no kernel aggregate cap is in place on this backend'')"

definition capacity_now :: "ctx \<Rightarrow> aggregate_caps \<Rightarrow> supervisor \<Rightarrow> capacity" where
  "capacity_now cx a sv =
    (let s = sv_sched sv in
     \<lparr>c_limits = limits_summary (s_limits s), c_running = running_count s,
      c_queued = queued_count s, c_slots_free = slots_free s, c_reserved = reserved s,
      c_projects = projects s, c_queue = queue_entries (cx_clock cx) s,
      c_over_parallel = (running_count s > max_parallel (s_limits s)),
      c_aggregate_memory = ag_memory a, c_aggregate_cpu = ag_cpu a, c_aggregate_pids = ag_pids a,
      c_reservation_note = reservation_note a s,
      c_capabilities = backend_capabilities (cx_macos cx) (cx_cgroup cx)\<rparr>)"

end
