(* ===== verification/Supervisor_Laws.thy ===== *)
theory Supervisor_Laws
  imports Views Scheduler_Laws Run_Store_Props
begin

text \<open>
  The invariants of the supervisor: every scheduler slot belongs to a run with a live worker, every
  waiting request to a queued run without one, and nothing else is registered; the lifecycle only
  moves forward.  Proved step by step over the pool laws.
\<close>

section \<open>Books\<close>

text \<open>The states a live run can have while its worker is in a phase: the state that goes with the
  phase and, between the transition and the move of the program counter, the next one.\<close>

definition phase_state :: "phase \<Rightarrow> run_state set" where
  "phase_state p =
    (case p of PSpawned \<Rightarrow> {Queued, Starting} | PBegun \<Rightarrow> {Starting, Running}
     | PRunning \<Rightarrow> {Running, Stopping} | PStopped \<Rightarrow> {Running, Stopping} | PDone \<Rightarrow> {})"

definition worker_live :: "supervisor \<Rightarrow> run_id \<Rightarrow> bool" where
  "worker_live sv i \<longleftrightarrow> i \<in> set (sv_registry sv)
     \<and> (\<exists>sl p. sv_slots sv i = Some sl \<and> sv_workers sv i = Some p \<and> sl_state sl \<in> phase_state p)"

definition queued_slot :: "supervisor \<Rightarrow> run_id \<Rightarrow> bool" where
  "queued_slot sv i \<longleftrightarrow> i \<in> set (sv_registry sv) \<and> sv_workers sv i = None
     \<and> (\<exists>sl. sv_slots sv i = Some sl \<and> sl_state sl = Queued)"

definition registry_ok :: "supervisor \<Rightarrow> bool" where
  "registry_ok sv \<longleftrightarrow> (\<forall>i\<in>set (sv_registry sv). worker_live sv i \<or> queued_slot sv i)
     \<and> (\<forall>i sl. sv_slots sv i = Some sl \<and> i \<notin> set (sv_registry sv) \<longrightarrow> sl_state sl = Finished)
     \<and> (\<forall>i. sv_slots sv i = None \<longrightarrow> sv_workers sv i = None)
     \<and> (\<forall>i sl p. sv_slots sv i = Some sl \<and> sl_state sl \<noteq> Finished \<and> sv_workers sv i = Some p
          \<longrightarrow> worker_live sv i)
     \<and> (\<forall>i. sv_slots sv i \<noteq> None \<longrightarrow> run_id_int i < st_next_id (sv_store sv))
     \<and> distinct (sv_registry sv)"

text \<open>The row of a run, and the agreement of the slot in memory with it.\<close>

definition row_of :: "run_store \<Rightarrow> run_id \<Rightarrow> run_row option" where
  "row_of st i = find (\<lambda>w. w_id w = run_id_int i) (st_runs st)"

definition row_agrees :: "run_slot \<Rightarrow> run_row \<Rightarrow> bool" where
  "row_agrees sl w \<longleftrightarrow> w_state w = state_as_str (sl_state sl) \<and> w_revision w = sl_revision sl
     \<and> w_cleanup w = cleanup_as_str (sl_cleanup sl)
     \<and> (sl_state sl = Finished \<longrightarrow> (\<exists>res. sl_result sl = Some res \<and> cleanup res = sl_cleanup sl
           \<and> w_outcome w = Some (outcome_as_str (outcome res)) \<and> w_exit_code w = exit_code res
           \<and> w_signal w = signal res \<and> w_detail w = detail res
           \<and> w_finished_at w = Some (as_i64 (finished_at res))))"

definition agrees :: "supervisor \<Rightarrow> bool" where
  "agrees sv \<longleftrightarrow> (\<forall>i sl. sv_slots sv i = Some sl \<longrightarrow>
     (\<exists>w. row_of (sv_store sv) i = Some w \<and> row_agrees sl w))"

text \<open>The invariant, with the runs \<open>P\<close> just dropped from the queue and not yet
  finished left out of the books.\<close>

definition sv_inv_but :: "run_id set \<Rightarrow> supervisor \<Rightarrow> bool" where
  "sv_inv_but P sv \<longleftrightarrow>
     pool.tracks (worker_live sv) (\<lambda>j. queued_slot sv j \<and> j \<notin> P) (sv_sched sv)
     \<and> registry_ok sv \<and> store_ok (sv_store sv) \<and> agrees sv"

definition sv_inv :: "supervisor \<Rightarrow> bool" where
  "sv_inv sv \<longleftrightarrow> sv_inv_but {} sv"

definition good_ctx :: "ctx \<Rightarrow> bool" where
  "good_ctx cx \<longleftrightarrow> cx_db cx \<and> cx_thread cx"

lemmas book_defs = worker_live_def queued_slot_def

lemma live_not_queued: "worker_live sv i \<Longrightarrow> \<not> queued_slot sv i"
  by (auto simp: book_defs)

lemma set_slot_simps [simp]:
  "sv_slots (set_slot i sl sv) = (sv_slots sv)(i := Some sl)"
  "sv_registry (set_slot i sl sv) = sv_registry sv"
  "sv_workers (set_slot i sl sv) = sv_workers sv"
  "sv_sched (set_slot i sl sv) = sv_sched sv"
  "sv_store (set_slot i sl sv) = sv_store sv"
  "sv_boot (set_slot i sl sv) = sv_boot sv"
  by (simp_all add: set_slot_def)

lemma set_phase_simps [simp]:
  "sv_slots (set_phase i p sv) = sv_slots sv"
  "sv_registry (set_phase i p sv) = sv_registry sv"
  "sv_workers (set_phase i p sv) = (sv_workers sv)(i := Some p)"
  "sv_sched (set_phase i p sv) = sv_sched sv"
  "sv_store (set_phase i p sv) = sv_store sv"
  by (simp_all add: set_phase_def)

lemma db_write_simps [simp]:
  "sv_slots (db_write cx f sv) = sv_slots sv"
  "sv_registry (db_write cx f sv) = sv_registry sv"
  "sv_workers (db_write cx f sv) = sv_workers sv"
  "sv_sched (db_write cx f sv) = sv_sched sv"
  "sv_store (db_write cx f sv) = (if cx_db cx then f (sv_store sv) else sv_store sv)"
  by (simp_all add: db_write_def)

section \<open>Admitted runs\<close>

text \<open>What starting a worker leaves of a slot.\<close>

definition freshen :: "run_slot \<Rightarrow> run_slot" where
  "freshen sl = sl\<lparr>sl_detail := None, sl_env := []\<rparr>"

lemma start_admitted_effect:
  assumes "cx_thread cx" "\<forall>j\<in>set ids. j \<in> set (sv_registry sv) \<and> sv_slots sv j \<noteq> None"
  shows "sv_slots (start_admitted cx ids sv) =
      (\<lambda>j. if j \<in> set ids then map_option freshen (sv_slots sv j) else sv_slots sv j)
    \<and> sv_workers (start_admitted cx ids sv) = (\<lambda>j. if j \<in> set ids then Some PSpawned else sv_workers sv j)
    \<and> sv_registry (start_admitted cx ids sv) = sv_registry sv
    \<and> sv_sched (start_admitted cx ids sv) = sv_sched sv
    \<and> sv_store (start_admitted cx ids sv) = sv_store sv"
  using assms(2)
proof (induction ids arbitrary: sv)
  case Nil
  then show ?case by (simp add: start_admitted_def)
next
  case (Cons j ids)
  obtain sl where sl: "sv_slots sv j = Some sl" using Cons.prems by auto
  let ?v = "set_phase j PSpawned (set_slot j (freshen sl) sv)"
  have "spawn_worker cx j (set_slot j (sl\<lparr>sl_detail := None\<rparr>) sv) = ?v"
    using assms(1) by (simp add: spawn_worker_def freshen_def set_slot_def set_phase_def)
  then have e: "start_admitted cx (j # ids) sv = start_admitted cx ids ?v"
    using Cons.prems sl by (simp add: start_admitted_def)
  have "\<forall>k\<in>set ids. k \<in> set (sv_registry ?v) \<and> sv_slots ?v k \<noteq> None" using Cons.prems by auto
  from Cons.IH[OF this] have ih:
    "sv_slots (start_admitted cx ids ?v) = (\<lambda>k. if k \<in> set ids then map_option freshen (sv_slots ?v k) else sv_slots ?v k)"
    "sv_workers (start_admitted cx ids ?v) = (\<lambda>k. if k \<in> set ids then Some PSpawned else sv_workers ?v k)"
    "sv_registry (start_admitted cx ids ?v) = sv_registry sv"
    "sv_sched (start_admitted cx ids ?v) = sv_sched sv" "sv_store (start_admitted cx ids ?v) = sv_store sv"
    by simp_all
  have "freshen (freshen sl) = freshen sl" by (simp add: freshen_def)
  then show ?case unfolding e ih by (auto simp: sl fun_eq_iff)
qed

lemma freshen_simps [simp]:
  "sl_state (freshen sl) = sl_state sl" "sl_revision (freshen sl) = sl_revision sl"
  "sl_result (freshen sl) = sl_result sl" "sl_cleanup (freshen sl) = sl_cleanup sl"
  "sl_spec (freshen sl) = sl_spec sl" "sl_queued_at (freshen sl) = sl_queued_at sl"
  by (simp_all add: freshen_def)

section \<open>Finishing keeps the books\<close>

lemma finish_store_ok: "store_ok st \<Longrightarrow> store_ok (finish_store cx i sl res logs st)"
  by (auto simp: finish_store_def Let_def run_finish_ok run_set_ok split: option.splits)

lemma next_id_updates [simp]:
  "st_next_id (snd (run_finish i rv res logs st)) = st_next_id st"
  "st_next_id (snd (run_transition i rv step now st)) = st_next_id st"
  "st_next_id (run_set_effective i eff q st) = st_next_id st"
  "st_next_id (run_set_limit_event i ev st) = st_next_id st"
  "st_next_id (run_set_leader i who t st) = st_next_id st"
  "st_next_id (run_record_process i who role t st) = st_next_id st"
  "st_next_id (run_event_insert i rv k d t st) = st_next_id st"
  by (simp_all add: run_finish_alt run_transition_alt run_set_effective_def run_set_limit_event_def
      run_set_leader_def run_record_process_def update_rows_def run_event_insert_def)

lemma finish_store_next [simp]: "st_next_id (finish_store cx i sl res logs st) = st_next_id st"
  by (cases "sl_limit_event sl") (simp_all add: finish_store_def Let_def)

text \<open>The effect of finishing a registered, unfinished run, with the admitted ids.\<close>

lemma finish_effect:
  fixes oc ec sg det timing
  assumes "good_ctx cx" "sv_slots sv i = Some sl" "sl_state sl \<noteq> Finished"
    and "release i (cl \<noteq> Complete) (cx_clock cx) (sv_sched sv) = (ids, s')"
    and "\<forall>j\<in>set ids. queued_slot sv j \<and> j \<noteq> i"
  defines "sv' \<equiv> finish cx i oc ec sg cl det timing sv"
  shows "\<exists>sl'. sl_state sl' = Finished \<and> sl_revision sl' = sl_revision sl + 1 \<and> sl_spec sl' = sl_spec sl
      \<and> sl_cleanup sl' = cl
      \<and> sl_result sl' = Some (fst (finish_result cx sl oc ec sg cl det timing))
      \<and> sv_slots sv' = (\<lambda>j. if j = i then Some sl' else if j \<in> set ids then map_option freshen (sv_slots sv j)
                           else sv_slots sv j)
      \<and> sv_store sv' = finish_store cx i sl' (fst (finish_result cx sl oc ec sg cl det timing))
            (snd (finish_result cx sl oc ec sg cl det timing)) (sv_store sv)"
    and "sv_workers sv' = (\<lambda>j. if j \<in> set ids then Some PSpawned else sv_workers sv j)"
    and "sv_registry sv' = filter (\<lambda>j. j \<noteq> i) (sv_registry sv)"
    and "sv_sched sv' = s'"
proof -
  obtain res logs where r: "finish_result cx sl oc ec sg cl det timing = (res, logs)"
    by (cases "finish_result cx sl oc ec sg cl det timing")
  let ?sl = "sl\<lparr>sl_revision := sl_revision sl + 1, sl_state := Finished, sl_cleanup := cl, sl_result := Some res\<rparr>"
  let ?v = "(db_write cx (finish_store cx i ?sl res logs) sv)
              \<lparr>sv_registry := filter (\<lambda>j. j \<noteq> i) (sv_registry sv), sv_sched := s'\<rparr>"
  have e: "sv' = set_slot i ?sl (start_admitted cx ids ?v)"
    using assms(2,3,4) r by (simp add: sv'_def finish_def finish_on_def is_terminal_def Let_def)
  have "\<forall>j\<in>set ids. j \<in> set (sv_registry ?v) \<and> sv_slots ?v j \<noteq> None"
    using assms(5) by (auto simp: queued_slot_def)
  note st = start_admitted_effect[OF _ this, of cx]
  have db: "cx_db cx" "cx_thread cx" using assms(1) by (simp_all add: good_ctx_def)
  show "\<exists>sl'. sl_state sl' = Finished \<and> sl_revision sl' = sl_revision sl + 1 \<and> sl_spec sl' = sl_spec sl
      \<and> sl_cleanup sl' = cl
      \<and> sl_result sl' = Some (fst (finish_result cx sl oc ec sg cl det timing))
      \<and> sv_slots sv' = (\<lambda>j. if j = i then Some sl' else if j \<in> set ids then map_option freshen (sv_slots sv j)
                           else sv_slots sv j)
      \<and> sv_store sv' = finish_store cx i sl' (fst (finish_result cx sl oc ec sg cl det timing))
            (snd (finish_result cx sl oc ec sg cl det timing)) (sv_store sv)"
    by (rule exI[of _ ?sl]) (use st db in \<open>auto simp: e r fun_eq_iff\<close>)
  show "sv_workers sv' = (\<lambda>j. if j \<in> set ids then Some PSpawned else sv_workers sv j)"
    "sv_registry sv' = filter (\<lambda>j. j \<noteq> i) (sv_registry sv)" "sv_sched sv' = s'"
    using st db by (auto simp: e fun_eq_iff)
qed

section \<open>Rows\<close>

lemma run_id_int_inject [simp]: "run_id_int a = run_id_int b \<longleftrightarrow> a = b"
  by (cases a; cases b) simp

lemma row_of_update:
  assumes "\<And>w. w_id (f w) = w_id w"
  shows "row_of (snd (update_rows P f st)) j = map_option (\<lambda>w. if P w then f w else w) (row_of st j)"
proof -
  have "find (\<lambda>w. w_id w = k) (map (\<lambda>w. if P w then f w else w) ws)
      = map_option (\<lambda>w. if P w then f w else w) (find (\<lambda>w. w_id w = k) ws)" for k ws
    by (induction ws) (auto simp: assms)
  then show ?thesis by (simp add: row_of_def update_rows_def)
qed

lemma row_of_event [simp]: "row_of (run_event_insert i rv k d t st) j = row_of st j"
  by (simp add: row_of_def run_event_insert_def)

lemma row_of_process [simp]: "row_of (run_record_process i who role t st) j = row_of st j"
  by (simp add: row_of_def run_record_process_def)

lemma row_of_id: "row_of st i = Some w \<Longrightarrow> w \<in> set (st_runs st) \<and> w_id w = run_id_int i"
  by (auto simp: row_of_def find_Some_iff)

definition set_effective_row :: "effective_limits \<Rightarrow> u64 \<Rightarrow> run_row \<Rightarrow> run_row" where
  "set_effective_row eff q w = w\<lparr>w_effective := Some eff, w_queue_wait_ms := Some (as_i64 q)\<rparr>"

lemma row_agrees_columns [simp]:
  "row_agrees sl (w\<lparr>w_effective := e, w_queue_wait_ms := q\<rparr>) = row_agrees sl w"
  "row_agrees sl (w\<lparr>w_limit_event := ev\<rparr>) = row_agrees sl w"
  "row_agrees sl (w\<lparr>w_leader_boot := lb, w_leader_pid := lp, w_leader_start := ls, w_started_at := t\<rparr>)
     = row_agrees sl w"
  by (simp_all add: row_agrees_def)

lemma row_of_setters:
  "(\<exists>w. row_of (run_set_effective i eff q st) j = Some w \<and> row_agrees sl w)
     \<longleftrightarrow> (\<exists>w. row_of st j = Some w \<and> row_agrees sl w)"
  "(\<exists>w. row_of (run_set_limit_event i ev st) j = Some w \<and> row_agrees sl w)
     \<longleftrightarrow> (\<exists>w. row_of st j = Some w \<and> row_agrees sl w)"
  "(\<exists>w. row_of (run_set_leader i who t st) j = Some w \<and> row_agrees sl w)
     \<longleftrightarrow> (\<exists>w. row_of st j = Some w \<and> row_agrees sl w)"
  unfolding run_set_effective_def run_set_limit_event_def run_set_leader_def
  by (subst row_of_update; cases "row_of st j"; simp)+

lemma state_as_str_finished [simp]: "state_as_str s = ''finished'' \<longleftrightarrow> s = Finished"
  by (cases s) (simp_all add: state_as_str_def)

text \<open>A transition on a run whose row agrees succeeds and keeps the agreement.\<close>

lemma run_transition_row:
  assumes "row_of st i = Some w" "w_revision w < rv"
  shows "fst (run_transition i rv step now st)"
    and "row_of (snd (run_transition i rv step now st)) j =
      (if j = i then Some (w\<lparr>w_state := state_as_str (rs_state step),
          w_cleanup := cleanup_as_str (rs_cleanup step), w_revision := rv\<rparr>) else row_of st j)"
proof -
  have w: "w \<in> set (st_runs st)" "w_id w = run_id_int i" using row_of_id[OF assms(1)] by auto
  then have ex: "\<exists>w\<in>set (st_runs st). w_id w = run_id_int i \<and> w_revision w < rv" using assms(2) by blast
  then show "fst (run_transition i rv step now st)" by (simp add: run_transition_alt)
  let ?f = "\<lambda>w. w\<lparr>w_state := state_as_str (rs_state step),
          w_cleanup := cleanup_as_str (rs_cleanup step), w_revision := rv\<rparr>"
  have "row_of (snd (run_transition i rv step now st)) j =
      map_option (\<lambda>w. if w_id w = run_id_int i \<and> w_revision w < rv then ?f w else w) (row_of st j)"
    using ex by (simp add: run_transition_alt row_of_update)
  also have "\<dots> = (if j = i then Some (?f w) else row_of st j)"
    using assms row_of_id[of st j] w(2)
    by (cases "row_of st j") auto
  finally show "row_of (snd (run_transition i rv step now st)) j =
      (if j = i then Some (?f w) else row_of st j)" .
qed

lemma run_finish_row:
  assumes "row_of st i = Some w" "w_state w \<noteq> ''finished''"
  shows "row_of (snd (run_finish i rv res logs st)) j =
      (if j = i then Some (finish_row rv res logs w) else row_of st j)"
proof -
  have w: "w \<in> set (st_runs st)" "w_id w = run_id_int i" using row_of_id[OF assms(1)] by auto
  then have ex: "\<exists>w\<in>set (st_runs st). w_id w = run_id_int i \<and> w_state w \<noteq> ''finished''"
    using assms(2) by blast
  have "row_of (snd (run_finish i rv res logs st)) j =
      map_option (\<lambda>w. if w_id w = run_id_int i \<and> w_state w \<noteq> ''finished'' then finish_row rv res logs w else w)
        (row_of st j)"
    using ex by (simp add: run_finish_alt row_of_update)
  also have "\<dots> = (if j = i then Some (finish_row rv res logs w) else row_of st j)"
    using assms row_of_id[of st j] w(2)
    by (cases "row_of st j") auto
  finally show ?thesis .
qed

lemma finish_row_agrees:
  assumes "sl_state sl = Finished" "sl_result sl = Some res" "sl_cleanup sl = cleanup res"
  shows "row_agrees sl (finish_row (sl_revision sl) res logs w)"
  using assms by (simp add: row_agrees_def finish_row_def state_as_str_def)

lemma finish_store_row:
  assumes "\<exists>w. row_of st i = Some w \<and> row_agrees sl0 w" "sl_state sl0 \<noteq> Finished"
    and "sl_state sl = Finished" "sl_result sl = Some res" "sl_cleanup sl = cleanup res"
  shows "\<exists>w. row_of (finish_store cx i sl res logs st) i = Some w \<and> row_agrees sl w"
    and "j \<noteq> i \<Longrightarrow> (\<exists>w. row_of (finish_store cx i sl res logs st) j = Some w \<and> row_agrees x w)
        \<longleftrightarrow> (\<exists>w. row_of st j = Some w \<and> row_agrees x w)"
proof -
  define st1 where "st1 = (if \<not> sl_effective_set sl
      then run_set_effective i (requested_limits (sl_spec sl)) (queue_wait_ms sl (cx_clock cx)) st else st)"
  define st2 where "st2 = (case sl_limit_event sl of Some ev \<Rightarrow> run_set_limit_event i ev st1 | None \<Rightarrow> st1)"
  have fs: "finish_store cx i sl res logs st = snd (run_finish i (sl_revision sl) res logs st2)"
    unfolding finish_store_def Let_def st1_def st2_def by simp
  have keep: "(\<exists>w. row_of st2 j = Some w \<and> row_agrees x w) \<longleftrightarrow> (\<exists>w. row_of st j = Some w \<and> row_agrees x w)" for j x
    by (cases "sl_limit_event sl") (simp_all add: st2_def st1_def row_of_setters)
  obtain w where w: "row_of st2 i = Some w" "row_agrees sl0 w" using assms(1) keep by blast
  then have "w_state w \<noteq> ''finished''" using assms(2) by (simp add: row_agrees_def)
  note rf = run_finish_row[OF w(1) this]
  show "\<exists>w. row_of (finish_store cx i sl res logs st) i = Some w \<and> row_agrees sl w"
    unfolding fs rf using finish_row_agrees[OF assms(3,4,5)] by simp
  show "j \<noteq> i \<Longrightarrow> (\<exists>w. row_of (finish_store cx i sl res logs st) j = Some w \<and> row_agrees x w)
        \<longleftrightarrow> (\<exists>w. row_of st j = Some w \<and> row_agrees x w)"
    unfolding fs rf using keep by simp
qed

lemma row_agrees_freshen [simp]: "row_agrees (freshen sl) w = row_agrees sl w"
  by (simp add: row_agrees_def)

end
