(* ===== verification/Supervisor_Inv.thy ===== *)
theory Supervisor_Inv
  imports Supervisor_Laws
begin

text \<open>
  Every step of the supervisor keeps the invariant of \<open>Supervisor_Laws\<close>: starting, the queue
  tick, cancelling, the four phases of a worker, and new limits.
\<close>

section \<open>Finishing\<close>

lemma phase_state_unfinished [simp]: "Finished \<notin> phase_state p"
  by (cases p) (simp_all add: phase_state_def)

lemma registered_unfinished:
  assumes "registry_ok sv" "i \<in> set (sv_registry sv)"
  obtains sl where "sv_slots sv i = Some sl" "sl_state sl \<noteq> Finished"
proof -
  have "worker_live sv i \<or> queued_slot sv i" using assms by (simp add: registry_ok_def)
  then obtain sl where "sv_slots sv i = Some sl" "sl_state sl \<noteq> Finished"
    unfolding book_defs by (metis phase_state_unfinished run_state.distinct(7))
  then show ?thesis using that by blast
qed

lemma finish_inv:
  fixes oc ec sg cl det timing
  assumes g: "good_ctx cx" and inv: "sv_inv_but P sv"
    and i: "i \<in> set (sv_registry sv)" "queued_slot sv i \<Longrightarrow> i \<in> P"
  defines "sv' \<equiv> finish cx i oc ec sg cl det timing sv"
  shows "sv_inv_but P sv'" and "queued_slot sv' j \<Longrightarrow> queued_slot sv j \<and> j \<noteq> i"
    and "sv_registry sv' = filter (\<lambda>j. j \<noteq> i) (sv_registry sv)"
    and "\<exists>sl. sv_slots sv' i = Some sl \<and> sl_state sl = Finished"
proof -
  have reg: "registry_ok sv" "store_ok (sv_store sv)" "agrees sv"
    and tr: "pool.tracks (worker_live sv) (\<lambda>j. queued_slot sv j \<and> j \<notin> P) (sv_sched sv)"
    using inv by (simp_all add: sv_inv_but_def)
  obtain sl where sl: "sv_slots sv i = Some sl" "sl_state sl \<noteq> Finished"
    using registered_unfinished[OF reg(1) i(1)] .
  obtain ids s' where r: "release i (cl \<noteq> Complete) (cx_clock cx) (sv_sched sv) = (ids, s')"
    by (cases "release i (cl \<noteq> Complete) (cx_clock cx) (sv_sched sv)")
  note t = pool.tracks_rel[OF tr r]
  have ids: "\<forall>j\<in>set ids. queued_slot sv j \<and> j \<noteq> i" using t(2) i(2) by blast
  note fe = finish_effect[OF g sl r ids, of oc ec sg det timing, folded sv'_def]
  let ?res = "fst (finish_result cx sl oc ec sg cl det timing)"
  let ?logs = "snd (finish_result cx sl oc ec sg cl det timing)"
  obtain sl' where e: "sl_state sl' = Finished" "sl_result sl' = Some ?res" "sl_cleanup sl' = cl"
      "sv_slots sv' = (\<lambda>j. if j = i then Some sl' else if j \<in> set ids then map_option freshen (sv_slots sv j)
                           else sv_slots sv j)"
      "sv_store sv' = finish_store cx i sl' ?res ?logs (sv_store sv)"
    using fe(1) by blast
  have live: "worker_live sv' j \<longleftrightarrow> (worker_live sv j \<and> j \<noteq> i \<or> j \<in> set ids)" for j
    using ids by (auto simp: book_defs fe(2,3) e(1,4) phase_state_def split: phase.splits)
  have wait: "queued_slot sv' j \<longleftrightarrow> (queued_slot sv j \<and> j \<noteq> i \<and> j \<notin> set ids)" for j
    using ids by (cases "j = i") (auto simp: book_defs fe(2,3) e(1,4))
  show "queued_slot sv' j \<Longrightarrow> queued_slot sv j \<and> j \<noteq> i" by (simp add: wait)
  show "sv_registry sv' = filter (\<lambda>j. j \<noteq> i) (sv_registry sv)" by (rule fe(3))
  show "\<exists>sl. sv_slots sv' i = Some sl \<and> sl_state sl = Finished" using e(1) by (simp add: e(4))
  have "pool.tracks (worker_live sv') (\<lambda>j. queued_slot sv' j \<and> j \<notin> P) (sv_sched sv')"
    unfolding fe(4) using t(1) i(2) by (auto simp: live wait pool.tracks_def)
  moreover have "registry_ok sv'"
    unfolding registry_ok_def
  proof (intro conjI ballI allI impI)
    fix j assume "j \<in> set (sv_registry sv')"
    then have j: "j \<in> set (sv_registry sv)" "j \<noteq> i" by (simp_all add: fe(3))
    then show "worker_live sv' j \<or> queued_slot sv' j"
      using reg(1) unfolding registry_ok_def live wait by blast
  next
    fix j x assume "sv_slots sv' j = Some x \<and> j \<notin> set (sv_registry sv')"
    then have x: "sv_slots sv' j = Some x" "j = i \<or> j \<notin> set (sv_registry sv)" by (auto simp: fe(3))
    show "sl_state x = Finished"
    proof (cases "j = i")
      case True
      then show ?thesis using x(1) e(1) by (simp add: e(4))
    next
      case False
      then have "j \<notin> set ids" using x(2) ids by (auto simp: queued_slot_def)
      then have "sv_slots sv j = Some x" using x(1) False by (simp add: e(4))
      then show ?thesis using reg(1) x(2) False by (auto simp: registry_ok_def)
    qed
  next
    fix j assume "sv_slots sv' j = None"
    then have "j \<noteq> i" "sv_slots sv j = None" using e(4) by (auto split: if_splits)
    moreover from this have "j \<notin> set ids" using ids by (auto simp: queued_slot_def)
    ultimately show "sv_workers sv' j = None" using reg(1) by (simp add: fe(2) registry_ok_def)
  next
    fix j x p assume j: "sv_slots sv' j = Some x \<and> sl_state x \<noteq> Finished \<and> sv_workers sv' j = Some p"
    then have ji: "j \<noteq> i" using e(1) by (auto simp: e(4))
    show "worker_live sv' j"
    proof (cases "j \<in> set ids")
      case False
      then have "sv_slots sv j = Some x" "sv_workers sv j = Some p" using j ji by (simp_all add: e(4) fe(2))
      then show ?thesis using reg(1) j ji unfolding live registry_ok_def by blast
    qed (simp add: live)
  next
    fix j assume "sv_slots sv' j \<noteq> None"
    then have "sv_slots sv j \<noteq> None" using sl(1) by (auto simp: e(4) split: if_splits)
    then show "run_id_int j < st_next_id (sv_store sv')"
      using reg(1) by (simp add: e(5) registry_ok_def)
  next
    show "distinct (sv_registry sv')" using reg(1) by (simp add: fe(3) registry_ok_def)
  qed
  moreover have "store_ok (sv_store sv')" using reg(2) by (simp add: e(5) finish_store_ok)
  moreover have "agrees sv'"
    unfolding agrees_def
  proof (intro allI impI)
    fix j x assume x: "sv_slots sv' j = Some x"
    have row: "\<exists>w. row_of (sv_store sv) i = Some w \<and> row_agrees sl w" using reg(3) sl(1) by (simp add: agrees_def)
    have cl: "sl_cleanup sl' = cleanup ?res" by (simp add: e(3) finish_result_def split: option.splits)
    note fs = finish_store_row[OF row sl(2) e(1,2) cl, where cx = cx and logs = "?logs", folded e(5)]
    show "\<exists>w. row_of (sv_store sv') j = Some w \<and> row_agrees x w"
    proof (cases "j = i")
      case True
      then show ?thesis using fs(1) x by (simp add: e(4))
    next
      case False
      then obtain y where y: "sv_slots sv j = Some y" "x = y \<or> x = freshen y"
        using x by (auto simp: e(4) split: if_splits)
      then have "\<exists>w. row_of (sv_store sv) j = Some w \<and> row_agrees x w"
        using reg(3) by (auto simp: agrees_def)
      then show ?thesis using fs(2)[OF False] by simp
    qed
  qed
  ultimately show "sv_inv_but P sv'" by (simp add: sv_inv_but_def)
qed

section \<open>Quiet updates\<close>

text \<open>Changing a slot's descriptive fields, or the store's descriptive columns, changes nothing the
  invariant looks at.\<close>

definition same_core :: "run_slot \<Rightarrow> run_slot \<Rightarrow> bool" where
  "same_core a b \<longleftrightarrow> sl_state a = sl_state b \<and> sl_revision a = sl_revision b \<and> sl_cleanup a = sl_cleanup b
     \<and> sl_result a = sl_result b \<and> sl_spec a = sl_spec b"

lemma set_slot_inv:
  assumes "sv_inv_but P sv" "sv_slots sv i = Some sl" "same_core sl sl'"
  shows "sv_inv_but P (set_slot i sl' sv)"
    and "queued_slot (set_slot i sl' sv) = queued_slot sv" "worker_live (set_slot i sl' sv) = worker_live sv"
proof -
  have c: "sl_state sl' = sl_state sl" "row_agrees sl' = row_agrees sl"
    using assms(3) by (auto simp: same_core_def row_agrees_def fun_eq_iff)
  have l: "worker_live (set_slot i sl' sv) = worker_live sv"
    using assms(2) c by (auto simp: worker_live_def fun_eq_iff)
  have q: "queued_slot (set_slot i sl' sv) = queued_slot sv"
    using assms(2) c by (auto simp: queued_slot_def fun_eq_iff)
  show "queued_slot (set_slot i sl' sv) = queued_slot sv" "worker_live (set_slot i sl' sv) = worker_live sv"
    using l q by auto
  have "registry_ok (set_slot i sl' sv)"
    using assms(1,2) c unfolding sv_inv_but_def registry_ok_def l q by auto
  moreover have "agrees (set_slot i sl' sv)"
    using assms(1,2) c unfolding sv_inv_but_def agrees_def by auto
  ultimately show "sv_inv_but P (set_slot i sl' sv)"
    using assms(1) unfolding sv_inv_but_def l q by simp
qed

lemma db_write_inv:
  assumes "sv_inv_but P sv" "store_ok (f (sv_store sv))" "st_next_id (f (sv_store sv)) = st_next_id (sv_store sv)"
    and "\<And>j sl. (\<exists>w. row_of (sv_store sv) j = Some w \<and> row_agrees sl w) \<Longrightarrow>
        (\<exists>w. row_of (f (sv_store sv)) j = Some w \<and> row_agrees sl w)"
  shows "sv_inv_but P (db_write cx f sv)"
proof -
  have l: "worker_live (db_write cx f sv) = worker_live sv" "queued_slot (db_write cx f sv) = queued_slot sv"
    by (auto simp: book_defs fun_eq_iff)
  have "registry_ok (db_write cx f sv)"
    using assms(1,3) unfolding sv_inv_but_def registry_ok_def l by simp
  moreover have "agrees (db_write cx f sv)"
    using assms(1,4) unfolding sv_inv_but_def agrees_def by simp
  ultimately show ?thesis using assms(1,2) unfolding sv_inv_but_def l by simp
qed

end
