(* ===== verification/Supervisor_Steps.thy ===== *)
theory Supervisor_Steps
  imports Supervisor_Inv
begin

text \<open>
  The remaining steps of the supervisor keep the invariant: transitions, admission, starting, the
  queue tick, cancelling and the four phases of a worker.  Then the step relation and the states it
  reaches.
\<close>

section \<open>Transitions and phases\<close>

lemma sv_inv_butD:
  assumes "sv_inv_but P sv"
  shows "pool.tracks (worker_live sv) (\<lambda>j. queued_slot sv j \<and> j \<notin> P) (sv_sched sv)" "registry_ok sv"
    "store_ok (sv_store sv)" "agrees sv"
  using assms by (simp_all add: sv_inv_but_def)

lemma transition_inv:
  fixes cl kind det
  assumes g: "good_ctx cx" and inv: "sv_inv_but P sv" and w: "worker_live sv i" "sv_workers sv i = Some p"
    and st: "st \<in> phase_state p"
  defines "r \<equiv> transition cx i st cl kind det sv"
  shows "fst r" and "sv_inv_but P (snd r)"
    and "worker_live (snd r) = worker_live sv" and "queued_slot (snd r) = queued_slot sv"
    and "\<exists>sl sl'. sv_slots sv i = Some sl \<and> sl_state sl \<noteq> Finished \<and> sv_slots (snd r) = (sv_slots sv)(i := Some sl')
      \<and> sl_state sl' = st \<and> sl_revision sl' = sl_revision sl + 1 \<and> sl_cancel sl' = sl_cancel sl
      \<and> sl_spec sl' = sl_spec sl \<and> sl_known sl' = sl_known sl \<and> sl_pgid sl' = sl_pgid sl"
    and "sv_workers (snd r) = sv_workers sv" "sv_registry (snd r) = sv_registry sv"
    and "sv_sched (snd r) = sv_sched sv"
proof -
  note inv' = sv_inv_butD[OF inv]
  have db: "cx_db cx" using g by (simp add: good_ctx_def)
  obtain sl where sl: "sv_slots sv i = Some sl" "sl_state sl \<in> phase_state p"
    using w by (auto simp: worker_live_def)
  then have nf: "sl_state sl \<noteq> Finished" using phase_state_unfinished by metis
  obtain row where row: "row_of (sv_store sv) i = Some row" "row_agrees sl row"
    using inv'(4) sl(1) by (auto simp: agrees_def)
  define rv where "rv = sl_revision sl + 1"
  define sl' where "sl' = sl\<lparr>sl_revision := rv, sl_state := st, sl_cleanup := cl,
      sl_detail := (case det of Some d \<Rightarrow> Some d | None \<Rightarrow> sl_detail sl)\<rparr>"
  let ?step = "\<lparr>rs_state = st, rs_cleanup = cl, rs_kind = kind, rs_detail = det\<rparr>"
  define t where "t = run_transition i rv ?step (cx_now cx) (sv_store sv)"
  have "w_revision row < rv" using row(2) by (simp add: row_agrees_def rv_def)
  note rt = run_transition_row[OF row(1) this, of ?step "cx_now cx", folded t_def]
  have r: "r = (True, (set_slot i sl' sv)\<lparr>sv_store := snd t\<rparr>)"
    using sl(1) nf db rt(1)
    by (cases t) (simp add: r_def transition_def is_terminal_def Let_def sl'_def t_def[symmetric]
        rv_def[symmetric])
  then show "fst r" by simp
  have nst: "st \<noteq> Finished" using st phase_state_unfinished by metis
  have l: "worker_live (snd r) = worker_live sv"
    using w sl st by (auto simp: r worker_live_def sl'_def fun_eq_iff)
  have q: "queued_slot (snd r) = queued_slot sv"
    using w by (auto simp: r queued_slot_def fun_eq_iff)
  show "worker_live (snd r) = worker_live sv" "queued_slot (snd r) = queued_slot sv" by (fact l, fact q)
  show "\<exists>sl sl'. sv_slots sv i = Some sl \<and> sl_state sl \<noteq> Finished \<and> sv_slots (snd r) = (sv_slots sv)(i := Some sl')
      \<and> sl_state sl' = st \<and> sl_revision sl' = sl_revision sl + 1 \<and> sl_cancel sl' = sl_cancel sl
      \<and> sl_spec sl' = sl_spec sl \<and> sl_known sl' = sl_known sl \<and> sl_pgid sl' = sl_pgid sl"
    by (rule exI[of _ sl], rule exI[of _ sl']) (simp add: r sl sl'_def rv_def nf)
  show "sv_workers (snd r) = sv_workers sv" "sv_registry (snd r) = sv_registry sv"
    "sv_sched (snd r) = sv_sched sv" by (simp_all add: r)
  have "registry_ok (snd r)"
    using inv'(2) w(1) sl(1) unfolding registry_ok_def l q
    by (auto simp: r sl'_def nst t_def worker_live_def)
  moreover have "store_ok (sv_store (snd r))" using inv'(3) by (simp add: r t_def run_transition_ok)
  moreover have "agrees (snd r)"
    unfolding agrees_def
  proof (intro allI impI)
    fix j x assume x: "sv_slots (snd r) j = Some x"
    show "\<exists>w. row_of (sv_store (snd r)) j = Some w \<and> row_agrees x w"
    proof (cases "j = i")
      case True
      then have "x = sl'" using x by (simp add: r)
      then show ?thesis using True row(2) nst by (simp add: r rt(2) row_agrees_def sl'_def)
    next
      case False
      then show ?thesis using x inv'(4) by (simp add: r rt(2) agrees_def)
    qed
  qed
  ultimately show "sv_inv_but P (snd r)"
    using inv'(1) unfolding sv_inv_but_def l q by (simp add: r)
qed

lemma transition_finished:
  assumes "sv_slots sv i = Some sl" "sl_state sl = Finished"
  shows "transition cx i st cl kind det sv = (False, sv)"
  using assms by (simp add: transition_def is_terminal_def)

lemma set_phase_inv:
  assumes "sv_inv_but P sv" "sv_slots sv i = Some sl"
    and "sl_state sl = Finished \<or> worker_live sv i \<and> sl_state sl \<in> phase_state p"
  shows "sv_inv_but P (set_phase i p sv)"
    and "worker_live (set_phase i p sv) = worker_live sv" "queued_slot (set_phase i p sv) = queued_slot sv"
proof -
  note inv' = sv_inv_butD[OF assms(1)]
  have nr: "sl_state sl = Finished \<Longrightarrow> i \<notin> set (sv_registry sv)"
    by (rule notI, erule registered_unfinished[OF inv'(2)]) (simp add: assms(2))
  have l: "worker_live (set_phase i p sv) = worker_live sv"
    using assms(2,3) nr by (auto simp: worker_live_def fun_eq_iff)
  have q: "queued_slot (set_phase i p sv) = queued_slot sv"
    using assms(2,3) nr by (auto simp: book_defs fun_eq_iff)
  show "worker_live (set_phase i p sv) = worker_live sv" "queued_slot (set_phase i p sv) = queued_slot sv"
    by (fact l, fact q)
  have "registry_ok (set_phase i p sv)"
    unfolding registry_ok_def l q set_phase_simps
  proof (intro conjI allI ballI impI)
    fix j assume "sv_slots sv j = None"
    then show "((sv_workers sv)(i := Some p)) j = None"
      using inv'(2) assms(2) by (auto simp: registry_ok_def)
  next
    fix j x q assume "sv_slots sv j = Some x \<and> sl_state x \<noteq> Finished \<and> ((sv_workers sv)(i := Some p)) j = Some q"
    then show "worker_live sv j"
      using inv'(2) assms(2,3) by (cases "j = i") (auto simp: registry_ok_def)
  qed (use inv'(2) in \<open>auto simp: registry_ok_def\<close>)
  moreover have "agrees (set_phase i p sv)" using inv'(4) by (simp add: agrees_def)
  ultimately show "sv_inv_but P (set_phase i p sv)"
    using inv'(1,3) unfolding sv_inv_but_def l q by simp
qed

text \<open>A worker's slot is unfinished and live, or finished.\<close>

lemma worker_cases:
  assumes "sv_inv_but P sv" "sv_workers sv i = Some p"
  obtains (live) sl where "sv_slots sv i = Some sl" "sl_state sl \<noteq> Finished" "worker_live sv i"
      "sl_state sl \<in> phase_state p" "i \<in> set (sv_registry sv)" "\<not> queued_slot sv i"
    | (over) sl where "sv_slots sv i = Some sl" "sl_state sl = Finished"
proof -
  have r: "registry_ok sv" using sv_inv_butD[OF assms(1)] by blast
  then obtain sl where sl: "sv_slots sv i = Some sl" using assms(2) unfolding registry_ok_def by fastforce
  show ?thesis
  proof (cases "sl_state sl = Finished")
    case True
    then show ?thesis using over[OF sl] by blast
  next
    case False
    then have w: "worker_live sv i" using r sl assms(2) unfolding registry_ok_def by blast
    moreover have "sl_state sl \<in> phase_state p" "i \<in> set (sv_registry sv)"
      using w sl assms(2) by (auto simp: worker_live_def)
    ultimately show ?thesis using live[OF sl False] live_not_queued[OF w] by blast
  qed
qed

section \<open>New books\<close>

lemma sched_inv_but:
  assumes "sv_inv_but P sv" "pool.tracks (worker_live sv) (\<lambda>j. queued_slot sv j \<and> j \<notin> Q) s'"
  shows "sv_inv_but Q (sv\<lparr>sv_sched := s'\<rparr>)"
    and "queued_slot (sv\<lparr>sv_sched := s'\<rparr>) = queued_slot sv"
    and "worker_live (sv\<lparr>sv_sched := s'\<rparr>) = worker_live sv"
proof -
  have l: "worker_live (sv\<lparr>sv_sched := s'\<rparr>) = worker_live sv" by (auto simp: worker_live_def fun_eq_iff)
  have q: "queued_slot (sv\<lparr>sv_sched := s'\<rparr>) = queued_slot sv" by (auto simp: queued_slot_def fun_eq_iff)
  show "queued_slot (sv\<lparr>sv_sched := s'\<rparr>) = queued_slot sv"
    "worker_live (sv\<lparr>sv_sched := s'\<rparr>) = worker_live sv" by (fact q, fact l)
  show "sv_inv_but Q (sv\<lparr>sv_sched := s'\<rparr>)"
    using assms unfolding sv_inv_but_def registry_ok_def agrees_def l q by simp
qed

lemma sv_inv_drop:
  assumes "sv_inv_but P sv" "\<And>j. j \<in> P \<Longrightarrow> \<not> queued_slot sv j"
  shows "sv_inv sv"
proof -
  have "(\<lambda>j. queued_slot sv j \<and> j \<notin> P) = (\<lambda>j. queued_slot sv j \<and> j \<notin> {})"
    using assms(2) by (auto simp: fun_eq_iff)
  then show ?thesis using assms(1) unfolding sv_inv_def sv_inv_but_def by metis
qed

section \<open>Cancelling, the queue tick and new limits\<close>

lemma finish_closes:
  assumes "good_ctx cx" "sv_inv_but {i} sv" "i \<in> set (sv_registry sv)"
  shows "sv_inv (finish cx i oc ec sg cl det timing sv)"
proof -
  have q: "queued_slot sv i \<Longrightarrow> i \<in> {i}" by simp
  note f = finish_inv[OF assms(1,2,3) q, of oc ec sg cl det timing]
  have "\<not> queued_slot (finish cx i oc ec sg cl det timing sv) i" using f(2)[of i] by blast
  then show ?thesis using sv_inv_drop[OF f(1)] by simp
qed

lemma finish_live_inv:
  assumes "good_ctx cx" "sv_inv sv" "i \<in> set (sv_registry sv)" "\<not> queued_slot sv i"
  shows "sv_inv (finish cx i oc ec sg cl det timing sv)"
proof -
  have "sv_inv_but {} sv" using assms(2) by (simp add: sv_inv_def)
  from finish_inv(1)[OF assms(1) this assms(3)] assms(4) show ?thesis by (simp add: sv_inv_def)
qed

lemma cancel_registered_inv:
  assumes g: "good_ctx cx" and inv: "sv_inv sv" and sl: "sv_slots sv i = Some sl"
  shows "sv_inv (cancel_registered cx i sl sv)"
proof (cases "sl_state sl = Finished")
  case True
  then show ?thesis using inv by (simp add: cancel_registered_def is_terminal_def)
next
  case False
  have inv': "sv_inv_but {} sv" using inv by (simp add: sv_inv_def)
  have r: "i \<in> set (sv_registry sv)" using sv_inv_butD(2)[OF inv'] sl False by (auto simp: registry_ok_def)
  have core: "same_core sl (sl\<lparr>sl_cancel := True\<rparr>)" by (simp add: same_core_def)
  have flag: "sv_inv (set_slot i (sl\<lparr>sl_cancel := True\<rparr>) v)" if "sv_inv v" "sv_slots v i = Some sl" for v
    using set_slot_inv(1)[OF _ that(2) core] that(1) by (simp add: sv_inv_def)
  show ?thesis
  proof (cases "sl_state sl = Queued")
    case q: True
    obtain b s' where c: "cancel_queued i (sv_sched sv) = (b, s')" by (cases "cancel_queued i (sv_sched sv)")
    note t = pool.tracks_withdraw[OF sv_inv_butD(1)[OF inv'] c]
    show ?thesis
    proof (cases b)
      case True
      have "(\<lambda>j. (queued_slot sv j \<and> j \<notin> {}) \<and> j \<noteq> i) = (\<lambda>j. queued_slot sv j \<and> j \<notin> {i})" by auto
      with t(1) have "sv_inv_but {i} (sv\<lparr>sv_sched := s'\<rparr>)" using sched_inv_but(1)[OF inv'] by simp
      then have "sv_inv (finish cx i Cancelled None None Complete (Some ''cancelled while queued'') None
          (sv\<lparr>sv_sched := s'\<rparr>))" by (rule finish_closes[OF g]) (simp add: r)
      then show ?thesis using False q c True by (simp add: cancel_registered_def is_terminal_def)
    next
      case nb: False
      then have "\<not> queued_slot sv i" using t(2) by simp
      then have "(\<lambda>j. (queued_slot sv j \<and> j \<notin> {}) \<and> j \<noteq> i) = (\<lambda>j. queued_slot sv j \<and> j \<notin> {})" by auto
      with t(1) have "sv_inv (sv\<lparr>sv_sched := s'\<rparr>)" using sched_inv_but(1)[OF inv'] by (simp add: sv_inv_def)
      from flag[OF this] show ?thesis using False q c nb sl by (simp add: cancel_registered_def is_terminal_def)
    qed
  next
    case nq: False
    have "sv\<lparr>sv_sched := sv_sched sv\<rparr> = sv" by simp
    then show ?thesis using flag[OF inv sl] False nq by (simp add: cancel_registered_def is_terminal_def)
  qed
qed

lemma cancel_inv:
  assumes g: "good_ctx cx" and inv: "sv_inv sv" and c: "cancel cx i sv = Inr (b, sv')"
  shows "sv_inv sv'"
proof -
  have inv': "sv_inv_but {} sv" using inv by (simp add: sv_inv_def)
  obtain x where x: "slot_or_load i sv = Inr x" using c by (cases "slot_or_load i sv") (auto simp: cancel_def)
  show ?thesis
  proof (cases x)
    case None
    then show ?thesis using c x inv by (simp add: cancel_def)
  next
    case (Some sl)
    show ?thesis
    proof (cases "i \<in> set (sv_registry sv)")
      case True
      then have "sv_slots sv i = Some sl" using x Some by (simp add: slot_or_load_def)
      moreover have "sv' = cancel_registered cx i sl sv" using c x Some True by (simp add: cancel_def)
      ultimately show ?thesis using cancel_registered_inv[OF g inv] by simp
    next
      case False
      then have s: "sv' = cancel_loaded cx i sl sv" using c x Some by (simp add: cancel_def)
      obtain d s' where d: "cancel_queued i (sv_sched sv) = (d, s')" by (cases "cancel_queued i (sv_sched sv)")
      note t = pool.tracks_withdraw[OF sv_inv_butD(1)[OF inv'] d]
      have nq: "\<not> queued_slot sv i" using False by (simp add: queued_slot_def)
      then have "(\<lambda>j. (queued_slot sv j \<and> j \<notin> {}) \<and> j \<noteq> i) = (\<lambda>j. queued_slot sv j \<and> j \<notin> {})" by auto
      with t(1) have "sv_inv (sv\<lparr>sv_sched := s'\<rparr>)" using sched_inv_but(1)[OF inv'] by (simp add: sv_inv_def)
      moreover have "\<not> d" using t(2) nq by simp
      ultimately show ?thesis using inv d by (auto simp: s cancel_loaded_def)
    qed
  qed
qed

lemma cancel_all_inv:
  "good_ctx cx \<Longrightarrow> sv_inv sv \<Longrightarrow> sv_inv (cancel_all cx ids sv)"
  by (induction ids arbitrary: sv)
    (auto simp: cancel_all_def cancel_registered_inv split: option.splits)

lemma tick_fold:
  assumes "good_ctx cx" "sv_inv_but (set ids \<union> P) sv" "\<forall>j\<in>P. \<not> queued_slot sv j"
  shows "sv_inv (foldl (\<lambda>v i. if i \<in> set (sv_registry v)
      then finish cx i TimedOut None None Complete det None v else v) sv ids)"
  using assms(2,3)
proof (induction ids arbitrary: sv P)
  case Nil
  then show ?case using sv_inv_drop by simp
next
  case (Cons i ids)
  let ?v = "if i \<in> set (sv_registry sv) then finish cx i TimedOut None None Complete det None sv else sv"
  have "sv_inv_but (set ids \<union> insert i P) ?v \<and> (\<forall>j\<in>insert i P. \<not> queued_slot ?v j)"
  proof (cases "i \<in> set (sv_registry sv)")
    case True
    have "queued_slot sv i \<Longrightarrow> i \<in> set (i # ids) \<union> P" by simp
    note f = finish_inv[OF assms(1) Cons.prems(1) True this, of TimedOut None None Complete det None]
    show ?thesis using f(1,2) Cons.prems(2) True by auto
  next
    case False
    then show ?thesis using Cons.prems by (auto simp: queued_slot_def)
  qed
  then show ?case using Cons.IH[of "insert i P" ?v] by simp
qed

lemma queue_tick_inv:
  assumes "good_ctx cx" "sv_inv sv"
  shows "sv_inv (queue_tick cx sv)"
proof -
  have inv': "sv_inv_but {} sv" using assms(2) by (simp add: sv_inv_def)
  obtain ids s' where e: "expire (cx_clock cx) (sv_sched sv) = (ids, s')"
    by (cases "expire (cx_clock cx) (sv_sched sv)")
  from pool.tracks_overdue(1)[OF sv_inv_butD(1)[OF inv'] e]
  have "sv_inv_but (set ids \<union> {}) (sv\<lparr>sv_sched := s'\<rparr>)" using sched_inv_but(1)[OF inv'] by simp
  from tick_fold[OF assms(1) this] show ?thesis by (simp add: queue_tick_def e)
qed

lemma sched_set_limits_ids [simp]:
  "active_ids (sched_set_limits l s) = active_ids s" "waiting_ids (sched_set_limits l s) = waiting_ids s"
  "ids_ok (sched_set_limits l s) = ids_ok s"
  by (simp_all add: sched_set_limits_def active_ids_def waiting_ids_def ids_ok_def ids_of_def)

lemma sv_set_limits_inv: "sv_inv sv \<Longrightarrow> sv_inv (sv_set_limits l sv)"
  using sched_inv_but(1)[of "{}" sv "{}" "sched_set_limits l (sv_sched sv)"]
  by (auto simp: sv_inv_def sv_set_limits_def sv_inv_but_def pool.tracks_def)

end
