(* ===== verification/Supervisor_Reach.thy ===== *)
theory Supervisor_Reach
  imports Supervisor_Steps
begin

text \<open>
  Starting a run and the phases of its worker keep the invariant; the step relation of the whole
  supervisor, and the invariant on every state it reaches.
\<close>

section \<open>Starting\<close>

lemma row_of_new:
  assumes "store_ok st" "run_insert h spec who boot now st = (Created i, st')"
  shows "i = RunId (st_next_id st)" "st_next_id st' = st_next_id st + 1"
    and "row_of st' j = (if j = i then Some (new_row h spec who boot now (st_next_id st)) else row_of st j)"
proof -
  have e: "i = RunId (st_next_id st)"
    "st' = st\<lparr>st_runs := st_runs st @ [new_row h spec who boot now (st_next_id st)],
              st_next_id := st_next_id st + 1\<rparr>"
    using assms(2) by (auto simp: run_insert_def split: option.splits if_splits)
  then show "i = RunId (st_next_id st)" "st_next_id st' = st_next_id st + 1" by simp_all
  have "\<forall>w\<in>set (st_runs st). w_id w \<noteq> st_next_id st" using assms(1) by (auto simp: store_ok_def)
  then have n: "find (\<lambda>w. w_id w = st_next_id st) (st_runs st) = None" by (simp add: find_None_iff)
  have app: "find Q (xs @ [y]) = (case find Q xs of None \<Rightarrow> if Q y then Some y else None | r \<Rightarrow> r)"
    for Q xs and y :: run_row
    by (induction xs) auto
  show "row_of st' j = (if j = i then Some (new_row h spec who boot now (st_next_id st)) else row_of st j)"
    using n by (cases j) (auto simp: row_of_def e app new_row_def split: option.splits)
qed

text \<open>A run just registered: queued in memory, not yet in the scheduler's books.\<close>

lemma register_inv:
  fixes env
  assumes inv: "sv_inv sv"
    and ins: "run_insert h spec (sv_identity sv) (sv_boot sv) now (sv_store sv) = (Created i, st)"
  defines "sv1 \<equiv> (set_slot i (slot_new spec env) (sv\<lparr>sv_store := st\<rparr>))\<lparr>sv_registry := sv_registry sv @ [i]\<rparr>"
  shows "sv_inv_but {i} sv1" "queued_slot sv1 i"
proof -
  have inv': "sv_inv_but {} sv" using inv by (simp add: sv_inv_def)
  note d = sv_inv_butD[OF inv']
  note r = row_of_new[OF d(3) ins]
  have "sv_slots sv j \<noteq> None \<Longrightarrow> run_id_int j < st_next_id (sv_store sv)" for j
    using d(2) unfolding registry_ok_def by blast
  from this[of i] have n1: "sv_slots sv i = None" unfolding r(1) run_id.sel by fastforce
  moreover have "sv_workers sv i = None" using d(2) n1 unfolding registry_ok_def by blast
  ultimately have new: "sv_slots sv i = None" "sv_workers sv i = None" by simp_all
  have nr: "i \<notin> set (sv_registry sv)" using d(2) new by (auto simp: registry_ok_def book_defs)
  have l: "worker_live sv1 = worker_live sv"
    using new by (auto simp: sv1_def worker_live_def fun_eq_iff)
  have q: "queued_slot sv1 j \<longleftrightarrow> queued_slot sv j \<or> j = i" for j
    using new nr by (auto simp: sv1_def queued_slot_def slot_new_def)
  show "queued_slot sv1 i" by (simp add: q)
  have "(\<lambda>j. queued_slot sv1 j \<and> j \<notin> {i}) = (\<lambda>j. queued_slot sv j \<and> j \<notin> {})"
  proof -
    have "\<not> queued_slot sv i" using nr by (simp add: queued_slot_def)
    then show ?thesis by (auto simp: q fun_eq_iff)
  qed
  then have "pool.tracks (worker_live sv1) (\<lambda>j. queued_slot sv1 j \<and> j \<notin> {i}) (sv_sched sv1)"
    using d(1) by (simp only: l) (simp add: sv1_def)
  moreover have "registry_ok sv1"
    unfolding registry_ok_def
  proof (intro conjI ballI allI impI)
    fix j assume "j \<in> set (sv_registry sv1)"
    then show "worker_live sv1 j \<or> queued_slot sv1 j"
      using d(2) unfolding registry_ok_def l q by (auto simp: sv1_def)
  next
    fix j x assume "sv_slots sv1 j = Some x \<and> j \<notin> set (sv_registry sv1)"
    then show "sl_state x = Finished" using d(2) by (auto simp: sv1_def registry_ok_def)
  next
    fix j assume "sv_slots sv1 j = None"
    then show "sv_workers sv1 j = None" using d(2) by (auto simp: sv1_def registry_ok_def split: if_splits)
  next
    fix j x p assume "sv_slots sv1 j = Some x \<and> sl_state x \<noteq> Finished \<and> sv_workers sv1 j = Some p"
    then show "worker_live sv1 j"
      using d(2) new unfolding l by (cases "j = i") (auto simp: sv1_def registry_ok_def)
  next
    fix j assume "sv_slots sv1 j \<noteq> None"
    then have "j = i \<or> run_id_int j < st_next_id (sv_store sv)"
      using d(2) by (auto simp: sv1_def registry_ok_def split: if_splits)
    then show "run_id_int j < st_next_id (sv_store sv1)" using r(1,2) by (auto simp: sv1_def)
  next
    show "distinct (sv_registry sv1)" using d(2) nr by (simp add: sv1_def registry_ok_def)
  qed
  moreover have "store_ok (sv_store sv1)"
  proof -
    have "sv_store sv1 = snd (run_insert h spec (sv_identity sv) (sv_boot sv) now (sv_store sv))"
      by (simp add: sv1_def ins)
    then show ?thesis using run_insert_ok[OF d(3)] by simp
  qed
  moreover have "agrees sv1"
    unfolding agrees_def
  proof (intro allI impI)
    fix j x assume x: "sv_slots sv1 j = Some x"
    show "\<exists>w. row_of (sv_store sv1) j = Some w \<and> row_agrees x w"
    proof (cases "j = i")
      case True
      then show ?thesis using x
        by (auto simp: sv1_def r(3) row_agrees_def slot_new_def new_row_def)
    next
      case False
      then show ?thesis using x d(4) by (simp add: sv1_def r(3) agrees_def)
    qed
  qed
  ultimately show "sv_inv_but {i} sv1" by (simp add: sv_inv_but_def)
qed

lemma event_inv:
  "sv_inv_but P sv \<Longrightarrow> sv_inv_but P (db_write cx (run_event_insert i rv k det now) sv)"
  by (rule db_write_inv) (simp_all add: sv_inv_but_def event_insert_ok)

lemma db_write_books [simp]:
  "queued_slot (db_write cx f sv) = queued_slot sv" "worker_live (db_write cx f sv) = worker_live sv"
  by (auto simp: book_defs fun_eq_iff)

text \<open>Starting the worker of a queued run that the scheduler has just admitted.\<close>

lemma spawn_inv:
  assumes thr: "cx_thread cx" and inv: "sv_inv_but {i} sv" and q: "queued_slot sv i"
    and tr: "pool.tracks (\<lambda>j. worker_live sv j \<or> j = i) (\<lambda>j. queued_slot sv j \<and> j \<noteq> i) s'"
  shows "sv_inv (spawn_worker cx i (sv\<lparr>sv_sched := s'\<rparr>))"
proof -
  note d = sv_inv_butD[OF inv]
  obtain sl where sl: "sv_slots sv i = Some sl" "sl_state sl = Queued" and r: "i \<in> set (sv_registry sv)"
    using q by (auto simp: queued_slot_def)
  define sv' where "sv' = spawn_worker cx i (sv\<lparr>sv_sched := s'\<rparr>)"
  have e: "sv_slots sv' = (sv_slots sv)(i := Some (sl\<lparr>sl_env := []\<rparr>))"
    "sv_workers sv' = (sv_workers sv)(i := Some PSpawned)" "sv_registry sv' = sv_registry sv"
    "sv_sched sv' = s'" "sv_store sv' = sv_store sv"
    using thr sl by (simp_all add: sv'_def spawn_worker_def)
  have l: "worker_live sv' j \<longleftrightarrow> worker_live sv j \<or> j = i" for j
    using sl r by (auto simp: worker_live_def e phase_state_def)
  have qq: "queued_slot sv' j \<longleftrightarrow> queued_slot sv j \<and> j \<noteq> i" for j
    by (auto simp: queued_slot_def e)
  have "pool.tracks (worker_live sv') (\<lambda>j. queued_slot sv' j \<and> j \<notin> {}) (sv_sched sv')"
    using tr unfolding pool.tracks_def by (simp add: l qq e)
  moreover have "registry_ok sv'"
    unfolding registry_ok_def
  proof (intro conjI ballI allI impI)
    fix j assume "j \<in> set (sv_registry sv')"
    then show "worker_live sv' j \<or> queued_slot sv' j"
      using d(2) unfolding registry_ok_def l qq e by blast
  next
    fix j x assume "sv_slots sv' j = Some x \<and> j \<notin> set (sv_registry sv')"
    then show "sl_state x = Finished" using d(2) r by (auto simp: e registry_ok_def split: if_splits)
  next
    fix j assume "sv_slots sv' j = None"
    then show "sv_workers sv' j = None" using d(2) by (auto simp: e registry_ok_def split: if_splits)
  next
    fix j x p assume "sv_slots sv' j = Some x \<and> sl_state x \<noteq> Finished \<and> sv_workers sv' j = Some p"
    then show "worker_live sv' j"
      using d(2) unfolding l by (cases "j = i") (auto simp: e registry_ok_def)
  next
    fix j assume "sv_slots sv' j \<noteq> None"
    then have "sv_slots sv j \<noteq> None" using sl by (auto simp: e split: if_splits)
    then show "run_id_int j < st_next_id (sv_store sv')" using d(2) by (simp add: e registry_ok_def)
  next
    show "distinct (sv_registry sv')" using d(2) by (simp add: e registry_ok_def)
  qed
  moreover have "agrees sv'"
  proof -
    have "row_agrees (sl\<lparr>sl_env := []\<rparr>) w = row_agrees sl w" for w by (simp add: row_agrees_def)
    then show ?thesis using d(4) sl(1) by (simp add: agrees_def e)
  qed
  ultimately show ?thesis using d(3) by (simp add: sv_inv_def sv_inv_but_def sv'_def[symmetric] e)
qed

lemma submit_ask:
  "submit i p m tmo now s = Some (a, s') \<longleftrightarrow> ask_submit i (p, m, tmo, now) s = Some (a, s')"
  by (simp add: ask_submit_def)

lemma admit_inv:
  assumes g: "good_ctx cx" and inv: "sv_inv_but {i} sv" and q: "queued_slot sv i"
    and sl: "sv_slots sv i = Some sl" and a: "admit cx i sl sv = Some (e, sv')"
  shows "sv_inv sv'"
proof -
  note d = sv_inv_butD[OF inv]
  define memory where "memory = (case rr_memory (resources (sl_spec sl)) of Some m \<Rightarrow> m
      | None \<Rightarrow> default_run_memory_bytes (s_limits (sv_sched sv)))"
  define req where "req = (project_key (sl_spec sl), memory, rr_queue_timeout (resources (sl_spec sl)), cx_clock cx)"
  have sub: "submit i (project_key (sl_spec sl)) memory (rr_queue_timeout (resources (sl_spec sl)))
      (cx_clock cx) (sv_sched sv) = ask_submit i req (sv_sched sv)"
    by (simp add: ask_submit_def req_def)
  obtain v s' where v: "ask_submit i req (sv_sched sv) = Some (v, s')"
    using a by (auto simp: admit_def Let_def sub memory_def[symmetric] split: option.splits)
  have nl: "\<not> worker_live sv i" using q live_not_queued by blast
  note t = pool.tracks_ask[OF d(1) nl _ v]
  have t': "pool.tracks (\<lambda>j. worker_live sv j \<or> admission_kind v = VStarted \<and> j = i)
      (\<lambda>j. queued_slot sv j \<and> j \<notin> {i} \<or> admission_kind v = VQueued \<and> j = i) s'"
    by (rule t) simp
  note body = a[unfolded admit_def Let_def memory_def[symmetric] sub v option.case prod.case]
  show ?thesis
  proof (cases v)
    case (AStart p)
    then have "pool.tracks (\<lambda>j. worker_live sv j \<or> j = i) (\<lambda>j. queued_slot sv j \<and> j \<noteq> i) s'"
      using t' by (simp add: admission_kind_def)
    from spawn_inv[OF _ inv q this] g body AStart show ?thesis by (auto simp: good_ctx_def)
  next
    case (AQueued p)
    have "(\<lambda>j. queued_slot sv j \<and> j \<notin> {i} \<or> admission_kind v = VQueued \<and> j = i)
        = (\<lambda>j. queued_slot sv j \<and> j \<notin> {})"
      using q AQueued by (auto simp: admission_kind_def)
    then have "sv_inv_but {} (sv\<lparr>sv_sched := s'\<rparr>)"
      using sched_inv_but(1)[OF inv, of "{}" s'] t' AQueued by (simp add: admission_kind_def)
    moreover have "same_core sl (sl\<lparr>sl_queued_at := qa, sl_detail := de\<rparr>)" for qa de
      by (simp add: same_core_def)
    ultimately have "sv_inv_but {} (set_slot i (sl\<lparr>sl_queued_at := qa, sl_detail := de\<rparr>) (sv\<lparr>sv_sched := s'\<rparr>))"
      for qa de using set_slot_inv(1) sl by simp
    from event_inv[OF this] body AQueued show ?thesis by (auto simp: sv_inv_def)
  next
    case (ARejected r)
    then have "sv_inv_but {i} (sv\<lparr>sv_sched := s'\<rparr>)"
      using sched_inv_but(1)[OF inv, of "{i}" s'] t' by (simp add: admission_kind_def)
    from finish_closes[OF g this] q body ARejected show ?thesis by (auto simp: queued_slot_def)
  qed
qed

lemma start_run_inv:
  assumes g: "good_ctx cx" and inv: "sv_inv sv" and s: "start_run h cx spec env sv = Some (r, sv')"
  shows "sv_inv sv'"
proof (cases "\<exists>i st. start_checks cx spec env = None
    \<and> run_insert h spec (sv_identity sv) (sv_boot sv) (cx_now cx) (sv_store sv) = (Created i, st)")
  case True
  then obtain i st where c: "start_checks cx spec env = None"
    and ins: "run_insert h spec (sv_identity sv) (sv_boot sv) (cx_now cx) (sv_store sv) = (Created i, st)"
    by blast
  have db: "cx_db cx" using g by (simp add: good_ctx_def)
  let ?sl = "slot_new spec env"
  let ?sv1 = "(set_slot i ?sl (sv\<lparr>sv_store := st\<rparr>))\<lparr>sv_registry := sv_registry sv @ [i]\<rparr>"
  let ?sv2 = "db_write cx (run_event_insert i 0 ''created'' None (cx_now cx)) ?sv1"
  note ri = register_inv[OF inv ins, of env]
  obtain e where "admit cx i ?sl ?sv2 = Some (e, sv')"
    using s c db by (auto simp: start_run_def ins Let_def split: option.splits)
  from admit_inv[OF g event_inv[OF ri(1)] _ _ this] ri(2) show ?thesis by simp
next
  case False
  then have "sv' = sv"
    using s by (auto simp: start_run_def split: option.splits if_splits prod.splits sum.splits run_insert.splits)
  then show ?thesis using inv by simp
qed

section \<open>The worker\<close>

lemma worker_begin_inv:
  assumes g: "good_ctx cx" and inv: "sv_inv sv" and w: "sv_workers sv i = Some PSpawned"
  shows "sv_inv (worker_begin cx i prep sv)"
proof -
  have inv': "sv_inv_but {} sv" using inv by (simp add: sv_inv_def)
  show ?thesis using inv' w
  proof (cases rule: worker_cases)
    case (over sl)
    then show ?thesis using set_phase_inv(1)[OF inv' over(1)]
      by (simp add: worker_begin_def transition_finished sv_inv_def)
  next
    case (live sl)
    let ?r = "transition cx i Starting Pending ''starting'' None sv"
    have "Starting \<in> phase_state PSpawned" by (simp add: phase_state_def)
    note t = transition_inv[OF g inv' live(3) w this, of Pending "''starting''" None]
    obtain sl' where sl': "sv_slots (snd ?r) i = Some sl'" "sl_state sl' = Starting" using t(5) by force
    have r: "i \<in> set (sv_registry (snd ?r))" "\<not> queued_slot (snd ?r) i" using t(4,7) live by simp_all
    have fin: "sv_inv (set_phase i PDone (finish cx i oc None None Complete de None (snd ?r)))" for oc de
    proof -
      note f = finish_inv[OF g t(2) r(1), of oc None None Complete de None]
      obtain x where x: "sv_slots (finish cx i oc None None Complete de None (snd ?r)) i = Some x"
        "sl_state x = Finished" using f(4) r(2) by blast
      show ?thesis using set_phase_inv(1)[OF f(1) x(1)] x(2) r(2) by (simp add: sv_inv_def)
    qed
    have go: "sv_inv (set_phase i PBegun (snd ?r))"
      using set_phase_inv(1)[OF t(2) sl'(1), of PBegun] sl'(2) t(3) live(3)
      by (simp add: sv_inv_def phase_state_def)
    show ?thesis using t(1) sl' fin go
      by (cases ?r) (simp add: worker_begin_def split: option.splits)
  qed
qed

text \<open>A quiet step changes only descriptive fields of the slot of \<open>i\<close> and descriptive
  columns of the store.\<close>

definition quiet :: "run_id \<Rightarrow> supervisor \<Rightarrow> supervisor \<Rightarrow> bool" where
  "quiet i sv sv' \<longleftrightarrow> sv_workers sv' = sv_workers sv \<and> sv_registry sv' = sv_registry sv
     \<and> sv_sched sv' = sv_sched sv
     \<and> (\<forall>sl. sv_slots sv i = Some sl \<longrightarrow> (\<exists>sl'. sv_slots sv' i = Some sl' \<and> same_core sl sl'))
     \<and> (\<forall>P. sv_inv_but P sv \<longrightarrow> sv_inv_but P sv' \<and> worker_live sv' = worker_live sv
           \<and> queued_slot sv' = queued_slot sv)"

lemma same_core_trans: "same_core a b \<Longrightarrow> same_core b c \<Longrightarrow> same_core a c"
  by (simp add: same_core_def)

lemma quiet_refl: "quiet i sv sv"
  by (simp add: quiet_def same_core_def)

lemma quiet_trans:
  assumes "quiet i a b" "quiet i b c"
  shows "quiet i a c"
proof -
  have "\<exists>z. sv_slots c i = Some z \<and> same_core x z" if x: "sv_slots a i = Some x" for x
  proof -
    obtain y where y: "sv_slots b i = Some y" "same_core x y" using assms(1) x unfolding quiet_def by blast
    then obtain z where "sv_slots c i = Some z" "same_core y z" using assms(2) unfolding quiet_def by blast
    then show ?thesis using y(2) same_core_trans by blast
  qed
  then show ?thesis using assms by (auto simp: quiet_def)
qed

lemma quiet_slot:
  assumes "sv_slots sv i = Some sl" "same_core sl sl'"
  shows "quiet i sv (set_slot i sl' sv)"
  using set_slot_inv[OF _ assms] assms by (auto simp: quiet_def)

lemma quiet_db:
  assumes "\<And>st. store_ok st \<Longrightarrow> store_ok (f st)" "\<And>st. st_next_id (f st) = st_next_id st"
    and "\<And>st j sl. (\<exists>w. row_of st j = Some w \<and> row_agrees sl w) \<Longrightarrow>
        (\<exists>w. row_of (f st) j = Some w \<and> row_agrees sl w)"
  shows "quiet i sv (db_write cx f sv)"
proof -
  have "sv_inv_but P sv \<Longrightarrow> sv_inv_but P (db_write cx f sv)" for P
    by (rule db_write_inv) (use assms in \<open>simp_all add: sv_inv_but_def\<close>)
  then show ?thesis by (auto simp: quiet_def same_core_def)
qed

lemma quiet_record_leader: "quiet i sv (record_leader cx i who sv)"
proof (cases "who = None \<or> sv_slots sv i = None")
  case True
  then show ?thesis by (auto simp: record_leader_def quiet_refl split: option.splits)
next
  case False
  then obtain w sl where w: "who = Some w" "sv_slots sv i = Some sl" by auto
  have "same_core sl (remember w sl)" by (simp add: remember_def same_core_def)
  note a = quiet_slot[OF w(2) this]
  have "quiet i v (db_write cx (\<lambda>st. run_set_leader i w (cx_now cx)
      (run_record_process i w ''leader'' (cx_now cx) st)) v)" for v
    by (rule quiet_db) (simp_all add: run_set_ok row_of_setters)
  then show ?thesis using quiet_trans[OF a] by (simp add: record_leader_def w)
qed

lemma quiet_sample_one: "quiet i sv (sample_one cx i pgid sv w)"
proof (cases "sv_slots sv i")
  case None
  then show ?thesis by (simp add: sample_one_def quiet_refl)
next
  case (Some sl)
  have "same_core sl (remember w sl)" by (simp add: remember_def same_core_def)
  note a = quiet_slot[OF Some this]
  have "quiet i v (db_write cx (run_record_process i w role (cx_now cx)) v)" for v role
    by (rule quiet_db) (simp_all add: run_set_ok)
  then show ?thesis using quiet_trans[OF a] by (simp add: sample_one_def Some quiet_refl)
qed

lemma quiet_sample_fold: "quiet i sv (foldl (sample_one cx i pgid) sv members)"
  by (induction members arbitrary: sv) (auto simp: quiet_refl intro: quiet_trans[OF quiet_sample_one])

lemma quiet_sample_group: "quiet i sv (sample_group cx i pgid t sv)"
  by (simp add: sample_group_def quiet_sample_fold)

lemma quiet_record_sample: "quiet i sv (record_sample i limit u sv)"
  by (auto simp: record_sample_def same_core_def intro!: quiet_refl quiet_slot split: option.splits)

lemma quiet_inv: "quiet i sv sv' \<Longrightarrow> sv_inv sv \<Longrightarrow> sv_inv sv'"
  by (simp add: quiet_def sv_inv_def)

lemma finish_done_inv:
  assumes g: "good_ctx cx" and inv: "sv_inv sv" and w: "sv_workers sv i = Some p"
  shows "sv_inv (set_phase i PDone (finish cx i oc ec sg cl det timing sv))"
proof -
  have inv': "sv_inv_but {} sv" using inv by (simp add: sv_inv_def)
  show ?thesis using inv' w
  proof (cases rule: worker_cases)
    case (over sl)
    have "finish cx i oc ec sg cl det timing sv = set_slot i sl sv"
      using over by (simp add: finish_def finish_on_def is_terminal_def)
    moreover have "set_slot i sl sv = sv" using over(1) by (simp add: set_slot_def fun_upd_idem)
    ultimately show ?thesis using set_phase_inv(1)[OF inv' over(1)] over(2) by (simp add: sv_inv_def)
  next
    case (live sl)
    then have "queued_slot sv i \<Longrightarrow> i \<in> {}" by simp
    note f = finish_inv[OF g inv' live(5) this, of oc ec sg cl det timing]
    obtain x where x: "sv_slots (finish cx i oc ec sg cl det timing sv) i = Some x" "sl_state x = Finished"
      using f(4) live(6) by blast
    show ?thesis using set_phase_inv(1)[OF f(1) x(1)] x(2) live(6) by (simp add: sv_inv_def)
  qed
qed

text \<open>A quiet step, then a transition to the state of the next phase.\<close>

lemma advance_inv:
  assumes g: "good_ctx cx" and inv: "sv_inv sv" and w: "sv_workers sv i = Some p"
    and q: "quiet i sv sv1" and st: "st \<in> phase_state p" "st \<in> phase_state p'"
  shows "sv_inv (set_phase i p' (snd (transition cx i st cl kind det sv1)))"
    and "sv_inv (snd (transition cx i st cl kind det sv1))"
    and "sv_workers (snd (transition cx i st cl kind det sv1)) i = Some p"
proof -
  have inv': "sv_inv_but {} sv1" using quiet_inv[OF q inv] by (simp add: sv_inv_def)
  have w1: "sv_workers sv1 i = Some p" using q w by (simp add: quiet_def)
  have "sv_inv (set_phase i p' (snd (transition cx i st cl kind det sv1)))
      \<and> sv_inv (snd (transition cx i st cl kind det sv1))
      \<and> sv_workers (snd (transition cx i st cl kind det sv1)) i = Some p"
    using inv' w1
  proof (cases rule: worker_cases)
    case (over sl)
    then show ?thesis using set_phase_inv(1)[OF inv' over(1)] inv' w1
      by (simp add: transition_finished sv_inv_def)
  next
    case (live sl)
    note t = transition_inv[OF g inv' live(3) w1 st(1), of cl kind det]
    obtain x where x: "sv_slots (snd (transition cx i st cl kind det sv1)) i = Some x" "sl_state x = st"
      using t(5) by force
    show ?thesis using set_phase_inv(1)[OF t(2) x(1), of p'] x(2) st(2) t(2,3,6) live(3) w1
      by (simp add: sv_inv_def)
  qed
  then show "sv_inv (set_phase i p' (snd (transition cx i st cl kind det sv1)))"
    "sv_inv (snd (transition cx i st cl kind det sv1))"
    "sv_workers (snd (transition cx i st cl kind det sv1)) i = Some p" by simp_all
qed

lemma worker_spawn_inv:
  assumes g: "good_ctx cx" and inv: "sv_inv sv" and w: "sv_workers sv i = Some PBegun"
  shows "sv_inv (worker_spawn cx i wd sv)"
proof (cases "sv_slots sv i")
  case None
  then show ?thesis using inv by (simp add: worker_spawn_def)
next
  case (Some sl)
  note fail = finish_done_inv[OF g inv w, of SpawnFailed None None Complete _ None]
  have ok: "sv_inv (set_phase i PRunning (snd (transition cx i Running Pending ''running'' None
      (record_leader cx i who (db_write cx (run_set_effective i eff wait)
        (set_slot i (sl\<lparr>sl_queue_wait := wait, sl_effective_set := True, sl_pgid := Some pg\<rparr>) sv))))))"
    for who eff wait pg
  proof (rule advance_inv[OF g inv w])
    have "same_core sl (sl\<lparr>sl_queue_wait := wait, sl_effective_set := True, sl_pgid := Some pg\<rparr>)"
      by (simp add: same_core_def)
    note a = quiet_slot[OF Some this]
    have b: "quiet i v (db_write cx (run_set_effective i eff wait) v)" for v
      by (rule quiet_db) (simp_all add: run_set_ok row_of_setters)
    show "quiet i sv (record_leader cx i who (db_write cx (run_set_effective i eff wait)
        (set_slot i (sl\<lparr>sl_queue_wait := wait, sl_effective_set := True, sl_pgid := Some pg\<rparr>) sv)))"
      by (rule quiet_trans[OF quiet_trans[OF a b] quiet_record_leader])
  qed (simp_all add: phase_state_def)
  show ?thesis using fail ok
    by (auto simp: worker_spawn_def Some Let_def split: sum.splits prod.splits bool.splits)
qed

lemma worker_stop_inv:
  assumes g: "good_ctx cx" and inv: "sv_inv sv" and w: "sv_workers sv i = Some PRunning"
    and s: "worker_stop cx i reason alive active wd sv = (cl, acts, sv')"
  shows "sv_inv sv'"
proof -
  have inv': "sv_inv_but {} sv" using inv by (simp add: sv_inv_def)
  have run: "Stopping \<in> phase_state PRunning" by (simp add: phase_state_def)
  have stop: "sv_inv (set_phase i PStopped (snd (snd (stop_group cx i pg forced active wd sv))))" for pg forced
  proof -
    define t where "t = snd (transition cx i Stopping Pending (if forced then ''timeout'' else ''stop'') None sv)"
    note a = advance_inv(2,3)[OF g inv w quiet_refl run run,
        of Pending "if forced then ''timeout'' else ''stop''" None, folded t_def]
    have q: "quiet i t (sample_group cx i pg (so_sample wd) t)" by (rule quiet_sample_group)
    have t2: "sv_inv_but {} (sample_group cx i pg (so_sample wd) t)"
      using quiet_inv[OF q a(1)] by (simp add: sv_inv_def)
    have w2: "sv_workers (sample_group cx i pg (so_sample wd) t) i = Some PRunning"
      using q a(2) by (simp add: quiet_def)
    have "sv_inv (set_phase i PStopped (sample_group cx i pg (so_sample wd) t))"
      using t2 w2 by (cases rule: worker_cases)
        (use set_phase_inv(1)[OF t2, of i _ PStopped] in \<open>auto simp: sv_inv_def phase_state_def\<close>)
    moreover have "snd (snd (stop_group cx i pg forced active wd sv)) = sample_group cx i pg (so_sample wd) t"
      by (simp add: stop_group_def Let_def t_def split: prod.splits)
    ultimately show ?thesis by simp
  qed
  have quiet: "sv_inv (set_phase i PStopped sv)"
    using inv' w by (cases rule: worker_cases)
      (use set_phase_inv(1)[OF inv', of i _ PStopped] in \<open>auto simp: sv_inv_def phase_state_def\<close>)
  show ?thesis
  proof (cases "Option.bind (sv_slots sv i) sl_pgid")
    case None
    then show ?thesis using s inv by (simp add: worker_stop_def)
  next
    case (Some pg)
    then show ?thesis using s stop[of pg] quiet
      by (auto simp: worker_stop_def split: prod.splits if_splits) (metis snd_conv)+
  qed
qed

lemma worker_end_inv:
  assumes g: "good_ctx cx" and inv: "sv_inv sv" and w: "sv_workers sv i = Some PStopped"
  shows "sv_inv (worker_end cx i reason st oom cl timing sv)"
proof (cases "sv_slots sv i")
  case None
  then show ?thesis using inv by (simp add: worker_end_def)
next
  case (Some sl)
  define sl1 where "sl1 = (if oom > 0 then sl\<lparr>sl_limit_event := Some (oom_event oom)\<rparr> else sl)"
  have "same_core sl sl1" by (simp add: same_core_def sl1_def)
  note inv1 = quiet_inv[OF quiet_slot[OF Some this] inv]
  have "sv_workers (set_slot i sl1 sv) i = Some PStopped" using w by simp
  note fin = finish_done_inv[OF g inv1 this]
  show ?thesis unfolding worker_end_def Some option.case Let_def sl1_def[symmetric]
    by (cases "status_codes st") (simp add: fin)
qed

section \<open>The step relation\<close>

text \<open>What the supervisor can do next, while the database answers and threads can be created.\<close>

inductive sv_step :: "(u8 list \<Rightarrow> string) \<Rightarrow> supervisor \<Rightarrow> supervisor \<Rightarrow> bool" for h where
  step_start: "good_ctx cx \<Longrightarrow> start_run h cx spec env sv = Some (r, sv') \<Longrightarrow> sv_step h sv sv'"
| step_tick: "good_ctx cx \<Longrightarrow> sv_step h sv (queue_tick cx sv)"
| step_cancel: "good_ctx cx \<Longrightarrow> cancel cx i sv = Inr (b, sv') \<Longrightarrow> sv_step h sv sv'"
| step_cancel_all: "good_ctx cx \<Longrightarrow> sv_step h sv (cancel_all cx ids sv)"
| step_limits: "sv_step h sv (sv_set_limits l sv)"
| step_begin: "good_ctx cx \<Longrightarrow> sv_workers sv i = Some PSpawned \<Longrightarrow> sv_step h sv (worker_begin cx i prep sv)"
| step_spawn: "good_ctx cx \<Longrightarrow> sv_workers sv i = Some PBegun \<Longrightarrow> sv_step h sv (worker_spawn cx i w sv)"
| step_sample: "good_ctx cx \<Longrightarrow> sv_workers sv i = Some PRunning
    \<Longrightarrow> sv_step h sv (record_sample i limit (group_usage_of t2 pgid) (sample_group cx i pgid t sv))"
| step_stop: "good_ctx cx \<Longrightarrow> sv_workers sv i = Some PRunning
    \<Longrightarrow> worker_stop cx i reason alive active sw sv = (cl, acts, sv') \<Longrightarrow> sv_step h sv sv'"
| step_end: "good_ctx cx \<Longrightarrow> sv_workers sv i = Some PStopped
    \<Longrightarrow> sv_step h sv (worker_end cx i reason st oom cl timing sv)"

inductive sv_reach :: "(u8 list \<Rightarrow> string) \<Rightarrow> supervisor \<Rightarrow> bool" for h where
  sv_init: "store_ok st \<Longrightarrow> sv_reach h (sv_new l st boot who used)"
| sv_next: "sv_reach h sv \<Longrightarrow> sv_step h sv sv' \<Longrightarrow> sv_reach h sv'"

inductive_cases sv_stepE: "sv_step h sv sv'"

lemma sv_new_inv: "store_ok st \<Longrightarrow> sv_inv (sv_new l st boot who used)"
  by (auto simp: sv_inv_def sv_inv_but_def sv_new_def registry_ok_def agrees_def book_defs pool.tracks_def
      sched_new_def active_ids_def waiting_ids_def ids_ok_def ids_of_def)

lemma sv_step_inv: "sv_step h sv sv' \<Longrightarrow> sv_inv sv \<Longrightarrow> sv_inv sv'"
proof (induction rule: sv_step.induct)
  case (step_sample cx sv i limit t2 pgid t)
  show ?case
    by (rule quiet_inv[OF quiet_trans[OF quiet_sample_group quiet_record_sample] step_sample(3)])
next
  case (step_stop cx sv i reason alive active sw cl acts sv')
  then show ?case using worker_stop_inv by blast
qed (auto intro: start_run_inv queue_tick_inv cancel_inv cancel_all_inv sv_set_limits_inv
      worker_begin_inv worker_spawn_inv worker_end_inv)

lemma sv_reach_inv: "sv_reach h sv \<Longrightarrow> sv_inv sv"
  by (induction rule: sv_reach.induct) (auto intro: sv_new_inv sv_step_inv)

end
