(* ===== verification/Supervisor_Props.thy ===== *)
theory Supervisor_Props
  imports Supervisor_Reach
begin

text \<open>
  The properties of the supervisor: its books, the agreement of memory and store, the lifecycle,
  cancellation, reservations, stopping, recovery, and what an unanswered database write costs.
\<close>

section \<open>A small supervisor\<close>

definition tiny_hash :: "u8 list \<Rightarrow> string" where
  "tiny_hash b = map (\<lambda>w. char_of (unat w)) b"

definition tiny_limits :: limits where
  "tiny_limits = limits_default\<lparr>max_parallel := 1\<rparr>"

definition tiny_cx :: ctx where
  "tiny_cx = \<lparr>cx_clock = 5, cx_now = 1000, cx_macos = False, cx_cgroup = False, cx_db = True, cx_thread = True\<rparr>"

definition tiny_sv0 :: supervisor where
  "tiny_sv0 = sv_new tiny_limits store_empty (BootId 7) ''me'' 0"

definition tiny_run :: "string \<Rightarrow> run_spec" where
  "tiny_run k = spec_new k [''make''] ''/p''"

definition tiny_sv1 :: supervisor where
  "tiny_sv1 = snd (the (start_run tiny_hash tiny_cx (tiny_run ''a'') [] tiny_sv0))"

definition tiny_sv2 :: supervisor where
  "tiny_sv2 = snd (the (start_run tiny_hash tiny_cx (tiny_run ''b'') [] tiny_sv1))"

lemma tiny_good: "good_ctx tiny_cx"
  by (simp add: good_ctx_def tiny_cx_def)

lemmas tiny_defs = tiny_limits_def tiny_cx_def tiny_sv0_def tiny_run_def sv_new_def store_empty_def
  sched_new_def limits_default_def spec_new_def

lemmas start_eval = start_run_def start_checks_def starts_with_def env_bytes_def check_capabilities_def
  resource_default_def MAX_ENV_BYTES_def run_insert_def admit_def submit_def can_admit_def slots_free_def
  project_slots_free_def reserved_def slot_new_def spawn_worker_def set_slot_def set_phase_def db_write_def
  run_event_insert_def project_key_def new_row_def

lemma tiny_result_a:
  "map_option fst (start_run tiny_hash tiny_cx (tiny_run ''a'') [] tiny_sv0) = Some (Inr (RunId 1, True))"
  by (simp add: start_eval tiny_defs word_le_nat_alt word_less_nat_alt)

lemma tiny_sv1_parts:
  "sv_registry tiny_sv1 = [RunId 1]" "sv_workers tiny_sv1 = (\<lambda>_. None)(RunId 1 := Some PSpawned)"
  "sv_sched tiny_sv1 = \<lparr>s_limits = tiny_limits, s_running = [\<lparr>r_id = RunId 1, r_project = ''/p'',
     r_memory = 512 * 1024 * 1024\<rparr>], s_queue = [], s_held = []\<rparr>"
  "map w_request_id (st_runs (sv_store tiny_sv1)) = [''a'']" "st_next_id (sv_store tiny_sv1) = 2"
  by (simp_all add: tiny_sv1_def start_eval tiny_defs word_le_nat_alt word_less_nat_alt)

lemma tiny_result_b:
  "map_option fst (start_run tiny_hash tiny_cx (tiny_run ''b'') [] tiny_sv1) = Some (Inr (RunId 2, True))"
  and tiny_sv2_parts:
  "sv_registry tiny_sv2 = [RunId 1, RunId 2]" "sv_workers tiny_sv2 = (\<lambda>_. None)(RunId 1 := Some PSpawned)"
  "map r_id (s_running (sv_sched tiny_sv2)) = [RunId 1]" "map q_id (s_queue (sv_sched tiny_sv2)) = [RunId 2]"
  "map_option sl_state (sv_slots tiny_sv2 (RunId 2)) = Some Queued"
  "map_option sl_queued_at (sv_slots tiny_sv2 (RunId 2)) = Some (Some 5)"
proof -
  note p = tiny_sv1_parts
  obtain w where w: "st_runs (sv_store tiny_sv1) = [w]" "w_request_id w = ''a''"
    using p(4) by (auto simp: map_eq_Cons_conv)
  note e = start_eval tiny_defs Let_def w p duration_add_def duration_max_def from_secs_def word_le_nat_alt
  show "map_option fst (start_run tiny_hash tiny_cx (tiny_run ''b'') [] tiny_sv1) = Some (Inr (RunId 2, True))"
    by (simp add: e)
  show "sv_registry tiny_sv2 = [RunId 1, RunId 2]" "sv_workers tiny_sv2 = (\<lambda>_. None)(RunId 1 := Some PSpawned)"
    "map r_id (s_running (sv_sched tiny_sv2)) = [RunId 1]" "map q_id (s_queue (sv_sched tiny_sv2)) = [RunId 2]"
    "map_option sl_state (sv_slots tiny_sv2 (RunId 2)) = Some Queued"
    "map_option sl_queued_at (sv_slots tiny_sv2 (RunId 2)) = Some (Some 5)"
    by (simp_all add: tiny_sv2_def e)
qed

lemma tiny_sv2_slot:
  "\<exists>sl. sv_slots tiny_sv2 (RunId 2) = Some sl \<and> sl_queued_at sl = Some 5"
  using tiny_sv2_parts(6) by auto

lemma tiny_start:
  "start_run tiny_hash tiny_cx (tiny_run ''a'') [] tiny_sv0 = Some (Inr (RunId 1, True), tiny_sv1)"
  "start_run tiny_hash tiny_cx (tiny_run ''b'') [] tiny_sv1 = Some (Inr (RunId 2, True), tiny_sv2)"
  using tiny_result_a tiny_result_b by (auto simp: tiny_sv1_def tiny_sv2_def)

lemma tiny_reach: "sv_reach tiny_hash tiny_sv0" "sv_reach tiny_hash tiny_sv1" "sv_reach tiny_hash tiny_sv2"
proof -
  show r0: "sv_reach tiny_hash tiny_sv0" unfolding tiny_sv0_def by (rule sv_init) simp
  show r1: "sv_reach tiny_hash tiny_sv1" by (rule sv_next[OF r0 step_start[OF tiny_good tiny_start(1)]])
  show "sv_reach tiny_hash tiny_sv2" by (rule sv_next[OF r1 step_start[OF tiny_good tiny_start(2)]])
qed

section \<open>The books\<close>

lemma books:
  assumes "sv_inv sv"
  shows "active_ids (sv_sched sv) = {i. worker_live sv i}" "waiting_ids (sv_sched sv) = {i. queued_slot sv i}"
    "set (sv_registry sv) = active_ids (sv_sched sv) \<union> waiting_ids (sv_sched sv)"
proof -
  have inv: "sv_inv_but {} sv" using assms by (simp add: sv_inv_def)
  show t: "active_ids (sv_sched sv) = {i. worker_live sv i}" "waiting_ids (sv_sched sv) = {i. queued_slot sv i}"
    using sv_inv_butD(1)[OF inv] by (auto simp: pool.tracks_def)
  have "i \<in> set (sv_registry sv) \<longleftrightarrow> worker_live sv i \<or> queued_slot sv i" for i
    using sv_inv_butD(2)[OF inv] by (auto simp: registry_ok_def book_defs)
  then show "set (sv_registry sv) = active_ids (sv_sched sv) \<union> waiting_ids (sv_sched sv)" using t by auto
qed

text \<open>C1: In every reachable state the scheduler's running ids are exactly the runs with a live worker
  thread, and its waiting ids exactly the queued runs that have none: no slot is lost and no run holds
  a slot it is not using.\<close>

theorem books_match_scheduler:
  assumes "sv_reach h sv"
  shows "active_ids (sv_sched sv) = {i. worker_live sv i} \<and> waiting_ids (sv_sched sv) = {i. queued_slot sv i}
    \<and> set (sv_registry sv) = active_ids (sv_sched sv) \<union> waiting_ids (sv_sched sv)"
  using books[OF sv_reach_inv[OF assms]] by blast

theorem books_match_scheduler_witness:
  "{i. worker_live tiny_sv2 i} = {RunId 1} \<and> {i. queued_slot tiny_sv2 i} = {RunId 2}"
proof -
  have "active_ids (sv_sched tiny_sv2) = {RunId 1}" "waiting_ids (sv_sched tiny_sv2) = {RunId 2}"
    using arg_cong[OF tiny_sv2_parts(3), of set] arg_cong[OF tiny_sv2_parts(4), of set]
    by (simp_all add: active_ids_def waiting_ids_def)
  then show ?thesis using books_match_scheduler[OF tiny_reach(3)] by simp
qed

text \<open>The number of active runs the supervisor reports (which decides whether it may exit when
  idle) is the number of running plus the number of queued requests of the scheduler.\<close>

theorem active_runs_counts:
  assumes "sv_reach h sv"
  shows "active_runs sv = running_count (sv_sched sv) + queued_count (sv_sched sv)"
proof -
  have inv: "sv_inv_but {} sv" using sv_reach_inv[OF assms] by (simp add: sv_inv_def)
  note d = sv_inv_butD[OF inv]
  let ?s = "sv_sched sv"
  have ids: "distinct (ids_of ?s)" using d(1) by (simp add: pool.tracks_def ids_ok_def)
  have "set (ids_of ?s) = set (sv_registry sv)"
    using books(3)[OF sv_reach_inv[OF assms]] by (simp add: ids_of_def active_ids_def waiting_ids_def)
  then have "length (ids_of ?s) = length (sv_registry sv)"
    using ids d(2) distinct_card[of "ids_of ?s"] distinct_card[of "sv_registry sv"]
    by (simp add: registry_ok_def)
  moreover have "filter (\<lambda>i. case sv_slots sv i of None \<Rightarrow> False | Some sl \<Rightarrow> \<not> is_terminal (sl_state sl))
      (sv_registry sv) = sv_registry sv"
    by (rule filter_True) (auto simp: is_terminal_def elim!: registered_unfinished[OF d(2)])
  ultimately show ?thesis
    by (simp add: active_runs_def ids_of_def running_count_def queued_count_def)
qed

theorem active_runs_counts_witness: "active_runs tiny_sv2 = 2"
proof -
  have "running_count (sv_sched tiny_sv2) = 1" "queued_count (sv_sched tiny_sv2) = 1"
    using arg_cong[OF tiny_sv2_parts(3), of length] arg_cong[OF tiny_sv2_parts(4), of length]
    by (simp_all add: running_count_def queued_count_def)
  then show ?thesis using active_runs_counts[OF tiny_reach(3)] by simp
qed



section \<open>Cancelling\<close>

text \<open>Cancelling a queued run of a reachable state finishes it at once as cancelled with complete
  cleanup, starts nothing, takes it out of the queue and leaves the scheduler's running set as it was.\<close>

theorem cancel_queued_never_spawns:
  assumes "sv_reach h sv" "good_ctx cx" "i \<in> waiting_ids (sv_sched sv)"
  shows "\<exists>sv' sl res. cancel cx i sv = Inr (True, sv') \<and> sv_workers sv' = sv_workers sv
    \<and> active_ids (sv_sched sv') = active_ids (sv_sched sv)
    \<and> waiting_ids (sv_sched sv') = waiting_ids (sv_sched sv) - {i}
    \<and> sv_slots sv' i = Some sl \<and> sl_state sl = Finished \<and> sl_result sl = Some res
    \<and> outcome res = Cancelled \<and> cleanup res = Complete \<and> exit_code res = None
    \<and> reserved (sv_sched sv') = reserved (sv_sched sv)"
proof -
  have inv: "sv_inv sv" using sv_reach_inv[OF assms(1)] .
  have q: "queued_slot sv i" using books(2)[OF inv] assms(3) by auto
  then obtain sl where sl: "sv_slots sv i = Some sl" "sl_state sl = Queued" and r: "i \<in> set (sv_registry sv)"
    by (auto simp: queued_slot_def)
  have tr: "pool.tracks (worker_live sv) (\<lambda>j. queued_slot sv j \<and> j \<notin> {}) (sv_sched sv)"
    using inv by (simp add: sv_inv_def sv_inv_but_def)
  obtain b s' where c: "cancel_queued i (sv_sched sv) = (b, s')" by (cases "cancel_queued i (sv_sched sv)")
  have b: b using pool.tracks_withdraw(2)[OF tr c] q by simp
  note t = pool.tracks_withdraw(1)[OF tr c]
  have act: "active_ids s' = active_ids (sv_sched sv)" "waiting_ids s' = waiting_ids (sv_sched sv) - {i}"
    using t books[OF inv] by (auto simp: pool.tracks_def)
  have "i \<notin> active_ids s'" using act(1) books(1)[OF inv] q live_not_queued by auto
  then have rel: "release i False (cx_clock cx) s' = ([], s')"
    by (cases rule: release_cases[of i False "cx_clock cx" s', OF surjective_pairing[of "release i False (cx_clock cx) s'"]])
      (auto simp: active_ids_def prod_eq_iff)
  have res: "reserved s' = reserved (sv_sched sv)"
    using c by (auto simp: cancel_queued_def Let_def reserved_def)
  let ?d = "finish cx i Cancelled None None Complete (Some ''cancelled while queued'') None (sv\<lparr>sv_sched := s'\<rparr>)"
  have step: "cancel cx i sv = Inr (True, ?d)"
    using sl r c b by (simp add: cancel_def slot_or_load_def cancel_registered_def is_terminal_def)
  have db: "cx_db cx" using assms(2) by (simp add: good_ctx_def)
  have fin: "sv_workers ?d = sv_workers sv" "sv_sched ?d = s'"
    "\<exists>x y. sv_slots ?d i = Some x \<and> sl_state x = Finished \<and> sl_result x = Some y \<and> outcome y = Cancelled
      \<and> cleanup y = Complete \<and> exit_code y = None"
    using sl rel db by (simp_all add: finish_def finish_on_def is_terminal_def finish_result_def
        start_admitted_def db_write_def Let_def)
  then show ?thesis using step act res by auto
qed

theorem cancel_queued_never_spawns_witness:
  "\<exists>sv'. cancel tiny_cx (RunId 2) tiny_sv2 = Inr (True, sv') \<and> sv_workers sv' (RunId 2) = None"
proof -
  have "RunId 2 \<in> waiting_ids (sv_sched tiny_sv2)"
    using arg_cong[OF tiny_sv2_parts(4), of set] by (simp add: waiting_ids_def)
  from cancel_queued_never_spawns[OF tiny_reach(3) tiny_good this] show ?thesis
    using tiny_sv2_parts(2) by auto
qed

section \<open>Monitoring and stopping\<close>

text \<open>What makes one turn of the monitoring loop the last.\<close>

definition fires :: "u64 option \<Rightarrow> duration \<Rightarrow> tick \<Rightarrow> bool" where
  "fires limit tmo t \<longleftrightarrow> tk_status t \<noteq> None \<or> over_limit limit (tk_sample t) \<or> tk_cancel t \<or> tk_elapsed t \<ge> tmo"

definition reason_of :: "u64 option \<Rightarrow> tick \<Rightarrow> run_outcome option" where
  "reason_of limit t =
    (if tk_status t \<noteq> None then None else if over_limit limit (tk_sample t) then Some ResourceLimit
     else if tk_cancel t then Some Cancelled else Some TimedOut)"

text \<open>The monitoring loop ends: a turn at which the elapsed time has reached the timeout is the last
  one at the latest.  It ends exactly at the first turn at which the leader exited, a due sample crossed
  the memory limit, the cancel flag is set or the timeout is over, and with the reason of the first of
  these in this order; an exit seen in the same turn always wins.\<close>

theorem monitor_loop_ends:
  assumes "t \<in> set ts" "tk_elapsed t \<ge> tmo"
  shows "\<exists>t1\<in>set ts. find (fires limit tmo) ts = Some t1 \<and> fires limit tmo t1
    \<and> monitor_loop limit tmo ts = Some (reason_of limit t1, tk_status t1)"
proof -
  have "find (fires limit tmo) ts \<noteq> None" using assms by (auto simp: find_None_iff fires_def)
  then obtain t1 where t1: "find (fires limit tmo) ts = Some t1" by auto
  then have "monitor_loop limit tmo ts = Some (reason_of limit t1, tk_status t1)"
  proof (induction ts)
    case (Cons x xs)
    then show ?case by (cases "tk_status x") (auto simp: fires_def reason_of_def split: if_splits)
  qed simp
  then show ?thesis using t1 by (auto simp: find_Some_iff)
qed

theorem monitor_loop_ends_witness:
  "monitor_loop (Some 10) 8
     [\<lparr>tk_status = None, tk_sample = Some \<lparr>gu_processes = 1, gu_memory = 10\<rparr>, tk_cancel = False, tk_elapsed = 2\<rparr>,
      \<lparr>tk_status = None, tk_sample = Some \<lparr>gu_processes = 2, gu_memory = 11\<rparr>, tk_cancel = True, tk_elapsed = 9\<rparr>]
   = Some (Some ResourceLimit, None)"
  using monitor_loop_ends[of "\<lparr>tk_status = None, tk_sample = Some \<lparr>gu_processes = 2, gu_memory = 11\<rparr>,
      tk_cancel = True, tk_elapsed = 9\<rparr>"
    "[\<lparr>tk_status = None, tk_sample = Some \<lparr>gu_processes = 1, gu_memory = 10\<rparr>, tk_cancel = False, tk_elapsed = 2\<rparr>,
      \<lparr>tk_status = None, tk_sample = Some \<lparr>gu_processes = 2, gu_memory = 11\<rparr>, tk_cancel = True, tk_elapsed = 9\<rparr>]"
    8 "Some 10"]
  by (simp add: fires_def reason_of_def over_limit_def word_less_nat_alt)


definition table_one :: proc_table where
  "table_one = \<lparr>pt_names = [''1'', ''42'', ''self''],
     pt_stat = (\<lambda>p. if p = 42 then Some ''42 (sh) S 1 42 42 0'' else None),
     pt_proc = (\<lambda>p. if p = 42 then Some \<lparr>pe_start = 9, pe_rss = 3\<rparr> else None)\<rparr>"


end
