(* ===== verification/Supervisor_Life.thy ===== *)
theory Supervisor_Life
  imports Supervisor_Props
begin

text \<open>
  The lifecycle of a run over the steps of the supervisor: a slot only moves forward, a finished one
  does not change any more, and a reservation that outlives its run has a reason.
\<close>

section \<open>Moving forward\<close>

definition state_rank :: "run_state \<Rightarrow> nat" where
  "state_rank s = (case s of Queued \<Rightarrow> 0 | Starting \<Rightarrow> 1 | Running \<Rightarrow> 2 | Stopping \<Rightarrow> 3 | Finished \<Rightarrow> 4)"

definition forward :: "run_slot \<Rightarrow> run_slot \<Rightarrow> bool" where
  "forward a b \<longleftrightarrow> sl_spec a = sl_spec b \<and> state_rank (sl_state a) \<le> state_rank (sl_state b)
     \<and> sl_revision a \<le> sl_revision b
     \<and> (sl_state a \<noteq> sl_state b \<longrightarrow> sl_revision a < sl_revision b)
     \<and> (sl_state a = Finished \<longrightarrow> sl_state b = Finished \<and> sl_revision a = sl_revision b
          \<and> sl_result a = sl_result b \<and> sl_cleanup a = sl_cleanup b)"

definition unclean :: "supervisor \<Rightarrow> run_id \<Rightarrow> bool" where
  "unclean sv i \<longleftrightarrow> (\<exists>sl. sv_slots sv i = Some sl \<and> sl_state sl = Finished \<and> sl_cleanup sl \<noteq> Complete)"

definition moves :: "supervisor \<Rightarrow> supervisor \<Rightarrow> bool" where
  "moves sv sv' \<longleftrightarrow> (\<forall>i a. sv_slots sv i = Some a \<longrightarrow> (\<exists>b. sv_slots sv' i = Some b \<and> forward a b))
     \<and> (\<forall>r\<in>set (s_held (sv_sched sv')). r \<in> set (s_held (sv_sched sv)) \<or> unclean sv' (r_id r))"

lemma rank_finished [simp]: "state_rank s \<le> state_rank Finished"
  by (cases s) (simp_all add: state_rank_def)

lemma forward_core: "same_core a b \<Longrightarrow> forward a b"
  by (auto simp: same_core_def forward_def)

lemma forward_refl: "forward a a"
  by (simp add: forward_def)

lemma forward_trans: "forward a b \<Longrightarrow> forward b c \<Longrightarrow> forward a c"
  by (auto simp: forward_def)

lemma moves_slots: "moves sv sv' \<Longrightarrow> sv_slots sv i = Some a \<Longrightarrow> \<exists>b. sv_slots sv' i = Some b \<and> forward a b"
  by (simp add: moves_def)

lemma moves_unclean: "moves sv sv' \<Longrightarrow> unclean sv i \<Longrightarrow> unclean sv' i"
  by (fastforce simp: unclean_def forward_def dest: moves_slots)

lemma moves_trans:
  assumes "moves a b" "moves b c"
  shows "moves a c"
proof -
  have "\<exists>z. sv_slots c i = Some z \<and> forward x z" if x: "sv_slots a i = Some x" for i x
    using moves_slots[OF assms(1) x] moves_slots[OF assms(2)] forward_trans by blast
  moreover have "r \<in> set (s_held (sv_sched a)) \<or> unclean c (r_id r)" if "r \<in> set (s_held (sv_sched c))" for r
    using assms that moves_unclean[OF assms(2)] unfolding moves_def by blast
  ultimately show ?thesis by (simp add: moves_def)
qed

lemma moves_same:
  assumes "sv_slots sv' = sv_slots sv" "set (s_held (sv_sched sv')) \<subseteq> set (s_held (sv_sched sv))"
  shows "moves sv sv'"
  using assms by (auto simp: moves_def forward_refl)

lemma moves_set:
  assumes "\<And>a. sv_slots sv i = Some a \<Longrightarrow> forward a b" "sv_slots sv' = (sv_slots sv)(i := Some b)"
    "sv_sched sv' = sv_sched sv"
  shows "moves sv sv'"
  using assms by (auto simp: moves_def forward_refl)

lemmas moves_refl = moves_same[OF refl order_refl]

section \<open>Every operation\<close>

lemma moves_db: "moves sv (db_write cx f sv)"
  by (rule moves_same) simp_all

lemma moves_phase: "moves sv (set_phase i p sv)"
  by (rule moves_same) simp_all

lemma moves_core: "sv_slots sv i = Some a \<Longrightarrow> same_core a b \<Longrightarrow> moves sv (set_slot i b sv)"
  by (rule moves_set[of sv i b]) (auto intro: forward_core)

lemma moves_spawn_worker: "moves sv (spawn_worker cx i sv)"
proof (cases "sv_slots sv i")
  case (Some sl)
  have "moves sv (set_slot i (sl\<lparr>sl_env := []\<rparr>) sv)" by (rule moves_core[OF Some]) (simp add: same_core_def)
  then show ?thesis using moves_trans[OF _ moves_phase] by (simp add: spawn_worker_def Some Let_def)
qed (simp add: spawn_worker_def moves_phase moves_refl)

lemma moves_start_admitted: "moves sv (start_admitted cx ids sv)"
proof (induction ids arbitrary: sv)
  case Nil
  then show ?case by (simp add: start_admitted_def moves_refl)
next
  case (Cons j ids)
  let ?v = "case sv_slots sv j of None \<Rightarrow> sv | Some sl \<Rightarrow> set_slot j (sl\<lparr>sl_detail := None\<rparr>) sv"
  have "moves sv ?v"
    by (auto intro!: moves_refl moves_core simp: same_core_def split: option.splits)
  then have "moves sv (spawn_worker cx j ?v)" using moves_trans moves_spawn_worker by blast
  then have "moves sv (if j \<in> set (sv_registry sv) then spawn_worker cx j ?v else sv)"
    using moves_refl by simp
  then show ?case using moves_trans Cons.IH unfolding start_admitted_def by (simp only: foldl_Cons)
qed

lemma start_admitted_sched: "sv_sched (start_admitted cx ids sv) = sv_sched sv"
proof (induction ids arbitrary: sv)
  case (Cons j ids)
  have "sv_sched (spawn_worker cx j v) = sv_sched v" for v
    by (simp add: spawn_worker_def Let_def split: option.splits)
  then show ?case using Cons.IH by (simp add: start_admitted_def split: option.splits)
qed (simp add: start_admitted_def)

lemma drain_held: "drain t s = (ids, s') \<Longrightarrow> s_held s' = s_held s"
proof (induction rule: drain_induct)
  case (pick s i s1 ids s')
  then show ?case by (metis pick_next_Some scheduler.simps(4) scheduler.update_convs(3)
        scheduler.select_convs(4) scheduler.surjective scheduler.update_convs(2))
qed simp

lemma release_held:
  assumes "release i hold t s = (ids, s')" "r \<in> set (s_held s')"
  shows "r \<in> set (s_held s) \<or> hold \<and> r_id r = i"
  using assms(1)
proof (cases rule: release_cases)
  case absent
  then show ?thesis using assms(2) by simp
next
  case (present x s1)
  have "s_held s' = s_held s1" by (rule drain_held[OF present(5)])
  then show ?thesis using assms(2) present(2,4) by (auto split: if_splits)
qed

lemma moves_finish: "moves sv (finish cx i oc ec sg cl det timing sv)"
proof (cases "sv_slots sv i")
  case None
  then show ?thesis by (simp add: finish_def moves_refl)
next
  case (Some sl)
  show ?thesis
  proof (cases "sl_state sl = Finished")
    case True
    then show ?thesis using moves_core[OF Some, of sl] Some
      by (simp add: finish_def finish_on_def is_terminal_def same_core_def)
  next
    case False
    obtain ids s' where r: "release i (cl \<noteq> Complete) (cx_clock cx) (sv_sched sv) = (ids, s')"
      by (cases "release i (cl \<noteq> Complete) (cx_clock cx) (sv_sched sv)")
    obtain res logs where fr: "finish_result cx sl oc ec sg cl det timing = (res, logs)"
      by (cases "finish_result cx sl oc ec sg cl det timing")
    let ?sl = "sl\<lparr>sl_revision := sl_revision sl + 1, sl_state := Finished, sl_cleanup := cl, sl_result := Some res\<rparr>"
    let ?v = "(db_write cx (finish_store cx i ?sl res logs) sv)
                \<lparr>sv_registry := filter (\<lambda>j. j \<noteq> i) (sv_registry sv), sv_sched := s'\<rparr>"
    have e: "finish cx i oc ec sg cl det timing sv = set_slot i ?sl (start_admitted cx ids ?v)"
      using Some False r fr by (simp add: finish_def finish_on_def is_terminal_def Let_def)
    note m = moves_start_admitted[of ?v cx ids]
    have fw: "forward sl ?sl" using False by (simp add: forward_def)
    have "\<exists>b. sv_slots (set_slot i ?sl (start_admitted cx ids ?v)) j = Some b \<and> forward a b"
      if a: "sv_slots sv j = Some a" for j a
      using moves_slots[OF m, of j a] a Some fw by (cases "j = i") auto
    moreover have "r \<in> set (s_held (sv_sched sv)) \<or> unclean (set_slot i ?sl (start_admitted cx ids ?v)) (r_id r)"
      if h: "r \<in> set (s_held (sv_sched (set_slot i ?sl (start_admitted cx ids ?v))))" for r
    proof -
      have "r \<in> set (s_held s') \<or> unclean (start_admitted cx ids ?v) (r_id r)"
        using m h unfolding moves_def by simp
      moreover have "sv_sched (start_admitted cx ids ?v) = s'" by (simp add: start_admitted_sched)
      ultimately have "r \<in> set (s_held s')" using h by simp
      then show ?thesis using release_held[OF r] by (auto simp: unclean_def)
    qed
    ultimately show ?thesis unfolding e moves_def by blast
  qed
qed

lemma moves_transition:
  assumes "\<And>sl. sv_slots sv i = Some sl \<Longrightarrow> sl_state sl \<noteq> Finished \<Longrightarrow>
      state_rank (sl_state sl) \<le> state_rank st"
  shows "moves sv (snd (transition cx i st cl kind det sv))"
proof (cases "sv_slots sv i")
  case None
  then show ?thesis by (simp add: transition_def moves_refl)
next
  case (Some sl)
  show ?thesis
  proof (cases "sl_state sl = Finished")
    case True
    then show ?thesis by (simp add: transition_finished[OF Some] moves_refl)
  next
    case False
    let ?sl = "sl\<lparr>sl_revision := sl_revision sl + 1, sl_state := st, sl_cleanup := cl,
        sl_detail := (case det of Some d \<Rightarrow> Some d | None \<Rightarrow> sl_detail sl)\<rparr>"
    have "forward sl ?sl" using assms[OF Some False] False by (simp add: forward_def)
    then show ?thesis
      by (intro moves_set[of sv i ?sl])
        (use Some False in \<open>simp_all add: transition_def is_terminal_def Let_def split: prod.splits\<close>)
  qed
qed

lemma moves_phase_transition:
  assumes "sv_inv sv" "sv_workers sv i = Some p" "\<And>s. s \<in> phase_state p \<Longrightarrow> state_rank s \<le> state_rank st"
    and "sv_workers sv1 = sv_workers sv" "\<And>P. sv_inv_but P sv \<Longrightarrow> sv_inv_but P sv1"
  shows "moves sv1 (snd (transition cx i st cl kind det sv1))"
proof (rule moves_transition)
  fix sl assume sl: "sv_slots sv1 i = Some sl" "sl_state sl \<noteq> Finished"
  have "sv_inv_but {} sv1" "sv_workers sv1 i = Some p" using assms(1,2,4,5) by (simp_all add: sv_inv_def)
  then show "state_rank (sl_state sl) \<le> state_rank st"
    by (cases rule: worker_cases) (use sl assms(3) in auto)
qed

lemma submit_held: "submit i p m tmo now s = Some (a, s') \<Longrightarrow> s_held s' = s_held s"
  by (auto simp: submit_def Let_def split: if_splits option.splits)

lemma cancel_held: "cancel_queued i s = (b, s') \<Longrightarrow> s_held s' = s_held s"
  by (auto simp: cancel_queued_def Let_def)

lemma moves_sched: "set (s_held s') \<subseteq> set (s_held (sv_sched sv)) \<Longrightarrow> moves sv (sv\<lparr>sv_sched := s'\<rparr>)"
  by (rule moves_same) simp_all

lemma moves_admit:
  assumes "admit cx i sl sv = Some (e, sv')" "sv_slots sv i = Some sl"
  shows "moves sv sv'"
proof -
  define memory where "memory = (case rr_memory (resources (sl_spec sl)) of Some m \<Rightarrow> m
      | None \<Rightarrow> default_run_memory_bytes (s_limits (sv_sched sv)))"
  obtain v s' where v: "submit i (project_key (sl_spec sl)) memory (rr_queue_timeout (resources (sl_spec sl)))
      (cx_clock cx) (sv_sched sv) = Some (v, s')"
    using assms(1) by (auto simp: admit_def Let_def memory_def[symmetric] split: option.splits)
  note body = assms(1)[unfolded admit_def Let_def memory_def[symmetric] v option.case prod.case]
  have m: "moves sv (sv\<lparr>sv_sched := s'\<rparr>)" by (rule moves_sched) (simp add: submit_held[OF v])
  show ?thesis
  proof (cases v)
    case (AStart p)
    then show ?thesis using body moves_trans[OF m moves_spawn_worker] by auto
  next
    case (AQueued p)
    have "moves (sv\<lparr>sv_sched := s'\<rparr>) (set_slot i (sl\<lparr>sl_queued_at := qa, sl_detail := de\<rparr>) (sv\<lparr>sv_sched := s'\<rparr>))"
      for qa de by (rule moves_core) (simp_all add: assms(2) same_core_def)
    then show ?thesis using body AQueued moves_trans[OF moves_trans[OF m] moves_db] by auto
  next
    case (ARejected r)
    then show ?thesis using body moves_trans[OF m moves_finish] by auto
  qed
qed

lemma moves_start_run:
  assumes inv: "sv_inv sv" and db: "cx_db cx" and s: "start_run h cx spec env sv = Some (r, sv')"
  shows "moves sv sv'"
proof (cases "\<exists>i st. start_checks cx spec env = None
    \<and> run_insert h spec (sv_identity sv) (sv_boot sv) (cx_now cx) (sv_store sv) = (Created i, st)")
  case True
  then obtain i st where c: "start_checks cx spec env = None"
    and ins: "run_insert h spec (sv_identity sv) (sv_boot sv) (cx_now cx) (sv_store sv) = (Created i, st)"
    by blast
  let ?sl = "slot_new spec env"
  let ?sv1 = "(set_slot i ?sl (sv\<lparr>sv_store := st\<rparr>))\<lparr>sv_registry := sv_registry sv @ [i]\<rparr>"
  let ?sv2 = "db_write cx (run_event_insert i 0 ''created'' None (cx_now cx)) ?sv1"
  have inv': "sv_inv_but {} sv" using inv by (simp add: sv_inv_def)
  note d = sv_inv_butD[OF inv']
  have "sv_slots sv j \<noteq> None \<Longrightarrow> run_id_int j < st_next_id (sv_store sv)" for j
    using d(2) unfolding registry_ok_def by blast
  then have new: "sv_slots sv i = None" using row_of_new(1)[OF d(3) ins] by fastforce
  obtain e where a: "admit cx i ?sl ?sv2 = Some (e, sv')"
    using s c db by (auto simp: start_run_def ins Let_def split: option.splits)
  have "moves sv ?sv1" using new by (intro moves_set[of sv i ?sl]) auto
  from moves_trans[OF moves_trans[OF this moves_db] moves_admit[OF a]] show ?thesis by simp
next
  case False
  then have "sv' = sv"
    using s by (auto simp: start_run_def split: option.splits if_splits prod.splits sum.splits run_insert.splits)
  then show ?thesis by (simp add: moves_refl)
qed

lemma moves_queue_tick: "moves sv (queue_tick cx sv)"
proof -
  obtain ids s' where e: "expire (cx_clock cx) (sv_sched sv) = (ids, s')"
    by (cases "expire (cx_clock cx) (sv_sched sv)")
  have m: "moves v (foldl (\<lambda>v i. if i \<in> set (sv_registry v)
      then finish cx i TimedOut None None Complete de None v else v) v ids)" for v ids de
  proof (induction ids arbitrary: v)
    case (Cons i ids)
    have "moves v (if i \<in> set (sv_registry v) then finish cx i TimedOut None None Complete de None v else v)"
      by (simp add: moves_finish moves_refl)
    from moves_trans[OF this Cons.IH] show ?case by simp
  qed (simp add: moves_refl)
  have "moves sv (sv\<lparr>sv_sched := s'\<rparr>)" using e by (intro moves_sched) (auto simp: expire_def)
  from moves_trans[OF this m] show ?thesis by (simp add: queue_tick_def e)
qed

lemma moves_cancel_registered: "sv_slots sv i = Some sl \<Longrightarrow> moves sv (cancel_registered cx i sl sv)"
proof -
  assume sl: "sv_slots sv i = Some sl"
  obtain b s' where c: "(if sl_state sl = Queued then cancel_queued i (sv_sched sv) else (False, sv_sched sv)) = (b, s')"
    by fastforce
  have "set (s_held s') \<subseteq> set (s_held (sv_sched sv))" using c cancel_held by (fastforce split: if_splits)
  note m = moves_sched[OF this]
  have "moves (sv\<lparr>sv_sched := s'\<rparr>) (set_slot i (sl\<lparr>sl_cancel := True\<rparr>) (sv\<lparr>sv_sched := s'\<rparr>))"
    by (rule moves_core) (simp_all add: sl same_core_def)
  from moves_trans[OF m this] show ?thesis using moves_trans[OF m moves_finish] c
    by (auto simp: cancel_registered_def moves_refl)
qed

lemma moves_cancel: "sv_inv sv \<Longrightarrow> cancel cx i sv = Inr (b, sv') \<Longrightarrow> moves sv sv'"
proof -
  assume inv: "sv_inv sv" and c: "cancel cx i sv = Inr (b, sv')"
  obtain x where x: "slot_or_load i sv = Inr x" using c by (cases "slot_or_load i sv") (auto simp: cancel_def)
  show ?thesis
  proof (cases "i \<in> set (sv_registry sv)")
    case True
    then show ?thesis using c x moves_cancel_registered moves_refl
      by (auto simp: cancel_def slot_or_load_def split: option.splits)
  next
    case False
    then have "i \<notin> waiting_ids (sv_sched sv)" using books(3)[OF inv] by blast
    then have "\<not> fst (cancel_queued i (sv_sched sv))"
      by (auto simp: cancel_queued_def Let_def waiting_ids_def image_iff)
         (metis (mono_tags, lifting) filter_True)
    moreover have "moves sv (sv\<lparr>sv_sched := snd (cancel_queued i (sv_sched sv))\<rparr>)"
      by (rule moves_sched) (use cancel_held[of i "sv_sched sv"] in \<open>cases "cancel_queued i (sv_sched sv)"; auto\<close>)
    ultimately have "sl_state sl \<noteq> Finished \<Longrightarrow> moves sv (cancel_loaded cx i sl sv)" for sl
      by (cases "cancel_queued i (sv_sched sv)") (auto simp: cancel_loaded_def is_terminal_def moves_refl)
    moreover have "sl_state sl = Finished \<Longrightarrow> moves sv (cancel_loaded cx i sl sv)" for sl
      by (simp add: cancel_loaded_def is_terminal_def moves_refl)
    ultimately show ?thesis using c x False moves_refl by (auto simp: cancel_def split: option.splits)
  qed
qed

lemma moves_cancel_all: "moves sv (cancel_all cx ids sv)"
proof (induction ids arbitrary: sv)
  case (Cons i ids)
  let ?v = "case sv_slots sv i of None \<Rightarrow> sv | Some sl \<Rightarrow> cancel_registered cx i sl sv"
  have "moves sv ?v" using moves_cancel_registered moves_refl by (auto split: option.splits)
  from moves_trans[OF this Cons.IH] show ?case by (simp add: cancel_all_def)
qed (simp add: cancel_all_def moves_refl)

lemma moves_record_leader: "moves sv (record_leader cx i who sv)"
proof (cases "who = None \<or> sv_slots sv i = None")
  case True
  then show ?thesis by (auto simp: record_leader_def moves_refl split: option.splits)
next
  case False
  then obtain w sl where w: "who = Some w" "sv_slots sv i = Some sl" by auto
  have "moves sv (set_slot i (remember w sl) sv)"
    by (rule moves_core[OF w(2)]) (simp add: remember_def same_core_def)
  from moves_trans[OF this moves_db] show ?thesis by (simp add: record_leader_def w)
qed

lemma moves_sample_group: "moves sv (sample_group cx i pgid t sv)"
proof -
  have one: "moves v (sample_one cx i pgid v w)" for v w
  proof (cases "sv_slots v i")
    case (Some sl)
    have "moves v (set_slot i (remember w sl) v)"
      by (rule moves_core[OF Some]) (simp add: remember_def same_core_def)
    from moves_trans[OF this moves_db] show ?thesis by (simp add: sample_one_def Some moves_refl)
  qed (simp add: sample_one_def moves_refl)
  have "moves v (foldl (sample_one cx i pgid) v ms)" for v ms
    by (induction ms arbitrary: v) (auto simp: moves_refl intro: moves_trans[OF one])
  then show ?thesis by (simp add: sample_group_def)
qed

lemma moves_record_sample: "moves sv (record_sample i limit u sv)"
proof (cases "sv_slots sv i")
  case (Some sl)
  then show ?thesis unfolding record_sample_def Some option.case
    by (intro moves_core[OF Some]) (auto simp: same_core_def split: option.splits)
qed (simp add: record_sample_def moves_refl)

lemma moves_worker_begin:
  assumes "sv_inv sv" "sv_workers sv i = Some PSpawned"
  shows "moves sv (worker_begin cx i prep sv)"
proof -
  let ?r = "transition cx i Starting Pending ''starting'' None sv"
  have t: "moves sv (snd ?r)"
    by (rule moves_phase_transition[OF assms]) (auto simp: phase_state_def state_rank_def)
  have "moves sv (set_phase i p (snd ?r))" for p by (rule moves_trans[OF t moves_phase])
  moreover have "moves sv (set_phase i p (finish cx i oc None None Complete de None (snd ?r)))" for p oc de
    by (rule moves_trans[OF moves_trans[OF t moves_finish] moves_phase])
  ultimately show ?thesis
    by (cases ?r) (simp add: worker_begin_def split: option.splits)
qed

lemma moves_worker_spawn:
  assumes inv: "sv_inv sv" and w: "sv_workers sv i = Some PBegun"
  shows "moves sv (worker_spawn cx i wd sv)"
proof (cases "sv_slots sv i")
  case None
  then show ?thesis by (simp add: worker_spawn_def moves_refl)
next
  case (Some sl)
  have fail: "moves sv (set_phase i PDone (finish cx i SpawnFailed None None Complete de None sv))" for de
    by (rule moves_trans[OF moves_finish moves_phase])
  have ok: "moves sv (set_phase i PRunning (snd (transition cx i Running Pending ''running'' None
      (record_leader cx i who (db_write cx (run_set_effective i eff wait)
        (set_slot i (sl\<lparr>sl_queue_wait := wait, sl_effective_set := True, sl_pgid := Some pg\<rparr>) sv))))))"
    for who eff wait pg
  proof -
    let ?sl = "sl\<lparr>sl_queue_wait := wait, sl_effective_set := True, sl_pgid := Some pg\<rparr>"
    let ?v = "record_leader cx i who (db_write cx (run_set_effective i eff wait) (set_slot i ?sl sv))"
    have core: "same_core sl ?sl" by (simp add: same_core_def)
    note a = quiet_slot[OF Some core]
    have b: "quiet i v (db_write cx (run_set_effective i eff wait) v)" for v
      by (rule quiet_db) (simp_all add: run_set_ok row_of_setters)
    have q: "quiet i sv ?v" by (rule quiet_trans[OF quiet_trans[OF a b] quiet_record_leader])
    have m: "moves sv ?v"
      by (rule moves_trans[OF moves_trans[OF moves_core[OF Some core] moves_db] moves_record_leader])
    have t: "moves ?v (snd (transition cx i Running Pending ''running'' None ?v))"
      by (rule moves_phase_transition[OF inv w]) (use q in \<open>auto simp: quiet_def phase_state_def state_rank_def\<close>)
    show ?thesis by (rule moves_trans[OF moves_trans[OF m t] moves_phase])
  qed
  show ?thesis using fail ok
    by (auto simp: worker_spawn_def Some Let_def split: sum.splits prod.splits bool.splits)
qed

lemma moves_worker_stop:
  assumes inv: "sv_inv sv" and w: "sv_workers sv i = Some PRunning"
    and s: "worker_stop cx i reason alive active wd sv = (cl, acts, sv')"
  shows "moves sv sv'"
proof -
  have stop: "moves sv (set_phase i PStopped (snd (snd (stop_group cx i pg forced active wd sv))))" for pg forced
  proof -
    define t where "t = snd (transition cx i Stopping Pending (if forced then ''timeout'' else ''stop'') None sv)"
    have "moves sv t" unfolding t_def
      by (rule moves_phase_transition[OF inv w]) (auto simp: phase_state_def state_rank_def)
    note m = moves_trans[OF moves_trans[OF this moves_sample_group] moves_phase]
    have "snd (snd (stop_group cx i pg forced active wd sv)) = sample_group cx i pg (so_sample wd) t"
      by (simp add: stop_group_def Let_def t_def split: prod.splits)
    then show ?thesis using m by simp
  qed
  show ?thesis
  proof (cases "Option.bind (sv_slots sv i) sl_pgid")
    case None
    then show ?thesis using s by (simp add: worker_stop_def moves_refl)
  next
    case (Some pg)
    then show ?thesis using s stop[of pg] moves_phase
      by (auto simp: worker_stop_def split: prod.splits if_splits) (metis snd_conv)+
  qed
qed

lemma moves_worker_end: "moves sv (worker_end cx i reason st oom cl timing sv)"
proof (cases "sv_slots sv i")
  case None
  then show ?thesis by (simp add: worker_end_def moves_refl)
next
  case (Some sl)
  define sl1 where "sl1 = (if oom > 0 then sl\<lparr>sl_limit_event := Some (oom_event oom)\<rparr> else sl)"
  have "moves sv (set_slot i sl1 sv)" by (rule moves_core[OF Some]) (simp add: same_core_def sl1_def)
  then have "moves sv (set_phase i PDone (finish cx i oc ec sg cl de (Some timing) (set_slot i sl1 sv)))"
    for oc ec sg de by (rule moves_trans[OF moves_trans[OF _ moves_finish] moves_phase])
  then show ?thesis unfolding worker_end_def Some option.case Let_def sl1_def[symmetric]
    by (cases "status_codes st") simp
qed

lemma sv_step_moves: "sv_step h sv sv' \<Longrightarrow> sv_inv sv \<Longrightarrow> moves sv sv'"
proof (induction rule: sv_step.induct)
  case (step_sample cx sv i limit t2 pgid t)
  show ?case by (rule moves_trans[OF moves_sample_group moves_record_sample])
next
  case (step_limits sv l)
  show ?case by (simp add: sv_set_limits_def moves_sched sched_set_limits_def)
qed (auto intro: moves_start_run moves_queue_tick moves_cancel moves_cancel_all moves_worker_begin
      moves_worker_spawn moves_worker_stop moves_worker_end simp: good_ctx_def)

section \<open>Properties\<close>

text \<open>C2: No step takes a run back: its state only moves towards finished (queued, starting, running,
  stopping, finished), every change of state raises its revision, and once it has finished its state,
  revision, result and cleanup never change again.\<close>

theorem lifecycle_forward:
  assumes "sv_reach h sv" "sv_step h sv sv'" "sv_slots sv i = Some a"
  shows "\<exists>b. sv_slots sv' i = Some b \<and> state_rank (sl_state a) \<le> state_rank (sl_state b)
    \<and> (if sl_state a = sl_state b then sl_revision a \<le> sl_revision b else sl_revision a < sl_revision b)
    \<and> (sl_state a = Finished \<longrightarrow> sl_revision a = sl_revision b
          \<and> sl_result a = sl_result b \<and> sl_cleanup a = sl_cleanup b)"
  using moves_slots[OF sv_step_moves[OF assms(2) sv_reach_inv[OF assms(1)]] assms(3)]
  by (auto simp: forward_def)

lemma tiny_begin: "sv_step tiny_hash tiny_sv2 (worker_begin tiny_cx (RunId 1) None tiny_sv2)"
  by (rule step_begin[OF tiny_good]) (simp add: tiny_sv2_parts)

theorem lifecycle_forward_witness:
  "\<exists>b. sv_slots (worker_begin tiny_cx (RunId 1) None tiny_sv2) (RunId 2) = Some b
    \<and> state_rank Queued \<le> state_rank (sl_state b)"
proof -
  obtain a where "sv_slots tiny_sv2 (RunId 2) = Some a" "sl_state a = Queued" using tiny_sv2_parts(5) by auto
  then show ?thesis using lifecycle_forward[OF tiny_reach(3) tiny_begin] by metis
qed

text \<open>In every reachable state, memory is only held back for runs that have finished without confirmed
  cleanup: a finished run whose processes are known to be gone never keeps its reservation.\<close>

theorem held_only_for_unclean:
  assumes "sv_reach h sv" "r \<in> set (s_held (sv_sched sv))"
  shows "\<exists>sl. sv_slots sv (r_id r) = Some sl \<and> sl_state sl = Finished \<and> sl_cleanup sl \<noteq> Complete"
proof -
  have "\<forall>r\<in>set (s_held (sv_sched sv)). unclean sv (r_id r)"
    using assms(1)
  proof (induction rule: sv_reach.induct)
    case (sv_init st l boot who used)
    then show ?case by (simp add: sv_new_def sched_new_def)
  next
    case (sv_next sv sv')
    note m = sv_step_moves[OF sv_next(2) sv_reach_inv[OF sv_next(1)]]
    show ?case using m sv_next(3) moves_unclean[OF m] unfolding moves_def by blast
  qed
  then show ?thesis using assms(2) by (auto simp: unclean_def)
qed

section \<open>A run that leaves processes behind\<close>

text \<open>One run taken through its phases: what each step leaves, on any reachable state.\<close>

lemma begin_effect:
  assumes "sv_reach h sv" "good_ctx cx" "sv_workers sv i = Some PSpawned" "worker_live sv i"
    and "sv_slots sv i = Some sl" "\<not> sl_cancel sl"
  defines "sv' \<equiv> worker_begin cx i None sv"
  shows "sv_reach h sv'" "sv_workers sv' i = Some PBegun" "sv_sched sv' = sv_sched sv"
    and "\<exists>sl'. sv_slots sv' i = Some sl' \<and> sl_state sl' = Starting \<and> sl_known sl' = sl_known sl
      \<and> sl_spec sl' = sl_spec sl"
proof -
  have inv: "sv_inv_but {} sv" using sv_reach_inv[OF assms(1)] by (simp add: sv_inv_def)
  show "sv_reach h sv'" unfolding sv'_def by (rule sv_next[OF assms(1) step_begin[OF assms(2,3)]])
  have "Starting \<in> phase_state PSpawned" by (simp add: phase_state_def)
  note t = transition_inv[OF assms(2) inv assms(4,3) this, of Pending "''starting''" None]
  let ?r = "transition cx i Starting Pending ''starting'' None sv"
  obtain sl' where sl': "sv_slots (snd ?r) i = Some sl'" "sl_state sl' = Starting"
    "sl_known sl' = sl_known sl" "sl_cancel sl' = sl_cancel sl" "sl_spec sl' = sl_spec sl"
    using t(5) assms(5) by force
  have e: "sv' = set_phase i PBegun (snd ?r)"
    using t(1) sl' assms(6) by (cases ?r) (simp add: sv'_def worker_begin_def)
  show "sv_workers sv' i = Some PBegun" "sv_sched sv' = sv_sched sv" by (simp_all add: e t(8))
  show "\<exists>sl'. sv_slots sv' i = Some sl' \<and> sl_state sl' = Starting \<and> sl_known sl' = sl_known sl
      \<and> sl_spec sl' = sl_spec sl"
    using sl' by (simp add: e)
qed

lemma finish_sched:
  assumes "sv_slots sv i = Some sl" "sl_state sl \<noteq> Finished"
  shows "sv_sched (finish cx i oc ec sg cl det timing sv) = snd (release i (cl \<noteq> Complete) (cx_clock cx) (sv_sched sv))"
  using assms by (cases "release i (cl \<noteq> Complete) (cx_clock cx) (sv_sched sv)")
    (simp add: finish_def finish_on_def is_terminal_def Let_def start_admitted_sched split: prod.splits)

definition empty_table :: proc_table where
  "empty_table = \<lparr>pt_names = [], pt_stat = (\<lambda>_. None), pt_proc = (\<lambda>_. None)\<rparr>"

definition tiny_spawn :: spawn_world where
  "tiny_spawn = \<lparr>sw_cgroup = Inr (False, None), sw_spawn = Inr 42, sw_leader = None\<rparr>"

definition tiny_stop :: stop_world where
  "tiny_stop = \<lparr>so_sample = empty_table, so_check = empty_table, so_grace_polls = [],
     so_later = empty_table, so_kill_polls = []\<rparr>"

definition tiny_sv3 :: supervisor where "tiny_sv3 = worker_begin tiny_cx (RunId 1) None tiny_sv1"
definition tiny_sv4 :: supervisor where "tiny_sv4 = worker_spawn tiny_cx (RunId 1) tiny_spawn tiny_sv3"
definition tiny_sv5 :: supervisor where
  "tiny_sv5 = snd (snd (worker_stop tiny_cx (RunId 1) (Some TimedOut) (True, False) False tiny_stop tiny_sv4))"
definition tiny_sv6 :: supervisor where
  "tiny_sv6 = worker_end tiny_cx (RunId 1) (Some TimedOut) None 0 Unknown (1, 2, log_state_default) tiny_sv5"

lemma tiny_sv1_slot:
  "\<exists>sl. sv_slots tiny_sv1 (RunId 1) = Some sl \<and> sl_state sl = Queued \<and> \<not> sl_cancel sl \<and> sl_known sl = []
    \<and> sl_queued_at sl = None"
  by (simp add: tiny_sv1_def start_eval tiny_defs word_le_nat_alt word_less_nat_alt)

lemma tiny_sv3:
  "sv_reach tiny_hash tiny_sv3" "sv_workers tiny_sv3 (RunId 1) = Some PBegun" "sv_sched tiny_sv3 = sv_sched tiny_sv1"
  "\<exists>sl. sv_slots tiny_sv3 (RunId 1) = Some sl \<and> sl_state sl = Starting \<and> sl_known sl = []"
proof -
  obtain sl where sl: "sv_slots tiny_sv1 (RunId 1) = Some sl" "sl_state sl = Queued" "\<not> sl_cancel sl" "sl_known sl = []"
    using tiny_sv1_slot by blast
  have w: "sv_workers tiny_sv1 (RunId 1) = Some PSpawned" by (simp add: tiny_sv1_parts)
  have "worker_live tiny_sv1 (RunId 1)"
    using sl w by (simp add: worker_live_def tiny_sv1_parts phase_state_def)
  note b = begin_effect[OF tiny_reach(2) tiny_good w this sl(1,3), folded tiny_sv3_def]
  show "sv_reach tiny_hash tiny_sv3" "sv_workers tiny_sv3 (RunId 1) = Some PBegun" "sv_sched tiny_sv3 = sv_sched tiny_sv1"
    "\<exists>sl. sv_slots tiny_sv3 (RunId 1) = Some sl \<and> sl_state sl = Starting \<and> sl_known sl = []"
    using b sl(4) by auto
qed

text \<open>A transition leaves the scheduler, the workers and the known processes alone.\<close>

lemma transition_frame:
  "sv_sched (snd (transition cx i st cl kind det sv)) = sv_sched sv"
  "sv_workers (snd (transition cx i st cl kind det sv)) = sv_workers sv"
  "sv_boot (snd (transition cx i st cl kind det sv)) = sv_boot sv"
  "sv_slots sv i = Some sl \<Longrightarrow> sl_state sl \<noteq> Finished \<Longrightarrow>
     \<exists>sl'. sv_slots (snd (transition cx i st cl kind det sv)) i = Some sl' \<and> sl_state sl' = st
       \<and> sl_known sl' = sl_known sl \<and> sl_pgid sl' = sl_pgid sl"
  by (auto simp: transition_def Let_def is_terminal_def split: option.splits prod.splits)

lemma tiny_sv4:
  "sv_reach tiny_hash tiny_sv4" "sv_workers tiny_sv4 (RunId 1) = Some PRunning" "sv_sched tiny_sv4 = sv_sched tiny_sv1"
  "\<exists>sl. sv_slots tiny_sv4 (RunId 1) = Some sl \<and> sl_state sl = Running \<and> sl_known sl = [] \<and> sl_pgid sl = Some 42"
proof -
  show "sv_reach tiny_hash tiny_sv4" unfolding tiny_sv4_def
    by (rule sv_next[OF tiny_sv3(1) step_spawn[OF tiny_good tiny_sv3(2)]])
  obtain sl where sl: "sv_slots tiny_sv3 (RunId 1) = Some sl" "sl_state sl = Starting" "sl_known sl = []"
    using tiny_sv3(4) by blast
  define sl1 where "sl1 = sl\<lparr>sl_queue_wait := queue_wait_ms sl (cx_clock tiny_cx), sl_effective_set := True,
      sl_pgid := Some 42\<rparr>"
  define v where "v = db_write tiny_cx (run_set_effective (RunId 1) (effective_after False None (sl_spec sl))
      (queue_wait_ms sl (cx_clock tiny_cx))) (set_slot (RunId 1) sl1 tiny_sv3)"
  have e: "tiny_sv4 = set_phase (RunId 1) PRunning
      (snd (transition tiny_cx (RunId 1) Running Pending ''running'' None v))"
    using sl(1) by (simp add: tiny_sv4_def worker_spawn_def tiny_spawn_def record_leader_def v_def sl1_def
        Let_def split: bool.splits)
  have v: "sv_slots v (RunId 1) = Some sl1" "sl_state sl1 \<noteq> Finished" "sl_known sl1 = []" "sl_pgid sl1 = Some 42"
    using sl by (simp_all add: v_def sl1_def)
  show "sv_workers tiny_sv4 (RunId 1) = Some PRunning" by (simp add: e)
  show "sv_sched tiny_sv4 = sv_sched tiny_sv1" by (simp add: e transition_frame v_def tiny_sv3(3))
  show "\<exists>sl. sv_slots tiny_sv4 (RunId 1) = Some sl \<and> sl_state sl = Running \<and> sl_known sl = [] \<and> sl_pgid sl = Some 42"
    using transition_frame(4)[OF v(1,2), of tiny_cx Running Pending "''running''" None] v(3,4) by (auto simp: e)
qed

lemma tiny_sv5:
  "sv_reach tiny_hash tiny_sv5" "sv_workers tiny_sv5 (RunId 1) = Some PStopped" "sv_sched tiny_sv5 = sv_sched tiny_sv1"
  "\<exists>sl. sv_slots tiny_sv5 (RunId 1) = Some sl \<and> sl_state sl = Stopping"
  "fst (worker_stop tiny_cx (RunId 1) (Some TimedOut) (True, False) False tiny_stop tiny_sv4) = Unknown"
proof -
  obtain sl where sl: "sv_slots tiny_sv4 (RunId 1) = Some sl" "sl_state sl = Running" "sl_known sl = []"
      "sl_pgid sl = Some 42"
    using tiny_sv4(4) by blast
  obtain cl acts where s: "worker_stop tiny_cx (RunId 1) (Some TimedOut) (True, False) False tiny_stop tiny_sv4
      = (cl, acts, tiny_sv5)"
    by (cases "worker_stop tiny_cx (RunId 1) (Some TimedOut) (True, False) False tiny_stop tiny_sv4")
      (simp add: tiny_sv5_def)
  show "sv_reach tiny_hash tiny_sv5" by (rule sv_next[OF tiny_sv4(1) step_stop[OF tiny_good tiny_sv4(2) s]])
  define v where "v = snd (transition tiny_cx (RunId 1) Stopping Pending ''timeout'' None tiny_sv4)"
  have "group_identities empty_table b g = []" for b g
    by (simp add: group_identities_def members_of_group_def all_pids_def empty_table_def List.map_filter_def)
  then have smp: "sample_group tiny_cx (RunId 1) 42 empty_table v = v" by (simp add: sample_group_def)
  obtain x where x: "sv_slots v (RunId 1) = Some x" "sl_state x = Stopping" "sl_known x = []"
    using transition_frame(4)[OF sl(1), of tiny_cx Stopping Pending "''timeout''" None] sl(2,3)
    by (auto simp: v_def)
  have e: "tiny_sv5 = set_phase (RunId 1) PStopped v" and c: "cl = Unknown"
    using s sl x smp
    by (simp_all add: worker_stop_def stop_group_def tiny_stop_def v_def[symmetric] stop_core_def group_is_ours_def)
  show "sv_workers tiny_sv5 (RunId 1) = Some PStopped" "sv_sched tiny_sv5 = sv_sched tiny_sv1"
    by (simp_all add: e v_def transition_frame tiny_sv4(3))
  show "\<exists>sl. sv_slots tiny_sv5 (RunId 1) = Some sl \<and> sl_state sl = Stopping" using x by (simp add: e)
  show "fst (worker_stop tiny_cx (RunId 1) (Some TimedOut) (True, False) False tiny_stop tiny_sv4) = Unknown"
    by (simp add: s c)
qed

lemma tiny_sv6:
  "sv_reach tiny_hash tiny_sv6" "map r_id (s_held (sv_sched tiny_sv6)) = [RunId 1]"
proof -
  show "sv_reach tiny_hash tiny_sv6" unfolding tiny_sv6_def
    by (rule sv_next[OF tiny_sv5(1) step_end[OF tiny_good tiny_sv5(2)]])
  obtain sl where sl: "sv_slots tiny_sv5 (RunId 1) = Some sl" "sl_state sl = Stopping" using tiny_sv5(4) by blast
  have "sv_sched tiny_sv6 = snd (release (RunId 1) True (cx_clock tiny_cx) (sv_sched tiny_sv5))"
    using finish_sched[of "set_slot (RunId 1) sl tiny_sv5" "RunId 1" sl] sl
    by (simp add: tiny_sv6_def worker_end_def status_codes_def)
  moreover have "drain t s = ([], s)" if "s_queue s = []" for t s
    using that pick_next_None[of t s] candidate_index_None[of s t] by (simp add: drain.simps[of t s])
  ultimately show "map r_id (s_held (sv_sched tiny_sv6)) = [RunId 1]"
    by (simp add: tiny_sv5(3) tiny_sv1_parts(3) release_def Let_def)
qed

theorem held_only_for_unclean_witness:
  "map r_id (s_held (sv_sched tiny_sv6)) = [RunId 1]
   \<and> (\<exists>sl. sv_slots tiny_sv6 (RunId 1) = Some sl \<and> sl_state sl = Finished \<and> sl_cleanup sl \<noteq> Complete)"
proof -
  obtain r where r: "s_held (sv_sched tiny_sv6) = [r]" "r_id r = RunId 1"
    using tiny_sv6(2) by (auto simp: map_eq_Cons_conv)
  then show ?thesis using held_only_for_unclean[OF tiny_sv6(1), of r] by simp
qed

end
