(* ===== verification/Recovery.thy ===== *)
theory Recovery
  imports Supervisor_Life
begin

text \<open>
  What happens when the orderly path is left: a supervisor that finds the runs of a dead one, a
  signal whose argument is not a plain group, a database that does not answer, cleanup that cannot
  be confirmed.
\<close>

section \<open>Recovering after a lost supervisor\<close>

text \<open>The rows after recovery are the old rows with some of them settled.\<close>

definition settled_by :: "int set \<Rightarrow> (run_row \<Rightarrow> run_row) \<Rightarrow> bool" where
  "settled_by ids F \<longleftrightarrow> (\<forall>w. w_id (F w) = w_id w
     \<and> (w_state w = ''finished'' \<or> w_id w \<notin> ids \<longrightarrow> F w = w)
     \<and> (w_state w \<noteq> ''finished'' \<and> w_id w \<in> ids \<longrightarrow> w_state (F w) = ''finished''
          \<and> w_outcome (F w) = Some ''supervisor_lost'' \<and> w_exit_code (F w) = None \<and> w_signal (F w) = None))"

lemma settled_comp:
  assumes "settled_by A F" "settled_by B G"
  shows "settled_by (A \<union> B) (\<lambda>w. G (F w))"
  unfolding settled_by_def
proof
  fix w
  note f = assms(1)[unfolded settled_by_def, rule_format, of w]
  note g = assms(2)[unfolded settled_by_def, rule_format, of "F w"]
  show "w_id (G (F w)) = w_id w
     \<and> (w_state w = ''finished'' \<or> w_id w \<notin> A \<union> B \<longrightarrow> G (F w) = w)
     \<and> (w_state w \<noteq> ''finished'' \<and> w_id w \<in> A \<union> B \<longrightarrow> w_state (G (F w)) = ''finished''
          \<and> w_outcome (G (F w)) = Some ''supervisor_lost'' \<and> w_exit_code (G (F w)) = None
          \<and> w_signal (G (F w)) = None)"
    using f g by (cases "w_id w \<in> A"; cases "w_state w = ''finished''") auto
qed

lemma recover_one_rows:
  assumes "recover_one boot now w r st = (acts, st')"
  shows "\<exists>F. settled_by {run_id_int (rec_id r)} F \<and> st_runs st' = map F (st_runs st)"
    and "st_procs st' = st_procs st" and "store_ok st \<Longrightarrow> store_ok st'"
proof -
  obtain res where st': "st' = snd (run_finish (rec_id r) (rec_revision r + 1) res (rec_logs r) st)"
    and res: "outcome res = SupervisorLost" "exit_code res = None" "signal res = None"
    using assms by (auto simp: recover_one_def Let_def)
  let ?P = "\<lambda>w. w_id w = run_id_int (rec_id r) \<and> w_state w \<noteq> ''finished''"
  let ?F = "\<lambda>w. if ?P w then finish_row (rec_revision r + 1) res (rec_logs r) w else w"
  have "settled_by {run_id_int (rec_id r)} ?F"
    using res by (simp add: settled_by_def finish_row_def outcome_as_str_def)
  moreover have "st_runs st' = map ?F (st_runs st)"
  proof (cases "\<exists>w\<in>set (st_runs st). ?P w")
    case True
    then show ?thesis by (simp add: st' run_finish_alt update_rows_def run_event_insert_def)
  next
    case False
    then have "map ?F (st_runs st) = st_runs st" by (intro map_idI) auto
    moreover have "st_runs st' = st_runs st" using False by (auto simp: st' run_finish_alt)
    ultimately show ?thesis by simp
  qed
  ultimately show "\<exists>F. settled_by {run_id_int (rec_id r)} F \<and> st_runs st' = map F (st_runs st)" by blast
  show "st_procs st' = st_procs st"
    by (simp add: st' run_finish_alt update_rows_def run_event_insert_def)
  show "store_ok st \<Longrightarrow> store_ok st'" by (simp add: st' run_finish_ok)
qed

lemma recover_one_signals:
  assumes "recover_one boot now w r st = (acts, st')" "SendTerm g \<in> set acts \<or> SendKill g \<in> set acts"
  shows "\<exists>m\<in>set (group_identities (rw_before w) boot g). m \<in> set (map fst (run_processes (rec_id r) st))"
    and "\<exists>l. rec_leader r = Some l \<and> i_boot l = boot"
proof -
  have "g \<in> set (recover_groups boot (rw_before w) (remdups (map fst (run_processes (rec_id r) st))))
      \<and> (\<exists>l. rec_leader r = Some l \<and> i_boot l = boot)"
    using assms by (auto simp: recover_one_def Let_def split: if_splits option.splits)
  then show "\<exists>m\<in>set (group_identities (rw_before w) boot g). m \<in> set (map fst (run_processes (rec_id r) st))"
    "\<exists>l. rec_leader r = Some l \<and> i_boot l = boot"
    by (auto simp: recover_groups_def group_has_known_member_def)
qed

lemma recover_fold:
  assumes "foldl (recover_step boot now w) (acts, st) rs = (acts', st')"
  shows "(\<exists>F. settled_by ((run_id_int \<circ> rec_id) ` set rs) F \<and> st_runs st' = map F (st_runs st))
    \<and> st_procs st' = st_procs st \<and> (store_ok st \<longrightarrow> store_ok st')
    \<and> (\<forall>g. SendTerm g \<in> set acts' \<or> SendKill g \<in> set acts' \<longrightarrow>
          SendTerm g \<in> set acts \<or> SendKill g \<in> set acts
          \<or> (\<exists>r\<in>set rs. \<exists>m\<in>set (group_identities (rw_before (w (rec_id r))) boot g).
                m \<in> set (map fst (run_processes (rec_id r) st))))"
  using assms
proof (induction rs arbitrary: acts st)
  case Nil
  have "settled_by {} (\<lambda>w. w)" by (simp add: settled_by_def)
  then show ?case using Nil by (auto intro!: exI[of _ "\<lambda>w. w"])
next
  case (Cons r rs)
  obtain a st1 where one: "recover_one boot now (w (rec_id r)) r st = (a, st1)"
    by (cases "recover_one boot now (w (rec_id r)) r st")
  have rest: "foldl (recover_step boot now w) (acts @ a, st1) rs = (acts', st')"
  proof -
    have "recover_step boot now w (acts, st) r = (acts @ a, st1)" by (simp add: recover_step_def one)
    then show ?thesis using Cons.prems by simp
  qed
  note ih = Cons.IH[OF rest]
  note r1 = recover_one_rows[OF one]
  obtain F G where F: "settled_by {run_id_int (rec_id r)} F" "st_runs st1 = map F (st_runs st)"
    and G: "settled_by ((run_id_int \<circ> rec_id) ` set rs) G" "st_runs st' = map G (st_runs st1)"
    using ih r1(1) by blast
  have "settled_by ((run_id_int \<circ> rec_id) ` set (r # rs)) (\<lambda>w. G (F w))"
    using settled_comp[OF F(1) G(1)] by simp
  moreover have "st_runs st' = map (\<lambda>w. G (F w)) (st_runs st)" by (simp add: F G)
  moreover have "run_processes j st1 = run_processes j st" for j by (simp add: run_processes_def r1(2))
  moreover have "SendTerm g \<in> set a \<or> SendKill g \<in> set a \<Longrightarrow>
      \<exists>m\<in>set (group_identities (rw_before (w (rec_id r))) boot g). m \<in> set (map fst (run_processes (rec_id r) st))"
    for g using recover_one_signals(1)[OF one] by blast
  ultimately show ?case using ih r1(2,3) by (auto simp del: set_map)
qed

text \<open>C11: Recovery never fails on a well-formed store and settles everything: afterwards no run is unfinished,
  every run that was not finished has the outcome \<open>supervisor_lost\<close> with neither exit code nor signal
  invented, finished rows are untouched, and a signal was only sent to a group in which recovery
  had just seen a live process recorded for that run.\<close>

theorem recover_settles:
  assumes "store_ok (sv_store sv)"
  shows "\<exists>acts sv' F. recover now w sv = Inr (acts, sv') \<and> run_unfinished (sv_store sv') = Inr []
    \<and> st_runs (sv_store sv') = map F (st_runs (sv_store sv))
    \<and> (\<forall>r\<in>set (st_runs (sv_store sv)). (if w_state r = ''finished'' then F r = r
          else w_state (F r) = ''finished'' \<and> w_outcome (F r) = Some ''supervisor_lost''
               \<and> w_exit_code (F r) = None \<and> w_signal (F r) = None))
    \<and> (\<forall>g. SendTerm g \<in> set acts \<or> SendKill g \<in> set acts \<longrightarrow>
          (\<exists>j. \<exists>m\<in>set (group_identities (rw_before (w j)) (sv_boot sv) g).
                m \<in> set (map fst (run_processes j (sv_store sv)))))"
proof -
  let ?U = "filter (\<lambda>w. w_state w \<noteq> ''finished'') (st_runs (sv_store sv))"
  have "\<forall>w\<in>set ?U. row_ok w" using assms by (simp add: store_ok_def)
  then obtain rs where rs: "collect_records ?U = Inr rs" "map rec_id rs = map (RunId \<circ> w_id) ?U"
    using collect_total by blast
  have "(run_id_int \<circ> rec_id) ` set rs = run_id_int ` set (map rec_id rs)" by (simp add: image_comp)
  also have "\<dots> = w_id ` set ?U" unfolding rs(2) by (simp add: image_comp o_def)
  finally have ids: "(run_id_int \<circ> rec_id) ` set rs = w_id ` set ?U" .
  obtain acts st' where f: "foldl (recover_step (sv_boot sv) now w) ([], sv_store sv) rs = (acts, st')"
    by (cases "foldl (recover_step (sv_boot sv) now w) ([], sv_store sv) rs")
  have rec: "recover now w sv = Inr (acts, sv\<lparr>sv_store := st'\<rparr>)"
    using rs(1) f by (simp add: recover_def run_unfinished_def)
  note rf = recover_fold[OF f]
  obtain F where F: "settled_by (w_id ` set ?U) F" "st_runs st' = map F (st_runs (sv_store sv))"
    using rf ids by auto
  have fin: "if w_state r = ''finished'' then F r = r
      else w_state (F r) = ''finished'' \<and> w_outcome (F r) = Some ''supervisor_lost''
           \<and> w_exit_code (F r) = None \<and> w_signal (F r) = None"
    if "r \<in> set (st_runs (sv_store sv))" for r
    using F(1) that by (auto simp: settled_by_def)
  have "w_state (F r) = ''finished''" if "r \<in> set (st_runs (sv_store sv))" for r
    using fin[OF that] by (cases "w_state r = ''finished''") simp_all
  then have "filter (\<lambda>w. w_state w \<noteq> ''finished'') (st_runs st') = []"
    unfolding F(2) by (auto simp: filter_empty_conv)
  then have "run_unfinished st' = Inr []" by (simp add: run_unfinished_def)
  moreover have "SendTerm g \<in> set acts \<or> SendKill g \<in> set acts \<longrightarrow>
      (\<exists>j. \<exists>m\<in>set (group_identities (rw_before (w j)) (sv_boot sv) g).
            m \<in> set (map fst (run_processes j (sv_store sv))))" for g
    using rf unfolding list.set(1) by blast
  ultimately show ?thesis using rec fin F(2)
    by (intro exI[of _ acts] exI[of _ "sv\<lparr>sv_store := st'\<rparr>"] exI[of _ F] conjI allI ballI)
      (simp_all del: set_map)
qed

theorem recover_settles_witness:
  "\<exists>acts sv'. recover 2000 (\<lambda>_. \<lparr>rw_before = table_one, rw_after = table_one\<rparr>) tiny_sv2 = Inr (acts, sv')
     \<and> run_unfinished (sv_store sv') = Inr []"
proof -
  have "sv_inv tiny_sv2" by (rule sv_reach_inv[OF tiny_reach(3)])
  then have "store_ok (sv_store tiny_sv2)" by (simp add: sv_inv_def sv_inv_but_def)
  from recover_settles[OF this] show ?thesis by blast
qed

section \<open>What a signal reaches\<close>

text \<open>A signal to group \<open>g\<close> reaches exactly the process group \<open>g\<close> when
  \<open>1 < g \<le> 2^31\<close>; group 0 is refused, but group 1 is not and reaches every process of the user, and from
  \<open>2^31 + 1\<close> on it reaches the single process \<open>2^32 - g\<close>.\<close>

theorem signal_group_reach:
  "signal_group g =
    (if unat g = 0 then None else if unat g = 1 then Some EveryProcess
     else if unat g \<le> 2 ^ 31 then Some (Group (int (unat g)))
     else Some (OneProcess (2 ^ 32 - int (unat g))))"
proof -
  have "g = 0 \<longleftrightarrow> unat g = 0" by (simp add: unat_eq_0)
  moreover obtain n where n: "unat g = n" by blast
  moreover have "n < 2 ^ 32" using unat_u32_less[of g] n by simp
  ultimately show ?thesis
    unfolding signal_group_def kill_target_def kill_arg_def as_i32_def Let_def n by auto
qed

section \<open>A database that does not answer\<close>

text \<open>A worker whose first database write fails gives up without finishing its run: the worker is gone,
  but the run keeps its scheduler slot and its place in the registry, memory says \<open>starting\<close> while the
  row still says what it said before, and cancelling it later only sets a flag nobody reads.\<close>

theorem db_failure_leaks_slot:
  fixes prep
  assumes "sv_reach h sv" "i \<in> active_ids (sv_sched sv)" "sv_workers sv i = Some PSpawned" "\<not> cx_db cx"
  defines "sv' \<equiv> worker_begin cx i prep sv"
  shows "sv_workers sv' i = Some PDone
    \<and> (\<exists>sl. sv_slots sv' i = Some sl \<and> sl_state sl = Starting)
    \<and> i \<in> set (sv_registry sv') \<and> i \<in> active_ids (sv_sched sv') \<and> sv_store sv' = sv_store sv
    \<and> (\<forall>cx'. \<exists>sv2. cancel cx' i sv' = Inr (True, sv2) \<and> sv_workers sv2 i = Some PDone
          \<and> i \<in> active_ids (sv_sched sv2) \<and> sv_store sv2 = sv_store sv)"
proof -
  have inv: "sv_inv_but {} sv" using sv_reach_inv[OF assms(1)] by (simp add: sv_inv_def)
  have live: "worker_live sv i" using books(1)[OF sv_reach_inv[OF assms(1)]] assms(2) by auto
  obtain sl where sl: "sv_slots sv i = Some sl" "i \<in> set (sv_registry sv)" "sl_state sl \<noteq> Finished"
  proof -
    obtain sl where sl: "sv_slots sv i = Some sl" "i \<in> set (sv_registry sv)" "sl_state sl \<in> phase_state PSpawned"
      using live assms(3) by (auto simp: worker_live_def)
    then have "sl_state sl \<noteq> Finished" by (auto simp: phase_state_def)
    then show ?thesis using that sl by blast
  qed
  let ?sl = "sl\<lparr>sl_revision := sl_revision sl + 1, sl_state := Starting, sl_cleanup := Pending\<rparr>"
  have e: "sv' = set_phase i PDone (set_slot i ?sl sv)"
    using sl assms(4) by (simp add: sv'_def worker_begin_def transition_def is_terminal_def Let_def split: prod.splits)
  have "cancel cx' i sv' = Inr (True, set_slot i (?sl\<lparr>sl_cancel := True\<rparr>) sv')" for cx'
    using sl by (simp add: e cancel_def slot_or_load_def cancel_registered_def is_terminal_def set_slot_def
        set_phase_def)
  moreover have "sv_workers (set_slot i (?sl\<lparr>sl_cancel := True\<rparr>) sv') i = Some PDone
      \<and> i \<in> active_ids (sv_sched (set_slot i (?sl\<lparr>sl_cancel := True\<rparr>) sv'))
      \<and> sv_store (set_slot i (?sl\<lparr>sl_cancel := True\<rparr>) sv') = sv_store sv"
    using assms(2) by (simp add: e)
  ultimately show ?thesis using assms(2) sl(1,2) by (auto simp: e)
qed

theorem db_failure_leaks_slot_witness:
  "RunId 1 \<in> active_ids (sv_sched (worker_begin (tiny_cx\<lparr>cx_db := False\<rparr>) (RunId 1) None tiny_sv1))
   \<and> sv_workers (worker_begin (tiny_cx\<lparr>cx_db := False\<rparr>) (RunId 1) None tiny_sv1) (RunId 1) = Some PDone"
proof -
  have "RunId 1 \<in> active_ids (sv_sched tiny_sv1)" by (simp add: tiny_sv1_parts active_ids_def)
  moreover have "sv_workers tiny_sv1 (RunId 1) = Some PSpawned" by (simp add: tiny_sv1_parts)
  moreover have "\<not> cx_db (tiny_cx\<lparr>cx_db := False\<rparr>)" by simp
  ultimately show ?thesis using db_failure_leaks_slot[OF tiny_reach(2), of "RunId 1" "tiny_cx\<lparr>cx_db := False\<rparr>" None]
    by blast
qed

section \<open>The reported queue wait\<close>

text \<open>A run that was queued reports a queue wait that never stops growing: after its command has been
  started, the wait written to the database is fixed at the time of the start, but what clients see is the
  time since it was queued, as long as the run lives.\<close>

theorem queue_wait_keeps_growing:
  assumes "sv_slots sv i = Some sl" "sl_queued_at sl = Some q"
    and "sw_cgroup w = Inr (active, applied)" "sw_spawn w = Inr p" "sw_leader w = None"
  shows "\<exists>sl'. sv_slots (worker_spawn cx i w sv) i = Some sl'
    \<and> sl_queue_wait sl' = as_millis_u64 (cx_clock cx - q)
    \<and> queue_wait_ms sl' later = as_millis_u64 (later - q)"
proof -
  let ?wait = "queue_wait_ms sl (cx_clock cx)"
  let ?sl = "sl\<lparr>sl_queue_wait := ?wait, sl_effective_set := True, sl_pgid := Some p\<rparr>"
  let ?v = "db_write cx (run_set_effective i (effective_after active applied (sl_spec sl)) ?wait) (set_slot i ?sl sv)"
  have e: "worker_spawn cx i w sv = set_phase i PRunning (snd (transition cx i Running Pending ''running'' None ?v))"
    using assms by (simp add: worker_spawn_def record_leader_def Let_def split: bool.splits)
  have "\<exists>sl'. sv_slots (snd (transition cx i Running Pending ''running'' None ?v)) i = Some sl'
      \<and> sl_queued_at sl' = Some q \<and> sl_queue_wait sl' = ?wait"
    using assms(2) by (simp add: transition_def is_terminal_def Let_def split: prod.splits)
  then show ?thesis using assms(2) by (auto simp: e queue_wait_ms_def)
qed

theorem queue_wait_keeps_growing_witness:
  "\<exists>sl'. sv_slots (worker_spawn tiny_cx (RunId 2) tiny_spawn tiny_sv2) (RunId 2) = Some sl'
    \<and> queue_wait_ms sl' (5 + from_secs 3600) = 3600 * 1000"
proof -
  obtain sl where sl: "sv_slots tiny_sv2 (RunId 2) = Some sl" "sl_queued_at sl = Some 5"
    using tiny_sv2_slot by blast
  have w: "sw_cgroup tiny_spawn = Inr (False, None)" "sw_spawn tiny_spawn = Inr 42" "sw_leader tiny_spawn = None"
    by (simp_all add: tiny_spawn_def)
  from queue_wait_keeps_growing[OF sl w, of tiny_cx "5 + from_secs 3600"] show ?thesis
    by (auto simp: as_millis_u64_def from_secs_def)
qed

end
