(* ===== verification/Rules.thy ===== *)
theory Rules
  imports Text Config
begin

text \<open>
  The signature table (\<open>src/classify/rules.rs\<close>): which category and name a process gets from its
  name, argument vector and executable.  The first match wins; the user's own signatures come first.
\<close>

section \<open>Matching\<close>

record proc_class =
  cl_category :: category
  cl_display :: string

definition dev :: "category \<Rightarrow> string \<Rightarrow> proc_class" where
  "dev c n = \<lparr>cl_category = c, cl_display = n\<rparr>"

definition name_eq :: "string \<Rightarrow> string \<Rightarrow> string \<Rightarrow> bool" where
  "name_eq name argv0 exact \<longleftrightarrow> name = exact \<or> argv0 = exact"

definition backslash :: char where "backslash = CHR 0x5C"

text \<open>A whole token: the text is split at blanks, tabs, slashes and backslashes.\<close>

definition is_token :: "string \<Rightarrow> string \<Rightarrow> bool" where
  "is_token n s = (n \<in> set (split_by (\<lambda>c. c = CHR '' '' \<or> c = CHR 0x09 \<or> c = CHR ''/'' \<or> c = backslash) s))"

datatype sig_match = MExact string | MToken string | MContains string

definition match_hit :: "sig_match \<Rightarrow> string \<Rightarrow> string \<Rightarrow> string \<Rightarrow> string \<Rightarrow> string \<Rightarrow> bool" where
  "match_hit m name argv0 cmd exe hay =
    (case m of
       MExact n \<Rightarrow> name_eq name argv0 n
     | MToken n \<Rightarrow> is_token n cmd \<or> is_token n exe
     | MContains n \<Rightarrow> str_contains hay n)"

definition argv0_base :: "process_info \<Rightarrow> string" where
  "argv0_base p =
    to_ascii_lowercase
      (case p_command p of
         [] \<Rightarrow> p_name p
       | s # _ \<Rightarrow> (case file_name s of Some f \<Rightarrow> f | None \<Rightarrow> p_name p))"

fun first_row :: "(string \<Rightarrow> bool) \<Rightarrow> category \<Rightarrow> (string \<times> string) list \<Rightarrow> proc_class option" where
  "first_row P c [] = None"
| "first_row P c ((needle, display) # rows) = (if P needle then Some (dev c display) else first_row P c rows)"

fun first_case :: "category \<Rightarrow> (bool \<times> string) list \<Rightarrow> proc_class option" where
  "first_case c [] = None"
| "first_case c ((b, display) # rows) = (if b then Some (dev c display) else first_case c rows)"

definition orelse :: "'a option \<Rightarrow> 'a option \<Rightarrow> 'a option" where
  "orelse a b = (case a of None \<Rightarrow> b | Some x \<Rightarrow> Some x)"

section \<open>The user's signatures\<close>

fun extra_signature :: "signature_config list \<Rightarrow> string \<Rightarrow> string \<Rightarrow> string \<Rightarrow> proc_class option" where
  "extra_signature [] name argv0 hay = None"
| "extra_signature (s # sigs) name argv0 hay =
    (case signature_category s of
       None \<Rightarrow> extra_signature sigs name argv0 hay
     | Some c \<Rightarrow>
         if list_ex (\<lambda>n. name_eq name argv0 (to_ascii_lowercase n)) (sc_names s)
            \<or> list_ex (\<lambda>n. str_contains hay (to_ascii_lowercase n)) (sc_contains s)
         then Some (dev c (if sc_display s = [] then name else sc_display s))
         else extra_signature sigs name argv0 hay)"

section \<open>The sections of the table\<close>

definition is_pkg_manager :: "string \<Rightarrow> string \<Rightarrow> string \<Rightarrow> bool" where
  "is_pkg_manager name argv0 hay \<longleftrightarrow>
     name_eq name argv0 ''npm'' \<or> name_eq name argv0 ''npx'' \<or> name_eq name argv0 ''pnpm''
     \<or> name_eq name argv0 ''yarn'' \<or> name_eq name argv0 ''bun'' \<or> str_contains hay ''npm-cli.js''
     \<or> str_contains hay ''npx-cli.js'' \<or> str_contains hay ''npm exec''"

definition mcp_rows :: "(string \<times> string) list" where
  "mcp_rows =
    [(''chrome-devtools-mcp'', ''chrome-devtools-mcp''), (''playwright-mcp'', ''playwright-mcp''),
     (''@playwright/mcp'', ''playwright-mcp''), (''mcp-server-filesystem'', ''filesystem''),
     (''@modelcontextprotocol/server'', ''mcp-server''), (''context7'', ''context7''),
     (''queryknight'', ''queryknight''), (''mcp-server'', ''mcp-server'')]"

definition mcp_class :: "process_info \<Rightarrow> string \<Rightarrow> string \<Rightarrow> string \<Rightarrow> proc_class option" where
  "mcp_class p name argv0 hay =
    orelse (first_row (str_contains hay) Mcp mcp_rows)
      (if str_contains name ''-mcp'' \<or> str_contains argv0 ''-mcp'' \<or> str_contains name ''mcp-server''
       then Some (dev Mcp (proc_label p)) else None)"

definition agent_rows :: "(string \<times> string) list" where
  "agent_rows =
    [(''omp'', ''omp''), (''opencode'', ''opencode''), (''claude'', ''claude''), (''claude-code'', ''claude''),
     (''codex'', ''codex''), (''aider'', ''aider''), (''cursor-agent'', ''cursor''), (''gemini'', ''gemini''),
     (''amp'', ''amp''), (''crush'', ''crush''), (''goose'', ''goose''), (''qwen'', ''qwen''),
     (''droid'', ''droid''), (''kiro-cli'', ''kiro''), (''agy'', ''antigravity''), (''pi'', ''pi'')]"

definition lsp_rows :: "(string \<times> string) list" where
  "lsp_rows =
    [(''rust-analyzer'', ''rust-analyzer''), (''gopls'', ''gopls''),
     (''typescript-language-server'', ''typescript''), (''copilot-language-server'', ''copilot''),
     (''pyright-langserver'', ''pyright''), (''pyright'', ''pyright''), (''clangd'', ''clangd''),
     (''lua-language-server'', ''lua''), (''intelephense'', ''intelephense''),
     (''vue-language-server'', ''vue''), (''@vue/language-server'', ''vue''), (''svelteserver'', ''svelte''),
     (''svelte-language-server'', ''svelte''), (''tailwindcss-language-server'', ''tailwind''),
     (''vscode-eslint-language-server'', ''eslint''), (''eslint_d'', ''eslint''),
     (''yaml-language-server'', ''yaml''), (''bash-language-server'', ''bash''),
     (''docker-langserver'', ''docker''), (''jdtls'', ''jdtls''), (''ruby-lsp'', ''ruby''),
     (''solargraph'', ''ruby''), (''nixd'', ''nix'')]"

definition lsp_class :: "process_info \<Rightarrow> string \<Rightarrow> string \<Rightarrow> string \<Rightarrow> proc_class option" where
  "lsp_class p name argv0 hay =
    orelse (first_row (\<lambda>n. name_eq name argv0 n \<or> str_contains hay n) LanguageServer lsp_rows)
      (first_case LanguageServer
        [(str_contains hay ''biome lsp-proxy'', ''biome''), (name_eq name argv0 ''nil'', ''nil''),
         (str_contains hay ''language-server'' \<or> str_contains hay ''langserver'', proc_label p)])"

definition is_vite :: "string \<Rightarrow> string \<Rightarrow> string \<Rightarrow> bool" where
  "is_vite hay name argv0 \<longleftrightarrow>
     name_eq name argv0 ''vite'' \<or> str_contains hay ''node_modules/.bin/vite''
     \<or> str_contains hay ''node_modules/vite'' \<or> str_contains hay ''/vite/bin/vite''
     \<or> str_contains hay ''vite/dist/node/cli''
     \<or> list_ex (\<lambda>p. p = ''vite'' \<or> p = ''vite.js'')
          (split_by (\<lambda>c. c = CHR ''/'' \<or> c = backslash \<or> c = CHR '' '' \<or> c = CHR '':'') hay)"

definition server_class :: "string \<Rightarrow> string \<Rightarrow> string \<Rightarrow> string \<Rightarrow> string \<Rightarrow> proc_class option" where
  "server_class name argv0 cmd exe hay =
    (let eq = name_eq name argv0; has = str_contains hay;
         hit = (\<lambda>m. match_hit m name argv0 cmd exe hay)
     in first_case DevServer
       [(is_vite hay name argv0, ''vite''),
        (has ''next dev'' \<or> has ''next-server'' \<or> has ''node_modules/next'', ''next''),
        (eq ''nuxt'' \<or> has ''nuxt'' \<and> has ''dev'', ''nuxt''),
        (has ''uvicorn'', ''uvicorn''), (has ''gunicorn'', ''gunicorn''),
        (has ''manage.py'' \<and> has ''runserver'', ''django''), (has ''flask run'', ''flask''),
        (has ''artisan serve'' \<or> has ''php -s'', ''php''),
        (has ''webpack-dev-server'' \<or> has ''webpack serve'', ''webpack''),
        (eq ''astro'' \<or> has ''astro dev'' \<or> has ''@astrojs'', ''astro''),
        (has ''svelte-kit'' \<or> has ''@sveltejs/kit'', ''svelte-kit''),
        (eq ''remix'' \<or> eq ''react-router'' \<or> has ''@remix-run'', ''remix''),
        (eq ''parcel'' \<or> has ''parcel-bundler'', ''parcel''),
        (has ''rsbuild'', ''rsbuild''), (has ''rspack'', ''rspack''),
        (eq ''nest'' \<or> has ''@nestjs'' \<or> has ''nest start'' \<or> has ''nest serve'', ''nest''),
        (hit (MToken ''puma''), ''puma''), (eq ''rails'' \<or> has ''rails s'', ''rails''),
        (hit (MContains ''phx.server''), ''phoenix'')])"

definition worker_class :: "string \<Rightarrow> string \<Rightarrow> string \<Rightarrow> string \<Rightarrow> string \<Rightarrow> proc_class option" where
  "worker_class name argv0 cmd exe hay =
    (let eq = name_eq name argv0; has = str_contains hay;
         hit = (\<lambda>m. match_hit m name argv0 cmd exe hay)
     in first_case Worker
       [(eq ''celery'' \<or> hit (MToken ''celery'') \<and> hit (MToken ''worker''), ''celery''),
        (eq ''sidekiq'' \<or> hit (MToken ''sidekiq''), ''sidekiq''),
        (eq ''horizon'' \<or> has ''artisan horizon'', ''horizon''),
        (has ''queue:work'' \<or> has ''artisan queue'', ''laravel queue''),
        (eq ''nodemon'' \<or> hit (MContains ''node_modules/nodemon''), ''nodemon''),
        (eq ''cargo-watch'' \<or> has ''cargo watch'' \<or> has ''cargo-watch'', ''cargo-watch''),
        (eq ''watchexec'', ''watchexec''), (eq ''air'', ''air''),
        (has ''tsc --watch'' \<or> has ''tailwindcss --watch'' \<or> has ''tailwind --watch'', ''watcher'')])"

definition database_rows :: "(string \<times> string) list" where
  "database_rows =
    [(''postgres'', ''postgres''), (''postgresql'', ''postgres''), (''postmaster'', ''postgres''),
     (''mysqld'', ''mysql''), (''mariadbd'', ''mariadb''), (''redis-server'', ''redis''),
     (''mongod'', ''mongodb''), (''elasticsearch'', ''elasticsearch''), (''opensearch'', ''opensearch''),
     (''clickhouse-server'', ''clickhouse''), (''cockroach'', ''cockroachdb''), (''cassandra'', ''cassandra''),
     (''memcached'', ''memcached''), (''neo4j'', ''neo4j''), (''qdrant'', ''qdrant''),
     (''weaviate'', ''weaviate''), (''milvus'', ''milvus''), (''meilisearch'', ''meilisearch''),
     (''typesense-server'', ''typesense''), (''influxd'', ''influxdb''), (''sqlservr'', ''sql server'')]"

definition database_class :: "string \<Rightarrow> string \<Rightarrow> string \<Rightarrow> string \<Rightarrow> string \<Rightarrow> proc_class option" where
  "database_class name argv0 cmd exe hay =
    first_row (\<lambda>n. match_hit (MExact n) name argv0 cmd exe hay) Database database_rows"

definition chromium_hints :: "string list" where
  "chromium_hints = [''chromium'', ''chrome-headless'', ''headless_shell'', ''google chrome'',
     ''chrome helper'', ''chromedriver'']"

definition is_chromium_family :: "string \<Rightarrow> string \<Rightarrow> string \<Rightarrow> bool" where
  "is_chromium_family name argv0 hay \<longleftrightarrow>
     list_ex (\<lambda>h. str_contains name h \<or> str_contains argv0 h \<or> str_contains hay h) chromium_hints
     \<or> (name = ''chrome'' \<or> argv0 = ''chrome'') \<and> \<not> str_contains hay ''chrome-devtools-mcp''"

definition runtime_rows :: "(string \<times> string) list" where
  "runtime_rows =
    [(''node'', ''node''), (''nodejs'', ''node''), (''npm'', ''npm''), (''npx'', ''npx''), (''pnpm'', ''pnpm''),
     (''yarn'', ''yarn''), (''bun'', ''bun''), (''deno'', ''deno''), (''python'', ''python''),
     (''python3'', ''python''), (''php'', ''php'')]"

section \<open>The classifier\<close>

definition proc_cmd :: "process_info \<Rightarrow> string" where
  "proc_cmd p = to_ascii_lowercase (join_with '' '' (p_command p))"

definition proc_exe :: "process_info \<Rightarrow> string" where
  "proc_exe p = (case p_executable p of Some e \<Rightarrow> to_ascii_lowercase e | None \<Rightarrow> [])"

definition class_hay :: "process_info \<Rightarrow> string" where
  "class_hay p = to_ascii_lowercase (p_name p) @ '' '' @ argv0_base p @ '' '' @ proc_cmd p @ '' '' @ proc_exe p"

definition classify :: "signature_config list \<Rightarrow> process_info \<Rightarrow> proc_class option" where
  "classify sigs p =
    (let name = to_ascii_lowercase (p_name p); argv0 = argv0_base p; cmd = proc_cmd p; exe = proc_exe p;
         hay = class_hay p; pkg = is_pkg_manager name argv0 hay;
         unless_pkg = (\<lambda>c. if pkg then None else c)
     in orelse (extra_signature sigs name argv0 hay)
       (orelse (unless_pkg (mcp_class p name argv0 hay))
       (orelse (first_row (name_eq name argv0) Agent agent_rows)
       (orelse (unless_pkg (lsp_class p name argv0 hay))
       (orelse (server_class name argv0 cmd exe hay)
       (orelse (unless_pkg (worker_class name argv0 cmd exe hay))
       (orelse (database_class name argv0 cmd exe hay)
       (orelse (first_case DevService [(name_eq name argv0 ''php-fpm'' \<or> str_contains hay ''php-fpm'', ''php-fpm'')])
       (orelse (first_case Browser
                 [(is_chromium_family name argv0 hay, ''Chromium''),
                  (str_contains name ''firefox'' \<or> str_contains argv0 ''firefox'', ''Firefox'')])
         (first_row (name_eq name argv0) UnknownDev runtime_rows))))))))))"

definition browser_cmd_looks_dev :: "process_info \<Rightarrow> bool" where
  "browser_cmd_looks_dev p =
    (let hay = proc_cmd p @ '' '' @ proc_exe p in
     str_contains hay ''playwright'' \<or> str_contains hay ''puppeteer'' \<or> str_contains hay ''chrome-devtools''
     \<or> str_contains hay ''remote-debugging'' \<or> str_contains hay ''headless'')"

section \<open>Facts\<close>

lemma orelse_simps [simp]: "orelse None b = b" "orelse (Some x) b = Some x"
  by (simp_all add: orelse_def)

lemma orelse_Some: "orelse a b = Some x \<longleftrightarrow> a = Some x \<or> a = None \<and> b = Some x"
  by (cases a) simp_all

lemma first_row_Some: "first_row P c rows = Some k \<Longrightarrow> cl_category k = c \<and> (\<exists>n d. (n, d) \<in> set rows \<and> P n \<and> cl_display k = d)"
  by (induction P c rows rule: first_row.induct) (auto simp: dev_def split: if_splits)

lemma first_case_Some: "first_case c rows = Some k \<Longrightarrow> cl_category k = c \<and> (True, cl_display k) \<in> set rows"
  by (induction c rows rule: first_case.induct) (auto simp: dev_def split: if_splits)

end
