(* ===== verification/Group.thy ===== *)
theory Group
  imports Rules
begin

text \<open>
  Grouping a process snapshot into runtime items (\<open>src/classify/tree.rs\<close>,
  \<open>src/classify/group.rs\<close>).  The searches below a process use a stack without a visited set, so
  they are partial: \<open>None\<close> is a search that never returns.  The recursion that builds an item is
  bounded by fuel, the number of processes.  CPU percentages are left out.
\<close>

section \<open>The forest\<close>

text \<open>A map collected from pairs keeps the last one of a key.\<close>

definition by_pid :: "process_info list \<Rightarrow> pid \<Rightarrow> process_info option" where
  "by_pid ps k = map_of (rev (map (\<lambda>p. (p_pid p, p)) ps)) k"

definition mem_of :: "process_info list \<Rightarrow> pid \<Rightarrow> u64" where
  "mem_of ps k = (case by_pid ps k of Some p \<Rightarrow> p_memory p | None \<Rightarrow> 0)"

text \<open>Biggest first, stable.\<close>

definition biggest_first :: "process_info list \<Rightarrow> pid list \<Rightarrow> pid list" where
  "biggest_first ps ks = sort_key (\<lambda>k. - uint (mem_of ps k)) ks"

definition forest_children :: "process_info list \<Rightarrow> pid \<Rightarrow> pid list" where
  "forest_children ps k =
    (if k \<in> p_pid ` set ps
     then biggest_first ps (map p_pid (filter (\<lambda>p. p_parent p = Some k) ps)) else [])"

section \<open>Searching\<close>

text \<open>The stack has its top first.\<close>

partial_function (option) descendant_loop :: "(pid \<Rightarrow> pid list) \<Rightarrow> (pid \<Rightarrow> bool) \<Rightarrow> pid list \<Rightarrow> bool option" where
  "descendant_loop ch P stack =
    (case stack of
       [] \<Rightarrow> Some False
     | c # rest \<Rightarrow> if P c then Some True else descendant_loop ch P (rev (ch c) @ rest))"

definition has_classified_descendant :: "process_info list \<Rightarrow> (pid \<Rightarrow> bool) \<Rightarrow> pid \<Rightarrow> bool option" where
  "has_classified_descendant ps P k = descendant_loop (forest_children ps) P (rev (forest_children ps k))"

partial_function (option) collect_loop ::
  "(pid \<Rightarrow> pid list) \<Rightarrow> (pid \<Rightarrow> bool) \<Rightarrow> pid list \<Rightarrow> pid list \<Rightarrow> pid list option" where
  "collect_loop ch P stack acc =
    (case stack of
       [] \<Rightarrow> Some acc
     | c # rest \<Rightarrow> collect_loop ch P (rev (ch c) @ rest) (if P c then acc @ [c] else acc))"

definition parent_of :: "process_info list \<Rightarrow> pid \<Rightarrow> pid option" where
  "parent_of ps k = Option.bind (by_pid ps k) p_parent"

text \<open>At most 64 steps up.\<close>

fun ancestor_search :: "process_info list \<Rightarrow> (pid \<Rightarrow> bool) \<Rightarrow> nat \<Rightarrow> pid option \<Rightarrow> pid option" where
  "ancestor_search ps P n None = None"
| "ancestor_search ps P 0 (Some k) = None"
| "ancestor_search ps P (Suc n) (Some k) = (if P k then Some k else ancestor_search ps P n (parent_of ps k))"

definition nearest_item_ancestor :: "process_info list \<Rightarrow> (pid \<Rightarrow> bool) \<Rightarrow> pid \<Rightarrow> pid option" where
  "nearest_item_ancestor ps P k = ancestor_search ps P 64 (parent_of ps k)"

type_synonym classes = "pid \<Rightarrow> proc_class option"

definition has_dev_browser_ancestor :: "process_info list \<Rightarrow> classes \<Rightarrow> pid \<Rightarrow> bool" where
  "has_dev_browser_ancestor ps cls k =
    (ancestor_search ps
       (\<lambda>a. case cls a of
              Some c \<Rightarrow> cl_category c = Mcp \<or> cl_category c = Agent \<or> str_contains (cl_display c) ''playwright''
            | None \<Rightarrow> False) 64 (parent_of ps k) \<noteq> None)"

section \<open>Which processes become items\<close>

definition classes_of :: "(process_info \<Rightarrow> proc_class option) \<Rightarrow> process_info list \<Rightarrow> classes" where
  "classes_of cl ps = map_of (rev (List.map_filter (\<lambda>p. map_option (\<lambda>c. (p_pid p, c)) (cl p)) ps))"

definition is_category :: "classes \<Rightarrow> category \<Rightarrow> pid \<Rightarrow> bool" where
  "is_category cls c k = (case cls k of Some x \<Rightarrow> cl_category x = c | None \<Rightarrow> False)"

definition keep_browser :: "(process_info \<Rightarrow> bool) \<Rightarrow> classes \<Rightarrow> process_info list \<Rightarrow> pid \<Rightarrow> bool" where
  "keep_browser looks_dev cls ps k \<longleftrightarrow>
    (\<exists>p\<in>set ps. p_pid p = k \<and> is_category cls Browser k \<and> (looks_dev p \<or> has_dev_browser_ancestor ps cls k))"

definition is_classified :: "(process_info \<Rightarrow> bool) \<Rightarrow> classes \<Rightarrow> process_info list \<Rightarrow> pid \<Rightarrow> bool" where
  "is_classified looks_dev cls ps k =
    (case cls k of
       Some c \<Rightarrow> if cl_category c = Browser then keep_browser looks_dev cls ps k else True
     | None \<Rightarrow> False)"

text \<open>The wrappers: generic runtimes with a classified descendant.  \<open>None\<close> if a search does not
  return.\<close>

fun wrappers_loop ::
  "(process_info \<Rightarrow> bool) \<Rightarrow> classes \<Rightarrow> process_info list \<Rightarrow> process_info list \<Rightarrow> pid set option" where
  "wrappers_loop looks_dev cls all [] = Some {}"
| "wrappers_loop looks_dev cls all (p # ps) =
    (if is_category cls UnknownDev (p_pid p)
     then (case has_classified_descendant all (is_classified looks_dev cls all) (p_pid p) of
             None \<Rightarrow> None
           | Some b \<Rightarrow> map_option (\<lambda>s. if b then insert (p_pid p) s else s) (wrappers_loop looks_dev cls all ps))
     else wrappers_loop looks_dev cls all ps)"

definition is_item :: "(process_info \<Rightarrow> bool) \<Rightarrow> classes \<Rightarrow> process_info list \<Rightarrow> pid set \<Rightarrow> pid \<Rightarrow> bool" where
  "is_item looks_dev cls ps wrap k =
    (case cls k of
       None \<Rightarrow> False
     | Some c \<Rightarrow>
         if \<not> is_classified looks_dev cls ps k \<or> k \<in> wrap
            \<or> cl_category c = Browser \<and> has_dev_browser_ancestor ps cls k then False
         else if cl_category c = UnknownDev
                 \<and> (case by_pid ps k of None \<Rightarrow> True | Some p \<Rightarrow> p_command p = []) then False
         else True)"

definition item_pids :: "(pid \<Rightarrow> bool) \<Rightarrow> process_info list \<Rightarrow> pid list" where
  "item_pids P ps = filter P (map p_pid ps)"

definition item_roots :: "(pid \<Rightarrow> bool) \<Rightarrow> process_info list \<Rightarrow> pid list" where
  "item_roots P ps = biggest_first ps (filter (\<lambda>k. nearest_item_ancestor ps P k = None) (item_pids P ps))"

definition item_kids :: "(pid \<Rightarrow> bool) \<Rightarrow> process_info list \<Rightarrow> pid \<Rightarrow> pid list" where
  "item_kids P ps k = biggest_first ps (filter (\<lambda>j. nearest_item_ancestor ps P j = Some k) (item_pids P ps))"

section \<open>Building\<close>

definition plain_item :: "category \<Rightarrow> string \<Rightarrow> pid option \<Rightarrow> pid list \<Rightarrow> u64 \<Rightarrow> runtime_item list \<Rightarrow> runtime_item" where
  "plain_item c n root pids m ch = RuntimeItem c n root pids m Active None [] None ch"

text \<open>The inner \<open>None\<close> is no browser; the outer one a search that does not return.\<close>

definition rollup_browsers ::
  "process_info list \<Rightarrow> classes \<Rightarrow> (pid \<Rightarrow> bool) \<Rightarrow> pid \<Rightarrow> runtime_item option option" where
  "rollup_browsers ps cls keep k =
    (case collect_loop (forest_children ps) keep (rev (forest_children ps k)) [] of
       None \<Rightarrow> None
     | Some pids \<Rightarrow>
         (case sort pids of
            [] \<Rightarrow> Some None
          | first # rest \<Rightarrow>
              Some (Some (plain_item Browser
                (case cls first of Some c \<Rightarrow> cl_display c | None \<Rightarrow> ''Chromium'')
                (Some first) (first # rest) (sum_list (map (mem_of ps) (first # rest))) []))))"

fun sequence :: "'a option list \<Rightarrow> 'a list option" where
  "sequence [] = Some []"
| "sequence (x # xs) =
    (case x of None \<Rightarrow> None | Some y \<Rightarrow> map_option (\<lambda>ys. y # ys) (sequence xs))"

fun build_item ::
  "nat \<Rightarrow> process_info list \<Rightarrow> classes \<Rightarrow> (pid \<Rightarrow> bool) \<Rightarrow> (pid \<Rightarrow> pid list) \<Rightarrow> pid \<Rightarrow> runtime_item option" where
  "build_item 0 ps cls keep kids k = None"
| "build_item (Suc n) ps cls keep kids k =
    (case (by_pid ps k, cls k) of
       (Some p, Some c) \<Rightarrow>
         (case sequence (map (build_item n ps cls keep kids) (kids k)) of
            None \<Rightarrow> None
          | Some children \<Rightarrow>
              (if cl_category c = Mcp
               then (case rollup_browsers ps cls keep k of
                       None \<Rightarrow> None
                     | Some r \<Rightarrow> Some (plain_item (cl_category c) (cl_display c) (Some k) [k] (p_memory p)
                                       (children @ (case r of Some b \<Rightarrow> [b] | None \<Rightarrow> []))))
               else Some (plain_item (cl_category c) (cl_display c) (Some k) [k] (p_memory p) children)))
     | _ \<Rightarrow> None)"

text \<open>One child folded into its parent, or kept: the parent's ids and memory, the kept and the absorbed
  children.\<close>

fun fold_same ::
  "category \<Rightarrow> string \<Rightarrow> runtime_item list \<Rightarrow> pid list \<Rightarrow> u64 \<Rightarrow> runtime_item list \<Rightarrow> runtime_item list
     \<Rightarrow> pid list \<times> u64 \<times> runtime_item list" where
  "fold_same c n [] ids m kept absorbed = (ids, m, kept @ absorbed)"
| "fold_same c n (i # is) ids m kept absorbed =
    (if ri_category i = c \<and> ri_display i = n
     then fold_same c n is (ids @ ri_pids i) (m + ri_memory i) kept (absorbed @ ri_children i)
     else fold_same c n is ids m (kept @ [i]) absorbed)"

fun collapse_same :: "runtime_item \<Rightarrow> runtime_item" where
  "collapse_same (RuntimeItem c n rt ids m st su po pj ch) =
    (let (ids', m', ch') = fold_same c n (map collapse_same ch) ids m [] []
     in RuntimeItem c n rt ids' m' st su po pj ch')"

definition group_with ::
  "(process_info \<Rightarrow> proc_class option) \<Rightarrow> (process_info \<Rightarrow> bool) \<Rightarrow> process_info list \<Rightarrow> runtime_item list option"
  where
  "group_with cl looks_dev ps =
    (if ps = [] then Some []
     else
       (let cls = classes_of cl ps
        in case wrappers_loop looks_dev cls ps ps of
             None \<Rightarrow> None
           | Some wrap \<Rightarrow>
               (let P = is_item looks_dev cls ps wrap; keep = keep_browser looks_dev cls ps
                in map_option (map collapse_same)
                     (sequence (map (build_item (length ps) ps cls keep (item_kids P ps)) (item_roots P ps))))))"

definition group :: "signature_config list \<Rightarrow> process_info list \<Rightarrow> runtime_item list option" where
  "group sigs ps = group_with (classify sigs) browser_cmd_looks_dev ps"

end
