(* ===== verification/Group_Props.thy ===== *)
theory Group_Props
  imports Group "HOL-Library.Multiset"
begin

text \<open>
  Grouping returns on every snapshot whose parent relation has no cycle, and shows every process
  that has a class of its own.
\<close>

section \<open>Ranked snapshots\<close>

text \<open>A parent ranks below its children: no cycles.\<close>

definition ranked :: "(pid \<Rightarrow> nat) \<Rightarrow> process_info list \<Rightarrow> bool" where
  "ranked rank ps \<longleftrightarrow>
    (\<forall>p\<in>set ps. \<forall>q\<in>set ps. p_parent p = Some (p_pid q) \<longrightarrow> rank (p_pid q) < rank (p_pid p))"

lemma by_pid_Some: "by_pid ps k = Some p \<Longrightarrow> p \<in> set ps \<and> p_pid p = k"
  unfolding by_pid_def by (drule map_of_SomeD) auto

lemma by_pid_ex: "p \<in> set ps \<Longrightarrow> by_pid ps (p_pid p) \<noteq> None"
  unfolding by_pid_def map_of_eq_None_iff by (simp add: image_image)

lemma set_biggest_first [simp]: "set (biggest_first ps ks) = set ks"
  by (simp add: biggest_first_def)

lemma children_ranked:
  assumes "ranked rank ps" "k \<in> set (forest_children ps c)"
  shows "rank c < rank k" "k \<in> p_pid ` set ps"
  using assms by (auto simp: forest_children_def ranked_def split: if_splits)

section \<open>Searches return\<close>

lemma mult_push:
  assumes "\<And>k. k \<in> set ks \<Longrightarrow> (k, c) \<in> R"
  shows "(mset (rev ks @ rest), mset (c # rest)) \<in> mult R"
proof -
  have "(mset rest + mset ks, mset rest + {#c#}) \<in> mult R"
    by (rule one_step_implies_mult) (use assms in auto)
  then show ?thesis by (simp add: add.commute)
qed

lemma descendant_loop_returns:
  assumes "wf R" "\<And>c k. k \<in> set (ch c) \<Longrightarrow> (k, c) \<in> R"
  shows "\<exists>b. descendant_loop ch P stack = Some b"
proof (induction "mset stack" arbitrary: stack rule: wf_induct_rule[OF wf_mult[OF assms(1)]])
  case (1 stack)
  show ?case
  proof (cases stack)
    case (Cons c rest)
    have "(mset (rev (ch c) @ rest), mset stack) \<in> mult R"
      unfolding Cons by (rule mult_push) (rule assms(2))
    then have "\<exists>b. descendant_loop ch P (rev (ch c) @ rest) = Some b" using 1 by blast
    then show ?thesis unfolding Cons by (subst descendant_loop.simps) auto
  qed (auto simp: descendant_loop.simps)
qed

lemma collect_loop_returns:
  assumes "wf R" "\<And>c k. k \<in> set (ch c) \<Longrightarrow> (k, c) \<in> R"
  shows "\<exists>ks. collect_loop ch P stack acc = Some ks \<and> set ks \<subseteq> set acc \<union> {k. P k}"
proof (induction "mset stack" arbitrary: stack acc rule: wf_induct_rule[OF wf_mult[OF assms(1)]])
  case (1 stack)
  show ?case
  proof (cases stack)
    case (Cons c rest)
    have m: "(mset (rev (ch c) @ rest), mset stack) \<in> mult R"
      unfolding Cons by (rule mult_push) (rule assms(2))
    obtain ks where "collect_loop ch P (rev (ch c) @ rest) (if P c then acc @ [c] else acc) = Some ks"
      "set ks \<subseteq> set (if P c then acc @ [c] else acc) \<union> {k. P k}"
      using 1[OF m] by blast
    then show ?thesis unfolding Cons by (subst collect_loop.simps) (auto split: if_splits)
  qed (simp add: collect_loop.simps)
qed

definition down :: "process_info list \<Rightarrow> (pid \<times> pid) set" where
  "down ps = {(k, c). k \<in> set (forest_children ps c)}"

lemma wf_down:
  assumes "ranked rank ps"
  shows "wf (down ps)"
proof -
  let ?M = "Max (rank ` p_pid ` set ps)"
  have "down ps \<subseteq> measure (\<lambda>k. ?M - rank k)"
  proof
    fix x assume "x \<in> down ps"
    then obtain k c where x: "x = (k, c)" "k \<in> set (forest_children ps c)" by (auto simp: down_def)
    note r = children_ranked[OF assms x(2)]
    have "rank k \<le> ?M" using r(2) by (intro Max_ge) auto
    then show "x \<in> measure (\<lambda>k. ?M - rank k)" using r(1) x(1) by auto
  qed
  then show ?thesis using wf_subset wf_measure by blast
qed

lemma wrappers_return:
  assumes "ranked rank all"
  shows "\<exists>s. wrappers_loop ld cls all ps = Some s \<and> s \<subseteq> {k. is_category cls UnknownDev k}"
proof (induction ps)
  case (Cons p ps)
  obtain b where "has_classified_descendant all (is_classified ld cls all) (p_pid p) = Some b"
    using descendant_loop_returns[OF wf_down[OF assms]] unfolding has_classified_descendant_def down_def
    by blast
  moreover obtain s where "wrappers_loop ld cls all ps = Some s" "s \<subseteq> {k. is_category cls UnknownDev k}"
    using Cons by blast
  ultimately show ?case by auto
qed simp

section \<open>Building returns\<close>

lemma ancestor_search_rank:
  assumes "ranked rank ps" "\<And>q. P q \<Longrightarrow> q \<in> p_pid ` set ps"
    and "ancestor_search ps P n (parent_of ps k) = Some a"
  shows "P a \<and> rank a < rank k"
  using assms(3)
proof (induction n arbitrary: k)
  case (Suc n)
  obtain q where q: "parent_of ps k = Some q" using Suc.prems by (cases "parent_of ps k") auto
  then obtain p where p: "by_pid ps k = Some p" "p_parent p = Some q"
    by (auto simp: parent_of_def bind_eq_Some_conv)
  have less: "q \<in> p_pid ` set ps \<Longrightarrow> rank q < rank k"
    using by_pid_Some[OF p(1)] p(2) assms(1) by (auto simp: ranked_def)
  show ?case
  proof (cases "P q")
    case True
    then show ?thesis using Suc.prems q less assms(2) by auto
  next
    case False
    then have s: "ancestor_search ps P n (parent_of ps q) = Some a" using Suc.prems q by simp
    then have "by_pid ps q \<noteq> None" by (cases "by_pid ps q") (simp_all add: parent_of_def)
    then have "q \<in> p_pid ` set ps" using by_pid_Some by fastforce
    then show ?thesis using Suc.IH[OF s] less by auto
  qed
next
  case 0
  then show ?case by (cases "parent_of ps k") auto
qed

lemma item_kids_in:
  "j \<in> set (item_kids P ps k) \<longleftrightarrow> P j \<and> j \<in> p_pid ` set ps \<and> nearest_item_ancestor ps P j = Some k"
  by (auto simp: item_kids_def item_pids_def)

lemma sequence_Some: "\<forall>x\<in>set xs. x \<noteq> None \<Longrightarrow> sequence xs = Some (map the xs)"
  by (induction xs) auto

lemma sequence_SomeD: "sequence xs = Some ys \<Longrightarrow> xs = map Some ys"
  by (induction xs arbitrary: ys) (auto split: option.splits)

definition higher :: "(pid \<Rightarrow> nat) \<Rightarrow> process_info list \<Rightarrow> pid \<Rightarrow> nat" where
  "higher rank ps k = card {j \<in> p_pid ` set ps. rank k \<le> rank j}"

lemma higher_less:
  assumes "rank k < rank j" "k \<in> p_pid ` set ps"
  shows "higher rank ps j < higher rank ps k"
  unfolding higher_def
proof (rule psubset_card_mono)
  have "k \<in> {i \<in> p_pid ` set ps. rank k \<le> rank i}" "k \<notin> {i \<in> p_pid ` set ps. rank j \<le> rank i}"
    using assms by auto
  then show "{i \<in> p_pid ` set ps. rank j \<le> rank i} \<subset> {i \<in> p_pid ` set ps. rank k \<le> rank i}"
    using assms(1) by fastforce
qed simp

lemma rollup_returns:
  assumes "ranked rank ps"
  shows "\<exists>r. rollup_browsers ps cls keep k = Some r"
proof -
  obtain ks where "collect_loop (forest_children ps) keep (rev (forest_children ps k)) [] = Some ks"
    using collect_loop_returns[OF wf_down[OF assms]] unfolding down_def by blast
  then show ?thesis by (cases "sort ks") (simp_all add: rollup_browsers_def)
qed

lemma build_returns:
  assumes "ranked rank ps" and P: "\<And>q. P q \<Longrightarrow> q \<in> p_pid ` set ps \<and> cls q \<noteq> None"
  shows "P k \<Longrightarrow> higher rank ps k \<le> n \<Longrightarrow> \<exists>i. build_item n ps cls keep (item_kids P ps) k = Some i"
proof (induction n arbitrary: k)
  case 0
  have "k \<in> {j \<in> p_pid ` set ps. rank k \<le> rank j}" using P[OF 0(1)] by auto
  then have "higher rank ps k > 0" unfolding higher_def by (auto simp: card_gt_0_iff)
  then show ?case using 0 by simp
next
  case (Suc n)
  have kids: "\<exists>i. build_item n ps cls keep (item_kids P ps) j = Some i" if j: "j \<in> set (item_kids P ps k)" for j
  proof -
    have "P j" "nearest_item_ancestor ps P j = Some k" using j by (simp_all add: item_kids_in)
    moreover from this have "rank k < rank j"
      using ancestor_search_rank[OF assms(1), of P 64 j k] P by (auto simp: nearest_item_ancestor_def)
    moreover from this have "higher rank ps j < higher rank ps k" using higher_less P[OF Suc.prems(1)] by blast
    ultimately show ?thesis using Suc.IH[of j] Suc.prems(2) by simp
  qed
  have "\<forall>x\<in>set (map (build_item n ps cls keep (item_kids P ps)) (item_kids P ps k)). x \<noteq> None"
    using kids by auto
  note s = sequence_Some[OF this]
  obtain p c where pc: "by_pid ps k = Some p" "cls k = Some c"
    using P[OF Suc.prems(1)] by_pid_ex by fastforce
  obtain r where "rollup_browsers ps cls keep k = Some r" using rollup_returns[OF assms(1)] by blast
  then show ?case using s pc by simp
qed

section \<open>What is shown\<close>

fun shown :: "runtime_item \<Rightarrow> pid set" where
  "shown (RuntimeItem c n rt ids m st su po pj ch) = set ids \<union> (\<Union>i\<in>set ch. shown i)"

lemma shown_alt: "shown i = set (ri_pids i) \<union> (\<Union>j\<in>set (ri_children i). shown j)"
  by (cases i) simp

lemma fold_same_shown:
  "fold_same c n is ids m kept absorbed = (ids', m', ch') \<Longrightarrow>
    set ids' \<union> (\<Union>i\<in>set ch'. shown i)
      = set ids \<union> (\<Union>i\<in>set is. shown i) \<union> (\<Union>i\<in>set (kept @ absorbed). shown i)"
proof (induction c n "is" ids m kept absorbed rule: fold_same.induct)
  case (2 c n i "is" ids m kept absorbed)
  then show ?case using shown_alt[of i] by (auto split: if_splits)
qed auto

lemma shown_collapse [simp]: "shown (collapse_same i) = shown i"
proof (induction i rule: collapse_same.induct)
  case (1 c n rt ids m st su po pj ch)
  obtain ids' m' ch' where f: "fold_same c n (map collapse_same ch) ids m [] [] = (ids', m', ch')"
    by (cases "fold_same c n (map collapse_same ch) ids m [] []")
  have "(\<Union>i\<in>set (map collapse_same ch). shown i) = (\<Union>i\<in>set ch. shown i)" using 1 by auto
  then show ?case using fold_same_shown[OF f] by (simp add: f)
qed

text \<open>The items below an item, by nearest item ancestors.\<close>

definition kid_rel :: "(pid \<Rightarrow> bool) \<Rightarrow> process_info list \<Rightarrow> (pid \<times> pid) set" where
  "kid_rel P ps = {(k, j). j \<in> set (item_kids P ps k)}"

lemma sequence_map:
  "sequence (map f xs) = Some ys \<Longrightarrow>
    (\<forall>x\<in>set xs. \<exists>y\<in>set ys. f x = Some y) \<and> (\<forall>y\<in>set ys. \<exists>x\<in>set xs. f x = Some y)"
proof -
  assume "sequence (map f xs) = Some ys"
  then have m: "map f xs = map Some ys" by (rule sequence_SomeD)
  have e: "f ` set xs = Some ` set ys" using arg_cong[OF m, of set] by simp
  have "f x \<in> Some ` set ys" if "x \<in> set xs" for x using that e by blast
  moreover have "Some y \<in> f ` set xs" if "y \<in> set ys" for y using that e by blast
  ultimately show ?thesis by fastforce
qed

lemma build_SucD:
  assumes "build_item n ps cls keep kids k = Some i"
  obtains m chs r where "n = Suc m" "ri_pids i = [k]" "ri_children i = chs @ r"
    "sequence (map (build_item m ps cls keep kids) (kids k)) = Some chs"
    "\<forall>b\<in>set r. rollup_browsers ps cls keep k = Some (Some b)"
proof (cases n)
  case (Suc m)
  then obtain chs where c: "sequence (map (build_item m ps cls keep kids) (kids k)) = Some chs"
    using assms by (auto split: option.splits)
  from assms Suc c have "\<exists>r. ri_pids i = [k] \<and> ri_children i = chs @ r
      \<and> (\<forall>b\<in>set r. rollup_browsers ps cls keep k = Some (Some b))"
    by (auto simp: plain_item_def split: option.splits if_splits)
  then show ?thesis using that Suc c by blast
qed (use assms in simp)

lemma rollup_shown:
  assumes "ranked rank ps" "rollup_browsers ps cls keep k = Some (Some b)"
  shows "shown b \<subseteq> {j. keep j}"
proof -
  obtain ks where ks: "collect_loop (forest_children ps) keep (rev (forest_children ps k)) [] = Some ks"
    "set ks \<subseteq> set [] \<union> {j. keep j}"
    using collect_loop_returns[OF wf_down[OF assms(1)]] unfolding down_def by blast
  have "shown b \<subseteq> set (sort ks)"
    using assms(2) ks(1) by (cases "sort ks") (auto simp: rollup_browsers_def plain_item_def)
  then show ?thesis using ks(2) by auto
qed

lemma build_shown:
  assumes "ranked rank ps"
  shows "build_item n ps cls keep (item_kids P ps) k = Some i \<Longrightarrow> P k \<Longrightarrow>
    shown i \<subseteq> {j. P j} \<union> {j. keep j}"
proof (induction n arbitrary: k i)
  case (Suc n)
  obtain m chs r where b: "Suc n = Suc m" "ri_pids i = [k]" "ri_children i = chs @ r"
    "sequence (map (build_item m ps cls keep (item_kids P ps)) (item_kids P ps k)) = Some chs"
    "\<forall>b\<in>set r. rollup_browsers ps cls keep k = Some (Some b)"
    using build_SucD[OF Suc.prems(1)] .
  have "shown x \<subseteq> {j. P j} \<union> {j. keep j}" if x: "x \<in> set chs" for x
  proof -
    obtain j where "j \<in> set (item_kids P ps k)" "build_item n ps cls keep (item_kids P ps) j = Some x"
      using sequence_map[OF b(4)] x b(1) by auto
    then show ?thesis using Suc.IH[of j x] by (simp add: item_kids_in)
  qed
  moreover have "shown x \<subseteq> {j. keep j}" if x: "x \<in> set r" for x
    using rollup_shown[OF assms] b(5) x by blast
  ultimately show ?case using b(2,3) Suc.prems(2) unfolding shown_alt[of i] by auto
qed simp

lemma build_shows_below:
  "(k, j) \<in> (kid_rel P ps)\<^sup>* \<Longrightarrow> build_item n ps cls keep (item_kids P ps) k = Some i \<Longrightarrow> j \<in> shown i"
proof (induction arbitrary: n i rule: converse_rtrancl_induct)
  case base
  obtain m chs r where "ri_pids i = [j]" using build_SucD[OF base] .
  then show ?case using shown_alt[of i] by simp
next
  case (step k k')
  obtain m chs r where b: "n = Suc m" "ri_pids i = [k]" "ri_children i = chs @ r"
    "sequence (map (build_item m ps cls keep (item_kids P ps)) (item_kids P ps k)) = Some chs"
    "\<forall>b\<in>set r. rollup_browsers ps cls keep k = Some (Some b)"
    using build_SucD[OF step.prems] .
  have "k' \<in> set (item_kids P ps k)" using step.hyps(1) by (simp add: kid_rel_def)
  then obtain x where x: "x \<in> set chs" "build_item m ps cls keep (item_kids P ps) k' = Some x"
    using sequence_map[OF b(4)] by blast
  from step.IH[OF x(2)] show ?case using x(1) b(3) shown_alt[of i] by auto
qed

lemma below_root:
  assumes "ranked rank ps" and P: "\<And>q. P q \<Longrightarrow> q \<in> p_pid ` set ps"
  shows "P j \<Longrightarrow> \<exists>r\<in>set (item_roots P ps). (r, j) \<in> (kid_rel P ps)\<^sup>*"
proof (induction "rank j" arbitrary: j rule: less_induct)
  case less
  show ?case
  proof (cases "nearest_item_ancestor ps P j")
    case None
    then have "j \<in> set (item_roots P ps)" using less.prems P by (auto simp: item_roots_def item_pids_def)
    then show ?thesis by blast
  next
    case (Some k)
    then have k: "P k" "rank k < rank j"
      using ancestor_search_rank[OF assms(1), of P 64 j k] P by (auto simp: nearest_item_ancestor_def)
    have "(k, j) \<in> kid_rel P ps" using Some less.prems P by (simp add: kid_rel_def item_kids_in)
    then show ?thesis using less.hyps[OF k(2,1)] by (meson rtrancl.rtrancl_into_rtrancl)
  qed
qed

lemma class_Some:
  "classes_of cl ps k = Some c \<Longrightarrow> \<exists>p\<in>set ps. p_pid p = k \<and> cl p = Some c"
  unfolding classes_of_def by (drule map_of_SomeD) (auto simp: List.map_filter_def split: option.splits)

lemma class_of_distinct:
  assumes "distinct (map p_pid ps)" "p \<in> set ps" "cl p = Some c"
  shows "classes_of cl ps (p_pid p) = Some c"
proof -
  have "(p_pid p, c) \<in> set (List.map_filter (\<lambda>p. map_option (\<lambda>c. (p_pid p, c)) (cl p)) ps)"
    using assms(2,3) by (force simp: List.map_filter_def)
  then have "p_pid p \<in> fst ` set (rev (List.map_filter (\<lambda>p. map_option (\<lambda>c. (p_pid p, c)) (cl p)) ps))"
    by (force simp del: map_filter_simps)
  then have "classes_of cl ps (p_pid p) \<noteq> None"
    unfolding classes_of_def map_of_eq_None_iff by simp
  then obtain d where d: "classes_of cl ps (p_pid p) = Some d" by auto
  then obtain q where "q \<in> set ps" "p_pid q = p_pid p" "cl q = Some d" using class_Some by metis
  then have "q = p" using assms(1,2) by (metis distinct_map inj_onD)
  then show ?thesis using d \<open>cl q = Some d\<close> assms(3) by simp
qed

text \<open>C14: On a snapshot with distinct pids whose parent relation has no cycle, grouping returns.  Every process
  with a class other than browser or generic runtime is shown, in some item, and only classified processes
  are shown.\<close>

theorem group_shows_classified:
  assumes "distinct (map p_pid ps)" "ranked rank ps"
  shows "\<exists>items. group sigs ps = Some items
    \<and> (\<forall>p\<in>set ps. \<forall>c. classify sigs p = Some c \<and> cl_category c \<noteq> Browser \<and> cl_category c \<noteq> UnknownDev
          \<longrightarrow> (\<exists>i\<in>set items. p_pid p \<in> shown i))
    \<and> (\<forall>i\<in>set items. \<forall>k\<in>shown i. \<exists>p\<in>set ps. p_pid p = k \<and> classify sigs p \<noteq> None)"
proof (cases "ps = []")
  case True
  then show ?thesis by (simp add: group_def group_with_def)
next
  case False
  define cls where "cls = classes_of (classify sigs) ps"
  obtain wrap where wrap: "wrappers_loop browser_cmd_looks_dev cls ps ps = Some wrap"
    "wrap \<subseteq> {k. is_category cls UnknownDev k}"
    using wrappers_return[OF assms(2)] by blast
  define P where "P = is_item browser_cmd_looks_dev cls ps wrap"
  define keep where "keep = keep_browser browser_cmd_looks_dev cls ps"
  have cls: "cls q \<noteq> None \<Longrightarrow> \<exists>p\<in>set ps. p_pid p = q \<and> classify sigs p \<noteq> None" for q
    using class_Some by (fastforce simp: cls_def)
  have Pq: "P q \<Longrightarrow> cls q \<noteq> None" for q by (auto simp: P_def is_item_def split: option.splits)
  have Pp: "P q \<Longrightarrow> q \<in> p_pid ` set ps \<and> cls q \<noteq> None" for q using cls Pq by (metis imageI)
  have len: "higher rank ps k \<le> length ps" for k
  proof -
    have "higher rank ps k \<le> card (p_pid ` set ps)" unfolding higher_def by (rule card_mono) auto
    also have "\<dots> \<le> length ps" using card_image_le card_length le_trans by blast
    finally show ?thesis .
  qed
  let ?b = "build_item (length ps) ps cls keep (item_kids P ps)"
  have built: "\<exists>i. ?b k = Some i" if "k \<in> set (item_roots P ps)" for k
    using build_returns[OF assms(2) Pp _ len, of P k] that by (auto simp: item_roots_def item_pids_def)
  then have "\<forall>x\<in>set (map ?b (item_roots P ps)). x \<noteq> None" by auto
  from sequence_Some[OF this] obtain its where its: "sequence (map ?b (item_roots P ps)) = Some its" by blast
  have g: "group sigs ps = Some (map collapse_same its)"
    using False wrap(1) its
    by (simp add: group_def group_with_def Let_def cls_def[symmetric] P_def[symmetric] keep_def[symmetric])
  have 1: "\<exists>i\<in>set its. p_pid p \<in> shown i"
    if p: "p \<in> set ps" "classify sigs p = Some c" "cl_category c \<noteq> Browser" "cl_category c \<noteq> UnknownDev" for p c
  proof -
    have c: "cls (p_pid p) = Some c" unfolding cls_def
      by (rule class_of_distinct[where cl = "classify sigs", OF assms(1) p(1,2)])
    then have "p_pid p \<notin> wrap" using wrap(2) p(4) by (auto simp: is_category_def)
    then have "P (p_pid p)" using c p(3,4) by (simp add: P_def is_item_def is_classified_def)
    then obtain r where r: "r \<in> set (item_roots P ps)" "(r, p_pid p) \<in> (kid_rel P ps)\<^sup>*"
      using below_root[OF assms(2), of P "p_pid p"] Pp by blast
    then obtain i where "i \<in> set its" "?b r = Some i" using sequence_map[OF its] by blast
    then show ?thesis using build_shows_below[OF r(2)] by blast
  qed
  have 2: "\<exists>p\<in>set ps. p_pid p = k \<and> classify sigs p \<noteq> None" if i: "i \<in> set its" "k \<in> shown i" for i k
  proof -
    obtain r where r: "r \<in> set (item_roots P ps)" "?b r = Some i" using sequence_map[OF its] i(1) by blast
    then have "P r" by (auto simp: item_roots_def item_pids_def)
    from build_shown[OF assms(2) r(2) this] i(2) have "P k \<or> keep k" by blast
    then have "cls k \<noteq> None" using Pq[of k] by (auto simp: keep_def keep_browser_def is_category_def split: option.splits)
    then show ?thesis by (rule cls)
  qed
  show ?thesis using g 1 2 by auto
qed

text \<open>A snapshot: an agent below a shell, and a database below the agent.\<close>

definition tiny_proc :: "pid \<Rightarrow> pid option \<Rightarrow> string \<Rightarrow> process_info" where
  "tiny_proc k up n =
    \<lparr>p_pid = k, p_parent = up, p_name = n, p_command = [n], p_executable = None, p_cwd = None,
     p_memory = 4096, p_start_time = 7, p_tty = None\<rparr>"

definition tiny_snapshot :: "process_info list" where
  "tiny_snapshot = [tiny_proc 5 None ''sh'', tiny_proc 6 (Some 5) ''claude'', tiny_proc 9 (Some 6) ''postgres'']"

lemma tiny_classes:
  "classify [] (tiny_proc 6 (Some 5) ''claude'') = Some (dev Agent ''claude'')"
  "classify [] (tiny_proc 9 (Some 6) ''postgres'') = Some (dev Database ''postgres'')"
  by code_simp+

theorem group_shows_classified_witness:
  "\<exists>items. group [] tiny_snapshot = Some items \<and> (\<exists>i\<in>set items. 6 \<in> shown i) \<and> (\<exists>i\<in>set items. 9 \<in> shown i)"
proof -
  have "distinct (map p_pid tiny_snapshot)" by (simp add: tiny_snapshot_def tiny_proc_def)
  moreover have "ranked (\<lambda>k. unat k) tiny_snapshot" by (simp add: ranked_def tiny_snapshot_def tiny_proc_def)
  ultimately show ?thesis using group_shows_classified[of tiny_snapshot "\<lambda>k. unat k" "[]"] tiny_classes
    by (auto simp: tiny_snapshot_def tiny_proc_def dev_def)
qed

end
