(* ===== verification/Actions.thy ===== *)
theory Actions
  imports Group_Props
begin

text \<open>
  Signalling the processes of an item (\<open>src/actions/process.rs\<close>): which identities, in which
  order, and the check against the live process before each signal.  The live processes and the results
  of \<open>kill\<close> are arguments.  The recursion of the walk is bounded by fuel; \<open>None\<close> is running
  out of it.
\<close>

section \<open>Identities of an item\<close>

record identity =
  id_pid :: pid
  id_start :: u64

datatype signal = Term | Kill

record kill_report =
  kr_signaled :: nat
  kr_skipped :: nat
  kr_failed :: nat

definition report_default :: kill_report where
  "report_default = \<lparr>kr_signaled = 0, kr_skipped = 0, kr_failed = 0\<rparr>"

fun all_item_pids :: "runtime_item \<Rightarrow> pid list" where
  "all_item_pids (RuntimeItem c n rt ids m st su po pj ch) = ids @ concat (map all_item_pids ch)"

definition kids_within :: "pid set \<Rightarrow> process_info list \<Rightarrow> pid \<Rightarrow> pid list" where
  "kids_within allowed ps k =
    (if k \<in> allowed then map p_pid (filter (\<lambda>p. p_parent p = Some k \<and> p_pid p \<in> allowed) ps) else [])"

text \<open>The visited set and the output.\<close>

fun post_walk :: "nat \<Rightarrow> (pid \<Rightarrow> pid list) \<Rightarrow> pid \<Rightarrow> pid set \<times> pid list \<Rightarrow> (pid set \<times> pid list) option"
and post_walks :: "nat \<Rightarrow> (pid \<Rightarrow> pid list) \<Rightarrow> pid list \<Rightarrow> pid set \<times> pid list \<Rightarrow> (pid set \<times> pid list) option"
where
  "post_walk 0 ch k s = None"
| "post_walk (Suc n) ch k (seen, out) =
    (if k \<in> seen then Some (seen, out)
     else
       (case post_walks n ch (ch k) (insert k seen, out) of
          None \<Rightarrow> None
        | Some (seen', out') \<Rightarrow> Some (seen', out' @ [k])))"
| "post_walks n ch [] s = Some s"
| "post_walks n ch (k # ks) s =
    (case post_walk n ch k s of None \<Rightarrow> None | Some s' \<Rightarrow> post_walks n ch ks s')"

definition postorder_fuel :: "nat \<Rightarrow> pid list \<Rightarrow> process_info list \<Rightarrow> pid list option" where
  "postorder_fuel n seeds ps = map_option snd (post_walks n (kids_within (set seeds) ps) seeds ({}, []))"

definition postorder :: "pid list \<Rightarrow> process_info list \<Rightarrow> pid list option" where
  "postorder seeds ps = postorder_fuel (length seeds + 1) seeds ps"

definition identities_for :: "runtime_item \<Rightarrow> process_info list \<Rightarrow> identity list option" where
  "identities_for i ps =
    map_option
      (List.map_filter (\<lambda>k. map_option (\<lambda>p. \<lparr>id_pid = k, id_start = p_start_time p\<rparr>) (by_pid ps k)))
      (postorder (all_item_pids i) ps)"

section \<open>Signalling\<close>

type_synonym live_starts = "pid \<Rightarrow> u64 option"

definition identity_live :: "live_starts \<Rightarrow> identity \<Rightarrow> bool" where
  "identity_live sys i =
    (case sys (id_pid i) of
       None \<Rightarrow> False
     | Some t \<Rightarrow> if id_start i \<noteq> 0 \<and> t \<noteq> 0 then id_start i = t else True)"

datatype kill_result = Delivered | NoSuchProcess | OtherError

text \<open>The report, and the pids for which \<open>kill\<close> was called, in order.\<close>

fun send_loop ::
  "live_starts \<Rightarrow> (pid \<Rightarrow> kill_result) \<Rightarrow> identity list \<Rightarrow> kill_report \<times> pid list \<Rightarrow> kill_report \<times> pid list" where
  "send_loop sys kill [] (r, sent) = (r, sent)"
| "send_loop sys kill (i # is) (r, sent) =
    (if \<not> identity_live sys i then send_loop sys kill is (r\<lparr>kr_skipped := kr_skipped r + 1\<rparr>, sent)
     else
       send_loop sys kill is
         (case kill (id_pid i) of
            Delivered \<Rightarrow> r\<lparr>kr_signaled := kr_signaled r + 1\<rparr>
          | NoSuchProcess \<Rightarrow> r\<lparr>kr_skipped := kr_skipped r + 1\<rparr>
          | OtherError \<Rightarrow> r\<lparr>kr_failed := kr_failed r + 1\<rparr>, sent @ [id_pid i]))"

definition send :: "live_starts \<Rightarrow> (pid \<Rightarrow> kill_result) \<Rightarrow> identity list \<Rightarrow> kill_report \<times> pid list" where
  "send sys kill is = (if is = [] then (report_default, []) else send_loop sys kill is (report_default, []))"

lemma send_loop_counts:
  "send_loop sys kill is (r, sent) = (r', sent') \<Longrightarrow>
    sent' = sent @ map id_pid (filter (identity_live sys) is)
    \<and> kr_signaled r' + kr_skipped r' + kr_failed r' = kr_signaled r + kr_skipped r + kr_failed r + length is"
  by (induction sys kill "is" "(r, sent)" arbitrary: r sent rule: send_loop.induct)
    (auto split: if_splits kill_result.splits)

lemma send_sent: "snd (send sys kill is) = map id_pid (filter (identity_live sys) is)"
  using send_loop_counts[of sys kill "is" report_default "[]"]
  by (cases "send_loop sys kill is (report_default, [])") (auto simp: send_def)

section \<open>The walk\<close>

text \<open>It needs at most one level of fuel per allowed pid.\<close>

lemma walk_returns:
  fixes ch :: "pid \<Rightarrow> pid list"
  assumes A: "finite A"
  shows "\<forall>k. set (ch k) \<subseteq> A \<Longrightarrow> k \<in> A \<Longrightarrow> card (A - fst s) < n \<Longrightarrow> \<exists>s'. post_walk n ch k s = Some s' \<and> fst s \<subseteq> fst s'"
    and "\<forall>k. set (ch k) \<subseteq> A \<Longrightarrow> set ks \<subseteq> A \<Longrightarrow> card (A - fst s) < n \<Longrightarrow> \<exists>s'. post_walks n ch ks s = Some s' \<and> fst s \<subseteq> fst s'"
proof (induction n ch k s and n ch ks s rule: post_walk_post_walks.induct)
  case (2 n ch k seen out)
  show ?case
  proof (cases "k \<in> seen")
    case False
    have "A - insert k seen \<subset> A - seen" using 2(3) False by auto
    then have "card (A - insert k seen) < card (A - seen)" using A by (intro psubset_card_mono) auto
    then obtain s' where "post_walks n ch (ch k) (insert k seen, out) = Some s'" "insert k seen \<subseteq> fst s'"
      using 2(1)[OF False 2(2)] 2(2,4) by auto
    then show ?thesis using False by (cases s') auto
  qed simp
next
  case (4 n ch k ks s)
  then obtain s1 where s1: "post_walk n ch k s = Some s1" "fst s \<subseteq> fst s1" by auto
  have "card (A - fst s1) \<le> card (A - fst s)" using A s1(2) by (intro card_mono) auto
  then obtain s' where "post_walks n ch ks s1 = Some s'" "fst s1 \<subseteq> fst s'" using 4 s1(1) by auto
  then show ?case using s1 by auto
qed simp_all

text \<open>The output with the pids still being walked: everything below a pid stands before it.\<close>

definition walk_inv :: "(pid \<Rightarrow> pid list) \<Rightarrow> pid set \<Rightarrow> pid set \<times> pid list \<Rightarrow> bool" where
  "walk_inv ch G s \<longleftrightarrow>
     fst s = set (snd s) \<union> G \<and> G \<inter> set (snd s) = {} \<and> distinct (snd s)
     \<and> (\<forall>xs k ys. snd s = xs @ k # ys \<longrightarrow> set (ch k) \<subseteq> set xs)"

lemma walk_inv_snoc:
  assumes "walk_inv ch (insert k G) (seen, out)" "k \<notin> G" "set (ch k) \<subseteq> set out"
  shows "walk_inv ch G (seen, out @ [k])"
proof -
  have "set (ch j) \<subseteq> set xs" if e: "out @ [k] = xs @ j # ys" for xs j ys
  proof (cases ys rule: rev_cases)
    case Nil
    then show ?thesis using e assms(3) by simp
  next
    case (snoc ys' y)
    then have "out = xs @ j # ys'" using e by simp
    then show ?thesis using assms(1) by (auto simp: walk_inv_def)
  qed
  then show ?thesis using assms(1,2) unfolding walk_inv_def by auto
qed

lemma walk_order:
  fixes rank :: "pid \<Rightarrow> nat"
  shows "\<forall>k. \<forall>j\<in>set (ch k). rank k < rank j \<Longrightarrow> walk_inv ch G s \<Longrightarrow> \<forall>g\<in>G. rank g < rank k \<Longrightarrow> post_walk n ch k s = Some s' \<Longrightarrow>
      walk_inv ch G s' \<and> k \<in> set (snd s') \<and> set (snd s) \<subseteq> set (snd s') \<and> set (snd s') \<subseteq> set (snd s) \<union> insert k (\<Union>j. set (ch j))"
    and "\<forall>k. \<forall>j\<in>set (ch k). rank k < rank j \<Longrightarrow> walk_inv ch G s \<Longrightarrow> \<forall>g\<in>G. \<forall>k\<in>set ks. rank g < rank k \<Longrightarrow> post_walks n ch ks s = Some s' \<Longrightarrow>
      walk_inv ch G s' \<and> set ks \<subseteq> set (snd s') \<and> set (snd s) \<subseteq> set (snd s')
      \<and> set (snd s') \<subseteq> set (snd s) \<union> set ks \<union> (\<Union>j. set (ch j))"
proof (induction n ch k s and n ch ks s arbitrary: G s' and G s' rule: post_walk_post_walks.induct)
  case (2 n ch k seen out)
  show ?case
  proof (cases "k \<in> seen")
    case True
    have "k \<notin> G" using 2(4) by auto
    then have "k \<in> set out" using True 2(3) by (auto simp: walk_inv_def)
    then show ?thesis using 2(3,5) True by auto
  next
    case False
    have kG: "k \<notin> G" using 2(4) by auto
    obtain seen1 out1 where w: "post_walks n ch (ch k) (insert k seen, out) = Some (seen1, out1)"
      "s' = (seen1, out1 @ [k])" using 2(5) False by (auto split: option.splits)
    have i: "walk_inv ch (insert k G) (insert k seen, out)" using 2(3) False by (auto simp: walk_inv_def)
    have r: "\<forall>g\<in>insert k G. \<forall>j\<in>set (ch k). rank g < rank j" using 2(2,4) by (auto intro: less_trans)
    from 2(1)[OF False 2(2) i r w(1)] have w1: "walk_inv ch (insert k G) (seen1, out1)" "set (ch k) \<subseteq> set out1"
      "set out \<subseteq> set out1" "set out1 \<subseteq> set out \<union> set (ch k) \<union> (\<Union>j. set (ch j))" by auto
    then show ?thesis using walk_inv_snoc[OF w1(1) kG w1(2)] w(2) by auto
  qed
next
  case (4 n ch k ks s)
  obtain s1 where s1: "post_walk n ch k s = Some s1" "post_walks n ch ks s1 = Some s'"
    using 4(6) by (auto split: option.splits)
  have a: "walk_inv ch G s1 \<and> k \<in> set (snd s1) \<and> set (snd s) \<subseteq> set (snd s1)
      \<and> set (snd s1) \<subseteq> set (snd s) \<union> insert k (\<Union>j. set (ch j))"
    using 4(1)[OF 4(3,4) _ s1(1)] 4(5) by simp
  then have "walk_inv ch G s' \<and> set ks \<subseteq> set (snd s') \<and> set (snd s1) \<subseteq> set (snd s')
      \<and> set (snd s') \<subseteq> set (snd s1) \<union> set ks \<union> (\<Union>j. set (ch j))"
    using 4(2)[OF s1(1) 4(3) _ _ s1(2), of G] 4(5) by simp
  then show ?case using a by auto
qed auto

lemma postorder_props:
  assumes "ranked rank ps" "set seeds \<subseteq> p_pid ` set ps"
  shows "\<exists>out. postorder seeds ps = Some out \<and> distinct out \<and> set out = set seeds
    \<and> (\<forall>xs k ys. out = xs @ k # ys \<longrightarrow> set (kids_within (set seeds) ps k) \<subseteq> set xs)"
proof -
  let ?ch = "kids_within (set seeds) ps"
  have sub: "\<forall>k. set (?ch k) \<subseteq> set seeds" by (auto simp: kids_within_def)
  have up: "\<forall>k. \<forall>j\<in>set (?ch k). rank k < rank j"
  proof (intro allI ballI)
    fix k j assume "j \<in> set (?ch k)"
    then obtain p where p: "p \<in> set ps" "p_parent p = Some k" "p_pid p = j" "k \<in> set seeds"
      by (auto simp: kids_within_def split: if_splits)
    then obtain q where "q \<in> set ps" "p_pid q = k" using assms(2) by auto
    then show "rank k < rank j" using assms(1) p by (auto simp: ranked_def)
  qed
  have "card (set seeds - fst ({} :: pid set, [] :: pid list)) < length seeds + 1" using card_length[of seeds] by simp
  then obtain s' where s': "post_walks (length seeds + 1) ?ch seeds ({}, []) = Some s'"
    using walk_returns(2)[of "set seeds" ?ch seeds "({}, [])" "length seeds + 1"] sub by auto
  have "walk_inv ?ch {} ({}, [])" by (simp add: walk_inv_def)
  from walk_order(2)[OF up this _ s'] have o: "walk_inv ?ch {} s'" "set seeds \<subseteq> set (snd s')"
    "set (snd s') \<subseteq> set seeds \<union> (\<Union>j. set (?ch j))" by auto
  then show ?thesis using sub unfolding postorder_def postorder_fuel_def s' walk_inv_def by auto
qed

lemma identities_of:
  assumes "\<forall>k\<in>set out. by_pid ps k \<noteq> None"
  shows "map id_pid (List.map_filter (\<lambda>k. map_option (\<lambda>p. \<lparr>id_pid = k, id_start = p_start_time p\<rparr>) (by_pid ps k)) out) = out"
  using assms by (induction out) (auto simp: map_filter_simps)

text \<open>C20: On a snapshot without parent cycles, the identities of an item are its own processes and nothing
  else, each once, and every process stands before its parent.  Signals go, in that order, to exactly
  those of them whose start time still fits.\<close>

theorem kill_own_deepest_first:
  assumes "ranked rank ps" "set (all_item_pids i) \<subseteq> p_pid ` set ps"
  shows "\<exists>ids. identities_for i ps = Some ids \<and> distinct (map id_pid ids)
    \<and> set (map id_pid ids) = set (all_item_pids i)
    \<and> (\<forall>xs y ys p. ids = xs @ y # ys \<and> p \<in> set ps \<and> p_parent p = Some (id_pid y) \<and> p_pid p \<in> set (all_item_pids i)
         \<longrightarrow> p_pid p \<in> id_pid ` set xs)
    \<and> snd (send sys kill ids) = map id_pid (filter (identity_live sys) ids)"
proof -
  obtain out where out: "postorder (all_item_pids i) ps = Some out" "distinct out" "set out = set (all_item_pids i)"
    "\<And>xs k ys. out = xs @ k # ys \<Longrightarrow> set (kids_within (set (all_item_pids i)) ps k) \<subseteq> set xs"
    using postorder_props[OF assms] by auto
  define ids where "ids = List.map_filter (\<lambda>k. map_option (\<lambda>p. \<lparr>id_pid = k, id_start = p_start_time p\<rparr>) (by_pid ps k)) out"
  have "\<forall>k\<in>set out. by_pid ps k \<noteq> None" using assms(2) out(3) by_pid_ex by fastforce
  then have m: "map id_pid ids = out" unfolding ids_def by (rule identities_of)
  have "identities_for i ps = Some ids" by (simp add: identities_for_def out(1) ids_def)
  moreover have "p_pid p \<in> id_pid ` set xs"
    if "ids = xs @ y # ys" "p \<in> set ps" "p_parent p = Some (id_pid y)" "p_pid p \<in> set (all_item_pids i)" for xs y ys p
  proof -
    have e: "out = map id_pid xs @ id_pid y # map id_pid ys" using that(1) m by auto
    then have "id_pid y \<in> set (all_item_pids i)" using out(3) by auto
    then have "p_pid p \<in> set (kids_within (set (all_item_pids i)) ps (id_pid y))" using that by (auto simp: kids_within_def)
    then show ?thesis using out(4)[OF e] by auto
  qed
  ultimately show ?thesis using m out(2,3) by (intro exI[of _ ids]) (auto simp: send_sent)
qed

definition tiny_agent :: runtime_item where
  "tiny_agent = RuntimeItem Agent ''claude'' (Some 6) [6] 0 Active None [] None
     [RuntimeItem Database ''postgres'' (Some 9) [9] 0 Active None [] None []]"

theorem kill_own_deepest_first_witness:
  "\<exists>ids. identities_for tiny_agent tiny_snapshot = Some ids \<and> set (map id_pid ids) = {6, 9}"
proof -
  have r: "ranked (\<lambda>k. unat k) tiny_snapshot" by (simp add: ranked_def tiny_snapshot_def tiny_proc_def)
  have a: "set (all_item_pids tiny_agent) = {6, 9}" by (simp add: tiny_agent_def)
  have "set (all_item_pids tiny_agent) \<subseteq> p_pid ` set tiny_snapshot"
    unfolding a by (simp add: tiny_snapshot_def tiny_proc_def)
  from kill_own_deepest_first[OF r this] show ?thesis unfolding a by blast
qed

end
