(* ===== verification/Ownership.thy ===== *)
theory Ownership
  imports Proc_Model "HOL-Library.Multiset"
begin

text \<open>
  Ownership of runtime resources (\<open>src/classify/ownership\<close>): the resolver that scores candidate
  sessions, its rule table, and the exact ownership read off the tree of runtime items.
\<close>

section \<open>The rule table\<close>

definition RESOLVER_VERSION :: u32 where "RESOLVER_VERSION = 1"

record resolver_rules =
  ru_descendant :: u8
  ru_direct :: u8
  ru_explicit :: u8
  ru_exact_cwd :: u8
  ru_same_git :: u8
  ru_project_cap :: u8
  ru_10s :: u8
  ru_60s :: u8
  ru_5m :: u8
  ru_temporal_cap :: u8
  ru_relationship :: u8
  ru_relationship_cap :: u8
  ru_threshold :: u8
  ru_margin :: u8

definition rules_v1 :: resolver_rules where
  "rules_v1 = \<lparr>ru_descendant = 75, ru_direct = 85, ru_explicit = 100, ru_exact_cwd = 10, ru_same_git = 8,
     ru_project_cap = 10, ru_10s = 5, ru_60s = 3, ru_5m = 1, ru_temporal_cap = 5, ru_relationship = 5,
     ru_relationship_cap = 5, ru_threshold = 75, ru_margin = 15\<rparr>"

section \<open>Candidates\<close>

datatype anchor_kind = Explicit | DirectChild | Descendant | PersistedPrevious | Propagated

datatype rejection = PredatesSession | ReachesOtherAgent

record candidate_input =
  ci_session :: session_id
  ci_anchor :: "anchor_kind option"
  ci_anchor_score :: "u8 option"
  ci_propagate_cap :: "u8 option"
  ci_exact_cwd :: bool
  ci_same_git_root :: bool
  ci_start_delta :: "u64 option"
  ci_tool :: bool
  ci_predates :: bool
  ci_other_agent :: bool

datatype evidence_kind = EvPersisted | EvCwd | EvGitRoot | EvStart | EvTool | EvPredates | EvOtherAgent

definition evidence_as_str :: "evidence_kind \<Rightarrow> string" where
  "evidence_as_str k =
    (case k of
       EvPersisted \<Rightarrow> ''persisted ownership'' | EvCwd \<Rightarrow> ''cwd match'' | EvGitRoot \<Rightarrow> ''git root''
     | EvStart \<Rightarrow> ''start-time correlation'' | EvTool \<Rightarrow> ''known tool relationship''
     | EvPredates \<Rightarrow> ''predates session'' | EvOtherAgent \<Rightarrow> ''reaches another agent'')"

type_synonym evidence = "evidence_kind \<times> string"

record attribution_candidate =
  ac_session :: session_id
  ac_anchor :: anchor_kind
  ac_anchor_score :: u8
  ac_project :: u8
  ac_temporal :: u8
  ac_relationship :: u8
  ac_total :: u8
  ac_rejected :: "rejection option"
  ac_evidence :: "evidence list"

datatype own_verdict = Owned | Ambiguous | Undecided

record attribution_decision =
  ad_version :: u32
  ad_verdict :: own_verdict
  ad_winner :: "session_id option"
  ad_candidates :: "attribution_candidate list"

definition evidence_for :: "candidate_input \<Rightarrow> anchor_kind \<Rightarrow> evidence list" where
  "evidence_for i a =
     (if a = PersistedPrevious then [(EvPersisted, ''previous observation'')] else [])
   @ (if ci_exact_cwd i then [(EvCwd, ''exact'')] else [])
   @ (if ci_same_git_root i then [(EvGitRoot, ''shared'')] else [])
   @ (case ci_start_delta i of Some d \<Rightarrow> [(EvStart, show_nat (unat d) @ ''s after session start'')] | None \<Rightarrow> [])
   @ (if ci_tool i then [(EvTool, ''known chain'')] else [])
   @ (if ci_predates i then [(EvPredates, ''resource started first'')] else [])
   @ (if ci_other_agent i then [(EvOtherAgent, ''ancestry reaches another session'')] else [])"

definition project_support :: "resolver_rules \<Rightarrow> candidate_input \<Rightarrow> u8" where
  "project_support r i =
    min (if ci_exact_cwd i then ru_exact_cwd r else if ci_same_git_root i then ru_same_git r else 0)
      (ru_project_cap r)"

definition temporal_support :: "resolver_rules \<Rightarrow> u64 option \<Rightarrow> u8" where
  "temporal_support r delta =
    (case delta of
       None \<Rightarrow> 0
     | Some d \<Rightarrow> min (if d \<le> 10 then ru_10s r else if d \<le> 60 then ru_60s r else if d \<le> 5 * 60 then ru_5m r else 0)
                  (ru_temporal_cap r))"

definition candidate_of :: "resolver_rules \<Rightarrow> candidate_input \<Rightarrow> attribution_candidate option" where
  "candidate_of r i =
    (case ci_anchor i of
       None \<Rightarrow> None
     | Some a \<Rightarrow>
         (let score = (case a of
              Explicit \<Rightarrow> ru_explicit r
            | DirectChild \<Rightarrow> ru_direct r
            | Descendant \<Rightarrow> ru_descendant r
            | _ \<Rightarrow> (case ci_anchor_score i of Some s \<Rightarrow> s | None \<Rightarrow> ru_descendant r));
            rejected = (if ci_predates i then Some PredatesSession
                        else if ci_other_agent i then Some ReachesOtherAgent else None);
            ps = project_support r i;
            ts = temporal_support r (ci_start_delta i);
            rs = min (if ci_tool i then ru_relationship r else 0) (ru_relationship_cap r);
            total = min (sat_add (sat_add (sat_add score ps) ts) rs) 100;
            total' = (case ci_propagate_cap i of Some cap \<Rightarrow> min total cap | None \<Rightarrow> total)
          in Some \<lparr>ac_session = ci_session i, ac_anchor = a, ac_anchor_score = score, ac_project = ps,
               ac_temporal = ts, ac_relationship = rs, ac_total = total', ac_rejected = rejected,
               ac_evidence = evidence_for i a\<rparr>))"

text \<open>The sort is stable, by descending total.\<close>

definition eligible :: "attribution_candidate list \<Rightarrow> attribution_candidate list" where
  "eligible cs = sort_key (\<lambda>c. 255 - unat (ac_total c)) (filter (\<lambda>c. ac_rejected c = None) cs)"

definition select :: "resolver_rules \<Rightarrow> attribution_candidate list \<Rightarrow> attribution_decision" where
  "select r cs =
    (let es = eligible cs;
         v = (case es of
                [] \<Rightarrow> Undecided
              | best # rest \<Rightarrow>
                  if ac_total best < ru_threshold r then Undecided
                  else if (case rest of [] \<Rightarrow> True
                           | second # _ \<Rightarrow> sat_sub (ac_total best) (ac_total second) \<ge> ru_margin r)
                  then Owned else Ambiguous)
     in \<lparr>ad_version = RESOLVER_VERSION, ad_verdict = v,
         ad_winner = (if v = Owned then map_option ac_session (case es of [] \<Rightarrow> None | c # _ \<Rightarrow> Some c) else None),
         ad_candidates = cs\<rparr>)"

definition resolve :: "resolver_rules \<Rightarrow> candidate_input list \<Rightarrow> attribution_decision" where
  "resolve r inputs = select r (List.map_filter (candidate_of r) inputs)"

section \<open>Exact ownership\<close>

definition resource_id_of_root :: "process_identity \<Rightarrow> u64" where
  "resource_id_of_root root =
    fnv1a [boot_to_le_bytes (i_boot root), le_bytes 4 (unat (i_pid root)), le_bytes 8 (unat (i_start root))]"

record owned_resource =
  or_resource :: u64
  or_kind :: category
  or_root :: process_identity
  or_members :: "process_identity list"
  or_session :: session_id

record ownership_result =
  ow_sessions :: "runtime_session list"
  ow_owned :: "owned_resource list"

type_synonym identities = "pid \<Rightarrow> process_identity option"

definition root_identity :: "identities \<Rightarrow> runtime_item \<Rightarrow> process_identity option" where
  "root_identity ids i = Option.bind (ri_root i) ids"

text \<open>The session an item starts, if it is an agent whose root has an identity.\<close>

definition session_started :: "identities \<Rightarrow> u64 \<Rightarrow> runtime_item \<Rightarrow> runtime_session option" where
  "session_started ids now i =
    (if ri_category i = Agent
     then map_option (\<lambda>root. session_new (ri_display i) root (ri_project i) now) (root_identity ids i)
     else None)"

definition own_here :: "identities \<Rightarrow> session_id option \<Rightarrow> runtime_item \<Rightarrow> owned_resource option" where
  "own_here ids session i =
    (case (session, root_identity ids i) of
       (Some sid, Some root) \<Rightarrow>
         Some \<lparr>or_resource = resource_id_of_root root, or_kind = ri_category i, or_root = root,
               or_members = List.map_filter ids (ri_pids i), or_session = sid\<rparr>
     | _ \<Rightarrow> None)"

fun walk_item ::
  "identities \<Rightarrow> u64 \<Rightarrow> session_id option \<Rightarrow> runtime_item \<Rightarrow> ownership_result \<Rightarrow> ownership_result"
and walk_items ::
  "identities \<Rightarrow> u64 \<Rightarrow> session_id option \<Rightarrow> runtime_item list \<Rightarrow> ownership_result \<Rightarrow> ownership_result"
where
  "walk_item ids now outer (RuntimeItem c n rt ps m st su po pj ch) out =
    (let i = RuntimeItem c n rt ps m st su po pj ch
     in case session_started ids now i of
          Some s \<Rightarrow> walk_items ids now (Some (rs_id s)) ch (out\<lparr>ow_sessions := ow_sessions out @ [s]\<rparr>)
        | None \<Rightarrow>
            walk_items ids now outer ch
              (case own_here ids outer i of
                 None \<Rightarrow> out
               | Some o' \<Rightarrow> out\<lparr>ow_owned := ow_owned out @ [o']\<rparr>))"
| "walk_items ids now outer [] out = out"
| "walk_items ids now outer (i # is) out = walk_items ids now outer is (walk_item ids now outer i out)"

definition derive_ownership :: "runtime_item list \<Rightarrow> identities \<Rightarrow> u64 \<Rightarrow> ownership_result" where
  "derive_ownership items ids now =
    walk_items ids now None items \<lparr>ow_sessions = [], ow_owned = []\<rparr>"

section \<open>The resolver\<close>

lemma eligible_mset: "mset (eligible cs) = mset (filter (\<lambda>c. ac_rejected c = None) cs)"
  by (simp add: eligible_def)

lemma unat_u8_less: "unat (w :: u8) < 256"
  using unsigned_less[of w] by simp

lemma eligible_sorted: "sorted_wrt (\<lambda>a b. ac_total a \<ge> ac_total b) (eligible cs)"
proof -
  have "sorted (map (\<lambda>c. 255 - unat (ac_total c)) (eligible cs))" by (simp add: eligible_def)
  then have "sorted_wrt (\<lambda>a b. 255 - unat (ac_total a) \<le> 255 - unat (ac_total b)) (eligible cs)"
    by (simp only: sorted_map)
  moreover have "255 - unat (ac_total a) \<le> 255 - unat (ac_total b) \<longleftrightarrow> ac_total b \<le> ac_total a"
    for a b :: attribution_candidate
    using unat_u8_less[of "ac_total a"] unat_u8_less[of "ac_total b"] unfolding word_le_nat_alt by linarith
  ultimately show ?thesis by simp
qed

lemma select_winner:
  "ad_winner (select r cs) = Some s \<longleftrightarrow>
    (\<exists>best rest. eligible cs = best # rest \<and> ac_session best = s \<and> ru_threshold r \<le> ac_total best
       \<and> (case rest of [] \<Rightarrow> True | second # _ \<Rightarrow> sat_sub (ac_total best) (ac_total second) \<ge> ru_margin r))"
  by (auto simp: select_def Let_def split: list.splits)

lemma margin_nat:
  fixes a b m :: u8
  assumes "b \<le> a"
  shows "m \<le> sat_sub a b \<longleftrightarrow> unat b + unat m \<le> unat a"
  using assms by (auto simp: word_le_nat_alt unat_sat_sub)

text \<open>C12: The resolver's winner does not depend on the order of the evidence: a session wins exactly
  if some anchored, unrejected candidate of it reaches the threshold and beats every other unrejected
  candidate by the margin.\<close>

theorem winner_is_clear_best:
  assumes "0 < ru_margin r"
  shows "ad_winner (resolve r inputs) = Some s \<longleftrightarrow>
    (\<exists>c. c \<in># mset (List.map_filter (candidate_of r) inputs) \<and> ac_rejected c = None \<and> ac_session c = s
       \<and> ru_threshold r \<le> ac_total c
       \<and> (\<forall>d. d \<in># mset (filter (\<lambda>c. ac_rejected c = None) (List.map_filter (candidate_of r) inputs)) - {#c#} \<longrightarrow>
            unat (ac_total d) + unat (ru_margin r) \<le> unat (ac_total c)))"
proof -
  define cs where "cs = List.map_filter (candidate_of r) inputs"
  let ?es = "eligible cs"
  have m: "mset (filter (\<lambda>c. ac_rejected c = None) cs) = mset ?es" by (simp add: eligible_mset)
  have mem: "c \<in> set ?es \<longleftrightarrow> c \<in> set cs \<and> ac_rejected c = None" for c
    using arg_cong[OF m, of set_mset] by auto
  have pos: "0 < unat (ru_margin r)" using assms by (simp add: word_less_nat_alt)
  have head: "(\<forall>d. d \<in># mset (best # rest) - {#best#} \<longrightarrow> unat (ac_total d) + unat (ru_margin r) \<le> unat (ac_total best))
      \<longleftrightarrow> (case rest of [] \<Rightarrow> True | second # _ \<Rightarrow> sat_sub (ac_total best) (ac_total second) \<ge> ru_margin r)"
    if es: "?es = best # rest" for best rest
  proof (cases rest)
    case (Cons second tl)
    have le: "ac_total second \<le> ac_total best" "\<forall>d\<in>set tl. ac_total d \<le> ac_total second"
      using eligible_sorted[of cs] es Cons by auto
    have "unat (ac_total second) + unat (ru_margin r) \<le> unat (ac_total best) \<Longrightarrow> d \<in> set tl \<Longrightarrow>
        unat (ac_total d) + unat (ru_margin r) \<le> unat (ac_total best)" for d
      using le(2) by (force simp: word_le_nat_alt)
    then show ?thesis using Cons margin_nat[OF le(1)] by auto
  qed simp
  have first: "\<exists>rest. ?es = c # rest" if c: "c \<in> set ?es"
      "\<forall>d. d \<in># mset ?es - {#c#} \<longrightarrow> unat (ac_total d) + unat (ru_margin r) \<le> unat (ac_total c)" for c
  proof (cases ?es)
    case (Cons best rest)
    have "best = c"
    proof (rule ccontr)
      assume n: "best \<noteq> c"
      then have "best \<in># mset ?es - {#c#}" using Cons by simp
      then have "unat (ac_total best) + unat (ru_margin r) \<le> unat (ac_total c)" using c(2) by blast
      moreover have "ac_total c \<le> ac_total best" using eligible_sorted[of cs] Cons c(1) n by auto
      ultimately show False using pos by (simp add: word_le_nat_alt)
    qed
    then show ?thesis using Cons by simp
  qed (use c in simp)
  show ?thesis
    unfolding resolve_def cs_def[symmetric] select_winner m
  proof (intro iffI; elim exE conjE)
    fix best rest assume es: "?es = best # rest" and s: "ac_session best = s" "ru_threshold r \<le> ac_total best"
      and c: "case rest of [] \<Rightarrow> True | second # _ \<Rightarrow> sat_sub (ac_total best) (ac_total second) \<ge> ru_margin r"
    have "best \<in> set ?es" using es by simp
    then have "best \<in> set cs" "ac_rejected best = None" using mem by blast+
    then show "\<exists>c. c \<in># mset cs \<and> ac_rejected c = None \<and> ac_session c = s \<and> ru_threshold r \<le> ac_total c
       \<and> (\<forall>d. d \<in># mset ?es - {#c#} \<longrightarrow> unat (ac_total d) + unat (ru_margin r) \<le> unat (ac_total c))"
      using head[OF es] c s es by (intro exI[of _ best]) simp
  next
    fix c assume c: "c \<in># mset cs" "ac_rejected c = None" "ac_session c = s" "ru_threshold r \<le> ac_total c"
      "\<forall>d. d \<in># mset ?es - {#c#} \<longrightarrow> unat (ac_total d) + unat (ru_margin r) \<le> unat (ac_total c)"
    have "c \<in> set ?es" using c(1,2) mem by simp
    then obtain rest where es: "?es = c # rest" using first c(5) by blast
    then show "\<exists>best rest. ?es = best # rest \<and> ac_session best = s \<and> ru_threshold r \<le> ac_total best
       \<and> (case rest of [] \<Rightarrow> True | second # _ \<Rightarrow> sat_sub (ac_total best) (ac_total second) \<ge> ru_margin r)"
      using head[OF es] c(3,4,5) by (intro exI[of _ c] exI[of _ rest]) (simp add: es)
  qed
qed

definition cand_demo :: "nat \<Rightarrow> bool \<Rightarrow> candidate_input" where
  "cand_demo n near =
    \<lparr>ci_session = SessionId (of_nat n), ci_anchor = Some (if near then DirectChild else Descendant),
     ci_anchor_score = None, ci_propagate_cap = None, ci_exact_cwd = near, ci_same_git_root = True,
     ci_start_delta = Some 30, ci_tool = False, ci_predates = False, ci_other_agent = False\<rparr>"

theorem winner_is_clear_best_witness:
  "ad_winner (resolve (rules_v1\<lparr>ru_margin := 5\<rparr>) [cand_demo 1 False, cand_demo 2 True]) = Some (SessionId 2)"
proof -
  let ?r = "rules_v1\<lparr>ru_margin := 5\<rparr>"
  note e = cand_demo_def candidate_of_def rules_v1_def project_support_def temporal_support_def sat_add_def
  obtain c1 where c1: "candidate_of ?r (cand_demo 1 False) = Some c1" "ac_total c1 = 86"
    "ac_rejected c1 = None" by (simp add: e word_le_nat_alt min_def)
  obtain c2 where c2: "candidate_of ?r (cand_demo 2 True) = Some c2" "ac_total c2 = 98"
    "ac_rejected c2 = None" "ac_session c2 = SessionId 2" by (simp add: e word_le_nat_alt min_def)
  have l: "List.map_filter (candidate_of ?r) [cand_demo 1 False, cand_demo 2 True] = [c1, c2]"
    using c1 c2 by (simp add: List.map_filter_def)
  have "0 < ru_margin ?r" "ru_threshold ?r \<le> ac_total c2" "unat (ru_margin ?r) = 5"
    by (simp_all add: rules_v1_def c2)
  with winner_is_clear_best[of ?r "[cand_demo 1 False, cand_demo 2 True]" "SessionId 2"] show ?thesis
    unfolding l using c1 c2 by (auto intro!: exI[of _ c2])
qed

section \<open>Exact ownership\<close>

text \<open>The session in force below an item, and an item of a tree with the session in force at it.\<close>

definition inner :: "identities \<Rightarrow> u64 \<Rightarrow> session_id option \<Rightarrow> runtime_item \<Rightarrow> session_id option" where
  "inner ids now outer i = (case session_started ids now i of Some s \<Rightarrow> Some (rs_id s) | None \<Rightarrow> outer)"

inductive encl ::
  "identities \<Rightarrow> u64 \<Rightarrow> session_id option \<Rightarrow> runtime_item \<Rightarrow> session_id option \<Rightarrow> runtime_item \<Rightarrow> bool"
  for ids now where
  encl_self: "encl ids now outer i outer i"
| encl_child: "encl ids now outer i here j \<Longrightarrow> k \<in> set (ri_children j)
    \<Longrightarrow> encl ids now outer i (inner ids now here j) k"

lemma encl_step_aux:
  "encl ids now ab k here j \<Longrightarrow> ab = inner ids now outer i \<Longrightarrow> k \<in> set (ri_children i)
    \<Longrightarrow> encl ids now outer i here j"
  by (induction rule: encl.induct) (auto intro: encl.intros)

lemmas encl_step = encl_step_aux[OF _ refl]

lemma encl_unfold:
  "encl ids now outer i here j \<longleftrightarrow>
    (here = outer \<and> j = i) \<or> (\<exists>k\<in>set (ri_children i). encl ids now (inner ids now outer i) k here j)"
proof
  assume "encl ids now outer i here j"
  then show "(here = outer \<and> j = i) \<or> (\<exists>k\<in>set (ri_children i). encl ids now (inner ids now outer i) k here j)"
    by (induction rule: encl.induct) (auto intro: encl.intros)
qed (auto intro: encl_self encl_step[rotated])

definition owns :: "identities \<Rightarrow> u64 \<Rightarrow> session_id option \<Rightarrow> runtime_item \<Rightarrow> owned_resource \<Rightarrow> bool" where
  "owns ids now outer i o' \<longleftrightarrow>
    (\<exists>here j. encl ids now outer i here j \<and> session_started ids now j = None \<and> own_here ids here j = Some o')"

definition starts :: "identities \<Rightarrow> u64 \<Rightarrow> session_id option \<Rightarrow> runtime_item \<Rightarrow> runtime_session \<Rightarrow> bool" where
  "starts ids now outer i s \<longleftrightarrow> (\<exists>here j. encl ids now outer i here j \<and> session_started ids now j = Some s)"

lemma owns_unfold:
  "owns ids now outer i o' \<longleftrightarrow> session_started ids now i = None \<and> own_here ids outer i = Some o'
     \<or> (\<exists>k\<in>set (ri_children i). owns ids now (inner ids now outer i) k o')"
  unfolding owns_def by (subst encl_unfold) blast

lemma starts_unfold:
  "starts ids now outer i s \<longleftrightarrow> session_started ids now i = Some s
     \<or> (\<exists>k\<in>set (ri_children i). starts ids now (inner ids now outer i) k s)"
  unfolding starts_def by (subst encl_unfold) blast

lemma walk_sets:
  "o' \<in> set (ow_owned (walk_item ids now outer i out)) \<longleftrightarrow> o' \<in> set (ow_owned out) \<or> owns ids now outer i o'"
  "s \<in> set (ow_sessions (walk_item ids now outer i out)) \<longleftrightarrow> s \<in> set (ow_sessions out) \<or> starts ids now outer i s"
  "o' \<in> set (ow_owned (walk_items ids now outer is out)) \<longleftrightarrow>
     o' \<in> set (ow_owned out) \<or> (\<exists>i\<in>set is. owns ids now outer i o')"
  "s \<in> set (ow_sessions (walk_items ids now outer is out)) \<longleftrightarrow>
     s \<in> set (ow_sessions out) \<or> (\<exists>i\<in>set is. starts ids now outer i s)"
proof (induction ids now outer i out and ids now outer "is" out rule: walk_item_walk_items.induct)
  case (1 ids now outer c n rt ps m st su po pj ch out)
  let ?i = "RuntimeItem c n rt ps m st su po pj ch"
  {
    case 1
    show ?case
      by (subst owns_unfold)
        (use "1.IH" in \<open>cases "session_started ids now ?i"; auto simp: Let_def inner_def split: option.splits\<close>)
  next
    case 2
    show ?case
      by (subst starts_unfold)
        (use "1.IH" in \<open>cases "session_started ids now ?i"; auto simp: Let_def inner_def split: option.splits\<close>)
  }
qed auto


end
