(* ===== verification/Ownership_Store.thy ===== *)
theory Ownership_Store
  imports Run_Store Ownership
begin

text \<open>
  The ownership tables of the local store (\<open>src/store.rs\<close>): boots, sessions, resources with their
  member processes, exact ownership, resolver decisions, vendor aliases; one function per operation.
  An operation that violates a primary key fails (\<open>None\<close>) and its transaction is rolled back.  The
  order in which a \<open>SELECT\<close> without \<open>ORDER BY\<close> yields its rows is not specified: the operations
  that depend on it take it as an argument.  The trace of changes is left out.
\<close>

section \<open>Tables\<close>

record boot_row =
  bw_boot :: "u8 list"
  bw_epoch :: "u8 list"
  bw_first_seen :: int
  bw_last_seen :: int

record session_row =
  sn_id :: int
  sn_boot :: "u8 list"
  sn_agent :: string
  sn_root_pid :: int
  sn_root_start :: int
  sn_project :: "string option"
  sn_started :: int
  sn_last_seen :: int
  sn_ended :: "int option"

record resource_row =
  rw_id :: int
  rw_kind :: string
  rw_boot :: "u8 list"
  rw_pid :: int
  rw_start :: int
  rw_first_seen :: int
  rw_last_seen :: int

record member_row =
  mw_resource :: int
  mw_boot :: "u8 list"
  mw_pid :: int
  mw_start :: int

record edge_row =
  eo_resource :: int
  eo_session :: int

record decision_row =
  dw_id :: int
  dw_resource :: int
  dw_observed :: int
  dw_version :: int
  dw_verdict :: string
  dw_winner :: "int option"

record candidate_row =
  cw_decision :: int
  cw_session :: int
  cw_anchor :: string
  cw_anchor_score :: int
  cw_project :: int
  cw_temporal :: int
  cw_relationship :: int
  cw_total :: int
  cw_rejected :: "string option"

record evidence_row =
  vw_decision :: int
  vw_session :: int
  vw_kind :: string
  vw_value :: string

record alias_row =
  aw_vendor :: string
  aw_vendor_id :: string
  aw_session :: int
  aw_started :: "int option"
  aw_ended :: "int option"

record own_store =
  os_boots :: "boot_row list"
  os_sessions :: "session_row list"
  os_resources :: "resource_row list"
  os_members :: "member_row list"
  os_edges :: "edge_row list"
  os_decisions :: "decision_row list"
  os_next_decision :: int
  os_candidates :: "candidate_row list"
  os_evidence :: "evidence_row list"
  os_aliases :: "alias_row list"

definition own_store_empty :: own_store where
  "own_store_empty = \<lparr>os_boots = [], os_sessions = [], os_resources = [], os_members = [], os_edges = [],
     os_decisions = [], os_next_decision = 1, os_candidates = [], os_evidence = [], os_aliases = []\<rparr>"

text \<open>\<open>INSERT ... ON CONFLICT DO UPDATE\<close>.\<close>

fun upsert :: "('a \<Rightarrow> bool) \<Rightarrow> ('a \<Rightarrow> 'a) \<Rightarrow> 'a \<Rightarrow> 'a list \<Rightarrow> 'a list" where
  "upsert P f new [] = [new]"
| "upsert P f new (x # xs) = (if P x then f x # xs else x # upsert P f new xs)"

section \<open>Boots\<close>

text \<open>A fresh boot id is random; it is an argument.\<close>

definition resolve_macos_epoch ::
  "boot_id \<Rightarrow> boot_epoch \<Rightarrow> u64 \<Rightarrow> own_store \<Rightarrow> (boot_id \<times> own_store) option" where
  "resolve_macos_epoch fresh e now st =
    (case find (\<lambda>b. bw_epoch b = epoch_to_bytes e) (os_boots st) of
       Some b \<Rightarrow>
         Some (bytes_to_boot (bw_boot b),
           st\<lparr>os_boots := map (\<lambda>x. if bw_boot x = bw_boot b then x\<lparr>bw_last_seen := as_i64 now\<rparr> else x)
                            (os_boots st)\<rparr>)
     | None \<Rightarrow>
         if boot_to_le_bytes fresh \<in> bw_boot ` set (os_boots st) then None
         else Some (fresh,
           st\<lparr>os_boots := os_boots st @ [\<lparr>bw_boot = boot_to_le_bytes fresh, bw_epoch = epoch_to_bytes e,
                bw_first_seen = as_i64 now, bw_last_seen = as_i64 now\<rparr>]\<rparr>))"

definition boot_id_for_epoch ::
  "boot_id \<Rightarrow> boot_epoch \<Rightarrow> u64 \<Rightarrow> own_store \<Rightarrow> (boot_id \<times> own_store) option" where
  "boot_id_for_epoch fresh e now st =
    (case to_boot_id e (\<lambda>e. Inl (resolve_macos_epoch fresh e now st)) of
       Inr b \<Rightarrow> Some (b, st)
     | Inl r \<Rightarrow> r)"

section \<open>Recording ownership\<close>

definition sid_i64 :: "session_id \<Rightarrow> int" where
  "sid_i64 s = as_i64 (sid_u64 s)"

definition sid_from_i64 :: "int \<Rightarrow> session_id" where
  "sid_from_i64 i = SessionId (as_u64 i)"

definition session_row_of :: "runtime_session \<Rightarrow> u64 \<Rightarrow> session_row" where
  "session_row_of s now =
    \<lparr>sn_id = sid_i64 (rs_id s), sn_boot = boot_to_le_bytes (i_boot (rs_root s)), sn_agent = rs_agent s,
     sn_root_pid = int (unat (i_pid (rs_root s))), sn_root_start = as_i64 (i_start (rs_root s)),
     sn_project = map_option pr_root (rs_project s), sn_started = as_i64 (rs_started s),
     sn_last_seen = as_i64 now, sn_ended = map_option as_i64 (rs_ended s)\<rparr>"

definition session_again :: "session_row \<Rightarrow> session_row \<Rightarrow> session_row" where
  "session_again new r =
    r\<lparr>sn_last_seen := sn_last_seen new, sn_ended := sn_ended new,
      sn_project := (case sn_project new of None \<Rightarrow> sn_project r | Some p \<Rightarrow> Some p)\<rparr>"

definition apply_session :: "u64 \<Rightarrow> runtime_session \<Rightarrow> own_store \<Rightarrow> own_store" where
  "apply_session now s st =
    (let new = session_row_of s now
     in st\<lparr>os_sessions := upsert (\<lambda>r. sn_id r = sn_id new) (session_again new) new (os_sessions st)\<rparr>)"

definition category_debug :: "category \<Rightarrow> string" where
  "category_debug c =
    (case c of Agent \<Rightarrow> ''Agent'' | Mcp \<Rightarrow> ''Mcp'' | Browser \<Rightarrow> ''Browser'' | DevServer \<Rightarrow> ''DevServer''
     | LanguageServer \<Rightarrow> ''LanguageServer'' | Database \<Rightarrow> ''Database'' | Worker \<Rightarrow> ''Worker''
     | UnknownDev \<Rightarrow> ''UnknownDev'' | DevService \<Rightarrow> ''DevService'')"

definition resource_row_of :: "owned_resource \<Rightarrow> u64 \<Rightarrow> resource_row" where
  "resource_row_of o' now =
    \<lparr>rw_id = as_i64 (or_resource o'), rw_kind = category_debug (or_kind o'),
     rw_boot = boot_to_le_bytes (i_boot (or_root o')), rw_pid = int (unat (i_pid (or_root o'))),
     rw_start = as_i64 (i_start (or_root o')), rw_first_seen = as_i64 now, rw_last_seen = as_i64 now\<rparr>"

definition member_row_of :: "int \<Rightarrow> process_identity \<Rightarrow> member_row" where
  "member_row_of rid m =
    \<lparr>mw_resource = rid, mw_boot = boot_to_le_bytes (i_boot m), mw_pid = int (unat (i_pid m)),
     mw_start = as_i64 (i_start m)\<rparr>"

fun insert_members :: "member_row list \<Rightarrow> member_row list \<Rightarrow> member_row list option" where
  "insert_members [] ms = Some ms"
| "insert_members (n # ns) ms = (if n \<in> set ms then None else insert_members ns (ms @ [n]))"

definition apply_resource :: "u64 \<Rightarrow> owned_resource \<Rightarrow> own_store \<Rightarrow> own_store option" where
  "apply_resource now o' st =
    (let new = resource_row_of o' now; rid = rw_id new
     in case insert_members (map (member_row_of rid) (or_members o'))
               (filter (\<lambda>m. mw_resource m \<noteq> rid) (os_members st)) of
          None \<Rightarrow> None
        | Some ms \<Rightarrow>
            Some (st\<lparr>os_resources := upsert (\<lambda>r. rw_id r = rid) (\<lambda>r. r\<lparr>rw_last_seen := rw_last_seen new\<rparr>) new
                        (os_resources st),
                    os_members := ms,
                    os_edges := upsert (\<lambda>e. eo_resource e = rid)
                        (\<lambda>e. e\<lparr>eo_session := sid_i64 (or_session o')\<rparr>)
                        \<lparr>eo_resource = rid, eo_session = sid_i64 (or_session o')\<rparr> (os_edges st)\<rparr>))"

fun apply_resources :: "u64 \<Rightarrow> owned_resource list \<Rightarrow> own_store \<Rightarrow> own_store option" where
  "apply_resources now [] st = Some st"
| "apply_resources now (o' # os) st =
    (case apply_resource now o' st of None \<Rightarrow> None | Some st' \<Rightarrow> apply_resources now os st')"

definition apply_ownership :: "ownership_result \<Rightarrow> u64 \<Rightarrow> own_store \<Rightarrow> own_store option" where
  "apply_ownership r now st =
    apply_resources now (ow_owned r) (fold (apply_session now) (ow_sessions r) st)"

section \<open>Who owns a process\<close>

definition row_is :: "boot_id \<Rightarrow> pid \<Rightarrow> u64 \<Rightarrow> u8 list \<Rightarrow> int \<Rightarrow> int \<Rightarrow> bool" where
  "row_is b k t boot pid start \<longleftrightarrow> boot = boot_to_le_bytes b \<and> pid = int (unat k) \<and> start = as_i64 t"

definition resources_with :: "boot_id \<Rightarrow> pid \<Rightarrow> u64 \<Rightarrow> own_store \<Rightarrow> int list" where
  "resources_with b k t st =
    remdups
      (map mw_resource (filter (\<lambda>m. row_is b k t (mw_boot m) (mw_pid m) (mw_start m)) (os_members st))
       @ map rw_id (filter (\<lambda>r. row_is b k t (rw_boot r) (rw_pid r) (rw_start r)) (os_resources st)))"

definition edges_of :: "int \<Rightarrow> own_store \<Rightarrow> int list" where
  "edges_of rid st = map eo_session (filter (\<lambda>e. eo_resource e = rid) (os_edges st))"

text \<open>The rows of the union, without duplicates, in table order; \<open>pick\<close> is the row that comes first.\<close>

definition owner_rows :: "boot_id \<Rightarrow> pid \<Rightarrow> u64 \<Rightarrow> own_store \<Rightarrow> int list" where
  "owner_rows b k t st = remdups (concat (map (\<lambda>rid. edges_of rid st) (resources_with b k t st)))"

definition first_row_of :: "(int list \<Rightarrow> int) \<Rightarrow> int list \<Rightarrow> int option" where
  "first_row_of pick rows = (if rows = [] then None else Some (pick rows))"

definition owning_session_for_process ::
  "(int list \<Rightarrow> int) \<Rightarrow> boot_id \<Rightarrow> pid \<Rightarrow> u64 \<Rightarrow> own_store \<Rightarrow> session_id option" where
  "owning_session_for_process pick b k t st =
    map_option sid_from_i64 (first_row_of pick (owner_rows b k t st))"

definition session_for_root_pid :: "(int list \<Rightarrow> int) \<Rightarrow> pid \<Rightarrow> own_store \<Rightarrow> session_id option" where
  "session_for_root_pid pick k st =
    map_option sid_from_i64
      (first_row_of pick
        (concat (map (\<lambda>r. edges_of (rw_id r) st) (filter (\<lambda>r. rw_pid r = int (unat k)) (os_resources st)))))"

section \<open>Ended sessions\<close>

definition identity_of_row :: "u8 list \<Rightarrow> int \<Rightarrow> int \<Rightarrow> process_identity" where
  "identity_of_row boot pid start =
    \<lparr>i_boot = bytes_to_boot boot, i_pid = of_int pid, i_start = as_u64 start\<rparr>"

definition end_absent_sessions :: "process_identity set \<Rightarrow> u64 \<Rightarrow> own_store \<Rightarrow> own_store" where
  "end_absent_sessions live now st =
    st\<lparr>os_sessions := map (\<lambda>r. if sn_ended r = None
                                 \<and> identity_of_row (sn_boot r) (sn_root_pid r) (sn_root_start r) \<notin> live
                              then r\<lparr>sn_ended := Some (as_i64 now)\<rparr> else r) (os_sessions st)\<rparr>"

section \<open>Retention\<close>

definition live_resources :: "process_identity set \<Rightarrow> own_store \<Rightarrow> int set" where
  "live_resources live st =
     rw_id ` {r \<in> set (os_resources st). identity_of_row (rw_boot r) (rw_pid r) (rw_start r) \<in> live}
     \<union> mw_resource ` {m \<in> set (os_members st). identity_of_row (mw_boot m) (mw_pid m) (mw_start m) \<in> live}"

definition protected_sessions :: "process_identity set \<Rightarrow> own_store \<Rightarrow> int set" where
  "protected_sessions live st =
     eo_session ` {e \<in> set (os_edges st). eo_resource e \<in> live_resources live st}"

definition gc_doomed :: "int \<Rightarrow> process_identity set \<Rightarrow> own_store \<Rightarrow> session_row \<Rightarrow> bool" where
  "gc_doomed cutoff live st r \<longleftrightarrow>
     (case sn_ended r of None \<Rightarrow> False | Some t \<Rightarrow> t < cutoff) \<and> sn_id r \<notin> protected_sessions live st"

definition gc_sessions :: "int \<Rightarrow> process_identity set \<Rightarrow> own_store \<Rightarrow> own_store" where
  "gc_sessions cutoff live st =
    (let doomed = sn_id ` {r \<in> set (os_sessions st). gc_doomed cutoff live st r}
     in st\<lparr>os_sessions := filter (\<lambda>r. sn_id r \<notin> doomed) (os_sessions st),
           os_edges := filter (\<lambda>e. eo_session e \<notin> doomed) (os_edges st)\<rparr>)"

definition gc_resources :: "int \<Rightarrow> own_store \<Rightarrow> own_store" where
  "gc_resources cutoff st =
    st\<lparr>os_resources := filter (\<lambda>r. rw_id r \<in> eo_resource ` set (os_edges st) \<or> \<not> rw_last_seen r < cutoff)
         (os_resources st)\<rparr>"

definition gc_leaves :: "own_store \<Rightarrow> own_store" where
  "gc_leaves st =
    st\<lparr>os_members := filter (\<lambda>m. mw_resource m \<in> rw_id ` set (os_resources st)) (os_members st),
       os_aliases := filter (\<lambda>a. aw_session a \<in> sn_id ` set (os_sessions st)) (os_aliases st)\<rparr>"

definition own_gc :: "u64 \<Rightarrow> u64 \<Rightarrow> process_identity set \<Rightarrow> own_store \<Rightarrow> own_store" where
  "own_gc retention now live st =
    (let cutoff = as_i64 (sat_sub now retention)
     in gc_leaves (gc_resources cutoff (gc_sessions cutoff live st)))"

section \<open>Decisions\<close>

definition verdict_debug :: "own_verdict \<Rightarrow> string" where
  "verdict_debug v = (case v of Owned \<Rightarrow> ''Owned'' | Ambiguous \<Rightarrow> ''Ambiguous'' | Undecided \<Rightarrow> ''Unknown'')"

definition anchor_debug :: "anchor_kind \<Rightarrow> string" where
  "anchor_debug a =
    (case a of Explicit \<Rightarrow> ''Explicit'' | DirectChild \<Rightarrow> ''DirectChild'' | Descendant \<Rightarrow> ''Descendant''
     | PersistedPrevious \<Rightarrow> ''PersistedPrevious'' | Propagated \<Rightarrow> ''Propagated'')"

definition rejection_debug :: "rejection \<Rightarrow> string" where
  "rejection_debug r =
    (case r of PredatesSession \<Rightarrow> ''PredatesSession'' | ReachesOtherAgent \<Rightarrow> ''ReachesOtherAgent'')"

definition u8_int :: "u8 \<Rightarrow> int" where "u8_int w = int (unat w)"

definition candidate_row_of :: "int \<Rightarrow> attribution_candidate \<Rightarrow> candidate_row" where
  "candidate_row_of did c =
    \<lparr>cw_decision = did, cw_session = sid_i64 (ac_session c), cw_anchor = anchor_debug (ac_anchor c),
     cw_anchor_score = u8_int (ac_anchor_score c), cw_project = u8_int (ac_project c),
     cw_temporal = u8_int (ac_temporal c), cw_relationship = u8_int (ac_relationship c),
     cw_total = u8_int (ac_total c), cw_rejected = map_option rejection_debug (ac_rejected c)\<rparr>"

definition insert_evidence :: "int \<Rightarrow> int \<Rightarrow> evidence \<Rightarrow> evidence_row list \<Rightarrow> evidence_row list" where
  "insert_evidence did sid e rows =
    (let new = \<lparr>vw_decision = did, vw_session = sid, vw_kind = evidence_as_str (fst e), vw_value = snd e\<rparr>
     in upsert (\<lambda>r. vw_decision r = did \<and> vw_session r = sid \<and> vw_kind r = vw_kind new)
          (\<lambda>r. r\<lparr>vw_value := vw_value new\<rparr>) new rows)"

fun insert_candidates :: "int \<Rightarrow> attribution_candidate list \<Rightarrow> own_store \<Rightarrow> own_store option" where
  "insert_candidates did [] st = Some st"
| "insert_candidates did (c # cs) st =
    (if list_ex (\<lambda>r. cw_decision r = did \<and> cw_session r = sid_i64 (ac_session c)) (os_candidates st) then None
     else insert_candidates did cs
       (st\<lparr>os_candidates := os_candidates st @ [candidate_row_of did c],
           os_evidence := fold (insert_evidence did (sid_i64 (ac_session c))) (ac_evidence c) (os_evidence st)\<rparr>))"

definition persist_decision :: "u64 \<Rightarrow> attribution_decision \<Rightarrow> u64 \<Rightarrow> own_store \<Rightarrow> own_store option" where
  "persist_decision rid d now st =
    (let did = os_next_decision st
     in insert_candidates did (ad_candidates d)
       (st\<lparr>os_next_decision := did + 1,
           os_decisions := os_decisions st @
             [\<lparr>dw_id = did, dw_resource = as_i64 rid, dw_observed = as_i64 now,
               dw_version = int (unat (ad_version d)), dw_verdict = verdict_debug (ad_verdict d),
               dw_winner = map_option sid_i64 (ad_winner d)\<rparr>]\<rparr>))"

record candidate_record =
  kr_session :: session_id
  kr_anchor :: string
  kr_anchor_score :: u8
  kr_project :: u8
  kr_temporal :: u8
  kr_relationship :: u8
  kr_total :: u8
  kr_rejected :: "string option"
  kr_evidence :: "evidence list"

record decision_record =
  dr_version :: u32
  dr_verdict :: string
  dr_winner :: "session_id option"
  dr_candidates :: "candidate_record list"

definition evidence_parse :: "string \<Rightarrow> evidence_kind option" where
  "evidence_parse s =
    (if s = ''persisted ownership'' then Some EvPersisted
     else if s = ''cwd match'' then Some EvCwd
     else if s = ''git root'' then Some EvGitRoot
     else if s = ''start-time correlation'' then Some EvStart
     else if s = ''known tool relationship'' then Some EvTool
     else if s = ''predates session'' then Some EvPredates
     else if s = ''reaches another agent'' then Some EvOtherAgent
     else None)"

definition evidence_of_rows :: "int \<Rightarrow> evidence_row list \<Rightarrow> evidence list" where
  "evidence_of_rows sid rows =
    List.map_filter (\<lambda>e. if vw_session e = sid then map_option (\<lambda>k. (k, vw_value e)) (evidence_parse (vw_kind e)) else None)
      rows"

definition candidate_from_row :: "evidence_row list \<Rightarrow> candidate_row \<Rightarrow> candidate_record" where
  "candidate_from_row evs r =
    \<lparr>kr_session = sid_from_i64 (cw_session r), kr_anchor = cw_anchor r, kr_anchor_score = of_int (cw_anchor_score r),
     kr_project = of_int (cw_project r), kr_temporal = of_int (cw_temporal r),
     kr_relationship = of_int (cw_relationship r), kr_total = of_int (cw_total r), kr_rejected = cw_rejected r,
     kr_evidence = evidence_of_rows (cw_session r) evs\<rparr>"

definition latest_row :: "decision_row list \<Rightarrow> decision_row option" where
  "latest_row rows =
    (case rev (sort_key dw_observed (sort_key dw_id rows)) of [] \<Rightarrow> None | d # _ \<Rightarrow> Some d)"

text \<open>\<open>scan_c\<close> and \<open>scan_e\<close> are the orders in which the rows of the two tables are read.\<close>

definition latest_decision ::
  "(candidate_row list \<Rightarrow> candidate_row list) \<Rightarrow> (evidence_row list \<Rightarrow> evidence_row list) \<Rightarrow> u64 \<Rightarrow> own_store
     \<Rightarrow> decision_record option" where
  "latest_decision scan_c scan_e rid st =
    (case latest_row (filter (\<lambda>d. dw_resource d = as_i64 rid) (os_decisions st)) of
       None \<Rightarrow> None
     | Some d \<Rightarrow>
         (let cs = sort_key (\<lambda>c. - cw_total c) (scan_c (filter (\<lambda>c. cw_decision c = dw_id d) (os_candidates st)));
              evs = scan_e (filter (\<lambda>e. vw_decision e = dw_id d) (os_evidence st))
          in Some \<lparr>dr_version = of_int (dw_version d), dr_verdict = dw_verdict d,
               dr_winner = map_option sid_from_i64 (dw_winner d),
               dr_candidates = map (candidate_from_row evs) cs\<rparr>))"

section \<open>Sessions\<close>

record session_record =
  sr_id :: session_id
  sr_agent :: string
  sr_project :: "string option"
  sr_started :: u64
  sr_last_seen :: u64
  sr_ended :: "u64 option"

definition session_from_row :: "session_row \<Rightarrow> session_record" where
  "session_from_row r =
    \<lparr>sr_id = sid_from_i64 (sn_id r), sr_agent = sn_agent r, sr_project = sn_project r,
     sr_started = as_u64 (sn_started r), sr_last_seen = as_u64 (sn_last_seen r),
     sr_ended = map_option as_u64 (sn_ended r)\<rparr>"

definition own_sessions :: "own_store \<Rightarrow> session_record list" where
  "own_sessions st = map session_from_row (os_sessions st)"

definition session_record_of :: "session_id \<Rightarrow> own_store \<Rightarrow> session_record option" where
  "session_record_of s st =
    map_option (\<lambda>r. (session_from_row r)\<lparr>sr_id := s\<rparr>) (find (\<lambda>r. sn_id r = sid_i64 s) (os_sessions st))"

definition session_for_root :: "(int list \<Rightarrow> int) \<Rightarrow> boot_id \<Rightarrow> pid \<Rightarrow> u64 \<Rightarrow> own_store \<Rightarrow> session_record option" where
  "session_for_root pick b k t st =
    (case first_row_of pick
            (map sn_id (filter (\<lambda>r. row_is b k t (sn_boot r) (sn_root_pid r) (sn_root_start r)) (os_sessions st))) of
       None \<Rightarrow> None
     | Some i \<Rightarrow> session_record_of (sid_from_i64 i) st)"

definition ensure_session ::
  "boot_id \<Rightarrow> string \<Rightarrow> pid \<Rightarrow> u64 \<Rightarrow> u64 \<Rightarrow> own_store \<Rightarrow> session_id \<times> own_store" where
  "ensure_session b agent k t now st =
    (let s = session_new_id b \<lparr>i_boot = b, i_pid = k, i_start = t\<rparr> agent;
         new = \<lparr>sn_id = sid_i64 s, sn_boot = boot_to_le_bytes b, sn_agent = agent, sn_root_pid = int (unat k),
                sn_root_start = as_i64 t, sn_project = None, sn_started = as_i64 t, sn_last_seen = as_i64 now,
                sn_ended = None\<rparr>
     in (s, if sn_id new \<in> sn_id ` set (os_sessions st) then st else st\<lparr>os_sessions := os_sessions st @ [new]\<rparr>))"

definition register_alias :: "session_id \<Rightarrow> string \<Rightarrow> string \<Rightarrow> u64 \<Rightarrow> own_store \<Rightarrow> own_store" where
  "register_alias s vendor vid now st =
    st\<lparr>os_aliases := filter (\<lambda>a. \<not> (aw_vendor a = vendor \<and> aw_vendor_id a = vid)) (os_aliases st)
       @ [\<lparr>aw_vendor = vendor, aw_vendor_id = vid, aw_session = sid_i64 s, aw_started = Some (as_i64 now),
           aw_ended = None\<rparr>]\<rparr>"

definition end_vendor_alias :: "string \<Rightarrow> string \<Rightarrow> u64 \<Rightarrow> own_store \<Rightarrow> own_store" where
  "end_vendor_alias vendor vid now st =
    st\<lparr>os_aliases := map (\<lambda>a. if aw_vendor a = vendor \<and> aw_vendor_id a = vid
                             then a\<lparr>aw_ended := Some (as_i64 now)\<rparr> else a) (os_aliases st)\<rparr>"

definition session_id_for_alias :: "string \<Rightarrow> string \<Rightarrow> own_store \<Rightarrow> session_id option" where
  "session_id_for_alias vendor vid st =
    map_option (\<lambda>a. sid_from_i64 (aw_session a))
      (find (\<lambda>a. aw_vendor a = vendor \<and> aw_vendor_id a = vid) (os_aliases st))"

record explanation =
  ex_resource :: u64
  ex_owner :: session_id
  ex_session :: session_record

datatype store_error = MissingSession

definition explain_process ::
  "(int list \<Rightarrow> int) \<Rightarrow> boot_id \<Rightarrow> pid \<Rightarrow> u64 \<Rightarrow> own_store \<Rightarrow> store_error + explanation option" where
  "explain_process pick b k t st =
    (case owning_session_for_process pick b k t st of
       None \<Rightarrow> Inr None
     | Some owner \<Rightarrow>
         (case first_row_of pick (resources_with b k t st) of
            None \<Rightarrow> Inr None
          | Some rid \<Rightarrow>
              (case session_record_of owner st of
                 None \<Rightarrow> Inl MissingSession
               | Some s \<Rightarrow> Inr (Some \<lparr>ex_resource = as_u64 rid, ex_owner = owner, ex_session = s\<rparr>))))"

end
