(* ===== verification/Ownership_Reach.thy ===== *)
theory Ownership_Reach
  imports Ownership_Store
begin

text \<open>
  The referential integrity of the ownership tables: every operation keeps it, so it holds in every
  store that recording, ending, cleaning up, registering and deciding can reach.
\<close>

section \<open>Integrity\<close>

definition own_ok :: "own_store \<Rightarrow> bool" where
  "own_ok st \<longleftrightarrow>
     distinct (map sn_id (os_sessions st)) \<and> sn_id ` set (os_sessions st) \<subseteq> range sid_i64
     \<and> distinct (map rw_id (os_resources st))
     \<and> distinct (map eo_resource (os_edges st))
     \<and> (\<forall>e\<in>set (os_edges st). eo_session e \<in> sn_id ` set (os_sessions st) \<and> eo_resource e \<in> rw_id ` set (os_resources st))
     \<and> (\<forall>m\<in>set (os_members st). mw_resource m \<in> rw_id ` set (os_resources st))"

lemma upsert_keys:
  assumes "\<And>x. P x \<longleftrightarrow> key x = k" "\<And>x. key (f x) = key x" "key new = k"
  shows "map key (upsert P f new xs) = (if k \<in> key ` set xs then map key xs else map key xs @ [k])"
  using assms by (induction P f new xs rule: upsert.induct) auto

lemma upsert_set: "y \<in> set (upsert P f new xs) \<Longrightarrow> y = new \<or> y \<in> set xs \<or> (\<exists>x\<in>set xs. P x \<and> y = f x)"
  by (induction P f new xs rule: upsert.induct) (auto split: if_splits)

lemma insert_members_Some: "insert_members ns ms = Some ms' \<Longrightarrow> ms' = ms @ ns"
  by (induction ns ms rule: insert_members.induct) (auto split: if_splits)

lemma sid_from_i64_inverse [simp]: "sid_from_i64 (sid_i64 s) = s"
  by (simp add: sid_from_i64_def sid_i64_def)

lemma sid_i64_inject [simp]: "sid_i64 a = sid_i64 b \<longleftrightarrow> a = b"
  by (metis sid_from_i64_inverse)

section \<open>Recording\<close>

lemma session_row_id [simp]: "sn_id (session_row_of s now) = sid_i64 (rs_id s)"
  by (simp add: session_row_of_def)

lemma session_again_id [simp]: "sn_id (session_again new r) = sn_id r"
  by (simp add: session_again_def)

lemma apply_session_keys:
  "map sn_id (os_sessions (apply_session now s st)) =
    (if sid_i64 (rs_id s) \<in> sn_id ` set (os_sessions st) then map sn_id (os_sessions st)
     else map sn_id (os_sessions st) @ [sid_i64 (rs_id s)])"
proof -
  have "os_sessions (apply_session now s st) = upsert (\<lambda>r. sn_id r = sid_i64 (rs_id s))
      (session_again (session_row_of s now)) (session_row_of s now) (os_sessions st)"
    by (simp add: apply_session_def Let_def)
  then show ?thesis by (simp only:, intro upsert_keys) simp_all
qed

lemma apply_session_rest [simp]:
  "os_resources (apply_session now s st) = os_resources st" "os_members (apply_session now s st) = os_members st"
  "os_edges (apply_session now s st) = os_edges st"
  by (simp_all add: apply_session_def Let_def)

lemma apply_session_ids:
  "sn_id ` set (os_sessions (apply_session now s st)) = insert (sid_i64 (rs_id s)) (sn_id ` set (os_sessions st))"
  using arg_cong[OF apply_session_keys, of set now s st] by auto

lemma apply_session_ok: "own_ok st \<Longrightarrow> own_ok (apply_session now s st)"
  unfolding own_ok_def by (auto simp: apply_session_keys apply_session_ids)

lemma apply_sessions_ok:
  "own_ok st \<Longrightarrow> own_ok (fold (apply_session now) ss st)
    \<and> sn_id ` set (os_sessions (fold (apply_session now) ss st))
        = sn_id ` set (os_sessions st) \<union> (\<lambda>s. sid_i64 (rs_id s)) ` set ss"
  by (induction ss arbitrary: st) (auto simp: apply_session_ok apply_session_ids)

lemma apply_resource_ok:
  assumes "own_ok st" "apply_resource now o' st = Some st'" "sid_i64 (or_session o') \<in> sn_id ` set (os_sessions st)"
  shows "own_ok st' \<and> os_sessions st' = os_sessions st"
proof -
  let ?new = "resource_row_of o' now"
  let ?rid = "rw_id ?new"
  obtain ms where ms: "insert_members (map (member_row_of ?rid) (or_members o'))
      (filter (\<lambda>m. mw_resource m \<noteq> ?rid) (os_members st)) = Some ms"
    using assms(2) by (auto simp: apply_resource_def Let_def split: option.splits)
  have st': "st' = st\<lparr>os_resources := upsert (\<lambda>r. rw_id r = ?rid) (\<lambda>r. r\<lparr>rw_last_seen := rw_last_seen ?new\<rparr>) ?new (os_resources st),
      os_members := ms,
      os_edges := upsert (\<lambda>e. eo_resource e = ?rid) (\<lambda>e. e\<lparr>eo_session := sid_i64 (or_session o')\<rparr>)
        \<lparr>eo_resource = ?rid, eo_session = sid_i64 (or_session o')\<rparr> (os_edges st)\<rparr>"
    using assms(2) ms by (simp add: apply_resource_def Let_def)
  have res: "os_resources st' = upsert (\<lambda>r. rw_id r = ?rid) (\<lambda>r. r\<lparr>rw_last_seen := rw_last_seen ?new\<rparr>) ?new (os_resources st)"
    and edg: "os_edges st' = upsert (\<lambda>e. eo_resource e = ?rid) (\<lambda>e. e\<lparr>eo_session := sid_i64 (or_session o')\<rparr>)
        \<lparr>eo_resource = ?rid, eo_session = sid_i64 (or_session o')\<rparr> (os_edges st)"
    by (simp_all add: st')
  have rk: "map rw_id (os_resources st') =
      (if ?rid \<in> rw_id ` set (os_resources st) then map rw_id (os_resources st) else map rw_id (os_resources st) @ [?rid])"
    by (simp only: res, intro upsert_keys) simp_all
  have rs: "rw_id ` set (os_resources st') = insert ?rid (rw_id ` set (os_resources st))"
    using arg_cong[OF rk, of set] by auto
  have ek: "map eo_resource (os_edges st') =
      (if ?rid \<in> eo_resource ` set (os_edges st) then map eo_resource (os_edges st) else map eo_resource (os_edges st) @ [?rid])"
    by (simp only: edg, intro upsert_keys) simp_all
  have "eo_session e \<in> sn_id ` set (os_sessions st) \<and> eo_resource e \<in> insert ?rid (rw_id ` set (os_resources st))"
    if "e \<in> set (os_edges st')" for e
    using upsert_set[of e] that assms(1,3) unfolding st' own_ok_def by fastforce
  moreover have "mw_resource m \<in> insert ?rid (rw_id ` set (os_resources st))" if "m \<in> set (os_members st')" for m
    using that insert_members_Some[OF ms] assms(1) unfolding st' own_ok_def by (auto simp: member_row_of_def)
  moreover have "os_sessions st' = os_sessions st" by (simp add: st')
  moreover have "distinct (map rw_id (os_resources st'))" "distinct (map eo_resource (os_edges st'))"
    unfolding rk ek using assms(1) by (auto simp: own_ok_def)
  ultimately show ?thesis using assms(1) rs by (simp add: own_ok_def)
qed

lemma apply_resources_ok:
  "own_ok st \<Longrightarrow> apply_resources now os st = Some st' \<Longrightarrow>
    \<forall>o'\<in>set os. sid_i64 (or_session o') \<in> sn_id ` set (os_sessions st) \<Longrightarrow> own_ok st'"
proof (induction now os st rule: apply_resources.induct)
  case (2 now o' os st)
  then obtain st1 where "apply_resource now o' st = Some st1" "apply_resources now os st1 = Some st'"
    by (auto split: option.splits)
  then show ?case using 2 apply_resource_ok[of st now o' st1] by simp
qed simp

text \<open>What a walk owns belongs to a session it found.\<close>

lemma encl_started:
  "encl ids now outer i here j \<Longrightarrow> here = outer
     \<or> (\<exists>here' k s. encl ids now outer i here' k \<and> session_started ids now k = Some s \<and> here = Some (rs_id s))"
proof (induction rule: encl.induct)
  case (encl_child outer i here j k)
  show ?case
  proof (cases "session_started ids now j")
    case (Some s)
    then show ?thesis using encl_child.hyps(1) by (auto simp: inner_def)
  next
    case None
    then show ?thesis using encl_child.IH by (simp add: inner_def)
  qed
qed simp

lemma derived_owner_found:
  assumes "o' \<in> set (ow_owned (derive_ownership items ids now))"
  shows "or_session o' \<in> rs_id ` set (ow_sessions (derive_ownership items ids now))"
proof -
  obtain r here j where r: "r \<in> set items" "encl ids now None r here j" "own_here ids here j = Some o'"
    using assms by (auto simp: derive_ownership_def walk_sets owns_def)
  then have "here = Some (or_session o')" by (auto simp: own_here_def split: option.splits)
  with encl_started[OF r(2)] obtain here' k s
    where "encl ids now None r here' k" "session_started ids now k = Some s" "rs_id s = or_session o'" by auto
  then show ?thesis using r(1) by (force simp: derive_ownership_def walk_sets starts_def image_iff)
qed

lemma apply_ownership_ok:
  assumes "own_ok st" "apply_ownership (derive_ownership items ids now) now st = Some st'"
  shows "own_ok st'"
proof (rule apply_resources_ok)
  let ?r = "derive_ownership items ids now"
  note s = apply_sessions_ok[OF assms(1), of now "ow_sessions ?r"]
  show "own_ok (fold (apply_session now) (ow_sessions ?r) st)" using s by simp
  show "apply_resources now (ow_owned ?r) (fold (apply_session now) (ow_sessions ?r) st) = Some st'"
    using assms(2) by (simp add: apply_ownership_def)
  show "\<forall>o'\<in>set (ow_owned ?r). sid_i64 (or_session o')
      \<in> sn_id ` set (os_sessions (fold (apply_session now) (ow_sessions ?r) st))"
    using derived_owner_found[of _ items ids now] s by fastforce
qed

section \<open>The other operations\<close>

lemma end_absent_ok: "own_ok st \<Longrightarrow> own_ok (end_absent_sessions live now st)"
proof -
  have "map sn_id (os_sessions (end_absent_sessions live now st)) = map sn_id (os_sessions st)"
    by (simp add: end_absent_sessions_def o_def if_distrib cong: if_cong)
  then have "map sn_id (os_sessions (end_absent_sessions live now st)) = map sn_id (os_sessions st)"
    "sn_id ` set (os_sessions (end_absent_sessions live now st)) = sn_id ` set (os_sessions st)"
    by (simp_all flip: set_map)
  then show "own_ok st \<Longrightarrow> own_ok (end_absent_sessions live now st)"
    by (simp add: own_ok_def) (simp add: end_absent_sessions_def)
qed

lemma gc_sessions_ok: "own_ok st \<Longrightarrow> own_ok (gc_sessions cutoff live st)"
  unfolding own_ok_def gc_sessions_def Let_def by (auto simp: distinct_map_filter)

lemma gc_resources_ok: "own_ok st \<Longrightarrow> own_ok (gc_leaves (gc_resources cutoff st))"
  unfolding own_ok_def gc_resources_def gc_leaves_def by (force simp: distinct_map_filter)

lemma own_gc_ok: "own_ok st \<Longrightarrow> own_ok (own_gc retention now live st)"
  by (simp add: own_gc_def Let_def gc_sessions_ok gc_resources_ok)

lemma ensure_session_ok: "own_ok st \<Longrightarrow> own_ok (snd (ensure_session b agent k t now st))"
  by (auto simp: own_ok_def ensure_session_def Let_def)

lemma insert_candidates_tables:
  "insert_candidates did cs st = Some st' \<Longrightarrow>
    os_sessions st' = os_sessions st \<and> os_resources st' = os_resources st \<and> os_edges st' = os_edges st
    \<and> os_members st' = os_members st \<and> os_decisions st' = os_decisions st"
  by (induction did cs st rule: insert_candidates.induct) (auto split: if_splits)

lemma persist_decision_ok: "own_ok st \<Longrightarrow> persist_decision rid d now st = Some st' \<Longrightarrow> own_ok st'"
  unfolding persist_decision_def Let_def by (drule insert_candidates_tables) (simp add: own_ok_def)

lemma boot_id_ok: "own_ok st \<Longrightarrow> boot_id_for_epoch fresh e now st = Some (b, st') \<Longrightarrow> own_ok st'"
  by (cases e) (auto simp: boot_id_for_epoch_def to_boot_id_def resolve_macos_epoch_def own_ok_def
      split: option.splits if_splits)

section \<open>Decision numbers\<close>

definition dec_ok :: "own_store \<Rightarrow> bool" where
  "dec_ok st \<longleftrightarrow>
     (\<forall>d\<in>set (os_decisions st). dw_id d < os_next_decision st)
     \<and> (\<forall>c\<in>set (os_candidates st). cw_decision c < os_next_decision st)
     \<and> (\<forall>v\<in>set (os_evidence st). vw_decision v < os_next_decision st)"

lemma insert_evidence_decision:
  "v \<in> set (insert_evidence did sid e rows) \<Longrightarrow> vw_decision v = did \<or> v \<in> set rows"
  unfolding insert_evidence_def Let_def by (drule upsert_set) auto

lemma insert_evidences_decision:
  "v \<in> set (fold (insert_evidence did sid) es rows) \<Longrightarrow> vw_decision v = did \<or> v \<in> set rows"
proof (induction es arbitrary: rows)
  case (Cons e es)
  then show ?case using insert_evidence_decision[of v did sid e rows] by fastforce
qed simp

lemma insert_candidates_decision:
  "insert_candidates did cs st = Some st' \<Longrightarrow> os_next_decision st' = os_next_decision st
    \<and> (\<forall>c\<in>set (os_candidates st'). cw_decision c = did \<or> c \<in> set (os_candidates st))
    \<and> (\<forall>v\<in>set (os_evidence st'). vw_decision v = did \<or> v \<in> set (os_evidence st))"
proof (induction did cs st rule: insert_candidates.induct)
  case (2 did c cs st)
  then show ?case
    by (fastforce simp: candidate_row_of_def dest: insert_evidences_decision split: if_splits)
qed simp

lemma persist_decision_dec: "dec_ok st \<Longrightarrow> persist_decision rid d now st = Some st' \<Longrightarrow> dec_ok st'"
  unfolding persist_decision_def Let_def
  by (frule insert_candidates_tables, drule insert_candidates_decision) (fastforce simp: dec_ok_def)

definition same_decisions :: "own_store \<Rightarrow> own_store \<Rightarrow> bool" where
  "same_decisions st st' \<longleftrightarrow> os_decisions st' = os_decisions st \<and> os_next_decision st' = os_next_decision st
     \<and> os_candidates st' = os_candidates st \<and> os_evidence st' = os_evidence st"

lemma same_decisions_ok: "same_decisions st st' \<Longrightarrow> dec_ok st \<Longrightarrow> dec_ok st'"
  by (simp add: same_decisions_def dec_ok_def)

lemma same_decisions_trans: "same_decisions a b \<Longrightarrow> same_decisions b c \<Longrightarrow> same_decisions a c"
  by (simp add: same_decisions_def)

lemma apply_session_same: "same_decisions st (apply_session now s st)"
  by (simp add: same_decisions_def apply_session_def Let_def)

lemma apply_sessions_same: "same_decisions st (fold (apply_session now) ss st)"
proof (induction ss arbitrary: st)
  case (Cons s ss)
  show ?case using same_decisions_trans[OF apply_session_same Cons] by simp
qed (simp add: same_decisions_def)

lemma apply_resources_same: "apply_resources now os st = Some st' \<Longrightarrow> same_decisions st st'"
  by (induction now os st rule: apply_resources.induct)
    (auto simp: same_decisions_def apply_resource_def Let_def split: option.splits)

lemma apply_ownership_same: "apply_ownership r now st = Some st' \<Longrightarrow> same_decisions st st'"
  unfolding apply_ownership_def using apply_sessions_same apply_resources_same same_decisions_trans by blast

section \<open>Reachable stores\<close>

inductive own_step :: "own_store \<Rightarrow> own_store \<Rightarrow> bool" where
  own_record: "apply_ownership (derive_ownership items ids now) now st = Some st' \<Longrightarrow> own_step st st'"
| own_end: "own_step st (end_absent_sessions live now st)"
| own_clean: "own_step st (own_gc retention now live st)"
| own_decide: "persist_decision rid d now st = Some st' \<Longrightarrow> own_step st st'"
| own_ensure: "own_step st (snd (ensure_session b agent k t now st))"
| own_alias: "own_step st (register_alias s vendor vid now st)"
| own_alias_end: "own_step st (end_vendor_alias vendor vid now st)"
| own_boot: "boot_id_for_epoch fresh e now st = Some (b, st') \<Longrightarrow> own_step st st'"

inductive own_reach :: "own_store \<Rightarrow> bool" where
  own_init: "own_reach own_store_empty"
| own_next: "own_reach st \<Longrightarrow> own_step st st' \<Longrightarrow> own_reach st'"

lemma alias_ok: "own_ok st \<Longrightarrow> own_ok (register_alias s vendor vid now st)"
  "own_ok st \<Longrightarrow> own_ok (end_vendor_alias vendor vid now st)"
  by (simp_all add: register_alias_def end_vendor_alias_def own_ok_def)

lemma own_step_ok: "own_step st st' \<Longrightarrow> own_ok st \<Longrightarrow> own_ok st'"
  by (induction rule: own_step.induct)
    (auto intro: apply_ownership_ok end_absent_ok own_gc_ok persist_decision_ok ensure_session_ok boot_id_ok
      alias_ok)

lemma own_step_dec: "own_step st st' \<Longrightarrow> dec_ok st \<Longrightarrow> dec_ok st'"
proof (induction rule: own_step.induct)
  case (own_record items ids now st st')
  then show ?case using apply_ownership_same same_decisions_ok by blast
next
  case (own_decide rid d now st st')
  then show ?case using persist_decision_dec by blast
next
  case (own_boot fresh e now st b st')
  then have "same_decisions st st'"
    by (cases e) (auto simp: boot_id_for_epoch_def to_boot_id_def resolve_macos_epoch_def same_decisions_def
        split: option.splits if_splits)
  then show ?case using own_boot same_decisions_ok by blast
qed (auto simp: dec_ok_def end_absent_sessions_def own_gc_def Let_def gc_leaves_def
      gc_resources_def gc_sessions_def ensure_session_def register_alias_def end_vendor_alias_def)

lemma own_empty_ok: "own_ok own_store_empty" "dec_ok own_store_empty"
  by (simp_all add: own_ok_def dec_ok_def own_store_empty_def)

lemma own_reach_ok: "own_reach st \<Longrightarrow> own_ok st"
  by (induction rule: own_reach.induct) (auto intro: own_step_ok own_empty_ok)

lemma own_reach_dec: "own_reach st \<Longrightarrow> dec_ok st"
  by (induction rule: own_reach.induct) (auto intro: own_step_dec own_empty_ok)

end
