(* ===== verification/Ownership_Store_Props.thy ===== *)
theory Ownership_Store_Props
  imports Ownership_Reach
begin

text \<open>What the ownership tables promise: a process is explained by an existing session, cleaning up
  keeps the origin of what is alive, ended sessions are those whose root is gone, and a decision reads
  back as it was made.\<close>

section \<open>Explaining\<close>

lemma find_key:
  "distinct (map key xs) \<Longrightarrow> x \<in> set xs \<Longrightarrow> find (\<lambda>y. key y = key x) xs = Some x"
  by (induction xs) auto

lemma find_key_ex: "k \<in> key ` set xs \<Longrightarrow> \<exists>x. find (\<lambda>y. key y = k) xs = Some x"
  by (induction xs) auto

definition a_row :: "(int list \<Rightarrow> int) \<Rightarrow> bool" where
  "a_row pick \<longleftrightarrow> (\<forall>xs. xs \<noteq> [] \<longrightarrow> pick xs \<in> set xs)"

lemma first_row_of_Some: "a_row pick \<Longrightarrow> first_row_of pick xs = Some i \<Longrightarrow> i \<in> set xs"
  by (auto simp: first_row_of_def a_row_def split: if_splits)

lemma owner_rows_edge:
  "s \<in> set (owner_rows b k t st) \<longleftrightarrow>
    (\<exists>e\<in>set (os_edges st). eo_session e = s \<and> eo_resource e \<in> set (resources_with b k t st))"
  by (auto simp: owner_rows_def edges_of_def)

lemma sid_i64_from [simp]: "i \<in> range sid_i64 \<Longrightarrow> sid_i64 (sid_from_i64 i) = i"
  by auto

lemma session_record_of_row:
  assumes "own_ok st" "r \<in> set (os_sessions st)"
  shows "session_record_of (sid_from_i64 (sn_id r)) st = Some (session_from_row r)"
proof -
  have "sid_i64 (sid_from_i64 (sn_id r)) = sn_id r" using assms by (intro sid_i64_from) (auto simp: own_ok_def)
  then show ?thesis using find_key[of sn_id "os_sessions st" r] assms
    by (simp add: session_record_of_def own_ok_def session_from_row_def)
qed

text \<open>C16: In every reachable store a process is explained exactly if it belongs to a resource with an
  ownership edge, the explanation names a session that exists and owns such a resource, and the error
  about a missing session row never arises.\<close>

theorem explain_answers:
  assumes "own_reach st" "a_row pick"
  shows "(explain_process pick b k t st = Inr None \<longleftrightarrow>
       \<not> (\<exists>e\<in>set (os_edges st). eo_resource e \<in> set (resources_with b k t st)))
    \<and> explain_process pick b k t st \<noteq> Inl MissingSession
    \<and> (explain_process pick b k t st = Inr (Some x) \<longrightarrow>
       (\<exists>r\<in>set (os_sessions st). \<exists>e\<in>set (os_edges st). ex_session x = session_from_row r
          \<and> ex_owner x = sid_from_i64 (sn_id r) \<and> eo_session e = sn_id r
          \<and> eo_resource e \<in> set (resources_with b k t st)))"
proof (cases "owner_rows b k t st = []")
  case True
  then have "explain_process pick b k t st = Inr None"
    by (simp add: explain_process_def owning_session_for_process_def first_row_of_def)
  moreover have "\<not> (\<exists>e\<in>set (os_edges st). eo_resource e \<in> set (resources_with b k t st))"
    using owner_rows_edge[of _ b k t st] True by auto
  ultimately show ?thesis by simp
next
  case False
  then have "pick (owner_rows b k t st) \<in> set (owner_rows b k t st)" using assms(2) by (simp add: a_row_def)
  then obtain e where e: "e \<in> set (os_edges st)" "eo_session e = pick (owner_rows b k t st)"
    "eo_resource e \<in> set (resources_with b k t st)" unfolding owner_rows_edge by blast
  note ok = own_reach_ok[OF assms(1)]
  obtain r where r: "r \<in> set (os_sessions st)" "sn_id r = eo_session e" using ok e(1) by (fastforce simp: own_ok_def)
  have "resources_with b k t st \<noteq> []" using e(3) by auto
  then have "explain_process pick b k t st = Inr (Some \<lparr>ex_resource = as_u64 (pick (resources_with b k t st)),
      ex_owner = sid_from_i64 (sn_id r), ex_session = session_from_row r\<rparr>)"
    using False session_record_of_row[OF ok r(1)] e(2) r(2)
    by (simp add: explain_process_def owning_session_for_process_def first_row_of_def)
  then show ?thesis using e r by (auto intro!: bexI[of _ r] bexI[of _ e])
qed

section \<open>Cleaning up\<close>

definition identity3 :: "boot_id \<Rightarrow> pid \<Rightarrow> u64 \<Rightarrow> process_identity" where
  "identity3 b k t = \<lparr>i_boot = b, i_pid = k, i_start = t\<rparr>"

lemma row_is_identity: "row_is b k t boot p start \<Longrightarrow> identity_of_row boot p start = identity3 b k t"
  by (simp add: row_is_def identity_of_row_def identity3_def)

lemma gc_fields:
  "os_sessions (own_gc ret now live st) = filter (\<lambda>r. sn_id r \<notin> sn_id `
      {r \<in> set (os_sessions st). gc_doomed (as_i64 (sat_sub now ret)) live st r}) (os_sessions st)"
  "os_edges (own_gc ret now live st) = filter (\<lambda>e. eo_session e \<notin> sn_id `
      {r \<in> set (os_sessions st). gc_doomed (as_i64 (sat_sub now ret)) live st r}) (os_edges st)"
  "os_resources (own_gc ret now live st) = filter (\<lambda>r. rw_id r \<in> eo_resource ` set (os_edges (own_gc ret now live st))
      \<or> \<not> rw_last_seen r < as_i64 (sat_sub now ret)) (os_resources st)"
  "os_members (own_gc ret now live st) =
     filter (\<lambda>m. mw_resource m \<in> rw_id ` set (os_resources (own_gc ret now live st))) (os_members st)"
  by (simp_all add: own_gc_def gc_leaves_def gc_resources_def gc_sessions_def Let_def)

lemma live_resource:
  assumes "identity3 b k t \<in> live" "rid \<in> set (resources_with b k t st)"
  shows "rid \<in> live_resources live st"
  using assms by (auto simp: resources_with_def live_resources_def dest!: row_is_identity)

lemma gc_edges_live:
  assumes "own_ok st" "identity3 b k t \<in> live" "rid \<in> set (resources_with b k t st)"
  shows "edges_of rid (own_gc ret now live st) = edges_of rid st"
proof -
  have "eo_session e \<notin> sn_id ` {r \<in> set (os_sessions st). gc_doomed c live st r}"
    if "e \<in> set (os_edges st)" "eo_resource e = rid" for e c
  proof -
    have "eo_session e \<in> protected_sessions live st"
      using live_resource[OF assms(2,3)] that by (auto simp: protected_sessions_def)
    then show ?thesis by (auto simp: gc_doomed_def)
  qed
  then show ?thesis by (auto simp: edges_of_def gc_fields filter_id_conv intro!: arg_cong[where f = "map eo_session"] filter_cong)
qed

lemma gc_keeps_live_resources:
  assumes "own_ok st" "identity3 b k t \<in> live"
  shows "resources_with b k t (own_gc ret now live st)
    = filter (\<lambda>rid. rid \<in> rw_id ` set (os_resources (own_gc ret now live st))) (resources_with b k t st)"
proof -
  let ?g = "own_gc ret now live st"
  define K where "K = rw_id ` set (os_resources ?g)"
  have m: "map mw_resource (filter (\<lambda>m. row_is b k t (mw_boot m) (mw_pid m) (mw_start m)) (os_members ?g))
    = filter (\<lambda>rid. rid \<in> K) (map mw_resource (filter (\<lambda>m. row_is b k t (mw_boot m) (mw_pid m) (mw_start m)) (os_members st)))"
    by (simp add: gc_fields(4) filter_map o_def conj_commute K_def)
  have "r \<in> set (os_resources ?g) \<longleftrightarrow> rw_id r \<in> K" if "r \<in> set (os_resources st)" for r
  proof
    assume "rw_id r \<in> K"
    then obtain r' where "r' \<in> set (os_resources ?g)" "rw_id r' = rw_id r" by (auto simp: K_def)
    moreover from this have "r' = r"
      using that assms(1) by (auto simp: own_ok_def gc_fields(3) dest: distinct_map[THEN iffD1] inj_onD)
    ultimately show "r \<in> set (os_resources ?g)" by simp
  qed (simp add: K_def)
  then have "os_resources ?g = filter (\<lambda>r. rw_id r \<in> K) (os_resources st)"
    using gc_fields(3)[of ret now live st] by (auto intro!: filter_cong)
  then have "map rw_id (filter (\<lambda>r. row_is b k t (rw_boot r) (rw_pid r) (rw_start r)) (os_resources ?g))
    = filter (\<lambda>rid. rid \<in> K) (map rw_id (filter (\<lambda>r. row_is b k t (rw_boot r) (rw_pid r) (rw_start r)) (os_resources st)))"
    by (simp add: filter_map o_def conj_commute)
  with m show ?thesis unfolding K_def[symmetric] by (simp add: resources_with_def remdups_filter[symmetric])
qed

lemma concat_map_filter_empty:
  "\<forall>x\<in>set xs. P x \<or> f x = [] \<Longrightarrow> concat (map f (filter P xs)) = concat (map f xs)"
  by (induction xs) auto

lemma gc_owner_rows:
  assumes "own_ok st" "identity3 b k t \<in> live"
  shows "owner_rows b k t (own_gc ret now live st) = owner_rows b k t st"
proof -
  let ?g = "own_gc ret now live st"
  let ?P = "\<lambda>rid. rid \<in> rw_id ` set (os_resources ?g)"
  let ?xs = "resources_with b k t st"
  have e: "edges_of rid ?g = edges_of rid st" if "rid \<in> set ?xs" for rid
    using gc_edges_live[OF assms that] .
  have "\<forall>rid\<in>set ?xs. ?P rid \<or> edges_of rid ?g = []"
    using own_gc_ok[OF assms(1), of ret now live] by (auto simp: edges_of_def filter_empty_conv own_ok_def)
  then have "concat (map (\<lambda>rid. edges_of rid ?g) (filter ?P ?xs)) = concat (map (\<lambda>rid. edges_of rid ?g) ?xs)"
    by (rule concat_map_filter_empty)
  also have "\<dots> = concat (map (\<lambda>rid. edges_of rid st) ?xs)" using e by (simp cong: map_cong)
  finally show ?thesis by (simp add: owner_rows_def gc_keeps_live_resources[OF assms])
qed

lemma gc_keeps_session:
  assumes "own_ok st" "identity3 b k t \<in> live" "i \<in> set (owner_rows b k t st)"
  shows "find (\<lambda>r. sn_id r = i) (os_sessions (own_gc ret now live st)) = find (\<lambda>r. sn_id r = i) (os_sessions st)"
proof -
  obtain e where e: "e \<in> set (os_edges st)" "eo_session e = i" "eo_resource e \<in> set (resources_with b k t st)"
    using assms(3) unfolding owner_rows_edge by blast
  obtain r where r: "r \<in> set (os_sessions st)" "sn_id r = i" using assms(1) e by (fastforce simp: own_ok_def)
  have "i \<in> protected_sessions live st"
    using live_resource[OF assms(2) e(3)] e(1,2) by (auto simp: protected_sessions_def)
  then have kept: "r \<in> set (os_sessions (own_gc ret now live st))"
    using r by (auto simp: gc_fields gc_doomed_def)
  have d: "distinct (map sn_id (os_sessions st))" "distinct (map sn_id (os_sessions (own_gc ret now live st)))"
    using assms(1) own_gc_ok[OF assms(1)] by (simp_all add: own_ok_def)
  show ?thesis using find_key[OF d(1) r(1)] find_key[OF d(2) kept] r(2) by simp
qed

text \<open>C17: Cleaning up never makes the store forget where a living process comes from: it names the same
  session with the same record afterwards, however old it is.  The sessions removed are exactly those that
  ended before the retention and have no living resource.\<close>

theorem gc_keeps_origins:
  assumes "own_reach st" "a_row pick" "identity3 b k t \<in> live"
  shows "owning_session_for_process pick b k t (own_gc ret now live st) = owning_session_for_process pick b k t st
    \<and> (case owning_session_for_process pick b k t st of
         Some s \<Rightarrow> session_record_of s (own_gc ret now live st) = session_record_of s st
       | None \<Rightarrow> True)
    \<and> set (os_sessions (own_gc ret now live st))
       = {r \<in> set (os_sessions st). \<not> gc_doomed (as_i64 (sat_sub now ret)) live st r}"
proof -
  note ok = own_reach_ok[OF assms(1)]
  have o: "owning_session_for_process pick b k t (own_gc ret now live st) = owning_session_for_process pick b k t st"
    by (simp add: owning_session_for_process_def gc_owner_rows[OF ok assms(3)])
  have "session_record_of s (own_gc ret now live st) = session_record_of s st"
    if s: "owning_session_for_process pick b k t st = Some s" for s
  proof -
    obtain i where i: "first_row_of pick (owner_rows b k t st) = Some i" "s = sid_from_i64 i"
      using s by (auto simp: owning_session_for_process_def)
    have m: "i \<in> set (owner_rows b k t st)" using first_row_of_Some[OF assms(2) i(1)] .
    then have "sid_i64 (sid_from_i64 i) = i" unfolding owner_rows_edge using ok
      by (intro sid_i64_from) (fastforce simp: own_ok_def)
    then show ?thesis using gc_keeps_session[OF ok assms(3) m] by (simp add: session_record_of_def i(2))
  qed
  moreover have "set (os_sessions (own_gc ret now live st))
       = {r \<in> set (os_sessions st). \<not> gc_doomed (as_i64 (sat_sub now ret)) live st r}"
  proof -
    have "inj_on sn_id (set (os_sessions st))" using ok by (simp add: own_ok_def distinct_map)
    then show ?thesis unfolding gc_fields(1) by (auto dest: inj_onD)
  qed
  ultimately show ?thesis using o by (auto split: option.splits)
qed

section \<open>Decisions\<close>

lemma evidence_parse_str [simp]: "evidence_parse (evidence_as_str k) = Some k"
  by (cases k) (simp_all add: evidence_parse_def evidence_as_str_def)

lemma evidence_as_str_inject [simp]: "evidence_as_str a = evidence_as_str b \<longleftrightarrow> a = b"
  by (metis evidence_parse_str option.inject)

lemma evidence_as_str_image [simp]: "evidence_as_str k \<in> evidence_as_str ` A \<longleftrightarrow> k \<in> A"
  by auto

lemma sid_i64_image [simp]: "sid_i64 s \<in> sid_i64 ` A \<longleftrightarrow> s \<in> A"
  by auto

lemma upsert_fresh: "\<forall>x\<in>set xs. \<not> P x \<Longrightarrow> upsert P f new xs = xs @ [new]"
  by (induction P f new xs rule: upsert.induct) auto

definition evidence_row_of :: "int \<Rightarrow> int \<Rightarrow> evidence \<Rightarrow> evidence_row" where
  "evidence_row_of did sid e = \<lparr>vw_decision = did, vw_session = sid, vw_kind = evidence_as_str (fst e), vw_value = snd e\<rparr>"

lemma insert_evidences_fresh:
  assumes "distinct (map fst es)"
    and "\<forall>r\<in>set rows. vw_decision r = did \<and> vw_session r = sid \<longrightarrow> vw_kind r \<notin> evidence_as_str ` fst ` set es"
  shows "fold (insert_evidence did sid) es rows = rows @ map (evidence_row_of did sid) es"
  using assms
proof (induction es arbitrary: rows)
  case (Cons e es)
  have "insert_evidence did sid e rows = rows @ [evidence_row_of did sid e]"
    unfolding insert_evidence_def Let_def evidence_row_of_def using Cons.prems(2) by (intro upsert_fresh) auto
  moreover have "fold (insert_evidence did sid) es (rows @ [evidence_row_of did sid e])
      = (rows @ [evidence_row_of did sid e]) @ map (evidence_row_of did sid) es"
  proof (rule Cons.IH)
    show "\<forall>r\<in>set (rows @ [evidence_row_of did sid e]). vw_decision r = did \<and> vw_session r = sid \<longrightarrow>
        vw_kind r \<notin> evidence_as_str ` fst ` set es"
      using Cons.prems by (simp add: evidence_row_of_def)
  qed (use Cons.prems in simp)
  ultimately show ?case by simp
qed simp

definition evidence_rows_of :: "int \<Rightarrow> attribution_candidate \<Rightarrow> evidence_row list" where
  "evidence_rows_of did c = map (evidence_row_of did (sid_i64 (ac_session c))) (ac_evidence c)"

lemma insert_candidates_fresh:
  assumes "distinct (map ac_session cs)" "\<forall>c\<in>set cs. distinct (map fst (ac_evidence c))"
    and "\<forall>r\<in>set (os_candidates st). cw_decision r = did \<longrightarrow> cw_session r \<notin> sid_i64 ` ac_session ` set cs"
    and "\<forall>r\<in>set (os_evidence st). vw_decision r = did \<longrightarrow> vw_session r \<notin> sid_i64 ` ac_session ` set cs"
  shows "insert_candidates did cs st = Some (st\<lparr>os_candidates := os_candidates st @ map (candidate_row_of did) cs,
    os_evidence := os_evidence st @ concat (map (evidence_rows_of did) cs)\<rparr>)"
  using assms
proof (induction cs arbitrary: st)
  case (Cons c cs)
  have f: "fold (insert_evidence did (sid_i64 (ac_session c))) (ac_evidence c) (os_evidence st)
      = os_evidence st @ evidence_rows_of did c"
    unfolding evidence_rows_of_def using Cons.prems(2,4) by (intro insert_evidences_fresh) auto
  let ?st = "st\<lparr>os_candidates := os_candidates st @ [candidate_row_of did c],
     os_evidence := os_evidence st @ evidence_rows_of did c\<rparr>"
  have "insert_candidates did cs ?st = Some (?st\<lparr>os_candidates := os_candidates ?st @ map (candidate_row_of did) cs,
    os_evidence := os_evidence ?st @ concat (map (evidence_rows_of did) cs)\<rparr>)"
  proof (rule Cons.IH)
    show "\<forall>r\<in>set (os_evidence ?st). vw_decision r = did \<longrightarrow> vw_session r \<notin> sid_i64 ` ac_session ` set cs"
      using Cons.prems(1,4) by (simp add: evidence_rows_of_def evidence_row_of_def ball_Un)
  qed (use Cons.prems in \<open>simp_all add: candidate_row_of_def\<close>)
  then show ?case using Cons.prems(3) by (auto simp: f list_ex_iff)
qed simp

lemma insort_last: "f a \<le> f x \<Longrightarrow> insort_key f a (ys @ [x]) = insort_key f a ys @ [x]"
  by (induction ys) auto

lemma sort_key_last: "\<forall>y\<in>set xs. f y \<le> f x \<Longrightarrow> sort_key f (xs @ [x]) = sort_key f xs @ [x]"
  by (induction xs) (auto simp: insort_last)

lemma latest_row_last:
  "\<forall>y\<in>set xs. dw_id y \<le> dw_id x \<and> dw_observed y \<le> dw_observed x \<Longrightarrow> latest_row (xs @ [x]) = Some x"
  by (simp add: latest_row_def sort_key_last)

lemma evidence_rows_other:
  "evidence_of_rows sid (evidence_rows_of did c) = (if sid_i64 (ac_session c) = sid then ac_evidence c else [])"
  by (induction "ac_evidence c")
    (auto simp: evidence_rows_of_def evidence_of_rows_def evidence_row_of_def List.map_filter_def comp_def)

lemma evidence_of_rows_append: "evidence_of_rows sid (xs @ ys) = evidence_of_rows sid xs @ evidence_of_rows sid ys"
  by (simp add: evidence_of_rows_def List.map_filter_def)

lemma evidence_of_rows_all:
  "evidence_of_rows sid (concat (map (evidence_rows_of did) cs))
    = concat (map (\<lambda>c. if sid_i64 (ac_session c) = sid then ac_evidence c else []) cs)"
  by (induction cs) (simp_all add: evidence_of_rows_append evidence_rows_other, simp add: evidence_of_rows_def map_filter_simps)

lemma concat_if_distinct:
  "distinct (map g cs) \<Longrightarrow> c \<in> set cs \<Longrightarrow> concat (map (\<lambda>x. if g x = g c then h x else []) cs) = h c"
proof (induction cs)
  case (Cons x cs)
  have "concat (map (\<lambda>x. if g x = g c then h x else []) cs) = []" if "g c \<notin> g ` set cs"
    using that by (auto simp: image_iff)
  then show ?case using Cons by auto
qed simp

lemma evidence_of_rows_mset: "mset xs = mset ys \<Longrightarrow> mset (evidence_of_rows sid xs) = mset (evidence_of_rows sid ys)"
  by (simp add: evidence_of_rows_def List.map_filter_def mset_filter)

definition same_candidate :: "candidate_record \<Rightarrow> attribution_candidate \<Rightarrow> bool" where
  "same_candidate k c \<longleftrightarrow>
     kr_session k = ac_session c \<and> kr_anchor k = anchor_debug (ac_anchor c) \<and> kr_anchor_score k = ac_anchor_score c
     \<and> kr_project k = ac_project c \<and> kr_temporal k = ac_temporal c \<and> kr_relationship k = ac_relationship c
     \<and> kr_total k = ac_total c \<and> kr_rejected k = map_option rejection_debug (ac_rejected c)
     \<and> mset (kr_evidence k) = mset (ac_evidence c)"

lemma of_int_u8 [simp]: "of_int (u8_int w) = w"
  by (simp add: u8_int_def)

lemma mset_map_split: "mset zs = mset (map f cs) \<Longrightarrow> \<exists>cs'. mset cs' = mset cs \<and> zs = map f cs'"
proof (induction zs arbitrary: cs)
  case (Cons z zs)
  have "z \<in> set (map f cs)" using mset_eq_setD[OF Cons.prems] by auto
  then obtain c where c: "c \<in> set cs" "z = f c" by auto
  have m: "mset cs = add_mset c (mset (remove1 c cs))" using c(1) by simp
  have "mset zs = mset (map f (remove1 c cs))" using Cons.prems c(2) by (simp add: m del: mset_remove1)
  then obtain cs' where "mset cs' = mset (remove1 c cs)" "zs = map f cs'" using Cons.IH by blast
  then show ?case using m c(2) by (intro exI[of _ "c # cs'"]) (simp del: mset_remove1)
qed simp

text \<open>A permutation of the stored candidates, sorted by descending total.\<close>

lemma sorted_candidates:
  assumes "mset rows = mset (map (candidate_row_of did) cs)"
  obtains cs' where "mset cs' = mset cs" "sort_key (\<lambda>c. - cw_total c) rows = map (candidate_row_of did) cs'"
    "sorted_wrt (\<lambda>a b. ac_total a \<ge> ac_total b) cs'"
proof -
  have "mset (sort_key (\<lambda>c. - cw_total c) rows) = mset (map (candidate_row_of did) cs)" using assms by simp
  then obtain cs' where cs': "mset cs' = mset cs" "sort_key (\<lambda>c. - cw_total c) rows = map (candidate_row_of did) cs'"
    using mset_map_split by blast
  have "sorted (map (\<lambda>c. - cw_total c) (map (candidate_row_of did) cs'))"
    unfolding cs'(2)[symmetric] by simp
  then have "sorted_wrt (\<lambda>a b. ac_total a \<ge> ac_total b) cs'"
    by (simp add: sorted_map candidate_row_of_def u8_int_def word_le_def)
  then show ?thesis using that cs' by blast
qed


section \<open>A small store\<close>

text \<open>An agent with one MCP server, recorded once; and after the agent's process has gone.\<close>

definition demo_tree :: "runtime_item list" where
  "demo_tree = [RuntimeItem Agent ''omp'' (Some 5) [5] 0 Active None [] None
     [RuntimeItem Mcp ''mcp-server'' (Some 9) [9] 0 Active None [] None []]]"

definition demo_ids :: identities where
  "demo_ids k = Some \<lparr>i_boot = BootId 7, i_pid = k, i_start = 1000\<rparr>"

definition demo_own :: own_store where
  "demo_own = the (apply_ownership (derive_ownership demo_tree demo_ids 2000) 2000 own_store_empty)"

lemma demo_recorded: "apply_ownership (derive_ownership demo_tree demo_ids 2000) 2000 own_store_empty = Some demo_own"
proof -
  have "apply_ownership (derive_ownership demo_tree demo_ids 2000) 2000 own_store_empty \<noteq> None"
    by (simp add: demo_tree_def demo_ids_def derive_ownership_def session_started_def root_identity_def own_here_def
        apply_ownership_def apply_resource_def Let_def apply_session_def own_store_empty_def)
  then show ?thesis by (simp add: demo_own_def)
qed

lemma demo_own_reach: "own_reach demo_own"
  by (rule own_next[OF own_init own_record[OF demo_recorded]])

lemma demo_edge: "\<exists>e\<in>set (os_edges demo_own). eo_resource e \<in> set (resources_with (BootId 7) 9 1000 demo_own)"
  by (simp add: demo_own_def demo_tree_def demo_ids_def derive_ownership_def session_started_def root_identity_def
      own_here_def apply_ownership_def apply_resource_def Let_def apply_session_def own_store_empty_def
      resources_with_def member_row_of_def resource_row_of_def row_is_def map_filter_simps)

lemma hd_row: "a_row hd"
  by (simp add: a_row_def)

theorem explain_answers_witness:
  "explain_process hd (BootId 7) 9 1000 demo_own \<noteq> Inr None
   \<and> explain_process hd (BootId 7) 9 1000 demo_own \<noteq> Inl MissingSession"
  using explain_answers[OF demo_own_reach hd_row, of "BootId 7" 9 1000] demo_edge by blast

definition demo_ended :: own_store where
  "demo_ended = end_absent_sessions {identity3 (BootId 7) 9 1000} 3000 demo_own"

theorem gc_keeps_origins_witness:
  "owning_session_for_process hd (BootId 7) 9 1000
     (own_gc 60 1000000 {identity3 (BootId 7) 9 1000} demo_ended)
   = owning_session_for_process hd (BootId 7) 9 1000 demo_ended"
proof -
  have "own_reach demo_ended" unfolding demo_ended_def by (rule own_next[OF demo_own_reach own_end])
  then show ?thesis using gc_keeps_origins[OF _ hd_row, of demo_ended "BootId 7" 9 1000] by blast
qed

definition demo_decision :: attribution_decision where
  "demo_decision = resolve rules_v1
     [\<lparr>ci_session = SessionId 5, ci_anchor = Some PersistedPrevious, ci_anchor_score = Some 75,
       ci_propagate_cap = None, ci_exact_cwd = True, ci_same_git_root = False, ci_start_delta = Some 4,
       ci_tool = True, ci_predates = False, ci_other_agent = False\<rparr>]"


end
