(* ===== verification/Leftovers.thy ===== *)
theory Leftovers
  imports Group_Props
begin

text \<open>
  Scoring runtime items (\<open>src/classify/leftovers.rs\<close>): which items look left over, which are
  persistent services.  The clock and the configuration are arguments.
\<close>

section \<open>Scoring\<close>

definition root_proc :: "process_info list \<Rightarrow> pid option \<Rightarrow> process_info option" where
  "root_proc ps root = Option.bind root (by_pid ps)"

text \<open>At most 64 processes, the start included.\<close>

fun tty_search :: "process_info list \<Rightarrow> nat \<Rightarrow> pid \<Rightarrow> bool" where
  "tty_search ps 0 k = False"
| "tty_search ps (Suc n) k =
    (case by_pid ps k of
       None \<Rightarrow> False
     | Some p \<Rightarrow>
         if p_tty p \<noteq> None then True
         else (case p_parent p of None \<Rightarrow> False | Some q \<Rightarrow> tty_search ps n q))"

definition has_tty_ancestor :: "process_info list \<Rightarrow> process_info \<Rightarrow> bool" where
  "has_tty_ancestor ps p = tty_search ps 64 (p_pid p)"

definition reparented :: "process_info list \<Rightarrow> process_info \<Rightarrow> bool" where
  "reparented ps p =
    (case p_parent p of
       None \<Rightarrow> True
     | Some q \<Rightarrow> if q = 1 then True else q \<notin> p_pid ` set ps)"

definition exempt :: "config \<Rightarrow> process_info list \<Rightarrow> category \<Rightarrow> pid option \<Rightarrow> bool" where
  "exempt cfg ps c root =
    (if c = DevService then True
     else
       (case root_proc ps root of
          None \<Rightarrow> False
        | Some p \<Rightarrow>
            (let hay = proc_hay p in
             if \<not> (c = LanguageServer \<or> c = Database)
                \<and> (str_contains hay ''homebrew'' \<or> str_contains hay ''valet''
                   \<or> str_contains hay ''com.docker'' \<or> str_contains hay ''docker desktop'') then True
             else if c = Database \<and> p_parent p = Some 1 then True
             else list_ex (\<lambda>k. str_contains hay (to_ascii_lowercase k)) (cf_persistent_commands cfg))))"

definition is_interactive :: "process_info list \<Rightarrow> pid option \<Rightarrow> bool" where
  "is_interactive ps root =
    (case root_proc ps root of None \<Rightarrow> False | Some p \<Rightarrow> has_tty_ancestor ps p)"

definition unowned :: "category option \<Rightarrow> category \<Rightarrow> bool" where
  "unowned outer c \<longleftrightarrow>
     outer = None \<and> c \<in> {Mcp, Browser, DevServer, LanguageServer, Database, Worker}"

text \<open>A reason with its points, when it applies.\<close>

definition reason_if :: "bool \<Rightarrow> suspicion_reason \<Rightarrow> nat \<Rightarrow> (suspicion_reason \<times> nat) list" where
  "reason_if b r n = (if b then [(r, n)] else [])"

definition ancestry_reasons ::
  "process_info list \<Rightarrow> category option \<Rightarrow> category \<Rightarrow> pid option \<Rightarrow> (suspicion_reason \<times> nat) list" where
  "ancestry_reasons ps outer c root =
    (if unowned outer c \<and> \<not> is_interactive ps root
     then reason_if (c \<in> {Mcp, Browser, LanguageServer, Database}) OwningAgentMissing 50
        @ reason_if (c = Mcp) McpOwnerMissing 25
        @ reason_if (c = Browser) HeadlessBrowserDetached 30
        @ reason_if (case root_proc ps root of None \<Rightarrow> False | Some p \<Rightarrow> reparented ps p) ParentExited 40
     else [])"

definition age_hours :: "u64 \<Rightarrow> process_info \<Rightarrow> u64" where
  "age_hours now p = sat_sub now (p_start_time p) div 3600"

definition age_reasons ::
  "config \<Rightarrow> u64 \<Rightarrow> process_info list \<Rightarrow> category \<Rightarrow> pid option \<Rightarrow> (suspicion_reason \<times> nat) list" where
  "age_reasons cfg now ps c root =
    (if c = DevServer \<or> c = Worker
     then (case root_proc ps root of
             None \<Rightarrow> []
           | Some p \<Rightarrow>
               reason_if (p_start_time p > 0 \<and> age_hours now p \<ge> cf_server_age_hours cfg)
                 (if c = Worker then LongRunningWorker else LongRunningDevServer) 20)
     else [])"

text \<open>The state and the suspicion of an item whose previous ones are given.\<close>

definition mark_here ::
  "config \<Rightarrow> u64 \<Rightarrow> process_info list \<Rightarrow> category option \<Rightarrow> category \<Rightarrow> pid option
     \<Rightarrow> runtime_state \<Rightarrow> suspicion option \<Rightarrow> runtime_state \<times> suspicion option" where
  "mark_here cfg now ps outer c root st su =
    (if c = Agent then (st, None)
     else if exempt cfg ps c root then (Persistent, None)
     else
       (let found = ancestry_reasons ps outer c root @ age_reasons cfg now ps c root;
            score = min (sum_list (map snd found)) 100
        in if score \<ge> 30
           then (Suspicious, Some \<lparr>sus_score = of_nat score, sus_reasons = map fst found\<rparr>)
           else (st, su)))"

fun mark_one ::
  "config \<Rightarrow> u64 \<Rightarrow> process_info list \<Rightarrow> category option \<Rightarrow> runtime_item \<Rightarrow> runtime_item" where
  "mark_one cfg now ps outer (RuntimeItem c n rt ids m st su po pj ch) =
    (let ch' = map (mark_one cfg now ps (Some c)) ch;
         (st', su') = mark_here cfg now ps outer c rt st su
     in RuntimeItem c n rt ids m st' su' po pj ch')"

definition mark_items :: "config \<Rightarrow> u64 \<Rightarrow> process_info list \<Rightarrow> runtime_item list \<Rightarrow> runtime_item list" where
  "mark_items cfg now ps items = map (mark_one cfg now ps None) items"

fun leftover_here :: "runtime_item \<Rightarrow> nat" where
  "leftover_here (RuntimeItem c n rt ids m st su po pj ch) =
    (if st = Suspicious then 1 else 0) + sum_list (map leftover_here ch)"

definition leftover_count :: "runtime_item list \<Rightarrow> nat" where
  "leftover_count items = sum_list (map leftover_here items)"

section \<open>What is left over\<close>

text \<open>Items as grouping makes them: active, without suspicion.\<close>

fun fresh_item :: "runtime_item \<Rightarrow> bool" where
  "fresh_item (RuntimeItem c n rt ids m st su po pj ch) \<longleftrightarrow> st = Active \<and> su = None \<and> list_all fresh_item ch"

text \<open>An orphan: nobody owns it, no terminal is above it, and for a server or a worker its parent has
  exited.\<close>

definition orphaned :: "config \<Rightarrow> process_info list \<Rightarrow> runtime_item \<Rightarrow> bool" where
  "orphaned cfg ps i \<longleftrightarrow>
     unowned None (ri_category i) \<and> \<not> exempt cfg ps (ri_category i) (ri_root i) \<and> \<not> is_interactive ps (ri_root i)
     \<and> (ri_category i \<in> {DevServer, Worker} \<longrightarrow>
          (case root_proc ps (ri_root i) of None \<Rightarrow> False | Some p \<Rightarrow> reparented ps p))"

lemma sum_age: "sum_list (map snd (age_reasons cfg now ps c root)) \<le> 20"
  by (auto simp: age_reasons_def reason_if_def split: option.splits)

lemma mark_here_nested: "fst (mark_here cfg now ps (Some o') c root Active su) \<noteq> Suspicious"
  using sum_age[of cfg now ps c root]
  by (simp add: mark_here_def ancestry_reasons_def unowned_def Let_def)

lemma sum_reason_if [simp]: "sum_list (map snd (reason_if b r n)) = (if b then n else 0)"
  by (simp add: reason_if_def)

lemma mark_here_top:
  "fst (mark_here cfg now ps None (ri_category i) (ri_root i) Active su) = Suspicious \<longleftrightarrow> orphaned cfg ps i"
  using sum_age[of cfg now ps "ri_category i" "ri_root i"]
  by (cases "ri_category i")
    (auto simp: mark_here_def ancestry_reasons_def unowned_def orphaned_def Let_def exempt_def
      split: option.splits)

lemma nested_clean: "fresh_item i \<Longrightarrow> leftover_here (mark_one cfg now ps (Some o') i) = 0"
proof (induction i arbitrary: o' rule: fresh_item.induct)
  case (1 c n rt ids m st su po pj ch)
  have "leftover_here (mark_one cfg now ps (Some c) j) = 0" if "j \<in> set ch" for j
    using 1 that by (auto simp: list_all_iff)
  then have "map (leftover_here \<circ> mark_one cfg now ps (Some c)) ch = map (\<lambda>_. 0) ch" by simp
  moreover have "fst (mark_here cfg now ps (Some o') c rt st su) \<noteq> Suspicious"
    using mark_here_nested 1(2) by simp
  ultimately show ?case by (simp add: split_beta Let_def o_def)
qed

lemma top_marked:
  assumes "fresh_item i"
  shows "ri_state (mark_one cfg now ps None i) = Suspicious \<longleftrightarrow> orphaned cfg ps i"
    and "leftover_here (mark_one cfg now ps None i) = (if orphaned cfg ps i then 1 else 0)"
proof -
  obtain c n rt ids m st su po pj ch where i: "i = RuntimeItem c n rt ids m st su po pj ch" by (cases i)
  have top: "fst (mark_here cfg now ps None c rt st su) = Suspicious \<longleftrightarrow> orphaned cfg ps i"
    using mark_here_top[of cfg now ps i su] assms by (simp add: i)
  have "map (leftover_here \<circ> mark_one cfg now ps (Some c)) ch = map (\<lambda>_. 0) ch"
    using assms nested_clean by (simp add: i list_all_iff)
  then show "leftover_here (mark_one cfg now ps None i) = (if orphaned cfg ps i then 1 else 0)"
    using top by (simp add: i split_beta Let_def o_def)
  show "ri_state (mark_one cfg now ps None i) = Suspicious \<longleftrightarrow> orphaned cfg ps i"
    using top by (simp add: i split_beta Let_def)
qed

lemma exempt_age [simp]: "exempt (cfg\<lparr>cf_server_age_hours := h\<rparr>) ps c root = exempt cfg ps c root"
  by (cases "root_proc ps root") (simp_all add: exempt_def Let_def)

lemma orphaned_age [simp]: "orphaned (cfg\<lparr>cf_server_age_hours := h\<rparr>) ps i = orphaned cfg ps i"
  by (simp add: orphaned_def)

text \<open>C15: On freshly grouped items, what is marked as left over are exactly the orphaned top items, and
  the count is theirs: nothing nested ever counts.  This holds for every age threshold and every clock:
  age alone never makes an item left over, although the comment says that it does.\<close>

theorem leftovers_are_orphans:
  assumes "list_all fresh_item items"
  shows "map (\<lambda>i. ri_state i = Suspicious) (mark_items (cfg\<lparr>cf_server_age_hours := h\<rparr>) now ps items)
      = map (orphaned cfg ps) items
    \<and> leftover_count (mark_items (cfg\<lparr>cf_server_age_hours := h\<rparr>) now ps items)
      = length (filter (orphaned cfg ps) items)"
  using assms by (induction items) (simp_all add: mark_items_def leftover_count_def top_marked)

definition old_vite :: process_info where
  "old_vite = (tiny_proc 9 (Some 6) ''vite'')\<lparr>p_start_time := 1000\<rparr>"

definition old_vite_item :: runtime_item where
  "old_vite_item = RuntimeItem DevServer ''vite'' (Some 9) [9] 4096 Active None [] None []"

theorem leftovers_are_orphans_witness:
  "leftover_count (mark_items (config_default\<lparr>cf_server_age_hours := 1\<rparr>) 1000000000
      [tiny_proc 6 None ''sh'', old_vite] [old_vite_item]) = 0"
proof -
  have "orphaned config_default [tiny_proc 6 None ''sh'', old_vite] old_vite_item = False"
    by (simp add: orphaned_def old_vite_item_def old_vite_def root_proc_def by_pid_def tiny_proc_def
        reparented_def)
  moreover have "list_all fresh_item [old_vite_item]" by (simp add: old_vite_item_def)
  ultimately show ?thesis
    using leftovers_are_orphans[where items = "[old_vite_item]" and cfg = config_default and h = 1
      and now = 1000000000 and ps = "[tiny_proc 6 None ''sh'', old_vite]"] by simp
qed

end
