(* ===== verification/Project.thy ===== *)
theory Project
  imports Leftovers
begin

text \<open>
  Finding the project of an item and attaching listening ports (\<open>src/classify/project.rs\<close>).  A path
  is the list of its components, the root directory \<open>/\<close> being one, which is how the library
  compares paths; the file system is an argument.
\<close>

section \<open>Paths\<close>

type_synonym path = "string list"

definition to_path :: "string \<Rightarrow> path" where
  "to_path s =
    (if starts_with s ''/'' then [''/''] else if hd (split_on (CHR ''/'') s) = ''.'' then [''.''] else [])
     @ path_components s"

definition show_path :: "path \<Rightarrow> string" where
  "show_path p = (case p of
     c # cs \<Rightarrow> if c = ''/'' then ''/'' @ join_with ''/'' cs else join_with ''/'' p
   | [] \<Rightarrow> [])"

definition path_parent :: "path \<Rightarrow> path option" where
  "path_parent p = (if p = [] \<or> p = [''/''] then None else Some (butlast p))"

definition path_name :: "path \<Rightarrow> string option" where
  "path_name p = (if p = [] \<or> last p \<in> {''/'', ''.'', ''..''} then None else Some (last p))"

record file_system =
  fs_exists :: "path \<Rightarrow> bool"
  fs_canonical :: "path \<Rightarrow> path option"

section \<open>The project of a directory\<close>

definition MARKERS :: "string list" where
  "MARKERS = [''package.json'', ''pyproject.toml'', ''Cargo.toml'', ''go.mod'', ''composer.json'',
     ''docker-compose.yml'', ''compose.yml'']"

record project_cache =
  pc_dirs :: "path \<rightharpoonup> project option"
  pc_roots :: "path list"

definition normalize_path :: "file_system \<Rightarrow> path \<Rightarrow> path" where
  "normalize_path fs p = (case fs_canonical fs p of Some q \<Rightarrow> q | None \<Rightarrow> p)"

definition cache_with_roots :: "file_system \<Rightarrow> path list \<Rightarrow> project_cache" where
  "cache_with_roots fs roots = \<lparr>pc_dirs = Map.empty, pc_roots = map (normalize_path fs) roots\<rparr>"

definition under_configured_root :: "path list \<Rightarrow> path \<Rightarrow> bool" where
  "under_configured_root roots d =
    (case path_parent d of None \<Rightarrow> False | Some q \<Rightarrow> list_ex (\<lambda>r. r = q) roots)"

definition project_at :: "path \<Rightarrow> project" where
  "project_at p =
    \<lparr>pr_root = show_path p, pr_name = (case path_name p of Some n \<Rightarrow> n | None \<Rightarrow> ''project'')\<rparr>"

definition remember_dirs :: "path list \<Rightarrow> project option \<Rightarrow> project_cache \<Rightarrow> project_cache" where
  "remember_dirs ds r c = c\<lparr>pc_dirs := foldl (\<lambda>m d. m(d \<mapsto> r)) (pc_dirs c) ds\<rparr>"

definition has_git :: "file_system \<Rightarrow> path \<Rightarrow> bool" where
  "has_git fs d = fs_exists fs (d @ [''.git''])"

definition has_marker :: "file_system \<Rightarrow> path \<Rightarrow> bool" where
  "has_marker fs d = list_ex (\<lambda>m. fs_exists fs (d @ [m])) MARKERS"

function detect_loop :: "file_system \<Rightarrow> project_cache \<Rightarrow> path list \<Rightarrow> path \<Rightarrow> project option \<times> project_cache" where
  "detect_loop fs c walked cur =
    (case pc_dirs c cur of
       Some hit \<Rightarrow> (hit, remember_dirs walked hit c)
     | None \<Rightarrow>
         if has_git fs cur \<or> under_configured_root (pc_roots c) cur
         then (let r = Some (project_at cur) in (r, remember_dirs (walked @ [cur]) r c))
         else
           (let walked' = walked @ [cur] in
            case path_parent cur of
              Some q \<Rightarrow> detect_loop fs c walked' q
            | None \<Rightarrow>
                (let found = map_option project_at (find (has_marker fs) walked')
                 in (found, remember_dirs walked' found c))))"
  by pat_completeness auto
termination
  by (relation "measure (\<lambda>(fs, c, walked, cur). length cur)")
    (auto simp: path_parent_def split: if_splits)

definition detect :: "file_system \<Rightarrow> project_cache \<Rightarrow> path \<Rightarrow> project option \<times> project_cache" where
  "detect fs c start = detect_loop fs c [] (normalize_path fs start)"

section \<open>The project of an item\<close>

definition pwd_part :: "string \<Rightarrow> path option" where
  "pwd_part s = (case strip_prefix s ''PWD='' of
     Some p \<Rightarrow> if p = [] then None else Some (to_path p) | None \<Rightarrow> None)"

fun first_Some :: "('a \<Rightarrow> 'b option) \<Rightarrow> 'a list \<Rightarrow> 'b option" where
  "first_Some f [] = None"
| "first_Some f (x # xs) = (case f x of Some y \<Rightarrow> Some y | None \<Rightarrow> first_Some f xs)"

definition pwd_from_cmd :: "string list \<Rightarrow> path option" where
  "pwd_from_cmd cmd = first_Some (\<lambda>arg. first_Some pwd_part (split_by is_space arg)) cmd"

definition try_detect ::
  "file_system \<Rightarrow> project_cache \<Rightarrow> path option \<Rightarrow> project option \<times> project_cache" where
  "try_detect fs c d = (case d of None \<Rightarrow> (None, c) | Some p \<Rightarrow> detect fs c p)"

fun project_search ::
  "file_system \<Rightarrow> process_info list \<Rightarrow> nat \<Rightarrow> pid \<Rightarrow> project_cache \<Rightarrow> project option \<times> project_cache" where
  "project_search fs ps 0 k c = (None, c)"
| "project_search fs ps (Suc n) k c =
    (case by_pid ps k of
       None \<Rightarrow> (None, c)
     | Some p \<Rightarrow>
         (case try_detect fs c (map_option to_path (p_cwd p)) of
            (Some prj, c1) \<Rightarrow> (Some prj, c1)
          | (None, c1) \<Rightarrow>
              (case try_detect fs c1 (pwd_from_cmd (p_command p)) of
                 (Some prj, c2) \<Rightarrow> (Some prj, c2)
               | (None, c2) \<Rightarrow>
                   (case p_parent p of None \<Rightarrow> (None, c2) | Some q \<Rightarrow> project_search fs ps n q c2))))"

definition project_for ::
  "file_system \<Rightarrow> process_info list \<Rightarrow> pid option \<Rightarrow> project_cache \<Rightarrow> project option \<times> project_cache" where
  "project_for fs ps root c = (case root of None \<Rightarrow> (None, c) | Some k \<Rightarrow> project_search fs ps 64 k c)"

section \<open>Ports\<close>

fun dedup_ports :: "listening_port list \<Rightarrow> listening_port list" where
  "dedup_ports (p # q # ps) = (if lp_port p = lp_port q then dedup_ports (p # ps) else p # dedup_ports (q # ps))"
| "dedup_ports ps = ps"

definition merge_ports :: "listening_port list \<Rightarrow> listening_port list \<Rightarrow> listening_port list" where
  "merge_ports acc ps = foldl (\<lambda>acc p. if list_ex (\<lambda>x. lp_port x = lp_port p) acc then acc else acc @ [p]) acc ps"

definition settle_ports :: "listening_port list \<Rightarrow> listening_port list" where
  "settle_ports ps = dedup_ports (sort_key (\<lambda>p. unat (lp_port p)) ps)"

fun attach_one ::
  "file_system \<Rightarrow> process_info list \<Rightarrow> listening_port list \<Rightarrow> runtime_item \<Rightarrow> project_cache
     \<Rightarrow> runtime_item \<times> project_cache"
and attach_kids ::
  "file_system \<Rightarrow> process_info list \<Rightarrow> listening_port list \<Rightarrow> runtime_item list \<Rightarrow> project_cache
     \<Rightarrow> project option \<Rightarrow> listening_port list
     \<Rightarrow> runtime_item list \<times> project_cache \<times> project option \<times> listening_port list"
where
  "attach_one fs ps ports (RuntimeItem c n rt ids m st su po pj ch) cache =
    (let own = filter (\<lambda>p. lp_pid p \<in> set ids) ports;
         (prj, cache1) = project_for fs ps rt cache;
         (ch', cache2, prj', ports') = attach_kids fs ps ports ch cache1 prj own
     in (RuntimeItem c n rt ids m st su (settle_ports ports') prj' ch', cache2))"
| "attach_kids fs ps ports [] cache prj acc = ([], cache, prj, acc)"
| "attach_kids fs ps ports (i # is) cache prj acc =
    (let (i', cache1) = attach_one fs ps ports i cache;
         prj1 = (case prj of None \<Rightarrow> ri_project i' | Some x \<Rightarrow> Some x);
         (is', cache2, prj2, acc2) = attach_kids fs ps ports is cache1 prj1 (merge_ports acc (ri_ports i'))
     in (i' # is', cache2, prj2, acc2))"

fun promote_listeners :: "process_info list \<Rightarrow> runtime_item \<Rightarrow> runtime_item" where
  "promote_listeners ps (RuntimeItem c n rt ids m st su po pj ch) =
    (let ch' = map (promote_listeners ps) ch in
     if po = [] \<or> c \<noteq> UnknownDev then RuntimeItem c n rt ids m st su po pj ch'
     else
       (let n' = (case root_proc ps rt of
                    None \<Rightarrow> n
                  | Some p \<Rightarrow>
                      if is_vite (proc_hay p) (to_ascii_lowercase (p_name p)) (argv0_base p) then ''vite'' else n)
        in RuntimeItem DevServer n' rt ids m st su po pj ch'))"

fun collect_pids :: "runtime_item \<Rightarrow> pid list" where
  "collect_pids (RuntimeItem c n rt ids m st su po pj ch) = ids @ concat (map collect_pids ch)"

definition runtime_guess :: "process_info \<Rightarrow> proc_class option" where
  "runtime_guess p =
    (let name = to_ascii_lowercase (p_name p) in
     if name \<in> {''node'', ''nodejs'', ''bun'', ''deno'', ''python'', ''python3'', ''php'', ''ruby''}
     then Some (dev UnknownDev name) else None)"

definition orphan_item ::
  "file_system \<Rightarrow> process_info list \<Rightarrow> listening_port list \<Rightarrow> pid \<Rightarrow> process_info \<Rightarrow> proc_class
     \<Rightarrow> project_cache \<Rightarrow> runtime_item \<times> project_cache" where
  "orphan_item fs ps listen k p c cache =
    (let (prj, cache') = project_for fs ps (Some k) cache
     in (promote_listeners ps
           (RuntimeItem (cl_category c) (cl_display c) (Some k) [k] (p_memory p) Active None listen prj []),
         cache'))"

text \<open>The listeners are visited in the order of a hash map: the list of pids is an argument.\<close>

fun adopt_loop ::
  "signature_config list \<Rightarrow> file_system \<Rightarrow> process_info list \<Rightarrow> listening_port list \<Rightarrow> pid set
     \<Rightarrow> pid list \<Rightarrow> runtime_item list \<Rightarrow> project_cache \<Rightarrow> runtime_item list \<times> project_cache" where
  "adopt_loop sigs fs ps ports seen [] items cache = (items, cache)"
| "adopt_loop sigs fs ps ports seen (k # ks) items cache =
    (if k \<in> seen then adopt_loop sigs fs ps ports seen ks items cache
     else
       (case by_pid ps k of
          None \<Rightarrow> adopt_loop sigs fs ps ports seen ks items cache
        | Some p \<Rightarrow>
            (case orelse (classify sigs p) (runtime_guess p) of
               None \<Rightarrow> adopt_loop sigs fs ps ports seen ks items cache
             | Some c \<Rightarrow>
                 if cl_category c = Browser then adopt_loop sigs fs ps ports seen ks items cache
                 else
                   (let (i, cache') = orphan_item fs ps (filter (\<lambda>l. lp_pid l = k) ports) k p c cache
                    in adopt_loop sigs fs ps ports seen ks (items @ [i]) cache'))))"

definition adopt_port_orphans ::
  "signature_config list \<Rightarrow> file_system \<Rightarrow> process_info list \<Rightarrow> listening_port list \<Rightarrow> pid list
     \<Rightarrow> runtime_item list \<Rightarrow> project_cache \<Rightarrow> runtime_item list \<times> project_cache" where
  "adopt_port_orphans sigs fs ps ports order items cache =
    adopt_loop sigs fs ps ports (set (concat (map collect_pids items))) order items cache"

fun attach_all ::
  "file_system \<Rightarrow> process_info list \<Rightarrow> listening_port list \<Rightarrow> runtime_item list \<Rightarrow> project_cache
     \<Rightarrow> runtime_item list \<times> project_cache" where
  "attach_all fs ps ports [] cache = ([], cache)"
| "attach_all fs ps ports (i # is) cache =
    (let (i', cache1) = attach_one fs ps ports i cache;
         (is', cache2) = attach_all fs ps ports is cache1
     in (i' # is', cache2))"

definition attach ::
  "signature_config list \<Rightarrow> file_system \<Rightarrow> process_info list \<Rightarrow> listening_port list \<Rightarrow> pid list
     \<Rightarrow> runtime_item list \<Rightarrow> project_cache \<Rightarrow> runtime_item list \<times> project_cache" where
  "attach sigs fs ps ports order items cache =
    (let (items1, cache1) = attach_all fs ps ports items cache
     in adopt_port_orphans sigs fs ps ports order (map (promote_listeners ps) items1) cache1)"

definition short_path :: "string option \<Rightarrow> string \<Rightarrow> string" where
  "short_path home s =
    (case home of
       None \<Rightarrow> s
     | Some h \<Rightarrow>
         (let hc = to_path h; pc = to_path s in
          if take (length hc) pc = hc
          then (if drop (length hc) pc = [] then ''~'' else ''~/'' @ show_path (drop (length hc) pc))
          else s))"

section \<open>Detection\<close>

text \<open>A directory and those above it.\<close>

function chain :: "path \<Rightarrow> path list" where
  "chain p = p # (case path_parent p of None \<Rightarrow> [] | Some q \<Rightarrow> chain q)"
  by pat_completeness auto
termination
  by (relation "measure length") (auto simp: path_parent_def split: if_splits)

declare detect_loop.simps [simp del] chain.simps [simp del]

definition pinned :: "file_system \<Rightarrow> project_cache \<Rightarrow> path \<Rightarrow> bool" where
  "pinned fs c d \<longleftrightarrow> has_git fs d \<or> under_configured_root (pc_roots c) d"

lemma foldl_upd: "foldl (\<lambda>m d. m(d \<mapsto> r)) m ds x = (if x \<in> set ds then Some r else m x)"
  by (induction ds arbitrary: m) auto

lemma remember_get [simp]: "pc_dirs (remember_dirs ds r c) x = (if x \<in> set ds then Some r else pc_dirs c x)"
  by (simp add: remember_dirs_def foldl_upd)

lemma remember_roots [simp]: "pc_roots (remember_dirs ds r c) = pc_roots c"
  by (simp add: remember_dirs_def)

lemma root_in_chain: "p \<noteq> [] \<Longrightarrow> hd p = ''/'' \<Longrightarrow> [''/''] \<in> set (chain p)"
proof (induction p rule: chain.induct)
  case (1 p)
  show ?case
  proof (cases "p = [''/'']")
    case False
    then have q: "path_parent p = Some (butlast p)" using 1(2) by (simp add: path_parent_def)
    have "butlast p \<noteq> []" using False 1(2,3) by (cases p) auto
    moreover have "hd (butlast p) = ''/''" using calculation 1(3) by (cases p) auto
    ultimately have "[''/''] \<in> set (chain (butlast p))" using 1(1)[OF q] by blast
    then show ?thesis by (subst chain.simps) (simp add: q)
  qed (subst chain.simps, simp)
qed

lemma detect_fresh:
  assumes "\<forall>d\<in>set (chain cur). pc_dirs c d = None \<and> \<not> pinned fs c d"
  shows "detect_loop fs c walked cur =
    (let r = map_option project_at (find (has_marker fs) (walked @ chain cur))
     in (r, remember_dirs (walked @ chain cur) r c))"
  using assms
proof (induction fs c walked cur rule: detect_loop.induct)
  case (1 fs c walked cur)
  have here: "pc_dirs c cur = None" "\<not> has_git fs cur" "\<not> under_configured_root (pc_roots c) cur"
    using 1(2) by (subst (asm) chain.simps, simp add: pinned_def)+
  show ?case
  proof (cases "path_parent cur")
    case None
    then show ?thesis using here by (subst detect_loop.simps, subst (1 2) chain.simps) (simp add: Let_def)
  next
    case (Some q)
    have "\<forall>d\<in>set (chain q). pc_dirs c d = None \<and> \<not> pinned fs c d"
      using 1(2) by (subst (asm) chain.simps) (simp add: Some)
    then have "detect_loop fs c (walked @ [cur]) q =
      (let r = map_option project_at (find (has_marker fs) ((walked @ [cur]) @ chain q))
       in (r, remember_dirs ((walked @ [cur]) @ chain q) r c))"
      using 1(1) here Some by simp
    then show ?thesis using here Some
      by (subst detect_loop.simps, subst (1 2) chain.simps) (simp add: Let_def)
  qed
qed

lemma detect_cached:
  assumes "\<forall>d\<in>set (chain cur). \<not> pinned fs c d \<and> (pc_dirs c d = None \<or> pc_dirs c d = Some r)"
    and "\<exists>d\<in>set (chain cur). pc_dirs c d \<noteq> None"
  shows "fst (detect_loop fs c walked cur) = r"
  using assms
proof (induction fs c walked cur rule: detect_loop.induct)
  case (1 fs c walked cur)
  have here: "\<not> has_git fs cur" "\<not> under_configured_root (pc_roots c) cur"
    "pc_dirs c cur = None \<or> pc_dirs c cur = Some r"
    using 1(2) by (subst (asm) chain.simps, simp add: pinned_def)+
  show ?case
  proof (cases "pc_dirs c cur")
    case (Some x)
    then show ?thesis using here by (subst detect_loop.simps) auto
  next
    case None
    have "set (chain cur) = {cur}" if "path_parent cur = None" using that by (subst chain.simps) simp
    then have "path_parent cur \<noteq> None" using 1(3) None by fastforce
    then obtain q where q: "path_parent cur = Some q" by blast
    have "\<forall>d\<in>set (chain q). \<not> pinned fs c d \<and> (pc_dirs c d = None \<or> pc_dirs c d = Some r)"
      using 1(2) by (subst (asm) chain.simps) (simp add: q)
    moreover have "\<exists>d\<in>set (chain q). pc_dirs c d \<noteq> None"
      using 1(3) None by (subst (asm) chain.simps) (simp add: q)
    ultimately show ?thesis using 1(1)[OF None _ refl q] here None q by (subst detect_loop.simps) simp
  qed
qed

text \<open>Without a repository, the directory with a marker closest to the start is its project.  But the
  answer, found or not, is remembered for every directory up to the root of the file system, so every
  other absolute directory outside a repository gets the same answer afterwards, even one with a marker
  of its own.\<close>

theorem first_answer_is_everyones:
  assumes "pc_dirs c = Map.empty"
    and "\<forall>p\<in>set (chain (normalize_path fs d)) \<union> set (chain (normalize_path fs e)). \<not> pinned fs c p"
    and "normalize_path fs d \<noteq> [] \<and> hd (normalize_path fs d) = ''/''" "normalize_path fs e \<noteq> [] \<and> hd (normalize_path fs e) = ''/''"
  shows "fst (detect fs c d) = map_option project_at (find (has_marker fs) (chain (normalize_path fs d)))
    \<and> fst (detect fs (snd (detect fs c d)) e) = fst (detect fs c d)"
proof -
  let ?D = "normalize_path fs d"
  define r where "r = map_option project_at (find (has_marker fs) (chain ?D))"
  let ?c = "remember_dirs (chain ?D) r c"
  have d: "detect fs c d = (r, ?c)"
    using detect_fresh[of ?D c fs "[]"] assms(1,2) by (simp add: detect_def Let_def r_def)
  have "[''/''] \<in> set (chain ?D)" "[''/''] \<in> set (chain (normalize_path fs e))"
    using root_in_chain assms(3,4) by blast+
  then have "\<exists>p\<in>set (chain (normalize_path fs e)). pc_dirs ?c p \<noteq> None" by (intro bexI[of _ "[''/'']"]) simp_all
  moreover have "\<forall>p\<in>set (chain (normalize_path fs e)). \<not> pinned fs ?c p \<and> (pc_dirs ?c p = None \<or> pc_dirs ?c p = Some r)"
    using assms(1,2) by (simp add: pinned_def)
  ultimately have "fst (detect_loop fs ?c [] (normalize_path fs e)) = r" by (rule detect_cached[rotated])
  then have "fst (detect fs ?c e) = r" by (simp add: detect_def)
  then show ?thesis by (simp add: d r_def[symmetric])
qed

definition two_dirs :: file_system where
  "two_dirs = \<lparr>fs_exists = (\<lambda>p. p = [''/'', ''a'', ''package.json''] \<or> p = [''/'', ''b'', ''go.mod'']),
     fs_canonical = (\<lambda>p. Some p)\<rparr>"

theorem first_answer_is_everyones_witness:
  "fst (detect two_dirs (cache_with_roots two_dirs []) [''/'', ''b'']) = Some \<lparr>pr_root = ''/b'', pr_name = ''b''\<rparr>
   \<and> fst (detect two_dirs (snd (detect two_dirs (cache_with_roots two_dirs []) [''/'', ''a''])) [''/'', ''b''])
      = Some \<lparr>pr_root = ''/a'', pr_name = ''a''\<rparr>"
proof -
  let ?c = "cache_with_roots two_dirs []"
  have n: "normalize_path two_dirs p = p" for p by (simp add: normalize_path_def two_dirs_def)
  have ch: "chain [''/'', x] = [[''/'', x], [''/'']]" for x
    by (subst chain.simps, simp add: path_parent_def, subst chain.simps, simp add: path_parent_def)
  have un: "\<not> pinned two_dirs ?c p" for p
    by (auto simp: pinned_def has_git_def two_dirs_def cache_with_roots_def under_configured_root_def
        split: option.splits)
  have e: "pc_dirs ?c = Map.empty" by (simp add: cache_with_roots_def)
  have "find (has_marker two_dirs) (chain [''/'', ''b'']) = Some [''/'', ''b'']"
    by (simp add: ch has_marker_def MARKERS_def two_dirs_def)
  then have "fst (detect two_dirs ?c [''/'', ''b'']) = Some (project_at [''/'', ''b''])"
    using detect_fresh[of "[''/'', ''b'']" ?c two_dirs "[]"] un e
    by (simp add: detect_def n Let_def)
  moreover have "find (has_marker two_dirs) (chain [''/'', ''a'']) = Some [''/'', ''a'']"
    by (simp add: ch has_marker_def MARKERS_def two_dirs_def)
  then have "fst (detect two_dirs (snd (detect two_dirs ?c [''/'', ''a''])) [''/'', ''b''])
      = Some (project_at [''/'', ''a''])"
    using first_answer_is_everyones[of ?c two_dirs "[''/'', ''a'']" "[''/'', ''b'']"] un e
    by (simp add: n)
  ultimately show ?thesis by (simp add: project_at_def path_name_def show_path_def)
qed

end
