(* ===== verification/Collect.thy ===== *)
theory Collect
  imports Ownership_Store_Props Project
begin

text \<open>
  The collector (\<open>src/collect.rs\<close>): one snapshot of the machine, the tracker that records what
  it owns, resolves gaps and cleans up once, and the marks for resources whose session has ended.  What
  the scanners return, the clock and the order of unordered database rows are arguments.
\<close>

section \<open>Snapshots\<close>

definition identities :: "process_info list \<Rightarrow> boot_id \<Rightarrow> identities" where
  "identities ps b =
    map_of (rev (List.map_filter (\<lambda>p. map_option (\<lambda>i. (p_pid p, i)) (from_process b p)) ps))"

definition live_identities :: "identities \<Rightarrow> process_identity set" where
  "live_identities ids = ran ids"

record runtime_snapshot =
  sp_items :: "runtime_item list"
  sp_processes :: "process_info list"
  sp_docker :: docker_snapshot
  sp_total_memory :: u64
  sp_used_memory :: u64
  sp_sessions :: "session_info list"
  sp_version :: u64

record scan =
  sc_processes :: "process_info list option"
  sc_ports :: "listening_port list option"
  sc_docker :: docker_snapshot
  sc_used :: u64
  sc_total :: u64

text \<open>A failing scan counts as an empty one.  \<open>None\<close> if grouping does not return.\<close>

definition snapshot_with ::
  "config \<Rightarrow> path list \<Rightarrow> file_system \<Rightarrow> u64 \<Rightarrow> pid list \<Rightarrow> scan \<Rightarrow> runtime_snapshot option" where
  "snapshot_with cfg roots fs now order s =
    (let ps = (case sc_processes s of Some xs \<Rightarrow> xs | None \<Rightarrow> []);
         ports = (case sc_ports s of Some xs \<Rightarrow> xs | None \<Rightarrow> [])
     in map_option
       (\<lambda>items.
         (let attached = fst (attach (cf_signatures cfg) fs ps ports order items (cache_with_roots fs roots))
          in \<lparr>sp_items = mark_items cfg now ps attached, sp_processes = ps, sp_docker = sc_docker s,
              sp_total_memory = sc_total s, sp_used_memory = sc_used s, sp_sessions = [], sp_version = 1\<rparr>))
       (group (cf_signatures cfg) ps))"

section \<open>Attribution\<close>

text \<open>The order in which unordered rows are read.\<close>

record row_order =
  ro_pick :: "int list \<Rightarrow> int"
  ro_candidates :: "candidate_row list \<Rightarrow> candidate_row list"
  ro_evidence :: "evidence_row list \<Rightarrow> evidence_row list"

definition item_pids_rooted :: "runtime_item \<Rightarrow> pid list" where
  "item_pids_rooted i = ri_pids i @ (case ri_root i of None \<Rightarrow> [] | Some k \<Rightarrow> [k])"

text \<open>The explanation of a pid; an error counts as none.\<close>

definition explain_pid :: "row_order \<Rightarrow> identities \<Rightarrow> boot_id \<Rightarrow> own_store \<Rightarrow> pid \<Rightarrow> explanation option" where
  "explain_pid ro ids b st k =
    (case ids k of
       None \<Rightarrow> None
     | Some i \<Rightarrow>
         (case explain_process (ro_pick ro) b (i_pid i) (i_start i) st of Inr (Some x) \<Rightarrow> Some x | _ \<Rightarrow> None))"

definition recorded_owner ::
  "row_order \<Rightarrow> identities \<Rightarrow> boot_id \<Rightarrow> own_store \<Rightarrow> runtime_item \<Rightarrow> explanation option" where
  "recorded_owner ro ids b st i = first_Some (explain_pid ro ids b st) (item_pids_rooted i)"

definition anchor_input ::
  "session_id \<Rightarrow> u64 \<Rightarrow> string option \<Rightarrow> runtime_item \<Rightarrow> process_identity \<Rightarrow> candidate_input" where
  "anchor_input owner start prj i root =
    (let resource_project = map_option pr_root (ri_project i);
         predates = i_start root < start
     in \<lparr>ci_session = owner, ci_anchor = Some PersistedPrevious, ci_anchor_score = Some 75,
         ci_propagate_cap = None,
         ci_exact_cwd = (resource_project \<noteq> None \<and> resource_project = prj),
         ci_same_git_root = False,
         ci_start_delta = (if predates then None else Some (sat_sub (i_start root) start)),
         ci_tool = (ri_category i \<in> {Mcp, Browser, LanguageServer}),
         ci_predates = predates, ci_other_agent = False\<rparr>)"

definition anchored_decision :: "explanation \<Rightarrow> runtime_item \<Rightarrow> process_identity \<Rightarrow> attribution_decision" where
  "anchored_decision x i root =
    resolve rules_v1 [anchor_input (ex_owner x) (sr_started (ex_session x)) (sr_project (ex_session x)) i root]"

definition attribution_here ::
  "row_order \<Rightarrow> identities \<Rightarrow> boot_id \<Rightarrow> u64 \<Rightarrow> runtime_item \<Rightarrow> own_store \<Rightarrow> own_store" where
  "attribution_here ro ids b now i st =
    (if ri_category i = Agent then st
     else
       (case root_identity ids i of
          None \<Rightarrow> st
        | Some root \<Rightarrow>
            (let rid = resource_id_of_root root in
             if (case latest_decision (ro_candidates ro) (ro_evidence ro) rid st of
                   Some d \<Rightarrow> dr_version d = RESOLVER_VERSION | None \<Rightarrow> False) then st
             else
               (case recorded_owner ro ids b st i of
                  None \<Rightarrow> st
                | Some x \<Rightarrow>
                    (case persist_decision rid (anchored_decision x i root) now st of
                       None \<Rightarrow> st | Some st' \<Rightarrow> st')))))"

fun attribution_for ::
  "row_order \<Rightarrow> identities \<Rightarrow> boot_id \<Rightarrow> u64 \<Rightarrow> runtime_item \<Rightarrow> own_store \<Rightarrow> own_store" where
  "attribution_for ro ids b now (RuntimeItem c n rt ps m s su po pj ch) st =
    attribution_here ro ids b now (RuntimeItem c n rt ps m s su po pj ch)
      (fold (attribution_for ro ids b now) ch st)"

section \<open>The tracker\<close>

definition RETENTION_SECS :: u64 where "RETENTION_SECS = 30 * 24 * 3600"

record tracker =
  tr_store :: "own_store option"
  tr_boot :: "boot_id option"
  tr_gc_pending :: bool

definition tracker_new :: "own_store option \<Rightarrow> boot_epoch option \<Rightarrow> boot_id \<Rightarrow> u64 \<Rightarrow> tracker" where
  "tracker_new store e fresh now =
    (case (store, e) of
       (Some st, Some ep) \<Rightarrow>
         (case boot_id_for_epoch fresh ep now st of
            Some (b, st') \<Rightarrow> \<lparr>tr_store = Some st', tr_boot = Some b, tr_gc_pending = True\<rparr>
          | None \<Rightarrow> \<lparr>tr_store = Some st, tr_boot = None, tr_gc_pending = True\<rparr>)
     | _ \<Rightarrow> \<lparr>tr_store = store, tr_boot = None, tr_gc_pending = True\<rparr>)"

definition record_store ::
  "row_order \<Rightarrow> u64 \<Rightarrow> boot_id \<Rightarrow> bool \<Rightarrow> process_info list \<Rightarrow> runtime_item list \<Rightarrow> own_store \<Rightarrow> own_store" where
  "record_store ro now b gc_pending ps items st =
    (let ids = identities ps b; live = live_identities ids;
         st1 = (case apply_ownership (derive_ownership items ids now) now st of None \<Rightarrow> st | Some s \<Rightarrow> s);
         st2 = end_absent_sessions live now st1;
         st3 = fold (attribution_for ro ids b now) items st2
     in if gc_pending then own_gc RETENTION_SECS now live st3 else st3)"

definition tracker_record ::
  "row_order \<Rightarrow> u64 \<Rightarrow> process_info list \<Rightarrow> runtime_item list \<Rightarrow> tracker \<Rightarrow> tracker" where
  "tracker_record ro now ps items t =
    (case (tr_store t, tr_boot t) of
       (Some st, Some b) \<Rightarrow>
         t\<lparr>tr_store := Some (record_store ro now b (tr_gc_pending t) ps items st), tr_gc_pending := False\<rparr>
     | _ \<Rightarrow> t)"

definition tracker_sessions :: "tracker \<Rightarrow> session_info list" where
  "tracker_sessions t =
    (case tr_store t of
       None \<Rightarrow> []
     | Some st \<Rightarrow>
         map (\<lambda>r. \<lparr>si_id = sr_id r, si_agent = sr_agent r, si_project = sr_project r,
                 si_active = (sr_ended r = None), si_started = sr_started r\<rparr>) (own_sessions st))"

section \<open>Resources of ended sessions\<close>

definition origin_ended :: "row_order \<Rightarrow> identities \<Rightarrow> own_store \<Rightarrow> boot_id \<Rightarrow> pid list \<Rightarrow> bool" where
  "origin_ended ro ids st b pids =
    list_ex (\<lambda>k. case explain_pid ro ids b st k of
                   Some x \<Rightarrow> sr_ended (ex_session x) \<noteq> None | None \<Rightarrow> False) pids"

definition add_session_ended :: "suspicion option \<Rightarrow> suspicion option" where
  "add_session_ended su =
    Some (case su of
       Some s \<Rightarrow>
         if SessionOwnerEnded \<in> set (sus_reasons s) then s
         else s\<lparr>sus_reasons := sus_reasons s @ [SessionOwnerEnded], sus_score := min (sat_add (sus_score s) 30) 100\<rparr>
     | None \<Rightarrow> \<lparr>sus_score = 30, sus_reasons = [SessionOwnerEnded]\<rparr>)"

fun session_leftover_one ::
  "row_order \<Rightarrow> identities \<Rightarrow> own_store \<Rightarrow> boot_id \<Rightarrow> runtime_item \<Rightarrow> runtime_item" where
  "session_leftover_one ro ids st b (RuntimeItem c n rt ps m s su po pj ch) =
    (let ch' = map (session_leftover_one ro ids st b) ch;
         i = RuntimeItem c n rt ps m s su po pj ch'
     in if c = Agent \<or> s = Persistent \<or> \<not> origin_ended ro ids st b (item_pids_rooted i) then i
        else RuntimeItem c n rt ps m Suspicious (add_session_ended su) po pj ch')"

definition apply_session_leftovers ::
  "row_order \<Rightarrow> runtime_item list \<Rightarrow> process_info list \<Rightarrow> own_store \<Rightarrow> boot_id \<Rightarrow> runtime_item list" where
  "apply_session_leftovers ro items ps st b = map (session_leftover_one ro (identities ps b) st b) items"

definition layer_session_leftovers ::
  "row_order \<Rightarrow> tracker \<Rightarrow> runtime_item list \<Rightarrow> process_info list \<Rightarrow> runtime_item list" where
  "layer_session_leftovers ro t items ps =
    (case (tr_store t, tr_boot t) of
       (Some st, Some b) \<Rightarrow> apply_session_leftovers ro items ps st b
     | _ \<Rightarrow> items)"

section \<open>Properties\<close>

lemma attribution_here_reach: "own_reach st \<Longrightarrow> own_reach (attribution_here ro ids b now i st)"
  by (auto simp: attribution_here_def Let_def intro: own_next[OF _ own_decide] split: option.splits)

lemma attribution_here_sessions [simp]: "os_sessions (attribution_here ro ids b now i st) = os_sessions st"
  by (auto simp: attribution_here_def Let_def persist_decision_def dest!: insert_candidates_tables split: option.splits)

lemma fold_keeps:
  "(\<And>x s. x \<in> set xs \<Longrightarrow> P s \<Longrightarrow> P (f x s)) \<Longrightarrow> P s \<Longrightarrow> P (fold f xs s)"
  by (induction xs arbitrary: s) auto

lemma attribution_for_keeps:
  "own_reach st \<and> os_sessions st = ss \<Longrightarrow>
    own_reach (attribution_for ro ids b now i st) \<and> os_sessions (attribution_for ro ids b now i st) = ss"
proof (induction ro ids b now i st arbitrary: ss rule: attribution_for.induct)
  case (1 ro ids b now c n rt ps m s su po pj ch st)
  have "own_reach (fold (attribution_for ro ids b now) ch st) \<and> os_sessions (fold (attribution_for ro ids b now) ch st) = ss"
    by (rule fold_keeps[where P = "\<lambda>st. own_reach st \<and> os_sessions st = ss"]) (use 1 in auto)
  then show ?case by (simp add: attribution_here_reach)
qed

text \<open>C19: One round of recording leaves a consistent store in which a session is active only if its root process
  is alive, whatever failed on the way; what it decided about resources does not touch the sessions.\<close>

theorem recording_ends_the_dead:
  assumes "own_reach st"
  shows "own_reach (record_store ro now b g ps items st)
    \<and> (\<forall>r\<in>set (os_sessions (record_store ro now b g ps items st)). sn_ended r = None \<longrightarrow>
         identity_of_row (sn_boot r) (sn_root_pid r) (sn_root_start r) \<in> live_identities (identities ps b))"
proof -
  define ids where "ids = identities ps b"
  define live where "live = live_identities ids"
  define st1 where "st1 = (case apply_ownership (derive_ownership items ids now) now st of None \<Rightarrow> st | Some s \<Rightarrow> s)"
  define st2 where "st2 = end_absent_sessions live now st1"
  define st3 where "st3 = fold (attribution_for ro ids b now) items st2"
  have "own_reach st1" using assms by (auto simp: st1_def intro: own_next[OF _ own_record] split: option.splits)
  then have r2: "own_reach st2" unfolding st2_def by (rule own_next[OF _ own_end])
  have r3: "own_reach st3 \<and> os_sessions st3 = os_sessions st2" unfolding st3_def
    by (rule fold_keeps[where P = "\<lambda>st. own_reach st \<and> os_sessions st = os_sessions st2"])
      (use r2 attribution_for_keeps in auto)
  have active: "\<forall>r\<in>set (os_sessions st3). sn_ended r = None \<longrightarrow>
      identity_of_row (sn_boot r) (sn_root_pid r) (sn_root_start r) \<in> live"
    using r3 by (auto simp: st2_def end_absent_sessions_def split: if_splits)
  have res: "record_store ro now b g ps items st = (if g then own_gc RETENTION_SECS now live st3 else st3)"
    by (simp add: record_store_def Let_def ids_def live_def st1_def st2_def st3_def)
  have "own_reach (own_gc RETENTION_SECS now live st3)" using r3 own_next[OF _ own_clean] by blast
  then show ?thesis using r3 active unfolding res ids_def[symmetric] live_def[symmetric] by (auto simp: gc_fields(1))
qed

theorem recording_ends_the_dead_witness:
  "own_reach (record_store \<lparr>ro_pick = hd, ro_candidates = (\<lambda>x. x), ro_evidence = (\<lambda>x. x)\<rparr> 5000 (BootId 7) True
     [tiny_proc 9 (Some 6) ''postgres''] [] demo_own)"
  using recording_ends_the_dead[OF demo_own_reach] by blast

text \<open>A resource with recorded provenance is attributed to its recorded session exactly if it did not start
  before that session; support from project, time and tools never changes the verdict, and nothing is
  ever ambiguous.\<close>

theorem attribution_by_provenance:
  "ad_winner (anchored_decision x i root)
     = (if i_start root < sr_started (ex_session x) then None else Some (ex_owner x))
   \<and> ad_verdict (anchored_decision x i root)
     = (if i_start root < sr_started (ex_session x) then Undecided else Owned)"
proof -
  let ?ci = "anchor_input (ex_owner x) (sr_started (ex_session x)) (sr_project (ex_session x)) i root"
  obtain c where c: "candidate_of rules_v1 ?ci = Some c" "ac_session c = ex_owner x"
    "ac_rejected c = (if i_start root < sr_started (ex_session x) then Some PredatesSession else None)"
    "75 \<le> ac_total c"
  proof -
    have t: "75 \<le> min (sat_add (sat_add (sat_add 75 (project_support rules_v1 ?ci)) ts) rs) (100 :: u8)" for ts rs :: u8
      by (simp add: word_le_nat_alt unat_sat_add min_def)
    show ?thesis
      by (rule that[of "the (candidate_of rules_v1 ?ci)"])
        (use t in \<open>simp_all add: candidate_of_def anchor_input_def Let_def\<close>)
  qed
  then have "\<not> ac_total c < 75" by simp
  with c show ?thesis
    by (simp add: anchored_decision_def resolve_def map_filter_simps select_def eligible_def rules_v1_def Let_def)
qed

lemma add_session_ended_idem [simp]: "add_session_ended (add_session_ended su) = add_session_ended su"
  by (cases su) (simp_all add: add_session_ended_def)

lemma item_pids_rooted_simp [simp]:
  "item_pids_rooted (RuntimeItem c n rt ps m s su po pj ch) = ps @ (case rt of None \<Rightarrow> [] | Some k \<Rightarrow> [k])"
  by (simp add: item_pids_rooted_def)

text \<open>Marking what ended sessions left behind can be repeated: the second time changes nothing, so a
  snapshot layered twice shows the same reasons and scores.\<close>

theorem session_marks_idempotent:
  "apply_session_leftovers ro (apply_session_leftovers ro items ps st b) ps st b
    = apply_session_leftovers ro items ps st b"
proof -
  have "session_leftover_one ro ids st b (session_leftover_one ro ids st b i) = session_leftover_one ro ids st b i" for ids i
  proof (induction ro ids st b i rule: session_leftover_one.induct)
    case (1 ro ids st b c n rt ps m s su po pj ch)
    have "map (session_leftover_one ro ids st b) (map (session_leftover_one ro ids st b) ch)
        = map (session_leftover_one ro ids st b) ch" using 1 by simp
    then show ?case by (simp add: Let_def o_def)
  qed
  then show ?thesis by (simp add: apply_session_leftovers_def)
qed

end
