(* ===== verification/Source.thy ===== *)
theory Source
  imports Collect
begin

text \<open>
  What started a process when no session owns it (\<open>src/source.rs\<close>).  The text of
  \<open>/proc/<pid>/cgroup\<close> is an argument; the drawing characters are their UTF-8 bytes.
\<close>

section \<open>Sources\<close>

datatype source_kind = Systemd "string option" | Launchd | Cron | Tmux | Screen | Ssh | Snap | Flatpak
  | InteractiveShell | UnknownSource "string option"

definition source_label :: "source_kind \<Rightarrow> string" where
  "source_label k =
    (case k of
       Systemd u \<Rightarrow> (case u of Some s \<Rightarrow> ''systemd ('' @ s @ '')'' | None \<Rightarrow> ''systemd'')
     | Launchd \<Rightarrow> ''launchd'' | Cron \<Rightarrow> ''cron'' | Tmux \<Rightarrow> ''tmux'' | Screen \<Rightarrow> ''screen'' | Ssh \<Rightarrow> ''ssh''
     | Snap \<Rightarrow> ''snap'' | Flatpak \<Rightarrow> ''flatpak'' | InteractiveShell \<Rightarrow> ''interactive shell''
     | UnknownSource p \<Rightarrow> (case p of Some s \<Rightarrow> ''unknown ('' @ s @ '')'' | None \<Rightarrow> ''unknown''))"

record source_report =
  sr_chain :: "process_info list"
  sr_source :: source_kind

definition sandbox_marker :: "process_info \<Rightarrow> source_kind option" where
  "sandbox_marker p =
    (case p_executable p of
       None \<Rightarrow> None
     | Some e \<Rightarrow>
         (let exe = to_ascii_lowercase e in
          if starts_with exe ''/snap/'' then Some Snap
          else if starts_with exe ''/app/'' then Some Flatpak else None))"

definition supervisor_marker :: "process_info \<Rightarrow> source_kind option" where
  "supervisor_marker p =
    (case sandbox_marker p of
       Some k \<Rightarrow> Some k
     | None \<Rightarrow>
         (let name = to_ascii_lowercase (p_name p) in
          if name = ''sshd'' then Some Ssh
          else if name = ''tmux'' \<or> starts_with name ''tmux:'' then Some Tmux
          else if name = ''screen'' \<or> starts_with name ''screen-'' then Some Screen
          else if name = ''cron'' \<or> name = ''crond'' \<or> name = ''anacron'' then Some Cron
          else None))"

definition is_shell :: "string \<Rightarrow> bool" where
  "is_shell n = (n \<in> {''bash'', ''zsh'', ''sh'', ''dash'', ''fish'', ''ksh'', ''csh'', ''tcsh'', ''nu'', ''pwsh'', ''powershell''})"

definition shell_marker :: "process_info \<Rightarrow> source_kind option" where
  "shell_marker p =
    (if is_shell (to_ascii_lowercase (p_name p)) \<and> p_tty p \<noteq> None then Some InteractiveShell else None)"

definition pid1_of :: "process_info \<Rightarrow> source_kind" where
  "pid1_of p =
    (let n = to_ascii_lowercase (p_name p) in
     if n = ''systemd'' then Systemd None else if n = ''launchd'' then Launchd else UnknownSource (Some n))"

section \<open>The unit of a process\<close>

text \<open>\<open>str::lines\<close>: a final line end does not start another line, a carriage return before one is dropped.\<close>

definition strip_cr :: "string \<Rightarrow> string" where
  "strip_cr s = (case rev s of c # r \<Rightarrow> if c = CHR 0x0D then rev r else s | [] \<Rightarrow> s)"

definition lines_of :: "string \<Rightarrow> string list" where
  "lines_of s =
    (let ls = split_on (CHR 0x0A) s
     in if last ls = [] then map strip_cr (butlast ls) else map strip_cr (butlast ls) @ [last ls])"

definition is_unit :: "string \<Rightarrow> bool" where
  "is_unit s \<longleftrightarrow> ends_with s ''.service'' \<or> ends_with s ''.scope'' \<or> ends_with s ''.socket'' \<or> ends_with s ''.timer''"

definition unit_from_cgroup :: "string \<Rightarrow> string option" where
  "unit_from_cgroup text =
    (let segs = filter (\<lambda>s. s \<noteq> [])
                  (concat (map (\<lambda>l. split_on (CHR ''/'') (last (split_on (CHR '':'') l))) (lines_of text)))
     in orelse (find is_unit (rev segs)) (find (\<lambda>s. ends_with s ''.slice'') (rev segs)))"

definition systemd_unit_for :: "(pid \<Rightarrow> string option) \<Rightarrow> pid \<Rightarrow> string option" where
  "systemd_unit_for cgroup_text k = Option.bind (cgroup_text k) unit_from_cgroup"

section \<open>Ancestry\<close>

text \<open>Nearest first, up to pid 1, a visible process each time, never twice the same.\<close>

function chain_from :: "process_info list \<Rightarrow> pid set \<Rightarrow> pid option \<Rightarrow> process_info list" where
  "chain_from ps seen cur =
    (case cur of
       None \<Rightarrow> []
     | Some k \<Rightarrow>
         if k \<in> seen then []
         else
           (case by_pid ps k of
              None \<Rightarrow> []
            | Some p \<Rightarrow> p # (if k = 1 then [] else chain_from ps (insert k seen) (p_parent p))))"
  by pat_completeness auto
termination
proof (relation "measure (\<lambda>(ps, seen, cur). card (p_pid ` set ps - seen))")
  fix ps :: "process_info list" and seen :: "pid set" and cur k p
  assume "cur = Some k" "k \<notin> seen" "by_pid ps k = Some p" "k \<noteq> 1"
  then have "p_pid ` set ps - insert k seen \<subset> p_pid ` set ps - seen" using by_pid_Some by fastforce
  then show "((ps, insert k seen, p_parent p), ps, seen, cur) \<in> measure (\<lambda>(ps, seen, cur). card (p_pid ` set ps - seen))"
    by (simp add: psubset_card_mono)
qed simp

declare chain_from.simps [simp del]

definition chain_up :: "process_info list \<Rightarrow> pid \<Rightarrow> process_info list" where
  "chain_up ps k = chain_from ps {} (Option.bind (by_pid ps k) p_parent)"

definition detect_source :: "(pid \<Rightarrow> string option) \<Rightarrow> process_info list \<Rightarrow> pid \<Rightarrow> source_report" where
  "detect_source cgroup_text ps k =
    (let chain = chain_up ps k;
         found = orelse (Option.bind (by_pid ps k) sandbox_marker)
                (orelse (first_Some supervisor_marker chain)
                (orelse (first_Some shell_marker chain)
                        (map_option pid1_of (find (\<lambda>p. p_pid p = 1) chain))));
         source = (case found of Some s \<Rightarrow> s | None \<Rightarrow> UnknownSource None)
     in \<lparr>sr_chain = rev chain,
         sr_source = (case source of
             Systemd u \<Rightarrow> Systemd (orelse (systemd_unit_for cgroup_text k)
                               (first_Some (\<lambda>p. systemd_unit_for cgroup_text (p_pid p)) (rev chain)))
           | other \<Rightarrow> other)\<rparr>)"

section \<open>The tree of a process\<close>

definition CHILD_CAP :: nat where "CHILD_CAP = 10"

definition utf8 :: "nat list \<Rightarrow> string" where "utf8 bs = map char_of bs"

definition branch_end :: string where "branch_end = utf8 [0xE2, 0x94, 0x94, 0xE2, 0x94, 0x80] @ '' ''"

definition branch_mid :: string where "branch_mid = utf8 [0xE2, 0x94, 0x9C, 0xE2, 0x94, 0x80] @ '' ''"

definition newline :: string where "newline = [CHR 0x0A]"

definition tree_label :: "process_info \<Rightarrow> string" where
  "tree_label p = p_name p @ '' ('' @ show_nat (unat (p_pid p)) @ '')''"

definition spaces :: "nat \<Rightarrow> string" where "spaces n = concat (replicate n ''   '')"

definition tree_prefix :: "nat \<Rightarrow> string" where
  "tree_prefix i = (if i = 0 then [] else spaces (i - 1) @ branch_end)"

definition render_tree :: "pid \<Rightarrow> process_info list \<Rightarrow> string" where
  "render_tree k ps =
    (let chain = rev (chain_up ps k);
         children = sort_key (\<lambda>p. unat (p_pid p)) (filter (\<lambda>p. p_parent p = Some k) ps);
         depth = length chain;
         total = length children;
         target = (case by_pid ps k of Some p \<Rightarrow> tree_label p | None \<Rightarrow> ''pid '' @ show_nat (unat k))
     in concat (map (\<lambda>(i, p). tree_prefix i @ tree_label p @ newline) (zip [0..<depth] chain))
        @ tree_prefix depth @ target @ '' '' @ utf8 [0xE2, 0x97, 0x80] @ newline
        @ concat (map (\<lambda>(j, c). spaces depth
                        @ (if total \<le> CHILD_CAP \<and> j + 1 = total then branch_end else branch_mid)
                        @ tree_label c @ newline) (zip [0..<total] (take CHILD_CAP children)))
        @ (if total > CHILD_CAP
           then spaces depth @ branch_end @ utf8 [0xE2, 0x80, 0xA6] @ '' (+'' @ show_nat (total - CHILD_CAP) @ '' more)'' @ newline
           else []))"

section \<open>The chain is the ancestry\<close>

fun linked :: "pid option \<Rightarrow> process_info list \<Rightarrow> bool" where
  "linked up [] = True"
| "linked up (p # ps) \<longleftrightarrow> up = Some (p_pid p) \<and> linked (p_parent p) ps"

lemma chain_from_props:
  "linked cur (chain_from ps seen cur) \<and> distinct (map p_pid (chain_from ps seen cur))
    \<and> set (chain_from ps seen cur) \<subseteq> set ps \<and> p_pid ` set (chain_from ps seen cur) \<inter> seen = {}"
proof (induction ps seen cur rule: chain_from.induct)
  case (1 ps seen cur)
  show ?case
  proof (cases "\<exists>k p. cur = Some k \<and> k \<notin> seen \<and> by_pid ps k = Some p")
    case True
    then obtain k p where k: "cur = Some k" "k \<notin> seen" "by_pid ps k = Some p" by blast
    have p: "p \<in> set ps" "p_pid p = k" using by_pid_Some[OF k(3)] by auto
    have e: "chain_from ps seen cur = p # (if k = 1 then [] else chain_from ps (insert k seen) (p_parent p))"
      by (subst chain_from.simps) (simp add: k)
    show ?thesis unfolding e using 1[OF k] p k(1,2) by auto
  next
    case False
    then have "chain_from ps seen cur = []" by (subst chain_from.simps) (auto split: option.splits)
    then show ?thesis by simp
  qed
qed

lemma first_Some_None: "first_Some f xs = None \<longleftrightarrow> (\<forall>x\<in>set xs. f x = None)"
  by (induction xs) (auto split: option.splits)

lemma first_Some_Some: "first_Some f xs = Some y \<Longrightarrow> \<exists>x\<in>set xs. f x = Some y"
  by (induction xs) (auto split: option.splits)

lemma supervisor_not_shell: "supervisor_marker p \<noteq> Some InteractiveShell" "sandbox_marker p \<noteq> Some InteractiveShell"
  by (auto simp: supervisor_marker_def sandbox_marker_def Let_def split: option.splits)


definition shell_snapshot :: "process_info list" where
  "shell_snapshot = [(tiny_proc 6 None ''zsh'')\<lparr>p_tty := Some ''pts/0''\<rparr>, tiny_proc 9 (Some 6) ''vite'']"

lemma shell_chain: "chain_up shell_snapshot 9 = [(tiny_proc 6 None ''zsh'')\<lparr>p_tty := Some ''pts/0''\<rparr>]"
  unfolding chain_up_def
  by (simp add: shell_snapshot_def by_pid_def tiny_proc_def, subst chain_from.simps,
      simp add: by_pid_def, subst chain_from.simps, simp)


end
