(* ===== verification/Json.thy ===== *)
theory Json
  imports Text "HOL-Library.Monad_Syntax"
begin

text \<open>
  JSON values as the program builds and reads them through \<open>serde_json\<close>: the value type, the
  accessors (\<open>get\<close>, \<open>as_str\<close>, \<open>num_u64\<close>, ...), and the readers of the derived
  deserialisers (a required field, a field that may be missing, a field with a default).  Parsing and
  printing the text are the library's: they are arguments where a component uses them.  A number that is
  not an integer keeps its text.  A struct is read from an object; the positional arrays that the library
  accepts as well, and that nothing in the program writes, are left out.
\<close>

section \<open>Values\<close>

datatype json = JNull | JBool bool | JInt int | JFloat string | JStr string | JArr "json list"
  | JObj "(string \<times> json) list"

text \<open>An integer is in the range of \<open>u64\<close> or \<open>i64\<close>; the parser delivers no other.\<close>

fun field_of :: "string \<Rightarrow> (string \<times> json) list \<Rightarrow> json option" where
  "field_of k [] = None"
| "field_of k ((k', v) # fs) = (if k = k' then Some v else field_of k fs)"

definition json_get :: "string \<Rightarrow> json \<Rightarrow> json option" where
  "json_get k j = (case j of JObj fs \<Rightarrow> field_of k fs | _ \<Rightarrow> None)"

definition as_str :: "json \<Rightarrow> string option" where
  "as_str j = (case j of JStr s \<Rightarrow> Some s | _ \<Rightarrow> None)"

definition as_bool :: "json \<Rightarrow> bool option" where
  "as_bool j = (case j of JBool b \<Rightarrow> Some b | _ \<Rightarrow> None)"

definition num_u64 :: "json \<Rightarrow> u64 option" where
  "num_u64 j = (case j of JInt i \<Rightarrow> if 0 \<le> i \<and> i < 2 ^ 64 then Some (word_of_int i) else None | _ \<Rightarrow> None)"

definition num_i64 :: "json \<Rightarrow> int option" where
  "num_i64 j = (case j of JInt i \<Rightarrow> if - (2 ^ 63) \<le> i \<and> i < 2 ^ 63 then Some i else None | _ \<Rightarrow> None)"

definition get_str :: "string \<Rightarrow> json \<Rightarrow> string option" where
  "get_str k j = Option.bind (json_get k j) as_str"

definition get_u64 :: "string \<Rightarrow> json \<Rightarrow> u64 option" where
  "get_u64 k j = Option.bind (json_get k j) num_u64"

definition or_default :: "'a \<Rightarrow> 'a option \<Rightarrow> 'a" where
  "or_default d x = (case x of Some y \<Rightarrow> y | None \<Rightarrow> d)"

section \<open>Writers\<close>

definition j_u :: "'a::len word \<Rightarrow> json" where "j_u w = JInt (uint w)"

definition j_nat :: "nat \<Rightarrow> json" where "j_nat n = JInt (int n)"

definition j_opt :: "('a \<Rightarrow> json) \<Rightarrow> 'a option \<Rightarrow> json" where
  "j_opt f x = (case x of Some y \<Rightarrow> f y | None \<Rightarrow> JNull)"

definition j_list :: "('a \<Rightarrow> json) \<Rightarrow> 'a list \<Rightarrow> json" where "j_list f xs = JArr (map f xs)"

text \<open>\<open>skip_serializing_if\<close>: the field is left out.\<close>

definition opt_field :: "string \<Rightarrow> ('a \<Rightarrow> json) \<Rightarrow> 'a option \<Rightarrow> (string \<times> json) list" where
  "opt_field k f x = (case x of Some y \<Rightarrow> [(k, f y)] | None \<Rightarrow> [])"

section \<open>Readers\<close>

definition read_uint :: "nat \<Rightarrow> json \<Rightarrow> int option" where
  "read_uint w j = (case j of JInt i \<Rightarrow> if 0 \<le> i \<and> i < 2 ^ w then Some i else None | _ \<Rightarrow> None)"

definition read_sint :: "nat \<Rightarrow> json \<Rightarrow> int option" where
  "read_sint w j =
    (case j of JInt i \<Rightarrow> if - (2 ^ (w - 1)) \<le> i \<and> i < 2 ^ (w - 1) then Some i else None | _ \<Rightarrow> None)"

definition read_u64 :: "json \<Rightarrow> u64 option" where "read_u64 j = map_option word_of_int (read_uint 64 j)"
definition read_u32 :: "json \<Rightarrow> u32 option" where "read_u32 j = map_option word_of_int (read_uint 32 j)"
definition read_usize :: "json \<Rightarrow> nat option" where "read_usize j = map_option nat (read_uint 64 j)"

definition read_opt :: "(json \<Rightarrow> 'a option) \<Rightarrow> json \<Rightarrow> 'a option option" where
  "read_opt d j = (if j = JNull then Some None else map_option Some (d j))"

fun read_each :: "(json \<Rightarrow> 'a option) \<Rightarrow> json list \<Rightarrow> 'a list option" where
  "read_each d [] = Some []"
| "read_each d (j # js) = do { x \<leftarrow> d j; xs \<leftarrow> read_each d js; Some (x # xs) }"

definition read_list :: "(json \<Rightarrow> 'a option) \<Rightarrow> json \<Rightarrow> 'a list option" where
  "read_list d j = (case j of JArr js \<Rightarrow> read_each d js | _ \<Rightarrow> None)"

text \<open>A struct is read from an object: a required field, one that may be missing, one with a default.\<close>

definition need :: "string \<Rightarrow> (json \<Rightarrow> 'a option) \<Rightarrow> json \<Rightarrow> 'a option" where
  "need k d j = Option.bind (json_get k j) d"

definition may_val :: "(json \<Rightarrow> 'a option) \<Rightarrow> json option \<Rightarrow> 'a option option" where
  "may_val d v = (case v of None \<Rightarrow> Some None | Some j \<Rightarrow> read_opt d j)"

definition may :: "string \<Rightarrow> (json \<Rightarrow> 'a option) \<Rightarrow> json \<Rightarrow> 'a option option" where
  "may k d j = may_val d (json_get k j)"

definition dflt :: "string \<Rightarrow> 'a \<Rightarrow> (json \<Rightarrow> 'a option) \<Rightarrow> json \<Rightarrow> 'a option" where
  "dflt k x d j = (case json_get k j of None \<Rightarrow> Some x | Some v \<Rightarrow> d v)"

definition is_obj :: "json \<Rightarrow> bool" where "is_obj j = (case j of JObj _ \<Rightarrow> True | _ \<Rightarrow> False)"

definition read_struct :: "(json \<Rightarrow> 'a option) \<Rightarrow> json \<Rightarrow> 'a option" where
  "read_struct d j = (if is_obj j then d j else None)"

text \<open>The name of a variant without data: a string, or an object with that one field and null in it.\<close>

definition variant_name :: "json \<Rightarrow> string option" where
  "variant_name j =
    (case j of JStr s \<Rightarrow> Some s | JObj [(k, v)] \<Rightarrow> if v = JNull then Some k else None | _ \<Rightarrow> None)"

section \<open>What was written is read back\<close>

named_theorems wire "readers applied to what the writers produce"

lemma get_obj [wire]: "json_get k (JObj fs) = field_of k fs" by (simp add: json_get_def)

definition found_or :: "'a option \<Rightarrow> 'a option \<Rightarrow> 'a option" where
  "found_or x y = (case x of None \<Rightarrow> y | Some _ \<Rightarrow> x)"

lemma found_or_None [wire]: "found_or x None = x" by (cases x) (simp_all add: found_or_def)

lemma field_of_skip [wire]:
  "field_of k' (opt_field k f x @ fs) =
    (if k' = k then found_or (map_option f x) (field_of k' fs) else field_of k' fs)"
  by (cases x) (auto simp: opt_field_def found_or_def)

lemma field_of_skip_last [wire]: "field_of k' (opt_field k f x) = (if k' = k then map_option f x else None)"
  by (cases x) (auto simp: opt_field_def)

lemma u64_back [simp, wire]: "read_u64 (j_u (w :: u64)) = Some w"
  using uint_lt2p[of w] uint_nonnegative[of w] by (simp add: read_u64_def read_uint_def j_u_def)

lemma u32_back [simp, wire]: "read_u32 (j_u (w :: u32)) = Some w"
  using uint_lt2p[of w] uint_nonnegative[of w] by (simp add: read_u32_def read_uint_def j_u_def)

lemma usize_back [simp, wire]: "n < 2 ^ 64 \<Longrightarrow> read_usize (j_nat n) = Some n"
proof -
  assume "n < 2 ^ 64"
  then have "int n < 2 ^ 64" by (metis of_nat_less_iff of_nat_numeral of_nat_power)
  then show ?thesis by (simp add: read_usize_def read_uint_def j_nat_def)
qed

lemma num_u64_back [simp, wire]: "num_u64 (j_u (w :: u64)) = Some w"
  using uint_lt2p[of w] uint_nonnegative[of w] by (simp add: num_u64_def j_u_def)

lemma str_back [simp, wire]: "as_str (JStr s) = Some s" by (simp add: as_str_def)

lemma variant_back [simp, wire]: "variant_name (JStr s) = Some s" by (simp add: variant_name_def)

lemma bool_back [simp, wire]: "as_bool (JBool b) = Some b" by (simp add: as_bool_def)

lemma sint_back [wire]:
  "- (2 ^ (w - 1)) \<le> i \<Longrightarrow> i < 2 ^ (w - 1) \<Longrightarrow> read_sint w (JInt i) = Some i"
  by (simp add: read_sint_def)

lemma not_null [simp, wire]: "j_u w \<noteq> JNull" "j_nat n \<noteq> JNull" by (simp_all add: j_u_def j_nat_def)

lemma opt_back: "(\<And>y. x = Some y \<Longrightarrow> f y \<noteq> JNull \<and> d (f y) = Some y) \<Longrightarrow> read_opt d (j_opt f x) = Some x"
  by (cases x) (auto simp: read_opt_def j_opt_def)

lemma each_back: "(\<And>x. x \<in> set xs \<Longrightarrow> d (f x) = Some x) \<Longrightarrow> read_each d (map f xs) = Some xs"
  by (induction xs) auto

lemma list_back: "(\<And>x. x \<in> set xs \<Longrightarrow> d (f x) = Some x) \<Longrightarrow> read_list d (j_list f xs) = Some xs"
  by (simp add: read_list_def j_list_def each_back)

lemma strs_back [simp, wire]: "read_list as_str (j_list JStr xs) = Some xs" by (rule list_back) simp

lemma list_not_null [simp, wire]: "j_list f xs \<noteq> JNull" by (simp add: j_list_def)

text \<open>A field that was left out, or written as null, is read as missing.\<close>

lemma may_skip [wire]:
  "(\<And>y. x = Some y \<Longrightarrow> f y \<noteq> JNull \<and> d (f y) = Some y) \<Longrightarrow> may_val d (map_option f x) = Some x"
  by (cases x) (auto simp: may_val_def read_opt_def)

lemma may_null [wire]:
  "(\<And>y. x = Some y \<Longrightarrow> f y \<noteq> JNull \<and> d (f y) = Some y) \<Longrightarrow> may_val d (Some (j_opt f x)) = Some x"
  by (simp add: may_val_def opt_back)

lemmas [wire] = need_def may_def dflt_def

lemma struct_obj [simp, wire]: "read_struct d (JObj fs) = d (JObj fs)" by (simp add: read_struct_def is_obj_def)

end
