(* ===== verification/Wire.thy ===== *)
theory Wire
  imports Json Views
begin

text \<open>
  The JSON forms of the managed-run contract (the \<open>Serialize\<close> and \<open>Deserialize\<close>
  derives of \<open>src/model/run.rs\<close> and of \<open>RunView\<close> in \<open>src/runner/mod.rs\<close>), as the
  socket, the web API and the clients exchange them, and that they read back.
\<close>

section \<open>Enumerations\<close>

definition enforcement_json :: "enforcement \<Rightarrow> json" where
  "enforcement_json e = JStr (case e of EnfNone \<Rightarrow> ''none'' | Monitored \<Rightarrow> ''monitored'' | Hard \<Rightarrow> ''hard'')"

definition read_enforcement :: "json \<Rightarrow> enforcement option" where
  "read_enforcement j =
    (case variant_name j of
       None \<Rightarrow> None
     | Some s \<Rightarrow> if s = ''none'' then Some EnfNone else if s = ''monitored'' then Some Monitored
                 else if s = ''hard'' then Some Hard else None)"

definition origin_json :: "session_origin \<Rightarrow> json" where
  "origin_json e = JStr (case e of OriginNone \<Rightarrow> ''none'' | CallerReported \<Rightarrow> ''caller_reported'')"

definition read_origin :: "json \<Rightarrow> session_origin option" where
  "read_origin j =
    (case variant_name j of
       None \<Rightarrow> None
     | Some s \<Rightarrow> if s = ''none'' then Some OriginNone
                 else if s = ''caller_reported'' then Some CallerReported else None)"

definition read_state :: "json \<Rightarrow> run_state option" where "read_state j = Option.bind (variant_name j) state_parse"

definition read_outcome :: "json \<Rightarrow> run_outcome option" where "read_outcome j = Option.bind (variant_name j) outcome_parse"

definition read_cleanup :: "json \<Rightarrow> cleanup_state option" where "read_cleanup j = Option.bind (variant_name j) cleanup_parse"

text \<open>An externally tagged enumeration: a name, or an object with one field.\<close>

definition capability_json :: "capability \<Rightarrow> json" where
  "capability_json c =
    (case c of Available \<Rightarrow> JStr ''available''
     | CapMonitored s \<Rightarrow> JObj [(''monitored'', JStr s)]
     | Unavailable s \<Rightarrow> JObj [(''unavailable'', JStr s)])"

definition read_capability :: "json \<Rightarrow> capability option" where
  "read_capability j =
    (case j of
       JStr s \<Rightarrow> if s = ''available'' then Some Available else None
     | JObj [(k, v)] \<Rightarrow>
         if k = ''monitored'' then map_option CapMonitored (as_str v)
         else if k = ''unavailable'' then map_option Unavailable (as_str v)
         else if k = ''available'' \<and> v = JNull then Some Available else None
     | _ \<Rightarrow> None)"

section \<open>Structures\<close>

definition secs_json :: "duration \<Rightarrow> json" where "secs_json d = j_u (secs_serialize d)"

definition read_secs :: "json \<Rightarrow> duration option" where "read_secs j = map_option secs_deserialize (read_u64 j)"

definition request_json :: "resource_request \<Rightarrow> json" where
  "request_json r = JObj
    (opt_field ''memory_bytes'' j_u (rr_memory r) @
     opt_field ''cpu_millicores'' j_u (rr_cpu r) @
     opt_field ''processes'' j_u (rr_processes r) @
     (''enforcement'', enforcement_json (rr_enforcement r)) #
     opt_field ''queue_timeout'' secs_json (rr_queue_timeout r))"

definition read_request :: "json \<Rightarrow> resource_request option" where
  "read_request = read_struct (\<lambda>j. do {
     m \<leftarrow> may ''memory_bytes'' read_u64 j;
     c \<leftarrow> may ''cpu_millicores'' read_u32 j;
     p \<leftarrow> may ''processes'' read_u32 j;
     e \<leftarrow> dflt ''enforcement'' EnfNone read_enforcement j;
     q \<leftarrow> may ''queue_timeout'' read_secs j;
     Some \<lparr>rr_memory = m, rr_cpu = c, rr_processes = p, rr_enforcement = e, rr_queue_timeout = q\<rparr> })"

definition session_hex_json :: "session_id option \<Rightarrow> json" where
  "session_hex_json s = j_opt JStr (session_hex_serialize s)"

definition read_session_hex :: "json \<Rightarrow> session_id option option" where
  "read_session_hex j =
    (case read_opt as_str j of
       None \<Rightarrow> None
     | Some x \<Rightarrow> (case session_hex_deserialize x of Inl _ \<Rightarrow> None | Inr s \<Rightarrow> Some s))"

definition spec_json :: "run_spec \<Rightarrow> json" where
  "spec_json s = JObj
    [(''request_id'', JStr (request_id s)), (''argv'', j_list JStr (argv s)), (''cwd'', JStr (cwd s)),
     (''project_root'', j_opt JStr (project_root s)),
     (''session_id'', session_hex_json (session_id s)),
     (''session_origin'', origin_json (session_origin s)),
     (''timeout'', secs_json (timeout s)), (''grace'', secs_json (grace s)),
     (''log_limit_bytes'', j_u (log_limit_bytes s)), (''resources'', request_json (resources s))]"

definition read_spec :: "json \<Rightarrow> run_spec option" where
  "read_spec = read_struct (\<lambda>j. do {
     r \<leftarrow> need ''request_id'' as_str j;
     a \<leftarrow> need ''argv'' (read_list as_str) j;
     c \<leftarrow> need ''cwd'' as_str j;
     p \<leftarrow> may ''project_root'' as_str j;
     s \<leftarrow> dflt ''session_id'' None read_session_hex j;
     og \<leftarrow> dflt ''session_origin'' OriginNone read_origin j;
     t \<leftarrow> need ''timeout'' read_secs j;
     g \<leftarrow> need ''grace'' read_secs j;
     l \<leftarrow> need ''log_limit_bytes'' read_u64 j;
     q \<leftarrow> dflt ''resources'' resource_default read_request j;
     Some \<lparr>request_id = r, argv = a, cwd = c, project_root = p, session_id = s, session_origin = og,
           timeout = t, grace = g, log_limit_bytes = l, resources = q\<rparr> })"

definition effective_json :: "effective_limits \<Rightarrow> json" where
  "effective_json r = JObj
    (opt_field ''memory_bytes'' j_u (ef_memory r) @
     opt_field ''cpu_millicores'' j_u (ef_cpu r) @
     opt_field ''processes'' j_u (ef_processes r) @
     (''enforcement'', enforcement_json (ef_enforcement r)) #
     opt_field ''metric'' JStr (ef_metric r) @ [(''backend'', JStr (ef_backend r))])"

definition read_effective :: "json \<Rightarrow> effective_limits option" where
  "read_effective = read_struct (\<lambda>j. do {
     m \<leftarrow> may ''memory_bytes'' read_u64 j;
     c \<leftarrow> may ''cpu_millicores'' read_u32 j;
     p \<leftarrow> may ''processes'' read_u32 j;
     e \<leftarrow> need ''enforcement'' read_enforcement j;
     x \<leftarrow> may ''metric'' as_str j;
     b \<leftarrow> need ''backend'' as_str j;
     Some \<lparr>ef_memory = m, ef_cpu = c, ef_processes = p, ef_enforcement = e, ef_metric = x, ef_backend = b\<rparr> })"

definition logs_json :: "log_state \<Rightarrow> json" where
  "logs_json l = JObj
    [(''stdout_bytes'', j_u (stdout_bytes l)), (''stderr_bytes'', j_u (stderr_bytes l)),
     (''stdout_truncated'', JBool (stdout_truncated l)), (''stderr_truncated'', JBool (stderr_truncated l))]"

definition read_logs :: "json \<Rightarrow> log_state option" where
  "read_logs = read_struct (\<lambda>j. do {
     a \<leftarrow> need ''stdout_bytes'' read_u64 j;
     b \<leftarrow> need ''stderr_bytes'' read_u64 j;
     c \<leftarrow> need ''stdout_truncated'' as_bool j;
     d \<leftarrow> need ''stderr_truncated'' as_bool j;
     Some \<lparr>stdout_bytes = a, stderr_bytes = b, stdout_truncated = c, stderr_truncated = d\<rparr> })"

definition queue_info_json :: "queue_info \<Rightarrow> json" where
  "queue_info_json q = JObj
    (opt_field ''position'' j_nat (qi_position q) @
     (''waiting_ms'', j_u (qi_waiting_ms q)) # opt_field ''reason'' JStr (qi_reason q))"

definition read_queue_info :: "json \<Rightarrow> queue_info option" where
  "read_queue_info = read_struct (\<lambda>j. do {
     p \<leftarrow> may ''position'' read_usize j;
     w \<leftarrow> need ''waiting_ms'' read_u64 j;
     r \<leftarrow> may ''reason'' as_str j;
     Some \<lparr>qi_position = p, qi_waiting_ms = w, qi_reason = r\<rparr> })"

definition capabilities_json :: "backend_capabilities \<Rightarrow> json" where
  "capabilities_json c = JObj
    [(''queue'', capability_json (cap_queue c)),
     (''process_group_cleanup'', capability_json (cap_group_cleanup c)),
     (''aggregate_memory_limit'', capability_json (cap_memory c)),
     (''cpu_quota'', capability_json (cap_cpu c)),
     (''process_limit'', capability_json (cap_processes c)),
     (''filesystem_isolation'', capability_json (cap_filesystem c))]"

definition read_capabilities :: "json \<Rightarrow> backend_capabilities option" where
  "read_capabilities = read_struct (\<lambda>j. do {
     q \<leftarrow> need ''queue'' read_capability j;
     g \<leftarrow> need ''process_group_cleanup'' read_capability j;
     m \<leftarrow> need ''aggregate_memory_limit'' read_capability j;
     c \<leftarrow> need ''cpu_quota'' read_capability j;
     p \<leftarrow> need ''process_limit'' read_capability j;
     f \<leftarrow> need ''filesystem_isolation'' read_capability j;
     Some \<lparr>cap_queue = q, cap_group_cleanup = g, cap_memory = m, cap_cpu = c, cap_processes = p,
           cap_filesystem = f\<rparr> })"

definition event_json :: "event_view \<Rightarrow> json" where
  "event_json e = JObj
    ((''revision'', JInt (ev_revision e)) # (''at'', j_u (ev_at e)) # (''kind'', JStr (ev_kind e)) #
     opt_field ''detail'' JStr (ev_detail e))"

definition read_event :: "json \<Rightarrow> event_view option" where
  "read_event = read_struct (\<lambda>j. do {
     r \<leftarrow> need ''revision'' (read_sint 64) j;
     a \<leftarrow> need ''at'' read_u64 j;
     k \<leftarrow> need ''kind'' as_str j;
     d \<leftarrow> may ''detail'' as_str j;
     Some \<lparr>ev_revision = r, ev_at = a, ev_kind = k, ev_detail = d\<rparr> })"

definition run_view_json :: "run_view \<Rightarrow> json" where
  "run_view_json v = JObj
    ([(''run_id'', JStr (v_run_id v)), (''request_id'', JStr (v_request_id v)),
      (''argv'', j_list JStr (v_argv v)), (''cwd'', JStr (v_cwd v)),
      (''project_root'', j_opt JStr (v_project_root v)), (''session_id'', j_opt JStr (v_session_id v)),
      (''state'', JStr (state_as_str (v_state v))),
      (''outcome'', j_opt (\<lambda>x. JStr (outcome_as_str x)) (v_outcome v)),
      (''exit_code'', j_opt JInt (v_exit_code v)), (''signal'', j_opt JInt (v_signal v)),
      (''cleanup'', JStr (cleanup_as_str (v_cleanup v))), (''revision'', JInt (v_revision v)),
      (''created_at'', j_u (v_created_at v)), (''started_at'', j_opt j_u (v_started_at v)),
      (''finished_at'', j_opt j_u (v_finished_at v)), (''duration_ms'', j_opt j_u (v_duration_ms v)),
      (''detail'', j_opt JStr (v_detail v)), (''logs'', logs_json (v_logs v)),
      (''requested'', request_json (v_requested v)), (''effective'', effective_json (v_effective v)),
      (''queue'', queue_info_json (v_queue v))]
     @ opt_field ''observed_memory_bytes'' j_u (v_observed_memory v)
     @ opt_field ''observed_processes'' j_nat (v_observed_processes v)
     @ opt_field ''limit_event'' JStr (v_limit_event v)
     @ opt_field ''supervisor'' JStr (v_supervisor v)
     @ [(''capabilities'', capabilities_json (v_capabilities v))]
     @ (if v_events v = [] then [] else [(''events'', j_list event_json (v_events v))]))"

definition read_run_view :: "json \<Rightarrow> run_view option" where
  "read_run_view = read_struct (\<lambda>j. do {
     i \<leftarrow> need ''run_id'' as_str j;
     rq \<leftarrow> need ''request_id'' as_str j;
     av \<leftarrow> need ''argv'' (read_list as_str) j;
     cw \<leftarrow> need ''cwd'' as_str j;
     pr \<leftarrow> may ''project_root'' as_str j;
     sid \<leftarrow> may ''session_id'' as_str j;
     st \<leftarrow> need ''state'' read_state j;
     oc \<leftarrow> may ''outcome'' read_outcome j;
     ec \<leftarrow> may ''exit_code'' (read_sint 32) j;
     sg \<leftarrow> may ''signal'' (read_sint 32) j;
     cl \<leftarrow> need ''cleanup'' read_cleanup j;
     rv \<leftarrow> need ''revision'' (read_sint 64) j;
     ca \<leftarrow> need ''created_at'' read_u64 j;
     sa \<leftarrow> may ''started_at'' read_u64 j;
     fa \<leftarrow> may ''finished_at'' read_u64 j;
     du \<leftarrow> may ''duration_ms'' read_u64 j;
     de \<leftarrow> may ''detail'' as_str j;
     lg \<leftarrow> need ''logs'' read_logs j;
     re \<leftarrow> need ''requested'' read_request j;
     ef \<leftarrow> need ''effective'' read_effective j;
     qu \<leftarrow> need ''queue'' read_queue_info j;
     om \<leftarrow> may ''observed_memory_bytes'' read_u64 j;
     op \<leftarrow> may ''observed_processes'' read_usize j;
     le \<leftarrow> may ''limit_event'' as_str j;
     su \<leftarrow> may ''supervisor'' as_str j;
     cp \<leftarrow> need ''capabilities'' read_capabilities j;
     ev \<leftarrow> dflt ''events'' [] (read_list read_event) j;
     Some \<lparr>v_run_id = i, v_request_id = rq, v_argv = av, v_cwd = cw, v_project_root = pr,
       v_session_id = sid, v_state = st, v_outcome = oc, v_exit_code = ec, v_signal = sg, v_cleanup = cl,
       v_revision = rv, v_created_at = ca, v_started_at = sa, v_finished_at = fa, v_duration_ms = du,
       v_detail = de, v_logs = lg, v_requested = re, v_effective = ef, v_queue = qu,
       v_observed_memory = om, v_observed_processes = op, v_limit_event = le, v_supervisor = su,
       v_capabilities = cp, v_events = ev\<rparr> })"

text \<open>The capacity report.\<close>

definition limits_json :: "limit_summary \<Rightarrow> json" where
  "limits_json l = JObj
    ([(''max_parallel'', j_nat (ls_max_parallel l)),
      (''max_parallel_per_project'', j_nat (ls_max_parallel_per_project l)),
      (''max_queued'', j_nat (ls_max_queued l)), (''queue_timeout_secs'', j_u (ls_queue_timeout_secs l)),
      (''memory_budget_bytes'', j_u (ls_memory_budget l)),
      (''default_run_memory_bytes'', j_u (ls_default_run_memory l)),
      (''starvation_after_secs'', j_u (ls_starvation_after_secs l))]
     @ opt_field ''cpu_budget_millicores'' j_u (ls_cpu_budget l)
     @ opt_field ''pids_budget'' j_u (ls_pids_budget l))"

definition project_usage_json :: "project_usage \<Rightarrow> json" where
  "project_usage_json u = JObj
    [(''project'', JStr (pu_project u)), (''running'', j_nat (pu_running u)),
     (''reserved_memory_bytes'', j_u (pu_reserved u))]"

definition queue_entry_json :: "queue_entry \<Rightarrow> json" where
  "queue_entry_json q = JObj
    [(''run_id'', JStr (qe_run_id q)), (''project'', JStr (qe_project q)),
     (''position'', j_nat (qe_position q)), (''waiting_ms'', j_u (qe_waiting_ms q)),
     (''memory_bytes'', j_u (qe_memory q)), (''reason'', JStr (qe_reason q))]"

definition capacity_json :: "capacity \<Rightarrow> json" where
  "capacity_json c = JObj
    ([(''limits'', limits_json (c_limits c)), (''running'', j_nat (c_running c)),
      (''queued'', j_nat (c_queued c)), (''slots_free'', j_nat (c_slots_free c)),
      (''reserved_memory_bytes'', j_u (c_reserved c)),
      (''projects'', j_list project_usage_json (c_projects c)),
      (''queue'', j_list queue_entry_json (c_queue c)),
      (''over_parallel_limit'', JBool (c_over_parallel c))]
     @ opt_field ''aggregate_memory_max_bytes'' j_u (c_aggregate_memory c)
     @ opt_field ''aggregate_cpu_millicores'' j_u (c_aggregate_cpu c)
     @ opt_field ''aggregate_pids_max'' j_u (c_aggregate_pids c)
     @ [(''reservation_note'', JStr (c_reservation_note c)),
        (''capabilities'', capabilities_json (c_capabilities c))])"

definition read_limits :: "json \<Rightarrow> limit_summary option" where
  "read_limits = read_struct (\<lambda>j. do {
     a \<leftarrow> need ''max_parallel'' read_usize j;
     b \<leftarrow> need ''max_parallel_per_project'' read_usize j;
     c \<leftarrow> need ''max_queued'' read_usize j;
     d \<leftarrow> need ''queue_timeout_secs'' read_u64 j;
     e \<leftarrow> need ''memory_budget_bytes'' read_u64 j;
     f \<leftarrow> need ''default_run_memory_bytes'' read_u64 j;
     g \<leftarrow> need ''starvation_after_secs'' read_u64 j;
     h \<leftarrow> may ''cpu_budget_millicores'' read_u32 j;
     p \<leftarrow> may ''pids_budget'' read_u32 j;
     Some \<lparr>ls_max_parallel = a, ls_max_parallel_per_project = b, ls_max_queued = c,
       ls_queue_timeout_secs = d, ls_memory_budget = e, ls_default_run_memory = f,
       ls_starvation_after_secs = g, ls_cpu_budget = h, ls_pids_budget = p\<rparr> })"

definition read_project_usage :: "json \<Rightarrow> project_usage option" where
  "read_project_usage = read_struct (\<lambda>j. do {
     a \<leftarrow> need ''project'' as_str j;
     b \<leftarrow> need ''running'' read_usize j;
     c \<leftarrow> need ''reserved_memory_bytes'' read_u64 j;
     Some \<lparr>pu_project = a, pu_running = b, pu_reserved = c\<rparr> })"

definition read_queue_entry :: "json \<Rightarrow> queue_entry option" where
  "read_queue_entry = read_struct (\<lambda>j. do {
     a \<leftarrow> need ''run_id'' as_str j;
     b \<leftarrow> need ''project'' as_str j;
     c \<leftarrow> need ''position'' read_usize j;
     d \<leftarrow> need ''waiting_ms'' read_u64 j;
     e \<leftarrow> need ''memory_bytes'' read_u64 j;
     f \<leftarrow> need ''reason'' as_str j;
     Some \<lparr>qe_run_id = a, qe_project = b, qe_position = c, qe_waiting_ms = d, qe_memory = e,
       qe_reason = f\<rparr> })"

definition read_capacity :: "json \<Rightarrow> capacity option" where
  "read_capacity = read_struct (\<lambda>j. do {
     l \<leftarrow> need ''limits'' read_limits j;
     r \<leftarrow> need ''running'' read_usize j;
     q \<leftarrow> need ''queued'' read_usize j;
     s \<leftarrow> need ''slots_free'' read_usize j;
     m \<leftarrow> need ''reserved_memory_bytes'' read_u64 j;
     p \<leftarrow> need ''projects'' (read_list read_project_usage) j;
     e \<leftarrow> need ''queue'' (read_list read_queue_entry) j;
     ov \<leftarrow> need ''over_parallel_limit'' as_bool j;
     am \<leftarrow> may ''aggregate_memory_max_bytes'' read_u64 j;
     ac \<leftarrow> may ''aggregate_cpu_millicores'' read_u32 j;
     ap \<leftarrow> may ''aggregate_pids_max'' read_u32 j;
     n \<leftarrow> need ''reservation_note'' as_str j;
     c \<leftarrow> need ''capabilities'' read_capabilities j;
     Some \<lparr>c_limits = l, c_running = r, c_queued = q, c_slots_free = s, c_reserved = m,
       c_projects = p, c_queue = e, c_over_parallel = ov, c_aggregate_memory = am,
       c_aggregate_cpu = ac, c_aggregate_pids = ap, c_reservation_note = n, c_capabilities = c\<rparr> })"

section \<open>Round trips\<close>

lemma enforcement_back [simp, wire]: "read_enforcement (enforcement_json e) = Some e"
  by (cases e) (simp_all add: read_enforcement_def enforcement_json_def)

lemma origin_back [simp, wire]: "read_origin (origin_json e) = Some e"
  by (cases e) (simp_all add: read_origin_def origin_json_def)

lemma lifecycle_back [simp, wire]:
  "read_state (JStr (state_as_str s)) = Some s" "read_outcome (JStr (outcome_as_str x)) = Some x"
  "read_cleanup (JStr (cleanup_as_str c)) = Some c"
  by (simp_all add: read_state_def read_outcome_def read_cleanup_def)

lemma capability_back [simp, wire]: "read_capability (capability_json c) = Some c"
  by (cases c) (simp_all add: read_capability_def capability_json_def)

lemma secs_json_not_null [simp, wire]: "secs_json d \<noteq> JNull" by (simp add: secs_json_def)

text \<open>A duration loses its part below a second.\<close>

definition whole_secs :: "duration \<Rightarrow> duration" where "whole_secs d = d - d mod 10 ^ 9"

lemma secs_back: "d \<le> duration_max \<Longrightarrow> read_secs (secs_json d) = Some (whole_secs d)"
  by (simp add: read_secs_def secs_json_def secs_round_trip whole_secs_def)

lemma session_hex_back [simp, wire]: "read_session_hex (session_hex_json s) = Some s"
proof -
  have "read_opt as_str (j_opt JStr (session_hex_serialize s)) = Some (session_hex_serialize s)"
    by (rule opt_back) simp
  then show ?thesis by (simp add: read_session_hex_def session_hex_json_def)
qed

lemma wire_not_null [simp, wire]: "request_json r \<noteq> JNull" by (simp add: request_json_def)

definition cut_request :: "resource_request \<Rightarrow> resource_request" where
  "cut_request r = r\<lparr>rr_queue_timeout := map_option whole_secs (rr_queue_timeout r)\<rparr>"

lemma may_secs: "(\<And>d. x = Some d \<Longrightarrow> d \<le> duration_max) \<Longrightarrow>
    may_val read_secs (map_option secs_json x) = Some (map_option whole_secs x)"
  by (cases x) (auto simp: may_val_def read_opt_def secs_back)

lemma request_back [wire]:
  assumes "\<And>d. rr_queue_timeout r = Some d \<Longrightarrow> d \<le> duration_max"
  shows "read_request (request_json r) = Some (cut_request r)"
  using assms by (simp add: read_request_def request_json_def wire may_secs cut_request_def)

lemma effective_back [wire]: "read_effective (effective_json r) = Some r"
  by (simp add: read_effective_def effective_json_def wire)

lemma logs_back [wire]: "read_logs (logs_json r) = Some r"
  by (simp add: read_logs_def logs_json_def wire)

lemma queue_info_back [wire]:
  "(\<And>n. qi_position q = Some n \<Longrightarrow> n < 2 ^ 64) \<Longrightarrow> read_queue_info (queue_info_json q) = Some q"
  by (simp add: read_queue_info_def queue_info_json_def wire)

lemma capabilities_back [wire]: "read_capabilities (capabilities_json r) = Some r"
  by (simp add: read_capabilities_def capabilities_json_def wire)

lemma event_back:
  "- (2 ^ 63) \<le> ev_revision e \<Longrightarrow> ev_revision e < 2 ^ 63 \<Longrightarrow> read_event (event_json e) = Some e"
  by (simp add: read_event_def event_json_def wire)

lemma limits_back [wire]:
  "ls_max_parallel l < 2 ^ 64 \<Longrightarrow> ls_max_parallel_per_project l < 2 ^ 64 \<Longrightarrow> ls_max_queued l < 2 ^ 64
    \<Longrightarrow> read_limits (limits_json l) = Some l"
  by (simp add: read_limits_def limits_json_def wire)

lemma project_usage_back: "pu_running u < 2 ^ 64 \<Longrightarrow> read_project_usage (project_usage_json u) = Some u"
  by (simp add: read_project_usage_def project_usage_json_def wire)

lemma queue_entry_back: "qe_position u < 2 ^ 64 \<Longrightarrow> read_queue_entry (queue_entry_json u) = Some u"
  by (simp add: read_queue_entry_def queue_entry_json_def wire)

text \<open>The request arrives as it was sent, its durations cut to whole seconds.\<close>

definition cut_spec :: "run_spec \<Rightarrow> run_spec" where
  "cut_spec s = s\<lparr>timeout := whole_secs (timeout s), grace := whole_secs (grace s),
     resources := cut_request (resources s)\<rparr>"

definition spec_in_range :: "run_spec \<Rightarrow> bool" where
  "spec_in_range s \<longleftrightarrow> timeout s \<le> duration_max \<and> grace s \<le> duration_max
     \<and> (\<forall>d\<in>set_option (rr_queue_timeout (resources s)). d \<le> duration_max)"

lemma spec_back:
  assumes "spec_in_range s"
  shows "read_spec (spec_json s) = Some (cut_spec s)"
proof -
  have "timeout s \<le> duration_max" "grace s \<le> duration_max"
    "\<And>d. rr_queue_timeout (resources s) = Some d \<Longrightarrow> d \<le> duration_max"
    using assms by (auto simp: spec_in_range_def)
  then show ?thesis
    by (simp add: read_spec_def spec_json_def wire secs_back cut_spec_def)
qed

section \<open>The run view\<close>

definition i64_range :: "int \<Rightarrow> bool" where "i64_range i \<longleftrightarrow> - (2 ^ 63) \<le> i \<and> i < 2 ^ 63"

definition i32_range :: "int \<Rightarrow> bool" where "i32_range i \<longleftrightarrow> - (2 ^ 31) \<le> i \<and> i < 2 ^ 31"

text \<open>Every number lies in its Rust type, and the one duration in it is of whole seconds.\<close>

definition view_in_range :: "run_view \<Rightarrow> bool" where
  "view_in_range v \<longleftrightarrow> i64_range (v_revision v)
     \<and> (\<forall>i\<in>set_option (v_exit_code v). i32_range i) \<and> (\<forall>i\<in>set_option (v_signal v). i32_range i)
     \<and> (\<forall>n\<in>set_option (v_observed_processes v). n < 2 ^ 64)
     \<and> (\<forall>n\<in>set_option (qi_position (v_queue v)). n < 2 ^ 64)
     \<and> (\<forall>d\<in>set_option (rr_queue_timeout (v_requested v)). d \<le> duration_max)
     \<and> (\<forall>e\<in>set (v_events v). i64_range (ev_revision e))"

lemma events_back:
  "(\<And>e. e \<in> set es \<Longrightarrow> i64_range (ev_revision e)) \<Longrightarrow> read_list read_event (j_list event_json es) = Some es"
  by (rule list_back) (simp add: event_back i64_range_def)

lemma view_fields:
  "json_get ''run_id'' (run_view_json v) = Some (JStr (v_run_id v))"
  "json_get ''request_id'' (run_view_json v) = Some (JStr (v_request_id v))"
  "json_get ''argv'' (run_view_json v) = Some (j_list JStr (v_argv v))"
  "json_get ''cwd'' (run_view_json v) = Some (JStr (v_cwd v))"
  "json_get ''project_root'' (run_view_json v) = Some (j_opt JStr (v_project_root v))"
  "json_get ''session_id'' (run_view_json v) = Some (j_opt JStr (v_session_id v))"
  "json_get ''state'' (run_view_json v) = Some (JStr (state_as_str (v_state v)))"
  "json_get ''outcome'' (run_view_json v) = Some (j_opt (\<lambda>x. JStr (outcome_as_str x)) (v_outcome v))"
  "json_get ''exit_code'' (run_view_json v) = Some (j_opt JInt (v_exit_code v))"
  "json_get ''signal'' (run_view_json v) = Some (j_opt JInt (v_signal v))"
  "json_get ''cleanup'' (run_view_json v) = Some (JStr (cleanup_as_str (v_cleanup v)))"
  "json_get ''revision'' (run_view_json v) = Some (JInt (v_revision v))"
  "json_get ''created_at'' (run_view_json v) = Some (j_u (v_created_at v))"
  "json_get ''started_at'' (run_view_json v) = Some (j_opt j_u (v_started_at v))"
  "json_get ''finished_at'' (run_view_json v) = Some (j_opt j_u (v_finished_at v))"
  "json_get ''duration_ms'' (run_view_json v) = Some (j_opt j_u (v_duration_ms v))"
  "json_get ''detail'' (run_view_json v) = Some (j_opt JStr (v_detail v))"
  "json_get ''logs'' (run_view_json v) = Some (logs_json (v_logs v))"
  "json_get ''requested'' (run_view_json v) = Some (request_json (v_requested v))"
  "json_get ''effective'' (run_view_json v) = Some (effective_json (v_effective v))"
  "json_get ''queue'' (run_view_json v) = Some (queue_info_json (v_queue v))"
  "json_get ''capabilities'' (run_view_json v) = Some (capabilities_json (v_capabilities v))"
  "json_get ''observed_memory_bytes'' (run_view_json v) = map_option j_u (v_observed_memory v)"
  "json_get ''observed_processes'' (run_view_json v) = map_option j_nat (v_observed_processes v)"
  "json_get ''limit_event'' (run_view_json v) = map_option JStr (v_limit_event v)"
  "json_get ''supervisor'' (run_view_json v) = map_option JStr (v_supervisor v)"
  "json_get ''events'' (run_view_json v) = (if v_events v = [] then None else Some (j_list event_json (v_events v)))"
  by (simp_all add: run_view_json_def wire)

lemma view_is_obj: "read_struct d (run_view_json v) = d (run_view_json v)"
  by (simp add: run_view_json_def)

lemma events_field:
  assumes "\<forall>e\<in>set es. i64_range (ev_revision e)"
  shows "(case (if es = [] then None else Some (j_list event_json es)) of None \<Rightarrow> Some []
      | Some j \<Rightarrow> read_list read_event j) = Some es"
  using assms events_back[of es] by simp

definition cut_view :: "run_view \<Rightarrow> run_view" where
  "cut_view v = v\<lparr>v_requested := cut_request (v_requested v)\<rparr>"

lemma view_back:
  assumes "view_in_range v"
  shows "read_run_view (run_view_json v) = Some (cut_view v)"
proof -
  have "may_val (read_sint 32) (Some (j_opt JInt (v_exit_code v))) = Some (v_exit_code v)"
    "may_val (read_sint 32) (Some (j_opt JInt (v_signal v))) = Some (v_signal v)"
    "may_val read_usize (map_option j_nat (v_observed_processes v)) = Some (v_observed_processes v)"
    "read_sint 64 (JInt (v_revision v)) = Some (v_revision v)"
    "read_queue_info (queue_info_json (v_queue v)) = Some (v_queue v)"
    and d: "\<And>d. rr_queue_timeout (v_requested v) = Some d \<Longrightarrow> d \<le> duration_max"
    and e: "\<forall>e\<in>set (v_events v). i64_range (ev_revision e)"
    using assms by (auto simp: view_in_range_def i64_range_def i32_range_def sint_back
        intro!: may_null may_skip usize_back queue_info_back)
  then show ?thesis
    unfolding read_run_view_def view_is_obj
    by (simp add: wire view_fields events_field[OF e] cut_view_def)
qed

text \<open>The capacity report reads back unchanged.\<close>

definition capacity_in_range :: "capacity \<Rightarrow> bool" where
  "capacity_in_range c \<longleftrightarrow>
     ls_max_parallel (c_limits c) < 2 ^ 64 \<and> ls_max_parallel_per_project (c_limits c) < 2 ^ 64
     \<and> ls_max_queued (c_limits c) < 2 ^ 64
     \<and> c_running c < 2 ^ 64 \<and> c_queued c < 2 ^ 64 \<and> c_slots_free c < 2 ^ 64
     \<and> (\<forall>u\<in>set (c_projects c). pu_running u < 2 ^ 64)
     \<and> (\<forall>q\<in>set (c_queue c). qe_position q < 2 ^ 64)"

lemma capacity_back:
  assumes "capacity_in_range c"
  shows "read_capacity (capacity_json c) = Some c"
proof -
  have "read_usize (j_nat (c_running c)) = Some (c_running c)"
    "read_usize (j_nat (c_queued c)) = Some (c_queued c)"
    "read_usize (j_nat (c_slots_free c)) = Some (c_slots_free c)"
    "read_list read_project_usage (j_list project_usage_json (c_projects c)) = Some (c_projects c)"
    "read_list read_queue_entry (j_list queue_entry_json (c_queue c)) = Some (c_queue c)"
    "read_limits (limits_json (c_limits c)) = Some (c_limits c)"
    using assms by (auto simp: capacity_in_range_def
        intro!: usize_back list_back project_usage_back queue_entry_back limits_back)
  then show ?thesis by (simp add: read_capacity_def capacity_json_def wire)
qed

end
