(* ===== verification/Server.thy ===== *)
theory Server
  imports Wire Collect
begin

text \<open>
  The local API of the supervisor (\<open>src/server.rs\<close>): one request line in, one reply out, and
  the client's side of it (\<open>src/runner/client.rs\<close>).  A request acts on the supervisor and on the
  ownership tables.  The JSON text library, the process scan, the boot epoch, a fresh boot id, the retained
  log files and the order of unordered rows are arguments; accepting connections, the limit on concurrent
  clients, signals and the idle exit are left out.
\<close>

section \<open>State and world\<close>

record server =
  srv_sup :: supervisor
  srv_own :: own_store

record server_world =
  sw_ctx :: ctx
  sw_caps :: aggregate_caps
  sw_hash :: "u8 list \<Rightarrow> string"
  sw_lossy :: "u8 list \<Rightarrow> string"
  sw_file :: "run_id \<Rightarrow> stream \<Rightarrow> u8 list option"
  sw_epoch :: "boot_epoch option"
  sw_fresh :: boot_id
  sw_scan :: "process_info list option"
  sw_pick :: "int list \<Rightarrow> int"
  sw_version :: string

text \<open>Why a request is refused: a message of the handler, or an error from below.\<close>

datatype server_error = Said string | StartFailed start_error | ReadFailed Run_Store.store_error
  | OwnFailed Ownership_Store.store_error | BadJson | Panicked

type_synonym reply = "server_error + json"

section \<open>Run commands\<close>

definition or_keep :: "'a option \<Rightarrow> 'a \<Rightarrow> 'a" where
  "or_keep x y = (case x of Some z \<Rightarrow> z | None \<Rightarrow> y)"

text \<open>A budget that is present but not a number is removed; one above the type is cut.\<close>

definition budget_arg :: "string \<Rightarrow> json \<Rightarrow> u32 option \<Rightarrow> u32 option" where
  "budget_arg k raw cur =
    (case json_get k raw of None \<Rightarrow> cur | Some v \<Rightarrow> map_option (\<lambda>n. ucast n) (num_u64 v))"

definition limits_from_json :: "json \<Rightarrow> limit_summary \<Rightarrow> limits" where
  "limits_from_json raw l =
    \<lparr>max_parallel = or_keep (map_option (\<lambda>n. max (unat n) 1) (get_u64 ''max_parallel'' raw)) (ls_max_parallel l),
     max_parallel_per_project =
       or_keep (map_option (\<lambda>n. max (unat n) 1) (get_u64 ''max_parallel_per_project'' raw))
         (ls_max_parallel_per_project l),
     max_queued = or_keep (map_option unat (get_u64 ''max_queued'' raw)) (ls_max_queued l),
     queue_timeout =
       from_secs (unat (or_keep (get_u64 ''queue_timeout_secs'' raw) (ls_queue_timeout_secs l))),
     memory_budget_bytes = or_keep (get_u64 ''memory_budget_bytes'' raw) (ls_memory_budget l),
     default_run_memory_bytes = or_keep (get_u64 ''default_run_memory_bytes'' raw) (ls_default_run_memory l),
     starvation_after =
       from_secs (unat (or_keep (get_u64 ''starvation_after_secs'' raw) (ls_starvation_after_secs l))),
     cpu_budget_millicores = budget_arg ''cpu_budget_millicores'' raw (ls_cpu_budget l),
     pids_budget = budget_arg ''pids_budget'' raw (ls_pids_budget l)\<rparr>"

definition srv_set_limits :: "server_world \<Rightarrow> json \<Rightarrow> server \<Rightarrow> reply \<times> server" where
  "srv_set_limits w req s =
    (case json_get ''limits'' req of
       None \<Rightarrow> (Inl (Said ''set_limits needs a limits object''), s)
     | Some raw \<Rightarrow>
         (let l = limits_from_json raw (c_limits (capacity_now (sw_ctx w) (sw_caps w) (srv_sup s)));
              sv = sv_set_limits l (srv_sup s)
          in (Inr (JObj [(''capacity'', capacity_json (capacity_now (sw_ctx w) (sw_caps w) sv))]),
              s\<lparr>srv_sup := sv\<rparr>)))"

definition read_pair :: "json \<Rightarrow> (string \<times> string) option" where
  "read_pair j =
    (case j of JArr [a, b] \<Rightarrow> (case (as_str a, as_str b) of (Some x, Some y) \<Rightarrow> Some (x, y) | _ \<Rightarrow> None)
     | _ \<Rightarrow> None)"

text \<open>An environment that is not an array counts as none.\<close>

definition env_arg :: "json \<Rightarrow> (string \<times> string) list option" where
  "env_arg req = (case json_get ''env'' req of Some (JArr js) \<Rightarrow> read_each read_pair js | _ \<Rightarrow> Some [])"

definition run_json :: "run_view option \<Rightarrow> json" where "run_json v = j_opt run_view_json v"

definition srv_start_run :: "server_world \<Rightarrow> json \<Rightarrow> server \<Rightarrow> reply \<times> server" where
  "srv_start_run w req s =
    (case json_get ''spec'' req of
       None \<Rightarrow> (Inl (Said ''start_run needs a spec''), s)
     | Some raw \<Rightarrow>
         (case read_spec raw of
            None \<Rightarrow> (Inl (Said ''bad spec''), s)
          | Some spec \<Rightarrow>
              (case env_arg req of
                 None \<Rightarrow> (Inl (Said ''bad env''), s)
               | Some env \<Rightarrow>
                   (case start_run (sw_hash w) (sw_ctx w) spec env (srv_sup s) of
                      None \<Rightarrow> (Inl Panicked, s)
                    | Some (Inl e, sv) \<Rightarrow> (Inl (StartFailed e), s\<lparr>srv_sup := sv\<rparr>)
                    | Some (Inr (i, created), sv) \<Rightarrow>
                        (case get_now (sw_ctx w) i None sv of
                           Inl e \<Rightarrow> (Inl (ReadFailed e), s\<lparr>srv_sup := sv\<rparr>)
                         | Inr v \<Rightarrow>
                             (Inr (JObj [(''run'', run_json v), (''created'', JBool created)]),
                              s\<lparr>srv_sup := sv\<rparr>))))))"

definition run_id_arg :: "json \<Rightarrow> server_error + run_id" where
  "run_id_arg req =
    (case json_get ''run_id'' req of
       None \<Rightarrow> Inl (Said ''run_id is required'')
     | Some raw \<Rightarrow>
         (case (case raw of JStr t \<Rightarrow> parse_i64 t | _ \<Rightarrow> num_i64 raw) of
            None \<Rightarrow> Inl (Said ''run_id must be a decimal id'')
          | Some i \<Rightarrow> Inr (RunId i)))"

definition srv_get_run :: "server_world \<Rightarrow> json \<Rightarrow> server \<Rightarrow> reply" where
  "srv_get_run w req s =
    (case run_id_arg req of
       Inl e \<Rightarrow> Inl e
     | Inr i \<Rightarrow>
         (case get_now (sw_ctx w) i (Option.bind (json_get ''after_revision'' req) num_i64) (srv_sup s) of
            Inl e \<Rightarrow> Inl (ReadFailed e)
          | Inr v \<Rightarrow> Inr (JObj [(''run'', run_json v)])))"

definition chunk_json :: "stream \<Rightarrow> log_chunk \<Rightarrow> json" where
  "chunk_json st c = JObj
    [(''stream'', JStr (stream_as_str st)), (''data'', JStr (ck_data c)),
     (''next_cursor'', j_u (ck_next_cursor c)), (''truncated'', JBool (ck_truncated c)),
     (''eof'', JBool (ck_eof c))]"

definition max_bytes_arg :: "json \<Rightarrow> nat" where
  "max_bytes_arg req = min (max (unat (or_default (64 * 1024) (get_u64 ''max_bytes'' req))) 1) (1024 * 1024)"

definition srv_read_output :: "server_world \<Rightarrow> json \<Rightarrow> server \<Rightarrow> reply" where
  "srv_read_output w req s =
    (case run_id_arg req of
       Inl e \<Rightarrow> Inl e
     | Inr i \<Rightarrow>
         (case Option.bind (get_str ''stream'' req) stream_parse of
            None \<Rightarrow> Inl (Said ''stream must be stdout or stderr'')
          | Some st \<Rightarrow>
              (case output_chunk (sw_lossy w) i st (sw_file w i st) (or_default 0 (get_u64 ''cursor'' req))
                      (max_bytes_arg req) (srv_sup s) of
                 Inl e \<Rightarrow> Inl (ReadFailed e)
               | Inr None \<Rightarrow> Inl (Said (''run '' @ show_run_id i @ '' not found''))
               | Inr (Some c) \<Rightarrow> Inr (chunk_json st c))))"

definition session_arg :: "string \<Rightarrow> session_id" where
  "session_arg t = SessionId (or_default 0 (u64_from_hex t))"

definition filter_arg :: "json \<Rightarrow> run_filter" where
  "filter_arg req =
    (let f = or_default (JObj []) (json_get ''filter'' req) in
     \<lparr>rf_project = get_str ''project'' f, rf_session = map_option session_arg (get_str ''session'' f),
      rf_state = Option.bind (get_str ''state'' f) state_parse,
      rf_limit = map_option unat (get_u64 ''limit'' f)\<rparr>)"

definition srv_list_runs :: "server_world \<Rightarrow> json \<Rightarrow> server \<Rightarrow> reply" where
  "srv_list_runs w req s =
    (case list_runs (sw_ctx w) (filter_arg req) (srv_sup s) of
       Inl e \<Rightarrow> Inl (ReadFailed e)
     | Inr vs \<Rightarrow> Inr (JObj [(''runs'', j_list run_view_json vs)]))"

text \<open>The slot that is shown after a cancellation: the registered one, or the copy made for the call.\<close>

definition cancelled_slot :: "ctx \<Rightarrow> run_id \<Rightarrow> run_slot \<Rightarrow> supervisor \<Rightarrow> supervisor \<Rightarrow> run_slot option" where
  "cancelled_slot cx i sl sv sv' =
    (if i \<in> set (sv_registry sv) then sv_slots sv' i
     else if \<not> is_terminal (sl_state sl) \<and> sl_state sl = Queued \<and> fst (cancel_queued i (sv_sched sv))
     then Some (fst (finish_on cx i sl Cancelled None None Complete (Some ''cancelled while queued'') None
                       (sv\<lparr>sv_sched := snd (cancel_queued i (sv_sched sv))\<rparr>)))
     else Some sl)"

definition srv_cancel_run :: "server_world \<Rightarrow> json \<Rightarrow> server \<Rightarrow> reply \<times> server" where
  "srv_cancel_run w req s =
    (case run_id_arg req of
       Inl e \<Rightarrow> (Inl e, s)
     | Inr i \<Rightarrow>
         (case (slot_or_load i (srv_sup s), cancel (sw_ctx w) i (srv_sup s)) of
            (Inr (Some sl), Inr (_, sv)) \<Rightarrow>
              (case view (sw_ctx w) i (cancelled_slot (sw_ctx w) i sl (srv_sup s) sv) None sv of
                 Inl e \<Rightarrow> (Inl (ReadFailed e), s\<lparr>srv_sup := sv\<rparr>)
               | Inr v \<Rightarrow> (Inr (JObj [(''run'', run_json v)]), s\<lparr>srv_sup := sv\<rparr>))
          | (Inr None, _) \<Rightarrow> (Inr (JObj [(''run'', JNull)]), s)
          | (Inl e, _) \<Rightarrow> (Inl (ReadFailed e), s)
          | (_, Inl e) \<Rightarrow> (Inl (ReadFailed e), s)))"

section \<open>Session commands\<close>

definition str_arg :: "string \<Rightarrow> json \<Rightarrow> string" where "str_arg k req = or_default [] (get_str k req)"

definition pid_arg :: "json \<Rightarrow> pid" where "pid_arg req = ucast (or_default 0 (get_u64 ''pid'' req))"

text \<open>The boot id of the current epoch; resolving it may write a row.\<close>

definition current_boot :: "server_world \<Rightarrow> own_store \<Rightarrow> (boot_id \<times> own_store) option" where
  "current_boot w st =
    (case sw_epoch w of None \<Rightarrow> None | Some e \<Rightarrow> boot_id_for_epoch (sw_fresh w) e (cx_now (sw_ctx w)) st)"

definition srv_session_start :: "server_world \<Rightarrow> json \<Rightarrow> server \<Rightarrow> reply \<times> server" where
  "srv_session_start w req s =
    (let agent = str_arg ''agent'' req; vendor = str_arg ''vendor'' req;
         vid = str_arg ''vendor_session_id'' req; k = pid_arg req; now = cx_now (sw_ctx w)
     in if k = 0 \<or> agent = [] \<or> vendor = [] \<or> vid = []
        then (Inl (Said ''session_start needs pid > 0, agent, vendor, vendor_session_id''), s)
        else
          (case current_boot w (srv_own s) of
             None \<Rightarrow> (Inl (Said ''boot''), s)
           | Some (b, st) \<Rightarrow>
               (case sw_scan w of
                  None \<Rightarrow> (Inl (Said ''scan''), s\<lparr>srv_own := st\<rparr>)
                | Some ps \<Rightarrow>
                    (case find (\<lambda>p. p_pid p = k) ps of
                       None \<Rightarrow> (Inl (Said ''pid not running''), s\<lparr>srv_own := st\<rparr>)
                     | Some p \<Rightarrow>
                         (case from_process b p of
                            None \<Rightarrow> (Inl (Said ''pid has no stable identity''), s\<lparr>srv_own := st\<rparr>)
                          | Some i \<Rightarrow>
                              (let (sid, st1) = ensure_session b agent k (i_start i) now st
                               in (Inr (JObj [(''session_id'', JStr (show_session_id sid)), (''agent'', JStr agent)]),
                                   s\<lparr>srv_own := register_alias sid vendor vid now st1\<rparr>)))))))"

definition srv_session_end :: "server_world \<Rightarrow> json \<Rightarrow> server \<Rightarrow> reply \<times> server" where
  "srv_session_end w req s =
    (let vendor = str_arg ''vendor'' req; vid = str_arg ''vendor_session_id'' req
     in case session_id_for_alias vendor vid (srv_own s) of
          Some sid \<Rightarrow>
            (Inr (JObj [(''ended'', JBool True), (''session_id'', JStr (show_session_id sid))]),
             s\<lparr>srv_own := end_vendor_alias vendor vid (cx_now (sw_ctx w)) (srv_own s)\<rparr>)
        | None \<Rightarrow> (Inr (JObj [(''ended'', JBool False), (''note'', JStr ''unknown alias'')]), s))"

definition session_json :: "session_record \<Rightarrow> json" where
  "session_json r = JObj
    [(''id'', JStr (show_session_id (sr_id r))), (''agent'', JStr (sr_agent r)),
     (''project'', j_opt JStr (sr_project r)),
     (''state'', JStr (if sr_ended r \<noteq> None then ''ended'' else ''active'')),
     (''started_at'', j_u (sr_started r)), (''last_seen_at'', j_u (sr_last_seen r)),
     (''ended_at'', j_opt j_u (sr_ended r))]"

definition not_owned :: "pid \<Rightarrow> string \<Rightarrow> json" where
  "not_owned k note = JObj [(''pid'', j_u k), (''origin_session'', JNull), (''note'', JStr note)]"

definition srv_explain :: "server_world \<Rightarrow> pid \<Rightarrow> server \<Rightarrow> reply \<times> server" where
  "srv_explain w k s =
    (case current_boot w (srv_own s) of
       None \<Rightarrow> (Inl (Said ''boot''), s)
     | Some (b, st) \<Rightarrow>
         (let s' = s\<lparr>srv_own := st\<rparr> in
          case sw_scan w of
            None \<Rightarrow> (Inl (Said ''scan''), s')
          | Some ps \<Rightarrow>
              (case find (\<lambda>p. p_pid p = k) ps of
                 None \<Rightarrow> (Inr (not_owned k ''not running''), s')
               | Some p \<Rightarrow>
                   (case from_process b p of
                      None \<Rightarrow> (Inr (not_owned k ''no stable identity''), s')
                    | Some i \<Rightarrow>
                        (case explain_process (sw_pick w) b k (i_start i) st of
                           Inl e \<Rightarrow> (Inl (OwnFailed e), s')
                         | Inr (Some x) \<Rightarrow>
                             (Inr (JObj [(''pid'', j_u k), (''name'', JStr (proc_label p)),
                                         (''origin_session'', session_json (ex_session x)),
                                         (''owner_session_id'', JStr (show_session_id (ex_owner x)))]), s')
                         | Inr None \<Rightarrow>
                             (Inr (JObj [(''pid'', j_u k), (''name'', JStr (proc_label p)),
                                         (''origin_session'', JNull)]), s'))))))"

definition srv_get_session :: "json \<Rightarrow> server \<Rightarrow> json" where
  "srv_get_session req s =
    JObj [(''session'', j_opt session_json (session_record_of (session_arg (str_arg ''id'' req)) (srv_own s)))]"

section \<open>Dispatch\<close>

definition same :: "server \<Rightarrow> reply \<Rightarrow> reply \<times> server" where "same s r = (r, s)"

definition run_command :: "server_world \<Rightarrow> string \<Rightarrow> json \<Rightarrow> server \<Rightarrow> reply \<times> server" where
  "run_command w cmd req s =
    (if cmd = ''ping'' then
       same s (Inr (JObj [(''pong'', JBool True), (''version'', JStr (sw_version w)),
                          (''supervisor'', JStr (sv_identity (srv_sup s)))]))
     else if cmd = ''capabilities'' then
       same s (Inr (JObj [(''capabilities'', capabilities_json
                 (backend_capabilities (cx_macos (sw_ctx w)) (cx_cgroup (sw_ctx w))))]))
     else if cmd = ''get_capacity'' then
       same s (Inr (JObj [(''capacity'', capacity_json (capacity_now (sw_ctx w) (sw_caps w) (srv_sup s)))]))
     else if cmd = ''set_limits'' then srv_set_limits w req s
     else if cmd = ''start_run'' then srv_start_run w req s
     else if cmd = ''get_run'' then same s (srv_get_run w req s)
     else if cmd = ''read_run_output'' then same s (srv_read_output w req s)
     else if cmd = ''list_runs'' then same s (srv_list_runs w req s)
     else if cmd = ''cancel_run'' then srv_cancel_run w req s
     else if cmd = ''list_sessions'' then
       same s (Inr (JObj [(''sessions'', j_list session_json (own_sessions (srv_own s)))]))
     else if cmd = ''get_session'' then same s (Inr (srv_get_session req s))
     else if cmd = ''explain'' then srv_explain w (pid_arg req) s
     else if cmd = ''session_start'' then srv_session_start w req s
     else if cmd = ''session_end'' then srv_session_end w req s
     else same s (Inl (Said (''unknown command '' @ cmd))))"

text \<open>The text of an error is an argument.\<close>

definition reply_json :: "(server_error \<Rightarrow> string) \<Rightarrow> reply \<Rightarrow> json" where
  "reply_json say r =
    (case r of
       Inr data \<Rightarrow> JObj [(''ok'', JBool True), (''data'', data)]
     | Inl e \<Rightarrow> JObj [(''ok'', JBool False), (''error'', JStr (say e))])"

record json_text =
  jt_parse :: "string \<Rightarrow> json option"
  jt_print :: "json \<Rightarrow> string"
  jt_say :: "server_error \<Rightarrow> string"

definition dispatch :: "json_text \<Rightarrow> server_world \<Rightarrow> string \<Rightarrow> server \<Rightarrow> reply \<times> server" where
  "dispatch t w line s =
    (case jt_parse t (trim line) of
       None \<Rightarrow> (Inl BadJson, s)
     | Some req \<Rightarrow> run_command w (str_arg ''cmd'' req) req s)"

text \<open>One connection: the first line of at most \<open>MAX_REQUEST_BYTES\<close> bytes; nothing read is no
  answer.\<close>

definition first_line :: "string \<Rightarrow> string" where
  "first_line b =
    (let l = takeWhile (\<lambda>c. c \<noteq> CHR 0x0A) b in if length l < length b then l @ [CHR 0x0A] else l)"

definition handle_client :: "json_text \<Rightarrow> server_world \<Rightarrow> string \<Rightarrow> server \<Rightarrow> string option \<times> server" where
  "handle_client t w bytes s =
    (let line = first_line (take MAX_REQUEST_BYTES bytes)
     in if line = [] then (None, s)
        else (let (r, s') = dispatch t w line s
              in (Some (jt_print t (reply_json (jt_say t) r) @ [CHR 0x0A]), s')))"

section \<open>The client\<close>

text \<open>\<open>body["cmd"] = ...\<close> replaces the field or adds it.\<close>

fun put_field :: "string \<Rightarrow> json \<Rightarrow> (string \<times> json) list \<Rightarrow> (string \<times> json) list" where
  "put_field k v [] = [(k, v)]"
| "put_field k v ((k', v') # fs) = (if k = k' then (k, v) # fs else (k', v') # put_field k v fs)"

definition client_body :: "string \<Rightarrow> json \<Rightarrow> json" where
  "client_body cmd extra =
    JObj (put_field ''cmd'' (JStr cmd) (case extra of JObj fs \<Rightarrow> fs | _ \<Rightarrow> []))"

definition client_line :: "json_text \<Rightarrow> string \<Rightarrow> json \<Rightarrow> string" where
  "client_line t cmd extra = jt_print t (client_body cmd extra) @ [CHR 0x0A]"

datatype client_error = BadReply | Refusal string | BadView | NotFound

text \<open>A connection closed without an answer is read as the empty line.\<close>

definition client_answer :: "json_text \<Rightarrow> string option \<Rightarrow> client_error + json" where
  "client_answer t resp =
    (case jt_parse t (trim (case resp of Some r \<Rightarrow> first_line r | None \<Rightarrow> [])) of
       None \<Rightarrow> Inl BadReply
     | Some j \<Rightarrow>
         if Option.bind (json_get ''ok'' j) as_bool = Some True
         then Inr (or_default JNull (json_get ''data'' j))
         else Inl (Refusal (or_default ''unknown error'' (get_str ''error'' j))))"

definition client_request :: "json_text \<Rightarrow> server_world \<Rightarrow> string \<Rightarrow> json \<Rightarrow> server \<Rightarrow> (client_error + json) \<times> server"
  where
  "client_request t w cmd extra s =
    (let (resp, s') = handle_client t w (client_line t cmd extra) s in (client_answer t resp, s'))"

definition view_from :: "json \<Rightarrow> client_error + run_view" where
  "view_from data =
    (case read_run_view (or_default JNull (json_get ''run'' data)) of Some v \<Rightarrow> Inr v | None \<Rightarrow> Inl BadView)"

definition opt_view_from :: "json \<Rightarrow> client_error + run_view option" where
  "opt_view_from data =
    (case json_get ''run'' data of
       None \<Rightarrow> Inr None
     | Some j \<Rightarrow> if j = JNull then Inr None
                 else (case view_from data of Inl e \<Rightarrow> Inl e | Inr v \<Rightarrow> Inr (Some v)))"

definition env_json :: "(string \<times> string) list \<Rightarrow> json" where
  "env_json env = j_list (\<lambda>(k, v). JArr [JStr k, JStr v]) env"

definition client_start ::
  "json_text \<Rightarrow> server_world \<Rightarrow> run_spec \<Rightarrow> (string \<times> string) list \<Rightarrow> server \<Rightarrow> (client_error + run_view) \<times> server"
  where
  "client_start t w spec env s =
    (case client_request t w ''start_run'' (JObj [(''spec'', spec_json spec), (''env'', env_json env)]) s of
       (Inl e, s') \<Rightarrow> (Inl e, s')
     | (Inr data, s') \<Rightarrow> (view_from data, s'))"

definition client_get ::
  "json_text \<Rightarrow> server_world \<Rightarrow> run_id \<Rightarrow> int option \<Rightarrow> u64 \<Rightarrow> server \<Rightarrow> (client_error + run_view option) \<times> server"
  where
  "client_get t w i after wait s =
    (case client_request t w ''get_run''
            (JObj [(''run_id'', JStr (show_run_id i)), (''after_revision'', j_opt JInt after),
                   (''wait_ms'', j_u wait)]) s of
       (Inl e, s') \<Rightarrow> (Inl e, s')
     | (Inr data, s') \<Rightarrow> (opt_view_from data, s'))"

definition client_cancel ::
  "json_text \<Rightarrow> server_world \<Rightarrow> run_id \<Rightarrow> server \<Rightarrow> (client_error + run_view option) \<times> server" where
  "client_cancel t w i s =
    (case client_request t w ''cancel_run'' (JObj [(''run_id'', JStr (show_run_id i))]) s of
       (Inl e, s') \<Rightarrow> (Inl e, s')
     | (Inr data, s') \<Rightarrow> (opt_view_from data, s'))"

definition client_capacity :: "json_text \<Rightarrow> server_world \<Rightarrow> server \<Rightarrow> (client_error + capacity) \<times> server" where
  "client_capacity t w s =
    (case client_request t w ''get_capacity'' (JObj []) s of
       (Inl e, s') \<Rightarrow> (Inl e, s')
     | (Inr data, s') \<Rightarrow>
         (case read_capacity (or_default JNull (json_get ''capacity'' data)) of
            Some c \<Rightarrow> (Inr c, s') | None \<Rightarrow> (Inl BadView, s')))"

definition client_list :: "json_text \<Rightarrow> server_world \<Rightarrow> json \<Rightarrow> server \<Rightarrow> (client_error + run_view list) \<times> server"
  where
  "client_list t w f s =
    (case client_request t w ''list_runs'' (JObj [(''filter'', f)]) s of
       (Inl e, s') \<Rightarrow> (Inl e, s')
     | (Inr data, s') \<Rightarrow>
         (case read_list read_run_view (or_default (JArr []) (json_get ''runs'' data)) of
            Some vs \<Rightarrow> (Inr vs, s') | None \<Rightarrow> (Inl BadView, s')))"

definition client_output ::
  "json_text \<Rightarrow> server_world \<Rightarrow> run_id \<Rightarrow> stream \<Rightarrow> u64 \<Rightarrow> nat \<Rightarrow> server \<Rightarrow> (client_error + json) \<times> server" where
  "client_output t w i st cursor n s =
    client_request t w ''read_run_output''
      (JObj [(''run_id'', JStr (show_run_id i)), (''stream'', JStr (stream_as_str st)), (''cursor'', j_u cursor),
             (''max_bytes'', j_nat n)]) s"

definition client_set_limits :: "json_text \<Rightarrow> server_world \<Rightarrow> json \<Rightarrow> server \<Rightarrow> (client_error + capacity) \<times> server"
  where
  "client_set_limits t w l s =
    (case client_request t w ''set_limits'' (JObj [(''limits'', l)]) s of
       (Inl e, s') \<Rightarrow> (Inl e, s')
     | (Inr data, s') \<Rightarrow>
         (case read_capacity (or_default JNull (json_get ''capacity'' data)) of
            Some c \<Rightarrow> (Inr c, s') | None \<Rightarrow> (Inl BadView, s')))"

text \<open>Polling until the run has finished; \<open>poll k\<close> is the answer to the poll number \<open>k\<close>.
  \<open>None\<close> is still waiting after \<open>n\<close> polls.\<close>

fun wait_for_finish ::
  "(nat \<Rightarrow> int option \<Rightarrow> client_error + run_view option) \<Rightarrow> nat \<Rightarrow> nat \<Rightarrow> int option \<Rightarrow> (client_error + run_view) option"
  where
  "wait_for_finish poll 0 k rv = None"
| "wait_for_finish poll (Suc n) k rv =
    (case poll k rv of
       Inl e \<Rightarrow> Some (Inl e)
     | Inr None \<Rightarrow> Some (Inl NotFound)
     | Inr (Some v) \<Rightarrow>
         if v_state v = Finished then Some (Inr v) else wait_for_finish poll n (Suc k) (Some (v_revision v)))"

end
