(* ===== verification/Http.thy ===== *)
theory Http
  imports Server Source
begin

text \<open>
  The HTTP surface of the dashboard (\<open>src/web/mod.rs\<close>): reading a request, routing, the query
  string and the run filter in it.  A \<open>char\<close> is a byte; whether a line is UTF-8 and the lossy
  decoding of bytes are arguments.
\<close>

section \<open>Requests\<close>

record http_request =
  hq_method :: string
  hq_path :: string
  hq_length :: "nat option"
  hq_body :: string

definition request_default :: http_request where
  "request_default = \<lparr>hq_method = [], hq_path = [], hq_length = None, hq_body = []\<rparr>"

definition length_value :: "string \<Rightarrow> nat option" where "length_value v = parse_uint 64 (trim v)"

definition header_line :: "string \<Rightarrow> http_request \<Rightarrow> http_request" where
  "header_line line r =
    (if hq_method r = [] then
       (let ws = split_whitespace line
        in r\<lparr>hq_method := (case ws of m # _ \<Rightarrow> m | [] \<Rightarrow> []),
             hq_path := (case ws of _ # p # _ \<Rightarrow> p | _ \<Rightarrow> [])\<rparr>)
     else case strip_prefix line ''Content-Length:'' of
            Some v \<Rightarrow> r\<lparr>hq_length := length_value v\<rparr>
          | None \<Rightarrow>
              (case strip_prefix line ''content-length:'' of
                 Some v \<Rightarrow> r\<lparr>hq_length := length_value v\<rparr> | None \<Rightarrow> r))"

definition parse_request :: "string \<Rightarrow> http_request" where
  "parse_request head = foldl (\<lambda>r l. header_line l r) request_default (lines_of head)"

text \<open>The lines up to an empty one or the end of the input, and what follows; \<open>None\<close> for a line
  that is not UTF-8.\<close>

fun byte_lines :: "string \<Rightarrow> string list" where
  "byte_lines [] = []"
| "byte_lines (c # s) =
    (if c = CHR 0x0A then [c] # byte_lines s
     else case byte_lines s of
            [] \<Rightarrow> [[c]]
          | l # ls \<Rightarrow> (c # l) # ls)"

fun head_of :: "(string \<Rightarrow> bool) \<Rightarrow> string list \<Rightarrow> (string \<times> string) option" where
  "head_of ok [] = Some ([], [])"
| "head_of ok (l # ls) =
    (if \<not> ok l then None
     else if l = [CHR 0x0D, CHR 0x0A] \<or> l = [CHR 0x0A] then Some ([], concat ls)
     else map_option (\<lambda>(h, r). (l @ h, r)) (head_of ok ls))"

definition MAX_BODY :: nat where "MAX_BODY = 64 * 1024"

text \<open>A body of the announced length, cut at 64 KiB; one that is too short ends the connection.\<close>

definition read_request :: "(string \<Rightarrow> bool) \<Rightarrow> (string \<Rightarrow> string) \<Rightarrow> string \<Rightarrow> http_request option" where
  "read_request ok lossy bytes =
    (case head_of ok (byte_lines bytes) of
       None \<Rightarrow> None
     | Some (h, r) \<Rightarrow>
         (let q = parse_request h in
          case hq_length q of
            None \<Rightarrow> Some q
          | Some n \<Rightarrow>
              if length r < min n MAX_BODY then None
              else Some (q\<lparr>hq_body := lossy (take (min n MAX_BODY) r)\<rparr>)))"

section \<open>Routes\<close>

datatype route = Health | CapacityRoute | SnapshotRoute | SessionsList | SessionGet u64 | Items | Leftovers
  | Explain pid | RunsList | RunGet int | RunOutput int | RunCancelProposePost int | RunCancelPost int
  | ProposalPost | ConfirmPost | KillPost | DockerStopPost | DockerRemovePost | DockerPrunePost
  | StaticIndex | StaticAsset string | NoRoute

text \<open>\<open>trim_start_matches\<close>: the prefix is taken off as often as it is there.\<close>

function trim_prefixes :: "string \<Rightarrow> string \<Rightarrow> string" where
  "trim_prefixes p s = (if p \<noteq> [] \<and> starts_with s p then trim_prefixes p (drop (length p) s) else s)"
  by pat_completeness auto
termination
proof (relation "measure (\<lambda>(p, s). length s)")
  fix p s :: string
  assume "p \<noteq> [] \<and> starts_with s p"
  then show "((p, drop (length p) s), p, s) \<in> measure (\<lambda>(p, s). length s)"
    by (cases s) (auto simp: starts_with_def)
qed simp

declare trim_prefixes.simps [simp del]

definition bare_run_id :: "string \<Rightarrow> int option" where
  "bare_run_id path =
    (case strip_prefix path ''/api/runs/'' of
       None \<Rightarrow> None
     | Some rest \<Rightarrow> if CHR ''/'' \<in> set rest then None else parse_i64 rest)"

definition parse_run_id :: "string \<Rightarrow> int" where
  "parse_run_id path =
    or_default 0 (parse_i64 (hd (split_on (CHR ''/'') (trim_prefixes ''/api/runs/'' path))))"

definition route_path :: "string \<Rightarrow> string" where "route_path path = hd (split_on (CHR ''?'') path)"

definition get_route :: "string \<Rightarrow> route" where
  "get_route p =
    (if p = ''/api/health'' then Health
     else if p = ''/api/capacity'' then CapacityRoute
     else if p = ''/api/snapshot'' then SnapshotRoute
     else if p = ''/api/sessions'' then SessionsList
     else if starts_with p ''/api/sessions/'' then
       SessionGet (or_default 0 (parse_u64 (trim_prefixes ''/api/sessions/'' p)))
     else if p = ''/api/items'' then Items
     else if p = ''/api/leftovers'' then Leftovers
     else if starts_with p ''/api/explain/'' then
       Explain (or_default 0 (parse_u32 (trim_prefixes ''/api/explain/'' p)))
     else if p = ''/api/runs'' then RunsList
     else if starts_with p ''/api/runs/'' \<and> ends_with p ''/output'' then RunOutput (parse_run_id p)
     else if bare_run_id p \<noteq> None then RunGet (or_default 0 (bare_run_id p))
     else if p = ''/'' \<or> p = ''/index.html'' then StaticIndex
     else if starts_with p ''/assets/'' then StaticAsset p
     else NoRoute)"

definition post_route :: "string \<Rightarrow> route" where
  "post_route p =
    (if starts_with p ''/api/runs/'' \<and> ends_with p ''/cancel/propose'' then RunCancelProposePost (parse_run_id p)
     else if starts_with p ''/api/runs/'' \<and> ends_with p ''/cancel'' then RunCancelPost (parse_run_id p)
     else if p = ''/api/proposal'' then ProposalPost
     else if p = ''/api/confirm'' then ConfirmPost
     else if p = ''/api/kill'' then KillPost
     else if p = ''/api/docker/stop'' then DockerStopPost
     else if p = ''/api/docker/remove'' then DockerRemovePost
     else if p = ''/api/docker/prune'' then DockerPrunePost
     else NoRoute)"

definition match_route :: "string \<Rightarrow> string \<Rightarrow> route" where
  "match_route meth path =
    (if meth = ''GET'' then get_route (route_path path)
     else if meth = ''POST'' then post_route (route_path path)
     else NoRoute)"

section \<open>The query string\<close>

text \<open>A plus sign is a space, a percent sign with two hexadecimal digits a byte, any other percent sign
  itself.\<close>

fun percent_bytes :: "string \<Rightarrow> string" where
  "percent_bytes [] = []"
| "percent_bytes [c] = [if c = CHR ''+'' then CHR '' '' else c]"
| "percent_bytes [c, d] = (if c = CHR ''+'' then CHR '' '' else c) # percent_bytes [d]"
| "percent_bytes (c # h # l # s) =
    (if c = CHR ''+'' then CHR '' '' # percent_bytes (h # l # s)
     else if c = CHR ''%'' then
       (case (hex_val h, hex_val l) of
          (Some a, Some b) \<Rightarrow> char_of (a * 16 + b) # percent_bytes s
        | _ \<Rightarrow> c # percent_bytes (h # l # s))
     else c # percent_bytes (h # l # s))"

definition percent_decode :: "(string \<Rightarrow> string) \<Rightarrow> string \<Rightarrow> string" where
  "percent_decode lossy s = lossy (percent_bytes s)"

definition query_pair :: "string \<Rightarrow> string \<times> string" where
  "query_pair pair = (case split_once (CHR ''='') pair of Some kv \<Rightarrow> kv | None \<Rightarrow> (pair, []))"

definition query_param :: "(string \<Rightarrow> string) \<Rightarrow> string \<Rightarrow> string \<Rightarrow> string option" where
  "query_param lossy path key =
    (case split_once (CHR ''?'') path of
       None \<Rightarrow> None
     | Some (_, query) \<Rightarrow>
         map_option (\<lambda>kv. percent_decode lossy (snd kv))
           (find (\<lambda>kv. fst kv = key) (map query_pair (split_on (CHR ''&'') query))))"

definition run_filter_from_query :: "(string \<Rightarrow> string) \<Rightarrow> string \<Rightarrow> run_filter" where
  "run_filter_from_query lossy path =
    \<lparr>rf_project = query_param lossy path ''project'',
     rf_session = map_option session_arg (query_param lossy path ''session''),
     rf_state = Option.bind (query_param lossy path ''state'') state_parse,
     rf_limit = Option.bind (query_param lossy path ''limit'') (parse_uint 64)\<rparr>"

end
