(* ===== verification/Web_Views.thy ===== *)
theory Web_Views
  imports Http Leftovers
begin

text \<open>
  The JSON views of the dashboard (\<open>src/web/mod.rs\<close>) and the cleanup proposal
  (\<open>src/web/proposal.rs\<close>).  CPU figures are floating-point numbers of the scanner: they and the
  text of an IPv6 address are arguments.  Sums of bytes wrap, as in the release build.
\<close>

record figures =
  fg_cpu :: string
  fg_item_cpu :: "runtime_item \<Rightarrow> string"
  fg_category_cpu :: "category \<Rightarrow> string"
  fg_v6 :: "u16 list \<Rightarrow> string"

section \<open>Items\<close>

definition reason_explanation :: "suspicion_reason \<Rightarrow> string" where
  "reason_explanation r =
    (case r of
       ParentExited \<Rightarrow> ''The original parent is gone or the process was re-parented. It may have outlived the process that launched it.''
     | OwningAgentMissing \<Rightarrow> ''WYD can no longer find the agent associated with this runtime.''
     | McpOwnerMissing \<Rightarrow> ''This MCP server is still running but no owning agent is currently present.''
     | HeadlessBrowserDetached \<Rightarrow> ''A headless browser is still running after its controller or owning runtime disappeared.''
     | LongRunningDevServer \<Rightarrow> ''This dev server has been running longer than the configured leftover threshold.''
     | LongRunningWorker \<Rightarrow> ''This background worker has been running longer than the configured leftover threshold.''
     | SessionOwnerEnded \<Rightarrow> ''WYD previously observed this resource under a runtime session that has ended, but the resource is still alive.'')"

definition status_str :: "runtime_state \<Rightarrow> string" where
  "status_str s = (case s of Active \<Rightarrow> ''active'' | Persistent \<Rightarrow> ''persistent'' | Suspicious \<Rightarrow> ''suspicious'')"

definition times_sign :: string where "times_sign = utf8 [0xc3, 0x97]"

definition ports_what :: "string \<Rightarrow> string \<Rightarrow> listening_port list \<Rightarrow> string" where
  "ports_what bare tag ps =
    (case ps of [] \<Rightarrow> bare | [p] \<Rightarrow> tag @ '' :'' @ show_nat (unat (lp_port p))
     | _ \<Rightarrow> tag @ '' '' @ times_sign @ show_nat (length ps))"

definition item_what :: "runtime_item \<Rightarrow> string" where
  "item_what i =
    (case ri_category i of
       Agent \<Rightarrow> ''agent'' | Mcp \<Rightarrow> ''mcp'' | Browser \<Rightarrow> ''browser'' | LanguageServer \<Rightarrow> ''ls''
     | DevService \<Rightarrow> ''service'' | Worker \<Rightarrow> ''worker'' | UnknownDev \<Rightarrow> ''dev''
     | DevServer \<Rightarrow> ports_what ''server'' ''srv'' (ri_ports i)
     | Database \<Rightarrow> ports_what ''db'' ''db'' (ri_ports i))"

definition show_addr :: "(u16 list \<Rightarrow> string) \<Rightarrow> ip_addr \<Rightarrow> string" where
  "show_addr v6 a =
    (case a of V4 x y z w \<Rightarrow> join_with ''.'' (map (\<lambda>b. show_nat (unat b)) [x, y, z, w]) | V6 gs \<Rightarrow> v6 gs)"

definition port_json :: "figures \<Rightarrow> listening_port \<Rightarrow> json" where
  "port_json f p = JObj
    [(''port'', j_u (lp_port p)), (''protocol'', JStr (protocol_as_str (lp_protocol p))),
     (''address'', JStr (show_addr (fg_v6 f) (lp_address p))), (''pid'', j_u (lp_pid p))]"

definition item_reasons :: "runtime_item \<Rightarrow> suspicion_reason list" where
  "item_reasons i = (case ri_suspicion i of Some s \<Rightarrow> sus_reasons s | None \<Rightarrow> [])"

definition hex16 :: "u64 \<Rightarrow> string" where "hex16 n = hex_digits 16 (unat n)"

definition item_fields :: "figures \<Rightarrow> (pid \<Rightarrow> u64 option) \<Rightarrow> u64 \<Rightarrow> process_info list \<Rightarrow> runtime_item
    \<Rightarrow> (string \<times> json) list" where
  "item_fields f sids now ps i =
    (let proc = Option.bind (ri_root i) (by_pid ps) in
     [(''category'', JStr (category_label (ri_category i))), (''what'', JStr (item_what i)),
      (''name'', JStr (ri_display i)), (''title'', JStr (item_title i)), (''verdict'', JStr (verdict i)),
      (''root_pid'', j_opt j_u (ri_root i)), (''ppid'', j_opt j_u (Option.bind proc p_parent)),
      (''cmd'', j_list JStr (case proc of Some p \<Rightarrow> p_command p | None \<Rightarrow> [])),
      (''cwd'', j_opt JStr (Option.bind proc p_cwd)), (''tty'', j_opt JStr (Option.bind proc p_tty)),
      (''session_id'', j_opt (\<lambda>s. JStr (hex16 s)) (Option.bind (ri_root i) sids)),
      (''memory_bytes'', j_u (ri_memory i)), (''cpu_percent'', JFloat (fg_item_cpu f i)),
      (''age_seconds'', j_opt (\<lambda>p. j_u (sat_sub now (p_start_time p))) proc),
      (''status'', JStr (status_str (ri_state i))),
      (''score'', j_opt (\<lambda>s. j_u (sus_score s)) (ri_suspicion i)),
      (''reasons'', j_list (\<lambda>r. JStr (reason_as_str r)) (item_reasons i)),
      (''explanations'', j_list (\<lambda>r. JStr (reason_explanation r)) (item_reasons i)),
      (''ports'', j_list (port_json f) (ri_ports i)),
      (''project'', j_opt (\<lambda>p. JStr (pr_root p)) (ri_project i))])"

fun item_json :: "figures \<Rightarrow> (pid \<Rightarrow> u64 option) \<Rightarrow> u64 \<Rightarrow> process_info list \<Rightarrow> runtime_item \<Rightarrow> json" where
  "item_json f sids now ps (RuntimeItem c n rt ids m st su po pj ch) =
    JObj (item_fields f sids now ps (RuntimeItem c n rt ids m st su po pj ch)
      @ [(''children'', JArr (map (item_json f sids now ps) ch))])"

definition items_json :: "figures \<Rightarrow> (pid \<Rightarrow> u64 option) \<Rightarrow> u64 \<Rightarrow> runtime_snapshot \<Rightarrow> json list" where
  "items_json f sids now snap = map (item_json f sids now (sp_processes snap)) (sp_items snap)"

definition leftover_items :: "figures \<Rightarrow> (pid \<Rightarrow> u64 option) \<Rightarrow> u64 \<Rightarrow> runtime_snapshot \<Rightarrow> json list" where
  "leftover_items f sids now snap =
    filter (\<lambda>v. get_str ''status'' v = Some ''suspicious'') (items_json f sids now snap)"

text \<open>The order in which the walks visit an item and the items below it.\<close>

fun walk_order :: "runtime_item \<Rightarrow> runtime_item list" where
  "walk_order (RuntimeItem c n rt ids m st su po pj ch) =
    RuntimeItem c n rt ids m st su po pj ch # concat (map walk_order ch)"

definition all_items :: "runtime_item list \<Rightarrow> runtime_item list" where
  "all_items items = concat (map walk_order items)"

text \<open>Ownership of the items: from the store, or from the agents of the demo data.\<close>

definition session_map :: "(pid \<Rightarrow> session_id option) \<Rightarrow> runtime_snapshot \<Rightarrow> pid \<Rightarrow> u64 option" where
  "session_map look snap =
    foldl (\<lambda>m i. case ri_root i of
                   Some k \<Rightarrow> (case look k of Some s \<Rightarrow> m(k \<mapsto> sid_u64 s) | None \<Rightarrow> m)
                 | None \<Rightarrow> m) Map.empty (all_items (sp_items snap))"

definition agent_sids :: "session_info list \<Rightarrow> string \<Rightarrow> u64 option" where
  "agent_sids ss = map_of (rev (map (\<lambda>s. (si_agent s, sid_u64 (si_id s))) ss))"

fun demo_walk :: "(string \<Rightarrow> u64 option) \<Rightarrow> u64 option \<Rightarrow> (pid \<Rightarrow> u64 option) \<Rightarrow> runtime_item \<Rightarrow> (pid \<Rightarrow> u64 option)" where
  "demo_walk agents inherited m (RuntimeItem c n rt ids me st su po pj ch) =
    (let sid = (if c = Agent then (case agents n of Some s \<Rightarrow> Some s | None \<Rightarrow> inherited) else inherited);
         m' = (case (rt, sid) of (Some k, Some s) \<Rightarrow> m(k \<mapsto> s) | _ \<Rightarrow> m)
     in foldl (demo_walk agents sid) m' ch)"

definition demo_session_map :: "session_info list \<Rightarrow> runtime_snapshot \<Rightarrow> pid \<Rightarrow> u64 option" where
  "demo_session_map ss snap = foldl (demo_walk (agent_sids ss) None) Map.empty (sp_items snap)"

section \<open>The overview\<close>

fun count_ports :: "runtime_item \<Rightarrow> nat" where
  "count_ports (RuntimeItem c n rt ids m st su po pj ch) = length po + sum_list (map count_ports ch)"

definition count_projects :: "runtime_item list \<Rightarrow> nat" where
  "count_projects items =
    length (remdups (map pr_name (List.map_filter ri_project (all_items items))))"

text \<open>The categories in the order of their labels, the keys of a sorted map.\<close>

definition category_order :: "category list" where
  "category_order = [Agent, Browser, Database, DevServer, DevService, LanguageServer, Mcp, UnknownDev, Worker]"

definition in_category :: "category \<Rightarrow> runtime_item list \<Rightarrow> runtime_item list" where
  "in_category c items = filter (\<lambda>i. ri_category i = c) (all_items items)"

definition memory_sum :: "runtime_item list \<Rightarrow> u64" where
  "memory_sum items = sum_list (map ri_memory items)"

definition overview_json :: "figures \<Rightarrow> runtime_snapshot \<Rightarrow> json" where
  "overview_json f snap =
    (let items = all_items (sp_items snap);
         sus = filter (\<lambda>i. ri_state i = Suspicious) items
     in JObj
       [(''total_items'', j_nat (length items)), (''total_memory_bytes'', j_u (memory_sum items)),
        (''suspicious'', j_u (of_nat (length sus) :: u32)), (''leftover_memory_bytes'', j_u (memory_sum sus)),
        (''ports'', j_nat (sum_list (map count_ports (sp_items snap)))),
        (''projects'', j_nat (count_projects (sp_items snap))),
        (''categories'', j_list (\<lambda>c. JObj
            [(''category'', JStr (category_label c)), (''count'', j_nat (length (in_category c (sp_items snap)))),
             (''memory_bytes'', j_u (memory_sum (in_category c (sp_items snap)))),
             (''cpu_percent'', JFloat (fg_category_cpu f c))])
          (filter (\<lambda>c. in_category c (sp_items snap) \<noteq> []) category_order))])"

definition docker_kind_debug :: "docker_kind \<Rightarrow> string" where
  "docker_kind_debug k =
    (case k of Container \<Rightarrow> ''Container'' | DanglingImage \<Rightarrow> ''DanglingImage'' | Volume \<Rightarrow> ''Volume''
     | BuildCache \<Rightarrow> ''BuildCache'')"

definition docker_json :: "docker_snapshot \<Rightarrow> json" where
  "docker_json d = JObj
    [(''ok'', JBool (ds_ok d)), (''note'', JStr (ds_note d)), (''disk_bytes'', j_u (ds_disk d)),
     (''reclaimable_bytes'', j_u (ds_reclaimable d)),
     (''resources'', j_list (\<lambda>r. JObj
       [(''kind'', JStr (docker_kind_debug (d_kind r))), (''kind_label'', JStr (docker_kind_label (d_kind r))),
        (''id'', JStr (d_id r)), (''name'', JStr (d_name r)), (''detail'', JStr (d_detail r)),
        (''size_bytes'', j_u (d_size r)), (''compose'', j_opt JStr (d_compose r)),
        (''anonymous'', JBool (d_anonymous r)), (''persistent'', JBool (d_persistent r)),
        (''running'', JBool (docker_running r)), (''created'', JInt (d_created r))]) (ds_resources d))]"

section \<open>Sessions\<close>

definition session_info_of :: "session_record \<Rightarrow> session_info" where
  "session_info_of r = \<lparr>si_id = sr_id r, si_agent = sr_agent r, si_project = sr_project r,
     si_active = (sr_ended r = None), si_started = sr_started r\<rparr>"

definition session_info_json :: "u64 \<Rightarrow> session_info \<Rightarrow> json" where
  "session_info_json now s =
    (let ended = (if si_active s then None else Some (si_started s)) in JObj
     [(''id'', JStr (hex16 (sid_u64 (si_id s)))), (''agent'', JStr (si_agent s)),
      (''project'', j_opt JStr (si_project s)), (''started_at'', j_u (si_started s)),
      (''ended_at'', j_opt j_u ended), (''active'', JBool (si_active s)),
      (''age_seconds'', j_u (sat_sub (or_default now ended) (si_started s)))])"

definition session_record_json :: "u64 \<Rightarrow> session_record \<Rightarrow> json" where
  "session_record_json now r = JObj
    [(''id'', JStr (hex16 (sid_u64 (sr_id r)))), (''agent'', JStr (sr_agent r)),
     (''project'', j_opt JStr (sr_project r)), (''started_at'', j_u (sr_started r)),
     (''ended_at'', j_opt j_u (sr_ended r)), (''active'', JBool (sr_ended r = None)),
     (''age_seconds'', j_u (sat_sub (or_default now (sr_ended r)) (sr_started r)))]"

section \<open>The cleanup proposal\<close>

definition flat_item :: "figures \<Rightarrow> runtime_item \<Rightarrow> json" where
  "flat_item f i = JObj
    [(''category'', JStr (category_label (ri_category i))), (''name'', JStr (ri_display i)),
     (''title'', JStr (item_title i)), (''root_pid'', j_opt j_u (ri_root i)),
     (''memory_bytes'', j_u (ri_memory i)), (''cpu_percent'', JFloat (fg_item_cpu f i)),
     (''status'', JStr (status_str (ri_state i))),
     (''ports'', j_list (\<lambda>p. j_u (lp_port p)) (ri_ports i)),
     (''project'', j_opt (\<lambda>p. JStr (pr_root p)) (ri_project i))]"

definition flat_items :: "figures \<Rightarrow> runtime_snapshot \<Rightarrow> json list" where
  "flat_items f snap = map (flat_item f) (all_items (sp_items snap))"

definition persistent_names :: "string list" where
  "persistent_names = [''postgres'', ''redis'', ''mysql'', ''mariadb'', ''mongo'', ''mongodb'']"

definition is_persistent :: "json \<Rightarrow> bool" where
  "is_persistent v \<longleftrightarrow> get_str ''status'' v = Some ''persistent''
     \<or> to_ascii_lowercase (or_default [] (get_str ''name'' v)) \<in> set persistent_names"

definition matches_scope :: "json \<Rightarrow> string \<Rightarrow> string \<Rightarrow> bool" where
  "matches_scope v scope target =
    (if scope = ''leftovers'' then get_str ''status'' v = Some ''suspicious''
     else if scope = ''agent'' then eq_ignore_ascii_case (or_default [] (get_str ''category'' v)) target
     else False)"

text \<open>Selected, excluded, bytes.\<close>

fun choose_items :: "string \<Rightarrow> string \<Rightarrow> json list \<Rightarrow> json list \<times> json list \<times> u64 \<Rightarrow> json list \<times> json list \<times> u64" where
  "choose_items scope target [] acc = acc"
| "choose_items scope target (v # vs) (sel, exc, n) =
    choose_items scope target vs
      (if is_persistent v then
         (sel, exc @ [JObj [(''name'', or_default JNull (json_get ''name'' v)), (''reason'', JStr ''persistent'')]], n)
       else if matches_scope v scope target then
         (sel @ [v], exc, n + or_default 0 (get_u64 ''memory_bytes'' v))
       else (sel, exc, n))"

definition build_proposal :: "figures \<Rightarrow> json \<Rightarrow> runtime_snapshot \<Rightarrow> json" where
  "build_proposal f req snap =
    (let scope = or_default ''leftovers'' (get_str ''scope'' req);
         target = or_default [] (get_str ''id'' req);
         (sel, exc, n) = choose_items scope target (flat_items f snap) ([], [], 0)
     in JObj
       [(''scope'', JStr scope), (''target'', JStr target), (''snapshot_version'', j_u (sp_version snap)),
        (''selected'', JArr sel), (''excluded'', JArr exc), (''reclaim_bytes'', j_u n),
        (''selected_count'', j_nat (length sel)), (''excluded_count'', j_nat (length exc)),
        (''safe'', JBool (list_all (\<lambda>v. json_get ''status'' v = Some (JStr ''suspicious'')) sel))])"

end
