(* ===== verification/Web.thy ===== *)
theory Web
  imports Web_Views Actions
begin

text \<open>
  The dashboard's handlers (\<open>src/web/mod.rs\<close>) and the Docker actions behind them
  (\<open>src/actions/docker.rs\<close>): one request is one step on the token and the stored proposals, with a
  reply and a list of effects on the machine.  The data a request reads (the provider), the JSON parser, the
  clock, the live processes, the results of signals and of the Docker engine are arguments; a provider that
  is asked twice during one request gives the same answer.
\<close>

section \<open>Effects\<close>

datatype docker_call = StopContainer string | StartContainer string | RestartContainer string
  | RemoveContainer string | RemoveImage string | RemoveVolume string | PruneBuild

definition stop_call :: "docker_resource \<Rightarrow> docker_call" where "stop_call r = StopContainer (d_id r)"

definition remove_call :: "docker_resource \<Rightarrow> docker_call" where
  "remove_call r =
    (case d_kind r of Container \<Rightarrow> RemoveContainer (d_id r) | DanglingImage \<Rightarrow> RemoveImage (d_id r)
     | Volume \<Rightarrow> RemoveVolume (d_id r) | BuildCache \<Rightarrow> PruneBuild)"

text \<open>The engine: reachable or not, and the error of a call.\<close>

record docker_engine =
  de_connect :: "string option"
  de_result :: "docker_call \<Rightarrow> string option"

definition docker_do :: "docker_engine \<Rightarrow> docker_call \<Rightarrow> string option \<times> docker_call list" where
  "docker_do e c = (case de_connect e of Some err \<Rightarrow> (Some err, []) | None \<Rightarrow> (de_result e c, [c]))"

text \<open>The volumes shown, one by one; a failing removal is not counted and the size is not known.\<close>

definition prune_anonymous :: "docker_engine \<Rightarrow> string list \<Rightarrow> (string + u32 \<times> u64) \<times> docker_call list" where
  "prune_anonymous e ids =
    (case de_connect e of
       Some err \<Rightarrow> (Inl err, [])
     | None \<Rightarrow>
         (Inr (of_nat (length (filter (\<lambda>i. de_result e (RemoveVolume i) = None) ids)), 0),
          map RemoveVolume ids))"

datatype web_effect = Signalled pid Actions.signal | Docker docker_call | CancelRun run_id

section \<open>Providers\<close>

datatype io_error = IoNotFound string | IoOther string

record provider =
  pv_mode :: string
  pv_snapshot :: runtime_snapshot
  pv_explain :: "pid \<Rightarrow> json option"
  pv_sessions :: "session_info list"
  pv_session_record :: "u64 \<Rightarrow> session_record option"
  pv_session_map :: "pid \<Rightarrow> u64 option"
  pv_runs :: "run_filter \<Rightarrow> run_view list"
  pv_run :: "run_id \<Rightarrow> run_view option"
  pv_capacity :: capacity
  pv_output :: "run_id \<Rightarrow> stream \<Rightarrow> u64 \<Rightarrow> nat \<Rightarrow> io_error + json"
  pv_cancel :: "run_id \<Rightarrow> string + run_view option"

text \<open>What the local provider asks: the published snapshot, the store if it opens, and a supervisor if
  one answers.\<close>

record local_world =
  lw_snapshot :: "runtime_snapshot option"
  lw_explain :: "pid \<Rightarrow> reply"
  lw_own :: "own_store option"
  lw_pick :: "int list \<Rightarrow> int"
  lw_store :: "run_store option"
  lw_alive :: bool
  lw_list :: "json \<Rightarrow> client_error + run_view list"
  lw_capacity :: "client_error + capacity"
  lw_cancel :: "run_id \<Rightarrow> string + run_view option"
  lw_limits :: limits
  lw_macos :: bool
  lw_cgroup :: bool
  lw_file :: "run_id \<Rightarrow> stream \<Rightarrow> io_error + u8 list option"
  lw_lossy :: "u8 list \<Rightarrow> string"

definition snapshot_default :: runtime_snapshot where
  "snapshot_default = \<lparr>sp_items = [], sp_processes = [], sp_docker = docker_default, sp_total_memory = 0,
     sp_used_memory = 0, sp_sessions = [], sp_version = 0\<rparr>"

definition filter_query :: "run_filter \<Rightarrow> json" where
  "filter_query f = JObj
    [(''state'', j_opt (\<lambda>s. JStr (state_as_str s)) (rf_state f)), (''project'', j_opt JStr (rf_project f)),
     (''session'', j_opt (\<lambda>s. JStr (show_session_id s)) (rf_session f)), (''limit'', j_opt j_nat (rf_limit f))]"

definition stored_runs :: "local_world \<Rightarrow> run_filter \<Rightarrow> run_view list" where
  "stored_runs w f =
    (case lw_store w of
       None \<Rightarrow> []
     | Some st \<Rightarrow> (case run_list f st of Inl _ \<Rightarrow> [] | Inr rs \<Rightarrow> map (view_from_record (lw_macos w) (lw_cgroup w)) rs))"

definition local_runs :: "local_world \<Rightarrow> run_filter \<Rightarrow> run_view list" where
  "local_runs w f =
    (if lw_alive w then (case lw_list w (filter_query f) of Inr vs \<Rightarrow> vs | Inl _ \<Rightarrow> stored_runs w f)
     else stored_runs w f)"

definition local_run :: "local_world \<Rightarrow> run_id \<Rightarrow> run_view option" where
  "local_run w i =
    (case lw_store w of
       None \<Rightarrow> None
     | Some st \<Rightarrow> (case run_get i st of Inr (Some r) \<Rightarrow> Some (view_from_record (lw_macos w) (lw_cgroup w) r) | _ \<Rightarrow> None))"

definition idle_capacity :: "local_world \<Rightarrow> capacity" where
  "idle_capacity w =
    (let l = limits_summary (lw_limits w) in
     \<lparr>c_limits = l, c_running = 0, c_queued = 0, c_slots_free = ls_max_parallel l, c_reserved = 0,
      c_projects = [], c_queue = [], c_over_parallel = False, c_aggregate_memory = None, c_aggregate_cpu = None,
      c_aggregate_pids = None,
      c_reservation_note = ''no supervisor running: configured limits only, no reservations held'',
      c_capabilities = backend_capabilities (lw_macos w) (lw_cgroup w)\<rparr>)"

definition local_capacity :: "local_world \<Rightarrow> capacity" where
  "local_capacity w =
    (if lw_alive w then (case lw_capacity w of Inr c \<Rightarrow> c | Inl _ \<Rightarrow> idle_capacity w) else idle_capacity w)"

definition local_output :: "local_world \<Rightarrow> run_id \<Rightarrow> stream \<Rightarrow> u64 \<Rightarrow> nat \<Rightarrow> io_error + json" where
  "local_output w i s cursor n =
    (case lw_store w of
       None \<Rightarrow> Inl (IoOther ''store'')
     | Some st \<Rightarrow>
         (case run_get i st of
            Inl _ \<Rightarrow> Inl (IoOther ''store'')
          | Inr None \<Rightarrow> Inl (IoNotFound (''run '' @ show_run_id i @ '' not found''))
          | Inr (Some r) \<Rightarrow>
              (case lw_file w i s of
                 Inl e \<Rightarrow> Inl e
               | Inr file \<Rightarrow>
                   Inr (chunk_json s ((read_chunk (lw_lossy w) file cursor n)
                     \<lparr>ck_truncated := (case s of Stdout \<Rightarrow> stdout_truncated (rec_logs r)
                                       | Stderr \<Rightarrow> stderr_truncated (rec_logs r))\<rparr>)))))"

definition local_provider :: "local_world \<Rightarrow> provider" where
  "local_provider w =
    (let snap = (case lw_snapshot w of Some s \<Rightarrow> s | None \<Rightarrow> snapshot_default) in
     \<lparr>pv_mode = ''local'', pv_snapshot = snap,
      pv_explain = (\<lambda>k. case lw_explain w k of Inr j \<Rightarrow> Some j | Inl _ \<Rightarrow> None),
      pv_sessions = (case lw_own w of None \<Rightarrow> [] | Some st \<Rightarrow> map session_info_of (own_sessions st)),
      pv_session_record = (\<lambda>n. Option.bind (lw_own w) (session_record_of (SessionId n))),
      pv_session_map = (case lw_own w of None \<Rightarrow> Map.empty
        | Some st \<Rightarrow> session_map (\<lambda>k. session_for_root_pid (lw_pick w) k st) snap),
      pv_runs = local_runs w, pv_run = local_run w, pv_capacity = local_capacity w,
      pv_output = local_output w, pv_cancel = lw_cancel w\<rparr>)"

text \<open>The demo provider over its synthetic data.\<close>

record demo_data =
  dd_snapshot :: runtime_snapshot
  dd_explain :: "pid \<Rightarrow> json option"
  dd_sessions :: "session_info list"
  dd_record :: "u64 \<Rightarrow> session_record option"
  dd_runs :: "run_view list"
  dd_run :: "int \<Rightarrow> run_view option"
  dd_capacity :: capacity
  dd_output :: "int \<Rightarrow> stream \<Rightarrow> u64 \<Rightarrow> nat \<Rightarrow> json option"
  dd_cancel :: "int \<Rightarrow> run_view option"

definition demo_runs :: "demo_data \<Rightarrow> run_filter \<Rightarrow> run_view list" where
  "demo_runs d f =
    take (min (max (or_default 200 (rf_limit f)) 1) 1000)
      (filter (\<lambda>v. (case rf_state f of None \<Rightarrow> True | Some s \<Rightarrow> v_state v = s)
                  \<and> (case rf_project f of None \<Rightarrow> True | Some p \<Rightarrow> v_project_root v = Some p)
                  \<and> (case rf_session f of None \<Rightarrow> True | Some s \<Rightarrow> v_session_id v = Some (hex16 (sid_u64 s))))
        (dd_runs d))"

definition demo_provider :: "demo_data \<Rightarrow> provider" where
  "demo_provider d =
    \<lparr>pv_mode = ''demo'', pv_snapshot = dd_snapshot d, pv_explain = dd_explain d, pv_sessions = dd_sessions d,
     pv_session_record = dd_record d, pv_session_map = demo_session_map (dd_sessions d) (dd_snapshot d),
     pv_runs = demo_runs d, pv_run = (\<lambda>i. dd_run d (run_id_int i)), pv_capacity = dd_capacity d,
     pv_output = (\<lambda>i s c n. case dd_output d (run_id_int i) s c n of Some j \<Rightarrow> Inr j
                   | None \<Rightarrow> Inl (IoNotFound (''run '' @ show_run_id i @ '' not found''))),
     pv_cancel = (\<lambda>i. Inr (dd_cancel d (run_id_int i)))\<rparr>"

section \<open>State, world and replies\<close>

record web_state =
  ws_csrf :: string
  ws_proposals :: "string \<Rightarrow> json option"

definition web_new :: "string \<Rightarrow> web_state" where
  "web_new token = \<lparr>ws_csrf = token, ws_proposals = Map.empty\<rparr>"

record web_world =
  ww_provider :: provider
  ww_parse :: "string \<Rightarrow> json option"
  ww_lossy :: "string \<Rightarrow> string"
  ww_now :: u64
  ww_live :: live_starts
  ww_kill :: "pid \<Rightarrow> kill_result"
  ww_engine :: docker_engine
  ww_figures :: figures
  ww_index :: string
  ww_app_js :: string
  ww_styles :: string

datatype web_body = JsonBody json | ByteBody string

record web_reply =
  wr_status :: nat
  wr_type :: string
  wr_body :: web_body

definition json_reply :: "nat \<Rightarrow> json \<Rightarrow> web_reply" where
  "json_reply n j = \<lparr>wr_status = n, wr_type = ''application/json'', wr_body = JsonBody j\<rparr>"

definition ok_reply :: "json \<Rightarrow> web_reply" where
  "ok_reply j = json_reply 200 (JObj [(''ok'', JBool True), (''data'', j)])"

definition err_reply :: "nat \<Rightarrow> string \<Rightarrow> web_reply" where
  "err_reply n e = json_reply n (JObj [(''ok'', JBool False), (''error'', JStr e)])"

definition not_found :: web_reply where "not_found = err_reply 404 ''not found''"

text \<open>\<open>str::replace\<close>, from left to right.\<close>

function replace_all :: "string \<Rightarrow> string \<Rightarrow> string \<Rightarrow> string" where
  "replace_all pat new [] = []"
| "replace_all pat new (c # s) =
    (if pat \<noteq> [] \<and> starts_with (c # s) pat then new @ replace_all pat new (drop (length pat) (c # s))
     else c # replace_all pat new s)"
  by pat_completeness auto
termination
proof (relation "measure (\<lambda>(p, b, s). length s)")
  fix pat new s :: string and c
  assume "pat \<noteq> [] \<and> starts_with (c # s) pat"
  then show "((pat, new, drop (length pat) (c # s)), pat, new, c # s) \<in> measure (\<lambda>(p, b, s). length s)"
    by (cases pat) auto
qed auto

section \<open>Handlers\<close>

type_synonym outcome3 = "web_reply \<times> web_state \<times> web_effect list"

definition csrf_ok :: "web_world \<Rightarrow> http_request \<Rightarrow> string \<Rightarrow> bool" where
  "csrf_ok w q token =
    (case ww_parse w (hq_body q) of None \<Rightarrow> False | Some v \<Rightarrow> get_str ''csrf'' v = Some token)"

definition is_demo :: "web_world \<Rightarrow> bool" where "is_demo w \<longleftrightarrow> pv_mode (ww_provider w) = ''demo''"

fun hex_nat :: "nat \<Rightarrow> string" where
  "hex_nat n = (if n < 16 then [hex_char n] else hex_nat (n div 16) @ [hex_char (n mod 16)])"

declare hex_nat.simps [simp del]

definition hex_u64 :: "u64 \<Rightarrow> string" where "hex_u64 n = hex_nat (unat n)"

text \<open>A negative id prints as its two's complement.\<close>

definition hex_i64 :: "int \<Rightarrow> string" where "hex_i64 i = hex_u64 (word_of_int i)"

definition proposal_response :: "web_world \<Rightarrow> http_request \<Rightarrow> web_state \<Rightarrow> outcome3" where
  "proposal_response w q st =
    (case ww_parse w (hq_body q) of
       None \<Rightarrow> (err_reply 400 ''bad json'', st, [])
     | Some body \<Rightarrow>
         (let snap = pv_snapshot (ww_provider w);
              prop = build_proposal (ww_figures w) body snap;
              i = ''prop-'' @ hex_u64 (sp_version snap) @ ''-'' @ hex_u64 (ww_now w)
          in (ok_reply (JObj [(''id'', JStr i), (''proposal'', prop), (''snapshot_version'', j_u (sp_version snap))]),
              st\<lparr>ws_proposals := (ws_proposals st)(i \<mapsto> prop)\<rparr>, [])))"

definition confirm_note :: string where
  "confirm_note = ''Phase 1: confirm returns the proposal but performs no actions; real confirm lands with Phase 4 (kill/delete) and always requires human UI confirm.''"

definition confirm_response :: "web_world \<Rightarrow> http_request \<Rightarrow> web_state \<Rightarrow> web_reply" where
  "confirm_response w q st =
    (case ww_parse w (hq_body q) of
       None \<Rightarrow> err_reply 400 ''bad json''
     | Some body \<Rightarrow>
         (case get_str ''id'' body of
            None \<Rightarrow> err_reply 400 ''missing id''
          | Some i \<Rightarrow>
              (case get_u64 ''version'' body of
                 None \<Rightarrow> err_reply 400 ''missing version''
               | Some expected \<Rightarrow>
                   (case ws_proposals st i of
                      None \<Rightarrow> err_reply 404 ''no such proposal''
                    | Some stored \<Rightarrow>
                        if get_u64 ''snapshot_version'' stored \<noteq> Some expected
                           \<or> expected \<noteq> sp_version (pv_snapshot (ww_provider w))
                        then err_reply 409 ''stale proposal; refresh and try again''
                        else json_reply 200 (JObj
                          [(''ok'', JBool True), (''simulated'', JBool (is_demo w)),
                           (''data'', JObj [(''id'', JStr i), (''applied'', JBool False), (''note'', JStr confirm_note),
                                            (''proposal'', stored)])])))))"

definition kill_counts :: "pid \<Rightarrow> kill_report \<Rightarrow> (string \<times> json) list \<Rightarrow> json" where
  "kill_counts k r extra = JObj
    ((''pid'', j_u k) # extra @ [(''signaled'', j_nat (kr_signaled r)), (''skipped'', j_nat (kr_skipped r)),
      (''failed'', j_nat (kr_failed r))])"

text \<open>The pid is cut to 32 bits.\<close>

definition kill_response :: "web_world \<Rightarrow> http_request \<Rightarrow> web_reply \<times> web_effect list" where
  "kill_response w q =
    (case ww_parse w (hq_body q) of
       None \<Rightarrow> (err_reply 400 ''bad json'', [])
     | Some body \<Rightarrow>
         (case get_u64 ''pid'' body of
            None \<Rightarrow> (err_reply 400 ''missing pid'', [])
          | Some n \<Rightarrow>
              (let k = (ucast n :: pid) in
               if is_demo w then
                 (json_reply 200 (JObj [(''ok'', JBool True), (''simulated'', JBool True),
                    (''data'', kill_counts k report_default [])]), [])
               else
                 (case find (\<lambda>p. p_pid p = k) (sp_processes (pv_snapshot (ww_provider w))) of
                    None \<Rightarrow> (err_reply 404 (''no running process with pid '' @ show_nat (unat k)), [])
                  | Some p \<Rightarrow>
                      (let forced = or_default False (Option.bind (json_get ''force'' body) as_bool);
                           (r, sent) = send (ww_live w) (ww_kill w) [\<lparr>id_pid = k, id_start = p_start_time p\<rparr>]
                       in (ok_reply (kill_counts k r [(''force'', JBool forced)]),
                           map (\<lambda>x. Signalled x (if forced then Kill else Term)) sent))))))"

definition body_id :: "web_world \<Rightarrow> http_request \<Rightarrow> string option" where
  "body_id w q = Option.bind (ww_parse w (hq_body q)) (get_str ''id'')"

definition resource_by_id :: "web_world \<Rightarrow> string \<Rightarrow> docker_resource option" where
  "resource_by_id w i = find (\<lambda>r. d_id r = i) (ds_resources (sp_docker (pv_snapshot (ww_provider w))))"

definition simulated_id :: "string \<Rightarrow> web_reply" where
  "simulated_id i = json_reply 200 (JObj [(''ok'', JBool True), (''simulated'', JBool True),
     (''data'', JObj [(''id'', JStr i), (''simulated'', JBool True)])])"

text \<open>Stopping and removing differ in the call and in one field of the reply.\<close>

definition docker_response ::
  "(docker_resource \<Rightarrow> docker_call) \<Rightarrow> string \<Rightarrow> web_world \<Rightarrow> http_request \<Rightarrow> web_reply \<times> web_effect list" where
  "docker_response call done_field w q =
    (case body_id w q of
       None \<Rightarrow> (err_reply 400 ''missing id'', [])
     | Some i \<Rightarrow>
         if is_demo w then (simulated_id i, [])
         else
           (case resource_by_id w i of
              None \<Rightarrow> (err_reply 404 ''no such docker resource'', [])
            | Some r \<Rightarrow>
                (case docker_do (ww_engine w) (call r) of
                   (None, calls) \<Rightarrow>
                     (ok_reply (JObj [(''id'', JStr i), (done_field, JBool True), (''simulated'', JBool False)]),
                      map Docker calls)
                 | (Some e, calls) \<Rightarrow> (err_reply 500 e, map Docker calls))))"

definition docker_stop_response :: "web_world \<Rightarrow> http_request \<Rightarrow> web_reply \<times> web_effect list" where
  "docker_stop_response = docker_response stop_call ''stopped''"

definition docker_remove_response :: "web_world \<Rightarrow> http_request \<Rightarrow> web_reply \<times> web_effect list" where
  "docker_remove_response = docker_response remove_call ''removed''"

definition docker_prune_response :: "web_world \<Rightarrow> web_reply \<times> web_effect list" where
  "docker_prune_response w =
    (if is_demo w then
       (json_reply 200 (JObj [(''ok'', JBool True), (''simulated'', JBool True),
          (''data'', JObj [(''pruned'', JInt 0), (''reclaim_bytes'', JInt 0), (''simulated'', JBool True)])]), [])
     else
       (case prune_anonymous (ww_engine w) (prunable_ids (sp_docker (pv_snapshot (ww_provider w)))) of
          (Inl e, calls) \<Rightarrow> (err_reply 500 e, map Docker calls)
        | (Inr (n, b), calls) \<Rightarrow>
            (ok_reply (JObj [(''pruned'', j_u n), (''reclaim_bytes'', j_u b)]), map Docker calls)))"

section \<open>Runs\<close>

definition run_output_response :: "web_world \<Rightarrow> http_request \<Rightarrow> int \<Rightarrow> web_reply" where
  "run_output_response w q i =
    (case (case query_param (ww_lossy w) (hq_path q) ''stream'' of None \<Rightarrow> Some Stdout | Some s \<Rightarrow> stream_parse s) of
       None \<Rightarrow> err_reply 400 ''stream must be stdout or stderr''
     | Some st \<Rightarrow>
         (let cursor = or_default 0 (Option.bind (query_param (ww_lossy w) (hq_path q) ''cursor'') parse_u64);
              n = min (max (or_default (64 * 1024)
                    (Option.bind (query_param (ww_lossy w) (hq_path q) ''max_bytes'') (parse_uint 64))) 1) (1024 * 1024)
          in case pv_output (ww_provider w) (RunId i) st cursor n of
               Inr chunk \<Rightarrow> ok_reply chunk
             | Inl (IoNotFound e) \<Rightarrow> err_reply 404 e
             | Inl (IoOther e) \<Rightarrow> err_reply 500 e))"

definition cancel_note :: string where
  "cancel_note = ''Confirm to ask the supervisor to stop this run and its process group. Nothing is signalled until then.''"

definition cancel_proposal :: "run_view \<Rightarrow> json" where
  "cancel_proposal v = JObj
    [(''kind'', JStr ''cancel_run''), (''run_id'', JStr (v_run_id v)), (''request_id'', JStr (v_request_id v)),
     (''argv'', j_list JStr (v_argv v)), (''cwd'', JStr (v_cwd v)), (''session_id'', j_opt JStr (v_session_id v)),
     (''state'', JStr (state_as_str (v_state v))), (''revision'', JInt (v_revision v)), (''note'', JStr cancel_note)]"

definition run_cancel_propose :: "web_world \<Rightarrow> int \<Rightarrow> web_state \<Rightarrow> outcome3" where
  "run_cancel_propose w i st =
    (case pv_run (ww_provider w) (RunId i) of
       None \<Rightarrow> (err_reply 404 ''no such run'', st, [])
     | Some v \<Rightarrow>
         if is_terminal (v_state v) then (err_reply 409 ''run already finished'', st, [])
         else
           (let pid = ''run-'' @ hex_i64 i @ ''-'' @ hex_u64 (ww_now w)
            in (ok_reply (JObj [(''id'', JStr pid), (''proposal'', cancel_proposal v)]),
                st\<lparr>ws_proposals := (ws_proposals st)(pid \<mapsto> cancel_proposal v)\<rparr>, [])))"

definition proposal_matches :: "json \<Rightarrow> int \<Rightarrow> bool" where
  "proposal_matches stored i \<longleftrightarrow>
    get_str ''kind'' stored = Some ''cancel_run'' \<and> get_str ''run_id'' stored = Some (show_int i)"

definition run_cancel :: "web_world \<Rightarrow> http_request \<Rightarrow> int \<Rightarrow> web_state \<Rightarrow> outcome3" where
  "run_cancel w q i st =
    (case ww_parse w (hq_body q) of
       None \<Rightarrow> (err_reply 400 ''bad json'', st, [])
     | Some body \<Rightarrow>
         (case get_str ''id'' body of
            None \<Rightarrow> (err_reply 400 ''missing id'', st, [])
          | Some pid \<Rightarrow>
              (case ws_proposals st pid of
                 None \<Rightarrow> (err_reply 404 ''no such proposal'', st, [])
               | Some stored \<Rightarrow>
                   if \<not> proposal_matches stored i then (err_reply 409 ''proposal does not match this run'', st, [])
                   else
                     (case pv_run (ww_provider w) (RunId i) of
                        None \<Rightarrow> (err_reply 404 ''no such run'', st, [])
                      | Some v \<Rightarrow>
                          if is_terminal (v_state v) then (err_reply 409 ''run already finished'', st, [])
                          else
                            (let st' = st\<lparr>ws_proposals := (ws_proposals st)(pid := None)\<rparr>;
                                 es = [CancelRun (RunId i)]
                             in case pv_cancel (ww_provider w) (RunId i) of
                                  Inr (Some vw) \<Rightarrow>
                                    (json_reply 200 (JObj [(''ok'', JBool True), (''simulated'', JBool (is_demo w)),
                                       (''data'', JObj [(''run'', run_view_json vw)])]), st', es)
                                | Inr None \<Rightarrow> (err_reply 404 ''no such run'', st', es)
                                | Inl e \<Rightarrow> (err_reply 503 (''no supervisor available: '' @ e), st', es))))))"

section \<open>Responses\<close>

definition DEMO_BANNER :: string where
  "DEMO_BANNER = ''Demo data '' @ utf8 [0xE2, 0x80, 0x94] @ '' synthetic; not your machine.''"

definition mode_fields :: "web_world \<Rightarrow> (string \<times> json) list" where
  "mode_fields w = [(''mode'', JStr (pv_mode (ww_provider w))),
     (''banner'', JStr (if is_demo w then DEMO_BANNER else []))]"

definition snapshot_response :: "web_world \<Rightarrow> web_reply" where
  "snapshot_response w =
    (let p = ww_provider w; snap = pv_snapshot p; f = ww_figures w in
     ok_reply (JObj (mode_fields w @
       [(''version'', j_u (sp_version snap)), (''cpu_percent'', JFloat (fg_cpu f)),
        (''memory'', JObj [(''used_bytes'', j_u (sp_used_memory snap)), (''total_bytes'', j_u (sp_total_memory snap))]),
        (''items'', JArr (items_json f (pv_session_map p) (ww_now w) snap)),
        (''overview'', overview_json f snap), (''docker'', docker_json (sp_docker snap)),
        (''sessions'', j_list (session_info_json (ww_now w)) (pv_sessions p))])))"

definition index_html :: "web_world \<Rightarrow> string \<Rightarrow> web_reply" where
  "index_html w token =
    \<lparr>wr_status = 200, wr_type = ''text/html; charset=utf-8'',
     wr_body = ByteBody (replace_all ''__WYD_CSRF__'' token (ww_lossy w (ww_index w)))\<rparr>"

definition asset_lookup :: "web_world \<Rightarrow> string \<Rightarrow> (string \<times> string) option" where
  "asset_lookup w path =
    (if path = ''/assets/app.js'' then Some (''application/javascript; charset=utf-8'', ww_app_js w)
     else if path = ''/assets/styles.css'' then Some (''text/css; charset=utf-8'', ww_styles w)
     else None)"

definition guarded :: "route \<Rightarrow> bool" where
  "guarded r \<longleftrightarrow>
    (case r of ProposalPost \<Rightarrow> True | ConfirmPost \<Rightarrow> True | KillPost \<Rightarrow> True | DockerStopPost \<Rightarrow> True
     | DockerRemovePost \<Rightarrow> True | DockerPrunePost \<Rightarrow> True | RunCancelProposePost _ \<Rightarrow> True
     | RunCancelPost _ \<Rightarrow> True | _ \<Rightarrow> False)"

text \<open>The routes that only read.\<close>

definition read_response :: "web_world \<Rightarrow> route \<Rightarrow> http_request \<Rightarrow> web_state \<Rightarrow> web_reply" where
  "read_response w r q st =
    (let p = ww_provider w; snap = pv_snapshot p; f = ww_figures w; now = ww_now w in
     case r of
       Health \<Rightarrow> json_reply 200 (JObj ((''ok'', JBool True) # mode_fields w))
     | SnapshotRoute \<Rightarrow> snapshot_response w
     | CapacityRoute \<Rightarrow> ok_reply (JObj [(''capacity'', capacity_json (pv_capacity p))])
     | SessionsList \<Rightarrow> ok_reply (JObj [(''sessions'', j_list (session_info_json now) (pv_sessions p))])
     | SessionGet i \<Rightarrow>
         (case pv_session_record p i of
            Some rec \<Rightarrow> ok_reply (JObj [(''session'', session_record_json now rec)])
          | None \<Rightarrow> err_reply 404 ''no such session'')
     | Items \<Rightarrow> ok_reply (JObj [(''items'', JArr (items_json f (pv_session_map p) now snap))])
     | Leftovers \<Rightarrow> ok_reply (JObj [(''leftovers'', JArr (leftover_items f (pv_session_map p) now snap))])
     | Explain k \<Rightarrow>
         (case pv_explain p k of Some v \<Rightarrow> ok_reply v | None \<Rightarrow> err_reply 404 ''no explanation'')
     | RunsList \<Rightarrow>
         ok_reply (JObj [(''runs'', j_list run_view_json (pv_runs p (run_filter_from_query (ww_lossy w) (hq_path q))))])
     | RunGet i \<Rightarrow>
         (case pv_run p (RunId i) of
            Some v \<Rightarrow> ok_reply (JObj [(''run'', run_view_json v)]) | None \<Rightarrow> err_reply 404 ''no such run'')
     | RunOutput i \<Rightarrow> run_output_response w q i
     | StaticIndex \<Rightarrow> index_html w (ws_csrf st)
     | StaticAsset path \<Rightarrow>
         (case asset_lookup w path of
            Some (ct, body) \<Rightarrow> \<lparr>wr_status = 200, wr_type = ct, wr_body = ByteBody body\<rparr>
          | None \<Rightarrow> not_found)
     | _ \<Rightarrow> not_found)"

definition build_response :: "web_world \<Rightarrow> route \<Rightarrow> http_request \<Rightarrow> web_state \<Rightarrow> outcome3" where
  "build_response w r q st =
    (if guarded r \<and> \<not> csrf_ok w q (ws_csrf st) then (err_reply 403 ''forbidden'', st, [])
     else
       (case r of
          ProposalPost \<Rightarrow> proposal_response w q st
        | ConfirmPost \<Rightarrow> (confirm_response w q st, st, [])
        | KillPost \<Rightarrow> (let (x, es) = kill_response w q in (x, st, es))
        | RunCancelProposePost i \<Rightarrow> run_cancel_propose w i st
        | RunCancelPost i \<Rightarrow> run_cancel w q i st
        | DockerStopPost \<Rightarrow> (let (x, es) = docker_stop_response w q in (x, st, es))
        | DockerRemovePost \<Rightarrow> (let (x, es) = docker_remove_response w q in (x, st, es))
        | DockerPrunePost \<Rightarrow> (let (x, es) = docker_prune_response w in (x, st, es))
        | _ \<Rightarrow> (read_response w r q st, st, [])))"

definition crlf :: string where "crlf = [CHR 0x0D, CHR 0x0A]"

definition write_response :: "(json \<Rightarrow> string) \<Rightarrow> web_reply \<Rightarrow> string" where
  "write_response print r =
    (let body = (case wr_body r of JsonBody j \<Rightarrow> print j | ByteBody b \<Rightarrow> b)
     in ''HTTP/1.1 '' @ show_nat (wr_status r) @ '' '' @ (case wr_body r of JsonBody _ \<Rightarrow> (if wr_status r < 400 then ''OK'' else ''ERR'') | ByteBody _ \<Rightarrow> ''OK'') @ crlf
        @ ''Content-Type: '' @ wr_type r @ crlf @ ''Content-Length: '' @ show_nat (length body) @ crlf
        @ ''Connection: close'' @ crlf @ crlf @ body)"

text \<open>One connection: no reply to a request that cannot be read.\<close>

definition web_step :: "(string \<Rightarrow> bool) \<Rightarrow> web_world \<Rightarrow> string \<Rightarrow> web_state \<Rightarrow> web_reply option \<times> web_state \<times> web_effect list"
  where
  "web_step ok w bytes st =
    (case read_request ok (ww_lossy w) bytes of
       None \<Rightarrow> (None, st, [])
     | Some q \<Rightarrow>
         (let (x, st', es) = build_response w (match_route (hq_method q) (hq_path q)) q st in (Some x, st', es)))"

text \<open>Every state a server reaches from a fresh token.\<close>

inductive web_reach :: "web_state \<Rightarrow> bool" where
  web_start: "web_reach (web_new token)"
| web_next: "web_reach st \<Longrightarrow> web_step ok w bytes st = (r, st', es) \<Longrightarrow> web_reach st'"

section \<open>Binding\<close>

definition is_loopback :: "ip_addr \<Rightarrow> bool" where
  "is_loopback a = (case a of V4 x y z u \<Rightarrow> x = 127 | V6 gs \<Rightarrow> gs = replicate 7 0 @ [1])"

datatype bind_error = BadHost | NotLoopback | ServeRunning

record web_options =
  wo_host :: string
  wo_port :: u16
  wo_demo :: bool
  wo_allow_lan :: bool

definition web_options_default :: web_options where
  "web_options_default = \<lparr>wo_host = ''127.0.0.1'', wo_port = 8732, wo_demo = False, wo_allow_lan = False\<rparr>"

text \<open>\<open>parse\<close> reads an address, \<open>alive\<close> tells whether a supervisor answers.\<close>

definition bind_check :: "(string \<Rightarrow> ip_addr option) \<Rightarrow> bool \<Rightarrow> web_options \<Rightarrow> bind_error + ip_addr \<times> u16" where
  "bind_check parse alive opts =
    (case parse (wo_host opts) of
       None \<Rightarrow> Inl BadHost
     | Some ip \<Rightarrow>
         if \<not> wo_allow_lan opts \<and> \<not> is_loopback ip then Inl NotLoopback
         else if \<not> wo_demo opts \<and> alive then Inl ServeRunning
         else Inr (ip, wo_port opts))"

end
