(* ===== verification/Server_Props.thy ===== *)
theory Server_Props
  imports Server Supervisor_Props
begin

text \<open>
  What the local API promises: which requests change which part of the state, and that a call through
  the client, the two JSON messages and the dispatcher is the call on the supervisor.
\<close>

section \<open>What a request may change\<close>

definition run_commands :: "string set" where "run_commands = {''set_limits'', ''start_run'', ''cancel_run''}"

definition own_commands :: "string set" where "own_commands = {''explain'', ''session_start'', ''session_end''}"

lemma set_limits_own: "srv_own (snd (srv_set_limits w req s)) = srv_own s"
  by (simp add: srv_set_limits_def Let_def split: option.splits)

lemma start_own: "srv_own (snd (srv_start_run w req s)) = srv_own s"
  by (simp add: srv_start_run_def split: option.splits sum.splits prod.splits)

lemma cancel_own: "srv_own (snd (srv_cancel_run w req s)) = srv_own s"
  by (simp add: srv_cancel_run_def split: option.splits sum.splits prod.splits)

lemma session_start_sup: "srv_sup (snd (srv_session_start w req s)) = srv_sup s"
  by (simp add: srv_session_start_def Let_def split: option.splits prod.splits)

lemma session_end_sup: "srv_sup (snd (srv_session_end w req s)) = srv_sup s"
  by (simp add: srv_session_end_def Let_def split: option.splits)

lemma explain_sup: "srv_sup (snd (srv_explain w k s)) = srv_sup s"
  by (simp add: srv_explain_def Let_def split: option.splits prod.splits sum.splits)

lemmas command_frames = set_limits_own start_own cancel_own session_start_sup session_end_sup explain_sup

lemma run_command_sup: "cmd \<notin> run_commands \<Longrightarrow> srv_sup (snd (run_command w cmd req s)) = srv_sup s"
  by (simp add: run_command_def same_def command_frames run_commands_def)

lemma run_command_own: "cmd \<notin> own_commands \<Longrightarrow> srv_own (snd (run_command w cmd req s)) = srv_own s"
  by (simp add: run_command_def same_def command_frames own_commands_def)

text \<open>C22: Whatever line a client sends, the supervisor changes only under a well-formed \<open>set_limits\<close>,
  \<open>start_run\<close> or \<open>cancel_run\<close> request and the ownership tables only under \<open>explain\<close>,
  \<open>session_start\<close> or \<open>session_end\<close>; a line that does not parse changes nothing.\<close>

theorem only_named_commands_write:
  "(srv_sup (snd (dispatch t w line s)) = srv_sup s
     \<or> (\<exists>req. jt_parse t (trim line) = Some req \<and> str_arg ''cmd'' req \<in> run_commands))
   \<and> (srv_own (snd (dispatch t w line s)) = srv_own s
     \<or> (\<exists>req. jt_parse t (trim line) = Some req \<and> str_arg ''cmd'' req \<in> own_commands))"
  using run_command_sup run_command_own by (auto simp: dispatch_def split: option.splits)

section \<open>The messages\<close>

text \<open>What the text library guarantees of one value: it prints on one line that does not start or end
  with white space, and parses back.\<close>

definition carries :: "json_text \<Rightarrow> json \<Rightarrow> bool" where
  "carries t j \<longleftrightarrow> jt_parse t (jt_print t j) = Some j \<and> jt_print t j \<noteq> []
     \<and> \<not> is_space (hd (jt_print t j)) \<and> \<not> is_space (last (jt_print t j))
     \<and> CHR 0x0A \<notin> set (jt_print t j)"

lemma trim_line:
  assumes "x \<noteq> []" "\<not> is_space (hd x)" "\<not> is_space (last x)"
  shows "trim (x @ [CHR 0x0A]) = x"
proof -
  obtain a b where x: "x = a # b" using assms(1) by (cases x) auto
  obtain c d where r: "x = d @ [c]" using assms(1) by (cases x rule: rev_cases) auto
  have "dropWhile is_space (rev x) = rev x" using assms(3) r by simp
  then have "trim_end (x @ [CHR 0x0A]) = x" by (simp add: trim_end_def is_space_def)
  moreover have "trim_start (x @ [CHR 0x0A]) = x @ [CHR 0x0A]" using assms(2) x by (simp add: trim_start_def)
  ultimately show ?thesis by (simp add: trim_def)
qed

lemma first_line_of: "CHR 0x0A \<notin> set x \<Longrightarrow> first_line (x @ [CHR 0x0A]) = x @ [CHR 0x0A]"
proof -
  assume n: "CHR 0x0A \<notin> set x"
  have "takeWhile (\<lambda>c. c \<noteq> CHR 0x0A) (x @ [CHR 0x0A]) = x"
    using n by (subst takeWhile_append2) auto
  then show ?thesis by (simp add: first_line_def)
qed

lemma request_arrives:
  assumes "carries t j" "length (jt_print t j) < MAX_REQUEST_BYTES"
  shows "handle_client t w (jt_print t j @ [CHR 0x0A]) s
    = (let (r, s') = run_command w (str_arg ''cmd'' j) j s
       in (Some (jt_print t (reply_json (jt_say t) r) @ [CHR 0x0A]), s'))"
proof -
  have "take MAX_REQUEST_BYTES (jt_print t j @ [CHR 0x0A]) = jt_print t j @ [CHR 0x0A]" using assms(2) by simp
  then show ?thesis
    using assms(1) trim_line[of "jt_print t j"]
    by (simp add: handle_client_def first_line_of carries_def dispatch_def Let_def split: prod.splits)
qed

lemma reply_arrives:
  "carries t (reply_json (jt_say t) r) \<Longrightarrow>
    client_answer t (Some (jt_print t (reply_json (jt_say t) r) @ [CHR 0x0A]))
      = (case r of Inr d \<Rightarrow> Inr d | Inl e \<Rightarrow> Inl (Refusal (jt_say t e)))"
  using trim_line[of "jt_print t (reply_json (jt_say t) r)"]
  by (auto simp: client_answer_def first_line_of carries_def reply_json_def or_default_def json_get_def
      as_bool_def get_str_def as_str_def split: sum.splits)

lemma put_field_get: "field_of k (put_field k v fs) = Some v" "k \<noteq> k' \<Longrightarrow> field_of k' (put_field k v fs) = field_of k' fs"
  by (induction fs) auto

lemma client_body_cmd: "str_arg ''cmd'' (client_body cmd extra) = cmd"
  by (simp add: str_arg_def get_str_def client_body_def json_get_def put_field_get or_default_def as_str_def)

lemma client_body_get: "k \<noteq> ''cmd'' \<Longrightarrow> json_get k (client_body cmd (JObj fs)) = field_of k fs"
  by (simp add: client_body_def json_get_def put_field_get)

definition answer_of :: "json_text \<Rightarrow> reply \<Rightarrow> client_error + json" where
  "answer_of t r = (case r of Inr d \<Rightarrow> Inr d | Inl e \<Rightarrow> Inl (Refusal (jt_say t e)))"

lemma request_is_command:
  assumes "carries t (client_body cmd extra)" "length (jt_print t (client_body cmd extra)) < MAX_REQUEST_BYTES"
    and "run_command w cmd (client_body cmd extra) s = (r, s')" "carries t (reply_json (jt_say t) r)"
  shows "client_request t w cmd extra s = (answer_of t r, s')"
  using request_arrives[OF assms(1,2), of w s] assms(3) reply_arrives[OF assms(4)]
  by (simp add: client_request_def client_line_def client_body_cmd answer_of_def)

section \<open>A remote call is the local call\<close>

lemma env_back: "read_each read_pair (map (\<lambda>(k, v). JArr [JStr k, JStr v]) env) = Some env"
  by (induction env) (auto simp: read_pair_def as_str_def)

definition start_body :: "run_spec \<Rightarrow> (string \<times> string) list \<Rightarrow> json" where
  "start_body spec env = client_body ''start_run'' (JObj [(''spec'', spec_json spec), (''env'', env_json env)])"

definition started_json :: "run_view \<Rightarrow> bool \<Rightarrow> json" where
  "started_json v created = JObj [(''run'', run_json (Some v)), (''created'', JBool created)]"

lemma start_command:
  assumes "spec_in_range spec"
    and "start_run (sw_hash w) (sw_ctx w) (cut_spec spec) env (srv_sup s) = Some (Inr (i, created), sv)"
    and "get_now (sw_ctx w) i None sv = Inr (Some v)"
  shows "run_command w ''start_run'' (start_body spec env) s
    = (Inr (started_json v created), s\<lparr>srv_sup := sv\<rparr>)"
proof -
  have e: "env_arg (start_body spec env) = Some env"
    by (simp add: env_arg_def start_body_def client_body_get env_json_def j_list_def env_back)
  have "json_get ''spec'' (start_body spec env) = Some (spec_json spec)"
    by (simp add: start_body_def client_body_get)
  then show ?thesis
    using assms e by (simp add: run_command_def srv_start_run_def spec_back started_json_def)
qed

lemma view_not_null: "run_view_json v \<noteq> JNull" by (simp add: run_view_json_def)

lemma view_from_started: "view_in_range v \<Longrightarrow> view_from (started_json v created) = Inr (cut_view v)"
  by (simp add: view_from_def started_json_def run_json_def j_opt_def or_default_def wire view_back)

text \<open>C23: Starting a run through the client is starting it at the supervisor: the request sent over the
  socket is the request the supervisor executes, its durations cut to whole seconds, the state afterwards is
  that of the direct call, and the caller gets the supervisor's view of the run.\<close>

theorem remote_start_is_start:
  assumes "carries t (start_body spec env)" "length (jt_print t (start_body spec env)) < MAX_REQUEST_BYTES"
    and "carries t (reply_json (jt_say t) (Inr (started_json v created)))"
    and "spec_in_range spec" "view_in_range v"
    and "start_run (sw_hash w) (sw_ctx w) (cut_spec spec) env (srv_sup s) = Some (Inr (i, created), sv)"
    and "get_now (sw_ctx w) i None sv = Inr (Some v)"
  shows "client_start t w spec env s = (Inr (cut_view v), s\<lparr>srv_sup := sv\<rparr>)"
proof -
  note c = start_command[OF assms(4,6,7)]
  have "client_request t w ''start_run'' (JObj [(''spec'', spec_json spec), (''env'', env_json env)]) s
    = (Inr (started_json v created), s\<lparr>srv_sup := sv\<rparr>)"
    using request_is_command[OF _ _ _ assms(3), of "''start_run''"] assms(1,2) c
    by (simp add: start_body_def answer_of_def)
  then show ?thesis using view_from_started[OF assms(5)] by (simp add: client_start_def)
qed

text \<open>A text library for two messages.\<close>

definition two_texts :: "json \<Rightarrow> json \<Rightarrow> json_text" where
  "two_texts a b =
    \<lparr>jt_parse = (\<lambda>s. if s = ''q'' then Some a else if s = ''r'' then Some b else None),
     jt_print = (\<lambda>j. if j = a then ''q'' else ''r''), jt_say = (\<lambda>e. ''no'')\<rparr>"

lemma two_texts_carry: "a \<noteq> b \<Longrightarrow> carries (two_texts a b) a \<and> carries (two_texts a b) b"
  by (simp add: carries_def two_texts_def is_space_def)

definition tiny_world :: server_world where
  "tiny_world = \<lparr>sw_ctx = tiny_cx, sw_caps = \<lparr>ag_memory = None, ag_cpu = None, ag_pids = None\<rparr>,
     sw_hash = tiny_hash, sw_lossy = (\<lambda>_. []), sw_file = (\<lambda>_ _. None), sw_epoch = None, sw_fresh = BootId 7,
     sw_scan = None, sw_pick = hd, sw_version = ''1''\<rparr>"

lemma tiny_view:
  "\<exists>v. get_now tiny_cx (RunId 1) None tiny_sv1 = Inr (Some v) \<and> view_in_range v"
proof -
  have slot: "sv_slots tiny_sv1 (RunId 1) = Some (slot_new (tiny_run ''a'') [])"
    by (simp add: tiny_sv1_def start_eval tiny_defs word_le_nat_alt word_less_nat_alt)
  have "store_ok (sv_store tiny_sv1)" using sv_reach_inv[OF tiny_reach(2)] by (simp add: sv_inv_def sv_inv_but_def)
  then have ok: "\<forall>w\<in>set (st_runs (sv_store tiny_sv1)). row_ok w" by (simp add: store_ok_def)
  obtain r where r: "run_get (RunId 1) (sv_store tiny_sv1) = Inr r"
  proof (cases "find (\<lambda>w. w_id w = 1) (st_runs (sv_store tiny_sv1))")
    case (Some w)
    then have "row_ok w" using ok by (auto simp: find_Some_iff)
    then show ?thesis using that Some record_total[of w] by (auto simp: run_get_def)
  qed (use that in \<open>simp add: run_get_def\<close>)
  show ?thesis
    using slot r tiny_sv1_parts(1,3)
    by (simp add: get_now_def slot_or_load_def view_def view_slot_def view_events_def view_in_range_def
        slot_new_def i64_range_def position_def tiny_run_def spec_new_def resource_default_def Let_def)
qed

theorem remote_start_is_start_witness:
  "\<exists>t v. client_start t tiny_world (tiny_run ''a'') [] \<lparr>srv_sup = tiny_sv0, srv_own = own_store_empty\<rparr>
     = (Inr (cut_view v), \<lparr>srv_sup = tiny_sv1, srv_own = own_store_empty\<rparr>)"
proof -
  obtain v where v: "get_now tiny_cx (RunId 1) None tiny_sv1 = Inr (Some v)" "view_in_range v"
    using tiny_view by blast
  let ?spec = "tiny_run ''a''"
  have spec: "spec_in_range ?spec" "cut_spec ?spec = ?spec"
    by (simp_all add: spec_in_range_def cut_spec_def cut_request_def whole_secs_def tiny_run_def spec_new_def
        resource_default_def DEFAULT_TIMEOUT_def DEFAULT_GRACE_def from_secs_def duration_max_def)
  have st: "start_run tiny_hash tiny_cx ?spec [] tiny_sv0 = Some (Inr (RunId 1, True), tiny_sv1)"
    using tiny_result_a by (auto simp: tiny_sv1_def)
  let ?t = "two_texts (start_body ?spec []) (reply_json (\<lambda>e. ''no'') (Inr (started_json v True)))"
  have "json_get ''cmd'' (reply_json (\<lambda>e. ''no'') (Inr (started_json v True))) = None"
    "json_get ''cmd'' (start_body ?spec []) \<noteq> None"
    by (simp_all add: reply_json_def json_get_def start_body_def client_body_def put_field_get)
  then have "start_body ?spec [] \<noteq> reply_json (\<lambda>e. ''no'') (Inr (started_json v True))" by metis
  from two_texts_carry[OF this]
  have c: "carries ?t (start_body ?spec [])" "carries ?t (reply_json (jt_say ?t) (Inr (started_json v True)))"
    by (simp_all add: two_texts_def)
  have "length (jt_print ?t (start_body ?spec [])) < MAX_REQUEST_BYTES"
    by (simp add: two_texts_def MAX_REQUEST_BYTES_def)
  from remote_start_is_start[OF c(1) this c(2) spec(1) v(2), of tiny_world "\<lparr>srv_sup = tiny_sv0, srv_own = own_store_empty\<rparr>"
      "RunId 1" tiny_sv1]
  show ?thesis using st spec(2) v(1) by (auto simp: tiny_world_def)
qed

end
