(* ===== verification/Web_Props.thy ===== *)
theory Web_Props
  imports Web Server_Props
begin

text \<open>
  What the dashboard promises: nothing changes without the token, a run is cancelled only through a stored
  proposal made for it, the two kinds of proposals cannot be confused, and a cleanup proposal never selects
  anything persistent.
\<close>

section \<open>The cleanup proposal\<close>

lemma flat_item_fields:
  "get_str ''status'' (flat_item f i) = Some (status_str (ri_state i))"
  "get_str ''name'' (flat_item f i) = Some (ri_display i)"
  "get_str ''category'' (flat_item f i) = Some (category_label (ri_category i))"
  "get_u64 ''memory_bytes'' (flat_item f i) = Some (ri_memory i)"
  "json_get ''status'' (flat_item f i) = Some (JStr (status_str (ri_state i)))"
  by (simp_all add: flat_item_def get_str_def get_u64_def json_get_def)

lemma status_str_eq [simp]:
  "status_str s = ''persistent'' \<longleftrightarrow> s = Persistent" "status_str s = ''suspicious'' \<longleftrightarrow> s = Suspicious"
  by (cases s; simp add: status_str_def)+

definition spared :: "runtime_item \<Rightarrow> bool" where
  "spared i \<longleftrightarrow> ri_state i = Persistent \<or> to_ascii_lowercase (ri_display i) \<in> set persistent_names"

definition wanted :: "string \<Rightarrow> string \<Rightarrow> runtime_item \<Rightarrow> bool" where
  "wanted scope target i \<longleftrightarrow>
     scope = ''leftovers'' \<and> ri_state i = Suspicious
     \<or> scope = ''agent'' \<and> eq_ignore_ascii_case (category_label (ri_category i)) target"

lemma is_persistent_flat [simp]: "is_persistent (flat_item f i) \<longleftrightarrow> spared i"
  by (simp add: is_persistent_def flat_item_fields spared_def or_default_def)

lemma matches_scope_flat [simp]: "matches_scope (flat_item f i) scope target \<longleftrightarrow> wanted scope target i"
  by (simp add: matches_scope_def flat_item_fields wanted_def or_default_def)

lemma choose_items_flat:
  "choose_items scope target (map (flat_item f) is) (sel, exc, n) =
    (sel @ map (flat_item f) (filter (\<lambda>i. \<not> spared i \<and> wanted scope target i) is),
     exc @ map (\<lambda>i. JObj [(''name'', or_default JNull (json_get ''name'' (flat_item f i))), (''reason'', JStr ''persistent'')])
             (filter spared is),
     n + memory_sum (filter (\<lambda>i. \<not> spared i \<and> wanted scope target i) is))"
  by (induction "is" arbitrary: sel exc n) (auto simp: memory_sum_def flat_item_fields or_default_def)

definition chosen :: "json \<Rightarrow> runtime_snapshot \<Rightarrow> runtime_item list" where
  "chosen req snap =
    filter (\<lambda>i. \<not> spared i
        \<and> wanted (or_default ''leftovers'' (get_str ''scope'' req)) (or_default [] (get_str ''id'' req)) i)
      (all_items (sp_items snap))"

text \<open>C27: A cleanup proposal selects exactly the items of the requested scope, nested ones included, that are
  neither persistent nor named like a database; the bytes are their sum, and it is called safe exactly if all
  of them are suspicious.  The scopes that only the header of the file knows select nothing.\<close>

theorem proposal_spares_persistent:
  "json_get ''selected'' (build_proposal f req snap) = Some (JArr (map (flat_item f) (chosen req snap)))
   \<and> get_u64 ''reclaim_bytes'' (build_proposal f req snap) = Some (memory_sum (chosen req snap))
   \<and> json_get ''safe'' (build_proposal f req snap)
        = Some (JBool (\<forall>i\<in>set (chosen req snap). ri_state i = Suspicious))
   \<and> (get_str ''scope'' req \<in> {Some ''session'', Some ''project''} \<longrightarrow> chosen req snap = [])"
proof -
  have c: "choose_items (or_default ''leftovers'' (get_str ''scope'' req)) (or_default [] (get_str ''id'' req))
      (flat_items f snap) ([], [], 0)
    = (map (flat_item f) (chosen req snap),
       map (\<lambda>i. JObj [(''name'', or_default JNull (json_get ''name'' (flat_item f i))), (''reason'', JStr ''persistent'')])
         (filter spared (all_items (sp_items snap))), memory_sum (chosen req snap))"
    by (simp add: flat_items_def choose_items_flat chosen_def)
  have "chosen req snap = []" if "get_str ''scope'' req \<in> {Some ''session'', Some ''project''}"
    using that by (auto simp: chosen_def wanted_def or_default_def)
  then show ?thesis
    by (simp add: build_proposal_def c Let_def get_obj get_u64_def list_all_iff flat_item_fields(5))
qed

theorem proposal_spares_persistent_witness:
  "\<forall>f snap. json_get ''selected'' (build_proposal f (JObj [(''scope'', JStr ''session'')]) snap) = Some (JArr [])"
proof (intro allI)
  fix f snap
  show "json_get ''selected'' (build_proposal f (JObj [(''scope'', JStr ''session'')]) snap) = Some (JArr [])"
    using proposal_spares_persistent[of f "JObj [(''scope'', JStr ''session'')]" snap]
    by (simp add: get_str_def json_get_def)
qed

section \<open>The stored proposals\<close>

definition is_cleanup :: "json \<Rightarrow> bool" where "is_cleanup j \<longleftrightarrow> (\<exists>f req snap. j = build_proposal f req snap)"

definition is_cancel :: "json \<Rightarrow> bool" where
  "is_cancel j \<longleftrightarrow> (\<exists>v. j = cancel_proposal v \<and> \<not> is_terminal (v_state v))"

lemma build_kind: "get_str ''kind'' (build_proposal f req snap) = None"
  by (cases "choose_items (or_default ''leftovers'' (get_str ''scope'' req)) (or_default [] (get_str ''id'' req))
        (flat_items f snap) ([], [], 0)")
    (simp add: build_proposal_def Let_def get_str_def[of "''kind''"] json_get_def[of "''kind''"])

lemma cleanup_kind: "is_cleanup j \<Longrightarrow> get_str ''kind'' j = None"
  by (auto simp: is_cleanup_def build_kind)

lemma cancel_fields:
  "get_str ''kind'' (cancel_proposal v) = Some ''cancel_run''" "get_str ''run_id'' (cancel_proposal v) = Some (v_run_id v)"
  "get_u64 ''snapshot_version'' (cancel_proposal v) = None"
  by (simp_all add: cancel_proposal_def get_str_def get_u64_def json_get_def)

definition proposals_ok :: "web_state \<Rightarrow> bool" where
  "proposals_ok st \<longleftrightarrow> (\<forall>j\<in>ran (ws_proposals st). is_cleanup j \<or> is_cancel j)"

lemma ran_upd: "j \<in> ran (m(k \<mapsto> x)) \<Longrightarrow> j = x \<or> j \<in> ran m" by (auto simp: ran_def split: if_splits)

lemma ran_del: "j \<in> ran (m(k := None)) \<Longrightarrow> j \<in> ran m" by (auto simp: ran_def split: if_splits)

text \<open>The three handlers that touch the proposals.\<close>

lemma proposal_response_cases:
  assumes "proposal_response w q st = (r, st', es)"
  obtains (kept) "st' = st" "es = []"
    | (stored) i req where "st' = st\<lparr>ws_proposals := (ws_proposals st)
        (i \<mapsto> build_proposal (ww_figures w) req (pv_snapshot (ww_provider w)))\<rparr>" "es = []"
  using assms by (auto simp: proposal_response_def Let_def split: option.splits)

lemma propose_cases:
  assumes "run_cancel_propose w i st = (r, st', es)"
  obtains (kept) "st' = st" "es = []"
    | (stored) k v where "pv_run (ww_provider w) (RunId i) = Some v" "\<not> is_terminal (v_state v)"
        "st' = st\<lparr>ws_proposals := (ws_proposals st)(k \<mapsto> cancel_proposal v)\<rparr>" "es = []"
  using assms by (auto simp: run_cancel_propose_def Let_def split: option.splits if_splits)

lemma run_cancel_cases:
  assumes "run_cancel w q i st = (r, st', es)"
  obtains (kept) "st' = st" "es = []"
    | (used) k stored v where "ws_proposals st k = Some stored" "proposal_matches stored i"
        "pv_run (ww_provider w) (RunId i) = Some v" "\<not> is_terminal (v_state v)"
        "st' = st\<lparr>ws_proposals := (ws_proposals st)(k := None)\<rparr>" "es = [CancelRun (RunId i)]"
proof (cases "ww_parse w (hq_body q)")
  case None
  then show ?thesis using assms by (intro kept) (auto simp: run_cancel_def)
next
  case body: (Some body)
  show ?thesis
  proof (cases "get_str ''id'' body")
    case None
    then show ?thesis using assms body by (intro kept) (auto simp: run_cancel_def)
  next
    case k: (Some k)
    show ?thesis
    proof (cases "ws_proposals st k")
      case None
      then show ?thesis using assms body k by (intro kept) (auto simp: run_cancel_def)
    next
      case j: (Some stored)
      show ?thesis
      proof (cases "\<exists>v. proposal_matches stored i \<and> pv_run (ww_provider w) (RunId i) = Some v \<and> \<not> is_terminal (v_state v)")
        case False
        then have "st' = st \<and> es = []"
          using assms body k j by (cases "pv_run (ww_provider w) (RunId i)") (auto simp: run_cancel_def split: if_splits)
        then show ?thesis by (intro kept) auto
      next
        case True
        then obtain v where v: "proposal_matches stored i" "pv_run (ww_provider w) (RunId i) = Some v"
          "\<not> is_terminal (v_state v)" by blast
        have "st' = st\<lparr>ws_proposals := (ws_proposals st)(k := None)\<rparr> \<and> es = [CancelRun (RunId i)]"
        proof (cases "pv_cancel (ww_provider w) (RunId i)")
          case (Inr o')
          then show ?thesis using assms body k j v by (cases o') (auto simp: run_cancel_def Let_def)
        qed (use assms body k j v in \<open>auto simp: run_cancel_def Let_def\<close>)
        then show ?thesis using used j v by blast
      qed
    qed
  qed
qed

lemma kill_effects: "set (snd (kill_response w q)) \<inter> range CancelRun = {}" "is_demo w \<Longrightarrow> snd (kill_response w q) = []"
proof -
  have "\<exists>s sent. snd (kill_response w q) = map (\<lambda>x. Signalled x s) sent \<and> (is_demo w \<longrightarrow> sent = [])"
  proof (cases "\<exists>body n. ww_parse w (hq_body q) = Some body \<and> get_u64 ''pid'' body = Some n")
    case False
    then show ?thesis
      by (cases "ww_parse w (hq_body q)"; cases "get_u64 ''pid'' (the (ww_parse w (hq_body q)))")
        (auto simp: kill_response_def)
  next
    case True
    then obtain body n where b: "ww_parse w (hq_body q) = Some body" "get_u64 ''pid'' body = Some n" by blast
    show ?thesis
    proof (cases "find (\<lambda>p. p_pid p = ucast n) (sp_processes (pv_snapshot (ww_provider w)))")
      case None
      then show ?thesis by (auto simp: kill_response_def b Let_def)
    next
      case (Some p)
      then show ?thesis
        by (cases "send (ww_live w) (ww_kill w) [\<lparr>id_pid = ucast n, id_start = p_start_time p\<rparr>]")
          (auto simp: kill_response_def b Let_def)
    qed
  qed
  then show "set (snd (kill_response w q)) \<inter> range CancelRun = {}" "is_demo w \<Longrightarrow> snd (kill_response w q) = []"
    by auto
qed

lemma docker_response_calls:
  "\<exists>calls. snd (docker_response c d w q) = map Docker calls \<and> (is_demo w \<longrightarrow> calls = [])"
proof (cases "\<exists>i r. body_id w q = Some i \<and> \<not> is_demo w \<and> resource_by_id w i = Some r")
  case True
  then obtain i r where i: "body_id w q = Some i" "\<not> is_demo w" "resource_by_id w i = Some r" by blast
  obtain e calls where "docker_do (ww_engine w) (c r) = (e, calls)" by fastforce
  then show ?thesis using i by (cases e) (auto simp: docker_response_def)
next
  case False
  then show ?thesis
    by (cases "body_id w q"; cases "resource_by_id w (the (body_id w q))") (auto simp: docker_response_def)
qed

lemma docker_prune_calls:
  "\<exists>calls. snd (docker_prune_response w) = map Docker calls \<and> (is_demo w \<longrightarrow> calls = [])"
proof -
  obtain x calls where x: "prune_anonymous (ww_engine w) (prunable_ids (sp_docker (pv_snapshot (ww_provider w)))) = (x, calls)"
    by fastforce
  show ?thesis by (cases x) (auto simp: docker_prune_response_def x)
qed

lemma docker_effects:
  "set (snd (docker_response c d w q)) \<inter> range CancelRun = {}" "is_demo w \<Longrightarrow> snd (docker_response c d w q) = []"
  "set (snd (docker_prune_response w)) \<inter> range CancelRun = {}" "is_demo w \<Longrightarrow> snd (docker_prune_response w) = []"
  using docker_response_calls[of c d w q] docker_prune_calls[of w] by auto

text \<open>One request: refused or read only; a proposal made; a proposal used; or an action on the machine.\<close>

lemma response_cases:
  assumes "build_response w r q st = (x, st', es)"
  obtains (nothing) "st' = st" "es = []"
    | (cleanup) i req where "guarded r" "csrf_ok w q (ws_csrf st)" "es = []"
        "st' = st\<lparr>ws_proposals := (ws_proposals st)(i \<mapsto> build_proposal (ww_figures w) req (pv_snapshot (ww_provider w)))\<rparr>"
    | (propose) k v i where "guarded r" "csrf_ok w q (ws_csrf st)" "es = []" "\<not> is_terminal (v_state v)"
        "pv_run (ww_provider w) (RunId i) = Some v"
        "st' = st\<lparr>ws_proposals := (ws_proposals st)(k \<mapsto> cancel_proposal v)\<rparr>"
    | (cancelled) k stored v i where "guarded r" "csrf_ok w q (ws_csrf st)" "ws_proposals st k = Some stored"
        "proposal_matches stored i" "pv_run (ww_provider w) (RunId i) = Some v" "\<not> is_terminal (v_state v)"
        "st' = st\<lparr>ws_proposals := (ws_proposals st)(k := None)\<rparr>" "es = [CancelRun (RunId i)]"
    | (acted) "guarded r" "csrf_ok w q (ws_csrf st)" "st' = st" "set es \<inter> range CancelRun = {}"
        "\<not> is_demo w \<or> es = []"
proof (cases "guarded r \<and> \<not> csrf_ok w q (ws_csrf st)")
  case True
  then have "st' = st" "es = []" using assms by (auto simp: build_response_def)
  then show ?thesis by (rule nothing)
next
  case ok: False
  consider "\<not> guarded r" | (g) "guarded r" "csrf_ok w q (ws_csrf st)" using ok by auto
  then show ?thesis
  proof cases
    case 1
    then have "st' = st" "es = []" using assms by (cases r; simp add: build_response_def guarded_def)+
    then show ?thesis by (rule nothing)
  next
    case g
    show ?thesis
    proof (cases r)
      case ProposalPost
      then have "proposal_response w q st = (x, st', es)" using assms g by (simp add: build_response_def)
      then show ?thesis
      proof (cases rule: proposal_response_cases)
        case kept
        then show ?thesis by (rule nothing)
      next
        case (stored i req)
        then show ?thesis using cleanup g by blast
      qed
    next
      case (RunCancelProposePost i)
      then have "run_cancel_propose w i st = (x, st', es)" using assms g by (simp add: build_response_def)
      then show ?thesis
      proof (cases rule: propose_cases)
        case kept
        then show ?thesis by (rule nothing)
      next
        case (stored k v)
        then show ?thesis using propose g by blast
      qed
    next
      case (RunCancelPost i)
      then have "run_cancel w q i st = (x, st', es)" using assms g by (simp add: build_response_def)
      then show ?thesis
      proof (cases rule: run_cancel_cases)
        case kept
        then show ?thesis by (rule nothing)
      next
        case (used k stored v)
        then show ?thesis using cancelled g by blast
      qed
    next
      case KillPost
      then have "st' = st" "es = snd (kill_response w q)" using assms g by (auto simp: build_response_def split: prod.splits)
      then show ?thesis using acted g kill_effects[of w q] by blast
    next
      case DockerStopPost
      then have "st' = st" "es = snd (docker_response stop_call ''stopped'' w q)"
        using assms g by (auto simp: build_response_def docker_stop_response_def split: prod.splits)
      then show ?thesis using acted g docker_effects(1)[of stop_call "''stopped''" w q] docker_effects(2)[of w stop_call "''stopped''" q] by blast
    next
      case DockerRemovePost
      then have "st' = st" "es = snd (docker_response remove_call ''removed'' w q)"
        using assms g by (auto simp: build_response_def docker_remove_response_def split: prod.splits)
      then show ?thesis using acted g docker_effects(1)[of remove_call "''removed''" w q] docker_effects(2)[of w remove_call "''removed''" q] by blast
    next
      case DockerPrunePost
      then have "st' = st" "es = snd (docker_prune_response w)"
        using assms g by (auto simp: build_response_def split: prod.splits)
      then show ?thesis using acted g docker_effects(3)[of w] docker_effects(4)[of w] by blast
    next
      case ConfirmPost
      then have "st' = st" "es = []" using assms g by (auto simp: build_response_def)
      then show ?thesis by (rule nothing)
    qed (use g in \<open>simp_all add: guarded_def\<close>)
  qed
qed

section \<open>What a request can do\<close>

lemma guarded_post: "guarded (match_route m path) \<Longrightarrow> m = ''POST''"
  by (simp add: match_route_def get_route_def guarded_def split: if_splits)

lemma web_step_response:
  assumes "web_step ok w bytes st = (x, st', es)"
  obtains (unread) "x = None" "st' = st" "es = []"
    | (answered) q y where "read_request ok (ww_lossy w) bytes = Some q" "x = Some y"
        "build_response w (match_route (hq_method q) (hq_path q)) q st = (y, st', es)"
  using assms by (auto simp: web_step_def split: option.splits prod.splits)

text \<open>C24: A connection changes the stored proposals or acts on the machine only if it carries a readable
  POST request with the token of the page; the token itself never changes, and the demo never signals a
  process or calls the Docker engine.\<close>

theorem mutation_needs_token:
  assumes "web_step ok w bytes st = (x, st', es)"
  shows "ws_csrf st' = ws_csrf st
    \<and> (st' = st \<and> es = []
       \<or> (\<exists>q. read_request ok (ww_lossy w) bytes = Some q \<and> hq_method q = ''POST'' \<and> csrf_ok w q (ws_csrf st)))
    \<and> (is_demo w \<longrightarrow> set es \<subseteq> range CancelRun)"
  using assms
proof (cases rule: web_step_response)
  case (answered q y)
  from answered(3) show ?thesis
    by (cases rule: response_cases) (use answered(1) guarded_post in auto)
qed auto

lemma proposals_step: "proposals_ok st \<Longrightarrow> web_step ok w bytes st = (x, st', es) \<Longrightarrow> proposals_ok st'"
proof -
  assume ok: "proposals_ok st" and "web_step ok w bytes st = (x, st', es)"
  from this(2) show "proposals_ok st'"
  proof (cases rule: web_step_response)
    case (answered q y)
    from answered(3) show ?thesis
    proof (cases rule: response_cases)
      case (cleanup i req)
      then show ?thesis using ok by (auto simp: proposals_ok_def is_cleanup_def dest!: ran_upd)
    next
      case (propose k v i)
      then show ?thesis using ok by (auto simp: proposals_ok_def is_cancel_def dest!: ran_upd)
    next
      case (cancelled k stored v i)
      then show ?thesis using ok by (auto simp: proposals_ok_def dest!: ran_del)
    qed (use ok in auto)
  qed (use ok in auto)
qed

lemma reach_proposals: "web_reach st \<Longrightarrow> proposals_ok st"
proof (induction rule: web_reach.induct)
  case (web_next st ok w bytes r st' es)
  then show ?case using proposals_step by blast
qed (simp add: proposals_ok_def web_new_def)

text \<open>C25: A run is cancelled only through a proposal that was stored for exactly this run while it was not
  finished; the proposal is used up, the run is still not finished when it is looked up again, and nothing
  else happens in the step.\<close>

theorem cancel_needs_proposal:
  assumes "web_reach st" "web_step ok w bytes st = (x, st', es)" "CancelRun (RunId i) \<in> set es"
  shows "\<exists>k v u. ws_proposals st k = Some (cancel_proposal v) \<and> v_run_id v = show_int i
    \<and> \<not> is_terminal (v_state v) \<and> ws_proposals st' = (ws_proposals st)(k := None)
    \<and> pv_run (ww_provider w) (RunId i) = Some u \<and> \<not> is_terminal (v_state u) \<and> es = [CancelRun (RunId i)]"
  using assms(2)
proof (cases rule: web_step_response)
  case (answered q y)
  from answered(3) show ?thesis
  proof (cases rule: response_cases)
    case (cancelled k stored v j)
    have "is_cleanup stored \<or> is_cancel stored"
      using reach_proposals[OF assms(1)] cancelled(3) by (auto simp: proposals_ok_def intro: ranI)
    then obtain v' where "stored = cancel_proposal v'" "\<not> is_terminal (v_state v')"
      using cancelled(4) cleanup_kind by (force simp: proposal_matches_def is_cancel_def)
    moreover from this have "v_run_id v' = show_int j" using cancelled(4) by (simp add: proposal_matches_def cancel_fields)
    moreover have "i = j" using assms(3) cancelled(8) by simp
    ultimately show ?thesis using cancelled by auto
  qed (use assms(3) in auto)
qed (use assms(3) in auto)


section \<open>A small dashboard\<close>

definition seven :: run_view where
  "seven = view_slot tiny_cx (RunId 7) (slot_new (tiny_run ''a'') []) None [] tiny_sv0"

definition tiny_demo :: demo_data where
  "tiny_demo = \<lparr>dd_snapshot = snapshot_default, dd_explain = (\<lambda>_. None), dd_sessions = [], dd_record = (\<lambda>_. None),
     dd_runs = [seven], dd_run = (\<lambda>i. if i = 7 then Some seven else None),
     dd_capacity = capacity_now tiny_cx \<lparr>ag_memory = None, ag_cpu = None, ag_pids = None\<rparr> tiny_sv0,
     dd_output = (\<lambda>_ _ _ _. None), dd_cancel = (\<lambda>i. None)\<rparr>"

definition seven_id :: string where "seven_id = ''run-'' @ hex_i64 7 @ ''-'' @ hex_u64 5"

definition tiny_page :: web_world where
  "tiny_page = \<lparr>ww_provider = demo_provider tiny_demo,
     ww_parse = (\<lambda>s. if s = ''p'' then Some (JObj [(''csrf'', JStr ''t'')])
                    else Some (JObj [(''csrf'', JStr ''t''), (''id'', JStr seven_id)])),
     ww_lossy = (\<lambda>s. s), ww_now = 5, ww_live = (\<lambda>_. None), ww_kill = (\<lambda>_. Delivered),
     ww_engine = \<lparr>de_connect = None, de_result = (\<lambda>_. None)\<rparr>,
     ww_figures = \<lparr>fg_cpu = [], fg_item_cpu = (\<lambda>_. []), fg_category_cpu = (\<lambda>_. []), fg_v6 = (\<lambda>_. [])\<rparr>,
     ww_index = [], ww_app_js = [], ww_styles = []\<rparr>"

definition post :: "string \<Rightarrow> string \<Rightarrow> string" where
  "post path body = ''POST '' @ path @ '' HTTP/1.1'' @ crlf @ ''Content-Length: 1'' @ crlf @ crlf @ body"

lemmas request_eval = read_request_def parse_request_def request_default_def header_line_def lines_of_def
  length_value_def post_def crlf_def MAX_BODY_def split_whitespace_def is_space_def strip_prefix_def
  starts_with_def strip_cr_def parse_uint_def read_nat_def is_digit_def digit_val_def trim_def trim_start_def trim_end_def

lemma read_propose:
  "read_request (\<lambda>_. True) (\<lambda>s. s) (post ''/api/runs/7/cancel/propose'' ''p'')
    = Some \<lparr>hq_method = ''POST'', hq_path = ''/api/runs/7/cancel/propose'', hq_length = Some 1, hq_body = ''p''\<rparr>"
  by (simp add: request_eval)

lemma read_cancel:
  "read_request (\<lambda>_. True) (\<lambda>s. s) (post ''/api/runs/7/cancel'' ''c'')
    = Some \<lparr>hq_method = ''POST'', hq_path = ''/api/runs/7/cancel'', hq_length = Some 1, hq_body = ''c''\<rparr>"
  by (simp add: request_eval)

lemmas route_eval = match_route_def post_route_def route_path_def starts_with_def ends_with_def parse_run_id_def
  trim_prefixes.simps or_default_def parse_i64_def read_nat_def is_digit_def digit_val_def

lemma route_propose: "match_route ''POST'' ''/api/runs/7/cancel/propose'' = RunCancelProposePost 7"
  by (simp add: route_eval)

lemma route_cancel: "match_route ''POST'' ''/api/runs/7/cancel'' = RunCancelPost 7"
  by (simp add: route_eval)

lemmas read_posts = read_propose read_cancel route_propose route_cancel

lemma seven_facts: "v_run_id seven = ''7''" "\<not> is_terminal (v_state seven)"
  by (simp_all add: seven_def view_slot_def Let_def slot_new_def is_terminal_def show_run_id_def show_int_def show_nat.simps)

lemma page_facts:
  "ww_lossy tiny_page = (\<lambda>s. s)" "ww_now tiny_page = 5" "ww_parse tiny_page ''p'' = Some (JObj [(''csrf'', JStr ''t'')])"
  "ww_parse tiny_page ''c'' = Some (JObj [(''csrf'', JStr ''t''), (''id'', JStr seven_id)])"
  "pv_run (ww_provider tiny_page) (RunId 7) = Some seven" "pv_cancel (ww_provider tiny_page) (RunId 7) = Inr None"
  "is_demo tiny_page"
  by (simp_all add: tiny_page_def tiny_demo_def demo_provider_def is_demo_def)

definition proposed :: web_state where
  "proposed = \<lparr>ws_csrf = ''t'', ws_proposals = [seven_id \<mapsto> cancel_proposal seven]\<rparr>"

lemma propose_step:
  "\<exists>x. web_step (\<lambda>_. True) tiny_page (post ''/api/runs/7/cancel/propose'' ''p'') (web_new ''t'') = (x, proposed, [])"
  by (simp add: web_step_def page_facts read_posts build_response_def csrf_ok_def guarded_def web_new_def
      get_str_def get_obj run_cancel_propose_def seven_facts seven_id_def Let_def proposed_def)

lemma proposed_reach: "web_reach proposed"
  using propose_step web_next[OF web_start] by blast

lemma cancel_step:
  "\<exists>x. web_step (\<lambda>_. True) tiny_page (post ''/api/runs/7/cancel'' ''c'') proposed
    = (x, proposed\<lparr>ws_proposals := Map.empty\<rparr>, [CancelRun (RunId 7)])"
  by (simp add: web_step_def page_facts read_posts build_response_def csrf_ok_def guarded_def proposed_def
      get_str_def get_obj run_cancel_def seven_facts proposal_matches_def cancel_proposal_def Let_def
      show_int_def show_nat.simps fun_eq_iff)

theorem mutation_needs_token_witness:
  "set [CancelRun (RunId 7)] \<subseteq> range CancelRun \<and> ws_csrf (proposed\<lparr>ws_proposals := Map.empty\<rparr>) = ws_csrf proposed"
proof -
  obtain x where x: "web_step (\<lambda>_. True) tiny_page (post ''/api/runs/7/cancel'' ''c'') proposed
    = (x, proposed\<lparr>ws_proposals := Map.empty\<rparr>, [CancelRun (RunId 7)])" using cancel_step by (rule exE)
  show ?thesis using mutation_needs_token[OF x] page_facts(7) by (simp only: simp_thms)
qed

theorem cancel_needs_proposal_witness:
  "\<exists>k v u. ws_proposals proposed k = Some (cancel_proposal v) \<and> v_run_id v = show_int 7
    \<and> \<not> is_terminal (v_state v) \<and> ws_proposals (proposed\<lparr>ws_proposals := Map.empty\<rparr>) = (ws_proposals proposed)(k := None)
    \<and> pv_run (ww_provider tiny_page) (RunId 7) = Some u \<and> \<not> is_terminal (v_state u)
    \<and> [CancelRun (RunId 7)] = [CancelRun (RunId 7)]"
proof -
  obtain x where x: "web_step (\<lambda>_. True) tiny_page (post ''/api/runs/7/cancel'' ''c'') proposed
    = (x, proposed\<lparr>ws_proposals := Map.empty\<rparr>, [CancelRun (RunId 7)])" using cancel_step by (rule exE)
  have m: "CancelRun (RunId 7) \<in> set [CancelRun (RunId 7)]" by (rule list.set_intros)
  show ?thesis by (rule cancel_needs_proposal[OF proposed_reach x m])
qed


end
