(* ===== verification/Tui_Rows.thy ===== *)
theory Tui_Rows
  imports Web_Views
begin

text \<open>
  What the terminal interface lists (\<open>src/tui/rows.rs\<close>): the sections, the overview with its counts,
  the filters and the rows of every section, and the formatting of ages and durations.  Text is UTF-8
  bytes.
\<close>

section \<open>Sections and rows\<close>

datatype focus = FocusOverview | FocusRuntime

datatype sect = SecAll | SecCategory category | SecLeftovers | SecPorts | SecProjects | SecDocker
  | SecSessions | SecRuns

definition section_title :: "sect \<Rightarrow> string" where
  "section_title s =
    (case s of SecAll \<Rightarrow> ''Runtime'' | SecCategory c \<Rightarrow> category_label c | SecLeftovers \<Rightarrow> ''Leftovers''
     | SecPorts \<Rightarrow> ''Ports'' | SecProjects \<Rightarrow> ''Projects'' | SecDocker \<Rightarrow> ''Docker''
     | SecSessions \<Rightarrow> ''Sessions'' | SecRuns \<Rightarrow> ''Runs'')"

record overview_line =
  ol_section :: sect
  ol_label :: string
  ol_count :: u32

text \<open>An item with its depth, whether it is the last of its siblings and whether an agent is above it;
  the summary of the unused anonymous volumes with their number, size and oldest date; a run by its index
  in the list of the interface.\<close>

datatype trow =
    RItem (row_item : runtime_item) nat bool bool
  | RDocker docker_resource
  | RDockerAgg u32 u64 int
  | RPort listening_port runtime_item
  | RProject string u64 nat
  | RSession session_info
  | RRun nat

section \<open>Filters\<close>

definition hay_hit :: "string \<Rightarrow> string \<Rightarrow> bool" where
  "hay_hit hay q \<longleftrightarrow> q = [] \<or> str_contains (to_ascii_lowercase hay) (to_ascii_lowercase q)"

definition item_hit :: "runtime_item \<Rightarrow> string \<Rightarrow> bool" where
  "item_hit i q \<longleftrightarrow>
    hay_hit (item_title i) q \<or> hay_hit (category_label (ri_category i)) q
    \<or> (case ri_project i of None \<Rightarrow> False | Some p \<Rightarrow> hay_hit (pr_name p) q \<or> hay_hit (pr_root p) q)
    \<or> list_ex (\<lambda>p. hay_hit (port_label p) q) (ri_ports i)"

fun query_ok :: "string \<Rightarrow> runtime_item \<Rightarrow> bool" where
  "query_ok q (RuntimeItem c n rt ids m st su po pj ch) \<longleftrightarrow>
    q = [] \<or> item_hit (RuntimeItem c n rt ids m st su po pj ch) q \<or> list_ex (query_ok q) ch"

definition project_hit :: "string \<Rightarrow> project option \<Rightarrow> bool" where
  "project_hit name pj = (case pj of None \<Rightarrow> False | Some p \<Rightarrow> eq_ignore_ascii_case (pr_name p) name)"

fun project_ok :: "string option \<Rightarrow> runtime_item \<Rightarrow> bool" where
  "project_ok None i = True"
| "project_ok (Some name) (RuntimeItem c n rt ids m st su po pj ch) \<longleftrightarrow>
    project_hit name pj \<or> list_ex (project_ok (Some name)) ch"

definition section_match :: "sect \<Rightarrow> runtime_item \<Rightarrow> bool" where
  "section_match s i =
    (case s of SecAll \<Rightarrow> True | SecCategory c \<Rightarrow> ri_category i = c | SecLeftovers \<Rightarrow> ri_state i = Suspicious
     | _ \<Rightarrow> False)"

fun section_ok :: "sect \<Rightarrow> runtime_item \<Rightarrow> bool" where
  "section_ok s (RuntimeItem c n rt ids m st su po pj ch) \<longleftrightarrow>
    section_match s (RuntimeItem c n rt ids m st su po pj ch) \<or> list_ex (section_ok s) ch"

definition docker_hit :: "string option \<Rightarrow> string \<Rightarrow> docker_resource \<Rightarrow> bool" where
  "docker_hit pr q r \<longleftrightarrow>
    (hay_hit (d_name r) q \<or> hay_hit (d_detail r) q \<or> hay_hit (docker_kind_label (d_kind r)) q
     \<or> (case d_compose r of None \<Rightarrow> False | Some c \<Rightarrow> hay_hit c q))
    \<and> (case pr of None \<Rightarrow> True | Some name \<Rightarrow> d_compose r = Some name)"

definition run_hit :: "string \<Rightarrow> run_view \<Rightarrow> bool" where
  "run_hit q v \<longleftrightarrow>
    q = [] \<or> hay_hit (v_run_id v) q \<or> hay_hit (state_as_str (v_state v)) q
    \<or> (case v_outcome v of None \<Rightarrow> False | Some r \<Rightarrow> hay_hit (outcome_as_str r) q)
    \<or> hay_hit (v_cwd v) q
    \<or> (case v_project_root v of None \<Rightarrow> False | Some p \<Rightarrow> hay_hit p q)
    \<or> (case v_session_id v of None \<Rightarrow> False | Some s \<Rightarrow> hay_hit s q)
    \<or> hay_hit (join_with '' '' (v_argv v)) q"

section \<open>The overview\<close>

text \<open>Categories count processes, not items; the counts are cut to 32 bits.\<close>

definition cat_count :: "runtime_item list \<Rightarrow> category \<Rightarrow> u32" where
  "cat_count items c =
    sum_list (map (\<lambda>i. of_nat (length (ri_pids i))) (filter (\<lambda>i. ri_category i = c) (all_items items)))"

definition cat_line :: "runtime_item list \<Rightarrow> category \<Rightarrow> overview_line" where
  "cat_line items c = \<lparr>ol_section = SecCategory c, ol_label = category_label c, ol_count = cat_count items c\<rparr>"

definition ALWAYS :: "category list" where "ALWAYS = [Agent, Mcp, Browser, DevServer, Database, Worker]"

definition overview :: "runtime_snapshot \<Rightarrow> run_view list \<Rightarrow> overview_line list" where
  "overview snap runs =
    (let items = sp_items snap in
     [\<lparr>ol_section = SecAll, ol_label = ''All'', ol_count = of_nat (length (all_items items))\<rparr>]
     @ map (cat_line items) ALWAYS
     @ map (cat_line items) (filter (\<lambda>c. cat_count items c > 0) [LanguageServer, DevService, UnknownDev])
     @ [\<lparr>ol_section = SecDocker, ol_label = ''Docker'', ol_count = of_nat (length (ds_resources (sp_docker snap)))\<rparr>,
        \<lparr>ol_section = SecPorts, ol_label = ''Ports'', ol_count = of_nat (sum_list (map count_ports items))\<rparr>,
        \<lparr>ol_section = SecProjects, ol_label = ''Projects'', ol_count = of_nat (count_projects items)\<rparr>,
        \<lparr>ol_section = SecLeftovers, ol_label = ''Leftovers'', ol_count = of_nat (leftover_count items)\<rparr>,
        \<lparr>ol_section = SecSessions, ol_label = ''Sessions'', ol_count = of_nat (length (sp_sessions snap))\<rparr>,
        \<lparr>ol_section = SecRuns, ol_label = ''Runs'', ol_count = of_nat (length runs)\<rparr>])"

section \<open>The rows of a section\<close>

definition row_visible :: "sect \<Rightarrow> string option \<Rightarrow> string \<Rightarrow> bool \<Rightarrow> runtime_item \<Rightarrow> bool" where
  "row_visible s pr q inside i \<longleftrightarrow>
    project_ok pr i \<and> query_ok q i \<and> (inside \<or> section_match s i \<or> section_ok s i)"

text \<open>The siblings that are shown, each with whether it is the last.\<close>

definition shown_kids :: "sect \<Rightarrow> string option \<Rightarrow> string \<Rightarrow> bool \<Rightarrow> runtime_item list \<Rightarrow> (nat \<times> runtime_item) list" where
  "shown_kids s pr q inside items = enumerate 0 (filter (row_visible s pr q inside) items)"

lemma shown_kids_sub: "(k, c) \<in> set (shown_kids s pr q inside items) \<Longrightarrow> c \<in> set items"
  by (auto simp: shown_kids_def in_set_enumerate_eq dest: nth_mem)

text \<open>Inside an item of the section everything the other filters keep is shown.\<close>

function item_rows ::
  "sect \<Rightarrow> string option \<Rightarrow> string \<Rightarrow> nat \<Rightarrow> bool \<Rightarrow> bool \<Rightarrow> bool \<Rightarrow> runtime_item \<Rightarrow> trow list" where
  "item_rows s pr q depth inside owned lst i =
    RItem i depth lst owned
    # (let ks = shown_kids s pr q (inside \<or> section_match s i) (ri_children i)
       in concat (map (\<lambda>(k, c). item_rows s pr q (Suc depth) (inside \<or> section_match s i)
                          (owned \<or> ri_category i = Agent) (Suc k = length ks) c) ks))"
  by pat_completeness auto
termination
proof (relation "measure (\<lambda>(s, pr, q, depth, inside, owned, lst, i). size i)")
  fix s :: sect and pr :: "string option" and q :: string and depth :: nat and inside owned lst :: bool
    and i c :: runtime_item and ks p k
  assume "ks = shown_kids s pr q (inside \<or> section_match s i) (ri_children i)" "p \<in> set ks" "(k, c) = p"
  then have "c \<in> set (ri_children i)" using shown_kids_sub by metis
  then have "size c < size i" by (cases i) (auto dest!: size_list_estimation'[of _ _ "size c" size])
  then show "((s, pr, q, Suc depth, inside \<or> section_match s i, owned \<or> ri_category i = Agent, Suc k = length ks, c),
      (s, pr, q, depth, inside, owned, lst, i)) \<in> measure (\<lambda>(s, pr, q, depth, inside, owned, lst, i). size i)" by simp
qed simp

declare item_rows.simps [simp del]

definition collect_items :: "sect \<Rightarrow> string option \<Rightarrow> string \<Rightarrow> runtime_item list \<Rightarrow> trow list" where
  "collect_items s pr q items =
    (let ks = shown_kids s pr q False items
     in concat (map (\<lambda>(k, c). item_rows s pr q 0 False False (Suc k = length ks) c) ks))"

text \<open>A port is listed once, for the first item with it in a walk over all items; that item also decides
  whether the query hits.\<close>

definition port_hit :: "string \<Rightarrow> runtime_item \<Rightarrow> listening_port \<Rightarrow> bool" where
  "port_hit q i p \<longleftrightarrow>
    q = [] \<or> hay_hit (port_label p) q \<or> hay_hit (item_title i) q
    \<or> (case ri_project i of None \<Rightarrow> False | Some pj \<Rightarrow> hay_hit (pr_name pj) q)"

definition port_step ::
  "string \<Rightarrow> runtime_item \<Rightarrow> trow list \<times> u16 set \<Rightarrow> listening_port \<Rightarrow> trow list \<times> u16 set" where
  "port_step q i acc p =
    (let (rows, seen) = acc in
     if lp_port p \<in> seen then (rows, seen)
     else (if port_hit q i p then rows @ [RPort p i] else rows, insert (lp_port p) seen))"

definition collect_ports :: "string option \<Rightarrow> string \<Rightarrow> runtime_item list \<Rightarrow> trow list" where
  "collect_ports pr q items =
    fst (foldl (\<lambda>acc i. if project_ok pr i then foldl (port_step q i) acc (ri_ports i) else acc)
           ([], {}) (all_items items))"

definition in_project :: "string \<Rightarrow> runtime_item \<Rightarrow> bool" where
  "in_project name i = (case ri_project i of None \<Rightarrow> False | Some p \<Rightarrow> pr_name p = name)"

definition collect_projects :: "string \<Rightarrow> runtime_item list \<Rightarrow> trow list" where
  "collect_projects q items =
    map (\<lambda>name. let mine = filter (in_project name) (all_items items)
                in RProject name (memory_sum mine) (length mine))
      (filter (\<lambda>name. hay_hit name q)
        (sort (remdups (map pr_name (List.map_filter ri_project (all_items items))))))"

definition collect_sessions :: "string \<Rightarrow> session_info list \<Rightarrow> trow list" where
  "collect_sessions q ss =
    map RSession (filter (\<lambda>s. hay_hit (si_agent s @ '' '' @ show_session_id (si_id s)) q) ss)"

definition collect_runs :: "string \<Rightarrow> run_view list \<Rightarrow> trow list" where
  "collect_runs q runs = map (\<lambda>(k, v). RRun k) (filter (\<lambda>(k, v). run_hit q v) (enumerate 0 runs))"

definition I64_MAX :: int where "I64_MAX = 2 ^ 63 - 1"

definition docker_agg :: "docker_resource list \<Rightarrow> trow list" where
  "docker_agg rs =
    (let ps = filter prunable rs; oldest = foldl (\<lambda>m r. min m (d_created r)) I64_MAX ps in
     if of_nat (length ps) > (0::u32) then
       [RDockerAgg (of_nat (length ps)) (sum_list (map d_size ps)) (if oldest = I64_MAX then 0 else oldest)]
     else [])"

definition rows :: "runtime_snapshot \<Rightarrow> run_view list \<Rightarrow> sect \<Rightarrow> string option \<Rightarrow> string \<Rightarrow> trow list" where
  "rows snap runs s pr q =
    (case s of
       SecPorts \<Rightarrow> collect_ports pr q (sp_items snap)
     | SecProjects \<Rightarrow> collect_projects q (sp_items snap)
     | SecDocker \<Rightarrow>
         map RDocker (filter (\<lambda>r. \<not> prunable r \<and> docker_hit pr q r) (ds_resources (sp_docker snap)))
         @ docker_agg (ds_resources (sp_docker snap))
     | SecSessions \<Rightarrow> collect_sessions q (sp_sessions snap)
     | SecRuns \<Rightarrow> collect_runs q runs
     | _ \<Rightarrow> collect_items s pr q (sp_items snap))"

section \<open>Ages, durations and cut text\<close>

definition fmt_age :: "u64 \<Rightarrow> u64 \<Rightarrow> string" where
  "fmt_age now start =
    (if start = 0 then utf8 [0xe2, 0x80, 0x94]
     else
       (let secs = unat (sat_sub now start) in
        if secs \<ge> 3600 then show_nat (secs div 3600) @ ''h'' @ pad2 (secs mod 3600 div 60) @ ''m''
        else if secs \<ge> 60 then show_nat (secs div 60) @ ''m'' @ pad2 (secs mod 60) @ ''s''
        else show_nat secs @ ''s''))"

definition fmt_dur :: "u64 \<Rightarrow> string" where
  "fmt_dur d =
    (let ms = unat d; secs = ms div 1000 in
     if ms < 1000 then show_nat ms @ ''ms''
     else if secs < 60 then show_nat secs @ ''.'' @ show_nat (ms mod 1000 div 100) @ ''s''
     else if secs < 3600 then show_nat (secs div 60) @ ''m'' @ pad2 (secs mod 60) @ ''s''
     else show_nat (secs div 3600) @ ''h'' @ pad2 (secs mod 3600 div 60) @ ''m'')"

text \<open>The subtraction wraps for a width of 0.\<close>

definition truncate_to :: "string \<Rightarrow> u64 \<Rightarrow> string" where
  "truncate_to s n =
    (if char_count s \<le> unat n then s else take_chars (unat (n - 1)) s @ utf8 [0xe2, 0x80, 0xa6])"

section \<open>Facts about the rows\<close>

lemma item_in_walk: "i \<in> set (walk_order i)" by (cases i) simp

lemma item_rows_items:
  "RItem j d l u \<in> set (item_rows s pr q depth inside owned lst i) \<Longrightarrow> j \<in> set (walk_order i)"
proof (induction s pr q depth inside owned lst i rule: item_rows.induct)
  case (1 s pr q depth inside owned lst i)
  obtain c n rt ids m st su po pj ch where i: "i = RuntimeItem c n rt ids m st su po pj ch" by (cases i)
  let ?ks = "shown_kids s pr q (inside \<or> section_match s i) (ri_children i)"
  from 1(2) consider "j = i" | k x where "(k, x) \<in> set ?ks"
      "RItem j d l u \<in> set (item_rows s pr q (Suc depth) (inside \<or> section_match s i)
                        (owned \<or> ri_category i = Agent) (Suc k = length ?ks) x)"
    by (subst (asm) item_rows.simps) (auto simp: Let_def)
  then show ?case
  proof cases
    case (2 k x)
    then have "j \<in> set (walk_order x)" using 1(1)[OF refl, of "(k, x)" k x] by blast
    moreover have "x \<in> set ch" using shown_kids_sub[OF 2(1)] by (simp add: i)
    ultimately show ?thesis by (auto simp: i)
  qed (simp add: item_in_walk)
qed

lemma port_steps_only:
  "r \<in> set (fst (foldl (port_step q i) acc ps)) \<Longrightarrow> r \<in> set (fst acc) \<or> (\<exists>p i. r = RPort p i)"
proof (induction ps arbitrary: acc)
  case (Cons p ps)
  then have "r \<in> set (fst (port_step q i acc p)) \<or> (\<exists>p i. r = RPort p i)" by simp
  then show ?case by (auto simp: port_step_def split: prod.splits if_splits)
qed simp

lemma collect_ports_only: "r \<in> set (collect_ports pr q items) \<Longrightarrow> \<exists>p i. r = RPort p i"
proof -
  have "r \<in> set (fst (foldl (\<lambda>acc i. if project_ok pr i then foldl (port_step q i) acc (ri_ports i) else acc) acc is))
      \<Longrightarrow> r \<in> set (fst acc) \<or> (\<exists>p i. r = RPort p i)" for acc "is"
  proof (induction "is" arbitrary: acc)
    case (Cons i "is")
    from Cons.IH[OF Cons.prems[simplified]] show ?case
      using port_steps_only[of r q i acc "ri_ports i"] by (auto split: if_splits)
  qed simp
  then show "r \<in> set (collect_ports pr q items) \<Longrightarrow> \<exists>p i. r = RPort p i" by (fastforce simp: collect_ports_def)
qed

lemma collect_ports_not [simp]:
  "RItem j d l u \<notin> set (collect_ports pr q items)" "RDocker r \<notin> set (collect_ports pr q items)"
  using collect_ports_only by fastforce+

lemma item_rows_not_docker [simp]: "RDocker r \<notin> set (item_rows s pr q depth inside owned lst i)"
  by (induction s pr q depth inside owned lst i rule: item_rows.induct) (subst item_rows.simps, auto simp: Let_def)

lemma collect_items_items: "RItem j d l u \<in> set (collect_items s pr q items) \<Longrightarrow> j \<in> set (all_items items)"
proof -
  assume "RItem j d l u \<in> set (collect_items s pr q items)"
  then obtain k x where kx: "(k, x) \<in> set (shown_kids s pr q False items)"
    "\<exists>lst. RItem j d l u \<in> set (item_rows s pr q 0 False False lst x)"
    by (auto simp: collect_items_def Let_def)
  then have "x \<in> set items" "j \<in> set (walk_order x)" using shown_kids_sub item_rows_items by blast+
  then show ?thesis by (auto simp: all_items_def)
qed

lemmas rows_defs = rows_def collect_projects_def collect_sessions_def collect_runs_def docker_agg_def Let_def

text \<open>Only items of the snapshot are shown as items, and prunable volumes are never rows of their own.\<close>

lemma rows_items: "RItem j d l u \<in> set (rows snap runs s pr q) \<Longrightarrow> j \<in> set (all_items (sp_items snap))"
  by (cases s) (auto simp: rows_defs dest: collect_items_items split: if_splits)

lemma rows_docker: "RDocker r \<in> set (rows snap runs s pr q) \<Longrightarrow> r \<in> set (ds_resources (sp_docker snap)) \<and> \<not> prunable r"
  by (cases s) (auto simp: rows_defs collect_items_def split: if_splits)

end
