(* ===== verification/Tui.thy ===== *)
theory Tui
  imports Tui_Rows Web
begin

text \<open>
  The terminal interface (\<open>src/tui/mod.rs\<close>): the feed of runs read off the main thread, the state
  of the interface, and one function per key, mouse and dialog handler, with the signals, Docker calls,
  rescans and opened pages each of them causes.  Which area a mouse position lies in is the layout
  library's answer and an argument; row numbers stay far below \<open>2 ^ 31\<close>, so they are natural
  numbers.
\<close>

section \<open>The feed of runs\<close>

definition RUNS_LIMIT :: nat where "RUNS_LIMIT = 200"

definition RUN_EVENTS_SHOWN :: nat where "RUN_EVENTS_SHOWN = 40"

datatype feed_error = ListFailed Run_Store.store_error | DetailFailed Run_Store.store_error

record run_detail =
  rd_record :: run_record
  rd_events :: "run_event list"

record run_feed =
  fd_version :: u64
  fd_rows :: "run_view list"
  fd_capacity :: "capacity option"
  fd_detail :: "run_detail option"
  fd_error :: "feed_error option"
  fd_focus :: "run_id option"
  fd_dirty :: bool
  fd_stop :: bool

definition feed_new :: run_feed where
  "feed_new = \<lparr>fd_version = 0, fd_rows = [], fd_capacity = None, fd_detail = None, fd_error = None,
     fd_focus = None, fd_dirty = False, fd_stop = False\<rparr>"

text \<open>What a round of the feed finds: the clock, the runs and the capacity of a supervisor that answers,
  and the store.\<close>

record feed_world =
  fw_now :: u64
  fw_live :: "run_view list option"
  fw_capacity :: "capacity option"
  fw_store :: run_store
  fw_macos :: bool
  fw_cgroup :: bool

definition load_detail :: "run_store \<Rightarrow> run_id \<Rightarrow> Run_Store.store_error + run_detail option" where
  "load_detail st i =
    (case run_get i st of
       Inl e \<Rightarrow> Inl e
     | Inr None \<Rightarrow> Inr None
     | Inr (Some r) \<Rightarrow>
         (let es = run_events i 0 st
          in Inr (Some \<lparr>rd_record = r,
               rd_events = (if length es > RUN_EVENTS_SHOWN then drop (length es - RUN_EVENTS_SHOWN) es else es)\<rparr>)))"

text \<open>A run that is still going shows its wall-clock time; the product wraps.\<close>

definition with_elapsed :: "u64 \<Rightarrow> run_view \<Rightarrow> run_view" where
  "with_elapsed now v =
    (if v_duration_ms v = None \<and> \<not> is_terminal (v_state v)
     then v\<lparr>v_duration_ms := Some (sat_sub now (v_created_at v) * 1000)\<rparr> else v)"

definition newest_filter :: run_filter where
  "newest_filter = \<lparr>rf_project = None, rf_session = None, rf_state = None, rf_limit = Some RUNS_LIMIT\<rparr>"

definition feed_rows :: "feed_world \<Rightarrow> run_view list \<times> feed_error option" where
  "feed_rows w =
    (case fw_live w of
       Some vs \<Rightarrow> (map (with_elapsed (fw_now w)) vs, None)
     | None \<Rightarrow>
         (case run_list newest_filter (fw_store w) of
            Inr rs \<Rightarrow> (map (\<lambda>r. with_elapsed (fw_now w) (view_from_record (fw_macos w) (fw_cgroup w) r)) rs, None)
          | Inl e \<Rightarrow> ([], Some (ListFailed e))))"

fun after_sep :: "string \<Rightarrow> string option" where
  "after_sep [] = None"
| "after_sep (c # s) = (if starts_with (c # s) '': '' then Some (drop 2 (c # s)) else after_sep s)"

definition queued_reason :: "run_store \<Rightarrow> string \<Rightarrow> string option" where
  "queued_reason st rid =
    (case parse_i64 rid of
       None \<Rightarrow> None
     | Some i \<Rightarrow>
         (case find (\<lambda>e. re_kind e = ''queued'') (rev (run_events (RunId i) 0 st)) of
            None \<Rightarrow> None
          | Some e \<Rightarrow>
              (case re_detail e of
                 None \<Rightarrow> None
               | Some d \<Rightarrow> Some (case after_sep d of Some r \<Rightarrow> r | None \<Rightarrow> d))))"

text \<open>The queued runs without a position get one, by creation time and then by id.\<close>

definition waiting_keys :: "run_view list \<Rightarrow> (u64 \<times> int \<times> nat) list" where
  "waiting_keys vs =
    sort (map (\<lambda>(i, v). (v_created_at v, or_default 0 (parse_i64 (v_run_id v)), i))
      (filter (\<lambda>(i, v). v_state v = Queued \<and> qi_position (v_queue v) = None) (enumerate 0 vs)))"

definition fill_one :: "u64 \<Rightarrow> run_store \<Rightarrow> nat \<Rightarrow> run_view \<Rightarrow> run_view" where
  "fill_one now st pos v =
    v\<lparr>v_queue := \<lparr>qi_position = Some (pos + 1), qi_waiting_ms = sat_mul (sat_sub now (v_created_at v)) 1000,
        qi_reason = (case qi_reason (v_queue v) of None \<Rightarrow> queued_reason st (v_run_id v) | Some r \<Rightarrow> Some r)\<rparr>\<rparr>"

definition fill_queue :: "u64 \<Rightarrow> run_store \<Rightarrow> run_view list \<Rightarrow> run_view list" where
  "fill_queue now st vs =
    foldl (\<lambda>vs (pos, _, _, i). vs[i := fill_one now st pos (vs ! i)]) vs (enumerate 0 (waiting_keys vs))"

definition feed_detail :: "feed_world \<Rightarrow> run_id option \<Rightarrow> run_detail option \<times> feed_error option" where
  "feed_detail w foc =
    (case foc of
       None \<Rightarrow> (None, None)
     | Some i \<Rightarrow> (case load_detail (fw_store w) i of Inr d \<Rightarrow> (d, None) | Inl e \<Rightarrow> (None, Some (DetailFailed e))))"

text \<open>One round, with the focus that was read when it began; the interface may have moved on since.  The
  error of the detail hides one of the list.\<close>

definition feed_round :: "feed_world \<Rightarrow> run_id option \<Rightarrow> run_feed \<Rightarrow> run_feed" where
  "feed_round w foc f =
    (let (vs, e1) = feed_rows w;
         (d, e2) = feed_detail w foc;
         e = (case e2 of Some x \<Rightarrow> Some x | None \<Rightarrow> e1);
         f1 = f\<lparr>fd_version := fd_version f + 1, fd_rows := fill_queue (fw_now w) (fw_store w) vs,
               fd_capacity := fw_capacity w, fd_detail := d, fd_error := e\<rparr>
     in if fd_stop f1 then f1 else f1\<lparr>fd_dirty := False\<rparr>)"

section \<open>State\<close>

datatype mode = List | Details | Help | ConfirmKill bool | ConfirmDocker | ConfirmPrune

record app =
  ap_focus :: focus
  ap_section :: sect
  ap_ov_sel :: nat
  ap_selected :: nat
  ap_scroll :: u16
  ap_detail_scroll :: u16
  ap_mode :: mode
  ap_marked :: "nat set"
  ap_query :: string
  ap_filtering :: bool
  ap_project :: "string option"
  ap_frozen :: "identity list"
  ap_frozen_title :: string
  ap_frozen_docker :: "docker_resource list"
  ap_runs :: "run_view list"
  ap_run_detail :: "run_detail option"
  ap_runs_version :: u64
  ap_runs_error :: "feed_error option"
  ap_capacity :: "capacity option"
  ap_feed :: run_feed

definition app_new :: app where
  "app_new = \<lparr>ap_focus = FocusRuntime, ap_section = SecAll, ap_ov_sel = 0, ap_selected = 0, ap_scroll = 0,
     ap_detail_scroll = 0, ap_mode = List, ap_marked = {}, ap_query = [], ap_filtering = False,
     ap_project = None, ap_frozen = [], ap_frozen_title = [], ap_frozen_docker = [], ap_runs = [],
     ap_run_detail = None, ap_runs_version = 0, ap_runs_error = None, ap_capacity = None, ap_feed = feed_new\<rparr>"

definition app_rows :: "runtime_snapshot \<Rightarrow> app \<Rightarrow> trow list" where
  "app_rows snap a = rows snap (ap_runs a) (ap_section a) (ap_project a) (ap_query a)"

definition app_overview :: "runtime_snapshot \<Rightarrow> app \<Rightarrow> overview_line list" where
  "app_overview snap a = overview snap (ap_runs a)"

definition below_len :: "nat \<Rightarrow> nat \<Rightarrow> nat" where
  "below_len n i = (if n = 0 then 0 else if i \<ge> n then n - 1 else i)"

definition clamp :: "runtime_snapshot \<Rightarrow> app \<Rightarrow> app" where
  "clamp snap a = a\<lparr>ap_selected := below_len (length (app_rows snap a)) (ap_selected a),
     ap_ov_sel := below_len (length (app_overview snap a)) (ap_ov_sel a)\<rparr>"

definition sync_runs :: "app \<Rightarrow> app" where
  "sync_runs a =
    (let f = ap_feed a in
     if fd_version f = ap_runs_version a then a
     else a\<lparr>ap_runs := fd_rows f, ap_run_detail := fd_detail f, ap_runs_version := fd_version f,
            ap_runs_error := fd_error f, ap_capacity := fd_capacity f\<rparr>)"

definition wake_feed :: "app \<Rightarrow> app" where "wake_feed a = a\<lparr>ap_feed := (ap_feed a)\<lparr>fd_dirty := True\<rparr>\<rparr>"

definition focus_run :: "run_id \<Rightarrow> app \<Rightarrow> app" where
  "focus_run i a = wake_feed (a\<lparr>ap_run_detail := None, ap_feed := (ap_feed a)\<lparr>fd_focus := Some i\<rparr>\<rparr>)"

definition reset_runtime :: "app \<Rightarrow> app" where
  "reset_runtime a = a\<lparr>ap_selected := 0, ap_scroll := 0, ap_marked := {}\<rparr>"

section \<open>The world and the effects\<close>

record tui_world =
  tw_keys :: keys_config
  tw_live :: live_starts
  tw_kill :: "pid \<Rightarrow> kill_result"
  tw_engine :: docker_engine
  tw_v6 :: "u16 list \<Rightarrow> string"

datatype tui_effect = TuiSignal pid Actions.signal | TuiDocker docker_call | Rescan | OpenUrl string

datatype key = KEsc | KLeft | KRight | KUp | KDown | KEnter | KTab | KBackspace | KPageUp | KPageDown
  | KChar nat | KOther

text \<open>Whether to quit, the new state and what was done.\<close>

type_synonym handled = "bool \<times> app \<times> tui_effect list"

definition stay :: "app \<Rightarrow> handled" where "stay a = (False, a, [])"

section \<open>Text input\<close>

text \<open>UTF-8 of a scalar value, and removing the last one.\<close>

definition encode_char :: "nat \<Rightarrow> string" where
  "encode_char n =
    map char_of
      (if n < 0x80 then [n]
       else if n < 0x800 then [0xc0 + n div 64, 0x80 + n mod 64]
       else if n < 0x10000 then [0xe0 + n div 4096, 0x80 + n div 64 mod 64, 0x80 + n mod 64]
       else [0xf0 + n div 262144, 0x80 + n div 4096 mod 64, 0x80 + n div 64 mod 64, 0x80 + n mod 64])"

definition pop_char :: "string \<Rightarrow> string" where
  "pop_char s = rev (drop 1 (dropWhile is_cont (rev s)))"

definition is_control :: "nat \<Rightarrow> bool" where "is_control n \<longleftrightarrow> n < 32 \<or> 127 \<le> n \<and> n < 160"

definition typed :: "char \<Rightarrow> key" where "typed c = KChar (of_char c)"

definition handle_filter_key :: "key \<Rightarrow> app \<Rightarrow> app" where
  "handle_filter_key k a =
    (case k of
       KEsc \<Rightarrow> reset_runtime (a\<lparr>ap_filtering := False, ap_query := []\<rparr>)
     | KEnter \<Rightarrow> a\<lparr>ap_filtering := False\<rparr>
     | KBackspace \<Rightarrow> reset_runtime (a\<lparr>ap_query := pop_char (ap_query a)\<rparr>)
     | KChar c \<Rightarrow> if is_control c then a else reset_runtime (a\<lparr>ap_query := ap_query a @ encode_char c\<rparr>)
     | _ \<Rightarrow> a)"

section \<open>Moving about\<close>

text \<open>One step out: the filter, then the project, then the section; \<open>None\<close> when there is nothing to
  undo.\<close>

definition unwind :: "app \<Rightarrow> app option" where
  "unwind a =
    (if ap_query a \<noteq> [] then Some (reset_runtime (a\<lparr>ap_query := []\<rparr>))
     else if ap_project a \<noteq> None then Some (reset_runtime (a\<lparr>ap_project := None\<rparr>))
     else if ap_section a \<noteq> SecAll then Some (reset_runtime (a\<lparr>ap_section := SecAll, ap_ov_sel := 0\<rparr>))
     else None)"

definition clear_or_quit :: "app \<Rightarrow> handled" where
  "clear_or_quit a = (case unwind a of Some a' \<Rightarrow> stay a' | None \<Rightarrow> (True, a, []))"

definition go_back :: "app \<Rightarrow> app" where
  "go_back a = (case unwind a of Some a' \<Rightarrow> a' | None \<Rightarrow> a)"

definition step_within :: "nat \<Rightarrow> int \<Rightarrow> nat \<Rightarrow> nat" where
  "step_within n delta i = (if n = 0 then i else nat (min (max (int i + delta) 0) (int n - 1)))"

definition move_sel :: "runtime_snapshot \<Rightarrow> int \<Rightarrow> app \<Rightarrow> app" where
  "move_sel snap delta a =
    (case ap_focus a of
       FocusOverview \<Rightarrow> a\<lparr>ap_ov_sel := step_within (length (app_overview snap a)) delta (ap_ov_sel a)\<rparr>
     | FocusRuntime \<Rightarrow> a\<lparr>ap_selected := step_within (length (app_rows snap a)) delta (ap_selected a)\<rparr>)"

definition nth_opt :: "'a list \<Rightarrow> nat \<Rightarrow> 'a option" where
  "nth_opt xs i = (if i < length xs then Some (xs ! i) else None)"

definition apply_overview :: "runtime_snapshot \<Rightarrow> app \<Rightarrow> app" where
  "apply_overview snap a =
    (case nth_opt (app_overview snap a) (ap_ov_sel a) of
       None \<Rightarrow> a
     | Some l \<Rightarrow> reset_runtime (a\<lparr>ap_section := ol_section l, ap_focus := FocusRuntime\<rparr>))"

definition jump_projects :: "runtime_snapshot \<Rightarrow> app \<Rightarrow> app" where
  "jump_projects snap a =
    (case position_by (\<lambda>l. ol_section l = SecProjects) (app_overview snap a) of
       None \<Rightarrow> a
     | Some i \<Rightarrow> reset_runtime (a\<lparr>ap_ov_sel := i, ap_section := SecProjects, ap_focus := FocusRuntime\<rparr>))"

definition open_run :: "nat \<Rightarrow> app \<Rightarrow> app" where
  "open_run i a =
    (case Option.bind (nth_opt (ap_runs a) i) (\<lambda>v. parse_i64 (v_run_id v)) of
       None \<Rightarrow> a
     | Some n \<Rightarrow> focus_run (RunId n) a)"

definition open_details :: "trow option \<Rightarrow> app \<Rightarrow> app" where
  "open_details r a =
    (let a1 = (case r of Some (RRun i) \<Rightarrow> open_run i a | _ \<Rightarrow> a)
     in a1\<lparr>ap_detail_scroll := 0, ap_mode := Details\<rparr>)"

definition on_enter :: "runtime_snapshot \<Rightarrow> app \<Rightarrow> app" where
  "on_enter snap a =
    (if ap_focus a = FocusOverview then apply_overview snap a
     else
       (case nth_opt (app_rows snap a) (ap_selected a) of
          None \<Rightarrow> a
        | Some r \<Rightarrow>
            (case r of
               RProject name _ _ \<Rightarrow>
                 reset_runtime (a\<lparr>ap_project := Some name, ap_section := SecAll, ap_ov_sel := 0\<rparr>)
             | _ \<Rightarrow> open_details (Some r) a)))"

section \<open>Dialogs\<close>

text \<open>The rows that are marked, in order, or the selected one.\<close>

definition chosen_rows :: "runtime_snapshot \<Rightarrow> app \<Rightarrow> trow list" where
  "chosen_rows snap a =
    List.map_filter (nth_opt (app_rows snap a))
      (if ap_marked a = {} then [ap_selected a] else sorted_list_of_set (ap_marked a))"

definition chosen_items :: "runtime_snapshot \<Rightarrow> app \<Rightarrow> runtime_item list" where
  "chosen_items snap a = List.map_filter (\<lambda>r. case r of RItem i _ _ _ \<Rightarrow> Some i | _ \<Rightarrow> None) (chosen_rows snap a)"

definition chosen_docker :: "runtime_snapshot \<Rightarrow> app \<Rightarrow> docker_resource list" where
  "chosen_docker snap a = List.map_filter (\<lambda>r. case r of RDocker d \<Rightarrow> Some d | _ \<Rightarrow> None) (chosen_rows snap a)"

text \<open>The walk over an item always returns, so the empty list never stands for a missing answer.\<close>

definition frozen_ids :: "process_info list \<Rightarrow> runtime_item list \<Rightarrow> identity list" where
  "frozen_ids ps items =
    concat (map (\<lambda>i. case identities_for i ps of Some ids \<Rightarrow> ids | None \<Rightarrow> []) items)"

definition open_kill_confirm :: "runtime_snapshot \<Rightarrow> bool \<Rightarrow> app \<Rightarrow> app" where
  "open_kill_confirm snap force a =
    (let items = chosen_items snap a; a1 = a\<lparr>ap_frozen := frozen_ids (sp_processes snap) items\<rparr>
     in if ap_frozen a1 = [] then a1
        else a1\<lparr>ap_frozen_title := join_with '', '' (map item_title items), ap_mode := ConfirmKill force\<rparr>)"

definition docker_all :: "docker_engine \<Rightarrow> docker_call list \<Rightarrow> (string option \<times> docker_call list) list" where
  "docker_all e cs = map (docker_do e) cs"

definition stop_docker :: "tui_world \<Rightarrow> runtime_snapshot \<Rightarrow> app \<Rightarrow> handled" where
  "stop_docker w snap a =
    (let answers = docker_all (tw_engine w) (map stop_call (filter docker_running (chosen_docker snap a)));
         es = map TuiDocker (concat (map snd answers))
     in if list_ex (\<lambda>x. fst x = None) answers then (False, a\<lparr>ap_marked := {}\<rparr>, es @ [Rescan])
        else (False, a, es))"

definition open_selected_url :: "tui_world \<Rightarrow> runtime_snapshot \<Rightarrow> app \<Rightarrow> tui_effect list" where
  "open_selected_url w snap a =
    (case nth_opt (app_rows snap a) (ap_selected a) of
       Some (RItem i _ _ _) \<Rightarrow> (case ri_ports i of p # _ \<Rightarrow> [OpenUrl (port_url (tw_v6 w) p)] | [] \<Rightarrow> [])
     | _ \<Rightarrow> [])"

definition open_docker_confirm :: "runtime_snapshot \<Rightarrow> app \<Rightarrow> app" where
  "open_docker_confirm snap a =
    (let a1 = a\<lparr>ap_frozen_docker := ap_frozen_docker a @ chosen_docker snap a\<rparr>
     in if ap_frozen_docker a1 = [] then a1 else a1\<lparr>ap_mode := ConfirmDocker\<rparr>)"

definition open_prune_confirm :: "runtime_snapshot \<Rightarrow> app \<Rightarrow> app" where
  "open_prune_confirm snap a =
    (if ds_ok (sp_docker snap) \<and> fst (prunable_stats (sp_docker snap)) > 0 then a\<lparr>ap_mode := ConfirmPrune\<rparr> else a)"

section \<open>Keys\<close>

text \<open>The fixed keys come first, then the configured ones in the order of the code, then the letters
  that move.\<close>

definition list_char :: "tui_world \<Rightarrow> runtime_snapshot \<Rightarrow> app \<Rightarrow> nat \<Rightarrow> handled" where
  "list_char w snap a c =
    (let ks = tw_keys w in
     if KChar c = typed (CHR ''/'') then stay (a\<lparr>ap_filtering := True\<rparr>)
     else if KChar c = typed (CHR ''p'') then stay (jump_projects snap a)
     else if key_hit (k_quit ks) c then (True, a, [])
     else if key_hit (k_refresh ks) c then (False, wake_feed a, [Rescan])
     else if key_hit (k_help ks) c then stay (a\<lparr>ap_mode := Help\<rparr>)
     else if KChar c = typed (CHR '' '') \<and> ap_focus a = FocusRuntime then
       stay (if app_rows snap a = [] then a
             else if ap_selected a \<in> ap_marked a then a\<lparr>ap_marked := ap_marked a - {ap_selected a}\<rparr>
             else a\<lparr>ap_marked := insert (ap_selected a) (ap_marked a)\<rparr>)
     else if key_hit (k_kill ks) c then stay (open_kill_confirm snap False a)
     else if key_hit (k_force_kill ks) c then stay (open_kill_confirm snap True a)
     else if key_hit (k_stop ks) c then stop_docker w snap a
     else if key_hit (k_prune ks) c then stay (open_prune_confirm snap a)
     else if key_hit (k_clean ks) c then stay (open_docker_confirm snap a)
     else if KChar c = typed (CHR ''j'') then stay (move_sel snap 1 a)
     else if KChar c = typed (CHR ''k'') then stay (move_sel snap (- 1) a)
     else if KChar c = typed (CHR ''h'') then stay (a\<lparr>ap_focus := FocusOverview\<rparr>)
     else if KChar c = typed (CHR ''l'') then stay (apply_overview snap a)
     else stay a)"

definition list_key :: "tui_world \<Rightarrow> runtime_snapshot \<Rightarrow> key \<Rightarrow> app \<Rightarrow> handled" where
  "list_key w snap k a =
    (if ap_filtering a then stay (handle_filter_key k a)
     else
       (case k of
          KEsc \<Rightarrow> clear_or_quit a
        | KLeft \<Rightarrow> stay (a\<lparr>ap_focus := FocusOverview\<rparr>)
        | KRight \<Rightarrow> stay (apply_overview snap a)
        | KUp \<Rightarrow> stay (move_sel snap (- 1) a)
        | KDown \<Rightarrow> stay (move_sel snap 1 a)
        | KEnter \<Rightarrow> stay (on_enter snap a)
        | KTab \<Rightarrow> stay (a\<lparr>ap_focus := (if ap_focus a = FocusOverview then FocusRuntime else FocusOverview)\<rparr>)
        | KBackspace \<Rightarrow> stay (go_back a)
        | KChar c \<Rightarrow> list_char w snap a c
        | _ \<Rightarrow> stay a))"

definition help_key :: "key \<Rightarrow> app \<Rightarrow> app" where
  "help_key k a =
    (if k \<in> {KEsc, KBackspace, typed (CHR ''q''), typed (CHR ''?'')} then a\<lparr>ap_mode := List\<rparr> else a)"

definition scroll_by :: "key \<Rightarrow> app \<Rightarrow> app" where
  "scroll_by k a =
    (if k = KUp \<or> k = typed (CHR ''k'') then a\<lparr>ap_detail_scroll := sat_sub (ap_detail_scroll a) 1\<rparr>
     else if k = KDown \<or> k = typed (CHR ''j'') then a\<lparr>ap_detail_scroll := sat_add (ap_detail_scroll a) 1\<rparr>
     else if k = KPageUp then a\<lparr>ap_detail_scroll := sat_sub (ap_detail_scroll a) 8\<rparr>
     else if k = KPageDown then a\<lparr>ap_detail_scroll := sat_add (ap_detail_scroll a) 8\<rparr>
     else a)"

definition hit_key :: "string \<Rightarrow> key \<Rightarrow> bool" where
  "hit_key spec k = (case k of KChar c \<Rightarrow> key_hit spec c | _ \<Rightarrow> False)"

definition details_key :: "tui_world \<Rightarrow> runtime_snapshot \<Rightarrow> key \<Rightarrow> app \<Rightarrow> handled" where
  "details_key w snap k a =
    (let ks = tw_keys w in
     if k \<in> {KEsc, KEnter, KBackspace, typed (CHR ''q'')} then stay (a\<lparr>ap_mode := List\<rparr>)
     else if hit_key (k_kill ks) k then stay (open_kill_confirm snap False a)
     else if hit_key (k_force_kill ks) k then stay (open_kill_confirm snap True a)
     else if hit_key (k_stop ks) k then stop_docker w snap a
     else if hit_key (k_clean ks) k then stay (open_docker_confirm snap a)
     else if k = typed (CHR ''o'') then (False, a, open_selected_url w snap a)
     else stay (scroll_by k a))"

definition refused :: "key \<Rightarrow> bool" where "refused k \<longleftrightarrow> k \<in> {KEsc, KBackspace, typed (CHR ''n'')}"

definition kill_key :: "tui_world \<Rightarrow> bool \<Rightarrow> key \<Rightarrow> app \<Rightarrow> handled" where
  "kill_key w force k a =
    (if refused k then stay (a\<lparr>ap_mode := List\<rparr>)
     else if k = typed (CHR ''y'') then
       (let sent = snd (send (tw_live w) (tw_kill w) (ap_frozen a))
        in (False, a\<lparr>ap_mode := List, ap_frozen := [], ap_marked := {}\<rparr>,
            map (\<lambda>p. TuiSignal p (if force then Kill else Term)) sent @ [Rescan]))
     else stay a)"

definition remove_targets :: "tui_world \<Rightarrow> docker_resource list \<Rightarrow> app \<Rightarrow> handled" where
  "remove_targets w targets a =
    (if targets = [] then stay a
     else (False, a\<lparr>ap_mode := List, ap_frozen_docker := [], ap_marked := {}\<rparr>,
           map TuiDocker (concat (map snd (docker_all (tw_engine w) (map remove_call targets)))) @ [Rescan]))"

definition docker_key :: "tui_world \<Rightarrow> key \<Rightarrow> app \<Rightarrow> handled" where
  "docker_key w k a =
    (if refused k then stay (a\<lparr>ap_mode := List, ap_frozen_docker := []\<rparr>)
     else if k = typed (CHR ''y'') then remove_targets w (filter (\<lambda>r. \<not> d_persistent r) (ap_frozen_docker a)) a
     else if k = typed (CHR ''D'') then remove_targets w (filter d_persistent (ap_frozen_docker a)) a
     else stay a)"

definition prune_key :: "tui_world \<Rightarrow> runtime_snapshot \<Rightarrow> key \<Rightarrow> app \<Rightarrow> handled" where
  "prune_key w snap k a =
    (if refused k then stay (a\<lparr>ap_mode := List\<rparr>)
     else if k = typed (CHR ''y'') then
       (False, a\<lparr>ap_mode := List\<rparr>,
        map TuiDocker (snd (prune_anonymous (tw_engine w) (prunable_ids (sp_docker snap)))) @ [Rescan])
     else stay a)"

definition handle_key :: "tui_world \<Rightarrow> runtime_snapshot \<Rightarrow> key \<Rightarrow> app \<Rightarrow> handled" where
  "handle_key w snap k a =
    (case ap_mode a of
       List \<Rightarrow> list_key w snap k a
     | Help \<Rightarrow> stay (help_key k a)
     | Details \<Rightarrow> details_key w snap k a
     | ConfirmKill force \<Rightarrow> kill_key w force k a
     | ConfirmDocker \<Rightarrow> docker_key w k a
     | ConfirmPrune \<Rightarrow> prune_key w snap k a)"

section \<open>The mouse\<close>

datatype mouse_kind = MDown | MDrag | MScrollUp | MScrollDown | MOther

text \<open>Which areas contain the position, and the row counted from the top of the two lists.\<close>

record mouse_event =
  me_kind :: mouse_kind
  me_in_overview :: bool
  me_in_list :: bool
  me_in_popup :: bool
  me_overview_row :: u16
  me_list_row :: u16

definition click_overview :: "runtime_snapshot \<Rightarrow> nat \<Rightarrow> app \<Rightarrow> app" where
  "click_overview snap i a =
    (if i < length (app_overview snap a)
     then apply_overview snap (a\<lparr>ap_ov_sel := i, ap_focus := FocusOverview\<rparr>) else a)"

definition click_list :: "runtime_snapshot \<Rightarrow> bool \<Rightarrow> nat \<Rightarrow> app \<Rightarrow> app" where
  "click_list snap pressed i a =
    (if i < length (app_rows snap a) then
       (let again = (ap_focus a = FocusRuntime \<and> ap_selected a = i);
            a1 = a\<lparr>ap_selected := i, ap_focus := FocusRuntime\<rparr>
        in if again \<and> pressed then open_details (nth_opt (app_rows snap a1) i) a1 else a1)
     else a)"

definition handle_mouse :: "runtime_snapshot \<Rightarrow> mouse_event \<Rightarrow> app \<Rightarrow> app" where
  "handle_mouse snap m a =
    (if ap_mode a \<noteq> List then
       (if me_kind m = MDown \<and> \<not> me_in_popup m then a\<lparr>ap_mode := List, ap_frozen_docker := []\<rparr> else a)
     else
       (case me_kind m of
          MScrollUp \<Rightarrow> move_sel snap (- 1) a
        | MScrollDown \<Rightarrow> move_sel snap 1 a
        | MOther \<Rightarrow> a
        | _ \<Rightarrow>
            if me_in_overview m then click_overview snap (unat (me_overview_row m)) a
            else if me_in_list m then
              click_list snap (me_kind m = MDown) (unat (me_list_row m) + unat (ap_scroll a)) a
            else a))"

section \<open>Drawing\<close>

text \<open>The scroll position follows the selection; the details cannot be scrolled past their end.\<close>

definition follow_selected :: "u16 \<Rightarrow> app \<Rightarrow> app" where
  "follow_selected view_h a =
    (let h = unat view_h; sel = ap_selected a; scroll = unat (ap_scroll a) in
     if h = 0 then a
     else if sel < scroll then a\<lparr>ap_scroll := of_nat sel\<rparr>
     else if sel \<ge> scroll + h then a\<lparr>ap_scroll := of_nat (sel + 1 - h)\<rparr>
     else a)"

definition bound_details :: "nat \<Rightarrow> nat \<Rightarrow> app \<Rightarrow> app" where
  "bound_details line_count inner_h a =
    (let max_scroll = line_count - max inner_h 1 in
     if unat (ap_detail_scroll a) > max_scroll then a\<lparr>ap_detail_scroll := of_nat max_scroll\<rparr> else a)"

definition draw :: "u16 \<Rightarrow> nat \<Rightarrow> nat \<Rightarrow> app \<Rightarrow> app" where
  "draw list_h line_count inner_h a =
    (if ap_mode a = Help then a
     else
       (let a1 = follow_selected list_h a
        in if ap_mode a = Details then bound_details line_count inner_h a1 else a1))"

section \<open>The event loop\<close>

datatype tui_event = EvKey key | EvMouse mouse_event | EvFeed feed_world "run_id option" | EvTurn | EvDraw u16 nat nat | EvOther

definition tui_step :: "tui_world \<Rightarrow> runtime_snapshot \<Rightarrow> tui_event \<Rightarrow> app \<Rightarrow> handled" where
  "tui_step w snap e a =
    (case e of
       EvKey k \<Rightarrow> handle_key w snap k a
     | EvMouse m \<Rightarrow> stay (handle_mouse snap m a)
     | EvFeed fw foc \<Rightarrow> stay (a\<lparr>ap_feed := feed_round fw foc (ap_feed a)\<rparr>)
     | EvTurn \<Rightarrow> stay (clamp snap (sync_runs a))
     | EvDraw h n ih \<Rightarrow> stay (draw h n ih a)
     | EvOther \<Rightarrow> stay a)"

text \<open>The states of a session, with the snapshots its handlers have seen.\<close>

inductive tui_reach :: "runtime_snapshot list \<Rightarrow> app \<Rightarrow> bool" where
  tui_start: "tui_reach [] app_new"
| tui_next: "tui_reach snaps a \<Longrightarrow> tui_step w snap e a = (False, a', es) \<Longrightarrow> tui_reach (snap # snaps) a'"

end
