(* ===== verification/Tui_Props.thy ===== *)
theory Tui_Props
  imports Tui
begin

text \<open>
  What the terminal interface does to the machine: one case rule over every event, and from it the
  contents of the dialogs in reachable states, the signals and the Docker calls, leaving with Esc and the
  bounds of the selection.
\<close>

section \<open>The part of the state the dialogs use\<close>

definition core :: "app \<Rightarrow> mode \<times> identity list \<times> docker_resource list" where
  "core a = (ap_mode a, ap_frozen a, ap_frozen_docker a)"

lemma core_simps [simp]:
  "core (a\<lparr>ap_focus := x1\<rparr>) = core a" "core (a\<lparr>ap_section := x2\<rparr>) = core a" "core (a\<lparr>ap_ov_sel := x3\<rparr>) = core a"
  "core (a\<lparr>ap_selected := x3\<rparr>) = core a" "core (a\<lparr>ap_scroll := x5\<rparr>) = core a"
  "core (a\<lparr>ap_detail_scroll := x5\<rparr>) = core a" "core (a\<lparr>ap_marked := x7\<rparr>) = core a" "core (a\<lparr>ap_query := x8\<rparr>) = core a"
  "core (a\<lparr>ap_filtering := x9\<rparr>) = core a" "core (a\<lparr>ap_project := x10\<rparr>) = core a" "core (a\<lparr>ap_runs := x11\<rparr>) = core a"
  "core (a\<lparr>ap_run_detail := x12\<rparr>) = core a" "core (a\<lparr>ap_runs_version := x13\<rparr>) = core a"
  "core (a\<lparr>ap_runs_error := x14\<rparr>) = core a" "core (a\<lparr>ap_capacity := x15\<rparr>) = core a" "core (a\<lparr>ap_feed := x16\<rparr>) = core a"
  "core (a\<lparr>ap_frozen_title := x8\<rparr>) = core a"
  "core (a\<lparr>ap_mode := m\<rparr>) = (m, snd (core a))"
  "core (a\<lparr>ap_frozen := f\<rparr>) = (fst (core a), f, snd (snd (core a)))"
  "core (a\<lparr>ap_frozen_docker := d\<rparr>) = (fst (core a), fst (snd (core a)), d)"
  by (simp_all add: core_def)

lemma core_moves [simp]:
  "core (reset_runtime a) = core a" "core (wake_feed a) = core a" "core (focus_run i a) = core a"
  "core (move_sel snap d a) = core a" "core (apply_overview snap a) = core a" "core (jump_projects snap a) = core a"
  "core (open_run k a) = core a" "core (handle_filter_key key a) = core a" "core (go_back a) = core a"
  "core (clamp snap a) = core a" "core (sync_runs a) = core a" "core (follow_selected h a) = core a"
  "core (bound_details n ih a) = core a" "core (click_overview snap k a) = core a" "core (scroll_by key a) = core a"
  by (simp_all add: reset_runtime_def wake_feed_def focus_run_def move_sel_def apply_overview_def jump_projects_def
      open_run_def handle_filter_key_def go_back_def unwind_def clamp_def sync_runs_def follow_selected_def
      bound_details_def click_overview_def scroll_by_def Let_def split: focus.splits option.splits key.splits)

lemma core_draw [simp]: "core (draw h n ih a) = core a" by (simp add: draw_def Let_def)

lemma core_details [simp]: "core (open_details r a) = (Details, snd (core a))"
  by (simp add: open_details_def Let_def split: option.splits trow.splits)

lemma core_enter: "core (on_enter snap a) = core a \<or> core (on_enter snap a) = (Details, snd (core a))"
  by (simp add: on_enter_def split: option.splits trow.splits)

lemma core_click: "core (click_list snap d i a) = core a \<or> core (click_list snap d i a) = (Details, snd (core a))"
  by (simp add: click_list_def Let_def)

lemma core_quit: "clear_or_quit a = (q, a', es) \<Longrightarrow> core a' = core a \<and> es = []"
  by (auto simp: clear_or_quit_def unwind_def stay_def split: option.splits if_splits)

section \<open>What the rows give to the dialogs\<close>

lemma chosen_rows_sub: "r \<in> set (chosen_rows snap a) \<Longrightarrow> r \<in> set (app_rows snap a)"
  by (auto simp: chosen_rows_def List.map_filter_def nth_opt_def split: if_splits)

lemma chosen_items_sub: "i \<in> set (chosen_items snap a) \<Longrightarrow> i \<in> set (all_items (sp_items snap))"
proof -
  assume "i \<in> set (chosen_items snap a)"
  then obtain d l u where "RItem i d l u \<in> set (chosen_rows snap a)"
    by (auto simp: chosen_items_def List.map_filter_def split: trow.splits)
  then show ?thesis using chosen_rows_sub rows_items unfolding app_rows_def by blast
qed

lemma chosen_docker_sub:
  "r \<in> set (chosen_docker snap a) \<Longrightarrow> r \<in> set (ds_resources (sp_docker snap)) \<and> \<not> prunable r"
proof -
  assume "r \<in> set (chosen_docker snap a)"
  then have "RDocker r \<in> set (chosen_rows snap a)"
    by (auto simp: chosen_docker_def List.map_filter_def split: trow.splits)
  then show ?thesis using chosen_rows_sub rows_docker unfolding app_rows_def by blast
qed

lemma docker_all_calls: "c \<in> set (concat (map snd (docker_all e cs))) \<Longrightarrow> c \<in> set cs"
  by (auto simp: docker_all_def docker_do_def split: option.splits)

definition stops :: "runtime_snapshot \<Rightarrow> tui_effect set" where
  "stops snap = {TuiDocker (stop_call r) |r. r \<in> set (ds_resources (sp_docker snap)) \<and> docker_running r}"

lemma stop_effects:
  assumes "stop_docker w snap a = (q, a', es)"
  shows "core a' = core a" "set es \<subseteq> insert Rescan (stops snap)" "q = False"
proof -
  define cs where "cs = map stop_call (filter docker_running (chosen_docker snap a))"
  define sent where "sent = concat (map snd (docker_all (tw_engine w) cs))"
  have "TuiDocker c \<in> stops snap" if "c \<in> set sent" for c
  proof -
    from that have "c \<in> set cs" unfolding sent_def by (rule docker_all_calls)
    then obtain r where "r \<in> set (chosen_docker snap a)" "docker_running r" "c = stop_call r" by (auto simp: cs_def)
    then show ?thesis using chosen_docker_sub by (auto simp: stops_def)
  qed
  then have "set (map TuiDocker sent) \<subseteq> insert Rescan (stops snap)" by auto
  moreover have "(q, a', es) = (False, a\<lparr>ap_marked := {}\<rparr>, map TuiDocker sent @ [Rescan])
      \<or> (q, a', es) = (False, a, map TuiDocker sent)"
    using assms by (auto simp: stop_docker_def Let_def cs_def sent_def split: if_splits)
  ultimately show "core a' = core a" "set es \<subseteq> insert Rescan (stops snap)" "q = False" by (auto simp del: set_map)
qed

section \<open>The cases of a step\<close>

text \<open>What a handler may return in the modes without a dialog.\<close>

definition plain :: "runtime_snapshot \<Rightarrow> app \<Rightarrow> handled \<Rightarrow> bool" where
  "plain snap a h \<longleftrightarrow>
    (let a' = fst (snd h); es = snd (snd h) in
     core a' = core a \<and> set es \<subseteq> {Rescan} \<union> range OpenUrl \<union> stops snap
     \<or> es = [] \<and> ((\<exists>m\<in>{List, Details, Help, ConfirmPrune}. core a' = (m, snd (core a)))
                  \<or> (\<exists>force. a' = open_kill_confirm snap force a) \<or> a' = open_docker_confirm snap a))"

lemma plain_if: "plain snap a x \<Longrightarrow> plain snap a y \<Longrightarrow> plain snap a (if b then x else y)" by simp

lemma plain_stay:
  "core a' = core a \<Longrightarrow> plain snap a (stay a')"
  "core a' = (m, snd (core a)) \<Longrightarrow> m \<in> {List, Details, Help, ConfirmPrune} \<Longrightarrow> plain snap a (stay a')"
  "plain snap a (stay (open_kill_confirm snap force a))"
  "plain snap a (stay (open_docker_confirm snap a))"
  by (auto simp: plain_def stay_def Let_def)

lemma plain_quiet: "core a' = core a \<Longrightarrow> set es \<subseteq> {Rescan} \<union> range OpenUrl \<union> stops snap \<Longrightarrow> plain snap a (q, a', es)"
  by (simp add: plain_def)

lemma plain_stop: "plain snap a (stop_docker w snap a)"
proof (cases "stop_docker w snap a")
  case (fields q a' es)
  from stop_effects(1,2)[OF fields] show ?thesis unfolding fields by (intro plain_quiet) auto
qed

lemma plain_prune: "plain snap a (stay (open_prune_confirm snap a))"
  by (simp add: open_prune_confirm_def plain_stay(1)) (auto intro: plain_stay(2))

lemma plain_enter: "plain snap a (stay (on_enter snap a))"
  using core_enter[of snap a] plain_stay(1,2) by blast

lemma plain_quit: "plain snap a (clear_or_quit a)"
  by (cases "clear_or_quit a") (use core_quit in \<open>fastforce simp: plain_def\<close>)

lemma plain_list_char: "plain snap a (list_char w snap a c)"
  unfolding list_char_def Let_def
  by (intro plain_if plain_stop plain_prune plain_stay(3,4)) (auto intro: plain_stay plain_quiet)

lemma plain_list_key: "plain snap a (list_key w snap k a)"
  unfolding list_key_def
  by (cases k) (simp_all add: plain_stay(1) plain_quit plain_enter plain_list_char)

lemma plain_details_key: "plain snap a (details_key w snap k a)"
  unfolding details_key_def Let_def
  by (intro plain_if plain_stop plain_stay(3,4))
    (auto intro: plain_stay plain_quiet simp: open_selected_url_def split: option.splits trow.splits list.splits)

lemma plain_click: "plain snap a (stay (click_list snap d i a))"
  using core_click[of snap d i a] plain_stay(1,2) by blast

lemma plain_mouse: "ap_mode a = List \<Longrightarrow> plain snap a (stay (handle_mouse snap m a))"
  unfolding handle_mouse_def by (cases "me_kind m") (auto intro: plain_stay(1) plain_click)

lemma plain_help: "plain snap a (stay (help_key k a))"
  by (simp add: help_key_def plain_stay(1)) (auto intro: plain_stay(2))

definition calm :: "runtime_snapshot \<Rightarrow> tui_effect set" where
  "calm snap = {Rescan} \<union> range OpenUrl \<union> stops snap"

lemma remove_effects:
  assumes "remove_targets w targets a = (q, a', es)"
  shows "a' = a \<and> es = [] \<or>
    core a' = (List, ap_frozen a, []) \<and> set es \<subseteq> insert Rescan (TuiDocker ` remove_call ` set targets)"
proof -
  define sent where "sent = concat (map snd (docker_all (tw_engine w) (map remove_call targets)))"
  have "set sent \<subseteq> remove_call ` set targets" using docker_all_calls by (fastforce simp: sent_def simp del: set_concat)
  then have "set (map TuiDocker sent) \<subseteq> TuiDocker ` remove_call ` set targets" by auto
  moreover have "a' = a \<and> es = [] \<or> a' = a\<lparr>ap_mode := List, ap_frozen_docker := [], ap_marked := {}\<rparr>
      \<and> es = map TuiDocker sent @ [Rescan]"
    using assms by (auto simp: remove_targets_def stay_def sent_def split: if_splits)
  ultimately show ?thesis by (auto simp: core_def simp del: set_map)
qed

lemma prune_effects: "set (map TuiDocker (snd (prune_anonymous e ids)) @ [Rescan]) \<subseteq> insert Rescan (TuiDocker ` RemoveVolume ` set ids)"
  by (auto simp: prune_anonymous_def split: option.splits)

lemma tui_step_cases:
  assumes "tui_step w snap e a = (q, a', es)"
  obtains
    (quiet) "core a' = core a" "set es \<subseteq> calm snap"
  | (moved) m where "ap_mode a \<noteq> ConfirmDocker" "core a' = (m, snd (core a))"
      "m \<in> {List, Details, Help, ConfirmPrune}" "es = []"
  | (kill) force where "ap_mode a \<in> {List, Details, Help}" "a' = open_kill_confirm snap force a" "es = []"
  | (docker) "a' = open_docker_confirm snap a" "es = []"
  | (dismissed) "core a' = (List, ap_frozen a, [])" "es = []"
  | (killed) force where "ap_mode a = ConfirmKill force" "e = EvKey (typed (CHR ''y''))"
      "core a' = (List, [], ap_frozen_docker a)"
      "es = map (\<lambda>i. TuiSignal (id_pid i) (if force then Kill else Term))
              (filter (identity_live (tw_live w)) (ap_frozen a)) @ [Rescan]"
  | (removed) c where "ap_mode a = ConfirmDocker" "e = EvKey (typed c)" "c = CHR ''y'' \<or> c = CHR ''D''"
      "core a' = (List, ap_frozen a, [])"
      "set es \<subseteq> insert Rescan (TuiDocker ` remove_call ` {r \<in> set (ap_frozen_docker a). d_persistent r \<longleftrightarrow> c = CHR ''D''})"
  | (pruned) "ap_mode a = ConfirmPrune" "e = EvKey (typed (CHR ''y''))" "core a' = (List, snd (core a))"
      "set es \<subseteq> insert Rescan (TuiDocker ` RemoveVolume ` set (prunable_ids (sp_docker snap)))"
proof -
  have plain: thesis if "plain snap a (q, a', es)" "ap_mode a \<in> {List, Details, Help}"
  proof -
    have "ap_mode a \<noteq> ConfirmDocker" using that(2) by auto
    then show thesis
      using that unfolding plain_def Let_def fst_conv snd_conv calm_def[symmetric]
      by (elim disjE conjE bexE exE) (auto intro: quiet moved kill docker)
  qed
  show thesis
  proof (cases e)
    case (EvKey k)
    then have h: "handle_key w snap k a = (q, a', es)" using assms by (simp add: tui_step_def)
    show thesis
    proof (cases "ap_mode a")
      case (ConfirmKill force)
      then have "core a' = (List, snd (core a)) \<and> es = [] \<or> core a' = core a \<and> es = [] \<or>
          k = typed (CHR ''y'') \<and> core a' = (List, [], ap_frozen_docker a)
          \<and> es = map (\<lambda>i. TuiSignal (id_pid i) (if force then Kill else Term))
              (filter (identity_live (tw_live w)) (ap_frozen a)) @ [Rescan]"
        using h by (auto simp: handle_key_def kill_key_def stay_def send_sent core_def split: if_splits)
      then show thesis using moved[of List] quiet killed[OF ConfirmKill] ConfirmKill EvKey by auto
    next
      case ConfirmDocker
      have rem: thesis if "remove_targets w (filter P (ap_frozen_docker a)) a = (q, a', es)" "k = typed c"
        "c = CHR ''y'' \<or> c = CHR ''D''" "P = (\<lambda>r. d_persistent r \<longleftrightarrow> c = CHR ''D'')" for P c
        using remove_effects[OF that(1)] quiet removed[OF ConfirmDocker _ that(3)] that(2,4) EvKey by auto
      show thesis
      proof (cases "refused k")
        case True
        then show thesis using h ConfirmDocker dismissed by (auto simp: handle_key_def docker_key_def stay_def core_def)
      next
        case False
        then consider "k = typed (CHR ''y'')" | "k = typed (CHR ''D'')" | "a' = a" "es = []"
          using h ConfirmDocker by (auto simp: handle_key_def docker_key_def stay_def split: if_splits)
        then show thesis
        proof cases
          case 1
          then have "remove_targets w (filter (\<lambda>r. \<not> d_persistent r) (ap_frozen_docker a)) a = (q, a', es)"
            using h ConfirmDocker False by (simp add: handle_key_def docker_key_def)
          then show thesis by (rule rem[OF _ 1]) simp_all
        next
          case 2
          then have "k \<noteq> typed (CHR ''y'')" by (simp add: typed_def)
          then have "remove_targets w (filter d_persistent (ap_frozen_docker a)) a = (q, a', es)"
            using h ConfirmDocker False 2 by (simp add: handle_key_def docker_key_def)
          then show thesis by (rule rem[OF _ 2]) simp_all
        qed (use quiet in auto)
      qed
    next
      case ConfirmPrune
      then have "core a' = (List, snd (core a)) \<and> es = [] \<or> core a' = core a \<and> es = [] \<or>
          k = typed (CHR ''y'') \<and> core a' = (List, snd (core a))
          \<and> set es \<subseteq> insert Rescan (TuiDocker ` RemoveVolume ` set (prunable_ids (sp_docker snap)))"
        using h prune_effects[of "tw_engine w" "prunable_ids (sp_docker snap)"]
        by (auto simp: handle_key_def prune_key_def stay_def core_def simp del: set_map set_append split: if_splits)
      then show thesis using moved[of List] quiet pruned[OF ConfirmPrune] ConfirmPrune EvKey by auto
    next
      case List
      then show thesis using plain plain_list_key[of snap a w k] h by (simp add: handle_key_def)
    next
      case Details
      then show thesis using plain plain_details_key[of snap a w k] h by (simp add: handle_key_def)
    next
      case Help
      then show thesis using plain plain_help[of snap a k] h by (simp add: handle_key_def)
    qed
  next
    case (EvMouse m)
    then have h: "stay (handle_mouse snap m a) = (q, a', es)" using assms by (simp add: tui_step_def)
    show thesis
    proof (cases "ap_mode a = List")
      case True
      then show thesis using plain plain_mouse[OF True, of snap m] h by simp
    next
      case False
      then have "a' = a \<and> es = [] \<or> core a' = (List, ap_frozen a, []) \<and> es = []"
        using h by (auto simp: handle_mouse_def stay_def core_def split: if_splits)
      then show thesis using quiet dismissed by auto
    qed
  qed (use assms quiet in \<open>auto simp: tui_step_def stay_def\<close>)
qed

section \<open>The dialogs in reachable states\<close>

definition item_identity :: "runtime_snapshot list \<Rightarrow> identity \<Rightarrow> bool" where
  "item_identity snaps k \<longleftrightarrow>
    (\<exists>sn\<in>set snaps. \<exists>i\<in>set (all_items (sp_items sn)). \<exists>ids. identities_for i (sp_processes sn) = Some ids \<and> k \<in> set ids)"

definition listed_docker :: "runtime_snapshot list \<Rightarrow> docker_resource \<Rightarrow> bool" where
  "listed_docker snaps r \<longleftrightarrow> (\<exists>sn\<in>set snaps. r \<in> set (ds_resources (sp_docker sn)) \<and> \<not> prunable r)"

definition dialogs_ok :: "runtime_snapshot list \<Rightarrow> mode \<times> identity list \<times> docker_resource list \<Rightarrow> bool" where
  "dialogs_ok snaps c \<longleftrightarrow>
    (case c of (m, frozen, docker) \<Rightarrow>
       (\<forall>k\<in>set frozen. item_identity snaps k) \<and> (\<forall>r\<in>set docker. listed_docker snaps r)
       \<and> (\<forall>force. m = ConfirmKill force \<longrightarrow> frozen \<noteq> []) \<and> (m = ConfirmDocker \<longleftrightarrow> docker \<noteq> []))"

lemma dialogs_mono: "dialogs_ok snaps c \<Longrightarrow> dialogs_ok (snap # snaps) c"
  by (auto simp: dialogs_ok_def item_identity_def listed_docker_def split: prod.splits)

lemma frozen_ids_from:
  assumes "k \<in> set (frozen_ids (sp_processes snap) (chosen_items snap a))"
  shows "item_identity (snap # snaps) k"
proof -
  from assms obtain i where i: "i \<in> set (chosen_items snap a)"
    "k \<in> set (case identities_for i (sp_processes snap) of Some ids \<Rightarrow> ids | None \<Rightarrow> [])" by (auto simp: frozen_ids_def)
  then obtain ids where "identities_for i (sp_processes snap) = Some ids" "k \<in> set ids"
    by (cases "identities_for i (sp_processes snap)") auto
  then show ?thesis using chosen_items_sub[OF i(1)] by (auto simp: item_identity_def)
qed

lemma kill_confirm_core:
  "core (open_kill_confirm snap force a) =
    (let f = frozen_ids (sp_processes snap) (chosen_items snap a)
     in (if f = [] then ap_mode a else ConfirmKill force, f, ap_frozen_docker a))"
  by (simp add: open_kill_confirm_def core_def Let_def)

lemma docker_confirm_core:
  "core (open_docker_confirm snap a) =
    (let d = ap_frozen_docker a @ chosen_docker snap a
     in (if d = [] then ap_mode a else ConfirmDocker, ap_frozen a, d))"
  by (simp add: open_docker_confirm_def core_def Let_def)

lemma dialogs_step:
  assumes "dialogs_ok snaps (core a)" "tui_step w snap e a = (q, a', es)"
  shows "dialogs_ok (snap # snaps) (core a')"
proof -
  have old: "dialogs_ok (snap # snaps) (core a)" using assms(1) by (rule dialogs_mono)
  from assms(2) show ?thesis
  proof (cases rule: tui_step_cases)
    case (moved m)
    then show ?thesis using old by (auto simp: dialogs_ok_def core_def)
  next
    case (kill force)
    show ?thesis
      unfolding kill(2) kill_confirm_core
      using old kill(1) frozen_ids_from by (auto simp: dialogs_ok_def core_def Let_def)
  next
    case docker
    show ?thesis
      unfolding docker(1) docker_confirm_core
      using old chosen_docker_sub by (auto simp: dialogs_ok_def core_def Let_def listed_docker_def)
  qed (use old in \<open>auto simp: dialogs_ok_def core_def\<close>)
qed

lemma dialogs_reach: "tui_reach snaps a \<Longrightarrow> dialogs_ok snaps (core a)"
proof (induction rule: tui_reach.induct)
  case tui_start
  then show ?case by (simp add: dialogs_ok_def core_def app_new_def)
qed (rule dialogs_step)


text \<open>C30: The interface sends a signal to a process only when \<open>y\<close> is typed in a kill dialog, and then
  it signals exactly the processes of the dialog whose identity still holds, in their order, by the signal
  the dialog announced; each of them belongs to an item that was on screen.\<close>

theorem tui_signals_confirmed:
  assumes "tui_reach snaps a" "tui_step w snap e a = (q, a', es)" "TuiSignal p s \<in> set es"
  shows "\<exists>force. ap_mode a = ConfirmKill force \<and> e = EvKey (typed (CHR ''y''))
    \<and> es = map (\<lambda>k. TuiSignal (id_pid k) (if force then Kill else Term))
              (filter (identity_live (tw_live w)) (ap_frozen a)) @ [Rescan]
    \<and> ap_mode a' = List \<and> ap_frozen a' = [] \<and> (\<forall>k\<in>set (ap_frozen a). item_identity snaps k)"
  using assms(2)
proof (cases rule: tui_step_cases)
  case (killed force)
  then show ?thesis using dialogs_reach[OF assms(1)] by (auto simp: dialogs_ok_def core_def)
qed (use assms(3) in \<open>auto simp: calm_def stops_def\<close>)


section \<open>Leaving\<close>

text \<open>What Esc has to undo before it quits, and whether a number of presses quits, the snapshot being
  any one each time.\<close>

definition layers :: "app \<Rightarrow> nat" where
  "layers a = of_bool (ap_mode a \<noteq> List) + of_bool (ap_filtering a \<or> ap_query a \<noteq> [])
     + of_bool (ap_project a \<noteq> None) + of_bool (ap_section a \<noteq> SecAll)"

fun esc_quits :: "tui_world \<Rightarrow> runtime_snapshot list \<Rightarrow> app \<Rightarrow> bool" where
  "esc_quits w [] a = False"
| "esc_quits w (sn # sns) a = (case handle_key w sn KEsc a of (q, a', es) \<Rightarrow> es = [] \<and> (q \<or> esc_quits w sns a'))"

lemma esc_step: "\<exists>a'. handle_key w sn KEsc a = (layers a = 0, a', []) \<and> layers a' = layers a - 1"
proof (cases "ap_mode a")
  case List
  then show ?thesis
    by (auto simp: handle_key_def list_key_def handle_filter_key_def clear_or_quit_def unwind_def stay_def layers_def
        reset_runtime_def)
qed (auto simp: handle_key_def help_key_def details_key_def kill_key_def docker_key_def prune_key_def refused_def
      stay_def layers_def)

text \<open>From any state, pressing Esc quits after exactly as many presses as there are layers to undo - an
  open dialog or page, a filter, a project and a section, so five presses at most - whatever happens to the
  snapshot in between, and nothing is done to the machine on the way.\<close>

theorem esc_leaves: "(esc_quits w snaps a \<longleftrightarrow> layers a < length snaps) \<and> layers a \<le> 4"
proof
  show "esc_quits w snaps a \<longleftrightarrow> layers a < length snaps"
  proof (induction snaps arbitrary: a)
    case (Cons sn sns)
    obtain a' where "handle_key w sn KEsc a = (layers a = 0, a', [])" "layers a' = layers a - 1"
      using esc_step by blast
    then show ?case using Cons.IH[of a'] by auto
  qed simp
qed (simp add: layers_def)

section \<open>The selection\<close>

lemma rows_same: "app_rows snap (follow_selected h a) = app_rows snap a"
  by (simp add: app_rows_def follow_selected_def Let_def)

text \<open>A turn of the event loop followed by drawing a list of at most 65536 rows leaves the selection on
  an existing row, and that row inside the visible window.\<close>

theorem selection_visible:
  assumes "b = draw h n ih (clamp snap (sync_runs a))" "h > 0" "ap_mode a \<noteq> Help" "length (app_rows snap b) \<le> 65536"
  shows "(ap_selected b < length (app_rows snap b) \<or> app_rows snap b = [] \<and> ap_selected b = 0)
    \<and> unat (ap_scroll b) \<le> ap_selected b \<and> ap_selected b < unat (ap_scroll b) + unat h"
proof -
  define c where "c = clamp snap (sync_runs a)"
  have mode: "ap_mode c \<noteq> Help" using assms(3) core_moves(10,11) unfolding c_def core_def by (metis fst_conv)
  have b: "ap_selected b = ap_selected (follow_selected h c)" "ap_scroll b = ap_scroll (follow_selected h c)"
    "app_rows snap b = app_rows snap (follow_selected h c)"
    using mode by (simp_all add: assms(1) c_def[symmetric] draw_def Let_def bound_details_def app_rows_def)
  have sel: "ap_selected c < length (app_rows snap c) \<or> app_rows snap c = [] \<and> ap_selected c = 0"
    by (auto simp: c_def clamp_def below_len_def app_rows_def)
  then have small: "ap_selected c < 65536" using assms(4) by (auto simp: b rows_same)
  have "unat h > 0" using assms(2) by (simp add: word_greater_zero_iff unat_gt_0)
  moreover have k: "unat (of_nat k :: u16) = k" if "k < 65536" for k using that by (simp add: unat_of_nat)
  moreover have "unat (of_nat (ap_selected c + 1 - unat h) :: u16) = ap_selected c + 1 - unat h"
    by (rule k) (use small \<open>unat h > 0\<close> in simp)
  ultimately have "ap_selected (follow_selected h c) = ap_selected c \<and> unat (ap_scroll (follow_selected h c)) \<le> ap_selected c
      \<and> ap_selected c < unat (ap_scroll (follow_selected h c)) + unat h"
    using small by (auto simp: follow_selected_def Let_def simp del: of_nat_diff of_nat_add of_nat_Suc)
  then show ?thesis using sel by (simp add: b rows_same)
qed

section \<open>A short session\<close>

definition lone_agent :: runtime_item where
  "lone_agent = RuntimeItem Agent ''claude'' (Some 6) [6] 0 Active None [] None []"

definition old_volume :: docker_resource where
  "old_volume = \<lparr>d_kind = Volume, d_id = ''pg'', d_name = ''pg'', d_detail = ''unused'', d_ports = [], d_size = 1,
     d_compose = None, d_persistent = True, d_anonymous = False, d_created = 0\<rparr>"

definition tiny_sn :: runtime_snapshot where
  "tiny_sn = snapshot_default\<lparr>sp_items := [lone_agent], sp_processes := [tiny_proc 6 (Some 5) ''claude''],
     sp_docker := docker_default\<lparr>ds_resources := [old_volume]\<rparr>\<rparr>"

definition tiny_tw :: tui_world where
  "tiny_tw = \<lparr>tw_keys = keys_default, tw_live = (\<lambda>_. Some 0), tw_kill = (\<lambda>_. Delivered),
     tw_engine = \<lparr>de_connect = None, de_result = (\<lambda>_. None)\<rparr>, tw_v6 = (\<lambda>_. [])\<rparr>"

definition asked :: app where "asked = open_kill_confirm tiny_sn False app_new"

lemma lone_visible: "row_visible SecAll None [] False lone_agent"
  by (simp add: row_visible_def lone_agent_def section_match_def)

lemma lone_rows: "item_rows s pr q 0 inside owned l lone_agent = [RItem lone_agent 0 l owned]"
  by (subst item_rows.simps) (simp add: shown_kids_def lone_agent_def)

lemma tiny_row: "chosen_items tiny_sn app_new = [lone_agent]"
proof -
  have "app_rows tiny_sn app_new = [RItem lone_agent 0 True False]"
    by (simp add: app_rows_def rows_def collect_items_def shown_kids_def app_new_def tiny_sn_def lone_visible lone_rows)
  then show ?thesis by (simp add: chosen_items_def chosen_rows_def nth_opt_def List.map_filter_def app_new_def)
qed

lemma lone_ids: "identities_for lone_agent (sp_processes tiny_sn) = Some [\<lparr>id_pid = 6, id_start = p_start_time (tiny_proc 6 (Some 5) ''claude'')\<rparr>]"
  by (simp add: identities_for_def postorder_def postorder_fuel_def lone_agent_def tiny_sn_def kids_within_def tiny_proc_def
      by_pid_def List.map_filter_def numeral_2_eq_2)

lemma asked_facts: "ap_mode asked = ConfirmKill False"
  "ap_frozen asked = [\<lparr>id_pid = 6, id_start = p_start_time (tiny_proc 6 (Some 5) ''claude'')\<rparr>]"
  by (simp_all add: asked_def open_kill_confirm_def tiny_row frozen_ids_def lone_ids Let_def)

lemma ask_step: "tui_step tiny_tw tiny_sn (EvKey (typed (CHR ''x''))) app_new = (False, asked, [])"
  by (simp add: tui_step_def handle_key_def list_key_def list_char_def typed_def app_new_def tiny_tw_def keys_default_def
      key_hit_def stay_def asked_def)

lemma asked_reach: "tui_reach [tiny_sn] asked"
  using tui_next[OF tui_start ask_step] .


lemma kill_step: "\<exists>a'. tui_step tiny_tw tiny_sn (EvKey (typed (CHR ''y''))) asked = (False, a', [TuiSignal 6 Term, Rescan])"
  by (simp add: tui_step_def handle_key_def asked_facts kill_key_def refused_def typed_def send_sent tiny_tw_def
      identity_live_def)

theorem tui_signals_confirmed_witness: "\<exists>k\<in>set (ap_frozen asked). item_identity [tiny_sn] k \<and> id_pid k = 6"
proof -
  obtain a' where "tui_step tiny_tw tiny_sn (EvKey (typed (CHR ''y''))) asked = (False, a', [TuiSignal 6 Term, Rescan])"
    using kill_step by blast
  from tui_signals_confirmed[OF asked_reach this, of 6 Term]
  have "\<forall>k\<in>set (ap_frozen asked). item_identity [tiny_sn] k" by auto
  then show ?thesis by (simp add: asked_facts)
qed

definition clicked :: mouse_event where
  "clicked = \<lparr>me_kind = MDown, me_in_overview = True, me_in_list = False, me_in_popup = False,
     me_overview_row = 7, me_list_row = 0\<rparr>"

definition at_docker :: app where "at_docker = handle_mouse tiny_sn clicked app_new"

definition docker_asked :: app where "docker_asked = open_docker_confirm tiny_sn at_docker"

lemma at_docker_eq: "at_docker = app_new\<lparr>ap_ov_sel := 7, ap_section := SecDocker\<rparr>"
proof -
  have "cat_count [lone_agent] c = (if c = Agent then 1 else 0)" for c
    by (simp add: cat_count_def lone_agent_def all_items_def)
  then show ?thesis
    by (simp add: at_docker_def handle_mouse_def clicked_def app_new_def click_overview_def app_overview_def overview_def
        tiny_sn_def Let_def ALWAYS_def apply_overview_def nth_opt_def reset_runtime_def)
qed

lemma docker_asked_facts: "ap_mode docker_asked = ConfirmDocker" "ap_frozen_docker docker_asked = [old_volume]"
proof -
  have "app_rows tiny_sn at_docker = [RDocker old_volume]"
    by (simp add: app_rows_def at_docker_eq app_new_def rows_def tiny_sn_def docker_agg_def prunable_def old_volume_def
        docker_hit_def hay_hit_def)
  then have "chosen_docker tiny_sn at_docker = [old_volume]"
    by (simp add: chosen_docker_def chosen_rows_def at_docker_eq app_new_def nth_opt_def List.map_filter_def)
  then show "ap_mode docker_asked = ConfirmDocker" "ap_frozen_docker docker_asked = [old_volume]"
    by (simp_all add: docker_asked_def open_docker_confirm_def Let_def at_docker_eq app_new_def)
qed

lemma docker_reach: "tui_reach [tiny_sn, tiny_sn] docker_asked"
proof -
  have "tui_step tiny_tw tiny_sn (EvMouse clicked) app_new = (False, at_docker, [])"
    by (simp add: tui_step_def stay_def at_docker_def)
  from tui_next[OF tui_start this] have "tui_reach [tiny_sn] at_docker" .
  moreover have "tui_step tiny_tw tiny_sn (EvKey (typed (CHR ''c''))) at_docker = (False, docker_asked, [])"
    by (simp add: tui_step_def handle_key_def list_key_def list_char_def typed_def at_docker_eq app_new_def tiny_tw_def
        keys_default_def key_hit_def stay_def docker_asked_def)
  ultimately show ?thesis by (rule tui_next)
qed


theorem selection_visible_witness:
  "unat (ap_scroll (draw 5 0 0 (clamp tiny_sn (sync_runs (app_new\<lparr>ap_selected := 9\<rparr>))))) \<le> 4"
proof -
  define b where "b = draw 5 0 0 (clamp tiny_sn (sync_runs (app_new\<lparr>ap_selected := 9\<rparr>)))"
  have one: "app_rows tiny_sn b = [RItem lone_agent 0 True False]"
    by (simp add: b_def app_rows_def draw_def follow_selected_def bound_details_def clamp_def sync_runs_def Let_def app_new_def
        feed_new_def rows_def collect_items_def shown_kids_def tiny_sn_def lone_visible lone_rows)
  from selection_visible[OF b_def] one have "ap_selected b < 1" "unat (ap_scroll b) \<le> ap_selected b"
    by (auto simp: app_new_def)
  then show ?thesis by (simp add: b_def[symmetric])
qed

end
