(* ===== verification/Calendar.thy ===== *)
theory Calendar
  imports Text "HOL-Library.Signed_Division"
begin

text \<open>
  The two calendar routines of the program: printing a time (\<open>rfc3339\<close> and
  \<open>civil_from_days\<close> in \<open>src/barman.rs\<close>) and reading one (\<open>parse_rfc3339\<close> in
  \<open>src/scanner/docker.rs\<close>), with a reference calendar that counts days one by one.  The integers
  stay far inside 64 bits, so they are unbounded; division of the source truncates towards zero.
\<close>

section \<open>Printing a time\<close>

definition civil_from_days :: "int \<Rightarrow> int \<times> int \<times> int" where
  "civil_from_days day =
    (let z = day + 719468;
         era = (if z \<ge> 0 then z else z - 146096) sdiv 146097;
         doe = z - era * 146097;
         yoe = (doe - doe sdiv 1460 + doe sdiv 36524 - doe sdiv 146096) sdiv 365;
         y = yoe + era * 400;
         doy = doe - (365 * yoe + yoe sdiv 4 - yoe sdiv 100);
         mp = (5 * doy + 2) sdiv 153;
         d = doy - (153 * mp + 2) sdiv 5 + 1;
         m = (if mp < 10 then mp + 3 else mp - 9)
     in (if m \<le> 2 then y + 1 else y, m, d))"

text \<open>A non-negative number at a width, with zeros in front.\<close>

definition zeros_to :: "nat \<Rightarrow> string \<Rightarrow> string" where
  "zeros_to w s = replicate (w - length s) (CHR ''0'') @ s"

definition rfc3339 :: "u64 \<Rightarrow> string" where
  "rfc3339 secs =
    (let days = int (unat secs div 86400); r = unat secs mod 86400; (y, m, d) = civil_from_days days
     in zeros_to 4 (show_int y) @ ''-'' @ zeros_to 2 (show_int m) @ ''-'' @ zeros_to 2 (show_int d) @ ''T''
        @ zeros_to 2 (show_nat (r div 3600)) @ '':'' @ zeros_to 2 (show_nat (r mod 3600 div 60)) @ '':''
        @ zeros_to 2 (show_nat (r mod 60)) @ ''Z'')"

section \<open>Reading a time\<close>

text \<open>A slice of text exists if it ends inside and both ends are boundaries of scalar values.\<close>

definition boundary :: "string \<Rightarrow> nat \<Rightarrow> bool" where
  "boundary s i \<longleftrightarrow> i = length s \<or> i < length s \<and> \<not> is_cont (s ! i)"

definition str_get :: "string \<Rightarrow> nat \<Rightarrow> nat \<Rightarrow> string option" where
  "str_get s a b = (if boundary s a \<and> boundary s b then Some (take (b - a) (drop a s)) else None)"

definition num_at :: "string \<Rightarrow> nat \<Rightarrow> nat \<Rightarrow> int option" where
  "num_at s a b = Option.bind (str_get s a b) parse_i64"

definition days_from_civil :: "int \<Rightarrow> int \<Rightarrow> int \<Rightarrow> int" where
  "days_from_civil y0 mo d =
    (let y = (if mo \<le> 2 then y0 - 1 else y0); era = y div 400; yoe = y mod 400;
         doy = (153 * ((mo + 9) smod 12) + 2) sdiv 5 + d - 1
     in era * 146097 + yoe * 365 + yoe sdiv 4 - yoe sdiv 100 + doy - 719468)"

text \<open>The offset of the time zone, in seconds.\<close>

definition zone_offset :: "string \<Rightarrow> int" where
  "zone_offset s =
    (let zone = dropWhile (\<lambda>c. is_digit c \<or> c = CHR ''.'') (case str_get s 19 (length s) of Some t \<Rightarrow> t | None \<Rightarrow> [])
     in case zone of
          [] \<Rightarrow> 0
        | c # r \<Rightarrow>
            if c = CHR ''+'' \<or> c = CHR ''-'' then
              (case (num_at r 0 2, num_at r 3 5) of
                 (Some zh, Some zm) \<Rightarrow> (if c = CHR ''+'' then 1 else - 1) * (zh * 3600 + zm * 60)
               | _ \<Rightarrow> 0)
            else 0)"

definition parse_rfc3339 :: "string \<Rightarrow> int" where
  "parse_rfc3339 s =
    (case (num_at s 0 4, num_at s 5 7, num_at s 8 10) of
       (Some y, Some mo, Some d) \<Rightarrow>
         (case (num_at s 11 13, num_at s 14 16, num_at s 17 19) of
            (Some h, Some mi, Some sec) \<Rightarrow>
              max 0 (days_from_civil y mo d * 86400 + h * 3600 + mi * 60 + sec - zone_offset s)
          | _ \<Rightarrow> 0)
     | _ \<Rightarrow> 0)"

section \<open>A reference calendar\<close>

definition leap :: "int \<Rightarrow> bool" where "leap y \<longleftrightarrow> 4 dvd y \<and> (\<not> 100 dvd y \<or> 400 dvd y)"

definition month_len :: "int \<Rightarrow> int \<Rightarrow> int" where
  "month_len y m = (if m = 2 then (if leap y then 29 else 28) else if m \<in> {4, 6, 9, 11} then 30 else 31)"

definition next_date :: "int \<times> int \<times> int \<Rightarrow> int \<times> int \<times> int" where
  "next_date t =
    (case t of (y, m, d) \<Rightarrow>
       if d < month_len y m then (y, m, d + 1) else if m < 12 then (y, m + 1, 1) else (y + 1, 1, 1))"

section \<open>Days of years that begin in March\<close>

text \<open>A day as era, year of the era and day of the year; the leap day is the last of its year.\<close>

definition year_start :: "int \<Rightarrow> int" where "year_start y = 365 * y + y div 4 - y div 100"

definition year_len :: "int \<Rightarrow> int" where "year_len y = (if leap (y + 1) then 366 else 365)"

definition good_day :: "int \<Rightarrow> int \<Rightarrow> bool" where
  "good_day yoe doy \<longleftrightarrow> 0 \<le> yoe \<and> yoe < 400 \<and> 0 \<le> doy \<and> doy < year_len yoe"

definition march_month :: "int \<Rightarrow> int" where "march_month doy = (5 * doy + 2) div 153"

definition march_day :: "int \<Rightarrow> int" where "march_day doy = doy - (153 * march_month doy + 2) div 5 + 1"

definition march_date :: "int \<Rightarrow> int \<Rightarrow> int \<Rightarrow> int \<times> int \<times> int" where
  "march_date era yoe doy =
    (let mp = march_month doy; y = yoe + era * 400; m = (if mp < 10 then mp + 3 else mp - 9)
     in (if m \<le> 2 then y + 1 else y, m, march_day doy))"

lemma sdiv_pos: "0 \<le> x \<Longrightarrow> 0 < k \<Longrightarrow> x sdiv k = x div k" for x k :: int
  by (cases "x = 0") (simp_all add: signed_divide_int_def)

lemma smod_pos: "0 \<le> x \<Longrightarrow> 0 < k \<Longrightarrow> x smod k = x mod k" for x k :: int
  by (cases "x = 0") (simp_all add: signed_modulo_int_def)

lemma div_is: "k * q \<le> x \<Longrightarrow> x < k * q + k \<Longrightarrow> x div k = q" for k q x :: int
  by (rule int_div_pos_eq[of x k q "x - k * q"]) simp_all

text \<open>A year of the era by its century, its group of four years and its place in the group.\<close>

lemma year_parts:
  assumes "0 \<le> yoe" "yoe < 400"
  obtains c q r :: int where "yoe = 100 * c + 4 * q + r" "0 \<le> c" "c \<le> 3" "0 \<le> q" "q \<le> 24" "0 \<le> r" "r \<le> 3"
proof
  define t where "t = yoe mod 100"
  show "yoe = 100 * (yoe div 100) + 4 * (t div 4) + t mod 4"
    using div_mult_mod_eq[of yoe 100] div_mult_mod_eq[of t 4] unfolding t_def by linarith
  show "0 \<le> yoe div 100" "0 \<le> t div 4" "0 \<le> t mod 4" using assms by (simp_all add: t_def pos_imp_zdiv_nonneg_iff)
  have "t < 100" by (simp add: t_def)
  then show "yoe div 100 \<le> 3" "t div 4 \<le> 24" using assms by linarith+
  show "t mod 4 \<le> 3" by linarith
qed

lemma parts_eval:
  fixes c q r :: int
  assumes "0 \<le> c" "c \<le> 3" "0 \<le> q" "q \<le> 24" "0 \<le> r" "r \<le> 3"
  shows "year_start (100 * c + 4 * q + r) = 36524 * c + 1461 * q + 365 * r"
    "leap (100 * c + 4 * q + r + 1) \<longleftrightarrow> r = 3 \<and> (q < 24 \<or> c = 3)"
proof -
  have "(100 * c + 4 * q + r) div 4 = 25 * c + q" "(100 * c + 4 * q + r) div 100 = c"
    using assms by (auto intro!: div_is)
  then show "year_start (100 * c + 4 * q + r) = 36524 * c + 1461 * q + 365 * r" by (simp add: year_start_def)
  define t where "t = 4 * q + r + 1"
  have e: "100 * c + 4 * q + r + 1 = 100 * c + t" by (simp add: t_def)
  have t: "0 < t" "t \<le> 100" using assms by (auto simp: t_def)
  have four: "4 dvd 100 * c + t \<longleftrightarrow> r = 3"
  proof -
    have "100 * c + t = 4 * (25 * c + q) + (r + 1)" by (simp add: t_def)
    then have "4 dvd 100 * c + t \<longleftrightarrow> 4 dvd r + 1" by (metis dvd_add_right_iff dvd_triv_left)
    also have "\<dots> \<longleftrightarrow> r = 3" using assms(5,6) by presburger
    finally show ?thesis .
  qed
  have "100 dvd 100 * c + t \<longleftrightarrow> 100 dvd t" by (metis dvd_add_right_iff dvd_triv_left)
  also have "\<dots> \<longleftrightarrow> t = 100" using t zdvd_imp_le[of 100 t] by auto
  finally have hundred: "100 dvd 100 * c + t \<longleftrightarrow> t = 100" .
  have last: "t = 100 \<longleftrightarrow> q = 24 \<and> r = 3" using assms unfolding t_def by presburger
  have "400 dvd 100 * c + 100 \<longleftrightarrow> c = 3" using assms(1,2) by presburger
  then show "leap (100 * c + 4 * q + r + 1) \<longleftrightarrow> r = 3 \<and> (q < 24 \<or> c = 3)"
    unfolding e leap_def four hundred using last assms(4) by auto
qed

text \<open>The year of the era comes back from the day of the era.\<close>

lemma year_of_day:
  assumes "good_day yoe doy" "doe = year_start yoe + doy"
  shows "(doe - doe div 1460 + doe div 36524 - doe div 146096) div 365 = yoe" "0 \<le> doe" "doe < 146097"
proof -
  have "0 \<le> yoe" "yoe < 400" using assms(1) by (auto simp: good_day_def)
  then obtain c q r :: int where y: "yoe = 100 * c + 4 * q + r"
    and b: "0 \<le> c" "c \<le> 3" "0 \<le> q" "q \<le> 24" "0 \<le> r" "r \<le> 3" by (rule year_parts)
  note ev = parts_eval[OF b]
  have doe: "doe = 36524 * c + 1461 * q + 365 * r + doy" using assms(2) by (simp add: y ev)
  have dy: "0 \<le> doy" "doy \<le> 364 \<or> doy = 365 \<and> r = 3 \<and> (q < 24 \<or> c = 3)"
    using assms(1) by (auto simp: good_day_def year_len_def y ev split: if_splits)
  show "0 \<le> doe" "doe < 146097" using doe b dy by linarith+
  define e :: int where "e = (if 24 * c + q + 365 * r + doy < 1460 then 0 else 1)"
  define f :: int where "f = (if doe = 146096 then 1 else 0)"
  have e1: "doe div 1460 = 25 * c + q + e"
    by (rule div_is) (use doe b dy in \<open>auto simp: e_def split: if_splits\<close>)
  have e2: "doe div 36524 = c + f"
    by (rule div_is) (use doe b dy in \<open>auto simp: f_def split: if_splits\<close>)
  have e3: "doe div 146096 = f"
    by (rule div_is) (use doe b dy in \<open>auto simp: f_def split: if_splits\<close>)
  have "0 \<le> doy - e" "doy - e < 365" using b dy by (auto simp: e_def split: if_splits)
  then show "(doe - doe div 1460 + doe div 36524 - doe div 146096) div 365 = yoe"
    unfolding e1 e2 e3 by (intro div_is) (use doe y in linarith)+
qed

text \<open>The function of the code, on days given by era, year and day.\<close>

lemma civil_march:
  assumes "good_day yoe doy" "0 \<le> era"
  shows "civil_from_days (era * 146097 + year_start yoe + doy - 719468) = march_date era yoe doy"
proof -
  define doe where "doe = year_start yoe + doy"
  note yd = year_of_day[OF assms(1) doe_def]
  define z where "z = era * 146097 + doe"
  have z: "0 \<le> z" "z div 146097 = era" using yd(2,3) assms(2) by (auto simp: z_def intro!: div_is)
  have nn: "0 \<le> doe" "0 \<le> doy" "0 \<le> yoe" using yd(2) assms(1) by (auto simp: good_day_def)
  have small: "0 \<le> doe - doe div 1460 + doe div 36524 - doe div 146096"
    using yd(1) nn(3) pos_imp_zdiv_nonneg_iff[of 365 "doe - doe div 1460 + doe div 36524 - doe div 146096"] by simp
  have e1: "z - 719468 + 719468 = z" by simp
  have e2: "(if z \<ge> 0 then z else z - 146096) sdiv 146097 = era" using z by (simp add: sdiv_pos)
  have e3: "z - era * 146097 = doe" by (simp add: z_def)
  have e4: "(doe - doe sdiv 1460 + doe sdiv 36524 - doe sdiv 146096) sdiv 365 = yoe"
    unfolding sdiv_pos[OF nn(1) zero_less_numeral] using sdiv_pos[OF small, of 365] yd(1) by simp
  have e5: "doe - (365 * yoe + yoe sdiv 4 - yoe sdiv 100) = doy"
    unfolding sdiv_pos[OF nn(3) zero_less_numeral] by (simp add: doe_def year_start_def)
  have e6: "(5 * doy + 2) sdiv 153 = (5 * doy + 2) div 153" using nn by (simp add: sdiv_pos)
  have mp: "0 \<le> (5 * doy + 2) div 153" using nn by (simp add: pos_imp_zdiv_nonneg_iff)
  have "civil_from_days (z - 719468) =
     (let mp = (5 * doy + 2) div 153; d = doy - (153 * mp + 2) sdiv 5 + 1; m = (if mp < 10 then mp + 3 else mp - 9)
      in (if m \<le> 2 then yoe + era * 400 + 1 else yoe + era * 400, m, d))"
    by (simp only: civil_from_days_def Let_def e1 e2 e3 e4 e5 e6)
  also have "\<dots> = march_date era yoe doy"
    using mp by (simp add: march_date_def march_month_def march_day_def Let_def sdiv_pos)
  finally show ?thesis by (simp add: z_def doe_def algebra_simps)
qed

section \<open>The next day\<close>

text \<open>The months of a year that begins in March, by their number and length.\<close>

definition march_len :: "int \<Rightarrow> int" where
  "march_len mp = (if mp \<in> {1, 3, 6, 8} then 30 else if mp = 11 then 29 else 31)"

lemma march_at:
  "153 * k \<le> 5 * doy + 2 \<Longrightarrow> 5 * doy + 2 < 153 * k + 153 \<Longrightarrow>
    march_month doy = k \<and> march_day doy = doy - (153 * k + 2) div 5 + 1"
  using div_is[of 153 k "5 * doy + 2"] by (simp add: march_day_def march_month_def)

lemma march_table:
  assumes "0 \<le> doy" "doy < 366"
  shows "0 \<le> doy \<and> doy \<le> 30 \<and> march_month doy = 0 \<and> march_day doy = doy + 1
    \<or> 31 \<le> doy \<and> doy \<le> 60 \<and> march_month doy = 1 \<and> march_day doy = doy - 30
    \<or> 61 \<le> doy \<and> doy \<le> 91 \<and> march_month doy = 2 \<and> march_day doy = doy - 60
    \<or> 92 \<le> doy \<and> doy \<le> 121 \<and> march_month doy = 3 \<and> march_day doy = doy - 91
    \<or> 122 \<le> doy \<and> doy \<le> 152 \<and> march_month doy = 4 \<and> march_day doy = doy - 121
    \<or> 153 \<le> doy \<and> doy \<le> 183 \<and> march_month doy = 5 \<and> march_day doy = doy - 152
    \<or> 184 \<le> doy \<and> doy \<le> 213 \<and> march_month doy = 6 \<and> march_day doy = doy - 183
    \<or> 214 \<le> doy \<and> doy \<le> 244 \<and> march_month doy = 7 \<and> march_day doy = doy - 213
    \<or> 245 \<le> doy \<and> doy \<le> 274 \<and> march_month doy = 8 \<and> march_day doy = doy - 244
    \<or> 275 \<le> doy \<and> doy \<le> 305 \<and> march_month doy = 9 \<and> march_day doy = doy - 274
    \<or> 306 \<le> doy \<and> doy \<le> 336 \<and> march_month doy = 10 \<and> march_day doy = doy - 305
    \<or> 337 \<le> doy \<and> doy \<le> 365 \<and> march_month doy = 11 \<and> march_day doy = doy - 336"
proof -
  consider "doy \<le> 30" | "31 \<le> doy" "doy \<le> 60" | "61 \<le> doy" "doy \<le> 91" | "92 \<le> doy" "doy \<le> 121"
    | "122 \<le> doy" "doy \<le> 152" | "153 \<le> doy" "doy \<le> 183" | "184 \<le> doy" "doy \<le> 213" | "214 \<le> doy" "doy \<le> 244"
    | "245 \<le> doy" "doy \<le> 274" | "275 \<le> doy" "doy \<le> 305" | "306 \<le> doy" "doy \<le> 336" | "337 \<le> doy"
    by linarith
  then show ?thesis
  proof cases
    case 1 then show ?thesis using march_at[of 0 doy] assms by simp
  next case 2 then show ?thesis using march_at[of 1 doy] by simp
  next case 3 then show ?thesis using march_at[of 2 doy] by simp
  next case 4 then show ?thesis using march_at[of 3 doy] by simp
  next case 5 then show ?thesis using march_at[of 4 doy] by simp
  next case 6 then show ?thesis using march_at[of 5 doy] by simp
  next case 7 then show ?thesis using march_at[of 6 doy] by simp
  next case 8 then show ?thesis using march_at[of 7 doy] by simp
  next case 9 then show ?thesis using march_at[of 8 doy] by simp
  next case 10 then show ?thesis using march_at[of 9 doy] by simp
  next case 11 then show ?thesis using march_at[of 10 doy] by simp
  next case 12 then show ?thesis using march_at[of 11 doy] assms by simp
  qed
qed

lemma march_step:
  assumes "0 \<le> doy" "doy < 365"
  shows "if march_day doy < march_len (march_month doy)
    then march_month (doy + 1) = march_month doy \<and> march_day (doy + 1) = march_day doy + 1
    else march_month (doy + 1) = march_month doy + 1 \<and> march_day (doy + 1) = 1 \<and> march_month doy < 11"
proof -
  have "doy < 366" "0 \<le> doy + 1" "doy + 1 < 366" using assms by auto
  from march_table[OF assms(1) this(1)] march_table[OF this(2,3)] show ?thesis
    by - (elim disjE conjE; (linarith | simp add: march_len_def))
qed

lemma march_bounds:
  assumes "0 \<le> doy" "doy < 366"
  shows "0 \<le> march_month doy" "march_month doy \<le> 11" "1 \<le> march_day doy" "march_day doy \<le> march_len (march_month doy)"
    "march_month doy = 11 \<longleftrightarrow> 337 \<le> doy" "march_month doy = 11 \<Longrightarrow> march_day doy = doy - 336"
    "10 \<le> march_month doy \<longleftrightarrow> 306 \<le> doy"
  using march_table[OF assms] assms by - (elim disjE conjE; (linarith | simp add: march_len_def))+

lemma march_len_month: "0 \<le> mp \<Longrightarrow> mp \<le> 11 \<Longrightarrow> mp \<noteq> 11 \<Longrightarrow> march_len mp = month_len y (if mp < 10 then mp + 3 else mp - 9)"
  by (auto simp: march_len_def month_len_def)

lemma leap_era: "leap (yoe + era * 400 + 1) \<longleftrightarrow> leap (yoe + 1)"
proof -
  have e: "yoe + era * 400 + 1 = (yoe + 1) + 400 * era" by simp
  have "k dvd (yoe + 1) + 400 * era \<longleftrightarrow> k dvd yoe + 1" if "k dvd 400" for k :: int
    using that by (simp add: dvd_add_left_iff)
  then show ?thesis unfolding leap_def e by simp
qed

text \<open>One day on: the next day of the year, the next year of the era, or the next era.\<close>

lemma next_same_year:
  assumes "good_day yoe doy" "doy + 1 < year_len yoe"
  shows "march_date era yoe (doy + 1) = next_date (march_date era yoe doy)"
proof -
  have d: "0 \<le> doy" "doy < 365" "doy < 366" using assms by (auto simp: good_day_def year_len_def split: if_splits)
  note b = march_bounds[OF d(1,3)] and st = march_step[OF d(1,2)]
  let ?mp = "march_month doy"
  show ?thesis
  proof (cases "?mp = 11")
    case True
    have "march_day doy < (if leap (yoe + 1) then 29 else 28)" "march_day doy < 29"
      using assms(2) b(6)[OF True] by (auto simp: year_len_def split: if_splits)
    then show ?thesis using True st
      by (simp add: leap_era march_date_def Let_def next_date_def month_len_def march_len_def)
  next
    case False
    then have len: "march_len ?mp = month_len y (if ?mp < 10 then ?mp + 3 else ?mp - 9)" for y
      using b(1,2) march_len_month by blast
    show ?thesis
    proof (cases "march_day doy < march_len ?mp")
      case True
      then show ?thesis using st len[of "yoe + era * 400"] len[of "yoe + era * 400 + 1"]
        by (simp add: march_date_def Let_def next_date_def split: if_splits)
    next
      case last: False
      consider "?mp < 9" | "?mp = 9" | "?mp = 10" using b(2) False by linarith
      then show ?thesis
        by cases (use last st len[of "yoe + era * 400"] len[of "yoe + era * 400 + 1"] b(1) in
            \<open>simp_all add: march_date_def Let_def next_date_def\<close>)
    qed
  qed
qed

lemma next_year:
  assumes "good_day yoe doy" "doy + 1 = year_len yoe"
  shows "next_date (march_date era yoe doy) = (yoe + era * 400 + 1, 3, 1)"
proof -
  have d: "0 \<le> doy" "doy < 366" "337 \<le> doy" using assms by (auto simp: good_day_def year_len_def split: if_splits)
  have m: "march_month doy = 11" "march_day doy = doy - 336"
    using march_bounds(5,6)[OF d(1,2)] d(3) by auto
  then show ?thesis using assms(2)
    by (simp add: leap_era march_date_def Let_def next_date_def month_len_def year_len_def split: if_splits)
qed

lemma march_first: "march_date era yoe 0 = (yoe + era * 400, 3, 1)"
  using march_table[of 0] by (simp add: march_date_def Let_def)

lemma year_start_next:
  assumes "0 \<le> yoe" "yoe < 400"
  shows "year_start yoe + year_len yoe = (if yoe < 399 then year_start (yoe + 1) else 146097)"
proof -
  obtain c q r :: int where y: "yoe = 100 * c + 4 * q + r"
    and b: "0 \<le> c" "c \<le> 3" "0 \<le> q" "q \<le> 24" "0 \<le> r" "r \<le> 3" using assms by (rule year_parts)
  note ev = parts_eval[OF b]
  have yl: "year_len yoe = (if r = 3 \<and> (q < 24 \<or> c = 3) then 366 else 365)" by (simp add: year_len_def y ev)
  have ys: "year_start yoe = 36524 * c + 1461 * q + 365 * r" by (simp add: y ev)
  consider "r < 3" | "r = 3" "q < 24" | "r = 3" "q = 24" "c < 3" | "r = 3" "q = 24" "c = 3" using b by linarith
  then show ?thesis
  proof cases
    case 1
    have e: "yoe + 1 = 100 * c + 4 * q + (r + 1)" by (simp add: y)
    have "year_start (yoe + 1) = 36524 * c + 1461 * q + 365 * (r + 1)"
      unfolding e by (rule parts_eval(1)) (use b 1 in simp_all)
    then show ?thesis using 1 b yl ys y by auto
  next
    case 2
    have e: "yoe + 1 = 100 * c + 4 * (q + 1) + 0" using 2 by (simp add: y)
    have "year_start (yoe + 1) = 36524 * c + 1461 * (q + 1) + 365 * 0"
      unfolding e by (rule parts_eval(1)) (use b 2 in simp_all)
    then show ?thesis using 2 b yl ys y by auto
  next
    case 3
    have e: "yoe + 1 = 100 * (c + 1) + 4 * 0 + 0" using 3 by (simp add: y)
    have "year_start (yoe + 1) = 36524 * (c + 1) + 1461 * 0 + 365 * 0"
      unfolding e by (rule parts_eval(1)) (use b 3 in simp_all)
    then show ?thesis using 3 b yl ys y by auto
  next
    case 4
    then show ?thesis using yl ys y by simp
  qed
qed

text \<open>Every day after the first of March of the year 0 is a good day of some era.\<close>

lemma day_after:
  "\<exists>era yoe doy. 0 \<le> era \<and> good_day yoe doy \<and> int n = era * 146097 + year_start yoe + doy
     \<and> (next_date ^^ n) (0, 3, 1) = march_date era yoe doy"
proof (induction n)
  case 0
  have "good_day 0 0" "year_start 0 = 0" by (auto simp: good_day_def year_len_def year_start_def)
  then show ?case using march_first[of 0 0] by (intro exI[of _ 0]) simp
next
  case (Suc n)
  then obtain era yoe doy where IH: "0 \<le> era" "good_day yoe doy" "int n = era * 146097 + year_start yoe + doy"
    "(next_date ^^ n) (0, 3, 1) = march_date era yoe doy" by blast
  have y: "0 \<le> yoe" "yoe < 400" "0 \<le> doy" "doy < year_len yoe" using IH(2) by (auto simp: good_day_def)
  have zero: "good_day k 0" if "0 \<le> k" "k < 400" for k using that by (simp add: good_day_def year_len_def)
  consider "doy + 1 < year_len yoe" | "doy + 1 = year_len yoe" "yoe < 399" | "doy + 1 = year_len yoe" "yoe = 399"
    using y by linarith
  then show ?case
  proof cases
    case 1
    then have "good_day yoe (doy + 1)" using y by (simp add: good_day_def)
    then show ?thesis using IH next_same_year[OF IH(2) 1, of era]
      by (intro exI[of _ era] exI[of _ yoe] exI[of _ "doy + 1"]) simp
  next
    case 2
    then have "march_date era (yoe + 1) 0 = next_date (march_date era yoe doy)"
      using next_year[OF IH(2) 2(1), of era] by (simp add: march_first)
    moreover have "int (Suc n) = era * 146097 + year_start (yoe + 1) + 0"
      using IH(3) year_start_next[OF y(1,2)] 2 by simp
    ultimately show ?thesis using IH(1,4) zero[of "yoe + 1"] y 2
      by (intro exI[of _ era] exI[of _ "yoe + 1"] exI[of _ 0]) simp
  next
    case 3
    then have "march_date (era + 1) 0 0 = next_date (march_date era yoe doy)"
      using next_year[OF IH(2) 3(1), of era] by (simp add: march_first)
    moreover have "int (Suc n) = (era + 1) * 146097 + year_start 0 + 0"
      using IH(3) year_start_next[OF y(1,2)] 3 by (simp add: year_start_def)
    ultimately show ?thesis using IH(1,4) zero[of 0]
      by (intro exI[of _ "era + 1"] exI[of _ 0] exI[of _ 0]) simp
  qed
qed

lemma civil_counts_march: "civil_from_days (int n - 719468) = (next_date ^^ n) (0, 3, 1)"
proof -
  obtain era yoe doy where d: "0 \<le> era" "good_day yoe doy" "int n = era * 146097 + year_start yoe + doy"
    "(next_date ^^ n) (0, 3, 1) = march_date era yoe doy" using day_after by blast
  from civil_march[OF d(2,1)] show ?thesis by (simp add: d(3)[symmetric] d(4))
qed

lemma civil_epoch: "civil_from_days 0 = (1970, 1, 1)"
proof -
  have "good_day 369 306" by (simp add: good_day_def year_len_def)
  from civil_march[OF this, of 4] show ?thesis
    by (simp add: year_start_def march_date_def march_month_def march_day_def)
qed

text \<open>C32: The date of the n-th day after 1 January 1970 is the one reached by counting n days in the
  Gregorian calendar, for every n: 28, 29, 30 or 31 days per month and the leap years by the rule of 4, 100
  and 400.\<close>

theorem civil_counts_days: "civil_from_days (int n) = (next_date ^^ n) (1970, 1, 1)"
proof -
  define m :: nat where "m = 719468"
  have m: "int m - 719468 = 0" "int (n + m) - 719468 = int n" by (simp_all add: m_def)
  have "(next_date ^^ m) (0, 3, 1) = civil_from_days 0" using civil_counts_march[of m] by (simp only: m)
  also have "\<dots> = (1970, 1, 1)" by (rule civil_epoch)
  finally have "(next_date ^^ (n + m)) (0, 3, 1) = (next_date ^^ n) (1970, 1, 1)"
    by (simp only: funpow_add comp_def)
  then show ?thesis using civil_counts_march[of "n + m"] by (simp only: m)
qed

section \<open>Reading back what was printed\<close>

lemma days_back:
  assumes "good_day yoe doy" "0 \<le> era" "march_date era yoe doy = (y, mo, d)"
  shows "days_from_civil y mo d = era * 146097 + year_start yoe + doy - 719468"
    "1 \<le> mo" "mo \<le> 12" "1 \<le> d" "d \<le> 31" "era * 400 + yoe \<le> y" "y = era * 400 + yoe + (if 306 \<le> doy then 1 else 0)"
proof -
  have dd: "0 \<le> doy" "doy < 366" and yy: "0 \<le> yoe" "yoe < 400"
    using assms(1) by (auto simp: good_day_def year_len_def split: if_splits)
  define mp where "mp = march_month doy"
  have mp: "0 \<le> mp" "mp \<le> 11" using march_bounds(1,2)[OF dd] by (simp_all add: mp_def)
  have eq: "mo = (if mp < 10 then mp + 3 else mp - 9)" "y = (if mo \<le> 2 then yoe + era * 400 + 1 else yoe + era * 400)"
    "d = march_day doy" using assms(3) by (auto simp: march_date_def Let_def mp_def)
  have d: "d = doy - (153 * mp + 2) div 5 + 1" by (simp add: eq(3) march_day_def mp_def)
  have mo9: "(mo + 9) smod 12 = mp"
  proof -
    have "(mo + 9) mod 12 = mp" using mp by (auto simp: eq(1) mod_pos_pos_trivial zmod_trivial_iff) presburger?
    then show ?thesis using mp by (simp add: smod_pos eq(1))
  qed
  have y: "(if mo \<le> 2 then y - 1 else y) = yoe + era * 400" by (simp add: eq(2))
  have e: "(yoe + era * 400) div 400 = era" "(yoe + era * 400) mod 400 = yoe" using yy by simp_all
  have p: "0 \<le> 153 * mp + 2" using mp by simp
  show "days_from_civil y mo d = era * 146097 + year_start yoe + doy - 719468"
    unfolding days_from_civil_def Let_def y e mo9 sdiv_pos[OF p zero_less_numeral] sdiv_pos[OF yy(1) zero_less_numeral]
    by (simp add: d year_start_def)
  show "1 \<le> mo" "mo \<le> 12" using mp by (auto simp: eq(1))
  show "1 \<le> d" "d \<le> 31" using march_bounds(3,4)[OF dd] by (auto simp: eq(3) march_len_def split: if_splits)
  show "era * 400 + yoe \<le> y" by (simp add: eq(2))
  show "y = era * 400 + yoe + (if 306 \<le> doy then 1 else 0)"
    using march_bounds(7)[OF dd] mp by (auto simp: eq(1,2) mp_def)
qed

text \<open>Fixed-width numbers read back.\<close>

lemma length_show_nat: "n < 10 ^ Suc k \<Longrightarrow> length (show_nat n) \<le> Suc k"
proof (induction k arbitrary: n)
  case (Suc k)
  then show ?case
  proof (cases "n < 10")
    case False
    have "n div 10 < 10 ^ Suc k" using Suc.prems by (simp add: less_mult_imp_div_less)
    from Suc.IH[OF this] show ?thesis using False by (subst show_nat.simps) simp
  qed (subst show_nat.simps, simp)
qed (subst show_nat.simps, simp)

lemma zeros_read:
  assumes "n < 10 ^ Suc k"
  shows "length (zeros_to (Suc k) (show_nat n)) = Suc k" "parse_i64 (zeros_to (Suc k) (show_nat n)) = (if n < 2 ^ 63 then Some (int n) else None)"
    "list_all is_digit (zeros_to (Suc k) (show_nat n))"
proof -
  define z where "z = zeros_to (Suc k) (show_nat n)"
  show len: "length (zeros_to (Suc k) (show_nat n)) = Suc k" using length_show_nat[OF assms] by (simp add: zeros_to_def)
  show dig: "list_all is_digit (zeros_to (Suc k) (show_nat n))"
    using show_nat_digits(1)[of n] by (auto simp: zeros_to_def list_all_iff) (auto simp: is_digit_def)
  have zero: "digit_val (CHR ''0'') = 0" by (simp add: digit_val_def)
  have "foldl (\<lambda>a c. 10 * a + digit_val c) 0 (replicate m (CHR ''0'')) = 0" for m by (induction m) (simp_all add: zero)
  then have "read_nat z = Some n"
    using dig len read_show_nat[of n] by (auto simp: z_def zeros_to_def read_nat_def split: if_splits)
  moreover obtain c r where cr: "z = c # r" using len by (cases z) (auto simp: z_def)
  moreover have "is_digit c" using dig cr by (simp add: z_def[symmetric])
  then have "c \<noteq> CHR ''-''" "c \<noteq> CHR ''+''" by (auto simp: is_digit_def)
  ultimately show "parse_i64 (zeros_to (Suc k) (show_nat n)) = (if n < 2 ^ 63 then Some (int n) else None)"
    by (simp add: z_def[symmetric] parse_i64_def)
qed

lemma zeros_width:
  assumes "0 < w" "n < 10 ^ w"
  shows "length (zeros_to w (show_nat n)) = w" "parse_i64 (zeros_to w (show_nat n)) = (if n < 2 ^ 63 then Some (int n) else None)"
    "list_all is_digit (zeros_to w (show_nat n))"
  using zeros_read[of n "w - 1"] assms by simp_all

lemma digit_no_cont: "is_digit c \<Longrightarrow> \<not> is_cont c" by (simp add: is_digit_def is_cont_def Let_def)

lemma num_at_mid:
  assumes "s = p @ q @ r" "list_all (\<lambda>c. \<not> is_cont c) s" "length p = a" "a + length q = b"
  shows "num_at s a b = parse_i64 q"
proof -
  have "boundary s i" if "i \<le> length s" for i using assms(2) that by (auto simp: boundary_def list_all_length)
  then show ?thesis using assms by (auto simp: num_at_def str_get_def)
qed

lemma rfc3339_parts:
  assumes "unat n < 253402300800"
  obtains y mo d h mi sec where
    "rfc3339 n = zeros_to 4 (show_nat y) @ ''-'' @ zeros_to 2 (show_nat mo) @ ''-'' @ zeros_to 2 (show_nat d) @ ''T''
       @ zeros_to 2 (show_nat h) @ '':'' @ zeros_to 2 (show_nat mi) @ '':'' @ zeros_to 2 (show_nat sec) @ ''Z''"
    "y < 10000" "mo < 100" "d < 100" "h < 100" "mi < 100" "sec < 100"
    "days_from_civil (int y) (int mo) (int d) * 86400 + int h * 3600 + int mi * 60 + int sec = int (unat n)"
proof -
  define days r where "days = unat n div 86400" and "r = unat n mod 86400"
  obtain era yoe doy where g: "0 \<le> era" "good_day yoe doy" "int (days + 719468) = era * 146097 + year_start yoe + doy"
    using day_after by blast
  obtain y mo d where c: "march_date era yoe doy = (y, mo, d)" by (cases "march_date era yoe doy")
  note b = days_back[OF g(2,1) c]
  have days: "int days = era * 146097 + year_start yoe + doy - 719468" using g(3) by simp
  have civil: "civil_from_days (int days) = (y, mo, d)" using civil_march[OF g(2,1)] c unfolding days by simp
  have yy: "0 \<le> yoe" "yoe < 400" "0 \<le> doy" using g(2) by (auto simp: good_day_def)
  have ys: "yoe = 399 \<Longrightarrow> year_start yoe = 145731" by (simp add: year_start_def)
  have "days < 2932897" using assms by (simp add: days_def less_mult_imp_div_less)
  then have "era * 146097 + year_start yoe + doy < 3652365" using g(3) by linarith
  moreover have "0 \<le> year_start yoe" using yy(1) by (simp add: year_start_def)
  ultimately have "era \<le> 24" "\<not> (era = 24 \<and> yoe = 399 \<and> 306 \<le> doy)" using yy(3) ys by (linarith, auto)
  then have y: "0 \<le> y" "y < 10000" using b(6,7) g(1) yy by (auto split: if_splits)
  have "rfc3339 n = zeros_to 4 (show_nat (nat y)) @ ''-'' @ zeros_to 2 (show_nat (nat mo)) @ ''-'' @ zeros_to 2 (show_nat (nat d)) @ ''T''
       @ zeros_to 2 (show_nat (r div 3600)) @ '':'' @ zeros_to 2 (show_nat (r mod 3600 div 60)) @ '':'' @ zeros_to 2 (show_nat (r mod 60)) @ ''Z''"
    using y b(2,4) civil by (simp add: rfc3339_def Let_def days_def r_def show_int_def)
  moreover have "r div 3600 < 100" "r mod 3600 div 60 < 100" "r mod 60 < 100" by (simp_all add: r_def less_mult_imp_div_less)
  moreover have "days_from_civil y mo d = int days" using b(1) g(3) by simp
  moreover have "r = r div 3600 * 3600 + r mod 3600 div 60 * 60 + r mod 60"
  proof -
    have "r mod 3600 mod 60 = r mod 60" by (rule mod_mod_cancel) simp
    then show ?thesis using div_mult_mod_eq[of r 3600] div_mult_mod_eq[of "r mod 3600" 60] by linarith
  qed
  moreover have "unat n = days * 86400 + r" by (simp add: days_def r_def)
  ultimately show thesis using that[of "nat y" "nat mo" "nat d" "r div 3600" "r mod 3600 div 60" "r mod 60"] y b(2-5)
    by simp
qed

text \<open>A time printed for the dashboards reads back as the same second with the routine that reads the
  times of Docker, for every second before the year 10000.\<close>

theorem times_read_back:
  assumes "unat n < 253402300800"
  shows "parse_rfc3339 (rfc3339 n) = int (unat n)"
proof -
  obtain y mo d h mi sec where s:
    "rfc3339 n = zeros_to 4 (show_nat y) @ ''-'' @ zeros_to 2 (show_nat mo) @ ''-'' @ zeros_to 2 (show_nat d) @ ''T''
       @ zeros_to 2 (show_nat h) @ '':'' @ zeros_to 2 (show_nat mi) @ '':'' @ zeros_to 2 (show_nat sec) @ ''Z''"
    and lt: "y < 10000" "mo < 100" "d < 100" "h < 100" "mi < 100" "sec < 100"
    and sum: "days_from_civil (int y) (int mo) (int d) * 86400 + int h * 3600 + int mi * 60 + int sec = int (unat n)"
    using rfc3339_parts[OF assms] .
  define Y M D H N S where "Y = zeros_to 4 (show_nat y)" and "M = zeros_to 2 (show_nat mo)" and "D = zeros_to 2 (show_nat d)"
    and "H = zeros_to 2 (show_nat h)" and "N = zeros_to 2 (show_nat mi)" and "S = zeros_to 2 (show_nat sec)"
  note defs = Y_def M_def D_def H_def N_def S_def
  have r4: "length Y = 4" "parse_i64 Y = Some (int y)" "list_all is_digit Y"
    using zeros_width[of 4 y] lt by (simp_all add: Y_def)
  have r2: "length (zeros_to 2 (show_nat k)) = 2" "parse_i64 (zeros_to 2 (show_nat k)) = Some (int k)"
    "list_all is_digit (zeros_to 2 (show_nat k))" if "k < 100" for k
    using zeros_width[of 2 k] that by simp_all
  have len: "length M = 2" "length D = 2" "length H = 2" "length N = 2" "length S = 2"
    using r2(1) lt by (simp_all add: defs)
  have val: "parse_i64 M = Some (int mo)" "parse_i64 D = Some (int d)" "parse_i64 H = Some (int h)"
    "parse_i64 N = Some (int mi)" "parse_i64 S = Some (int sec)" using r2(2) lt by (simp_all add: defs)
  define t where "t = rfc3339 n"
  have t: "t = Y @ ''-'' @ M @ ''-'' @ D @ ''T'' @ H @ '':'' @ N @ '':'' @ S @ ''Z''" by (simp add: t_def s defs)
  have dig: "list_all is_digit X \<Longrightarrow> list_all (\<lambda>c. \<not> is_cont c) X" for X by (simp add: list_all_iff digit_no_cont)
  have asc: "list_all (\<lambda>c. \<not> is_cont c) t"
    unfolding t using r4(3) r2(3) lt by (simp add: dig defs) (simp add: is_cont_def)
  note at = num_at_mid[OF _ asc]
  have "num_at t 0 4 = Some (int y)"
    unfolding r4(2)[symmetric] by (rule at[of "[]" Y "''-'' @ M @ ''-'' @ D @ ''T'' @ H @ '':'' @ N @ '':'' @ S @ ''Z''"]) (use r4(1) len in \<open>simp_all add: t\<close>)
  moreover have "num_at t 5 7 = Some (int mo)"
    unfolding val(1)[symmetric] by (rule at[of "Y @ ''-''" M "''-'' @ D @ ''T'' @ H @ '':'' @ N @ '':'' @ S @ ''Z''"]) (use r4(1) len in \<open>simp_all add: t\<close>)
  moreover have "num_at t 8 10 = Some (int d)"
    unfolding val(2)[symmetric] by (rule at[of "Y @ ''-'' @ M @ ''-''" D "''T'' @ H @ '':'' @ N @ '':'' @ S @ ''Z''"]) (use r4(1) len in \<open>simp_all add: t\<close>)
  moreover have "num_at t 11 13 = Some (int h)"
    unfolding val(3)[symmetric] by (rule at[of "Y @ ''-'' @ M @ ''-'' @ D @ ''T''" H "'':'' @ N @ '':'' @ S @ ''Z''"]) (use r4(1) len in \<open>simp_all add: t\<close>)
  moreover have "num_at t 14 16 = Some (int mi)"
    unfolding val(4)[symmetric] by (rule at[of "Y @ ''-'' @ M @ ''-'' @ D @ ''T'' @ H @ '':''" N "'':'' @ S @ ''Z''"]) (use r4(1) len in \<open>simp_all add: t\<close>)
  moreover have "num_at t 17 19 = Some (int sec)"
    unfolding val(5)[symmetric] by (rule at[of "Y @ ''-'' @ M @ ''-'' @ D @ ''T'' @ H @ '':'' @ N @ '':''" S "''Z''"]) (use r4(1) len in \<open>simp_all add: t\<close>)
  moreover have "zone_offset t = 0"
  proof -
    have "boundary t 19" "boundary t (length t)" using asc r4(1) len by (auto simp: boundary_def list_all_length t)
    then have "str_get t 19 (length t) = Some ''Z''" using r4(1) len by (simp add: str_get_def t)
    then show ?thesis by (simp add: zone_offset_def is_digit_def)
  qed
  ultimately show ?thesis using sum by (simp add: parse_rfc3339_def t_def)
qed

theorem times_read_back_witness: "parse_rfc3339 (rfc3339 1700000000) = 1700000000"
  using times_read_back[of 1700000000] by simp

end
