(* ===== verification/Docker_Scan.thy ===== *)
theory Docker_Scan
  imports Calendar Http
begin

text \<open>
  Assembling the Docker snapshot (\<open>src/scanner/docker.rs\<close>) from the answers of the engine.  The
  records hold the fields of the engine's summaries that the code reads; asking the engine is not
  modelled.
\<close>

section \<open>Answers of the engine\<close>

record container_summary =
  cs_names :: "string list option"
  cs_id :: "string option"
  cs_running :: bool
  cs_labels :: "(string \<Rightarrow> string option) option"
  cs_public_ports :: "u16 option list option"
  cs_size_rw :: "int option"
  cs_created :: "int option"
  cs_mounts :: "string option list option"

record image_summary =
  im_tags :: "string list"
  im_id :: string
  im_size :: int
  im_created :: int

record volume =
  vo_name :: string
  vo_labels :: "string \<Rightarrow> string option"
  vo_usage :: "int option"
  vo_created :: "string option"

text \<open>The disk usage: what the build cache can give back, if it is reported, and the size of all
  images.\<close>

record disk_usage =
  du_cache :: "int option option"
  du_images :: "int option"

section \<open>Rows\<close>

definition COMPOSE_PROJECT :: string where "COMPOSE_PROJECT = ''com.docker.compose.project''"

definition size_of_i64 :: "int \<Rightarrow> u64" where "size_of_i64 n = word_of_int (max n 0)"

definition dangling :: "image_summary \<Rightarrow> bool" where
  "dangling img \<longleftrightarrow> im_tags img = [] \<or> list_all (\<lambda>t. t = [] \<or> str_contains t ''<none>'') (im_tags img)"

definition published_ports :: "container_summary \<Rightarrow> u16 list" where
  "published_ports c = remdups (sort (List.map_filter (\<lambda>p. p) (or_default [] (cs_public_ports c))))"

definition container_name :: "container_summary \<Rightarrow> string" where
  "container_name c =
    (case Option.bind (cs_names c) (\<lambda>ns. case ns of n # _ \<Rightarrow> Some n | [] \<Rightarrow> None) of
       Some n \<Rightarrow> dropWhile (\<lambda>x. x = CHR ''/'') n
     | None \<Rightarrow> (case cs_id c of Some i \<Rightarrow> take_chars 12 i | None \<Rightarrow> ''?''))"

definition container_row :: "container_summary \<Rightarrow> docker_resource" where
  "container_row c =
    \<lparr>d_kind = Container, d_id = or_default [] (cs_id c), d_name = container_name c,
     d_detail = (if cs_running c then ''running'' else ''stopped''), d_ports = published_ports c,
     d_size = size_of_i64 (or_default 0 (cs_size_rw c)),
     d_compose = Option.bind (cs_labels c) (\<lambda>l. l COMPOSE_PROJECT), d_persistent = False, d_anonymous = False,
     d_created = or_default 0 (cs_created c)\<rparr>"

definition short_id :: "string \<Rightarrow> string" where "short_id i = take_chars 12 (trim_prefixes ''sha256:'' i)"

definition dangling_row :: "image_summary \<Rightarrow> docker_resource" where
  "dangling_row img =
    \<lparr>d_kind = DanglingImage, d_id = im_id img, d_name = short_id (im_id img), d_detail = ''dangling'', d_ports = [],
     d_size = size_of_i64 (im_size img), d_compose = None, d_persistent = False, d_anonymous = False,
     d_created = max (im_created img) 0\<rparr>"

definition volume_row :: "volume \<Rightarrow> bool \<Rightarrow> docker_resource" where
  "volume_row v attached =
    \<lparr>d_kind = Volume, d_id = vo_name v, d_name = vo_name v,
     d_detail = (if attached then ''attached'' else ''unused''), d_ports = [],
     d_size = (case vo_usage v of Some n \<Rightarrow> size_of_i64 n | None \<Rightarrow> 0), d_compose = vo_labels v COMPOSE_PROJECT,
     d_persistent = True, d_anonymous = (vo_labels v ''com.docker.volume.anonymous'' \<noteq> None),
     d_created = (case vo_created v of Some t \<Rightarrow> parse_rfc3339 t | None \<Rightarrow> 0)\<rparr>"

definition attached_volumes :: "container_summary list \<Rightarrow> string set" where
  "attached_volumes cs =
    set (concat (map (\<lambda>c. List.map_filter (\<lambda>m. m) (or_default [] (cs_mounts c))) cs))"

definition cache_row :: "u64 \<Rightarrow> docker_resource" where
  "cache_row n =
    \<lparr>d_kind = BuildCache, d_id = ''*build-cache'', d_name = ''build cache'', d_detail = ''reclaimable'', d_ports = [],
     d_size = n, d_compose = None, d_persistent = False, d_anonymous = False, d_created = 0\<rparr>"

section \<open>The snapshot\<close>

definition docker_rows ::
  "container_summary list \<Rightarrow> image_summary list \<Rightarrow> volume list option \<Rightarrow> disk_usage option \<Rightarrow> docker_resource list" where
  "docker_rows cs imgs vols usage =
    (let att = attached_volumes cs
     in map container_row cs
        @ map dangling_row (filter dangling imgs)
        @ map (\<lambda>v. volume_row v (vo_name v \<in> att)) (or_default [] vols)
        @ (case Option.bind usage du_cache of
             None \<Rightarrow> []
           | Some c \<Rightarrow> (let n = size_of_i64 (or_default 0 c) in if n > 0 then [cache_row n] else [])))"

definition reclaimable :: "docker_resource \<Rightarrow> bool" where
  "reclaimable r \<longleftrightarrow>
    d_kind r = DanglingImage \<or> d_kind r = BuildCache \<or> d_kind r = Container \<and> d_detail r = ''stopped'' \<or> prunable r"

text \<open>Running containers first, otherwise in order; the sums wrap.\<close>

definition assemble ::
  "container_summary list \<Rightarrow> image_summary list \<Rightarrow> volume list option \<Rightarrow> disk_usage option \<Rightarrow> docker_snapshot" where
  "assemble cs imgs vols usage =
    (let rs = sort_key (\<lambda>r. \<not> docker_running r) (docker_rows cs imgs vols usage)
     in \<lparr>ds_ok = True, ds_note = [],
         ds_disk = (case Option.bind usage du_images of Some l \<Rightarrow> size_of_i64 l | None \<Rightarrow> sum_list (map d_size rs)),
         ds_reclaimable = sum_list (map d_size (filter reclaimable rs)), ds_resources = rs\<rparr>)"

section \<open>Facts\<close>

lemma assembled_rows: "set (ds_resources (assemble cs imgs vols usage)) = set (docker_rows cs imgs vols usage)"
  by (simp add: assemble_def Let_def)

text \<open>Exactly the volumes are persistent, also the anonymous unused ones.\<close>

lemma assembled_persistent:
  "r \<in> set (ds_resources (assemble cs imgs vols usage)) \<Longrightarrow> d_persistent r \<longleftrightarrow> d_kind r = Volume"
  unfolding assembled_rows
  by (auto simp: docker_rows_def Let_def container_row_def dangling_row_def volume_row_def cache_row_def
      split: option.splits if_splits)

lemma assembled_prunable:
  "r \<in> set (ds_resources (assemble cs imgs vols usage)) \<Longrightarrow> prunable r \<longleftrightarrow>
    d_kind r = Volume \<and> d_anonymous r \<and> d_id r \<notin> attached_volumes cs"
  unfolding assembled_rows
  by (auto simp: docker_rows_def Let_def container_row_def dangling_row_def volume_row_def cache_row_def prunable_def
      split: option.splits if_splits)

end
