(* ===== verification/Barman.thy ===== *)
theory Barman
  imports Docker_Scan Web
begin

text \<open>
  The machine-readable interface of the menu-bar client (\<open>src/barman.rs\<close>): stable ids, the document
  built from a snapshot and its rows.  The hash, the Unicode lower case, the quoting of a debug print, the
  clock and the probe for HTTP are arguments; CPU figures and the gauges of the host are left out.
\<close>

section \<open>The world\<close>

record barman_world =
  bw_hex :: "string \<Rightarrow> string"
  bw_lower :: "string \<Rightarrow> string"
  bw_now :: u64
  bw_http :: "u16 \<Rightarrow> bool"
  bw_v6 :: "u16 list \<Rightarrow> string"
  bw_debug :: "string \<Rightarrow> string"

definition PLAN_TTL_SECS :: u64 where "PLAN_TTL_SECS = 300"

section \<open>Documents\<close>

record project_doc =
  pd_id :: string
  pd_name :: string
  pd_agent :: "string option"
  pd_memory :: u64
  pd_resource_ids :: "string list"

record session_doc =
  sd_id :: string
  sd_agent :: string
  sd_project_id :: "string option"
  sd_status :: string
  sd_age :: u64

record resource_doc =
  bd_id :: string
  bd_kind :: string
  bd_name :: string
  bd_status :: string
  bd_project_id :: "string option"
  bd_ports :: "u16 list"
  bd_pid :: "pid option"
  bd_memory :: u64
  bd_url :: "string option"
  bd_class :: string
  bd_confidence :: "string option"
  bd_reasons :: "string list"
  bd_reclaim :: u64
  bd_actions :: "string list"

record container_doc =
  cd_id :: string
  cd_name :: string
  cd_compose :: "string option"
  cd_ports :: "u16 list"
  cd_url :: "string option"
  cd_status :: string
  cd_size :: u64
  cd_actions :: "string list"
  cd_reclaim :: u64

record snapshot_doc =
  sn_generated_at :: string
  sn_projects :: "project_doc list"
  sn_sessions :: "session_doc list"
  sn_resources :: "resource_doc list"
  sn_containers :: "container_doc list"
  sn_leftover_ids :: "string list"
  sn_reclaim :: u64

section \<open>Stable ids\<close>

definition bar :: string where "bar = ''|''"

definition resource_id :: "barman_world \<Rightarrow> string \<Rightarrow> u64 \<Rightarrow> string \<Rightarrow> string \<Rightarrow> string" where
  "resource_id w kind start pj name =
    ''resource_'' @ take 12 (bw_hex w (kind @ bar @ show_nat (unat start) @ bar @ pj @ bar @ name))"

text \<open>The ids of the engine are ASCII, so a slice of bytes is a slice of text.\<close>

definition container_id :: "string \<Rightarrow> string" where
  "container_id i = ''container_'' @ (if length i > 12 then take 12 i else i)"

definition is_alnum :: "char \<Rightarrow> bool" where
  "is_alnum c = (let n = of_char c :: nat in 48 \<le> n \<and> n \<le> 57 \<or> 65 \<le> n \<and> n \<le> 90 \<or> 97 \<le> n \<and> n \<le> 122)"

definition slug_step :: "string \<times> bool \<Rightarrow> char \<Rightarrow> string \<times> bool" where
  "slug_step s c =
    (let (out, dash) = s in
     if is_alnum c then (out @ [c], False)
     else if \<not> dash \<and> out \<noteq> [] then (out @ ''-'', True) else (out, dash))"

definition slug :: "barman_world \<Rightarrow> string \<Rightarrow> string" where
  "slug w name =
    (let t = rev (dropWhile (\<lambda>c. c = CHR ''-'') (rev (fst (foldl slug_step ([], False) (bw_lower w name)))))
     in if t = [] then ''project'' else t)"

definition project_id :: "barman_world \<Rightarrow> string \<Rightarrow> string" where "project_id w name = ''project_'' @ slug w name"

definition session_key_id :: "u64 \<Rightarrow> string" where "session_key_id k = ''session_'' @ hex16 k"

definition session_project_id :: "barman_world \<Rightarrow> string \<Rightarrow> string option" where
  "session_project_id w path =
    (let base = last (split_on (CHR ''/'') path) in if base = [] then None else Some (project_id w base))"

section \<open>Rows of the document\<close>

definition kind_name :: "category \<Rightarrow> string" where
  "kind_name c =
    (case c of Agent \<Rightarrow> ''agent'' | Mcp \<Rightarrow> ''mcp'' | Browser \<Rightarrow> ''browser'' | DevServer \<Rightarrow> ''dev_server''
     | DevService \<Rightarrow> ''dev_service'' | Database \<Rightarrow> ''database'' | Worker \<Rightarrow> ''worker''
     | UnknownDev \<Rightarrow> ''unknown'' | LanguageServer \<Rightarrow> ''service'')"

text \<open>The start times by pid; of several processes with one pid the last counts.\<close>

definition start_of :: "process_info list \<Rightarrow> pid option \<Rightarrow> u64" where
  "start_of ps k =
    or_default 0 (Option.bind k (map_of (rev (map (\<lambda>p. (p_pid p, p_start_time p)) ps))))"

definition project_name :: "runtime_item \<Rightarrow> string" where
  "project_name i = (case ri_project i of Some p \<Rightarrow> pr_name p | None \<Rightarrow> [])"

definition item_id :: "barman_world \<Rightarrow> process_info list \<Rightarrow> runtime_item \<Rightarrow> string" where
  "item_id w ps i =
    resource_id w (kind_name (ri_category i)) (start_of ps (ri_root i)) (project_name i) (ri_display i)"

definition classification :: "runtime_state \<Rightarrow> string" where
  "classification s = (case s of Suspicious \<Rightarrow> ''leftover'' | Persistent \<Rightarrow> ''persistent'' | Active \<Rightarrow> ''active'')"

definition confidence_of :: "u8 \<Rightarrow> string" where
  "confidence_of s = (if s \<ge> 60 then ''high'' else if s \<ge> 40 then ''medium'' else ''low'')"

definition process_resource :: "barman_world \<Rightarrow> process_info list \<Rightarrow> runtime_item \<Rightarrow> resource_doc" where
  "process_resource w ps i =
    (let url = (if ri_category i \<in> {DevServer, UnknownDev} then
                  (case ri_ports i of p # _ \<Rightarrow> Some (port_url (bw_v6 w) p) | [] \<Rightarrow> None) else None);
         gone = (ri_state i = Suspicious);
         sus = (if gone then ri_suspicion i else None)
     in \<lparr>bd_id = item_id w ps i, bd_kind = kind_name (ri_category i), bd_name = item_title i, bd_status = ''running'',
         bd_project_id = map_option (\<lambda>p. project_id w (pr_name p)) (ri_project i), bd_ports = map lp_port (ri_ports i),
         bd_pid = ri_root i, bd_memory = ri_memory i, bd_url = url, bd_class = classification (ri_state i),
         bd_confidence = map_option (\<lambda>s. confidence_of (sus_score s)) sus,
         bd_reasons = (case sus of Some s \<Rightarrow> map reason_as_str (sus_reasons s) | None \<Rightarrow> []),
         bd_reclaim = (if gone then ri_memory i else 0),
         bd_actions = (if url \<noteq> None then [''open''] else []) @ [''stop'', ''restart'', ''kill'']\<rparr>)"

definition docker_leftover :: "docker_resource \<Rightarrow> bool" where
  "docker_leftover r \<longleftrightarrow> prunable r \<or> d_kind r = DanglingImage \<or> d_kind r = BuildCache"

definition docker_artifact_resource :: "docker_resource \<Rightarrow> resource_doc" where
  "docker_artifact_resource r =
    (let gone = docker_leftover r in
     \<lparr>bd_id = container_id (d_id r), bd_kind = ''container'', bd_name = d_name r, bd_status = ''stopped'',
      bd_project_id = None, bd_ports = [], bd_pid = None, bd_memory = 0, bd_url = None,
      bd_class = (if d_persistent r then ''persistent'' else if gone then ''leftover'' else ''active''),
      bd_confidence = (if gone then Some ''high'' else None),
      bd_reasons = (if gone then [''docker-reclaimable''] else []), bd_reclaim = (if gone then d_size r else 0),
      bd_actions = [''kill'']\<rparr>)"

definition container_row_doc :: "barman_world \<Rightarrow> bool \<Rightarrow> docker_resource \<Rightarrow> container_doc" where
  "container_row_doc w demo r =
    (let running = docker_running r;
         url = (case d_ports r of
                  p # _ \<Rightarrow> if running \<and> (demo \<or> bw_http w p) then Some (''http://127.0.0.1:'' @ show_nat (unat p)) else None
                | [] \<Rightarrow> None)
     in \<lparr>cd_id = container_id (d_id r), cd_name = d_name r, cd_compose = d_compose r, cd_ports = d_ports r, cd_url = url,
         cd_status = (if running then ''running'' else ''stopped''), cd_size = d_size r,
         cd_actions = (if url \<noteq> None then [''open''] else []) @ (if running then [''stop'', ''restart''] else [''start'']),
         cd_reclaim = (if running then 0 else d_size r)\<rparr>)"

section \<open>Projects and sessions\<close>

text \<open>The project of a row, named after the first item with its id and title, with the name of its first
  agent or else of a session.\<close>

definition row_item :: "barman_world \<Rightarrow> runtime_item list \<Rightarrow> resource_doc \<Rightarrow> runtime_item option" where
  "row_item w flat r =
    find (\<lambda>i. map_option (\<lambda>p. project_id w (pr_name p)) (ri_project i) = bd_project_id r \<and> item_title i = bd_name r) flat"

definition display_name :: "barman_world \<Rightarrow> runtime_item list \<Rightarrow> string \<Rightarrow> resource_doc list \<Rightarrow> string" where
  "display_name w flat pid mine =
    (case mine of
       [] \<Rightarrow> pid
     | r # _ \<Rightarrow> (case Option.bind (row_item w flat r) ri_project of Some p \<Rightarrow> pr_name p | None \<Rightarrow> pid))"

definition agent_label :: "barman_world \<Rightarrow> runtime_item list \<Rightarrow> session_info list \<Rightarrow> string \<Rightarrow> string option" where
  "agent_label w flat ss pid =
    (case find (\<lambda>i. ri_category i = Agent \<and> map_option (\<lambda>p. project_id w (pr_name p)) (ri_project i) = Some pid) flat of
       Some i \<Rightarrow> Some (ri_display i)
     | None \<Rightarrow>
         map_option si_agent (find (\<lambda>s. Option.bind (si_project s) (session_project_id w) = Some pid) ss))"

definition aggregate_projects ::
  "barman_world \<Rightarrow> resource_doc list \<Rightarrow> runtime_item list \<Rightarrow> session_info list \<Rightarrow> project_doc list" where
  "aggregate_projects w rs flat ss =
    map (\<lambda>pid. let mine = filter (\<lambda>r. bd_project_id r = Some pid) rs
               in \<lparr>pd_id = pid, pd_name = display_name w flat pid mine, pd_agent = agent_label w flat ss pid,
                   pd_memory = sum_list (map bd_memory mine), pd_resource_ids = sort (map bd_id mine)\<rparr>)
      (sort (remdups (List.map_filter bd_project_id rs)))"

definition session_row_doc :: "barman_world \<Rightarrow> session_info \<Rightarrow> session_doc" where
  "session_row_doc w s =
    \<lparr>sd_id = session_key_id (sid_u64 (si_id s)), sd_agent = si_agent s,
     sd_project_id = Option.bind (si_project s) (session_project_id w),
     sd_status = (if si_active s then ''working'' else ''ended''), sd_age = sat_sub (bw_now w) (si_started s)\<rparr>"

section \<open>The document\<close>

definition resource_rows :: "barman_world \<Rightarrow> runtime_snapshot \<Rightarrow> resource_doc list" where
  "resource_rows w snap =
    sort_key bd_id
      (map (process_resource w (sp_processes snap)) (all_items (sp_items snap))
       @ map docker_artifact_resource (filter (\<lambda>r. d_kind r \<noteq> Container) (ds_resources (sp_docker snap))))"

definition build_snapshot :: "barman_world \<Rightarrow> bool \<Rightarrow> runtime_snapshot \<Rightarrow> snapshot_doc" where
  "build_snapshot w demo snap =
    (let rs = resource_rows w snap; gone = filter (\<lambda>r. bd_class r = ''leftover'') rs in
     \<lparr>sn_generated_at = rfc3339 (bw_now w),
      sn_projects = aggregate_projects w rs (all_items (sp_items snap)) (sp_sessions snap),
      sn_sessions = sort_key sd_id (map (session_row_doc w) (sp_sessions snap)), sn_resources = rs,
      sn_containers = sort_key cd_id (map (container_row_doc w demo)
        (filter (\<lambda>r. d_kind r = Container) (ds_resources (sp_docker snap)))),
      sn_leftover_ids = map bd_id gone, sn_reclaim = sum_list (map bd_reclaim gone)\<rparr>)"

text \<open>The start times of the demo data, cut to the hour.\<close>

definition stabilize_demo_times :: "runtime_snapshot \<Rightarrow> runtime_snapshot" where
  "stabilize_demo_times snap =
    snap\<lparr>sp_processes := map (\<lambda>p. if p_start_time p \<noteq> 0 then p\<lparr>p_start_time := p_start_time p - p_start_time p mod 3600\<rparr> else p)
      (sp_processes snap)\<rparr>"

text \<open>One scan with its ownership recorded, or the demo data, which is an argument.  \<open>None\<close> if grouping does
  not return.\<close>

definition live_snapshot ::
  "config \<Rightarrow> path list \<Rightarrow> file_system \<Rightarrow> u64 \<Rightarrow> pid list \<Rightarrow> row_order \<Rightarrow> scan \<Rightarrow> tracker \<Rightarrow> runtime_snapshot option
    \<Rightarrow> (runtime_snapshot \<times> tracker) option" where
  "live_snapshot cfg roots fs now order ro sc t demo =
    (case demo of
       Some d \<Rightarrow> Some (stabilize_demo_times d, t)
     | None \<Rightarrow>
         map_option
           (\<lambda>s. let t' = tracker_record ro now (sp_processes s) (sp_items s) t;
                    items = layer_session_leftovers ro t' (sp_items s) (sp_processes s)
                in (s\<lparr>sp_items := items, sp_sessions := tracker_sessions t'\<rparr>, t'))
           (snapshot_with cfg roots fs now order sc))"

end
