(* ===== verification/Barman_Plans.thy ===== *)
theory Barman_Plans
  imports Barman
begin

text \<open>
  Cleanup plans, control actions and the execution of a plan (\<open>src/barman.rs\<close>).  The files of the plans
  are a map from file names to contents; what \<open>kill\<close> and the Docker engine answer to the actions of one
  call is an argument, a new one for each, because every action looks at the live system again.
\<close>

section \<open>Plans\<close>

record cleanup_item =
  ci_id :: string
  ci_selected :: bool
  ci_safe :: bool
  ci_reason :: string

record protected_item =
  pt_id :: string
  pt_reason :: string

record cleanup_doc =
  cp_id :: string
  cp_items :: "cleanup_item list"
  cp_protected :: "protected_item list"
  cp_reclaim :: u64

definition plan_reason :: "resource_doc list \<Rightarrow> string \<Rightarrow> string" where
  "plan_reason rs i =
    (case Option.bind (map_of (rev (map (\<lambda>r. (bd_id r, r)) rs)) i) (\<lambda>r. case bd_reasons r of [] \<Rightarrow> None | x # _ \<Rightarrow> Some x) of
       Some x \<Rightarrow> x
     | None \<Rightarrow> ''leftover candidate'')"

definition protected_of :: "resource_doc \<Rightarrow> protected_item" where
  "protected_of r =
    \<lparr>pt_id = bd_id r,
     pt_reason = (if bd_kind r = ''database'' then ''Persistent database service''
                  else if bd_kind r = ''container'' then ''Persistent volume'' else ''Persistent service'')\<rparr>"

definition add_volume :: "protected_item list \<Rightarrow> resource_doc \<Rightarrow> protected_item list" where
  "add_volume ps r =
    (if bd_id r \<in> pt_id ` set ps then ps else ps @ [\<lparr>pt_id = bd_id r, pt_reason = ''Persistent volume''\<rparr>])"

definition named_volumes :: "resource_doc list \<Rightarrow> resource_doc list" where
  "named_volumes rs = filter (\<lambda>r. bd_kind r = ''container'' \<and> bd_class r = ''persistent'' \<and> bd_name r \<noteq> []) rs"

definition cleanup_plan :: "string \<Rightarrow> snapshot_doc \<Rightarrow> cleanup_doc" where
  "cleanup_plan new_id doc =
    (let rs = sn_resources doc;
         ps = foldl add_volume (map protected_of (filter (\<lambda>r. bd_class r = ''persistent'') rs)) (named_volumes rs)
     in \<lparr>cp_id = new_id,
         cp_items = sort_key ci_id
           (map (\<lambda>i. \<lparr>ci_id = i, ci_selected = True, ci_safe = True, ci_reason = plan_reason rs i\<rparr>) (sn_leftover_ids doc)),
         cp_protected = sort_key pt_id ps, cp_reclaim = sn_reclaim doc\<rparr>)"

text \<open>The id of a plan: six random bytes, or the low bytes of the clock.\<close>

definition plan_prefix :: string where "plan_prefix = ''cleanup_''"

definition new_plan_id :: "u64 \<Rightarrow> u8 list option \<Rightarrow> string" where
  "new_plan_id now rand =
    plan_prefix @ concat (map (\<lambda>b. hex_digits 2 (unat b))
      (case rand of Some bs \<Rightarrow> bs | None \<Rightarrow> map (\<lambda>k. ucast (drop_bit (8 * k) now)) [0..<6]))"

section \<open>Files of plans\<close>

datatype plan_file = PlanFile u64 "string list" | Garbage

type_synonym plan_dir = "string \<Rightarrow> plan_file option"

definition expired :: "u64 \<Rightarrow> plan_file \<Rightarrow> bool" where
  "expired now f = (case f of PlanFile t _ \<Rightarrow> sat_sub now t \<ge> PLAN_TTL_SECS | Garbage \<Rightarrow> True)"

definition plan_name :: "string \<Rightarrow> string" where "plan_name i = i @ ''.json''"

text \<open>What is left of a write that fails.\<close>

datatype write_result = Written | LeftBehind "plan_file option"

definition remember_plan :: "u64 \<Rightarrow> bool \<Rightarrow> write_result \<Rightarrow> cleanup_doc \<Rightarrow> plan_dir \<Rightarrow> plan_dir" where
  "remember_plan now dir_ok wr plan d =
    (if \<not> dir_ok then d
     else
       (let d1 = (\<lambda>n. case d n of Some f \<Rightarrow> if expired now f then None else Some f | None \<Rightarrow> None)
        in d1(plan_name (cp_id plan) :=
             (case wr of Written \<Rightarrow> Some (PlanFile now (map ci_id (cp_items plan))) | LeftBehind f \<Rightarrow> f))))"

definition is_hexdigit :: "char \<Rightarrow> bool" where
  "is_hexdigit c = (let n = of_char c :: nat in 48 \<le> n \<and> n \<le> 57 \<or> 65 \<le> n \<and> n \<le> 70 \<or> 97 \<le> n \<and> n \<le> 102)"

definition plan_id_ok :: "string \<Rightarrow> bool" where
  "plan_id_ok i \<longleftrightarrow> starts_with i plan_prefix \<and> list_all is_hexdigit (drop (length plan_prefix) i)"

definition take_plan :: "u64 \<Rightarrow> string \<Rightarrow> plan_dir \<Rightarrow> string list option \<times> plan_dir" where
  "take_plan now i d =
    (if \<not> plan_id_ok i then (None, d)
     else
       (case d (plan_name i) of
          None \<Rightarrow> (None, d)
        | Some f \<Rightarrow>
            (case f of
               Garbage \<Rightarrow> None
             | PlanFile t ids \<Rightarrow> if sat_sub now t \<ge> PLAN_TTL_SECS then None else Some ids,
             d(plan_name i := None))))"

section \<open>Actions\<close>

datatype bar_action = ActStart | ActStop | ActRestart | ActKill | ActOpenUrl

definition action_as_str :: "bar_action \<Rightarrow> string" where
  "action_as_str a = (case a of ActStart \<Rightarrow> ''start'' | ActStop \<Rightarrow> ''stop'' | ActRestart \<Rightarrow> ''restart''
     | ActKill \<Rightarrow> ''kill'' | ActOpenUrl \<Rightarrow> ''open-url'')"

definition action_parse :: "string \<Rightarrow> bar_action option" where
  "action_parse s = find (\<lambda>a. action_as_str a = s) [ActStart, ActStop, ActRestart, ActKill, ActOpenUrl]"

record action_outcome =
  ao_ok :: bool
  ao_target :: string
  ao_action :: "string option"
  ao_detail :: "string option"
  ao_url :: "string option"
  ao_error :: "string option"
  ao_stale :: bool

definition outcome_ok :: "string \<Rightarrow> bar_action \<Rightarrow> string \<Rightarrow> action_outcome" where
  "outcome_ok t a det = \<lparr>ao_ok = True, ao_target = t, ao_action = Some (action_as_str a), ao_detail = Some det,
     ao_url = None, ao_error = None, ao_stale = False\<rparr>"

definition outcome_url :: "string \<Rightarrow> string \<Rightarrow> action_outcome" where
  "outcome_url t u = \<lparr>ao_ok = True, ao_target = t, ao_action = Some ''open-url'', ao_detail = None,
     ao_url = Some u, ao_error = None, ao_stale = False\<rparr>"

definition STALE :: string where "STALE = ''stale target: re-refresh''"

definition outcome_stale :: "string \<Rightarrow> bar_action \<Rightarrow> action_outcome" where
  "outcome_stale t a = \<lparr>ao_ok = False, ao_target = t, ao_action = Some (action_as_str a), ao_detail = None,
     ao_url = None, ao_error = Some STALE, ao_stale = True\<rparr>"

definition outcome_failed :: "string \<Rightarrow> string \<Rightarrow> string \<Rightarrow> action_outcome" where
  "outcome_failed t a e = \<lparr>ao_ok = False, ao_target = t, ao_action = Some a, ao_detail = None,
     ao_url = None, ao_error = Some e, ao_stale = False\<rparr>"

section \<open>Resolving ids\<close>

text \<open>A stack of items, the last one on top; the children of an item go on top of it.\<close>

function find_in_stack :: "barman_world \<Rightarrow> process_info list \<Rightarrow> string \<Rightarrow> runtime_item list \<Rightarrow> runtime_item option" where
  "find_in_stack w ps t [] = None"
| "find_in_stack w ps t (i # st) =
    (if item_id w ps i = t then Some i else find_in_stack w ps t (rev (ri_children i) @ st))"
  by pat_completeness auto
termination
proof (relation "measure (\<lambda>(w, ps, t, st). sum_list (map size st))")
  fix w :: barman_world and ps :: "process_info list" and t :: string and i :: runtime_item and st
  have "sum_list (map size (ri_children i)) < size i"
    by (cases i) (simp add: size_list_conv_sum_list)
  then show "((w, ps, t, rev (ri_children i) @ st), w, ps, t, i # st) \<in> measure (\<lambda>(w, ps, t, st). sum_list (map size st))"
    by (simp add: rev_map[symmetric])
qed simp

definition find_item_by_id :: "barman_world \<Rightarrow> runtime_snapshot \<Rightarrow> string \<Rightarrow> runtime_item option" where
  "find_item_by_id w snap t = find_in_stack w (sp_processes snap) t (rev (sp_items snap))"

definition find_docker :: "runtime_snapshot \<Rightarrow> string \<Rightarrow> docker_resource option" where
  "find_docker snap t = find (\<lambda>r. container_id (d_id r) = t) (ds_resources (sp_docker snap))"

section \<open>Performing an action\<close>

record host =
  ho_live :: live_starts
  ho_kill :: "pid \<Rightarrow> kill_result"
  ho_engine :: docker_engine

datatype bar_effect = BarSignal pid Actions.signal | BarDocker docker_call

type_synonym acted = "action_outcome \<times> bar_effect list"

definition signal_report :: "string \<Rightarrow> bar_action \<Rightarrow> kill_report \<Rightarrow> action_outcome" where
  "signal_report t a r =
    (if kr_signaled r > 0 \<and> kr_failed r = 0 then
       outcome_ok t a (''signaled '' @ show_nat (kr_signaled r) @ '' process(es)'')
     else if kr_signaled r > 0 then
       outcome_failed t (action_as_str a) (''partial: signaled '' @ show_nat (kr_signaled r) @ '', failed '' @ show_nat (kr_failed r))
     else if kr_failed r > 0 then
       outcome_failed t (action_as_str a) (''failed to signal '' @ show_nat (kr_failed r) @ '' process(es)'')
     else outcome_stale t a)"

text \<open>The walk over an item always returns, so the empty list never stands for a missing answer.\<close>

definition item_identities :: "runtime_snapshot \<Rightarrow> runtime_item \<Rightarrow> identity list" where
  "item_identities snap i = (case identities_for i (sp_processes snap) of Some ids \<Rightarrow> ids | None \<Rightarrow> [])"

definition send_all :: "host \<Rightarrow> identity list \<Rightarrow> Actions.signal \<Rightarrow> kill_report \<times> bar_effect list" where
  "send_all h ids sig =
    (let (r, sent) = send (ho_live h) (ho_kill h) ids in (r, map (\<lambda>k. BarSignal k sig) sent))"

definition NO_RESTART :: string where "NO_RESTART = ''restart not supported for this resource''"

definition DEMO_NOOP :: string where "DEMO_NOOP = ''demo: no-op''"

definition signal_item :: "barman_world \<Rightarrow> host \<Rightarrow> runtime_snapshot \<Rightarrow> bool \<Rightarrow> string \<Rightarrow> bar_action \<Rightarrow> Actions.signal
    \<Rightarrow> runtime_item \<Rightarrow> acted" where
  "signal_item w h snap demo t a sig i =
    (if demo then (outcome_ok t a DEMO_NOOP, [])
     else
       (let ids = item_identities snap i in
        if ids = [] then (outcome_stale t a, [])
        else (let (r, es) = send_all h ids sig in (signal_report t a r, es))))"

definition act_resource :: "barman_world \<Rightarrow> host \<Rightarrow> bool \<Rightarrow> runtime_snapshot \<Rightarrow> string \<Rightarrow> bar_action \<Rightarrow> acted" where
  "act_resource w h demo snap t a =
    (case find_item_by_id w snap t of
       None \<Rightarrow> (outcome_stale t a, [])
     | Some i \<Rightarrow>
         (case a of
            ActOpenUrl \<Rightarrow>
              (case ri_ports i of
                 p # _ \<Rightarrow> outcome_url t (port_url (bw_v6 w) p)
               | [] \<Rightarrow> outcome_failed t (action_as_str a) ''no url for this resource'', [])
          | ActStop \<Rightarrow> signal_item w h snap demo t a Term i
          | ActKill \<Rightarrow> signal_item w h snap demo t a Kill i
          | _ \<Rightarrow> (outcome_failed t (action_as_str a) NO_RESTART, [])))"

definition docker_outcome :: "host \<Rightarrow> string \<Rightarrow> bar_action \<Rightarrow> string \<Rightarrow> docker_call \<Rightarrow> acted" where
  "docker_outcome h t a det c =
    (let (err, cs) = docker_do (ho_engine h) c
     in (case err of None \<Rightarrow> outcome_ok t a det | Some e \<Rightarrow> outcome_failed t (action_as_str a) e, map BarDocker cs))"

definition act_docker :: "host \<Rightarrow> bool \<Rightarrow> runtime_snapshot \<Rightarrow> string \<Rightarrow> bar_action \<Rightarrow> acted" where
  "act_docker h demo snap t a =
    (case find_docker snap t of
       None \<Rightarrow> (outcome_stale t a, [])
     | Some r \<Rightarrow>
         if demo \<and> a \<noteq> ActOpenUrl then (outcome_ok t a DEMO_NOOP, [])
         else if a = ActKill then docker_outcome h t a (''removed '' @ d_name r) (remove_call r)
         else if d_kind r \<noteq> Container then (outcome_failed t (action_as_str a) NO_RESTART, [])
         else
           (case a of
              ActStop \<Rightarrow>
                if docker_running r then docker_outcome h t a ''stopped'' (stop_call r)
                else (outcome_failed t (action_as_str a) ''container is not running'', [])
            | ActStart \<Rightarrow> docker_outcome h t a ''started'' (StartContainer (d_id r))
            | ActRestart \<Rightarrow> docker_outcome h t a ''restarted'' (RestartContainer (d_id r))
            | _ \<Rightarrow>
                (case d_ports r of
                   p # _ \<Rightarrow> outcome_url t (''http://127.0.0.1:'' @ show_nat (unat p))
                 | [] \<Rightarrow> outcome_failed t (action_as_str a) ''no published ports on this container'', [])))"

text \<open>One member of a group after the other, each with the live system it finds.\<close>

definition member_identities :: "barman_world \<Rightarrow> runtime_snapshot \<Rightarrow> string \<Rightarrow> identity list" where
  "member_identities w snap t =
    (case find_item_by_id w snap t of Some i \<Rightarrow> item_identities snap i | None \<Rightarrow> [])"

definition group_step ::
  "barman_world \<Rightarrow> runtime_snapshot \<Rightarrow> Actions.signal \<Rightarrow> kill_report \<times> bar_effect list \<Rightarrow> host \<times> string
    \<Rightarrow> kill_report \<times> bar_effect list" where
  "group_step w snap sig acc m =
    (let (r, es) = acc; (h, t) = m;
         ids = member_identities w snap t
     in if ids = [] then (r\<lparr>kr_skipped := kr_skipped r + 1\<rparr>, es)
        else
          (let (r', es') = send_all h ids sig
           in (\<lparr>kr_signaled = kr_signaled r + kr_signaled r', kr_skipped = kr_skipped r + kr_skipped r',
                kr_failed = kr_failed r + kr_failed r'\<rparr>, es @ es')))"

definition group_members :: "barman_world \<Rightarrow> runtime_snapshot \<Rightarrow> string \<Rightarrow> string list" where
  "group_members w snap t =
    (case find (\<lambda>p. pd_id p = t) (sn_projects (build_snapshot w False snap)) of Some p \<Rightarrow> pd_resource_ids p | None \<Rightarrow> [])"

definition act_group ::
  "barman_world \<Rightarrow> (nat \<Rightarrow> host) \<Rightarrow> bool \<Rightarrow> runtime_snapshot \<Rightarrow> string \<Rightarrow> bar_action \<Rightarrow> acted" where
  "act_group w hs demo snap t a =
    (if a \<in> {ActStart, ActRestart, ActOpenUrl} then (outcome_failed t (action_as_str a) NO_RESTART, [])
     else
       (let ms = group_members w snap t in
        if ms = [] then (outcome_stale t a, [])
        else if demo then (outcome_ok t a DEMO_NOOP, [])
        else
          (let (r, es) = foldl (group_step w snap (if a = ActStop then Term else Kill)) (report_default, [])
                 (map (\<lambda>(k, m). (hs k, m)) (enumerate 0 ms))
           in (signal_report t a r, es))))"

definition act ::
  "barman_world \<Rightarrow> (nat \<Rightarrow> host) \<Rightarrow> bool \<Rightarrow> runtime_snapshot \<Rightarrow> string \<Rightarrow> bar_action \<Rightarrow> acted" where
  "act w hs demo snap t a =
    (if starts_with t ''container_'' then act_docker (hs 0) demo snap t a
     else if starts_with t ''resource_'' then act_resource w (hs 0) demo snap t a
     else if starts_with t ''project_'' \<or> starts_with t ''session_'' then act_group w hs demo snap t a
     else (outcome_stale t a, []))"

text \<open>The command line: the outcome printed, the exit code and what was done.\<close>

definition exit_code :: "action_outcome \<Rightarrow> nat" where
  "exit_code o' = (if ao_ok o' then 0 else if ao_stale o' then 2 else 1)"

definition run_action ::
  "barman_world \<Rightarrow> (nat \<Rightarrow> host) \<Rightarrow> bool \<Rightarrow> runtime_snapshot \<Rightarrow> string \<Rightarrow> string \<Rightarrow> action_outcome \<times> nat \<times> bar_effect list" where
  "run_action w hs demo snap t name =
    (case action_parse name of
       Some a \<Rightarrow> (let (res, es) = act w hs demo snap t a in (res, exit_code res, es))
     | None \<Rightarrow>
         (outcome_failed t name (''unknown action '' @ bw_debug w name @ '': want start|stop|restart|kill|open-url''), 1, []))"

section \<open>Executing a plan\<close>

record exec_state =
  xs_stopped :: "string list"
  xs_killed :: "string list"
  xs_failed :: "(string \<times> string) list"
  xs_bytes :: u64
  xs_effects :: "bar_effect list"

record execute_outcome =
  xo_ok :: bool
  xo_plan :: string
  xo_stopped :: "string list"
  xo_killed :: "string list"
  xo_failed :: "(string \<times> string) list"
  xo_bytes :: u64
  xo_error :: "string option"

definition exec_action :: "runtime_snapshot \<Rightarrow> string \<Rightarrow> bar_action option" where
  "exec_action snap t =
    (if starts_with t ''container_'' then
       (case find_docker snap t of
          Some r \<Rightarrow> Some (if d_kind r = Container \<and> docker_running r then ActStop else ActKill)
        | None \<Rightarrow> None)
     else Some ActStop)"

definition reclaim_of :: "snapshot_doc \<Rightarrow> string \<Rightarrow> u64" where
  "reclaim_of doc t =
    or_default 0 (map_of (rev (map (\<lambda>r. (bd_id r, bd_reclaim r)) (sn_resources doc)
      @ map (\<lambda>c. (cd_id c, cd_reclaim c)) (sn_containers doc))) t)"

definition exec_step ::
  "barman_world \<Rightarrow> bool \<Rightarrow> runtime_snapshot \<Rightarrow> exec_state \<Rightarrow> (nat \<Rightarrow> host) \<times> string \<Rightarrow> exec_state" where
  "exec_step w demo snap s m =
    (let (hs, t) = m in
     (case exec_action snap t of
        None \<Rightarrow> s\<lparr>xs_failed := xs_failed s @ [(t, STALE)]\<rparr>
      | Some a \<Rightarrow>
          (let (res, es) = act w hs demo snap t a; s1 = s\<lparr>xs_effects := xs_effects s @ es\<rparr>
           in if ao_ok res then
                (let s2 = s1\<lparr>xs_bytes := xs_bytes s + reclaim_of (build_snapshot w demo snap) t\<rparr>
                 in if a = ActKill then s2\<lparr>xs_killed := xs_killed s @ [t]\<rparr> else s2\<lparr>xs_stopped := xs_stopped s @ [t]\<rparr>)
              else s1\<lparr>xs_failed := xs_failed s @ [(t, or_default ''failed'' (ao_error res))]\<rparr>)))"

definition exec_start :: exec_state where
  "exec_start = \<lparr>xs_stopped = [], xs_killed = [], xs_failed = [], xs_bytes = 0, xs_effects = []\<rparr>"

definition execute ::
  "barman_world \<Rightarrow> (nat \<Rightarrow> nat \<Rightarrow> host) \<Rightarrow> bool \<Rightarrow> runtime_snapshot \<Rightarrow> string \<Rightarrow> string list option \<Rightarrow> plan_dir
    \<Rightarrow> execute_outcome \<times> bar_effect list \<times> plan_dir" where
  "execute w hs demo snap i only d =
    (let (got, d') = take_plan (bw_now w) i d in
     (case got of
        None \<Rightarrow> (\<lparr>xo_ok = False, xo_plan = i, xo_stopped = [], xo_killed = [], xo_failed = [], xo_bytes = 0,
                  xo_error = Some ''unknown or expired plan''\<rparr>, [], d')
      | Some ids \<Rightarrow>
          (let wanted = (case only of Some f \<Rightarrow> filter (\<lambda>t. t \<in> set f) ids | None \<Rightarrow> ids);
               s = foldl (exec_step w demo snap) exec_start (map (\<lambda>(k, t). (hs k, t)) (enumerate 0 wanted))
           in (\<lparr>xo_ok = (xs_failed s = []), xo_plan = i, xo_stopped = sort (xs_stopped s), xo_killed = sort (xs_killed s),
                xo_failed = xs_failed s, xo_bytes = xs_bytes s, xo_error = None\<rparr>, xs_effects s, d'))))"

text \<open>The ids named on the command line.\<close>

definition only_ids :: "string \<Rightarrow> string list" where
  "only_ids s = filter (\<lambda>t. t \<noteq> []) (map trim (split_on (CHR '','') s))"

end
