(* ===== verification/Barman_Props.thy ===== *)
theory Barman_Props
  imports Barman_Plans
begin

text \<open>
  What the menu-bar interface promises: a plan proposes exactly the rows that are left over and protects
  exactly the persistent ones, it is good for one execution within its time, executing it does nothing to a
  row that was not proposed, and the outcome of an action tells what was done.
\<close>

section \<open>Rows\<close>

lemma all_items_set: "set (all_items (xs @ ys)) = set (all_items xs) \<union> set (all_items ys)"
  "set (all_items (rev xs)) = set (all_items xs)"
  "set (all_items (i # xs)) = insert i (set (all_items (ri_children i)) \<union> set (all_items xs))"
  by (auto simp: all_items_def) (cases i, auto simp: all_items_def)+

lemma find_in_stack_sound:
  "find_in_stack w ps t st = Some i \<Longrightarrow> item_id w ps i = t \<and> i \<in> set (all_items st)"
  by (induction w ps t st rule: find_in_stack.induct) (auto simp: all_items_set split: if_splits)

lemma find_in_stack_complete:
  "i \<in> set (all_items st) \<Longrightarrow> item_id w ps i = t \<Longrightarrow> find_in_stack w ps t st \<noteq> None"
  by (induction w ps t st rule: find_in_stack.induct) (auto simp: all_items_set all_items_def[of "[]"])

lemma found_item:
  "find_item_by_id w snap t = Some i \<Longrightarrow> item_id w (sp_processes snap) i = t \<and> i \<in> set (all_items (sp_items snap))"
  using find_in_stack_sound by (fastforce simp: find_item_by_id_def all_items_set)

lemma found_docker:
  "find_docker snap t = Some r \<Longrightarrow> r \<in> set (ds_resources (sp_docker snap)) \<and> container_id (d_id r) = t"
  by (auto simp: find_docker_def find_Some_iff)

lemma row_classes [simp]:
  "bd_class (process_resource w ps i) = classification (ri_state i)" "bd_id (process_resource w ps i) = item_id w ps i"
  "bd_id (docker_artifact_resource r) = container_id (d_id r)"
  "bd_class (docker_artifact_resource r)
    = (if d_persistent r then ''persistent'' else if docker_leftover r then ''leftover'' else ''active'')"
  by (simp_all add: process_resource_def docker_artifact_resource_def Let_def)

lemma classification_simps [simp]:
  "classification s = ''leftover'' \<longleftrightarrow> s = Suspicious" "classification s = ''persistent'' \<longleftrightarrow> s = Persistent"
  by (cases s; simp add: classification_def)+

lemma set_rows: "set (resource_rows w snap) =
    process_resource w (sp_processes snap) ` set (all_items (sp_items snap))
    \<union> docker_artifact_resource ` {r \<in> set (ds_resources (sp_docker snap)). d_kind r \<noteq> Container}"
  by (auto simp: resource_rows_def)

text \<open>The ids of the rows left over: of the suspicious items and of the Docker resources that can go.\<close>

definition leftover_ids :: "barman_world \<Rightarrow> runtime_snapshot \<Rightarrow> string set" where
  "leftover_ids w snap =
    item_id w (sp_processes snap) ` {i \<in> set (all_items (sp_items snap)). ri_state i = Suspicious}
    \<union> (container_id \<circ> d_id) ` {r \<in> set (ds_resources (sp_docker snap)).
          d_kind r \<noteq> Container \<and> \<not> d_persistent r \<and> docker_leftover r}"

definition persistent_ids :: "barman_world \<Rightarrow> runtime_snapshot \<Rightarrow> string set" where
  "persistent_ids w snap =
    item_id w (sp_processes snap) ` {i \<in> set (all_items (sp_items snap)). ri_state i = Persistent}
    \<union> (container_id \<circ> d_id) ` {r \<in> set (ds_resources (sp_docker snap)). d_kind r \<noteq> Container \<and> d_persistent r}"

lemma two_images:
  "{r \<in> f ` X \<union> g ` Y. P r} = f ` {x \<in> X. P (f x)} \<union> g ` {y \<in> Y. P (g y)}"
  by auto

lemma map_sort_by: "map f (sort_key f xs) = sort (map f xs)"
  by (rule properties_for_sort[symmetric]) (simp_all add: mset_map)

lemma rows_of_class:
  "bd_id ` {r \<in> set (resource_rows w snap). bd_class r = ''leftover''} = leftover_ids w snap"
  "bd_id ` {r \<in> set (resource_rows w snap). bd_class r = ''persistent''} = persistent_ids w snap"
  unfolding set_rows leftover_ids_def persistent_ids_def two_images
  by (simp_all add: image_Un image_image conj_ac cong: conj_cong)

lemma doc_fields [simp]:
  "sn_resources (build_snapshot w demo snap) = resource_rows w snap"
  "set (sn_leftover_ids (build_snapshot w demo snap)) = leftover_ids w snap"
  "sn_leftover_ids (build_snapshot w demo snap) = map bd_id (filter (\<lambda>r. bd_class r = ''leftover'') (resource_rows w snap))"
  using rows_of_class(1)[of w snap] by (auto simp: build_snapshot_def Let_def)

lemma prefixes:
  "starts_with (item_id w ps i) ''resource_''" "\<not> starts_with (item_id w ps i) ''container_''"
  "starts_with (container_id x) ''container_''"
  by (simp_all add: item_id_def resource_id_def container_id_def starts_with_def)

lemma leftover_prefix:
  "t \<in> leftover_ids w snap \<Longrightarrow> starts_with t ''resource_'' \<or> starts_with t ''container_''"
  using prefixes by (fastforce simp: leftover_ids_def)

section \<open>Plans\<close>

lemma volumes_already_protected:
  "bd_id ` set vs \<subseteq> pt_id ` set ps \<Longrightarrow> foldl add_volume ps vs = ps"
  by (induction vs) (auto simp: add_volume_def)

lemma protected_ids:
  "map pt_id (cp_protected (cleanup_plan n doc))
    = sort (map bd_id (filter (\<lambda>r. bd_class r = ''persistent'') (sn_resources doc)))"
proof -
  let ?ps = "map protected_of (filter (\<lambda>r. bd_class r = ''persistent'') (sn_resources doc))"
  have ids: "map pt_id ?ps = map bd_id (filter (\<lambda>r. bd_class r = ''persistent'') (sn_resources doc))"
    by (simp add: protected_of_def)
  have "bd_id ` set (named_volumes (sn_resources doc)) \<subseteq> pt_id ` set ?ps"
    by (auto simp: named_volumes_def protected_of_def image_image)
  then have "cp_protected (cleanup_plan n doc) = sort_key pt_id ?ps"
    by (simp add: cleanup_plan_def Let_def volumes_already_protected)
  then show ?thesis by (simp only: map_sort_by ids)
qed

lemma item_ids:
  "map ci_id (cp_items (cleanup_plan n doc)) = sort (sn_leftover_ids doc)"
  by (simp add: cleanup_plan_def Let_def map_sort_by o_def)

lemma plan_cp_id: "cp_id (cleanup_plan n doc) = n" by (simp add: cleanup_plan_def Let_def)

lemma plan_set: "set (map ci_id (cp_items (cleanup_plan n (build_snapshot w demo snap)))) = leftover_ids w snap"
  unfolding item_ids by (simp del: doc_fields(3))

lemma sum_sorted: "sum_list (map f (filter P (sort_key k xs))) = (sum_list (map f (filter P xs)) :: u64)"
proof -
  have "mset (map f (filter P (sort_key k xs))) = mset (map f (filter P xs))" by (simp add: mset_map mset_filter)
  then show ?thesis by (metis sum_mset_sum_list)
qed

lemma row_reclaim [simp]:
  "bd_reclaim (process_resource w ps i) = (if ri_state i = Suspicious then ri_memory i else 0)"
  "bd_reclaim (docker_artifact_resource r) = (if docker_leftover r then d_size r else 0)"
  by (simp_all add: process_resource_def docker_artifact_resource_def Let_def)

lemma plan_reclaim:
  "sn_reclaim (build_snapshot w demo snap) =
    sum_list (map ri_memory (filter (\<lambda>i. ri_state i = Suspicious) (all_items (sp_items snap))))
    + sum_list (map d_size (filter (\<lambda>r. d_kind r \<noteq> Container \<and> \<not> d_persistent r \<and> docker_leftover r)
        (ds_resources (sp_docker snap))))"
proof -
  have a: "sum_list (map (\<lambda>i. if P i then f i else 0) (filter P xs)) = (sum_list (map f (filter P xs)) :: u64)"
    for P :: "runtime_item \<Rightarrow> bool" and f xs by (induction xs) auto
  have b: "(\<Sum>x\<leftarrow>filter (\<lambda>x. d_kind x \<noteq> Container \<and> bd_class (docker_artifact_resource x) = ''leftover'') rs.
        if docker_leftover x then d_size x else 0)
      = sum_list (map d_size (filter (\<lambda>r. d_kind r \<noteq> Container \<and> \<not> d_persistent r \<and> docker_leftover r) rs))" for rs
    by (induction rs) auto
  show ?thesis
    by (simp add: build_snapshot_def Let_def resource_rows_def sum_sorted filter_map o_def a del: row_classes(4))
      (simp only: b)
qed

lemma assembled_left:
  "sp_docker snap = assemble cs imgs vols usage \<Longrightarrow> r \<in> set (ds_resources (sp_docker snap)) \<Longrightarrow>
    (d_kind r \<noteq> Container \<and> \<not> d_persistent r \<and> docker_leftover r \<longleftrightarrow> d_kind r = DanglingImage \<or> d_kind r = BuildCache)
    \<and> (d_kind r \<noteq> Container \<and> d_persistent r \<longleftrightarrow> d_kind r = Volume)"
  using assembled_persistent[of r cs imgs vols usage] assembled_prunable[of r cs imgs vols usage]
  by (auto simp: docker_leftover_def)


section \<open>Files of plans\<close>

lemma hexdigit_char: "n < 16 \<Longrightarrow> is_hexdigit (hex_char n)"
  by (auto simp: is_hexdigit_def hex_char_def Let_def)

lemma hexdigits: "list_all is_hexdigit (hex_digits k n)"
  by (induction k arbitrary: n) (simp_all add: hexdigit_char)

lemma new_plan_id_ok: "plan_id_ok (new_plan_id now rand)"
proof -
  have "list_all is_hexdigit (concat (map (\<lambda>b. hex_digits 2 (unat b)) bs))" for bs :: "u8 list"
    by (induction bs) (simp_all add: hexdigits)
  then show ?thesis by (simp add: plan_id_ok_def new_plan_id_def split: option.splits)
qed

text \<open>A plan that was stored is returned by its id, with the ids in order, until its time is up, and only once:
  whatever the first attempt answered, the file is gone.  Storing a plan keeps the other plans whose time
  is not up.\<close>

theorem plan_read_once:
  assumes "i = new_plan_id t rand" "cp_id p = i"
    and "d' = remember_plan now True Written p d"
  shows "take_plan later i d' =
      (if sat_sub later now < PLAN_TTL_SECS then Some (map ci_id (cp_items p)) else None, d'(plan_name i := None))
    \<and> take_plan again i (snd (take_plan later i d')) = (None, d'(plan_name i := None))
    \<and> (\<forall>n f. n \<noteq> plan_name i \<longrightarrow> (d' n = Some f \<longleftrightarrow> d n = Some f \<and> \<not> expired now f))"
  using new_plan_id_ok[of t rand] assms
  by (auto simp: take_plan_def remember_plan_def Let_def split: option.splits if_splits)

text \<open>The directory of plans over time, with the plans issued so far: when, under which id and from which
  snapshot.  A write that fails leaves nothing or something unreadable.\<close>

inductive plan_hist :: "(u64 \<times> string \<times> barman_world \<times> runtime_snapshot) list \<Rightarrow> plan_dir \<Rightarrow> bool" where
  hist_none: "plan_hist [] (\<lambda>n. None)"
| hist_issue: "plan_hist h d \<Longrightarrow> wr \<in> {Written, LeftBehind None, LeftBehind (Some Garbage)} \<Longrightarrow>
    plan_hist ((now, i, w, snap) # h)
      (remember_plan now ok wr (cleanup_plan i (build_snapshot w demo snap)) d)"
| hist_take: "plan_hist h d \<Longrightarrow> plan_hist h (snd (take_plan now i d))"

lemma taken_sub: "snd (take_plan now i d) n = Some f \<Longrightarrow> d n = Some f"
  by (auto simp: take_plan_def split: if_splits option.splits)

lemma plan_origin:
  "plan_hist h d \<Longrightarrow> d (plan_name i) = Some (PlanFile t ids) \<Longrightarrow>
    \<exists>w snap. (t, i, w, snap) \<in> set h \<and> set ids = leftover_ids w snap"
proof (induction arbitrary: i t ids rule: plan_hist.induct)
  case (hist_issue h d wr now j w snap ok demo)
  show ?case
  proof (cases "ok \<and> i = j")
    case True
    then have "ids = map ci_id (cp_items (cleanup_plan i (build_snapshot w demo snap)))" "t = now"
      using hist_issue.hyps(2) hist_issue.prems
      by (auto simp: remember_plan_def plan_cp_id split: write_result.splits)
    then show ?thesis using True plan_set by (metis list.set_intros(1))
  next
    case False
    then have "d (plan_name i) = Some (PlanFile t ids)" using hist_issue.prems
      by (auto simp: remember_plan_def plan_name_def plan_cp_id split: if_splits option.splits)
    then show ?thesis using hist_issue.IH by fastforce
  qed
next
  case (hist_take h d now j)
  then show ?case using taken_sub by blast
qed simp

section \<open>What an action does\<close>

lemma send_all_effects:
  "send_all h ids sig = (r, es) \<Longrightarrow>
    es = map (\<lambda>k. BarSignal (id_pid k) sig) (filter (identity_live (ho_live h)) ids)"
  using send_sent[of "ho_live h" "ho_kill h" ids]
  by (cases "send (ho_live h) (ho_kill h) ids") (auto simp: send_all_def)

lemma act_resource_effects:
  assumes "act_resource w h demo snap t a = (res, es)" "e \<in> set es"
  obtains i k where "\<not> demo" "find_item_by_id w snap t = Some i" "k \<in> set (item_identities snap i)"
    "identity_live (ho_live h) k" "a = ActStop \<or> a = ActKill"
    "e = BarSignal (id_pid k) (if a = ActStop then Term else Kill)"
  using assms
  by (auto simp: act_resource_def signal_item_def Let_def dest!: send_all_effects
      split: option.splits bar_action.splits if_splits list.splits prod.splits)

lemma docker_outcome_effects:
  "docker_outcome h t a det c = (res, es) \<Longrightarrow> set es \<subseteq> {BarDocker c}"
  by (auto simp: docker_outcome_def docker_do_def split: option.splits)

lemma act_docker_effects:
  assumes "act_docker h demo snap t a = (res, es)" "e \<in> set es"
  obtains r where "\<not> demo" "find_docker snap t = Some r"
    "a = ActKill \<and> e = BarDocker (remove_call r)
     \<or> d_kind r = Container \<and> (a = ActStop \<and> docker_running r \<and> e = BarDocker (stop_call r)
         \<or> a = ActStart \<and> e = BarDocker (StartContainer (d_id r)) \<or> a = ActRestart \<and> e = BarDocker (RestartContainer (d_id r)))"
  using assms
  by (auto simp: act_docker_def dest!: docker_outcome_effects
      split: option.splits bar_action.splits if_splits list.splits)

text \<open>What executing one id may do.\<close>

definition allowed_effect :: "barman_world \<Rightarrow> runtime_snapshot \<Rightarrow> (nat \<Rightarrow> nat \<Rightarrow> host) \<Rightarrow> string \<Rightarrow> bar_effect \<Rightarrow> bool" where
  "allowed_effect w snap hs t e \<longleftrightarrow>
    (\<exists>i\<in>set (all_items (sp_items snap)). item_id w (sp_processes snap) i = t
       \<and> (\<exists>n. \<exists>k\<in>set (item_identities snap i). identity_live (ho_live (hs n 0)) k \<and> e = BarSignal (id_pid k) Term))
    \<or> (\<exists>r\<in>set (ds_resources (sp_docker snap)). container_id (d_id r) = t
       \<and> e = BarDocker (if d_kind r = Container \<and> docker_running r then stop_call r else remove_call r))"

lemma exec_step_effects:
  assumes "e \<in> set (xs_effects (exec_step w demo snap s (hs n, t)))" "starts_with t ''resource_'' \<or> starts_with t ''container_''"
  shows "e \<in> set (xs_effects s) \<or> \<not> demo \<and> allowed_effect w snap hs t e"
proof (cases "exec_action snap t")
  case None
  then show ?thesis using assms(1) by (simp add: exec_step_def)
next
  case (Some a)
  obtain res es where act: "act w (hs n) demo snap t a = (res, es)" by fastforce
  then have "xs_effects (exec_step w demo snap s (hs n, t)) = xs_effects s @ es"
    by (simp add: exec_step_def Some Let_def)
  moreover have "\<not> demo \<and> allowed_effect w snap hs t e" if e: "e \<in> set es"
  proof (cases "starts_with t ''container_''")
    case True
    then have "act_docker (hs n 0) demo snap t a = (res, es)" using act by (simp add: act_def)
    then obtain r where r: "\<not> demo" "find_docker snap t = Some r" and
      "a = ActKill \<and> e = BarDocker (remove_call r)
        \<or> d_kind r = Container \<and> (a = ActStop \<and> docker_running r \<and> e = BarDocker (stop_call r) \<or> a = ActStart \<or> a = ActRestart)"
      using e by (elim act_docker_effects) auto
    then have "e = BarDocker (if d_kind r = Container \<and> docker_running r then stop_call r else remove_call r)"
      using Some True by (auto simp: exec_action_def split: if_splits)
    then show ?thesis using r found_docker[OF r(2)] by (auto simp: allowed_effect_def)
  next
    case False
    then have "act_resource w (hs n 0) demo snap t a = (res, es)" "a = ActStop"
      using act Some assms(2) by (auto simp: act_def exec_action_def)
    then show ?thesis using e found_item
      by (elim act_resource_effects) (fastforce simp: allowed_effect_def)+
  qed
  ultimately show ?thesis using assms(1) by auto
qed

lemma exec_loop_effects:
  "e \<in> set (xs_effects (foldl (exec_step w demo snap) s (map (\<lambda>(k, t). (hs k, t)) ts))) \<Longrightarrow>
    \<forall>t\<in>snd ` set ts. starts_with t ''resource_'' \<or> starts_with t ''container_'' \<Longrightarrow>
    e \<in> set (xs_effects s) \<or> \<not> demo \<and> (\<exists>t\<in>snd ` set ts. allowed_effect w snap hs t e)"
proof (induction ts arbitrary: s)
  case (Cons m ts)
  obtain k t where m: "m = (k, t)" by (cases m)
  from Cons.IH[of "exec_step w demo snap s (hs k, t)"] Cons.prems
  have "e \<in> set (xs_effects (exec_step w demo snap s (hs k, t))) \<or> \<not> demo \<and> (\<exists>t\<in>snd ` set ts. allowed_effect w snap hs t e)"
    by (simp add: m)
  then show ?case using exec_step_effects[of e w demo snap s hs k t] Cons.prems(2) by (auto simp: m)
qed simp

text \<open>C34: Executing a plan does something only to a row that the plan, made less than the time to live ago,
  found left over, and that the caller selected: it sends SIGTERM to processes of the item with that id
  whose identity still holds, stops the running container or removes the Docker resource with that id.
  The demo does nothing.\<close>

theorem execute_within_plan:
  assumes "plan_hist h d" "execute w hs demo snap i only d = (res, es, d')" "e \<in> set es"
  shows "\<not> demo \<and> d' (plan_name i) = None
    \<and> (\<exists>t w0 snap0. (t, i, w0, snap0) \<in> set h \<and> sat_sub (bw_now w) t < PLAN_TTL_SECS
        \<and> (\<exists>j\<in>leftover_ids w0 snap0 \<inter> (case only of None \<Rightarrow> UNIV | Some f \<Rightarrow> set f). allowed_effect w snap hs j e))"
proof -
  obtain got where took: "take_plan (bw_now w) i d = (got, d')"
    using assms(2) by (cases "take_plan (bw_now w) i d") (auto simp: execute_def Let_def split: option.splits)
  then obtain ids where got: "got = Some ids"
    using assms(2,3) by (cases got) (auto simp: execute_def)
  then obtain t where stored: "d (plan_name i) = Some (PlanFile t ids)" "sat_sub (bw_now w) t < PLAN_TTL_SECS" "d' (plan_name i) = None"
    using took by (auto simp: take_plan_def split: if_splits option.splits plan_file.splits)
  then obtain w0 snap0 where origin: "(t, i, w0, snap0) \<in> set h" "set ids = leftover_ids w0 snap0"
    using plan_origin[OF assms(1)] by blast
  define wanted where "wanted = (case only of Some f \<Rightarrow> filter (\<lambda>t. t \<in> set f) ids | None \<Rightarrow> ids)"
  have es: "es = xs_effects (foldl (exec_step w demo snap) exec_start (map (\<lambda>(k, t). (hs k, t)) (enumerate 0 wanted)))"
    using assms(2) took by (simp add: execute_def got wanted_def Let_def)
  have w: "snd ` set (enumerate 0 wanted) = set wanted" by (metis list.set_map map_snd_enumerate)
  have sub: "set wanted = leftover_ids w0 snap0 \<inter> (case only of None \<Rightarrow> UNIV | Some f \<Rightarrow> set f)"
    by (auto simp: wanted_def origin(2)[symmetric] split: option.splits)
  then have "\<forall>t\<in>snd ` set (enumerate 0 wanted). starts_with t ''resource_'' \<or> starts_with t ''container_''"
    unfolding w using leftover_prefix by blast
  from exec_loop_effects[OF assms(3)[unfolded es] this]
  have "\<not> demo \<and> (\<exists>j\<in>set wanted. allowed_effect w snap hs j e)" unfolding w by (simp add: exec_start_def)
  then show ?thesis using stored origin(1) unfolding sub by blast
qed

section \<open>Outcomes\<close>

lemma send_loop_report:
  "kr_signaled (fst (send_loop sys kill is (r, sent))) =
    kr_signaled r + length (filter (\<lambda>i. kill (id_pid i) = Delivered) (filter (identity_live sys) is))"
  by (induction sys kill "is" "(r, sent)" arbitrary: r sent rule: send_loop.induct)
    (auto split: kill_result.splits)

text \<open>Whether a signal was delivered, or the engine did as it was asked.\<close>

definition done_at :: "host \<Rightarrow> bar_effect \<Rightarrow> bool" where
  "done_at h e \<longleftrightarrow>
    (case e of BarSignal k sig \<Rightarrow> ho_kill h k = Delivered | BarDocker c \<Rightarrow> de_result (ho_engine h) c = None)"

lemma send_all_report:
  assumes "send_all h ids sig = (r, es)"
  shows "kr_signaled r = length (filter (done_at h) es)"
proof -
  have "fst (send (ho_live h) (ho_kill h) ids) = r"
    using assms by (cases "send (ho_live h) (ho_kill h) ids") (simp add: send_all_def)
  then have "kr_signaled r = length (filter (\<lambda>i. ho_kill h (id_pid i) = Delivered) (filter (identity_live (ho_live h)) ids))"
    using send_loop_report[of "ho_live h" "ho_kill h" ids report_default "[]"]
    by (auto simp: send_def report_default_def split: if_splits)
  then show ?thesis by (simp add: send_all_effects[OF assms] filter_map done_at_def o_def)
qed

text \<open>An outcome tells the truth: success means that something was done, a stale target that nothing was,
  and an error is reported exactly when there is no success.\<close>

definition honest :: "(nat \<Rightarrow> host) \<Rightarrow> bar_action \<Rightarrow> action_outcome \<Rightarrow> bar_effect list \<Rightarrow> bool" where
  "honest hs a res es \<longleftrightarrow>
    (ao_ok res \<longleftrightarrow> ao_error res = None) \<and> (ao_stale res \<longrightarrow> ao_error res = Some STALE)
    \<and> (ao_ok res \<longrightarrow> a = ActOpenUrl \<or> (\<exists>e\<in>set es. \<exists>n. done_at (hs n) e))
    \<and> (ao_stale res \<longrightarrow> (\<forall>e\<in>set es. \<exists>n. \<not> done_at (hs n) e))"

lemmas outcome_defs = outcome_ok_def outcome_url_def outcome_stale_def outcome_failed_def

lemma honest_plain:
  "honest hs a (outcome_stale t a) []" "honest hs a (outcome_failed t b x) es" "honest hs ActOpenUrl (outcome_url t u) []"
  by (auto simp: honest_def outcome_defs)

lemma honest_signals:
  assumes "kr_signaled r > 0 \<longrightarrow> (\<exists>e\<in>set es. \<exists>n. done_at (hs n) e)"
    and "kr_signaled r = 0 \<longrightarrow> (\<forall>e\<in>set es. \<exists>n. \<not> done_at (hs n) e)"
  shows "honest hs a (signal_report t a r) es"
  using assms by (auto simp: signal_report_def honest_def outcome_defs)

lemma honest_sent: "send_all (hs n) ids sig = (r, es) \<Longrightarrow> honest hs a (signal_report t a r) es"
  by (rule honest_signals) (auto simp: send_all_report filter_empty_conv)

lemma act_resource_honest: "act_resource w (hs n) False snap t a = (res, es) \<Longrightarrow> honest hs a res es"
  by (auto simp: act_resource_def signal_item_def Let_def honest_plain honest_sent
      split: option.splits bar_action.splits list.splits if_splits prod.splits)

lemma docker_honest: "docker_outcome (hs n) t a det c = (res, es) \<Longrightarrow> honest hs a res es"
proof -
  assume o: "docker_outcome (hs n) t a det c = (res, es)"
  then have "ao_ok res \<Longrightarrow> done_at (hs n) (BarDocker c) \<and> BarDocker c \<in> set es"
    by (auto simp: docker_outcome_def docker_do_def outcome_defs done_at_def split: option.splits)
  moreover have "(ao_ok res \<longleftrightarrow> ao_error res = None) \<and> \<not> ao_stale res"
    using o by (auto simp: docker_outcome_def docker_do_def outcome_defs split: option.splits)
  ultimately show ?thesis by (auto simp: honest_def)
qed

lemma act_docker_honest: "act_docker (hs n) False snap t a = (res, es) \<Longrightarrow> honest hs a res es"
  by (auto simp: act_docker_def honest_plain dest: docker_honest
      split: option.splits bar_action.splits list.splits if_splits)

lemma group_loop_done:
  assumes "foldl (group_step w snap sig) (r0, es0) (map (\<lambda>(k, m). (hs k, m)) ms) = (r, es)"
    and "kr_signaled r0 > 0 \<longrightarrow> (\<exists>e\<in>set es0. \<exists>n. done_at (hs n) e)"
    and "kr_signaled r0 = 0 \<longrightarrow> (\<forall>e\<in>set es0. \<exists>n. \<not> done_at (hs n) e)"
  shows "(kr_signaled r > 0 \<longrightarrow> (\<exists>e\<in>set es. \<exists>n. done_at (hs n) e))
    \<and> (kr_signaled r = 0 \<longrightarrow> (\<forall>e\<in>set es. \<exists>n. \<not> done_at (hs n) e))"
  using assms
proof (induction ms arbitrary: r0 es0)
  case (Cons m ms)
  obtain k t where m: "m = (k, t)" by (cases m)
  let ?ids = "member_identities w snap t"
  obtain r' es' where sent: "send_all (hs k) ?ids sig = (r', es')" by fastforce
  have has: "kr_signaled r' > 0 \<Longrightarrow> \<exists>e\<in>set es'. \<exists>n. done_at (hs n) e"
    using send_all_report[OF sent] by (auto simp: filter_empty_conv)
  have none: "kr_signaled r' = 0 \<Longrightarrow> \<forall>e\<in>set es'. \<exists>n. \<not> done_at (hs n) e"
    using send_all_report[OF sent] by (auto simp: filter_empty_conv)
  show ?case
  proof (cases "?ids = []")
    case True
    then have "group_step w snap sig (r0, es0) (hs k, t) = (r0\<lparr>kr_skipped := kr_skipped r0 + 1\<rparr>, es0)"
      by (simp add: group_step_def)
    then have "foldl (group_step w snap sig) (r0\<lparr>kr_skipped := kr_skipped r0 + 1\<rparr>, es0)
        (map (\<lambda>(k, m). (hs k, m)) ms) = (r, es)"
      using Cons.prems(1) by (simp only: m list.map foldl_Cons prod.case)
    then show ?thesis by (rule Cons.IH) (use Cons.prems(2,3) in simp_all)
  next
    case False
    let ?r1 = "\<lparr>kr_signaled = kr_signaled r0 + kr_signaled r', kr_skipped = kr_skipped r0 + kr_skipped r',
      kr_failed = kr_failed r0 + kr_failed r'\<rparr>"
    have "group_step w snap sig (r0, es0) (hs k, t) = (?r1, es0 @ es')"
      using False sent by (simp add: group_step_def Let_def)
    then have "foldl (group_step w snap sig) (?r1, es0 @ es') (map (\<lambda>(k, m). (hs k, m)) ms) = (r, es)"
      using Cons.prems(1) by (simp only: m list.map foldl_Cons prod.case)
    moreover have "kr_signaled ?r1 > 0 \<longrightarrow> (\<exists>e\<in>set (es0 @ es'). \<exists>n. done_at (hs n) e)"
      using Cons.prems(2) has by auto
    moreover have "kr_signaled ?r1 = 0 \<longrightarrow> (\<forall>e\<in>set (es0 @ es'). \<exists>n. \<not> done_at (hs n) e)"
      using Cons.prems(3) none by auto
    ultimately show ?thesis by (rule Cons.IH)
  qed
qed simp

lemma act_group_honest: "act_group w hs False snap t a = (res, es) \<Longrightarrow> honest hs a res es"
proof -
  assume "act_group w hs False snap t a = (res, es)"
  moreover have "honest hs a (signal_report t a r) es"
    if "foldl (group_step w snap sig) (report_default, []) (map (\<lambda>(k, m). (hs k, m)) ms) = (r, es)" for sig ms r es
    by (rule honest_signals) (use group_loop_done[OF that] in \<open>auto simp: report_default_def\<close>)
  ultimately show ?thesis
    by (auto simp: act_group_def Let_def honest_plain split: if_splits prod.splits)
qed

lemma demo_plain:
  "act w hs True snap t a = (res, es) \<Longrightarrow>
    es = [] \<and> (ao_ok res \<longleftrightarrow> ao_error res = None) \<and> (ao_stale res \<longrightarrow> ao_error res = Some STALE)"
  by (auto simp: outcome_defs act_def act_docker_def act_resource_def act_group_def signal_item_def Let_def
      split: if_splits option.splits bar_action.splits list.splits)


section \<open>Concrete inputs\<close>

definition bar_zero :: barman_world where
  "bar_zero = \<lparr>bw_hex = (\<lambda>s. s), bw_lower = (\<lambda>s. s), bw_now = 1000, bw_http = (\<lambda>p. False), bw_v6 = (\<lambda>g. []),
     bw_debug = (\<lambda>s. s)\<rparr>"

definition old_image :: image_summary where
  "old_image = \<lparr>im_tags = [], im_id = ''sha256:ab'', im_size = 7, im_created = 0\<rparr>"

definition data_volume :: volume where
  "data_volume = \<lparr>vo_name = ''data'', vo_labels = (\<lambda>l. None), vo_usage = None, vo_created = None\<rparr>"

definition bar_snap :: runtime_snapshot where
  "bar_snap = \<lparr>sp_items = [], sp_processes = [], sp_docker = assemble [] [old_image] (Some [data_volume]) None,
     sp_total_memory = 0, sp_used_memory = 0, sp_sessions = [], sp_version = 1\<rparr>"

definition quiet_host :: host where
  "quiet_host = \<lparr>ho_live = (\<lambda>k. None), ho_kill = (\<lambda>k. NoSuchProcess),
     ho_engine = \<lparr>de_connect = None, de_result = (\<lambda>c. None)\<rparr>\<rparr>"

lemma bar_docker: "ds_resources (sp_docker bar_snap) = [dangling_row old_image, volume_row data_volume False]"
  by (simp add: bar_snap_def assemble_def docker_rows_def old_image_def data_volume_def dangling_def attached_volumes_def
      Let_def dangling_row_def volume_row_def docker_running_def or_default_def)

lemma bar_items: "sp_items bar_snap = []" "all_items [] = []" by (simp_all add: bar_snap_def all_items_def)

lemma bar_ids: "container_id (d_id (dangling_row old_image)) = ''container_sha256:ab''"
  "container_id (d_id (volume_row data_volume False)) = ''container_data''"
  by (simp_all add: container_id_def dangling_row_def old_image_def volume_row_def data_volume_def)

lemma bar_kinds: "d_kind (dangling_row old_image) = DanglingImage" "d_kind (volume_row data_volume False) = Volume"
  by (simp_all add: dangling_row_def volume_row_def)


text \<open>A plan taken 299 seconds after it was made is there, one second later it is not.\<close>

definition some_plan :: cleanup_doc where
  "some_plan = \<lparr>cp_id = new_plan_id 1000 (Some [0, 255, 1, 2, 3, 4]),
     cp_items = [\<lparr>ci_id = ''container_x'', ci_selected = True, ci_safe = True, ci_reason = []\<rparr>], cp_protected = [], cp_reclaim = 0\<rparr>"

theorem plan_read_once_witness:
  "fst (take_plan 1299 (cp_id some_plan) (remember_plan 1000 True Written some_plan (\<lambda>n. None))) = Some [''container_x'']
    \<and> fst (take_plan 1300 (cp_id some_plan) (remember_plan 1000 True Written some_plan (\<lambda>n. None))) = None"
proof -
  have i: "cp_id some_plan = new_plan_id 1000 (Some [0, 255, 1, 2, 3, 4])" by (simp add: some_plan_def)
  note once = plan_read_once[OF i refl refl]
  have "map ci_id (cp_items some_plan) = [''container_x'']" by (simp add: some_plan_def)
  moreover have "sat_sub (1299 :: u64) 1000 < PLAN_TTL_SECS" "\<not> sat_sub (1300 :: u64) 1000 < PLAN_TTL_SECS"
    by (simp_all add: sat_sub_def PLAN_TTL_SECS_def)
  ultimately show ?thesis
    using once[of 1299 1000 "\<lambda>n. None", THEN conjunct1] once[of 1300 1000 "\<lambda>n. None", THEN conjunct1] by simp
qed

text \<open>A plan for the image above, executed half a minute later.\<close>

definition bar_dir :: plan_dir where
  "bar_dir = remember_plan 970 True Written (cleanup_plan (cp_id some_plan) (build_snapshot bar_zero False bar_snap)) (\<lambda>n. None)"

theorem execute_within_plan_witness:
  "snd (snd (execute bar_zero (\<lambda>j n. quiet_host) False bar_snap (cp_id some_plan) None bar_dir)) (plan_name (cp_id some_plan)) = None
    \<and> fst (snd (execute bar_zero (\<lambda>j n. quiet_host) False bar_snap (cp_id some_plan) None bar_dir))
        = [BarDocker (RemoveImage ''sha256:ab'')]"
proof -
  let ?run = "execute bar_zero (\<lambda>j n. quiet_host) False bar_snap (cp_id some_plan) None bar_dir"
  let ?t = "''container_sha256:ab''"
  have hist: "plan_hist [(970, cp_id some_plan, bar_zero, bar_snap)] bar_dir"
    unfolding bar_dir_def by (intro hist_issue hist_none) simp
  have ok: "plan_id_ok (cp_id some_plan)" by (simp add: some_plan_def new_plan_id_ok)
  have "map ci_id (cp_items (cleanup_plan (cp_id some_plan) (build_snapshot bar_zero False bar_snap))) = [?t]"
    unfolding item_ids doc_fields resource_rows_def bar_docker bar_items
    by (simp add: bar_kinds bar_ids) (simp add: dangling_row_def volume_row_def docker_leftover_def)
  then have "bar_dir (plan_name (cp_id some_plan)) = Some (PlanFile 970 [?t])"
    by (simp add: bar_dir_def remember_plan_def plan_cp_id)
  then have took: "take_plan (bw_now bar_zero) (cp_id some_plan) bar_dir = (Some [?t], bar_dir(plan_name (cp_id some_plan) := None))"
    using ok by (simp add: take_plan_def bar_zero_def sat_sub_def PLAN_TTL_SECS_def)
  have f: "find_docker bar_snap ?t = Some (dangling_row old_image)"
    by (simp add: find_docker_def bar_docker bar_ids)
  have pre: "starts_with ?t ''container_''" by (simp add: starts_with_def)
  have "act bar_zero (\<lambda>n. quiet_host) False bar_snap ?t ActKill
      = (outcome_ok ?t ActKill (''removed '' @ d_name (dangling_row old_image)), [BarDocker (RemoveImage ''sha256:ab'')])"
    by (simp add: act_def pre act_docker_def f docker_outcome_def docker_do_def quiet_host_def remove_call_def bar_kinds)
      (simp add: dangling_row_def old_image_def)
  then have es: "fst (snd ?run) = [BarDocker (RemoveImage ''sha256:ab'')]"
    by (simp add: execute_def took exec_step_def exec_action_def pre f bar_kinds exec_start_def Let_def enumerate_eq_zip
        outcome_ok_def)
  then have "BarDocker (RemoveImage ''sha256:ab'') \<in> set (fst (snd ?run))" by simp
  moreover have "?run = (fst ?run, fst (snd ?run), snd (snd ?run))" by simp
  ultimately have "snd (snd ?run) (plan_name (cp_id some_plan)) = None" using execute_within_plan[OF hist] by blast
  then show ?thesis using es by simp
qed


text \<open>The ids of two images with the same five leading digits are the same.\<close>

lemma image_ids_collide:
  "length a = 5 \<Longrightarrow> x \<noteq> [] \<Longrightarrow> y \<noteq> [] \<Longrightarrow> container_id (''sha256:'' @ a @ x) = container_id (''sha256:'' @ a @ y)"
  by (cases x; cases y) (simp_all add: container_id_def)

end
