(* ===== verification/Cgroup.thy ===== *)
theory Cgroup
  imports Worker Project Source Json
begin

text \<open>
  Control groups for runs (\<open>src/platform/cgroup.rs\<close>) and their use by the supervisor
  (\<open>RunCgroup\<close>, \<open>prepare_parent_cgroup\<close> and \<open>setup_cgroup\<close> of \<open>src/runner/mod.rs\<close>):
  finding a delegated directory, enabling controllers, writing limits and reading them and the kernel's
  counters back.  The kernel is an argument: a state of its own with what reading a file, writing one and
  making, removing and listing directories do to it.  Paths are their components.
\<close>

section \<open>The kernel\<close>

type_synonym dir = "string list"

record 's kernel =
  kn_exists :: "dir \<Rightarrow> string \<Rightarrow> 's \<Rightarrow> bool"
  kn_read :: "dir \<Rightarrow> string \<Rightarrow> 's \<Rightarrow> string + string"
  kn_write :: "dir \<Rightarrow> string \<Rightarrow> string \<Rightarrow> 's \<Rightarrow> string option \<times> 's"
  kn_mkdir :: "dir \<Rightarrow> 's \<Rightarrow> string option \<times> 's"
  kn_rmdir :: "dir \<Rightarrow> 's \<Rightarrow> string option \<times> 's"
  kn_list :: "dir \<Rightarrow> 's \<Rightarrow> string list option"

definition CGROUP2_MOUNT :: dir where "CGROUP2_MOUNT = [''sys'', ''fs'', ''cgroup'']"

definition WANTED :: "string list" where "WANTED = [''memory'', ''pids'', ''cpu'']"

definition CPU_PERIOD_US :: u64 where "CPU_PERIOD_US = 100000"

definition quota_for_millicores :: "u32 \<Rightarrow> u64" where
  "quota_for_millicores m = ucast m * (CPU_PERIOD_US div 1000)"

definition read_words :: "'s kernel \<Rightarrow> dir \<Rightarrow> string \<Rightarrow> 's \<Rightarrow> string + string list" where
  "read_words k d f s = (case kn_read k d f s of Inl e \<Rightarrow> Inl e | Inr t \<Rightarrow> Inr (split_whitespace t))"

text \<open>Lines of a name and a number; other lines are skipped and of several the last counts.\<close>

definition kv_of :: "string \<Rightarrow> (string \<times> u64) list" where
  "kv_of t =
    List.map_filter
      (\<lambda>l. Option.bind (split_once (CHR '' '') l) (\<lambda>(k, v). map_option (Pair k) (parse_u64 (trim v)))) (lines_of t)"

definition read_kv :: "'s kernel \<Rightarrow> dir \<Rightarrow> string \<Rightarrow> 's \<Rightarrow> string + (string \<Rightarrow> u64 option)" where
  "read_kv k d f s = (case kn_read k d f s of Inl e \<Rightarrow> Inl e | Inr t \<Rightarrow> Inr (map_of (rev (kv_of t))))"

section \<open>Limits\<close>

record cgroup_limits =
  cl_memory_max :: "u64 option"
  cl_swap_max :: "u64 option"
  cl_cpu_max :: "(u64 \<times> u64) option"
  cl_pids_max :: "u64 option"

definition limits_none :: cgroup_limits where
  "limits_none = \<lparr>cl_memory_max = None, cl_swap_max = None, cl_cpu_max = None, cl_pids_max = None\<rparr>"

definition show_u64 :: "u64 \<Rightarrow> string" where "show_u64 n = show_nat (unat n)"

definition write_some :: "'s kernel \<Rightarrow> dir \<Rightarrow> string \<Rightarrow> ('a \<Rightarrow> string) \<Rightarrow> 'a option \<Rightarrow> 's \<Rightarrow> string option \<times> 's" where
  "write_some k d f text v s = (case v of None \<Rightarrow> (None, s) | Some x \<Rightarrow> kn_write k d f (text x) s)"

text \<open>One limit after the other; the first that is refused ends it.\<close>

definition apply_limits :: "'s kernel \<Rightarrow> dir \<Rightarrow> cgroup_limits \<Rightarrow> 's \<Rightarrow> (string + cgroup_limits) \<times> 's" where
  "apply_limits k d l s =
    (case write_some k d ''memory.max'' show_u64 (cl_memory_max l) s of
       (Some e, s1) \<Rightarrow> (Inl e, s1)
     | (None, s1) \<Rightarrow>
         (case write_some k d ''memory.swap.max'' show_u64 (cl_swap_max l) s1 of
            (Some e, s2) \<Rightarrow> (Inl e, s2)
          | (None, s2) \<Rightarrow>
              (case write_some k d ''cpu.max'' (\<lambda>(q, p). show_u64 q @ '' '' @ show_u64 p) (cl_cpu_max l) s2 of
                 (Some e, s3) \<Rightarrow> (Inl e, s3)
               | (None, s3) \<Rightarrow>
                   (case write_some k d ''pids.max'' show_u64 (cl_pids_max l) s3 of
                      (Some e, s4) \<Rightarrow> (Inl e, s4)
                    | (None, s4) \<Rightarrow> (Inr l, s4)))))"

section \<open>Reading back\<close>

definition read_number :: "'s kernel \<Rightarrow> dir \<Rightarrow> string \<Rightarrow> 's \<Rightarrow> u64 option" where
  "read_number k d f s = (case kn_read k d f s of Inl e \<Rightarrow> None | Inr t \<Rightarrow> parse_u64 (trim t))"

definition memory_max :: "'s kernel \<Rightarrow> dir \<Rightarrow> 's \<Rightarrow> u64 option" where
  "memory_max k d s = read_number k d ''memory.max'' s"

definition pids_max :: "'s kernel \<Rightarrow> dir \<Rightarrow> 's \<Rightarrow> u32 option" where
  "pids_max k d s = (case kn_read k d ''pids.max'' s of Inl e \<Rightarrow> None | Inr t \<Rightarrow> parse_u32 (trim t))"

definition cpu_max_of :: "string \<Rightarrow> u32 option" where
  "cpu_max_of raw =
    (let ws = split_whitespace raw in
     case (Option.bind (nth_word 0 ws) parse_u64, Option.bind (nth_word 1 ws) parse_u64) of
       (Some quota, Some period) \<Rightarrow> Some (ucast (sat_mul quota 1000 div max period 1))
     | _ \<Rightarrow> None)"

definition cpu_max_millicores :: "'s kernel \<Rightarrow> dir \<Rightarrow> 's \<Rightarrow> u32 option" where
  "cpu_max_millicores k d s = (case kn_read k d ''cpu.max'' s of Inl e \<Rightarrow> None | Inr t \<Rightarrow> cpu_max_of t)"

record cgroup_events =
  ce_max_hits :: u64
  ce_oom :: u64
  ce_oom_kill :: u64
  ce_populated :: bool

definition read_events :: "'s kernel \<Rightarrow> dir \<Rightarrow> 's \<Rightarrow> string + cgroup_events" where
  "read_events k d s =
    (case read_kv k d ''memory.events'' s of
       Inl e \<Rightarrow> Inl e
     | Inr m \<Rightarrow>
         Inr \<lparr>ce_max_hits = or_default 0 (m ''max''), ce_oom = or_default 0 (m ''oom''),
              ce_oom_kill = or_default 0 (m ''oom_kill''),
              ce_populated = (case read_kv k d ''cgroup.events'' s of
                 Inl e \<Rightarrow> True | Inr c \<Rightarrow> or_default 1 (c ''populated'') \<noteq> 0)\<rparr>)"

section \<open>Finding a delegated directory\<close>

definition enable_controllers :: "'s kernel \<Rightarrow> dir \<Rightarrow> 's \<Rightarrow> (string + string list) \<times> 's" where
  "enable_controllers k d s =
    (case read_words k d ''cgroup.controllers'' s of
       Inl e \<Rightarrow> (Inl e, s)
     | Inr available \<Rightarrow>
         (let cs = filter (\<lambda>c. c \<in> set available) WANTED in
          if cs = [] then (Inr [], s)
          else
            (case kn_write k d ''cgroup.subtree_control'' (trim (concat (map (\<lambda>c. ''+'' @ c @ '' '') cs))) s of
               (Some e, s') \<Rightarrow> (Inl e, s')
             | (None, s') \<Rightarrow> (read_words k d ''cgroup.subtree_control'' s', s'))))"

datatype qualify_error = CannotRead string | NotAvailable "string list" | CannotEnable "string list" string
  | StillNot "string list" | CannotCreate string

definition enabled_here :: "'s kernel \<Rightarrow> dir \<Rightarrow> 's \<Rightarrow> string list" where
  "enabled_here k d s = (case read_words k d ''cgroup.subtree_control'' s of Inr ws \<Rightarrow> ws | Inl e \<Rightarrow> [])"

definition lacking :: "string list \<Rightarrow> string list" where "lacking en = filter (\<lambda>c. c \<notin> set en) WANTED"

definition make_ready :: "'s kernel \<Rightarrow> dir \<Rightarrow> 's \<Rightarrow> (qualify_error + string list) \<times> 's" where
  "make_ready k d s =
    (case read_words k d ''cgroup.controllers'' s of
       Inl e \<Rightarrow> (Inl (CannotRead e), s)
     | Inr available \<Rightarrow>
         (let missing = lacking (enabled_here k d s) in
          if missing = [] then (Inr (enabled_here k d s), s)
          else if \<not> list_ex (\<lambda>c. c \<in> set missing) available then (Inl (NotAvailable missing), s)
          else
            (case enable_controllers k d s of
               (Inl e, s') \<Rightarrow> (Inl (CannotEnable missing e), s')
             | (Inr en, s') \<Rightarrow>
                 (let still = lacking (enabled_here k d s') in
                  if still \<noteq> [] then (Inl (StillNot still), s') else (Inr (enabled_here k d s'), s')))))"

text \<open>The probe child; its number counts the probes of the process.\<close>

definition probe_name :: "nat \<Rightarrow> nat \<Rightarrow> string" where
  "probe_name me n = ''wyd-probe-'' @ show_nat me @ ''-'' @ show_nat n"

definition qualify :: "'s kernel \<Rightarrow> nat \<Rightarrow> dir \<Rightarrow> nat \<times> 's \<Rightarrow> (qualify_error + string list) \<times> nat \<times> 's" where
  "qualify k me d st =
    (let (n, s) = st in
     (case make_ready k d s of
        (Inl e, s1) \<Rightarrow> (Inl e, n, s1)
      | (Inr en, s1) \<Rightarrow>
          (case kn_mkdir k (d @ [probe_name me n]) s1 of
             (Some e, s2) \<Rightarrow> (Inl (CannotCreate e), n + 1, s2)
           | (None, s2) \<Rightarrow> (Inr en, n + 1, snd (kn_rmdir k (d @ [probe_name me n]) s2)))))"

definition components :: "string \<Rightarrow> dir" where
  "components t = filter (\<lambda>c. c \<noteq> [] \<and> c \<noteq> ''.'') (split_on (CHR ''/'') t)"

text \<open>The directory of the process, from the text of \<open>/proc/self/cgroup\<close>.\<close>

definition own_cgroup_path :: "string option \<Rightarrow> dir option" where
  "own_cgroup_path content =
    Option.bind content (\<lambda>t.
      map_option (\<lambda>rel. CGROUP2_MOUNT @ components (trim rel))
        (first_Some (\<lambda>l. strip_prefix l ''0::'') (lines_of t)))"

text \<open>The directory named by the environment, an absolute path; the own one and its ancestors; the mount
  point.\<close>

definition candidates :: "string option \<Rightarrow> string option \<Rightarrow> dir list" where
  "candidates explicit content =
    (let named = (case explicit of Some t \<Rightarrow> if trim t = [] then [] else [components t] | None \<Rightarrow> []);
         ups = (case own_cgroup_path content of
                  Some d \<Rightarrow> filter (\<lambda>p. take (length CGROUP2_MOUNT) p = CGROUP2_MOUNT) (map (\<lambda>n. take n d) (rev [0..<length d + 1]))
                | None \<Rightarrow> []);
         cs = named @ ups
     in if CGROUP2_MOUNT \<in> set cs then cs else cs @ [CGROUP2_MOUNT])"

record cgroup_root =
  cr_path :: dir
  cr_controllers :: "string list"

datatype discover_error = NotMounted | NoneDelegated "(dir \<times> qualify_error) list"

fun try_each ::
  "'s kernel \<Rightarrow> nat \<Rightarrow> dir list \<Rightarrow> (dir \<times> qualify_error) list \<Rightarrow> nat \<times> 's \<Rightarrow> (discover_error + cgroup_root) \<times> nat \<times> 's" where
  "try_each k me [] tried st = (Inl (NoneDelegated tried), st)"
| "try_each k me (d # ds) tried st =
    (case qualify k me d st of
       (Inr en, st') \<Rightarrow> (Inr \<lparr>cr_path = d, cr_controllers = en\<rparr>, st')
     | (Inl e, st') \<Rightarrow> try_each k me ds (tried @ [(d, e)]) st')"

definition discover ::
  "'s kernel \<Rightarrow> nat \<Rightarrow> string option \<Rightarrow> string option \<Rightarrow> nat \<times> 's \<Rightarrow> (discover_error + cgroup_root) \<times> nat \<times> 's" where
  "discover k me explicit content st =
    (if \<not> kn_exists k CGROUP2_MOUNT ''cgroup.controllers'' (snd st) then (Inl NotMounted, st)
     else try_each k me (candidates explicit content) [] st)"

section \<open>Moving a process\<close>

text \<open>The digits of a pid, from the last to the first.\<close>

function pid_digits :: "u32 \<Rightarrow> string \<Rightarrow> string" where
  "pid_digits v out =
    (let out' = char_of (48 + unat (v mod 10)) # out in
     if v div 10 = 0 then out' else pid_digits (v div 10) out')"
  by pat_completeness auto
termination
proof (relation "measure (\<lambda>(v, out). unat v)")
  fix v :: u32 and out x :: string
  assume "v div 10 \<noteq> 0"
  then have "unat (v div 10) \<noteq> 0" by (simp add: unat_eq_zero)
  moreover have "unat (v div 10) = unat v div 10" by (simp add: unat_div)
  ultimately have "unat (v div 10) < unat v" by simp
  then show "((v div 10, x), v, out) \<in> measure (\<lambda>(v, out). unat v)" by simp
qed simp

declare pid_digits.simps [simp del]

end
