(* ===== verification/Run_Cgroup.thy ===== *)
theory Run_Cgroup
  imports Cgroup
begin

text \<open>
  The supervisor's use of control groups (\<open>src/runner/mod.rs\<close>): the aggregate directory, the directory
  of a run with its limits, and what that makes of the limits a run reports.  A handle is the directory, or
  \<open>None\<close> for the stand-in where there is none.
\<close>

section \<open>A handle\<close>

definition PARENT_CGROUP :: string where "PARENT_CGROUP = ''wyd.slice''"

type_synonym handle = "dir option"

definition cg_kill :: "'s kernel \<Rightarrow> handle \<Rightarrow> 's \<Rightarrow> string option \<times> 's" where
  "cg_kill k h s = (case h of Some d \<Rightarrow> kn_write k d ''cgroup.kill'' ''1'' s | None \<Rightarrow> (None, s))"

definition cg_populated :: "'s kernel \<Rightarrow> handle \<Rightarrow> 's \<Rightarrow> bool" where
  "cg_populated k h s =
    (case h of Some d \<Rightarrow> (case read_events k d s of Inr e \<Rightarrow> ce_populated e | Inl x \<Rightarrow> True) | None \<Rightarrow> False)"

definition cg_oom_kills :: "'s kernel \<Rightarrow> handle \<Rightarrow> 's \<Rightarrow> u64" where
  "cg_oom_kills k h s =
    (case h of Some d \<Rightarrow> (case read_events k d s of Inr e \<Rightarrow> ce_oom_kill e | Inl x \<Rightarrow> 0) | None \<Rightarrow> 0)"

definition cg_remove :: "'s kernel \<Rightarrow> handle \<Rightarrow> 's \<Rightarrow> string option \<times> 's" where
  "cg_remove k h s = (case h of Some d \<Rightarrow> kn_rmdir k d s | None \<Rightarrow> (None, s))"

definition cg_child :: "'s kernel \<Rightarrow> cgroup_root option \<Rightarrow> handle \<Rightarrow> string \<Rightarrow> 's \<Rightarrow> (string + dir) \<times> 's" where
  "cg_child k root h name s =
    (case (case h of Some d \<Rightarrow> Some d | None \<Rightarrow> map_option cr_path root) of
       None \<Rightarrow> (Inl ''no cgroup root'', s)
     | Some d \<Rightarrow>
         (case kn_mkdir k (d @ [name]) s of (Some e, s') \<Rightarrow> (Inl e, s') | (None, s') \<Rightarrow> (Inr (d @ [name]), s')))"

definition cpu_quota :: "u32 option \<Rightarrow> (u64 \<times> u64) option" where
  "cpu_quota m = map_option (\<lambda>x. (quota_for_millicores x, CPU_PERIOD_US)) m"

definition caps_limits :: "u64 \<Rightarrow> u32 option \<Rightarrow> u32 option \<Rightarrow> cgroup_limits" where
  "caps_limits mem cpu pids =
    \<lparr>cl_memory_max = Some mem, cl_swap_max = Some 0, cl_cpu_max = cpu_quota cpu, cl_pids_max = map_option ucast pids\<rparr>"

definition set_aggregate_caps ::
  "'s kernel \<Rightarrow> handle \<Rightarrow> u64 \<Rightarrow> u32 option \<Rightarrow> u32 option \<Rightarrow> 's \<Rightarrow> string option \<times> 's" where
  "set_aggregate_caps k h mem cpu pids s =
    (case h of
       None \<Rightarrow> (None, s)
     | Some d \<Rightarrow>
         (case apply_limits k d (caps_limits mem cpu pids) s of (Inl e, s') \<Rightarrow> (Some e, s') | (Inr l, s') \<Rightarrow> (None, s')))"

definition aggregate_of :: "'s kernel \<Rightarrow> handle \<Rightarrow> 's \<Rightarrow> u64 option \<times> u32 option \<times> u32 option" where
  "aggregate_of k h s =
    (case h of None \<Rightarrow> (None, None, None) | Some d \<Rightarrow> (memory_max k d s, cpu_max_millicores k d s, pids_max k d s))"

section \<open>The aggregate directory\<close>

text \<open>What a crashed supervisor left is removed as far as it is empty.\<close>

definition sweep_runs :: "'s kernel \<Rightarrow> dir \<Rightarrow> 's \<Rightarrow> 's" where
  "sweep_runs k d s =
    (case kn_list k d s of
       None \<Rightarrow> s
     | Some names \<Rightarrow>
         foldl (\<lambda>s n. if starts_with n ''run-'' then snd (kn_rmdir k (d @ [n]) s) else s) s names)"

definition sweep_parent :: "'s kernel \<Rightarrow> dir \<Rightarrow> 's \<Rightarrow> 's" where
  "sweep_parent k root s =
    (case kn_list k root s of
       None \<Rightarrow> s
     | Some names \<Rightarrow>
         foldl (\<lambda>s n. if n = PARENT_CGROUP then snd (kn_rmdir k (root @ [n]) (sweep_runs k (root @ [n]) s)) else s) s names)"

definition prepare_parent :: "'s kernel \<Rightarrow> dir \<Rightarrow> string \<Rightarrow> 's \<Rightarrow> (string + dir) \<times> 's" where
  "prepare_parent k root name s =
    (case kn_mkdir k (root @ [name]) s of
       (Some e, s1) \<Rightarrow> (Inl e, s1)
     | (None, s1) \<Rightarrow>
         (case enable_controllers k (root @ [name]) s1 of
            (Inl e, s2) \<Rightarrow> (Inl e, s2)
          | (Inr en, s2) \<Rightarrow> (Inr (root @ [name]), s2)))"

text \<open>A cap that is refused is only reported.\<close>

definition prepare_parent_cgroup :: "'s kernel \<Rightarrow> cgroup_root option \<Rightarrow> limits \<Rightarrow> 's \<Rightarrow> handle \<times> 's" where
  "prepare_parent_cgroup k root l s =
    (case root of
       None \<Rightarrow> (None, s)
     | Some r \<Rightarrow>
         (case prepare_parent k (cr_path r) PARENT_CGROUP (sweep_parent k (cr_path r) s) of
            (Inl e, s1) \<Rightarrow> (None, s1)
          | (Inr d, s1) \<Rightarrow>
              (Some d, snd (apply_limits k d
                 (caps_limits (memory_budget_bytes l) (cpu_budget_millicores l) (pids_budget l)) s1))))"

section \<open>The directory of a run\<close>

definition run_limits :: "resource_request \<Rightarrow> cgroup_limits" where
  "run_limits r =
    (if rr_enforcement r = Hard then
       \<lparr>cl_memory_max = rr_memory r, cl_swap_max = map_option (\<lambda>_. 0) (rr_memory r), cl_cpu_max = cpu_quota (rr_cpu r),
        cl_pids_max = map_option ucast (rr_processes r)\<rparr>
     else limits_none)"

definition applied_of :: "cgroup_limits \<Rightarrow> cgroup_applied" where
  "applied_of l = \<lparr>ca_memory_max = cl_memory_max l, ca_cpu_max = cl_cpu_max l, ca_pids_max = cl_pids_max l\<rparr>"

text \<open>The directory, and the result the worker goes on with.\<close>

definition setup_cgroup ::
  "'s kernel \<Rightarrow> cgroup_root option \<Rightarrow> handle \<Rightarrow> run_id \<Rightarrow> run_spec \<Rightarrow> 's
    \<Rightarrow> handle \<times> (string + bool \<times> cgroup_applied option) \<times> 's" where
  "setup_cgroup k root parent i spec s =
    (if root = None then (None, Inr (False, None), s)
     else
       (case cg_child k root parent (''run-'' @ show_run_id i) s of
          (Inl e, s1) \<Rightarrow> (None, Inl e, s1)
        | (Inr d, s1) \<Rightarrow>
            (case apply_limits k d (run_limits (resources spec)) s1 of
               (Inl e, s2) \<Rightarrow> (None, Inl e, s2)
             | (Inr l, s2) \<Rightarrow> (Some d, Inr (True, Some (applied_of l)), s2))))"

end
