(* ===== verification/Cgroup_Props.thy ===== *)
theory Cgroup_Props
  imports Run_Cgroup
begin

text \<open>
  What the control groups guarantee: a hard request is written completely or not at all accepted, and is
  reported as asked; a root that was found has every controller enabled; a processor limit reads back as it
  was asked - and what becomes of a monitored limit when there are control groups.
\<close>

section \<open>Writing\<close>

text \<open>The files a set of limits is written to, in order.\<close>

definition limit_writes :: "cgroup_limits \<Rightarrow> (string \<times> string) list" where
  "limit_writes l =
    (case cl_memory_max l of Some n \<Rightarrow> [(''memory.max'', show_u64 n)] | None \<Rightarrow> [])
    @ (case cl_swap_max l of Some n \<Rightarrow> [(''memory.swap.max'', show_u64 n)] | None \<Rightarrow> [])
    @ (case cl_cpu_max l of Some (q, p) \<Rightarrow> [(''cpu.max'', show_u64 q @ '' '' @ show_u64 p)] | None \<Rightarrow> [])
    @ (case cl_pids_max l of Some n \<Rightarrow> [(''pids.max'', show_u64 n)] | None \<Rightarrow> [])"

fun write_each :: "'s kernel \<Rightarrow> dir \<Rightarrow> (string \<times> string) list \<Rightarrow> 's \<Rightarrow> string option \<times> 's" where
  "write_each k d [] s = (None, s)"
| "write_each k d ((f, t) # ws) s =
    (case kn_write k d f t s of (Some e, s') \<Rightarrow> (Some e, s') | (None, s') \<Rightarrow> write_each k d ws s')"

lemma write_each_append:
  "write_each k d (xs @ ys) s = (case write_each k d xs s of (Some e, s') \<Rightarrow> (Some e, s') | (None, s') \<Rightarrow> write_each k d ys s')"
  by (induction xs arbitrary: s) (auto split: prod.splits option.splits)

lemma write_some_each:
  "write_each k d (case v of Some x \<Rightarrow> [(f, text x)] | None \<Rightarrow> []) s = write_some k d f text v s"
  by (auto simp: write_some_def split: option.splits prod.splits)

lemma apply_is_writes:
  "apply_limits k d l s = (case write_each k d (limit_writes l) s of (None, s') \<Rightarrow> (Inr l, s') | (Some e, s') \<Rightarrow> (Inl e, s'))"
proof -
  have cpu: "(case cl_cpu_max l of Some (q, p) \<Rightarrow> [(''cpu.max'', show_u64 q @ '' '' @ show_u64 p)] | None \<Rightarrow> [])
      = (case cl_cpu_max l of Some x \<Rightarrow> [(''cpu.max'', (\<lambda>(q, p). show_u64 q @ '' '' @ show_u64 p) x)] | None \<Rightarrow> [])"
    by (simp split: option.splits prod.splits)
  show ?thesis
    unfolding limit_writes_def apply_limits_def write_each_append cpu write_some_each
    by (simp split: prod.splits option.splits)
qed

section \<open>A processor limit\<close>

lemma unat_widen: "unat (ucast (m :: u32) :: u64) = unat m"
proof -
  have "unat m < 2 ^ 64" using unat_u32_less[of m] by simp
  then show ?thesis by (simp add: unsigned_ucast_eq take_bit_nat_eq_self)
qed

lemma narrow: "ucast (ucast (n :: u32) :: u64) = n"
proof -
  have "unat (ucast x :: u32) = take_bit 32 (unat x)" for x :: u64 by (simp add: unsigned_ucast_eq)
  then show ?thesis unfolding word_unat_eq_iff unat_widen by (simp only: unat_widen take_bit_nat_eq_self[OF unat_u32_less])
qed

lemma quota_exact: "unat (quota_for_millicores m) = unat m * 100"
proof -
  have u: "unat (ucast m :: u64) = unat m" by (rule unat_widen)
  have "unat m < 2 ^ 32" by (rule unat_u32_less)
  then have "unat (ucast m :: u64) * unat (100 :: u64) < 2 ^ 64" by (simp add: u)
  then have "unat (ucast m * 100 :: u64) = unat m * 100"
    by (simp add: unat_mult_lem[THEN iffD1] u)
  moreover have "CPU_PERIOD_US div 1000 = 100" by (simp add: CPU_PERIOD_US_def)
  ultimately show ?thesis by (simp add: quota_for_millicores_def)
qed

lemma millicores_back: "ucast (sat_mul (quota_for_millicores m) 1000 div max CPU_PERIOD_US 1) = m"
proof -
  have lt: "unat m < 2 ^ 32" by (rule unat_u32_less)
  have "unat (sat_mul (quota_for_millicores m) 1000) = unat m * 100000"
    unfolding unat_sat_mul quota_exact using lt by simp
  then have "unat (sat_mul (quota_for_millicores m) 1000 div max CPU_PERIOD_US 1) = unat m"
    by (simp add: unat_div CPU_PERIOD_US_def max_def word_le_nat_alt)
  then have "sat_mul (quota_for_millicores m) 1000 div max CPU_PERIOD_US 1 = ucast m"
    by (simp add: word_unat_eq_iff unat_widen)
  then show ?thesis by (simp only: narrow)
qed

text \<open>A processor limit written to the kernel reads back as the number of millicores that was asked for,
  for every such number.\<close>

theorem cpu_limit_reads_back:
  "cpu_max_of (show_u64 (quota_for_millicores m) @ '' '' @ show_u64 CPU_PERIOD_US) = Some m"
proof -
  have w: "split_whitespace (show_u64 p) = [show_u64 p]" "show_u64 p \<noteq> []" "no_space (show_u64 p)" for p
    using show_nat_digits(2) by (simp_all add: split_whitespace_one show_u64_def)
  have p: "parse_u64 (show_u64 n) = Some n" for n
    by (simp add: parse_u64_def parse_show_uint[OF unat_u64_less] show_u64_def)
  show ?thesis by (simp add: cpu_max_of_def w p nth_word_def Let_def millicores_back)
qed

section \<open>The limits of a run\<close>

lemma setup_ok:
  assumes "setup_cgroup k (Some r) parent i spec s = (h, Inr (active, ap), s')"
  obtains d s1 where "cg_child k (Some r) parent (''run-'' @ show_run_id i) s = (Inr d, s1)" "h = Some d" "active"
    "write_each k d (limit_writes (run_limits (resources spec))) s1 = (None, s')"
    "ap = Some (applied_of (run_limits (resources spec)))"
proof -
  obtain c s1 where c: "cg_child k (Some r) parent (''run-'' @ show_run_id i) s = (c, s1)" by fastforce
  then obtain d where d: "c = Inr d" using assms by (cases c) (auto simp: setup_cgroup_def)
  obtain e s2 where e: "write_each k d (limit_writes (run_limits (resources spec))) s1 = (e, s2)" by fastforce
  then have "e = None" using assms c d
    by (cases e) (auto simp: setup_cgroup_def apply_is_writes)
  then show ?thesis using assms c d e that by (auto simp: setup_cgroup_def apply_is_writes)
qed

text \<open>C38: A run whose control group could be set up under a hard request has had every requested limit
  accepted by the kernel, in order and with no swap to escape to, and reports exactly what was requested;
  under any other request no limit is written and none is reported.\<close>

theorem hard_limits_exact:
  assumes "setup_cgroup k (Some r) parent i spec s = (h, Inr (active, ap), s')"
  shows "active \<and> (\<exists>d s1. h = Some d \<and> cg_child k (Some r) parent (''run-'' @ show_run_id i) s = (Inr d, s1)
      \<and> write_each k d
          (if rr_enforcement (resources spec) = Hard then
             (case rr_memory (resources spec) of Some n \<Rightarrow> [(''memory.max'', show_u64 n), (''memory.swap.max'', show_u64 0)] | None \<Rightarrow> [])
             @ (case rr_cpu (resources spec) of
                  Some m \<Rightarrow> [(''cpu.max'', show_u64 (quota_for_millicores m) @ '' '' @ show_u64 CPU_PERIOD_US)] | None \<Rightarrow> [])
             @ (case rr_processes (resources spec) of Some n \<Rightarrow> [(''pids.max'', show_u64 (ucast n))] | None \<Rightarrow> [])
           else []) s1 = (None, s'))
    \<and> effective_after active ap spec =
        (if rr_enforcement (resources spec) = Hard then (requested_limits spec)\<lparr>ef_backend := ''cgroup_v2''\<rparr>
         else (requested_limits spec)\<lparr>ef_backend := ''cgroup_v2'', ef_memory := None, ef_cpu := None, ef_processes := None\<rparr>)"
proof -
  obtain d s1 where c: "cg_child k (Some r) parent (''run-'' @ show_run_id i) s = (Inr d, s1)" "h = Some d" "active"
    and w: "write_each k d (limit_writes (run_limits (resources spec))) s1 = (None, s')"
    and ap: "ap = Some (applied_of (run_limits (resources spec)))"
    using setup_ok[OF assms] by metis
  have "limit_writes (run_limits (resources spec)) =
      (if rr_enforcement (resources spec) = Hard then
         (case rr_memory (resources spec) of Some n \<Rightarrow> [(''memory.max'', show_u64 n), (''memory.swap.max'', show_u64 0)] | None \<Rightarrow> [])
         @ (case rr_cpu (resources spec) of
              Some m \<Rightarrow> [(''cpu.max'', show_u64 (quota_for_millicores m) @ '' '' @ show_u64 CPU_PERIOD_US)] | None \<Rightarrow> [])
         @ (case rr_processes (resources spec) of Some n \<Rightarrow> [(''pids.max'', show_u64 (ucast n))] | None \<Rightarrow> [])
       else [])"
    by (simp add: limit_writes_def run_limits_def limits_none_def cpu_quota_def split: option.splits)
  moreover have "effective_after active ap spec =
        (if rr_enforcement (resources spec) = Hard then (requested_limits spec)\<lparr>ef_backend := ''cgroup_v2''\<rparr>
         else (requested_limits spec)\<lparr>ef_backend := ''cgroup_v2'', ef_memory := None, ef_cpu := None, ef_processes := None\<rparr>)"
    unfolding ap using c(3) millicores_back
    by (cases "rr_cpu (resources spec)"; cases "rr_processes (resources spec)")
      (simp_all add: effective_after_def applied_of_def run_limits_def limits_none_def cpu_quota_def requested_limits_def Let_def narrow)
  ultimately show ?thesis using c w by auto
qed

lemma unlimited_loop: "monitor_loop None tmo ticks \<noteq> Some (Some ResourceLimit, st)"
  by (induction "None :: u64 option" tmo ticks rule: monitor_loop.induct) (auto simp: over_limit_def)

text \<open>C39: Where there are control groups the memory limit of a monitored request is never watched: the
  limit reported after setting up is none, so no sample of any size makes the monitoring loop stop the run
  for its memory, although without control groups the requested limit is watched.\<close>

theorem cgroup_unwatches_memory:
  assumes "setup_cgroup k root parent i spec s = (h, Inr (active, ap), s')"
    and "rr_enforcement (resources spec) = Monitored" "rr_memory (resources spec) = Some n"
  shows "monitored_memory (effective_after active ap spec) = (if root = None then Some n else None)
    \<and> (root \<noteq> None \<longrightarrow>
        (\<forall>tmo ticks st. monitor_loop (monitored_memory (effective_after active ap spec)) tmo ticks \<noteq> Some (Some ResourceLimit, st)))"
proof (cases root)
  case None
  then show ?thesis using assms
    by (auto simp: setup_cgroup_def effective_after_def monitored_memory_def requested_limits_def Let_def)
next
  case (Some r)
  have "active" "ap = Some (applied_of (run_limits (resources spec)))"
    using setup_ok[OF assms(1)[unfolded Some]] by metis+
  then have "monitored_memory (effective_after active ap spec) = None" using assms(2)
    by (simp add: effective_after_def monitored_memory_def applied_of_def run_limits_def limits_none_def Let_def)
  then show ?thesis using Some unlimited_loop by simp
qed

text \<open>A cap that is taken away is not written, so the kernel keeps the old one.\<close>

lemma cleared_cap_not_written:
  "limit_writes (caps_limits mem None None) = [(''memory.max'', show_u64 mem), (''memory.swap.max'', show_u64 0)]"
  by (simp add: limit_writes_def caps_limits_def cpu_quota_def)

section \<open>Discovery\<close>

lemma make_ready_enabled: "make_ready k d s = (Inr en, s') \<Longrightarrow> set WANTED \<subseteq> set en"
  by (auto simp: make_ready_def Let_def lacking_def filter_empty_conv split: sum.splits if_splits prod.splits)

lemma qualify_enabled: "qualify k me d st = (Inr en, st') \<Longrightarrow> set WANTED \<subseteq> set en"
  using make_ready_enabled
  by (fastforce simp: qualify_def split: prod.splits sum.splits option.splits)

lemma try_each_found:
  "try_each k me ds tried st = (Inr r, st') \<Longrightarrow>
    set WANTED \<subseteq> set (cr_controllers r)
    \<and> (\<exists>as bs st0. ds = as @ cr_path r # bs \<and> qualify k me (cr_path r) st0 = (Inr (cr_controllers r), st'))"
proof (induction ds arbitrary: tried st)
  case (Cons d ds)
  obtain q st1 where q: "qualify k me d st = (q, st1)" by (meson surj_pair)
  show ?case
  proof (cases q)
    case (Inl e)
    then have "try_each k me ds (tried @ [(d, e)]) st1 = (Inr r, st')" using Cons.prems q by simp
    from Cons.IH[OF this] show ?thesis by (metis append_Cons)
  next
    case (Inr en)
    then have "r = \<lparr>cr_path = d, cr_controllers = en\<rparr>" "st1 = st'" using Cons.prems q by auto
    moreover have "set WANTED \<subseteq> set en" using qualify_enabled q Inr by metis
    ultimately show ?thesis using q Inr by (intro conjI exI[of _ "[]"] exI[of _ ds] exI[of _ st]) simp_all
  qed
qed simp

section \<open>Moving a process\<close>

lemma pid_digits_show: "pid_digits v out = show_nat (unat v) @ out"
proof (induction v out rule: pid_digits.induct)
  case (1 v out)
  have q: "unat (v div 10) = unat v div 10" "unat (v mod 10) = unat v mod 10" by (simp_all add: unat_div unat_mod)
  then have small: "v div 10 = 0 \<longleftrightarrow> unat v < 10" by (metis div_eq_0_iff numeral_neq_zero unat_eq_zero)
  show ?case
  proof (cases "v div 10 = 0")
    case True
    then have "unat v < 10" "unat v mod 10 = unat v" using small by simp_all
    then show ?thesis using True q by (subst pid_digits.simps, subst show_nat.simps) (simp add: digit_char_def)
  next
    case False
    then have "pid_digits (v div 10) (digit_char (unat v mod 10) # out) = show_nat (unat v div 10) @ digit_char (unat v mod 10) # out"
      using 1[OF refl] q by (simp add: digit_char_def)
    then show ?thesis using False small q
      by (subst pid_digits.simps, subst show_nat.simps) (simp add: digit_char_def)
  qed
qed

lemma show_nat_length: "n < 10 ^ Suc k \<Longrightarrow> length (show_nat n) \<le> Suc k"
proof (induction k arbitrary: n)
  case 0
  then show ?case by (subst show_nat.simps) simp
next
  case (Suc k)
  then have "n div 10 < 10 ^ Suc k" by (simp add: less_mult_imp_div_less mult.commute)
  then show ?case using Suc.IH[of "n div 10"] by (subst show_nat.simps) simp
qed

text \<open>The digits the child writes between fork and exec, without allocating, are the decimal number of its
  pid, and they fit the buffer of twelve bytes.\<close>

theorem pid_digits_decimal:
  "pid_digits v [] = show_nat (unat v) \<and> length (pid_digits v []) \<le> 12"
proof -
  have "unat v < 10 ^ Suc 9" using unat_u32_less[of v] by simp
  then show ?thesis using show_nat_length[of "unat v" 9] by (simp add: pid_digits_show)
qed

section \<open>Concrete inputs\<close>

text \<open>A kernel that accepts everything.\<close>

definition easy_kernel :: "unit kernel" where
  "easy_kernel = \<lparr>kn_exists = (\<lambda>d f s. True), kn_read = (\<lambda>d f s. Inr []), kn_write = (\<lambda>d f t s. (None, s)),
     kn_mkdir = (\<lambda>d s. (None, s)), kn_rmdir = (\<lambda>d s. (None, s)), kn_list = (\<lambda>d s. Some [])\<rparr>"

definition asking :: "enforcement \<Rightarrow> run_spec" where
  "asking e = (spec_new ''r'' [''make''] ''/w'')
     \<lparr>resources := resource_default\<lparr>rr_enforcement := e, rr_memory := Some 4096, rr_cpu := Some 1500\<rparr>\<rparr>"

definition easy_root :: cgroup_root where "easy_root = \<lparr>cr_path = CGROUP2_MOUNT, cr_controllers = WANTED\<rparr>"

lemma easy_setup:
  "setup_cgroup easy_kernel (Some easy_root) None (RunId 1) (asking e) () =
    (Some (CGROUP2_MOUNT @ [''run-'' @ show_run_id (RunId 1)]), Inr (True, Some (applied_of (run_limits (resources (asking e))))), ())"
  by (simp add: setup_cgroup_def cg_child_def easy_kernel_def easy_root_def apply_limits_def write_some_def
      split: option.splits)

theorem hard_limits_exact_witness:
  "ef_memory (effective_after True (Some (applied_of (run_limits (resources (asking Hard))))) (asking Hard)) = Some 4096
    \<and> ef_cpu (effective_after True (Some (applied_of (run_limits (resources (asking Hard))))) (asking Hard)) = Some 1500"
  using hard_limits_exact[OF easy_setup[of Hard]]
  by (simp add: asking_def resource_default_def requested_limits_def)

theorem cgroup_unwatches_memory_witness:
  "monitored_memory (effective_after True (Some (applied_of (run_limits (resources (asking Monitored))))) (asking Monitored)) = None
    \<and> monitored_memory (effective_after False None (asking Monitored)) = Some 4096"
proof -
  have none: "setup_cgroup easy_kernel None None (RunId 1) (asking Monitored) () = (None, Inr (False, None), ())"
    by (simp add: setup_cgroup_def)
  have m: "rr_enforcement (resources (asking Monitored)) = Monitored" "rr_memory (resources (asking Monitored)) = Some 4096"
    by (simp_all add: asking_def)
  show ?thesis
    using cgroup_unwatches_memory[OF easy_setup[of Monitored] m] cgroup_unwatches_memory[OF none m] by simp
qed

end
