(* ===== verification/Platform.thy ===== *)
theory Platform
  imports Cgroup Docker_Scan
begin

text \<open>
  What the platform layer and the scanners make of the answers of the system: the controlling terminal of
  a process (\<open>src/platform/linux.rs\<close>), the identity of the boot (\<open>src/platform/boot.rs\<close>), the rows of
  the process table (\<open>src/scanner/processes.rs\<close>) and the listening sockets (\<open>src/scanner/ports.rs\<close>).
  The files and the tables of the system are arguments.
\<close>

unbundle bit_operations_syntax

section \<open>The controlling terminal\<close>

definition parse_i32 :: "string \<Rightarrow> int option" where
  "parse_i32 s = (case parse_i64 s of Some i \<Rightarrow> if - (2 ^ 31) \<le> i \<and> i < 2 ^ 31 then Some i else None | None \<Rightarrow> None)"

definition parse_tty_nr :: "string \<Rightarrow> int option" where
  "parse_tty_nr stat =
    Option.bind (rsplit_once (CHR '')'') stat) (\<lambda>(_, rest).
      Option.bind (nth_word 4 (split_whitespace rest)) parse_i32)"

definition decode_dev :: "int \<Rightarrow> u32 \<times> u32" where
  "decode_dev tty_nr =
    (let n = word_of_int tty_nr :: u32
     in (drop_bit 8 n AND 0xff, (n AND 0xff) OR push_bit 8 (drop_bit 20 n AND 0xfff)))"

definition tty_name :: "int \<Rightarrow> string option" where
  "tty_name tty_nr =
    (if tty_nr = 0 then None
     else
       (let (major, minor) = decode_dev tty_nr in
        if 136 \<le> major \<and> major \<le> 143 then Some (''pts/'' @ show_nat (unat minor))
        else if major = 4 \<and> minor < 64 then Some (''tty'' @ show_nat (unat minor))
        else if major = 4 then Some (''ttyS'' @ show_nat (unat (minor - 64)))
        else None))"

text \<open>The text of the \<open>stat\<close> file and where the first descriptor points to.\<close>

definition tty_of :: "string option \<Rightarrow> string option \<Rightarrow> string option" where
  "tty_of stat fd0 =
    Option.bind stat (\<lambda>s. Option.bind (parse_tty_nr s) (\<lambda>nr.
      case tty_name nr of Some t \<Rightarrow> Some t | None \<Rightarrow> Option.bind fd0 (\<lambda>l. strip_prefix l ''/dev/'')))"

section \<open>The boot\<close>

fun from_radix16 :: "nat \<Rightarrow> string \<Rightarrow> nat option" where
  "from_radix16 acc [] = Some acc"
| "from_radix16 acc (c # s) = (case hex_val c of None \<Rightarrow> None | Some d \<Rightarrow> from_radix16 (16 * acc + d) s)"

definition parse_boot_id :: "string \<Rightarrow> 128 word option" where
  "parse_boot_id s =
    (let hex = filter (\<lambda>c. hex_val c \<noteq> None) s
     in if length hex \<noteq> 32 then None else map_option of_nat (from_radix16 0 hex))"

definition linux_epoch :: "string option \<Rightarrow> boot_epoch option" where
  "linux_epoch raw = Option.bind raw (\<lambda>t. map_option Linux (parse_boot_id t))"

text \<open>macOS: the identifier of the boot session, or else the boot time.\<close>

definition macos_epoch :: "string option \<Rightarrow> (64 word \<times> 32 word) option \<Rightarrow> boot_epoch option" where
  "macos_epoch uuid boottime =
    (case Option.bind uuid parse_boot_id of
       Some u \<Rightarrow> Some (MacosUuid u)
     | None \<Rightarrow> map_option (\<lambda>(sec, usec). Macos sec usec) boottime)"

section \<open>Scanners\<close>

text \<open>A process as the system library reports it; the text is lossily decoded.\<close>

record sys_process =
  sy_pid :: pid
  sy_parent :: "pid option"
  sy_name :: string
  sy_cmd :: "string list"
  sy_exe :: "string option"
  sy_cwd :: "string option"
  sy_memory :: u64
  sy_start :: u64

definition process_row :: "(pid \<Rightarrow> string option) \<Rightarrow> sys_process \<Rightarrow> process_info" where
  "process_row tty p =
    \<lparr>p_pid = sy_pid p, p_parent = sy_parent p, p_name = sy_name p, p_command = sy_cmd p, p_executable = sy_exe p,
     p_cwd = sy_cwd p, p_memory = sy_memory p, p_start_time = sy_start p, p_tty = tty (sy_pid p)\<rparr>"

definition scan_processes :: "(pid \<Rightarrow> string option) \<Rightarrow> sys_process list \<Rightarrow> process_info list" where
  "scan_processes tty ps = map (process_row tty) ps"

datatype socket_kind = TcpListen ip_addr u16 | TcpOther | Udp

definition listening :: "socket_kind \<times> pid list \<Rightarrow> listening_port list" where
  "listening s =
    (case fst s of
       TcpListen a p \<Rightarrow> map (\<lambda>k. \<lparr>lp_protocol = Tcp, lp_address = a, lp_port = p, lp_pid = k\<rparr>) (snd s)
     | _ \<Rightarrow> [])"

definition scan_ports :: "(socket_kind \<times> pid list) list option \<Rightarrow> listening_port list option" where
  "scan_ports ss = map_option (\<lambda>xs. concat (map listening xs)) ss"

section \<open>Facts\<close>

lemma from_radix16_append:
  "from_radix16 acc (s @ t) = (case from_radix16 acc s of None \<Rightarrow> None | Some a \<Rightarrow> from_radix16 a t)"
  by (induction s arbitrary: acc) (auto split: option.splits)

lemma from_radix16_digits: "n < 16 ^ k \<Longrightarrow> from_radix16 0 (hex_digits k n) = Some n"
proof (induction k arbitrary: n)
  case (Suc k)
  then have "n div 16 < 16 ^ k" by (simp add: less_mult_imp_div_less mult.commute)
  then show ?case using Suc.IH by (simp add: from_radix16_append)
qed simp

lemma hex_digits_hex: "filter (\<lambda>c. hex_val c \<noteq> None) (hex_digits k n) = hex_digits k n"
  by (induction k arbitrary: n) auto

text \<open>Wherever hyphens and other characters stand that are no digits, the identifier is read.\<close>

lemma boot_id_read:
  "filter (\<lambda>c. hex_val c \<noteq> None) s = hex_digits 32 (unat w) \<Longrightarrow> parse_boot_id s = Some w"
proof -
  assume s: "filter (\<lambda>c. hex_val c \<noteq> None) s = hex_digits 32 (unat w)"
  have "unat w < 2 ^ 128" using unsigned_less[of w] by simp
  then have "unat w < 16 ^ 32" by simp
  from from_radix16_digits[OF this] show ?thesis unfolding parse_boot_id_def Let_def s by simp
qed

lemma boot_id_reads_back: "parse_boot_id (show_boot_id (BootId w)) = Some w"
  by (rule boot_id_read) (simp only: show_boot_id_def boot_id.case hex_digits_hex)

lemma scanned_pids: "map p_pid (scan_processes tty ps) = map sy_pid ps"
  by (simp add: scan_processes_def process_row_def)

end
