(* ===== verification/Output.thy ===== *)
theory Output
  imports Tui_Rows Web Source
begin

text \<open>
  The two reports of the command line: the items and Docker resources that a filter keeps
  (\<open>src/output.rs\<close>) and the listening ports with what started them (\<open>src/ports.rs\<close>).
\<close>

section \<open>Filters\<close>

datatype out_filter = FAll | FLeftovers | FMcp | FAgents | FDocker | FProject

definition ascii_lower :: "string \<Rightarrow> string" where
  "ascii_lower s = map (\<lambda>c. if CHR ''A'' \<le> c \<and> c \<le> CHR ''Z'' then char_of (of_char c + 32 :: nat) else c) s"

definition filter_names :: "(string \<times> out_filter) list" where
  "filter_names = [(''all'', FAll), (''leftovers'', FLeftovers), (''leftover'', FLeftovers), (''mcp'', FMcp),
     (''agents'', FAgents), (''agent'', FAgents), (''docker'', FDocker), (''project'', FProject)]"

text \<open>The name that is not known, in lower case, is the error.\<close>

definition filter_parse :: "string option \<Rightarrow> string + out_filter" where
  "filter_parse kind =
    (case kind of
       None \<Rightarrow> Inr FAll
     | Some s \<Rightarrow> (case map_of filter_names (ascii_lower s) of Some f \<Rightarrow> Inr f | None \<Rightarrow> Inl (ascii_lower s)))"

section \<open>Items\<close>

datatype json_item = JItem (jm_kind: string) (jm_name: string) (jm_pid: "pid option") (jm_project: "string option")
  (jm_memory: u64) (jm_status: string) (jm_ports: "u16 list") (jm_reasons: "string list") (jm_children: "json_item list")

fun in_report :: "string option \<Rightarrow> runtime_item \<Rightarrow> bool" where
  "in_report None i = True"
| "in_report (Some want) (RuntimeItem c n rt ps m s su po pj ch) =
    ((case pj of Some p \<Rightarrow> ascii_lower (pr_name p) = ascii_lower want | None \<Rightarrow> False)
     \<or> list_ex (in_report (Some want)) ch)"

definition type_name :: "runtime_state \<Rightarrow> category \<Rightarrow> string" where
  "type_name s c =
    (if s = Suspicious then ''leftover''
     else
       (case c of Agent \<Rightarrow> ''agent'' | Mcp \<Rightarrow> ''mcp'' | Browser \<Rightarrow> ''browser'' | DevServer \<Rightarrow> ''dev-server''
        | Database \<Rightarrow> ''database'' | LanguageServer \<Rightarrow> ''language-server'' | DevService \<Rightarrow> ''dev-service''
        | Worker \<Rightarrow> ''worker'' | UnknownDev \<Rightarrow> ''other''))"

definition state_name :: "runtime_state \<Rightarrow> string" where
  "state_name s = (case s of Active \<Rightarrow> ''active'' | Persistent \<Rightarrow> ''persistent'' | Suspicious \<Rightarrow> ''leftover'')"

definition kept :: "(runtime_item \<Rightarrow> bool) \<Rightarrow> string option \<Rightarrow> runtime_item \<Rightarrow> bool" where
  "kept keep pr i \<longleftrightarrow> keep i \<and> in_report pr i"

text \<open>Below an item that is kept, only children that are kept themselves are shown.\<close>

fun item_json :: "(runtime_item \<Rightarrow> bool) \<Rightarrow> string option \<Rightarrow> runtime_item \<Rightarrow> json_item" where
  "item_json keep pr (RuntimeItem c n rt ps m s su po pj ch) =
    JItem (type_name s c) (item_title (RuntimeItem c n rt ps m s su po pj ch)) rt (map_option pr_name pj) m (state_name s)
      (map lp_port po) (case su of Some x \<Rightarrow> map reason_as_str (sus_reasons x) | None \<Rightarrow> [])
      (map snd (filter fst (map (\<lambda>i. (kept keep pr i, item_json keep pr i)) ch)))"

fun report_item :: "(runtime_item \<Rightarrow> bool) \<Rightarrow> string option \<Rightarrow> runtime_item \<Rightarrow> json_item list" where
  "report_item keep pr (RuntimeItem c n rt ps m s su po pj ch) =
    (if kept keep pr (RuntimeItem c n rt ps m s su po pj ch)
     then [item_json keep pr (RuntimeItem c n rt ps m s su po pj ch)]
     else concat (map (report_item keep pr) ch))"

definition filter_items :: "runtime_item list \<Rightarrow> string option \<Rightarrow> (runtime_item \<Rightarrow> bool) \<Rightarrow> json_item list" where
  "filter_items items pr keep = concat (map (report_item keep pr) items)"

section \<open>Docker\<close>

record json_docker =
  jd_kind :: string
  jd_name :: string
  jd_status :: string
  jd_size :: u64
  jd_compose :: "string option"
  jd_anonymous :: bool
  jd_created :: int

definition docker_kind_name :: "docker_kind \<Rightarrow> string" where
  "docker_kind_name k = (case k of Container \<Rightarrow> ''container'' | DanglingImage \<Rightarrow> ''dangling-image''
     | Volume \<Rightarrow> ''volume'' | BuildCache \<Rightarrow> ''build-cache'')"

definition json_docker_row :: "docker_resource \<Rightarrow> json_docker" where
  "json_docker_row r =
    \<lparr>jd_kind = docker_kind_name (d_kind r), jd_name = d_name r, jd_status = d_detail r, jd_size = d_size r,
     jd_compose = d_compose r, jd_anonymous = d_anonymous r, jd_created = d_created r\<rparr>"

definition docker_is_leftover :: "docker_resource \<Rightarrow> bool" where
  "docker_is_leftover r \<longleftrightarrow>
    d_kind r = DanglingImage \<or> d_kind r = BuildCache \<or> d_detail r = ''stopped'' \<or> d_detail r = ''unused'' \<and> d_anonymous r"

section \<open>The report\<close>

definition filter_keep :: "out_filter \<Rightarrow> runtime_item \<Rightarrow> bool" where
  "filter_keep f i =
    (case f of FLeftovers \<Rightarrow> ri_state i = Suspicious | FMcp \<Rightarrow> ri_category i = Mcp | FAgents \<Rightarrow> ri_category i = Agent
     | _ \<Rightarrow> True)"

definition report :: "runtime_snapshot \<Rightarrow> out_filter \<Rightarrow> string option \<Rightarrow> json_item list \<times> json_docker list" where
  "report snap f pr =
    (if f = FDocker then [] else filter_items (sp_items snap) pr (filter_keep f),
     if f \<in> {FAll, FDocker, FLeftovers} then
       map json_docker_row (filter (\<lambda>r. f \<noteq> FLeftovers \<or> docker_is_leftover r) (ds_resources (sp_docker snap)))
     else [])"

text \<open>Padding counts characters.\<close>

definition pad_right :: "nat \<Rightarrow> string \<Rightarrow> string" where
  "pad_right w s = s @ replicate (w - char_count s) (CHR '' '')"

definition pad_left :: "nat \<Rightarrow> string \<Rightarrow> string" where
  "pad_left w s = replicate (w - char_count s) (CHR '' '') @ s"

fun plain_lines :: "nat \<Rightarrow> json_item \<Rightarrow> string list" where
  "plain_lines depth (JItem k n pd pj m s po rs ch) =
    (replicate (2 * depth) (CHR '' '') @ pad_right 12 k @ '' '' @ n
       @ (case pd of Some x \<Rightarrow> '' pid='' @ show_nat (unat x) | None \<Rightarrow> [])
       @ (case pj of Some x \<Rightarrow> '' project='' @ x | None \<Rightarrow> [])
       @ ''  '' @ s @ (if rs = [] then [] else ''  '' @ join_with ''; '' rs))
    # concat (map (plain_lines (depth + 1)) ch)"

definition docker_line :: "json_docker \<Rightarrow> string" where
  "docker_line d =
    ''docker  '' @ pad_right 12 (jd_kind d) @ '' '' @ pad_right 16 (jd_name d) @ '' ''
    @ pad_left 10 (show_nat (unat (jd_size d))) @ ''  '' @ jd_status d"

definition report_plain :: "runtime_snapshot \<Rightarrow> out_filter \<Rightarrow> string option \<Rightarrow> string" where
  "report_plain snap f pr =
    (let (is, ds) = report snap f pr; ls = concat (map (plain_lines 0) is) @ map docker_line ds
     in join_with [CHR 0x0A] (if ls = [] then [''none''] else ls))"

section \<open>Ports\<close>

record port_entry =
  pn_address :: string
  pn_port :: u16
  pn_pid :: pid
  pn_process :: "string option"
  pn_agent :: "string option"
  pn_session :: "string option"
  pn_state :: "string option"
  pn_source :: "string option"

text \<open>What the store knows of the owner, if the store and the identity of the boot are at hand.\<close>

record provenance =
  ow_store :: own_store
  ow_boot :: boot_id
  ow_pick :: "int list \<Rightarrow> int"

definition port_owner :: "provenance option \<Rightarrow> process_info option \<Rightarrow> pid \<Rightarrow> explanation option" where
  "port_owner prov p k =
    (case (prov, p) of
       (Some v, Some q) \<Rightarrow>
         (case from_process (ow_boot v) q of
            Some i \<Rightarrow>
              (case explain_process (ow_pick v) (ow_boot v) k (i_start i) (ow_store v) of Inr x \<Rightarrow> x | Inl e \<Rightarrow> None)
          | None \<Rightarrow> None)
     | _ \<Rightarrow> None)"

definition port_entry_of ::
  "(ip_addr \<Rightarrow> string) \<Rightarrow> (pid \<Rightarrow> string option) \<Rightarrow> process_info list \<Rightarrow> provenance option \<Rightarrow> listening_port \<Rightarrow> port_entry" where
  "port_entry_of addr cgroup_text ps prov p =
    (let q = find (\<lambda>x. p_pid x = lp_pid p) ps;
         e = \<lparr>pn_address = addr (lp_address p), pn_port = lp_port p, pn_pid = lp_pid p, pn_process = map_option p_name q,
              pn_agent = None, pn_session = None, pn_state = None, pn_source = None\<rparr>
     in case port_owner prov q (lp_pid p) of
          Some x \<Rightarrow>
            e\<lparr>pn_agent := Some (sr_agent (ex_session x)), pn_session := Some (show_session_id (sr_id (ex_session x))),
              pn_state := Some (if sr_ended (ex_session x) \<noteq> None then ''ended'' else ''active'')\<rparr>
        | None \<Rightarrow> e\<lparr>pn_source := Some (source_label (sr_source (detect_source cgroup_text ps (lp_pid p))))\<rparr>)"

definition collect_entries ::
  "(ip_addr \<Rightarrow> string) \<Rightarrow> (pid \<Rightarrow> string option) \<Rightarrow> listening_port list \<Rightarrow> process_info list \<Rightarrow> provenance option \<Rightarrow> port_entry list" where
  "collect_entries addr cgroup_text ports ps prov =
    sort_key (\<lambda>e. (pn_port e, pn_address e)) (map (port_entry_of addr cgroup_text ps prov) ports)"

definition display_addr :: "string \<Rightarrow> string" where
  "display_addr a = (if CHR '':'' \<in> set a then ''['' @ a @ '']'' else a)"

definition port_line :: "port_entry \<Rightarrow> string" where
  "port_line e =
    display_addr (pn_address e) @ '':'' @ show_nat (unat (pn_port e)) @ ''  ''
    @ (case pn_process e of Some n \<Rightarrow> n @ '' ('' @ show_nat (unat (pn_pid e)) @ '')''
       | None \<Rightarrow> ''pid '' @ show_nat (unat (pn_pid e))) @ ''  ''
    @ (case (pn_agent e, pn_state e) of
         (Some a, Some st) \<Rightarrow> ''session '' @ a @ '' ('' @ st @ '')''
       | _ \<Rightarrow> (case pn_source e of Some s \<Rightarrow> s | None \<Rightarrow> ''unknown''))"

definition ports_plain :: "port_entry list \<Rightarrow> string" where
  "ports_plain es = (if es = [] then ''none'' else join_with [CHR 0x0A] (map port_line es))"

end
