(* ===== verification/Cli.thy ===== *)
theory Cli
  imports Output Server Logs
begin

text \<open>
  The command line (\<open>src/main.rs\<close>): durations, the exit code of a run, copying and following its output,
  new limits, the explanation of a process, pruning, and the scanner loop behind the terminal interface.
  What a command prints besides text of a run is left out; the supervisor, the store, the scans and the
  engine are arguments.
\<close>

section \<open>Durations\<close>

datatype duration_error = NotADuration string | UnknownUnit char

definition is_alpha :: "char \<Rightarrow> bool" where
  "is_alpha c = (let n = of_char c :: nat in 65 \<le> n \<and> n \<le> 90 \<or> 97 \<le> n \<and> n \<le> 122)"

definition lower_char :: "char \<Rightarrow> char" where
  "lower_char c = (if CHR ''A'' \<le> c \<and> c \<le> CHR ''Z'' then char_of (of_char c + 32 :: nat) else c)"

text \<open>Whole seconds; the product wraps.\<close>

definition parse_duration :: "string \<Rightarrow> duration_error + u64" where
  "parse_duration s =
    (let t = trim s;
         (num, unit) = (if t \<noteq> [] \<and> is_alpha (last t) then (butlast t, lower_char (last t)) else (t, CHR ''s''))
     in case parse_u64 num of
          None \<Rightarrow> Inl (NotADuration t)
        | Some v \<Rightarrow>
            if unit = CHR ''s'' then Inr (max v 1)
            else if unit = CHR ''m'' then Inr (max (v * 60) 1)
            else if unit = CHR ''h'' then Inr (max (v * 3600) 1)
            else Inl (UnknownUnit unit))"

section \<open>Running a command\<close>

definition exit_code_of :: "run_view \<Rightarrow> int" where
  "exit_code_of v =
    (case v_outcome v of
       Some Exited \<Rightarrow> or_default 0 (v_exit_code v)
     | Some Signaled \<Rightarrow> 128 + or_default 0 (v_signal v)
     | Some TimedOut \<Rightarrow> EXIT_TIMED_OUT
     | Some Cancelled \<Rightarrow> EXIT_CANCELLED
     | Some ResourceLimit \<Rightarrow> EXIT_RESOURCE_LIMIT
     | _ \<Rightarrow> EXIT_SPAWN_FAILED)"

text \<open>The options of the command, with an absolute working directory.\<close>

record run_options =
  ro_timeout :: duration
  ro_grace :: duration
  ro_memory :: "u64 option"
  ro_enforce :: string
  ro_queue_timeout :: "duration option"
  ro_cpu :: "u32 option"
  ro_processes :: "u32 option"

definition enforce_parse :: "string \<Rightarrow> enforcement option" where
  "enforce_parse s =
    (if s = ''none'' then Some EnfNone else if s = ''monitored'' then Some Monitored
     else if s = ''hard'' then Some Hard else None)"

definition spec_of_options :: "run_options \<Rightarrow> string \<Rightarrow> string list \<Rightarrow> string \<Rightarrow> string + run_spec" where
  "spec_of_options o' rid args dir =
    (if \<not> starts_with dir ''/'' then Inl ''--cwd must be an absolute path''
     else
       (case enforce_parse (ro_enforce o') of
          None \<Rightarrow> Inl ''--enforce must be none|monitored|hard''
        | Some enf \<Rightarrow>
            Inr ((spec_new rid args dir)
              \<lparr>timeout := ro_timeout o', grace := ro_grace o',
               resources := \<lparr>rr_memory = map_option (\<lambda>mb. sat_mul mb (1024 * 1024)) (ro_memory o'), rr_cpu = ro_cpu o',
                 rr_processes = ro_processes o', rr_enforcement = enf, rr_queue_timeout = ro_queue_timeout o'\<rparr>\<rparr>)))"

section \<open>Copying the output of a run\<close>

text \<open>The cursor of each stream, whether it is still open, what was copied and the streams that were cut.\<close>

record copy_state =
  cy_cursor :: "stream \<Rightarrow> u64"
  cy_open :: "stream \<Rightarrow> bool"
  cy_text :: "(stream \<times> string) list"
  cy_cut :: "stream list"

definition copy_start :: copy_state where
  "copy_start = \<lparr>cy_cursor = (\<lambda>_. 0), cy_open = (\<lambda>_. True), cy_text = [], cy_cut = []\<rparr>"

type_synonym 'e reader = "stream \<Rightarrow> u64 \<Rightarrow> 'e + json"

definition json_bool :: "string \<Rightarrow> json \<Rightarrow> bool option" where
  "json_bool k j = (case json_get k j of Some (JBool b) \<Rightarrow> Some b | _ \<Rightarrow> None)"

definition copy_stream :: "'e reader \<Rightarrow> stream \<Rightarrow> copy_state \<Rightarrow> 'e + copy_state" where
  "copy_stream rd st s =
    (if \<not> cy_open s st then Inr s
     else
       (case rd st (cy_cursor s st) of
          Inl e \<Rightarrow> Inl e
        | Inr j \<Rightarrow>
            (let data = or_default [] (get_str ''data'' j);
                 s1 = s\<lparr>cy_text := (if data = [] then cy_text s else cy_text s @ [(st, data)]),
                        cy_cursor := (cy_cursor s)(st := or_default (cy_cursor s st) (get_u64 ''next_cursor'' j))\<rparr>
             in Inr (if or_default True (json_bool ''eof'' j)
                     then s1\<lparr>cy_open := (cy_open s)(st := False),
                             cy_cut := (if json_bool ''truncated'' j = Some True then cy_cut s @ [st] else cy_cut s)\<rparr>
                     else s1))))"

definition copy_round :: "'e reader \<Rightarrow> copy_state \<Rightarrow> 'e + copy_state" where
  "copy_round rd s = (case copy_stream rd Stdout s of Inl e \<Rightarrow> Inl e | Inr s1 \<Rightarrow> copy_stream rd Stderr s1)"

definition still_open :: "copy_state \<Rightarrow> bool" where "still_open s \<longleftrightarrow> cy_open s Stdout \<or> cy_open s Stderr"

text \<open>The supervisor may answer differently in every round; \<open>None\<close> when the rounds given do not suffice.\<close>

fun copy_loop :: "bool \<Rightarrow> 'e reader list \<Rightarrow> copy_state \<Rightarrow> ('e + copy_state) option" where
  "copy_loop follow [] s = (if still_open s then None else Some (Inr s))"
| "copy_loop follow (rd # rds) s =
    (if \<not> still_open s then Some (Inr s)
     else
       (case copy_round rd s of
          Inl e \<Rightarrow> Some (Inl e)
        | Inr s1 \<Rightarrow> if still_open s1 \<and> \<not> follow then Some (Inr s1) else copy_loop follow rds s1))"

definition print_run_output :: "bool \<Rightarrow> 'e reader list \<Rightarrow> ('e + copy_state) option" where
  "print_run_output follow rds = copy_loop follow rds copy_start"

section \<open>The retained output\<close>

text \<open>What one turn finds: the file of the stream, whether the run is over, and the flags of its logs.\<close>

record logs_turn =
  lt_file :: "u8 list option"
  lt_finished :: bool
  lt_truncated :: bool

fun logs_loop :: "(u8 list \<Rightarrow> string) \<Rightarrow> bool \<Rightarrow> logs_turn list \<Rightarrow> u64 \<Rightarrow> (string \<times> bool) option" where
  "logs_loop lossy follow [] cursor = None"
| "logs_loop lossy follow (t # ts) cursor =
    (let c = read_chunk lossy (lt_file t) cursor (64 * 1024) in
     if ck_eof c \<and> lt_finished t then Some (ck_data c, lt_truncated t)
     else if ck_eof c \<and> \<not> follow then Some (ck_data c, False)
     else map_option (\<lambda>(x, cut). (ck_data c @ x, cut)) (logs_loop lossy follow ts (ck_next_cursor c)))"

section \<open>New limits\<close>

definition plain_limits :: "string list" where
  "plain_limits = [''max_parallel'', ''max_parallel_per_project'', ''max_queued'', ''queue_timeout_secs'',
     ''starvation_after_secs'', ''cpu_budget_millicores'', ''pids_budget'']"

definition limit_field :: "string \<Rightarrow> u64 \<Rightarrow> (string \<times> u64) option" where
  "limit_field k v =
    (if k = ''memory_budget_mb'' then Some (''memory_budget_bytes'', sat_mul v (1024 * 1024))
     else if k = ''default_run_memory_mb'' then Some (''default_run_memory_bytes'', sat_mul v (1024 * 1024))
     else if k \<in> set plain_limits then Some (k, v) else None)"

datatype set_error = NoEquals string | NoNumber string string | UnknownLimit string

definition set_one :: "string \<Rightarrow> set_error + string \<times> u64" where
  "set_one item =
    (case split_once (CHR ''='') item of
       None \<Rightarrow> Inl (NoEquals item)
     | Some (k, t) \<Rightarrow>
         (case parse_u64 t of
            None \<Rightarrow> Inl (NoNumber k t)
          | Some v \<Rightarrow> (case limit_field k v of Some f \<Rightarrow> Inr f | None \<Rightarrow> Inl (UnknownLimit k))))"

fun set_fields :: "string list \<Rightarrow> (string \<times> json) list \<Rightarrow> set_error + (string \<times> json) list" where
  "set_fields [] fs = Inr fs"
| "set_fields (i # is) fs =
    (case set_one i of Inl e \<Rightarrow> Inl e | Inr (k, v) \<Rightarrow> set_fields is (put_field k (j_u v) fs))"

section \<open>Why\<close>

definition ended_code :: "session_record \<Rightarrow> nat" where "ended_code r = (if sr_ended r \<noteq> None then 1 else 0)"

text \<open>The exit code of the explanation: 5 when the store fails.\<close>

definition why_code ::
  "(int list \<Rightarrow> int) \<Rightarrow> process_info list option \<Rightarrow> (own_store \<times> boot_id) option \<Rightarrow> bool \<Rightarrow> pid \<Rightarrow> nat" where
  "why_code pick scan db tree k =
    (case scan of
       None \<Rightarrow> 5
     | Some ps \<Rightarrow>
         (case find (\<lambda>p. p_pid p = k) ps of
            None \<Rightarrow> 2
          | Some p \<Rightarrow>
              if tree then 0
              else
                (case db of
                   None \<Rightarrow> 5
                 | Some (st, b) \<Rightarrow>
                     (case from_process b p of
                        None \<Rightarrow> 2
                      | Some i \<Rightarrow>
                          (case explain_process pick b k (i_start i) st of
                             Inl e \<Rightarrow> 5
                           | Inr (Some x) \<Rightarrow> ended_code (ex_session x)
                           | Inr None \<Rightarrow>
                               (case session_for_root pick b k (i_start i) st of Some r \<Rightarrow> ended_code r | None \<Rightarrow> 1))))))"

section \<open>Updating and pruning\<close>

definition updater_for :: "string \<Rightarrow> (string \<times> string list) option" where
  "updater_for p =
    (if str_contains p ''Cellar/wyd'' then Some (''brew'', [''upgrade'', ''wyd''])
     else if str_contains p ''/.cargo/'' \<or> str_contains p ''/cargo/bin/'' then Some (''cargo'', [''install'', ''wyd''])
     else if str_contains p ''/.local/bin/'' then Some (''sh'', [''-c'', ''curl -fsSL https://wyd.sh/install.sh | sh''])
     else None)"

datatype prune_result = DockerDown | NothingToPrune | DryRun nat u64 | Aborted | PruneFailed string | Pruned u32

definition run_prune ::
  "docker_engine \<Rightarrow> docker_snapshot \<Rightarrow> bool \<Rightarrow> bool \<Rightarrow> string \<Rightarrow> prune_result \<times> docker_call list" where
  "run_prune e d dry yes answer =
    (if \<not> ds_ok d then (DockerDown, [])
     else if fst (prunable_stats d) = 0 then (NothingToPrune, [])
     else if dry then (DryRun (fst (prunable_stats d)) (snd (prunable_stats d)), [])
     else if \<not> yes \<and> ascii_lower (trim answer) \<noteq> ''y'' then (Aborted, [])
     else
       (case prune_anonymous e (prunable_ids d) of
          (Inl err, cs) \<Rightarrow> (PruneFailed err, cs)
        | (Inr (n, bytes), cs) \<Rightarrow> (Pruned n, cs)))"

section \<open>The scanner loop\<close>

record scan_state =
  ss_snapshot :: runtime_snapshot
  ss_cache :: project_cache
  ss_docker :: docker_snapshot
  ss_version :: u64
  ss_tracker :: tracker

text \<open>One turn: a failing process scan changes nothing; Docker is asked in the first and in every third
  turn.  \<open>None\<close> if grouping does not return.\<close>

definition scan_turn ::
  "config \<Rightarrow> file_system \<Rightarrow> u64 \<Rightarrow> pid list \<Rightarrow> row_order \<Rightarrow> scan \<Rightarrow> scan_state \<Rightarrow> scan_state option" where
  "scan_turn cfg fs now order ro sc s =
    (case sc_processes sc of
       None \<Rightarrow> Some s
     | Some ps \<Rightarrow>
         (case group (cf_signatures cfg) ps of
            None \<Rightarrow> None
          | Some items \<Rightarrow>
              (let (attached, cache) = attach (cf_signatures cfg) fs ps (or_default [] (sc_ports sc)) order items (ss_cache s);
                   marked = mark_items cfg now ps attached;
                   t = tracker_record ro now ps marked (ss_tracker s);
                   shown = layer_session_leftovers ro t marked ps;
                   v = ss_version s + 1;
                   d = (if v = 1 \<or> v mod 3 = 0 then sc_docker sc else ss_docker s)
               in Some \<lparr>ss_snapshot = \<lparr>sp_items = shown, sp_processes = ps, sp_docker = d, sp_total_memory = sc_total sc,
                          sp_used_memory = sc_used sc, sp_sessions = tracker_sessions t, sp_version = v\<rparr>,
                        ss_cache = cache, ss_docker = d, ss_version = v, ss_tracker = t\<rparr>)))"

text \<open>The marks of ended sessions on a snapshot of the command line.\<close>

definition session_aware_snapshot ::
  "row_order \<Rightarrow> (own_store \<times> boot_id) option \<Rightarrow> runtime_snapshot \<Rightarrow> runtime_snapshot" where
  "session_aware_snapshot ro db snap =
    (case db of
       None \<Rightarrow> snap
     | Some (st, b) \<Rightarrow> snap\<lparr>sp_items := apply_session_leftovers ro (sp_items snap) (sp_processes snap) st b\<rparr>)"

end
