(* ===== verification/Cli_Props.thy ===== *)
theory Cli_Props
  imports Cli
begin

text \<open>
  What the command line prints of a run: following the retained file shows all of it, while the copy made
  at the end of a run is its first piece only; and what the report of items keeps.
\<close>

section \<open>Output of a run\<close>

lemma chunk_fields:
  "get_str ''data'' (chunk_json st c) = Some (ck_data c)" "get_u64 ''next_cursor'' (chunk_json st c) = Some (ck_next_cursor c)"
  "json_bool ''eof'' (chunk_json st c) = Some (ck_eof c)" "json_bool ''truncated'' (chunk_json st c) = Some (ck_truncated c)"
  by (simp_all add: chunk_json_def get_str_def get_u64_def json_bool_def json_get_def)

text \<open>What the supervisor answers for a run that is over.\<close>

definition file_reader :: "(u8 list \<Rightarrow> string) \<Rightarrow> (stream \<Rightarrow> u8 list) \<Rightarrow> (stream \<Rightarrow> bool) \<Rightarrow> 'e reader" where
  "file_reader lossy kept_of flag = (\<lambda>st cur. Inr (chunk_json st ((read_chunk lossy (Some (kept_of st)) cur (64 * 1024))\<lparr>ck_truncated := flag st\<rparr>)))"

lemma first_chunk:
  assumes "length bytes < 2 ^ 64"
  shows "ck_data (read_chunk lossy (Some bytes) 0 (64 * 1024)) = lossy (take 65536 bytes)"
    and "ck_eof (read_chunk lossy (Some bytes) 0 (64 * 1024)) \<longleftrightarrow> length bytes \<le> 65536"
  using read_chunk_nat[OF assms, of "64 * 1024" 0 lossy] by (simp_all add: min_def)

lemma copy_file:
  assumes "length (kept_of st) < 2 ^ 64" "cy_open s st" "cy_cursor s st = 0"
  obtains s1 where "copy_stream (file_reader lossy kept_of flag) st s = Inr s1"
    "cy_text s1 = cy_text s @ filter (\<lambda>p. snd p \<noteq> []) [(st, lossy (take 65536 (kept_of st)))]"
    "cy_cut s1 = cy_cut s @ filter (\<lambda>st. flag st \<and> length (kept_of st) \<le> 65536) [st]"
    "\<And>st'. st' \<noteq> st \<Longrightarrow> cy_open s1 st' = cy_open s st' \<and> cy_cursor s1 st' = cy_cursor s st'"
  using first_chunk[OF assms(1), of lossy] assms(2,3) that
  by (simp add: copy_stream_def file_reader_def chunk_fields or_default_def Let_def)

text \<open>C37: At the end of a run the command copies exactly the first 64 KiB of each stream of output, whatever
  the rest: it neither goes on nor says so, and a stream cut at its log limit is named only if what was
  retained of it is no longer than that.\<close>

theorem run_copies_first_chunk:
  fixes rds :: "'e reader list"
  assumes "length (kept_of Stdout) < 2 ^ 64" "length (kept_of Stderr) < 2 ^ 64"
  shows "\<exists>s. print_run_output False (file_reader lossy kept_of flag # rds) = Some (Inr s)
    \<and> cy_text s = filter (\<lambda>p. snd p \<noteq> []) (map (\<lambda>st. (st, lossy (take 65536 (kept_of st)))) [Stdout, Stderr])
    \<and> cy_cut s = filter (\<lambda>st. flag st \<and> length (kept_of st) \<le> 65536) [Stdout, Stderr]"
proof -
  let ?rd = "file_reader lossy kept_of flag :: 'e reader"
  obtain s1 where s1: "copy_stream ?rd Stdout copy_start = Inr s1"
    "cy_text s1 = filter (\<lambda>p. snd p \<noteq> []) [(Stdout, lossy (take 65536 (kept_of Stdout)))]"
    "cy_cut s1 = filter (\<lambda>st. flag st \<and> length (kept_of st) \<le> 65536) [Stdout]"
    "cy_open s1 Stderr" "cy_cursor s1 Stderr = 0"
    by (rule copy_file[where st = Stdout and kept_of = kept_of and s = copy_start and lossy = lossy and flag = flag]) (use assms(1) in \<open>auto simp: copy_start_def\<close>)
  obtain s2 where s2: "copy_stream ?rd Stderr s1 = Inr s2"
    "cy_text s2 = cy_text s1 @ filter (\<lambda>p. snd p \<noteq> []) [(Stderr, lossy (take 65536 (kept_of Stderr)))]"
    "cy_cut s2 = cy_cut s1 @ filter (\<lambda>st. flag st \<and> length (kept_of st) \<le> 65536) [Stderr]"
    using copy_file[where st = Stderr and kept_of = kept_of and s = s1 and lossy = lossy and flag = flag, OF assms(2) s1(4,5)] by metis
  have "copy_loop False (?rd # rds) copy_start = Some (Inr s2)"
    using s1(1) s2(1) by (cases rds) (auto simp: copy_round_def still_open_def copy_start_def)
  then show ?thesis using s1(2,3) s2(2,3) by (auto simp: print_run_output_def)
qed

lemma logs_are_read_all:
  "lt_finished t \<Longrightarrow>
    logs_loop lossy follow (replicate n t) cursor
      = map_option (\<lambda>x. (x, lt_truncated t)) (read_all n lossy (lt_file t) cursor (64 * 1024))"
  by (induction n arbitrary: cursor) (auto simp: Let_def option.map_comp o_def)


definition ascii_text :: "u8 list \<Rightarrow> string" where "ascii_text bs = map (\<lambda>b. char_of (unat b)) bs"

theorem run_copies_first_chunk_witness:
  "\<exists>s. print_run_output False [file_reader ascii_text (\<lambda>st. if st = Stdout then [97] else []) (\<lambda>st. False) :: string reader]
      = Some (Inr s) \<and> cy_text s = [(Stdout, ''a'')] \<and> cy_cut s = []"
  using run_copies_first_chunk[of "\<lambda>st. if st = Stdout then [97] else []" ascii_text "\<lambda>st. False" "[] :: string reader list"]
  by (simp add: ascii_text_def char_of_def bit_Suc_0_iff)

definition short_turn :: logs_turn where
  "short_turn = \<lparr>lt_file = Some [97, 98], lt_finished = True, lt_truncated = True\<rparr>"


text \<open>A run stopped for its memory and a run that was killed by SIGKILL end the command with the same code.\<close>

lemma exit_code_ambiguous:
  "v_outcome v = Some ResourceLimit \<Longrightarrow> v_outcome u = Some Signaled \<Longrightarrow> v_signal u = Some 9 \<Longrightarrow>
    exit_code_of v = exit_code_of u"
  by (simp add: exit_code_of_def EXIT_RESOURCE_LIMIT_def or_default_def)

section \<open>Durations\<close>

lemma trim_number: "no_space w \<Longrightarrow> trim w = w"
proof -
  have "list_all (\<lambda>c. \<not> is_space c) xs \<Longrightarrow> dropWhile is_space xs = xs" for xs by (cases xs) auto
  then show "no_space w \<Longrightarrow> trim w = w" by (simp add: trim_def trim_start_def trim_end_def no_space_def)
qed

text \<open>Minutes are sixty seconds modulo \<open>2 ^ 64\<close>, but at least one.\<close>

lemma minutes_wrap: "parse_duration (show_nat (unat n) @ ''m'') = Inr (max (n * 60) 1)" for n :: u64
proof -
  have "no_space (show_nat (unat n) @ ''m'')"
    using show_nat_no_space[of "unat n"] by (simp add: no_space_def is_space_def)
  then have "trim (show_nat (unat n) @ ''m'') = show_nat (unat n) @ ''m''" by (rule trim_number)
  moreover have "parse_u64 (show_nat (unat n)) = Some n" by (simp add: parse_u64_def parse_show_uint[OF unat_u64_less])
  moreover have "is_alpha CHR ''m''" "lower_char CHR ''m'' = CHR ''m''" by (simp_all add: is_alpha_def lower_char_def less_char_def less_eq_char_def)
  ultimately show ?thesis by (simp add: parse_duration_def Let_def butlast_append)
qed

section \<open>The report of items\<close>

fun json_flat :: "json_item \<Rightarrow> json_item list" where
  "json_flat (JItem k n pd pj m s po rs ch) = JItem k n pd pj m s po rs ch # concat (map json_flat ch)"

lemma item_names:
  "map jm_name (json_flat (item_json (\<lambda>_. True) None i)) = map item_title (walk_order i)"
proof (induction i rule: walk_order.induct)
  case (1 c n rt ps m s su po pj ch)
  have "map jm_name (concat (map (json_flat \<circ> item_json (\<lambda>_. True) None) ch)) = map item_title (concat (map walk_order ch))"
    using 1 by (induction ch) auto
  then show ?case by (simp add: kept_def o_def filter_map map_concat)
qed

text \<open>Without a filter every item is reported once, in the order of the tree.\<close>

lemma all_items_reported:
  "map jm_name (concat (map json_flat (fst (report snap FAll None)))) = map item_title (all_items (sp_items snap))"
proof -
  have "report_item (\<lambda>_. True) None i = [item_json (\<lambda>_. True) None i]" for i by (cases i) (simp add: kept_def)
  moreover have "filter_keep FAll = (\<lambda>_. True)" by (simp add: filter_keep_def fun_eq_iff)
  ultimately show ?thesis
    by (simp add: report_def filter_items_def all_items_def map_concat o_def item_names)
qed

end
