(* ===== verification/Cli_Text.thy ===== *)
theory Cli_Text
  imports Cli
begin

text \<open>
  What the commands for runs, capacity and explanations print (\<open>src/main.rs\<close>), line by line.
\<close>

section \<open>Runs\<close>

definition cut_cmd :: "string \<Rightarrow> nat \<Rightarrow> string" where
  "cut_cmd s n = (if char_count s \<le> n then s else take_chars (n - 1) s @ utf8 [0xE2, 0x80, 0xA6])"

text \<open>A state that is not known lists all states.\<close>

definition runs_filter :: "string option \<Rightarrow> string option \<Rightarrow> nat \<Rightarrow> run_filter" where
  "runs_filter state project limit =
    \<lparr>rf_project = project, rf_session = None, rf_state = Option.bind state state_parse, rf_limit = Some limit\<rparr>"

definition listed_run :: "run_view \<Rightarrow> string" where
  "listed_run v =
    pad_left 4 (v_run_id v) @ ''  '' @ pad_right 9 (state_as_str (v_state v)) @ '' ''
    @ pad_right 13 (case v_outcome v of Some x \<Rightarrow> outcome_as_str x | None \<Rightarrow> ''-'') @ '' ''
    @ pad_left 8 (show_nat (unat (or_default 0 (v_duration_ms v))) @ ''ms'') @ ''  ''
    @ cut_cmd (join_with '' '' (v_argv v)) 70"

definition run_runs ::
  "bool \<Rightarrow> bool \<Rightarrow> string option \<Rightarrow> string option \<Rightarrow> nat \<Rightarrow> run_store \<Rightarrow> Run_Store.store_error + string list" where
  "run_runs macos cgroup state project limit st =
    (case run_list (runs_filter state project limit) st of
       Inl e \<Rightarrow> Inl e
     | Inr [] \<Rightarrow> Inr [''no runs'']
     | Inr rs \<Rightarrow> Inr (map (\<lambda>r. listed_run (view_from_record macos cgroup r)) rs))"

definition run_cancel_line :: "client_error + run_view option \<Rightarrow> client_error + string" where
  "run_cancel_line r =
    (case r of
       Inl e \<Rightarrow> Inl e
     | Inr None \<Rightarrow> Inl NotFound
     | Inr (Some v) \<Rightarrow> Inr (''run '' @ v_run_id v @ '' '' @ state_as_str (v_state v)))"

section \<open>Capacity\<close>

definition in_mib :: "u64 \<Rightarrow> string" where "in_mib b = show_nat (unat (b div (1024 * 1024)))"

definition queue_entry_line :: "queue_entry \<Rightarrow> string" where
  "queue_entry_line q =
    ''  queued   #'' @ show_nat (qe_position q) @ '' run '' @ qe_run_id q @ '' '' @ qe_reason q @ '' (''
    @ show_nat (unat (qe_waiting_ms q div 1000)) @ ''s)''"

definition capacity_text :: "capacity \<Rightarrow> string list" where
  "capacity_text c =
    (let l = c_limits c in
     [''slots      '' @ show_nat (c_running c) @ ''/'' @ show_nat (ls_max_parallel l) @ '' used (''
        @ show_nat (ls_max_parallel_per_project l) @ '' per project)'',
      ''queue      '' @ show_nat (c_queued c) @ '' waiting, '' @ show_nat (ls_max_queued l) @ '' max, ''
        @ show_nat (unat (ls_queue_timeout_secs l)) @ ''s timeout'',
      ''reserved   '' @ in_mib (c_reserved c) @ '' of '' @ in_mib (ls_memory_budget l) @ '' MiB (default ''
        @ in_mib (ls_default_run_memory l) @ '' MiB per run)'']
     @ (case c_aggregate_cpu c of
          Some m \<Rightarrow> [''kernel cpu  '' @ show_nat (unat m) @ '' millicores across all runs''] | None \<Rightarrow> [])
     @ (case c_aggregate_pids c of Some p \<Rightarrow> [''kernel pids '' @ show_nat (unat p) @ '' across all runs''] | None \<Rightarrow> [])
     @ (if c_over_parallel c then
          [''warning    '' @ show_nat (c_running c) @ '' run(s) still active above the new limit; they are not killed'']
        else [])
     @ [''note       '' @ c_reservation_note c] @ map queue_entry_line (c_queue c))"

text \<open>Without a supervisor the configured limits of an empty machine are shown.\<close>

definition idle_capacity :: "limit_summary \<Rightarrow> nat \<Rightarrow> backend_capabilities \<Rightarrow> capacity" where
  "idle_capacity l parallel caps =
    \<lparr>c_limits = l, c_running = 0, c_queued = 0, c_slots_free = max parallel 1, c_reserved = 0, c_projects = [], c_queue = [],
     c_over_parallel = False, c_aggregate_memory = None, c_aggregate_cpu = None, c_aggregate_pids = None,
     c_reservation_note = ''no supervisor running; these are the configured limits'', c_capabilities = caps\<rparr>"

section \<open>Explanations\<close>

definition sign_text :: "u8 \<Rightarrow> string" where "sign_text v = (if v = 0 then [] else '' +'' @ show_nat (unat v))"

definition candidate_lines :: "candidate_record \<Rightarrow> string list" where
  "candidate_lines c =
    (if kr_rejected c \<noteq> None then []
     else
       (''  candidate '' @ show_session_id (kr_session c) @ '': anchor '' @ kr_anchor c @ '' ''
        @ show_nat (unat (kr_anchor_score c)) @ sign_text (kr_project c) @ sign_text (kr_temporal c)
        @ sign_text (kr_relationship c) @ '' = '' @ show_nat (unat (kr_total c)))
       # map (\<lambda>(k, v). ''    evidence: '' @ evidence_as_str k @ '' ('' @ v @ '')'') (kr_evidence c))"

definition decision_lines :: "decision_record \<Rightarrow> string list" where
  "decision_lines d =
    [''attribution:    '' @ dr_verdict d @ '' (resolver v'' @ show_nat (unat (dr_version d)) @ '')'']
    @ (case dr_winner d of Some w \<Rightarrow> [''winner:         session '' @ show_session_id w] | None \<Rightarrow> [])
    @ concat (map candidate_lines (dr_candidates d))"

definition owner_lines :: "session_record \<Rightarrow> decision_record option \<Rightarrow> string list" where
  "owner_lines s d =
    [''origin session: '' @ sr_agent s @ '' '' @ show_session_id (sr_id s)]
    @ (case sr_project s of Some p \<Rightarrow> [''project:        '' @ p] | None \<Rightarrow> [])
    @ [case sr_ended s of Some t \<Rightarrow> ''session:        ended at '' @ show_nat (unat t)
       | None \<Rightarrow> ''session:        active (since '' @ show_nat (unat (sr_started s)) @ '')'']
    @ (case d of Some x \<Rightarrow> decision_lines x | None \<Rightarrow> [])"

definition chain_part :: "process_info \<Rightarrow> string" where
  "chain_part p = p_name p @ '' ('' @ show_nat (unat (p_pid p)) @ '')''"

definition source_lines :: "(pid \<Rightarrow> string option) \<Rightarrow> process_info list \<Rightarrow> process_info \<Rightarrow> string list" where
  "source_lines cgroup_text ps target =
    (let r = detect_source cgroup_text ps (p_pid target) in
     [''no recorded owner'', ''source:   '' @ source_label (sr_source r),
      ''ancestry: '' @ join_with ('' '' @ utf8 [0xE2, 0x86, 0x92] @ '' '') (map chain_part (sr_chain r) @ [chain_part target])])"

definition root_line :: "session_record \<Rightarrow> string" where
  "root_line s =
    ''session root of: '' @ sr_agent s @ '' '' @ show_session_id (sr_id s) @ '' (''
    @ (if sr_ended s \<noteq> None then ''ended'' else ''active'') @ '' since '' @ show_nat (unat (sr_started s)) @ '')''"

text \<open>The lines of an explanation: of a process that is running and has an identity; \<open>None\<close> if the store
  fails.\<close>

definition why_lines ::
  "(int list \<Rightarrow> int) \<Rightarrow> (candidate_row list \<Rightarrow> candidate_row list) \<Rightarrow> (evidence_row list \<Rightarrow> evidence_row list)
     \<Rightarrow> (pid \<Rightarrow> string option) \<Rightarrow> process_info list \<Rightarrow> own_store \<Rightarrow> boot_id \<Rightarrow> process_info \<Rightarrow> identity \<Rightarrow> string list option" where
  "why_lines pick scan_c scan_e cgroup_text ps st b p i =
    map_option (\<lambda>ls. (proc_label p @ '' pid '' @ show_nat (unat (p_pid p))) # ls)
      (case explain_process pick b (p_pid p) (id_start i) st of
         Inl e \<Rightarrow> None
       | Inr (Some x) \<Rightarrow> Some (owner_lines (ex_session x) (latest_decision scan_c scan_e (ex_resource x) st))
       | Inr None \<Rightarrow>
           Some (case session_for_root pick b (p_pid p) (id_start i) st of
                   Some s \<Rightarrow> [root_line s] | None \<Rightarrow> source_lines cgroup_text ps p))"

section \<open>Sessions\<close>

definition sessions_listing :: "own_store \<Rightarrow> json" where "sessions_listing st = j_list session_json (own_sessions st)"

section \<open>Facts\<close>

text \<open>An unknown state is no filter at all.\<close>

lemma unknown_state_lists_all:
  "state_parse s = None \<Longrightarrow> run_runs macos cgroup (Some s) project limit st = run_runs macos cgroup None project limit st"
  by (simp add: run_runs_def runs_filter_def)

end
