(* ===== verification/Mcp.thy ===== *)
theory Mcp
  imports Server
begin

text \<open>
  The server for coding agents on standard input and output (\<open>src/mcp.rs\<close>): one JSON message on a line,
  at most one answer.  The tools read the store or call the supervisor through its client; starting a
  supervisor, whether one answers, the text of an error and of a pretty-printed value are arguments.  The
  collector thread it starts beside itself is left out.
\<close>

section \<open>World\<close>

text \<open>\<open>mx_store\<close>: the store can be opened; \<open>mx_alive\<close>: a supervisor listens on the socket;
  \<open>mx_handshake\<close>: it answers a ping; \<open>mx_start\<close>: starting one.\<close>

datatype mcp_error = StoreClosed | RunDisabled string | Told string | NotStarted string | FromClient client_error
  | FromStore Run_Store.store_error | FromServer server_error | RunNotFound run_id

record mcp_world =
  mx_server :: server_world
  mx_text :: json_text
  mx_pretty :: "json \<Rightarrow> string"
  mx_say :: "mcp_error \<Rightarrow> string"
  mx_store :: bool
  mx_alive :: bool
  mx_handshake :: bool
  mx_start :: "server \<Rightarrow> string + server"
  mx_env :: "(string \<times> string) list"

definition PROTOCOL_VERSION :: string where "PROTOCOL_VERSION = ''2025-11-25''"

definition ensure_supervisor :: "mcp_world \<Rightarrow> server \<Rightarrow> mcp_error + server" where
  "ensure_supervisor w s =
    (if mx_handshake w then Inr s else (case mx_start w s of Inl e \<Rightarrow> Inl (NotStarted e) | Inr s' \<Rightarrow> Inr s'))"

section \<open>The list of tools\<close>

definition field_schema :: "string \<times> string \<times> string \<Rightarrow> string \<times> json" where
  "field_schema f =
    (let (name, ty, text) = f in
     (name, JObj ([(''type'', JStr ty)] @ (if text = [] then [] else [(''description'', JStr text)]))))"

text \<open>An object with these fields, those that are required, and whether others are refused.\<close>

definition object_schema :: "(string \<times> string \<times> string) list \<Rightarrow> string list \<Rightarrow> bool \<Rightarrow> json" where
  "object_schema fs required strict = JObj
    ([(''type'', JStr ''object''), (''properties'', JObj (map field_schema fs))]
     @ (if required = [] then [] else [(''required'', j_list JStr required)])
     @ (if strict then [(''additionalProperties'', JBool False)] else []))"

definition tool_json :: "string \<Rightarrow> string \<Rightarrow> json \<Rightarrow> json" where
  "tool_json name text schema = JObj [(''name'', JStr name), (''description'', JStr text), (''inputSchema'', schema)]"

definition read_tools :: "json list" where
  "read_tools =
    [tool_json ''list_sessions''
       ''List recorded coding-agent runtime sessions (id, agent, project, state, started_at).'' (object_schema [] [] True),
     tool_json ''explain'' ''Explain which session owns a process (by pid): origin session, project, state.''
       (object_schema [(''pid'', ''integer'', ''process id'')] [''pid''] False),
     tool_json ''list_runs'' ''List managed runs started through wyd (id, state, command, duration).''
       (object_schema
          [(''state'', ''string'', ''queued|starting|running|stopping|finished''),
           (''project'', ''string'', ''absolute project root''), (''session'', ''string'', ''session id (hex)''),
           (''limit'', ''integer'', [])] [] True),
     tool_json ''get_run''
       ''Get one managed run's state, result and cleanup report. Optionally waits for a newer revision.''
       (object_schema
          [(''run_id'', ''string'', []), (''after_revision'', ''integer'', ''wait for a revision newer than this''),
           (''wait_ms'', ''integer'', ''bounded wait, max 60000'')] [''run_id''] True),
     tool_json ''get_capacity''
       ''Read-only admission capacity: limits, running/queued counts, reserved memory and queue positions.''
       (object_schema [] [] True),
     tool_json ''read_run_output'' ''Read a bounded chunk of a run's captured stdout or stderr from a byte cursor.''
       (object_schema
          [(''run_id'', ''string'', []), (''stream'', ''string'', ''stdout|stderr''), (''cursor'', ''integer'', []),
           (''max_bytes'', ''integer'', [])] [''run_id''] True)]"

text \<open>The type of an argument list, of strings.\<close>

definition argv_schema :: json where
  "argv_schema = JObj [(''type'', JStr ''array''), (''items'', JObj [(''type'', JStr ''string'')]),
     (''description'', JStr ''executable and arguments, no implicit shell'')]"

definition start_schema :: json where
  "start_schema = JObj
    [(''type'', JStr ''object''),
     (''properties'', JObj
        ([field_schema (''request_id'', ''string'', ''idempotency key''), (''argv'', argv_schema)]
         @ map field_schema
            [(''cwd'', ''string'', ''absolute working directory''), (''timeout_ms'', ''integer'', []),
             (''memory_mb'', ''integer'',
              ''reserved memory; with enforcement=monitored it is the stop threshold''),
             (''enforcement'', ''string'',
              ''none|monitored|hard; hard is refused when the backend cannot enforce it''),
             (''queue_timeout_ms'', ''integer'', ''how long the request may wait for a slot''),
             (''cpu_millicores'', ''integer'', []), (''processes'', ''integer'', []),
             (''session_id'', ''string'', ''originating session id (metadata, not authorization)''),
             (''project_root'', ''string'', [])])),
     (''required'', j_list JStr [''request_id'', ''argv'', ''cwd'']), (''additionalProperties'', JBool False)]"

definition run_tools :: "json list" where
  "run_tools =
    [tool_json ''start_run''
       (''Start a command on the HOST through wyd's supervisor (not sandboxed). ''
        @ ''Returns a run id; execution continues even if this connection drops.'') start_schema,
     tool_json ''cancel_run'' ''Ask a run to stop. Idempotent: repeating it returns the current status.''
       (object_schema [(''run_id'', ''string'', [])] [''run_id''] True)]"

definition tools :: "bool \<Rightarrow> json list" where
  "tools allow_run = read_tools @ (if allow_run then run_tools else [])"

section \<open>Tools for runs\<close>

text \<open>The value of a tool before it is printed; \<open>None\<close> is the text \<open>null\<close>.\<close>

type_synonym tool_result = "mcp_error + json option"

definition of_view :: "client_error + run_view \<Rightarrow> tool_result" where
  "of_view r = (case r of Inl e \<Rightarrow> Inl (FromClient e) | Inr v \<Rightarrow> Inr (Some (run_view_json v)))"

definition of_opt_view :: "client_error + run_view option \<Rightarrow> tool_result" where
  "of_opt_view r = (case r of Inl e \<Rightarrow> Inl (FromClient e) | Inr v \<Rightarrow> Inr (map_option run_view_json v))"

definition record_json :: "mcp_world \<Rightarrow> run_record \<Rightarrow> json" where
  "record_json w r =
    run_view_json (view_from_record (cx_macos (sw_ctx (mx_server w))) (cx_cgroup (sw_ctx (mx_server w))) r)"

definition tool_filter :: "json \<Rightarrow> run_filter" where
  "tool_filter args =
    \<lparr>rf_project = get_str ''project'' args, rf_session = map_option session_arg (get_str ''session'' args),
     rf_state = Option.bind (get_str ''state'' args) state_parse, rf_limit = map_option unat (get_u64 ''limit'' args)\<rparr>"

definition tool_list_runs :: "mcp_world \<Rightarrow> json \<Rightarrow> server \<Rightarrow> tool_result" where
  "tool_list_runs w args s =
    (case run_list (tool_filter args) (sv_store (srv_sup s)) of
       Inl e \<Rightarrow> Inl (FromStore e)
     | Inr rs \<Rightarrow> Inr (Some (j_list (record_json w) rs)))"

definition tool_get_run :: "mcp_world \<Rightarrow> json \<Rightarrow> server \<Rightarrow> tool_result \<times> server" where
  "tool_get_run w args s =
    (case run_id_arg args of
       Inl e \<Rightarrow> (Inl (FromServer e), s)
     | Inr i \<Rightarrow>
         if \<not> mx_alive w then
           (case run_get i (sv_store (srv_sup s)) of
              Inl e \<Rightarrow> (Inl (FromStore e), s)
            | Inr r \<Rightarrow> (Inr (map_option (record_json w) r), s))
         else
           (let (r, s') = client_get (mx_text w) (mx_server w) i (Option.bind (json_get ''after_revision'' args) num_i64)
                            (or_default 0 (get_u64 ''wait_ms'' args)) s
            in (of_opt_view r, s')))"

definition tool_stream :: "json \<Rightarrow> stream" where
  "tool_stream args = (if get_str ''stream'' args = Some ''stderr'' then Stderr else Stdout)"

definition cut_flag :: "stream \<Rightarrow> log_state \<Rightarrow> bool" where
  "cut_flag st l = (case st of Stdout \<Rightarrow> stdout_truncated l | Stderr \<Rightarrow> stderr_truncated l)"

definition tool_read_output :: "mcp_world \<Rightarrow> json \<Rightarrow> server \<Rightarrow> tool_result \<times> server" where
  "tool_read_output w args s =
    (case run_id_arg args of
       Inl e \<Rightarrow> (Inl (FromServer e), s)
     | Inr i \<Rightarrow>
         (let st = tool_stream args; cursor = or_default 0 (get_u64 ''cursor'' args) in
          if mx_alive w then
            (case client_output (mx_text w) (mx_server w) i st cursor (max_bytes_arg args) s of
               (Inl e, s') \<Rightarrow> (Inl (FromClient e), s')
             | (Inr j, s') \<Rightarrow> (Inr (Some j), s'))
          else
            (case run_get i (sv_store (srv_sup s)) of
               Inl e \<Rightarrow> (Inl (FromStore e), s)
             | Inr None \<Rightarrow> (Inl (RunNotFound i), s)
             | Inr (Some r) \<Rightarrow>
                 (let c = read_chunk (sw_lossy (mx_server w)) (sw_file (mx_server w) i st) cursor (max_bytes_arg args)
                  in (Inr (Some (chunk_json st (c\<lparr>ck_truncated := cut_flag st (rec_logs r)\<rparr>))), s)))))"

text \<open>The request a tool call describes.\<close>

definition tool_enforcement :: "json \<Rightarrow> enforcement" where
  "tool_enforcement args =
    (if get_str ''enforcement'' args = Some ''monitored'' then Monitored
     else if get_str ''enforcement'' args = Some ''hard'' then Hard else EnfNone)"

definition tool_millis :: "u64 \<Rightarrow> duration" where "tool_millis ms = from_millis (max (unat ms) 1)"

definition tool_spec :: "json \<Rightarrow> mcp_error + run_spec" where
  "tool_spec args =
    (case json_get ''argv'' args of
       None \<Rightarrow> Inl (Told ''argv is required'')
     | Some raw \<Rightarrow>
         (case read_list as_str raw of
            None \<Rightarrow> Inl (Told ''argv must be a string array'')
          | Some arg_list \<Rightarrow>
              (case (get_str ''cwd'' args, get_str ''request_id'' args) of
                 (None, _) \<Rightarrow> Inl (Told ''cwd is required'')
               | (Some d, None) \<Rightarrow> Inl (Told ''request_id is required'')
               | (Some d, Some rid) \<Rightarrow>
                   (let spec = spec_new rid arg_list d; sid = map_option session_arg (get_str ''session_id'' args)
                    in Inr (spec
                      \<lparr>timeout := (case get_u64 ''timeout_ms'' args of Some ms \<Rightarrow> tool_millis ms | None \<Rightarrow> timeout spec),
                       project_root := get_str ''project_root'' args,
                       resources :=
                         \<lparr>rr_memory = map_option (\<lambda>mb. sat_mul mb (1024 * 1024)) (get_u64 ''memory_mb'' args),
                          rr_cpu = map_option ucast (get_u64 ''cpu_millicores'' args),
                          rr_processes = map_option ucast (get_u64 ''processes'' args),
                          rr_enforcement = tool_enforcement args,
                          rr_queue_timeout = map_option tool_millis (get_u64 ''queue_timeout_ms'' args)\<rparr>,
                       session_id := sid,
                       session_origin := (if sid = None then OriginNone else CallerReported)\<rparr>)))))"

definition tool_start_run :: "mcp_world \<Rightarrow> json \<Rightarrow> server \<Rightarrow> tool_result \<times> server" where
  "tool_start_run w args s =
    (case ensure_supervisor w s of
       Inl e \<Rightarrow> (Inl e, s)
     | Inr s1 \<Rightarrow>
         (case tool_spec args of
            Inl e \<Rightarrow> (Inl e, s1)
          | Inr spec \<Rightarrow>
              (let (r, s2) = client_start (mx_text w) (mx_server w) spec (mx_env w) s1 in (of_view r, s2))))"

definition tool_get_capacity :: "mcp_world \<Rightarrow> server \<Rightarrow> tool_result \<times> server" where
  "tool_get_capacity w s =
    (case ensure_supervisor w s of
       Inl e \<Rightarrow> (Inl e, s)
     | Inr s1 \<Rightarrow>
         (case client_capacity (mx_text w) (mx_server w) s1 of
            (Inl e, s2) \<Rightarrow> (Inl (FromClient e), s2)
          | (Inr c, s2) \<Rightarrow> (Inr (Some (capacity_json c)), s2)))"

definition tool_cancel_run :: "mcp_world \<Rightarrow> json \<Rightarrow> server \<Rightarrow> tool_result \<times> server" where
  "tool_cancel_run w args s =
    (case ensure_supervisor w s of
       Inl e \<Rightarrow> (Inl e, s)
     | Inr s1 \<Rightarrow>
         (case run_id_arg args of
            Inl e \<Rightarrow> (Inl (FromServer e), s1)
          | Inr i \<Rightarrow>
              (let (r, s2) = client_cancel (mx_text w) (mx_server w) i s1 in (of_opt_view r, s2))))"

definition run_tool :: "mcp_world \<Rightarrow> string \<Rightarrow> json \<Rightarrow> bool \<Rightarrow> server \<Rightarrow> tool_result \<times> server" where
  "run_tool w name args allow_run s =
    (if name \<in> {''start_run'', ''cancel_run''} \<and> \<not> allow_run then (Inl (RunDisabled name), s)
     else if name = ''list_runs'' then (tool_list_runs w args s, s)
     else if name = ''get_run'' then tool_get_run w args s
     else if name = ''read_run_output'' then tool_read_output w args s
     else if name = ''start_run'' then tool_start_run w args s
     else if name = ''get_capacity'' then tool_get_capacity w s
     else if name = ''cancel_run'' then tool_cancel_run w args s
     else (Inl (Told (''unknown run tool '' @ name)), s))"

section \<open>A call\<close>

definition listed_session :: "session_record \<Rightarrow> json" where
  "listed_session r = JObj
    [(''id'', JStr (show_session_id (sr_id r))), (''agent'', JStr (sr_agent r)), (''project'', j_opt JStr (sr_project r)),
     (''state'', JStr (if sr_ended r \<noteq> None then ''ended'' else ''active'')), (''started_at'', j_u (sr_started r))]"

definition run_tool_names :: "string list" where
  "run_tool_names = [''list_runs'', ''get_run'', ''read_run_output'', ''get_capacity'', ''start_run'', ''cancel_run'']"

definition tool_call :: "mcp_world \<Rightarrow> string \<Rightarrow> json \<Rightarrow> bool \<Rightarrow> server \<Rightarrow> tool_result \<times> server" where
  "tool_call w name args allow_run s =
    (if \<not> mx_store w then (Inl StoreClosed, s)
     else if name \<in> set run_tool_names then run_tool w name args allow_run s
     else if name = ''list_sessions'' then (Inr (Some (j_list listed_session (own_sessions (srv_own s)))), s)
     else if name = ''explain'' then
       (case srv_explain (mx_server w) (pid_arg args) s of
          (Inl e, s') \<Rightarrow> (Inl (FromServer e), s')
        | (Inr j, s') \<Rightarrow> (Inr (Some j), s'))
     else (Inl (Told (''unknown tool '' @ name)), s))"

definition respond :: "json \<Rightarrow> string \<times> json \<Rightarrow> json" where
  "respond i body = JObj [(''jsonrpc'', JStr ''2.0''), (''id'', i), body]"

definition text_result :: "string \<Rightarrow> bool \<Rightarrow> json" where
  "text_result text failed = JObj
    [(''content'', JArr [JObj [(''type'', JStr ''text''), (''text'', JStr text)]]), (''isError'', JBool failed)]"

definition tool_error :: "json \<Rightarrow> string \<Rightarrow> json" where
  "tool_error i msg = respond i (''result'', text_result msg True)"

definition call_tool :: "mcp_world \<Rightarrow> json \<Rightarrow> string \<Rightarrow> json \<Rightarrow> bool \<Rightarrow> server \<Rightarrow> json \<times> server" where
  "call_tool w i name args allow_run s =
    (case tool_call w name args allow_run s of
       (Inl e, s') \<Rightarrow> (tool_error i (mx_say w e), s')
     | (Inr None, s') \<Rightarrow> (respond i (''result'', text_result ''null'' False), s')
     | (Inr (Some j), s') \<Rightarrow> (respond i (''result'', text_result (mx_pretty w j) False), s'))"

section \<open>Messages\<close>

definition greeting :: "string \<Rightarrow> json" where
  "greeting version = JObj
    [(''protocolVersion'', JStr PROTOCOL_VERSION), (''capabilities'', JObj [(''tools'', JObj [])]),
     (''serverInfo'', JObj [(''name'', JStr ''wyd''), (''version'', JStr version)])]"

definition unknown_method :: json where
  "unknown_method = JObj [(''code'', JInt (- 32601)), (''message'', JStr ''Method not found'')]"

text \<open>A message without an id is a notification and is not answered.\<close>

definition mcp_handle :: "mcp_world \<Rightarrow> json \<Rightarrow> bool \<Rightarrow> server \<Rightarrow> json option \<times> server" where
  "mcp_handle w msg allow_run s =
    (case json_get ''id'' msg of
       None \<Rightarrow> (None, s)
     | Some i \<Rightarrow>
         (let m = or_default [] (get_str ''method'' msg) in
          if m = ''initialize'' then (Some (respond i (''result'', greeting (sw_version (mx_server w)))), s)
          else if m = ''ping'' then (Some (respond i (''result'', JObj [])), s)
          else if m = ''tools/list'' then (Some (respond i (''result'', JObj [(''tools'', JArr (tools allow_run))])), s)
          else if m = ''tools/call'' then
            (let params = or_default (JObj []) (json_get ''params'' msg);
                 (j, s') = call_tool w i (or_default [] (get_str ''name'' params))
                             (or_default (JObj []) (json_get ''arguments'' params)) allow_run s
             in (Some j, s'))
          else (Some (respond i (''error'', unknown_method)), s)))"

text \<open>The lines of a session, each read in the world of its moment; a line that does not parse is passed
  over.\<close>

fun serve_stdio :: "bool \<Rightarrow> (mcp_world \<times> string) list \<Rightarrow> server \<Rightarrow> json list \<times> server" where
  "serve_stdio allow_run [] s = ([], s)"
| "serve_stdio allow_run ((w, line) # ls) s =
    (case jt_parse (mx_text w) line of
       None \<Rightarrow> serve_stdio allow_run ls s
     | Some msg \<Rightarrow>
         (case mcp_handle w msg allow_run s of
            (None, s') \<Rightarrow> serve_stdio allow_run ls s'
          | (Some j, s') \<Rightarrow> (let (js, s'') = serve_stdio allow_run ls s' in (j # js, s''))))"

end
