(* ===== verification/Mcp_Props.thy ===== *)
theory Mcp_Props
  imports Mcp Server_Props
begin

text \<open>
  What an agent can do through the server on standard input: without leave to run it changes nothing but
  by having a supervisor started, and every request gets one answer under its id.
\<close>

section \<open>Calls that only read\<close>

text \<open>What the text library guarantees of a request line: whatever is read of it, whole or cut off, names
  the command it was made for.\<close>

definition names_command :: "json_text \<Rightarrow> bool" where
  "names_command t \<longleftrightarrow>
    (\<forall>cmd extra n r. jt_parse t (trim (first_line (take n (client_line t cmd extra)))) = Some r \<longrightarrow> str_arg ''cmd'' r = cmd)"

lemma request_runs:
  assumes "names_command t"
  shows "snd (client_request t w cmd extra s) \<in> {s} \<union> {snd (run_command w cmd req s) | req. True}"
proof -
  have "snd (dispatch t w (first_line (take n (client_line t cmd extra))) s) \<in> {s} \<union> {snd (run_command w cmd req s) | req. True}" for n
    using assms by (auto simp: dispatch_def names_command_def split: option.splits)
  from this[of MAX_REQUEST_BYTES] show ?thesis
    by (simp add: client_request_def handle_client_def Let_def case_prod_beta)
qed

definition reading_commands :: "string set" where
  "reading_commands = {''get_run'', ''read_run_output'', ''get_capacity''}"

text \<open>A call of the client that only reads leaves the state as it is.\<close>

lemma reading_request:
  assumes "client_request t w cmd extra s = (r, s')" "names_command t" "cmd \<in> reading_commands"
  shows "s' = s"
proof -
  have "cmd \<notin> run_commands" "cmd \<notin> own_commands"
    using assms(3) by (auto simp: reading_commands_def run_commands_def own_commands_def)
  then have "snd (run_command w cmd req s) = s" for req
    using run_command_sup[of cmd w req s] run_command_own[of cmd w req s] by (simp add: server.equality)
  then show ?thesis using request_runs[OF assms(2), of w cmd extra s] assms(1) by auto
qed

lemma client_get_same: "client_get t w i a n s = (r, s') \<Longrightarrow> names_command t \<Longrightarrow> s' = s"
  by (auto simp: client_get_def reading_commands_def split: prod.splits sum.splits dest: reading_request)

lemma client_output_same: "client_output t w i st c n s = (r, s') \<Longrightarrow> names_command t \<Longrightarrow> s' = s"
  by (auto simp: client_output_def reading_commands_def dest: reading_request)

lemma client_capacity_same: "client_capacity t w s = (r, s') \<Longrightarrow> names_command t \<Longrightarrow> s' = s"
  by (auto simp: client_capacity_def reading_commands_def split: prod.splits sum.splits option.splits dest: reading_request)

lemma tool_get_run_same: "names_command (mx_text w) \<Longrightarrow> snd (tool_get_run w args s) = s"
  by (auto simp: tool_get_run_def split: sum.splits prod.splits dest: client_get_same)

lemma tool_read_output_same: "names_command (mx_text w) \<Longrightarrow> snd (tool_read_output w args s) = s"
  by (auto simp: tool_read_output_def Let_def split: sum.splits prod.splits option.splits dest: client_output_same)

lemma tool_get_capacity_same:
  "names_command (mx_text w) \<Longrightarrow> mx_handshake w \<Longrightarrow> snd (tool_get_capacity w s) = s"
  by (auto simp: tool_get_capacity_def ensure_supervisor_def split: sum.splits prod.splits dest: client_capacity_same)

section \<open>Without leave to run\<close>

text \<open>The tool a line calls.\<close>

definition tool_called :: "mcp_world \<Rightarrow> string \<Rightarrow> string option" where
  "tool_called w line =
    Option.bind (jt_parse (mx_text w) line) (\<lambda>msg.
      if json_get ''id'' msg \<noteq> None \<and> get_str ''method'' msg = Some ''tools/call''
      then Some (or_default [] (get_str ''name'' (or_default (JObj []) (json_get ''params'' msg)))) else None)"

lemma tool_call_frames:
  assumes "names_command (mx_text w)" "tool_call w name args False s = (r, s')"
  shows "srv_sup s' = srv_sup s \<or> name = ''get_capacity'' \<and> \<not> mx_handshake w"
    and "srv_own s' = srv_own s \<or> name = ''get_capacity'' \<and> \<not> mx_handshake w \<or> name = ''explain''"
proof -
  have "s' = s \<or> name = ''get_capacity'' \<and> \<not> mx_handshake w \<or> name = ''explain'' \<and> s' = snd (srv_explain (mx_server w) (pid_arg args) s)"
    using assms(2) tool_get_run_same[OF assms(1), of args s] tool_read_output_same[OF assms(1), of args s]
      tool_get_capacity_same[OF assms(1), of s]
    by (auto simp: tool_call_def run_tool_def run_tool_names_def split: if_splits prod.splits sum.splits)
  then show "srv_sup s' = srv_sup s \<or> name = ''get_capacity'' \<and> \<not> mx_handshake w"
    and "srv_own s' = srv_own s \<or> name = ''get_capacity'' \<and> \<not> mx_handshake w \<or> name = ''explain''"
    using explain_sup[of "mx_server w" "pid_arg args" s] by auto
qed

lemma call_tool_state: "snd (call_tool w i name args allow_run s) = snd (tool_call w name args allow_run s)"
  by (auto simp: call_tool_def split: prod.splits sum.splits option.splits)

lemma handle_frames:
  assumes "names_command (mx_text w)" "jt_parse (mx_text w) line = Some msg" "mcp_handle w msg False s = (r, s')"
  shows "srv_sup s' = srv_sup s \<or> tool_called w line = Some ''get_capacity'' \<and> \<not> mx_handshake w"
    and "srv_own s' = srv_own s \<or> tool_called w line = Some ''get_capacity'' \<and> \<not> mx_handshake w
      \<or> tool_called w line = Some ''explain''"
proof -
  have "s' = s \<or> (\<exists>name args x. tool_called w line = Some name \<and> tool_call w name args False s = (x, s'))"
  proof (cases "json_get ''id'' msg")
    case None
    then show ?thesis using assms(3) by (simp add: mcp_handle_def)
  next
    case (Some i)
    let ?m = "or_default [] (get_str ''method'' msg)"
    show ?thesis
    proof (cases "?m = ''tools/call''")
      case True
      define params where "params = or_default (JObj []) (json_get ''params'' msg)"
      let ?name = "or_default [] (get_str ''name'' params)" and ?args = "or_default (JObj []) (json_get ''arguments'' params)"
      from True have "get_str ''method'' msg = Some ''tools/call''" by (cases "get_str ''method'' msg") (simp_all add: or_default_def)
      then have "tool_called w line = Some ?name" using assms(2) Some by (simp add: tool_called_def params_def)
      moreover have "s' = snd (call_tool w i ?name ?args False s)"
        using assms(3) Some True by (auto simp: mcp_handle_def Let_def params_def split: prod.splits)
      ultimately show ?thesis unfolding call_tool_state by (metis surjective_pairing)
    next
      case False
      then show ?thesis using assms(3) Some by (auto simp: mcp_handle_def Let_def split: if_splits)
    qed
  qed
  then show "srv_sup s' = srv_sup s \<or> tool_called w line = Some ''get_capacity'' \<and> \<not> mx_handshake w"
    and "srv_own s' = srv_own s \<or> tool_called w line = Some ''get_capacity'' \<and> \<not> mx_handshake w
      \<or> tool_called w line = Some ''explain''"
    using tool_call_frames[OF assms(1)] by metis+
qed


section \<open>Answers\<close>

lemma respond_id: "json_get ''id'' (respond i body) = Some i"
  by (simp add: respond_def json_get_def)

lemma handled_id:
  "mcp_handle w msg allow_run s = (r, s') \<Longrightarrow> map_option (json_get ''id'') r = map_option Some (json_get ''id'' msg)"
  by (auto simp: mcp_handle_def call_tool_def tool_error_def respond_id Let_def
      split: option.splits prod.splits sum.splits if_splits)

text \<open>Every request is answered once, in order and under its id, and nothing else is.\<close>

lemma requests_answered:
  "map (json_get ''id'') (fst (serve_stdio allow_run ls s))
    = filter (\<lambda>i. i \<noteq> None) (map (\<lambda>(w, l). Option.bind (jt_parse (mx_text w) l) (json_get ''id'')) ls)"
proof (induction ls arbitrary: s)
  case (Cons x ls)
  obtain w l where x: "x = (w, l)" by (cases x)
  show ?case
  proof (cases "jt_parse (mx_text w) l")
    case None
    then show ?thesis using Cons.IH by (simp add: x)
  next
    case (Some msg)
    obtain r s1 where h: "mcp_handle w msg allow_run s = (r, s1)" by (meson surj_pair)
    from handled_id[OF h] Cons.IH[of s1] show ?thesis
      by (cases r; cases "json_get ''id'' msg") (simp_all add: x Some h case_prod_beta)
  qed
qed simp

section \<open>A connection\<close>

definition start_message :: json where
  "start_message = JObj [(''id'', JInt 1), (''method'', JStr ''tools/call''),
     (''params'', JObj [(''name'', JStr ''start_run'')])]"

text \<open>A text library that reads one line.\<close>

definition one_text :: json_text where
  "one_text = \<lparr>jt_parse = (\<lambda>t. if t = ''start'' then Some start_message else None), jt_print = (\<lambda>_. ''?''), jt_say = (\<lambda>_. [])\<rparr>"

lemma one_text_names: "names_command one_text"
proof -
  have "trim (first_line (take n (client_line one_text cmd extra))) \<noteq> ''start''" for n cmd extra
  proof
    let ?l = "client_line one_text cmd extra"
    assume eq: "trim (first_line (take n ?l)) = ''start''"
    have "set (trim x) \<subseteq> set x" for x
      unfolding trim_def trim_start_def trim_end_def by (auto dest!: set_dropWhileD)
    moreover have "set (first_line x) \<subseteq> set x \<union> {CHR 0x0A}" for x
      by (auto simp: first_line_def Let_def dest: set_takeWhileD)
    ultimately have "CHR ''s'' \<in> set (take n ?l) \<union> {CHR 0x0A}" using eq by (metis list.set_intros(1) subset_iff)
    then show False by (auto simp: client_line_def one_text_def dest: in_set_takeD)
  qed
  then show ?thesis by (simp add: names_command_def one_text_def split: if_splits)
qed

definition agent_world :: "server_world \<Rightarrow> mcp_world" where
  "agent_world W =
    \<lparr>mx_server = W, mx_text = one_text, mx_pretty = (\<lambda>_. []), mx_say = (\<lambda>_. []), mx_store = True, mx_alive = True,
     mx_handshake = True, mx_start = (\<lambda>s. Inr s), mx_env = []\<rparr>"


end
