(* ===== verification/Serve.thy ===== *)
theory Serve
  imports Server Logs
begin

text \<open>
  The life of a supervisor process (\<open>src/server.rs\<close>): which connections it serves, when it leaves by
  itself, what it does when it is told to leave, and the threads that take the output of a run
  (\<open>src/runner/mod.rs\<close>).  The events and the clock are arguments.
\<close>

section \<open>Connections and idling\<close>

definition MAX_CLIENTS :: nat where "MAX_CLIENTS = 64"

definition IDLE_EXIT :: u64 where "IDLE_EXIT = 300"

text \<open>The connections that are being served, the time the last one ended, and whether the process has
  left.\<close>

record serve_state =
  se_clients :: nat
  se_last_seen :: u64
  se_gone :: bool

definition serve_start :: "u64 \<Rightarrow> serve_state" where
  "serve_start now = \<lparr>se_clients = 0, se_last_seen = now, se_gone = False\<rparr>"

text \<open>\<open>IdleCheck active now\<close> is the check every thirty seconds, made only by a process started with
  \<open>--auto\<close>.\<close>

datatype serve_event = Connected | Served u64 | IdleCheck nat u64

definition too_many :: "serve_state \<Rightarrow> bool" where "too_many s \<longleftrightarrow> se_clients s \<ge> MAX_CLIENTS"

definition idle_enough :: "nat \<Rightarrow> u64 \<Rightarrow> serve_state \<Rightarrow> bool" where
  "idle_enough active now s \<longleftrightarrow> active = 0 \<and> sat_sub now (se_last_seen s) \<ge> IDLE_EXIT"

definition serve_step :: "bool \<Rightarrow> serve_event \<Rightarrow> serve_state \<Rightarrow> serve_state" where
  "serve_step auto_exit e s =
    (if se_gone s then s
     else
       (case e of
          Connected \<Rightarrow> if too_many s then s else s\<lparr>se_clients := se_clients s + 1\<rparr>
        | Served now \<Rightarrow> s\<lparr>se_last_seen := now, se_clients := se_clients s - 1\<rparr>
        | IdleCheck active now \<Rightarrow> if auto_exit \<and> idle_enough active now s then s\<lparr>se_gone := True\<rparr> else s))"

definition serve_steps :: "bool \<Rightarrow> serve_event list \<Rightarrow> serve_state \<Rightarrow> serve_state" where
  "serve_steps auto_exit es s = foldl (\<lambda>s e. serve_step auto_exit e s) s es"

text \<open>The arguments a client starts the supervisor with, and the flag they amount to.\<close>

definition ENSURE_ARGS :: "string list" where "ENSURE_ARGS = [''serve'']"

definition auto_flag :: "string list \<Rightarrow> bool" where "auto_flag args \<longleftrightarrow> ''--auto'' \<in> set args"

text \<open>Waiting for a supervisor that was started: the answers to the pings, up to the deadline.\<close>

fun await_ready :: "(bool \<times> bool) list \<Rightarrow> bool option" where
  "await_ready [] = None"
| "await_ready ((expired, answered) # ps) =
    (if expired then Some False else if answered then Some True else await_ready ps)"

section \<open>Leaving when told to\<close>

definition shutdown_cancel :: "ctx \<Rightarrow> run_id list \<Rightarrow> supervisor \<Rightarrow> supervisor" where
  "shutdown_cancel cx ids sv = (if active_runs sv > 0 then cancel_all cx ids sv else sv)"

text \<open>The polls after it, each with the number of active runs and whether the grace period is over; the
  number of runs that are left behind.\<close>

fun shutdown_wait :: "(nat \<times> bool) list \<Rightarrow> nat option" where
  "shutdown_wait [] = None"
| "shutdown_wait ((active, expired) # ps) = (if active = 0 \<or> expired then Some active else shutdown_wait ps)"

section \<open>Taking the output of a run\<close>

text \<open>What reading the pipe gives: bytes, with whether writing them fails and whether the run is over by
  then; an interruption; the end or another error.\<close>

datatype pipe_event = PipeData "u8 list" "nat option" bool | PipeInterrupted | PipeEnd

type_synonym sink_state = "log_sink \<times> global_budget \<times> log_state"

fun drain_pipe :: "pipe_event list \<Rightarrow> sink_state \<Rightarrow> sink_state" where
  "drain_pipe [] x = x"
| "drain_pipe (PipeEnd # es) x = x"
| "drain_pipe (PipeInterrupted # es) x = drain_pipe es x"
| "drain_pipe (PipeData buf io over # es) x = drain_pipe es (if over then x else snd (write_all_bounded buf io x))"

section \<open>Facts\<close>

lemma serve_step_last [simp]: "serve_steps auto_exit (es @ [e]) s = serve_step auto_exit e (serve_steps auto_exit es s)"
  by (simp add: serve_steps_def)

text \<open>Never more connections than allowed are served at once.\<close>

lemma clients_bounded: "se_clients (serve_steps auto_exit es (serve_start now)) \<le> MAX_CLIENTS"
proof (induction es rule: rev_induct)
  case (snoc e es)
  then show ?case by (auto simp: serve_step_def too_many_def split: serve_event.splits)
qed (simp add: serve_steps_def serve_start_def)

text \<open>A process leaves by itself only if it was started with \<open>--auto\<close>, in a check that finds no active
  run and no connection ended in the last five minutes.\<close>

lemma idle_exit_cause:
  "se_gone (serve_steps auto_exit es (serve_start now)) \<Longrightarrow>
    auto_exit \<and> (\<exists>as active t bs. es = as @ IdleCheck active t # bs \<and> idle_enough active t (serve_steps auto_exit as (serve_start now)))"
proof (induction es rule: rev_induct)
  case (snoc e es)
  let ?s = "serve_steps auto_exit es (serve_start now)"
  show ?case
  proof (cases "se_gone ?s")
    case True
    from snoc.IH[OF True] obtain as active t bs where "auto_exit" "es = as @ IdleCheck active t # bs"
      "idle_enough active t (serve_steps auto_exit as (serve_start now))" by blast
    then show ?thesis by (metis append.assoc append_Cons)
  next
    case False
    then obtain active t where "e = IdleCheck active t" "auto_exit" "idle_enough active t ?s"
      using snoc.prems by (auto simp: serve_step_def split: serve_event.splits if_splits)
    then show ?thesis by blast
  qed
qed (simp add: serve_steps_def serve_start_def)

text \<open>A supervisor started by a client is not given that flag and never leaves by itself.\<close>

lemma on_demand_stays: "\<not> se_gone (serve_steps (auto_flag ENSURE_ARGS) es (serve_start now))"
  using idle_exit_cause by (auto simp: auto_flag_def ENSURE_ARGS_def)

text \<open>What is stored is what is read until the pipe ends or the run is over.\<close>

fun drained :: "pipe_event list \<Rightarrow> u8 list list" where
  "drained [] = []"
| "drained (PipeEnd # es) = []"
| "drained (PipeInterrupted # es) = drained es"
| "drained (PipeData buf io over # es) = (if over then [] else [buf]) @ drained es"

lemma drain_writes:
  "list_all (\<lambda>e. case e of PipeData buf io over \<Rightarrow> io = None | _ \<Rightarrow> True) es \<Longrightarrow> drain_pipe es x = write_bufs (drained es) x"
  by (induction es x rule: drain_pipe.induct) auto

end
