(* ===== verification/Tui_Draw.thy ===== *)
theory Tui_Draw
  imports Tui Output
begin

text \<open>
  What the terminal interface writes (\<open>src/tui/draw.rs\<close>): the place of the popups, the header and rows of
  every section, the details of a row, the dialogs and the line of hints.  A line is its text; colours and
  the drawing itself are left out.  Sizes with one decimal, CPU figures, the home directory, the clock, the
  explanation of a reason and the text of an error are arguments.
\<close>

section \<open>Characters and arguments\<close>

definition ch_dot :: string where "ch_dot = '' '' @ utf8 [0xC2, 0xB7] @ '' ''"
definition ch_dash :: string where "ch_dash = utf8 [0xE2, 0x80, 0x94]"
definition ch_times :: string where "ch_times = utf8 [0xC3, 0x97]"
definition ch_most :: string where "ch_most = utf8 [0xE2, 0x89, 0xA4]"
definition ch_arrow :: string where "ch_arrow = utf8 [0xE2, 0x86, 0x92]"
definition ch_warn :: string where "ch_warn = utf8 [0xE2, 0x9A, 0xA0]"
definition ch_full :: string where "ch_full = utf8 [0xE2, 0x97, 0x8F]"
definition ch_hollow :: string where "ch_hollow = utf8 [0xE2, 0x97, 0x8B]"

record draw_env =
  de_now :: u64
  de_home :: "string option"
  de_bytes :: "u64 \<Rightarrow> string"
  de_cpu :: "runtime_item list \<Rightarrow> string"
  de_addr :: "ip_addr \<Rightarrow> string"
  de_meaning :: "suspicion_reason \<Rightarrow> string"
  de_error :: "feed_error \<Rightarrow> string"
  de_keys :: keys_config
  de_runs :: runs_config

definition cut_to :: "nat \<Rightarrow> string \<Rightarrow> string" where "cut_to n s = truncate_to s (of_nat n)"

definition gap :: string where "gap = ''  ''"

section \<open>Geometry\<close>

record rect =
  re_x :: u16
  re_y :: u16
  re_w :: u16
  re_h :: u16

text \<open>The margins shrink with the terminal.\<close>

definition x_margin :: "nat \<Rightarrow> nat" where
  "x_margin w = (if w \<le> 79 then 1 else if w \<le> 119 then 2 else if w \<le> 159 then 4 else 6)"

definition y_margin :: "nat \<Rightarrow> nat" where
  "y_margin h = (if h \<le> 19 then 0 else if h \<le> 29 then 1 else if h \<le> 49 then 2 else 4)"

definition details_rect :: "rect \<Rightarrow> rect" where
  "details_rect a =
    (let w = max (unat (re_w a)) 1; h = max (unat (re_h a)) 1;
         pw = min (max (w - 2 * x_margin w) 24) w; ph = min (max (h - 2 * y_margin h) 8) h
     in \<lparr>re_x = re_x a + of_nat ((w - pw) div 2), re_y = re_y a + of_nat ((h - ph) div 2),
         re_w = of_nat pw, re_h = of_nat ph\<rparr>)"

definition details_inner_width :: "rect \<Rightarrow> nat" where
  "details_inner_width a = unat (re_w (details_rect a)) - 6"

definition head_height :: "sect \<Rightarrow> u16" where "head_height s = (if s = SecRuns then 2 else 1)"

section \<open>Columns\<close>

definition RAM_W :: nat where "RAM_W = 6"
definition CPU_W :: nat where "CPU_W = 6"
definition AGE_W :: nat where "AGE_W = 7"
definition STATUS_W :: nat where "STATUS_W = 11"
definition WHAT_W :: nat where "WHAT_W = 10"
definition FROM_W :: nat where "FROM_W = 22"
definition NAME_MAX :: nat where "NAME_MAX = 28"
definition GAP :: nat where "GAP = 2"

definition name_width :: "nat \<Rightarrow> nat" where
  "name_width width = max (min NAME_MAX (width - (WHAT_W + FROM_W + RAM_W + CPU_W + STATUS_W + AGE_W + GAP * 6))) 10"

definition col_header :: "nat \<Rightarrow> string" where
  "col_header width =
    pad_right (name_width width) ''NAME'' @ gap @ pad_right WHAT_W ''WHAT'' @ gap @ pad_right FROM_W ''FROM'' @ gap
    @ pad_left RAM_W ''RAM'' @ gap @ pad_left CPU_W ''CPU'' @ gap @ pad_right STATUS_W ''STATUS'' @ gap @ pad_left AGE_W ''AGE''"

definition pad_name :: "string \<Rightarrow> string \<Rightarrow> nat \<Rightarrow> string" where
  "pad_name title extra nw =
    (let e = char_count extra; budget = (if e > 0 \<and> e < nw then nw - e else nw); t = cut_to (max budget 1) title
     in pad_right nw (if e > 0 \<and> char_count t + e \<le> nw then t @ extra else t))"

definition cols :: "string \<Rightarrow> string \<Rightarrow> string \<Rightarrow> string \<Rightarrow> string \<Rightarrow> string \<Rightarrow> string \<Rightarrow> string" where
  "cols name what origin' ram cpu status age =
    name @ gap @ pad_right WHAT_W (cut_to WHAT_W what) @ gap @ pad_right FROM_W (cut_to FROM_W origin') @ gap
    @ pad_left RAM_W ram @ gap @ pad_left CPU_W cpu @ gap @ pad_right STATUS_W (cut_to STATUS_W status) @ gap
    @ pad_left AGE_W age"

section \<open>Items\<close>

definition role :: "runtime_item \<Rightarrow> string" where
  "role i =
    (let ports = ri_ports i;
         listing = (\<lambda>bare short. case ports of [] \<Rightarrow> bare
             | [p] \<Rightarrow> short @ '' :'' @ show_nat (unat (lp_port p))
             | _ \<Rightarrow> short @ '' '' @ ch_times @ show_nat (length ports));
         n = length (ri_pids i)
     in case ri_category i of
          DevServer \<Rightarrow> listing ''server'' ''srv''
        | Database \<Rightarrow> listing ''db'' ''db''
        | c \<Rightarrow>
            if n > 1 then show_nat n @ '' procs''
            else (case c of Agent \<Rightarrow> ''agent'' | Mcp \<Rightarrow> ''mcp'' | Browser \<Rightarrow> ''browser'' | LanguageServer \<Rightarrow> ''lsp''
                  | Worker \<Rightarrow> ''worker'' | DevService \<Rightarrow> ''svc'' | _ \<Rightarrow> ''dev''))"

text \<open>The working directory named in a command line, up the ancestors: a chain that ends without one ends
  the whole search; one that is longer than 64 goes on with the next process.\<close>

fun pwd_climb :: "process_info list \<Rightarrow> nat \<Rightarrow> pid \<Rightarrow> path option option" where
  "pwd_climb ps 0 k = None"
| "pwd_climb ps (Suc n) k =
    (case by_pid ps k of
       None \<Rightarrow> Some None
     | Some p \<Rightarrow>
         (case pwd_from_cmd (p_command p) of
            Some d \<Rightarrow> Some (Some d)
          | None \<Rightarrow> (case p_parent p of None \<Rightarrow> Some None | Some q \<Rightarrow> pwd_climb ps n q)))"

fun pwd_along :: "process_info list \<Rightarrow> pid list \<Rightarrow> path option" where
  "pwd_along ps [] = None"
| "pwd_along ps (k # ks) = (case pwd_climb ps 64 k of Some r \<Rightarrow> r | None \<Rightarrow> pwd_along ps ks)"

definition origin :: "draw_env \<Rightarrow> process_info list \<Rightarrow> runtime_item \<Rightarrow> string" where
  "origin e ps i =
    (case ri_project i of
       Some p \<Rightarrow> short_path (de_home e) (pr_root p)
     | None \<Rightarrow>
         (let dir = map_option (short_path (de_home e))
                      (first_Some (\<lambda>k. Option.bind (by_pid ps k) p_cwd) (ri_pids i)) in
          if dir \<noteq> None \<and> dir \<noteq> Some ''~'' then the dir
          else
            (case pwd_along ps (ri_pids i) of
               Some d \<Rightarrow> short_path (de_home e) (show_path d)
             | None \<Rightarrow>
                 (case first_Some (\<lambda>k. Option.bind (by_pid ps k) p_tty) (ri_pids i) of
                    Some t \<Rightarrow> t
                  | None \<Rightarrow> (case ri_state i of Suspicious \<Rightarrow> ''orphan'' | Persistent \<Rightarrow> ''svc'' | Active \<Rightarrow> ch_dash)))))"

definition item_age :: "draw_env \<Rightarrow> process_info list \<Rightarrow> runtime_item \<Rightarrow> string" where
  "item_age e ps i =
    (case Option.bind (ri_root i) (by_pid ps) of Some p \<Rightarrow> fmt_age (de_now e) (p_start_time p) | None \<Rightarrow> ch_dash)"

definition item_marker :: "runtime_item \<Rightarrow> nat \<Rightarrow> bool \<Rightarrow> string" where
  "item_marker i depth lst =
    (if depth = 0 then
       (case ri_state i of Suspicious \<Rightarrow> ch_warn | Persistent \<Rightarrow> utf8 [0xE2, 0x97, 0x86] | Active \<Rightarrow> ch_full) @ '' ''
     else if lst then utf8 [0xE2, 0x94, 0x94] @ '' '' else utf8 [0xE2, 0x94, 0x9C] @ '' '')"

definition mark_of :: "app \<Rightarrow> nat \<Rightarrow> string" where "mark_of a k = (if k \<in> ap_marked a then ''*'' else '' '')"

definition item_status :: "runtime_item \<Rightarrow> bool \<Rightarrow> string" where
  "item_status i owned =
    (case ri_state i of Suspicious \<Rightarrow> ''leftover'' | Persistent \<Rightarrow> ''persistent''
     | Active \<Rightarrow> if owned then ''owned'' else [])"

definition item_line ::
  "draw_env \<Rightarrow> process_info list \<Rightarrow> app \<Rightarrow> nat \<Rightarrow> nat \<Rightarrow> runtime_item \<Rightarrow> nat \<Rightarrow> bool \<Rightarrow> bool \<Rightarrow> string" where
  "item_line e ps a k nw i depth lst owned =
    cols (pad_name (replicate (2 * depth) (CHR '' '') @ mark_of a k @ item_marker i depth lst @ ri_display i) [] nw)
      (role i) (origin e ps i) (de_bytes e (ri_memory i)) (de_cpu e [i]) (item_status i owned) (item_age e ps i)"

section \<open>Docker and the summary\<close>

definition docker_row_line :: "draw_env \<Rightarrow> app \<Rightarrow> nat \<Rightarrow> nat \<Rightarrow> docker_resource \<Rightarrow> string" where
  "docker_row_line e a k nw r =
    cols (pad_name ('' '' @ mark_of a k @ (if docker_running r \<or> d_detail r = ''attached'' then ch_full else ch_hollow)
             @ '' '' @ d_name r) [] nw)
      (docker_kind_label (d_kind r)) (or_default ch_dash (d_compose r)) (de_bytes e (d_size r)) [] (d_detail r)
      (fmt_age (de_now e) (of_int (max (d_created r) 0)))"

text \<open>The totals of the items that are listed, each row with its whole memory.\<close>

definition listed_items :: "trow list \<Rightarrow> runtime_item list" where
  "listed_items rs = List.map_filter (\<lambda>r. case r of RItem i d l u \<Rightarrow> Some i | _ \<Rightarrow> None) rs"

definition runtime_summary :: "draw_env \<Rightarrow> nat \<Rightarrow> trow list \<Rightarrow> string" where
  "runtime_summary e width rs =
    (let is = listed_items rs; n = length is;
         text = (if n = 0 then []
           else '' '' @ show_nat n @ '' item'' @ (if n = 1 then [] else ''s'') @ ch_dot
             @ de_bytes e (sum_list (map ri_memory is)) @ '' RAM'' @ ch_dot @ de_cpu e is @ '' CPU'')
     in pad_left width (cut_to width text))"

section \<open>Runs\<close>

definition RUN_ID_W :: nat where "RUN_ID_W = 7"
definition RUN_STATE_W :: nat where "RUN_STATE_W = 9"
definition RUN_OUTCOME_W :: nat where "RUN_OUTCOME_W = 13"
definition RUN_DUR_W :: nat where "RUN_DUR_W = 8"
definition RUN_PROJ_W :: nat where "RUN_PROJ_W = 14"
definition RUN_SESS_W :: nat where "RUN_SESS_W = 9"

definition run_fixed :: nat where
  "run_fixed = RUN_ID_W + RUN_STATE_W + RUN_OUTCOME_W + RUN_DUR_W + RUN_PROJ_W + RUN_SESS_W + GAP * 6"

definition run_col_header :: string where
  "run_col_header =
    gap @ pad_right RUN_ID_W ''RUN'' @ gap @ pad_right RUN_STATE_W ''STATE'' @ gap @ pad_right RUN_OUTCOME_W ''OUTCOME'' @ gap
    @ pad_left RUN_DUR_W ''TIME'' @ gap @ pad_right RUN_PROJ_W ''PROJECT'' @ gap @ pad_right RUN_SESS_W ''SESSION'' @ gap @ ''CMD''"

definition outcome_text :: "run_view \<Rightarrow> string" where
  "outcome_text v = (case v_outcome v of Some x \<Rightarrow> outcome_as_str x | None \<Rightarrow> ''-'')"

definition opt_dur :: "u64 option \<Rightarrow> string" where
  "opt_dur d = (case d of Some x \<Rightarrow> fmt_dur x | None \<Rightarrow> ch_dash)"

text \<open>A waiting run shows its place in the queue instead of its command.\<close>

definition run_cmd :: "run_view \<Rightarrow> string" where
  "run_cmd v =
    (if v_state v \<noteq> Queued then join_with '' '' (v_argv v)
     else
       (case qi_position (v_queue v) of Some p \<Rightarrow> ''q#'' @ show_nat p | None \<Rightarrow> ''queued'') @ ch_dot @ ''wait ''
       @ fmt_dur (qi_waiting_ms (v_queue v)) @ ch_dot @ or_default ''waiting for a slot'' (qi_reason (v_queue v)))"

definition run_project_name :: "run_view \<Rightarrow> string" where
  "run_project_name v = (let p = or_default (v_cwd v) (v_project_root v) in or_default p (file_name p))"

definition run_line :: "app \<Rightarrow> nat \<Rightarrow> nat \<Rightarrow> run_view \<Rightarrow> string" where
  "run_line a k width v =
    '' '' @ mark_of a k @ pad_right RUN_ID_W (cut_to RUN_ID_W (''#'' @ v_run_id v)) @ gap
    @ pad_right RUN_STATE_W (state_as_str (v_state v)) @ gap
    @ pad_right RUN_OUTCOME_W (cut_to RUN_OUTCOME_W (outcome_text v)) @ gap
    @ pad_left RUN_DUR_W (cut_to RUN_DUR_W (opt_dur (v_duration_ms v))) @ gap
    @ pad_right RUN_PROJ_W (cut_to RUN_PROJ_W (run_project_name v)) @ gap
    @ pad_right RUN_SESS_W (cut_to RUN_SESS_W (or_default ch_dash (v_session_id v))) @ gap
    @ cut_to (max (width - run_fixed) 8) (run_cmd v)"

definition capacity_line :: "draw_env \<Rightarrow> nat \<Rightarrow> capacity option \<Rightarrow> string" where
  "capacity_line e width cap =
    cut_to width
      (case cap of
         Some c \<Rightarrow>
           '' slots  '' @ show_nat (c_running c) @ ''/'' @ show_nat (ls_max_parallel (c_limits c)) @ '' used (''
           @ show_nat (ls_max_parallel_per_project (c_limits c)) @ '' per project)'' @ ch_dot @ ''queue ''
           @ show_nat (c_queued c) @ '' waiting / '' @ ch_most @ show_nat (ls_max_queued (c_limits c)) @ ch_dot
           @ ''reserved '' @ de_bytes e (c_reserved c) @ '' of '' @ de_bytes e (ls_memory_budget (c_limits c))
           @ '' (budget, not RAM)''
           @ (case c_aggregate_memory c of Some b \<Rightarrow> ch_dot @ ''kernel cap '' @ de_bytes e b | None \<Rightarrow> [])
           @ (case c_aggregate_cpu c of Some m \<Rightarrow> ch_dot @ ''cpu '' @ show_nat (unat m) @ ''m'' | None \<Rightarrow> [])
           @ (case c_aggregate_pids c of Some p \<Rightarrow> ch_dot @ ''pids '' @ show_nat (unat p) | None \<Rightarrow> [])
           @ (if c_over_parallel c then ch_dot @ ''above the new limit (runs kept)'' else [])
       | None \<Rightarrow>
           '' limits  '' @ show_nat (rc_max_parallel (de_runs e)) @ '' slots (''
           @ show_nat (rc_max_parallel_per_project (de_runs e)) @ '' per project)'' @ ch_dot @ ''queue '' @ ch_most
           @ show_nat (rc_max_queued (de_runs e)) @ ch_dot @ ''reserved budget ''
           @ de_bytes e (sat_mul (rc_memory_budget_mb (de_runs e)) (1024 * 1024)) @ ch_dot @ ''live counts unavailable'')"

section \<open>The lists\<close>

definition overview_lines :: "runtime_snapshot \<Rightarrow> app \<Rightarrow> nat \<Rightarrow> string list" where
  "overview_lines snap a width =
    (let label_w = min (max (width - 7) 6) 18
     in map (\<lambda>o'. (if ol_section o' = ap_section a then utf8 [0xE2, 0x96, 0xB8] else '' '')
               @ pad_right label_w (cut_to label_w (ol_label o')) @ '' '' @ pad_left 4 (show_nat (unat (ol_count o'))))
          (overview snap (ap_runs a))
        @ (case ap_project a of Some p \<Rightarrow> [[], ''filter '' @ p] | None \<Rightarrow> []))"

definition session_cols :: "draw_env \<Rightarrow> nat \<Rightarrow> session_info \<Rightarrow> string" where
  "session_cols e nw s =
    cols (pad_name (si_agent s) [] nw) ''session''
      (case si_project s of Some p \<Rightarrow> short_path (de_home e) p | None \<Rightarrow> ch_dash) []
      (if si_active s then ''active'' else ''ended'') (fmt_age (de_now e) (si_started s)) (show_session_id (si_id s))"

definition volumes_cols :: "draw_env \<Rightarrow> string \<Rightarrow> u64 \<Rightarrow> int \<Rightarrow> string" where
  "volumes_cols e left bytes oldest =
    cols left ''volume'' ch_dash (de_bytes e bytes) [] ''unused'' (fmt_age (de_now e) (of_int (max oldest 0)))"

definition project_dir :: "draw_env \<Rightarrow> runtime_item \<Rightarrow> string" where
  "project_dir e i = (case ri_project i of Some p \<Rightarrow> short_path (de_home e) (pr_root p) | None \<Rightarrow> ch_dash)"

definition row_line :: "draw_env \<Rightarrow> runtime_snapshot \<Rightarrow> app \<Rightarrow> nat \<Rightarrow> nat \<Rightarrow> trow \<Rightarrow> string" where
  "row_line e snap a width k r =
    (let nw = name_width width in
     case r of
       RItem i depth lst owned \<Rightarrow> item_line e (sp_processes snap) a k nw i depth lst owned
     | RDocker d \<Rightarrow> docker_row_line e a k nw d
     | RDockerAgg n bytes oldest \<Rightarrow>
         volumes_cols e (pad_name ('' '' @ mark_of a k @ ch_hollow @ '' anonymous volumes '' @ ch_times @ show_nat (unat n)) [] nw)
           bytes oldest
     | RPort p i \<Rightarrow> cols (pad_name ('' :'' @ show_nat (unat (lp_port p))) [] nw) (item_title i) (project_dir e i) [] [] [] []
     | RProject name ram kids \<Rightarrow>
         cols (pad_name name [] nw) ''project'' (show_nat kids @ '' items'') (de_bytes e ram) [] [] []
     | RSession s \<Rightarrow> session_cols e nw s
     | RRun j \<Rightarrow> (case nth_opt (ap_runs a) j of Some v \<Rightarrow> run_line a k width v | None \<Rightarrow> '' run gone''))"

definition runtime_lines :: "draw_env \<Rightarrow> runtime_snapshot \<Rightarrow> app \<Rightarrow> trow list \<Rightarrow> nat \<Rightarrow> string list" where
  "runtime_lines e snap a rs width =
    (if rs = [] then
       [if ap_section a = SecRuns then
          (case ap_runs_error a of
             Some x \<Rightarrow> '' run store unavailable: '' @ de_error e x
           | None \<Rightarrow> if ap_runs a = [] \<and> ap_query a = [] then '' no runs'' else '' no matching runs'')
        else if sp_processes snap = [] then '' scanning'' @ utf8 [0xE2, 0x80, 0xA6] else '' no matching items'']
     else map (\<lambda>(k, r). row_line e snap a width k r) (enumerate 0 rs))"

definition head_lines :: "draw_env \<Rightarrow> app \<Rightarrow> nat \<Rightarrow> string list" where
  "head_lines e a width =
    (if ap_section a = SecRuns then [capacity_line e width (ap_capacity a), run_col_header] else [col_header width])"

section \<open>The window title and the hints\<close>

definition title_tag :: "sect \<Rightarrow> string option" where
  "title_tag s =
    (case s of
       SecCategory Agent \<Rightarrow> Some ''agents'' | SecCategory Mcp \<Rightarrow> Some ''mcp'' | SecCategory Browser \<Rightarrow> Some ''browsers''
     | SecCategory DevServer \<Rightarrow> Some ''srv'' | SecCategory Database \<Rightarrow> Some ''db''
     | SecCategory LanguageServer \<Rightarrow> Some ''lsp'' | SecCategory Worker \<Rightarrow> Some ''wk'' | SecDocker \<Rightarrow> Some ''docker''
     | SecLeftovers \<Rightarrow> Some ''left'' | SecRuns \<Rightarrow> Some ''runs'' | _ \<Rightarrow> None)"

definition window_title :: "runtime_snapshot \<Rightarrow> run_view list \<Rightarrow> string" where
  "window_title snap runs =
    join_with ch_dot
      (''wyd'' # List.map_filter (\<lambda>o'. if ol_count o' = 0 then None
          else map_option (\<lambda>tag. show_nat (unat (ol_count o')) @ '' '' @ tag) (title_tag (ol_section o')))
        (overview snap runs))"

definition row_hints :: "keys_config \<Rightarrow> trow option \<Rightarrow> string list" where
  "row_hints ks r =
    (case r of
       Some (RItem i d l u) \<Rightarrow> [k_kill ks @ '' kill'', k_force_kill ks @ '' force'']
     | Some (RDocker x) \<Rightarrow>
         (let clean = k_clean ks @ (if d_kind x = Volume then '' clean(D)'' else '' clean'')
          in if docker_running x then [k_stop ks @ '' stop'', clean] else [clean])
     | Some (RDockerAgg n b o') \<Rightarrow> [k_prune ks @ '' prune'']
     | _ \<Rightarrow> [])"

definition list_hints :: "string list" where
  "list_hints = [utf8 [0xE2, 0x86, 0x90, 0xE2, 0x86, 0x92] @ '' pane'', utf8 [0xE2, 0x86, 0x91, 0xE2, 0x86, 0x93] @ '' move'',
     ''space mark'', ''enter'', ''/ filter'', ''p projects'', ''? help'', ''q quit'']"

text \<open>Which of the two keys of the Docker dialog do something.\<close>

definition any_persistent :: "app \<Rightarrow> bool" where "any_persistent a \<longleftrightarrow> list_ex d_persistent (ap_frozen_docker a)"
definition any_plain :: "app \<Rightarrow> bool" where "any_plain a \<longleftrightarrow> list_ex (\<lambda>r. \<not> d_persistent r) (ap_frozen_docker a)"

definition hint :: "draw_env \<Rightarrow> runtime_snapshot \<Rightarrow> app \<Rightarrow> string" where
  "hint e snap a =
    (case ap_mode a of
       List \<Rightarrow>
         if ap_filtering a \<or> ap_query a \<noteq> [] then
           '' /'' @ ap_query a @ (if ap_filtering a then utf8 [0xE2, 0x96, 0x88] else []) @ ''   enter apply  esc clear''
         else
           '' '' @ join_with ''  ''
             (row_hints (de_keys e) (nth_opt (app_rows snap a) (ap_selected a)) @ list_hints
              @ (if ap_section a = SecDocker \<and> fst (prunable_stats (sp_docker snap)) > 0
                 then [k_prune (de_keys e) @ '' prune''] else []))
     | Details \<Rightarrow>
         if ap_section a = SecRuns then '' j/k scroll  esc back''
         else '' j/k scroll  o try HTTP  '' @ k_kill (de_keys e) @ '' kill  esc back''
     | Help \<Rightarrow> '' esc back''
     | ConfirmKill force \<Rightarrow> if force then '' y force kill  n/esc cancel'' else '' y terminate  n/esc cancel''
     | ConfirmPrune \<Rightarrow> '' y prune  n/esc cancel''
     | ConfirmDocker \<Rightarrow>
         (if any_plain a then '' y remove '' else []) @ (if any_persistent a then '' D delete volume '' else [])
         @ '' n/esc cancel'')"

section \<open>Dialogs\<close>

definition confirm_lines :: "app \<Rightarrow> bool \<Rightarrow> string list" where
  "confirm_lines a force =
    (let n = length (ap_frozen a) in
     [[], '' '' @ ap_frozen_title a @ '' '',
      '' '' @ show_nat n @ '' process'' @ (if n = 1 then [] else ''es'') @ ch_dot @ ''PID + start time rechecked'',
      '' pids '' @ join_with '' '' (map (\<lambda>x. show_nat (unat (id_pid x))) (ap_frozen a)), [],
      '' y '' @ (if force then ''force kill'' else ''terminate'') @ '' '' @ ch_dot @ '' n/esc cancel'', []])"

definition prune_lines :: "draw_env \<Rightarrow> runtime_snapshot \<Rightarrow> string list" where
  "prune_lines e snap =
    (let (n, bytes) = prunable_stats (sp_docker snap) in
     [[], '' Prune anonymous volumes'', '' '' @ show_nat n @ '' volumes'' @ ch_dot @ de_bytes e bytes,
      '' named volumes & data are kept'', [], '' y prune '' @ ch_dot @ '' n/esc cancel'', []])"

definition docker_keys_shown :: "app \<Rightarrow> string list" where
  "docker_keys_shown a =
    (if any_plain a then [''y remove''] else []) @ (if any_persistent a then [''D delete volume''] else []) @ [''n/esc cancel'']"

definition docker_confirm_lines :: "app \<Rightarrow> string list" where
  "docker_confirm_lines a =
    (let rs = ap_frozen_docker a; n = length rs in
     if rs = [] then ['' no docker target'']
     else
       [[], '' Remove '' @ show_nat n @ '' resource'' @ (if n = 1 then [] else ''s'') @ ''?'',
        '' '' @ join_with ch_dot (map (\<lambda>r. cut_to 24 (d_name r)) rs)]
       @ (if any_persistent a then ['' PERSISTENT DATA '' @ ch_dash @ '' D required''] else [])
       @ [[], '' '' @ join_with ('' '' @ ch_dot @ '' '') (docker_keys_shown a) @ '' '', []])"

definition help_lines :: "keys_config \<Rightarrow> string list" where
  "help_lines k =
    [''wyd'', [],
     utf8 [0xE2, 0x86, 0x90] @ '' '' @ ch_arrow @ '' / h l    overview / runtime'',
     utf8 [0xE2, 0x86, 0x91, 0xE2, 0x86, 0x93] @ '' / j k     move selection'',
     ''Tab          focus overview / list'', ''backspace    go back (never quits)'', ''space        mark / unmark'',
     ''/            filter list'', ''p            projects; enter pins a project filter'',
     ''enter        details (or open overview section)'', [],
     k_kill k @ '' / '' @ k_force_kill k @ ''       terminate / force kill (y confirms)'',
     k_stop k @ ''            stop running docker container'', k_clean k @ ''            clean docker (volumes need D)'',
     k_prune k @ ''            prune anonymous volumes'',
     ''o            open selected listener as HTTP (an assumption)'', k_refresh k @ ''            refresh'',
     k_help k @ ''            this help'', k_quit k @ ''            quit'',
     ''y            confirm terminate / docker remove / prune'', ''D            confirm volume delete'', [],
     ''Keys: ~/.config/wyd/config.toml  [keys]'']"

end
