(* ===== verification/Tui_Details.thy ===== *)
theory Tui_Details
  imports Tui_Draw
begin

text \<open>
  The details popup of the terminal interface (\<open>src/tui/draw.rs\<close>): what is written about an item, a run, a
  Docker resource and the other rows.
\<close>

section \<open>Lines\<close>

definition DETAIL_LABEL_W :: nat where "DETAIL_LABEL_W = 12"

definition detail_row :: "string \<Rightarrow> string \<Rightarrow> string" where
  "detail_row label value = pad_right DETAIL_LABEL_W (cut_to DETAIL_LABEL_W label) @ value"

definition detail_indent :: "string \<Rightarrow> string" where
  "detail_indent value = replicate DETAIL_LABEL_W (CHR '' '') @ value"

definition fact_row :: "string \<Rightarrow> string \<Rightarrow> nat \<Rightarrow> string" where
  "fact_row label value nw = cols (pad_name label [] nw) [] value [] [] [] []"

definition show_pid :: "pid \<Rightarrow> string" where "show_pid k = show_nat (unat k)"

text \<open>A socket of another process of the item is called out.\<close>

definition listener_line :: "draw_env \<Rightarrow> pid option \<Rightarrow> listening_port \<Rightarrow> string" where
  "listener_line e root p =
    detail_indent
      (pad_right 7 ('':'' @ show_nat (unat (lp_port p))) @ '' '' @ pad_right 16 (de_addr e (lp_address p)) @ '' ''
       @ pad_right 4 (protocol_as_str (lp_protocol p)) @ '' pid '' @ show_pid (lp_pid p)
       @ (if root \<noteq> None \<and> root \<noteq> Some (lp_pid p) then '' (other)'' else []))"

section \<open>An item\<close>

definition suspicion_lines :: "draw_env \<Rightarrow> suspicion option \<Rightarrow> string list" where
  "suspicion_lines e su =
    (case su of
       None \<Rightarrow> []
     | Some x \<Rightarrow>
         [''score'', detail_indent (show_nat (unat (sus_score x)) @ '' / 100''), ''why'']
         @ map (\<lambda>r. detail_indent (reason_as_str r)) (sus_reasons x) @ [''meaning'']
         @ map (\<lambda>r. detail_indent (de_meaning e r)) (sus_reasons x) @ [[]])"

definition process_lines :: "draw_env \<Rightarrow> process_info option \<Rightarrow> string list" where
  "process_lines e proc =
    (case proc of
       None \<Rightarrow> []
     | Some p \<Rightarrow>
         [''process'', detail_row ''pid'' (show_pid (p_pid p)),
          detail_row ''ppid'' (case p_parent p of Some k \<Rightarrow> show_pid k | None \<Rightarrow> ch_dash)]
         @ (case p_cwd p of Some d \<Rightarrow> [detail_row ''cwd'' (short_path (de_home e) d)] | None \<Rightarrow> [])
         @ (if p_command p = [] then [] else [detail_row ''cmd'' (join_with '' '' (p_command p))])
         @ (case p_tty p of Some t \<Rightarrow> [detail_row ''tty'' t] | None \<Rightarrow> []) @ [[]])"

definition socket_lines :: "draw_env \<Rightarrow> runtime_item \<Rightarrow> string list" where
  "socket_lines e i =
    (if ri_ports i = [] then []
     else [''listening sockets   '' @ show_nat (length (ri_ports i)) @ '' TCP'']
       @ map (listener_line e (ri_root i)) (sort_key (\<lambda>p. (lp_port p, lp_pid p)) (ri_ports i)) @ [[]])"

definition item_details :: "draw_env \<Rightarrow> runtime_snapshot \<Rightarrow> runtime_item \<Rightarrow> string list" where
  "item_details e snap i =
    (let ps = sp_processes snap in
     [(if ri_state i = Suspicious then ch_warn else ''  '') @ '' '' @ ri_display i @ ''   '' @ role i @ ''   ''
        @ de_bytes e (ri_memory i) @ ''   '' @ item_age e ps i, [], ''verdict'', detail_indent (verdict i)]
     @ suspicion_lines e (ri_suspicion i) @ process_lines e (Option.bind (ri_root i) (by_pid ps)) @ socket_lines e i
     @ (case ri_project i of Some p \<Rightarrow> [detail_row ''project'' (short_path (de_home e) (pr_root p))] | None \<Rightarrow> [])
     @ (if length (ri_pids i) > 1 then [detail_row ''procs'' (join_with '' '' (map show_pid (ri_pids i)))] else [])
     @ (if ri_children i = [] then [] else [detail_row ''children'' (join_with '', '' (map ri_display (ri_children i)))]))"

section \<open>A run\<close>

definition enforcement_str :: "enforcement \<Rightarrow> string" where
  "enforcement_str x = (case x of EnfNone \<Rightarrow> ''none'' | Monitored \<Rightarrow> ''monitored'' | Hard \<Rightarrow> ''hard'')"

definition opt_part :: "('a \<Rightarrow> string) \<Rightarrow> 'a option \<Rightarrow> string list" where
  "opt_part f x = (case x of Some y \<Rightarrow> [f y] | None \<Rightarrow> [])"

definition requested_text :: "draw_env \<Rightarrow> resource_request \<Rightarrow> string" where
  "requested_text e r =
    join_with ch_dot
      ([''enforce '' @ enforcement_str (rr_enforcement r)] @ opt_part (\<lambda>b. ''mem '' @ de_bytes e b) (rr_memory r)
       @ opt_part (\<lambda>c. ''cpu '' @ show_nat (unat c) @ ''m'') (rr_cpu r)
       @ opt_part (\<lambda>p. ''procs '' @ show_nat (unat p)) (rr_processes r)
       @ opt_part (\<lambda>t. ''queue wait '' @ ch_most @ fmt_dur (as_secs t * 1000)) (rr_queue_timeout r))"

definition effective_text :: "draw_env \<Rightarrow> effective_limits \<Rightarrow> string" where
  "effective_text e l =
    join_with ch_dot
      ([''enforce '' @ enforcement_str (ef_enforcement l)] @ opt_part (\<lambda>b. ''mem '' @ de_bytes e b) (ef_memory l)
       @ (if ef_backend l = [] then [] else [''backend '' @ ef_backend l]))"

definition opt_bytes :: "draw_env \<Rightarrow> u64 option \<Rightarrow> string" where
  "opt_bytes e b = (case b of Some n \<Rightarrow> de_bytes e n | None \<Rightarrow> ''none'')"

definition effective_diff :: "draw_env \<Rightarrow> resource_request \<Rightarrow> effective_limits \<Rightarrow> string option" where
  "effective_diff e r l =
    (let parts =
       (if rr_memory r \<noteq> ef_memory l
        then [''memory '' @ opt_bytes e (rr_memory r) @ '' '' @ ch_arrow @ '' '' @ opt_bytes e (ef_memory l)] else [])
       @ (if rr_enforcement r \<noteq> ef_enforcement l
          then [''enforcement '' @ enforcement_str (rr_enforcement r) @ '' '' @ ch_arrow @ '' '' @ enforcement_str (ef_enforcement l)]
          else [])
     in if parts = [] then None else Some (join_with ch_dot parts))"

definition observed_text :: "draw_env \<Rightarrow> run_view \<Rightarrow> string" where
  "observed_text e v =
    join_with ch_dot (opt_part (\<lambda>b. de_bytes e b @ '' mem'') (v_observed_memory v)
      @ opt_part (\<lambda>p. show_nat p @ '' procs'') (v_observed_processes v))
    @ '' '' @ ch_dash @ '' observation, not a limit''"

definition capability_line :: "string \<Rightarrow> capability \<Rightarrow> string" where
  "capability_line label c =
    detail_row label
      (case c of Available \<Rightarrow> ''available'' | CapMonitored m \<Rightarrow> ''monitored '' @ ch_dash @ '' '' @ m
       | Unavailable m \<Rightarrow> ''unavailable '' @ ch_dash @ '' '' @ m)"

definition log_line :: "draw_env \<Rightarrow> string \<Rightarrow> u64 \<Rightarrow> bool \<Rightarrow> string" where
  "log_line e name bytes flag =
    pad_right 7 name @ '' '' @ de_bytes e bytes @ '' ('' @ show_nat (unat bytes) @ '' bytes)''
    @ (if flag then ''  truncated'' else [])"

definition event_line :: "run_event \<Rightarrow> string" where
  "event_line v =
    (case re_detail v of
       Some x \<Rightarrow> pad_left 4 (show_int (re_revision v)) @ ''  '' @ pad_right 12 (re_kind v) @ '' '' @ x
     | None \<Rightarrow> pad_left 4 (show_int (re_revision v)) @ ''  '' @ re_kind v)"

text \<open>The record is loaded beside the list and counts only if it is of this run.\<close>

definition own_detail :: "run_view \<Rightarrow> run_detail option \<Rightarrow> run_detail option" where
  "own_detail v d = (case d of Some x \<Rightarrow> if show_run_id (rec_id (rd_record x)) = v_run_id v then Some x else None | None \<Rightarrow> None)"

definition opt_int :: "int option \<Rightarrow> string" where
  "opt_int x = (case x of Some i \<Rightarrow> show_int i | None \<Rightarrow> ch_dash)"

definition run_fields :: "draw_env \<Rightarrow> run_view \<Rightarrow> run_detail option \<Rightarrow> string list" where
  "run_fields e v d =
    [''#'' @ v_run_id v @ ''  '' @ state_as_str (v_state v) @ ''  '' @ outcome_text v, [], ''run'',
     detail_row ''command'' (join_with '' '' (v_argv v)), detail_row ''cwd'' (v_cwd v),
     detail_row ''project'' (or_default ch_dash (v_project_root v)),
     detail_row ''session'' (or_default ch_dash (v_session_id v)), detail_row ''state'' (state_as_str (v_state v)),
     detail_row ''outcome'' (outcome_text v), detail_row ''exit code'' (opt_int (v_exit_code v)),
     detail_row ''signal'' (opt_int (v_signal v)),
     detail_row ''timeout'' (opt_dur (map_option (\<lambda>x. as_secs (timeout (rec_spec (rd_record x))) * 1000) d)),
     detail_row ''duration'' (opt_dur (v_duration_ms v)), detail_row ''cleanup'' (cleanup_as_str (v_cleanup v)),
     detail_row ''supervisor'' (or_default ch_dash (v_supervisor v)), [], ''resources'',
     detail_row ''requested'' (requested_text e (v_requested v)), detail_row ''effective'' (effective_text e (v_effective v))]"

definition run_resource_lines :: "draw_env \<Rightarrow> run_view \<Rightarrow> string list" where
  "run_resource_lines e v =
    opt_part (detail_row ''differs'') (effective_diff e (v_requested v) (v_effective v))
    @ opt_part (\<lambda>b. detail_row ''reserved'' (de_bytes e b @ '' admission budget '' @ ch_dash @ '' reservation, not measured memory''))
        (case rr_memory (v_requested v) of Some b \<Rightarrow> Some b | None \<Rightarrow> ef_memory (v_effective v))
    @ opt_part (detail_row ''metric'') (ef_metric (v_effective v))
    @ (if v_observed_memory v \<noteq> None \<or> v_observed_processes v \<noteq> None then [detail_row ''observed'' (observed_text e v)] else [])
    @ [capability_line ''memory'' (cap_memory (v_capabilities v))]
    @ opt_part (detail_row ''limit event'') (v_limit_event v)"

definition run_details :: "draw_env \<Rightarrow> run_view option \<Rightarrow> run_detail option \<Rightarrow> string list" where
  "run_details e run loaded =
    (case run of
       None \<Rightarrow> ['' no run'']
     | Some v \<Rightarrow>
         (let d = own_detail v loaded in
          run_fields e v d @ run_resource_lines e v
          @ [[], ''logs'', detail_indent (log_line e ''stdout'' (stdout_bytes (v_logs v)) (stdout_truncated (v_logs v))),
             detail_indent (log_line e ''stderr'' (stderr_bytes (v_logs v)) (stderr_truncated (v_logs v)))]
          @ (case v_detail v of Some t \<Rightarrow> [[], ''detail'', detail_indent t] | None \<Rightarrow> []) @ [[]]
          @ (case d of
               Some x \<Rightarrow>
                 if rd_events x \<noteq> []
                 then (''events   '' @ show_nat (length (rd_events x))) # map (\<lambda>y. detail_indent (event_line y)) (rd_events x)
                 else [''events'', detail_indent (''loading'' @ utf8 [0xE2, 0x80, 0xA6])]
             | None \<Rightarrow> [''events'', detail_indent (''loading'' @ utf8 [0xE2, 0x80, 0xA6])])))"

section \<open>Other rows\<close>

definition docker_details :: "draw_env \<Rightarrow> nat \<Rightarrow> docker_resource \<Rightarrow> string list" where
  "docker_details e width r =
    (let nw = name_width width in
     [col_header width,
      cols (pad_name (d_name r) [] nw) (docker_kind_label (d_kind r)) (or_default ch_dash (d_compose r))
        (de_bytes e (d_size r)) [] (d_detail r) (fmt_age (de_now e) (of_int (max (d_created r) 0))),
      [], fact_row ''id'' (d_id r) nw]
     @ (if d_persistent r then [[], fact_row ''warn'' ''PERSISTENT DATA'' nw] else []))"

definition details_lines :: "draw_env \<Rightarrow> runtime_snapshot \<Rightarrow> app \<Rightarrow> nat \<Rightarrow> string list" where
  "details_lines e snap a width =
    (let nw = name_width width in
     case nth_opt (app_rows snap a) (ap_selected a) of
       Some (RItem i depth lst owned) \<Rightarrow> item_details e snap i
     | Some (RDocker r) \<Rightarrow> docker_details e width r
     | Some (RDockerAgg n bytes oldest) \<Rightarrow>
         [col_header width,
          volumes_cols e (pad_name (''anonymous volumes '' @ ch_times @ show_nat (unat n)) [] nw) bytes oldest, [],
          fact_row ''safe'' (''prune with P '' @ ch_dash @ '' named volumes kept'') nw]
         @ (if oldest > 0 then [fact_row ''oldest'' (fmt_age (de_now e) (of_int oldest)) nw] else [])
     | Some (RPort p i) \<Rightarrow>
         [col_header width,
          cols (pad_name ('':'' @ show_nat (unat (lp_port p))) [] nw) (ri_display i) (project_dir e i) [] [] [] [], [],
          fact_row ''pid'' (show_pid (lp_pid p)) nw,
          fact_row ''addr'' (de_addr e (lp_address p) @ '':'' @ show_nat (unat (lp_port p))) nw]
     | Some (RProject name ram kids) \<Rightarrow>
         [col_header width, cols (pad_name name [] nw) ''project'' [] (de_bytes e ram) [] [] [], [],
          fact_row ''items'' (show_nat kids) nw]
     | Some (RSession s) \<Rightarrow>
         [session_cols e nw s, [], fact_row ''started'' (fmt_age (de_now e) (si_started s)) nw,
          fact_row ''state'' (if si_active s then ''active'' else ''ended'') nw]
         @ opt_part (\<lambda>p. fact_row ''project'' p nw) (si_project s)
     | Some (RRun k) \<Rightarrow> run_details e (nth_opt (ap_runs a) k) (ap_run_detail a)
     | None \<Rightarrow> ['' no item''])"

section \<open>One drawing\<close>

text \<open>The popup, if there is one: its title and its lines.\<close>

definition popup_of :: "draw_env \<Rightarrow> runtime_snapshot \<Rightarrow> app \<Rightarrow> nat \<Rightarrow> (string \<times> string list) option" where
  "popup_of e snap a width =
    (case ap_mode a of
       Details \<Rightarrow> Some (''details'', details_lines e snap a width)
     | ConfirmKill force \<Rightarrow> Some (if force then ''force kill'' else ''terminate'', confirm_lines a force)
     | ConfirmDocker \<Rightarrow> Some (''docker'', docker_confirm_lines a)
     | ConfirmPrune \<Rightarrow> Some (''volume prune'', prune_lines e snap)
     | _ \<Rightarrow> None)"

end
