(* ===== verification/Tui_Draw_Props.thy ===== *)
theory Tui_Draw_Props
  imports Tui_Details Tui_Props
begin

text \<open>
  What the user sees: the popup lies on the screen, the name column has its width, the dialogs name what
  will be signalled and which keys do something.
\<close>

section \<open>The popup\<close>

text \<open>On a terminal of any size the details popup lies inside the area it is given, at least one cell in
  size; it leaves a margin at the sides from 26 columns on, and above and below from 20 lines on.\<close>

theorem popup_inside:
  assumes "0 < re_w a" "0 < re_h a" "unat (re_x a) + unat (re_w a) < 2 ^ 16" "unat (re_y a) + unat (re_h a) < 2 ^ 16"
  defines "p \<equiv> details_rect a"
  shows "re_x a \<le> re_x p \<and> unat (re_x p) + unat (re_w p) \<le> unat (re_x a) + unat (re_w a)
    \<and> re_y a \<le> re_y p \<and> unat (re_y p) + unat (re_h p) \<le> unat (re_y a) + unat (re_h a)
    \<and> 0 < re_w p \<and> 0 < re_h p
    \<and> (26 \<le> unat (re_w a) \<longrightarrow> re_w p < re_w a) \<and> (20 \<le> unat (re_h a) \<longrightarrow> re_h p < re_h a)"
proof -
  define w where "w = unat (re_w a)"
  define h where "h = unat (re_h a)"
  define pw where "pw = min (max (w - 2 * x_margin w) 24) w"
  define ph where "ph = min (max (h - 2 * y_margin h) 8) h"
  have pos: "0 < w" "0 < h" using assms(1,2) by (simp_all add: w_def h_def word_less_nat_alt)
  then have m: "max w 1 = w" "max h 1 = h" by auto
  have p: "p = \<lparr>re_x = re_x a + of_nat ((w - pw) div 2), re_y = re_y a + of_nat ((h - ph) div 2), re_w = of_nat pw, re_h = of_nat ph\<rparr>"
    unfolding p_def details_rect_def Let_def pw_def ph_def w_def[symmetric] h_def[symmetric] m by (rule refl)
  have le: "pw \<le> w" "ph \<le> h" "0 < pw" "0 < ph" using pos by (auto simp: pw_def ph_def)
  have sizes: "unat (re_w p) = pw" "unat (re_h p) = ph"
    using le assms(3,4) by (simp_all add: p unat_of_nat w_def h_def)
  have at: "unat (re_x p) = unat (re_x a) + (w - pw) div 2" "unat (re_y p) = unat (re_y a) + (h - ph) div 2"
    using assms(3,4) by (simp_all add: p unat_word_ariths unat_of_nat w_def h_def)
  have "26 \<le> w \<Longrightarrow> pw < w" "20 \<le> h \<Longrightarrow> ph < h"
    by (auto simp: pw_def ph_def x_margin_def y_margin_def)
  then show ?thesis using le sizes at
    by (auto simp: word_le_nat_alt word_less_nat_alt simp flip: w_def h_def)
qed

theorem popup_inside_witness:
  "re_w (details_rect \<lparr>re_x = 1, re_y = 1, re_w = 100, re_h = 30\<rparr>) < 100
    \<and> re_h (details_rect \<lparr>re_x = 1, re_y = 1, re_w = 100, re_h = 30\<rparr>) < 30"
  using popup_inside[of "\<lparr>re_x = 1, re_y = 1, re_w = 100, re_h = 30\<rparr>"] by simp

section \<open>The name column\<close>

lemma char_count_append [simp]: "char_count (s @ t) = char_count s + char_count t"
  by (simp add: char_count_def)

lemma char_count_blank [simp]: "char_count (replicate n (CHR '' '')) = n"
  by (simp add: char_count_def is_cont_def)

lemma char_count_take: "char_count (take_chars n s) = min n (char_count s)"
  by (induction n s rule: take_chars.induct) (auto simp: char_count_def split: nat.splits)

lemma char_count_pad [simp]: "char_count (pad_right n s) = max n (char_count s)"
  by (simp add: pad_right_def)

lemma char_count_cut:
  assumes "0 < n" "n < 2 ^ 64"
  shows "char_count (cut_to n s) \<le> n"
proof -
  have "of_nat n - 1 = (of_nat (n - 1) :: u64)" using assms(1) by (simp add: of_nat_diff)
  moreover have "n - 1 < 2 ^ 64" using assms(2) by simp
  ultimately have u: "unat (of_nat n :: u64) = n" "unat (of_nat n - 1 :: u64) = n - 1"
    using assms(2) by (simp_all add: unat_of_nat del: of_nat_diff)
  have "char_count (utf8 [0xe2, 0x80, 0xa6]) = 1" by (simp add: char_count_def is_cont_def utf8_def)
  then show ?thesis using assms(1) by (simp add: cut_to_def truncate_to_def u char_count_take)
qed

text \<open>The name is cut or filled to the width of its column.\<close>

lemma pad_name_width:
  assumes "0 < nw" "nw < 2 ^ 64"
  shows "char_count (pad_name title extra nw) = nw"
proof -
  define b where "b = max (if char_count extra > 0 \<and> char_count extra < nw then nw - char_count extra else nw) 1"
  have "0 < b" "b \<le> nw" "b < 2 ^ 64" using assms by (auto simp: b_def)
  then have c: "char_count (cut_to b title) \<le> nw" using char_count_cut[of b title] by simp
  show ?thesis unfolding pad_name_def Let_def b_def[symmetric] using c by auto
qed

section \<open>The dialogs\<close>

lemma split_joined:
  "list_all (\<lambda>w. no_space w \<and> w \<noteq> []) ws \<Longrightarrow> split_whitespace (join_with '' '' ws) = ws"
proof (induction ws)
  case (Cons w ws)
  then show ?case by (cases ws) (simp_all add: split_whitespace_one)
qed (simp add: split_whitespace_def)

lemma kill_dialog_words:
  "split_whitespace (confirm_lines a force ! 3) = ''pids'' # map (\<lambda>x. show_nat (unat (id_pid x))) (ap_frozen a)"
proof -
  have "split_whitespace ('' pids '' @ s) = ''pids'' # split_whitespace s" for s
    using split_whitespace_word[of "''pids''" s] by (simp add: is_space_def)
  moreover have "list_all (\<lambda>w. no_space w \<and> w \<noteq> []) (map (\<lambda>x. show_nat (unat (id_pid x))) (ap_frozen a))"
    by (simp add: list_all_iff show_nat_digits)
  ultimately show ?thesis using split_joined by (simp add: confirm_lines_def Let_def)
qed

text \<open>Every process a key in the kill dialog signals is named by its number in the dialog, and the signal is
  the one the dialog names.\<close>

theorem kill_dialog_names:
  assumes "TuiSignal k sg \<in> set (snd (snd (kill_key w force c a)))"
  shows "show_nat (unat k) \<in> set (split_whitespace (confirm_lines a force ! 3))
    \<and> confirm_lines a force ! 5 = '' y '' @ (if sg = Kill then ''force kill'' else ''terminate'') @ '' '' @ ch_dot @ '' n/esc cancel''"
proof -
  have k: "k \<in> set (snd (send (tw_live w) (tw_kill w) (ap_frozen a)))" "sg = (if force then Kill else Term)"
    using assms by (auto simp: kill_key_def stay_def Let_def split: if_splits)
  then have "show_nat (unat k) \<in> set (map (\<lambda>x. show_nat (unat (id_pid x))) (ap_frozen a))"
    by (auto simp: send_sent)
  then show ?thesis using k(2) unfolding kill_dialog_words by (simp add: confirm_lines_def Let_def)
qed

text \<open>The Docker dialog offers exactly the keys that do something.\<close>

lemma docker_dialog_keys:
  "docker_key w (typed (CHR ''y'')) a \<noteq> stay a \<longleftrightarrow> ''y remove'' \<in> set (docker_keys_shown a)"
  "docker_key w (typed (CHR ''D'')) a \<noteq> stay a \<longleftrightarrow> ''D delete volume'' \<in> set (docker_keys_shown a)"
  by (auto simp: docker_key_def remove_targets_def stay_def refused_def typed_def docker_keys_shown_def any_plain_def
      any_persistent_def filter_empty_conv list_ex_iff)

section \<open>Details\<close>

text \<open>Of the limits that differ only memory and enforcement are named.\<close>

lemma effective_diff_partial:
  "rr_memory r = ef_memory l \<Longrightarrow> rr_enforcement r = ef_enforcement l \<Longrightarrow> effective_diff e r l = None"
  by (simp add: effective_diff_def)

text \<open>If the ancestors of the first process end without a directory, the other processes are not asked.\<close>

lemma pwd_first_decides: "pwd_climb ps 64 k = Some None \<Longrightarrow> pwd_along ps (k # ks) = None"
  by simp

end
