(* ===== verification/Spec2Isabelle.thy ===== *)
theory Spec2Isabelle
  imports Scheduler_Props Run_Store_Props Logs Config Recovery Views
    Actions Source Web_Props Tui_Props Calendar Barman_Props Cgroup_Props Platform Cli_Props Cli_Text
    Mcp_Props Serve Tui_Draw_Props
begin

text \<open>
  Verification of wyd, a developer-runtime inspector whose supervisor runs commands for coding
  agents: it admits, starts, watches, stops, records and recovers them.

  \<^bold>\<open>The program and its theories.\<close>

  \<^item> \<open>src/model\<close>: the observed machine (\<open>Proc_Model\<close>: boots, processes, identities, sessions,
    ports, runtime items, Docker resources) and the contract of a managed run (\<open>Run_Model\<close>:
    request, digest, lifecycle, result, resources, capacity report, wire forms).
  \<^item> \<open>src/runner/scheduler.rs\<close>: admission control (\<open>Scheduler\<close>; laws in
    \<open>Scheduler_Laws\<close>, properties in \<open>Scheduler_Props\<close>).
  \<^item> \<open>src/config.rs\<close>: configuration and the limits derived from it (\<open>Config\<close>).
  \<^item> \<open>src/store.rs\<close>, the run tables (\<open>Run_Store\<close>, \<open>Run_Store_Props\<close>): rows as the
    columns hold them, one function per SQL operation.
  \<^item> \<open>src/runner/logs.rs\<close>: bounded output capture and chunked reads (\<open>Logs\<close>).
  \<^item> \<open>src/platform/pgroup.rs\<close>: process groups over a process table (\<open>Pgroup\<close>).
  \<^item> \<open>src/runner/mod.rs\<close>: the supervisor.  \<open>Supervisor\<close> holds the slots, the registry,
    the scheduler and the store in one state, with starting, the queue tick, cancelling and finishing;
    \<open>Worker\<close> the phases of a run's worker thread, the stop algorithm, recovery and pruning;
    \<open>Views\<close> what clients see.

  \<^item> \<open>src/classify/ownership\<close>: the resolver with its rule table and the exact ownership below an agent
    (\<open>Ownership\<close>); the ownership tables of \<open>src/store.rs\<close> (\<open>Ownership_Store\<close>, its reachable states in
    \<open>Ownership_Reach\<close>, properties in \<open>Ownership_Store_Props\<close>).
  \<^item> \<open>src/classify\<close>: signatures (\<open>Rules\<close>), grouping (\<open>Group\<close>, \<open>Group_Props\<close>), leftovers
    (\<open>Leftovers\<close>), projects and ports (\<open>Project\<close>).  \<open>src/collect.rs\<close>: snapshots and the ownership
    tracker (\<open>Collect\<close>).  \<open>src/actions\<close>: signalling an item (\<open>Actions\<close>).  \<open>src/source.rs\<close>:
    what started a process (\<open>Source\<close>).
  \<^item> \<open>src/server.rs\<close>, \<open>src/runner/client.rs\<close>: the local API and its client over JSON values
    (\<open>Json\<close>, \<open>Wire\<close>, \<open>Server\<close>, \<open>Server_Props\<close>) and the life of the process that serves it
    (\<open>Serve\<close>).  \<open>src/mcp.rs\<close>: the server for agents (\<open>Mcp\<close>, \<open>Mcp_Props\<close>).
  \<^item> \<open>src/web\<close>: requests and routes (\<open>Http\<close>), views and proposals (\<open>Web_Views\<close>), providers and
    handlers (\<open>Web\<close>, \<open>Web_Props\<close>).
  \<^item> \<open>src/tui\<close>: rows (\<open>Tui_Rows\<close>), state and handlers (\<open>Tui\<close>, \<open>Tui_Props\<close>), what is written
    (\<open>Tui_Draw\<close>, \<open>Tui_Details\<close>, \<open>Tui_Draw_Props\<close>).
  \<^item> \<open>src/barman.rs\<close>, \<open>src/scanner/docker.rs\<close>: dates (\<open>Calendar\<close>), the Docker scan
    (\<open>Docker_Scan\<close>), documents, plans and actions (\<open>Barman\<close>, \<open>Barman_Plans\<close>, \<open>Barman_Props\<close>).
  \<^item> \<open>src/platform/cgroup.rs\<close> and its use by the supervisor: \<open>Cgroup\<close>, \<open>Run_Cgroup\<close>,
    \<open>Cgroup_Props\<close>.  Terminals, boot ids and the scanners of processes and ports: \<open>Platform\<close>.
  \<^item> \<open>src/output.rs\<close>, \<open>src/ports.rs\<close>: the reports (\<open>Output\<close>).  \<open>src/main.rs\<close>: the commands
    (\<open>Cli\<close>, \<open>Cli_Text\<close>, \<open>Cli_Props\<close>).

  \<open>Prelude\<close> and \<open>Text\<close> hold what they share: durations in nanoseconds, saturating words,
    selection by key, decimal numbers, splitting and parsing.

  \<^bold>\<open>How the parts interact.\<close>  A start inserts a row, registers a slot and asks the scheduler.
  An admitted run gets a worker; a queued one waits until a finishing run releases its slot and the
  release returns its id, until its deadline passes at a queue tick, or until it is cancelled.  The
  worker moves the slot and the row through \<open>starting\<close>, \<open>running\<close>, \<open>stopping\<close> and
  finishes it, which releases the scheduler slot (holding the reservation back when the cleanup could
  not be confirmed) and starts whatever that admitted.

  A snapshot is scanned, grouped, given projects and ports and scored; the tracker writes what it finds to the
  ownership tables and marks what ended sessions left.  Every front end shows such a snapshot and acts on it:
  the terminal interface and the dashboard through \<open>Actions\<close> and the Docker engine, the menu-bar API through
  plans that are stored and taken once, agents and commands through the client of the local API, whose
  dispatcher calls the supervisor.  What \<open>setup_cgroup\<close> answers is what the worker takes as the control group
  of its run.

  The supervisor relies on the scheduler through the interface \<open>slot_pool\<close> of \<open>Pool\<close>
  (ids are active, waiting or unknown; what asking, releasing, withdrawing and expiring do to them),
  which \<open>Scheduler_Laws\<close> interprets on the scheduler's operations.  The result column of a
  run is a \<open>write_once\<close> cell (\<open>Latch\<close>), interpreted on \<open>run_finish\<close>.

  \<^bold>\<open>What the lemmas show.\<close>  \<open>Supervisor_Laws\<close> states the invariant: the scheduler's
  books are the live workers and the queued slots, what is not registered has finished, and every slot
  agrees with its row.  \<open>Supervisor_Inv\<close>, \<open>Supervisor_Steps\<close> and
  \<open>Supervisor_Reach\<close> show that each operation keeps it, up to the step relation
  \<open>sv_step\<close> and its reachable states; \<open>Supervisor_Props\<close>, \<open>Supervisor_Life\<close>
  and \<open>Recovery\<close> draw the properties.

  The other properties follow the same plan: the laws of one component beside its definitions, what spans
  components in the theories named \<open>_Props\<close>.  They show that attribution is the clear best candidate and
  ownership exact, that garbage collection and recording keep the origins of living processes, that each front
  end signals, removes or cancels only what was confirmed, proposed or planned, that a call through the messages
  is the call on the supervisor, that an agent without leave to run changes nothing, that hard limits are written
  and reported exactly - and, as plainly, where the code falls short: a monitored memory limit is never watched
  where there are control groups, the run command copies the first 64 KiB of each stream only, and a
  supervisor started on demand never leaves by itself.

  \<^bold>\<open>Concurrency.\<close>  Each supervisor operation is one atomic step; the worker is split where
  other threads can act in between (\<open>phase\<close>), and \<open>sv_step\<close> interleaves the steps of all
  runs and clients.  Races inside one operation are not modelled.

  \<^bold>\<open>Parameters.\<close>  The hash of a request (blake3) is a function argument about which nothing is
  assumed.  The clocks, the process table, spawned pids, exit statuses, whether a database write or the
  creation of a thread succeeds (\<open>ctx\<close>), file contents and resolved paths are arguments of the
  step that observes them.  The reachable states are those of a supervisor whose database writes and
  thread creations succeed (\<open>good_ctx\<close>); what a failing write does is a property of its own.

  The file system, the kernel's control groups and the Docker engine are records of functions or arguments; so
  are JSON and TOML text, the order of rows a query does not order, the order in which a hash map is visited,
  the hash of an item, a new token, and sizes and CPU figures in floating point.  Text is its UTF-8 bytes.

  \<^bold>\<open>Bounds and termination.\<close>  Machine integers are words and wrap or saturate as the code does.
  The loop of \<open>release\<close> ends because the queue gets shorter; waiting loops are lists of polls, the
  monitoring loop a list of turns with \<open>None\<close> for not having left it.  Grouping climbs at most as many
  steps as there are processes, which acyclic parents do not exceed; the walk that orders signals has one step
  for each seed and one more; polling a run, copying its output and following its log are lists of answers, with
  \<open>None\<close> when they do not suffice, and the property on logs says how many do.

  \<^bold>\<open>Not modelled.\<close>  Input and output themselves (sockets, threads and their locks, SQLite, files, system
  calls, signals, the hooks between fork and exec, package managers), argument parsing, colours and layout of
  the terminal, the data of the demo (an argument), the change trace of the store (a debugging aid), the web
  assets, and floating-point figures.
\<close>

end
